(* ===== verification/Telemetry_Types.thy ===== *)
theory Telemetry_Types
  imports Prelude
begin

text \<open>
  The crate root \<open>src/lib.rs\<close> and the enums that \<open>define_telemetry_schema!\<close> generates
  (\<open>sedsprintf_macros/src/lib.rs\<close>): the rich error type and its numeric codes, the schema
  metadata, and the conversions between raw discriminants and enum values. The generated enum
  lists the variants of the JSON schema first and the built-in ones after them, so a variant of
  the JSON schema is its position there. The features \<open>timesync\<close> and \<open>discovery\<close> are on,
  as in the default and in the embedded build.
\<close>

section \<open>Errors\<close>

datatype telemetry_error =
    GenericError "bytes option"
  | InvalidType
  | SizeMismatch nat nat
  | SizeMismatchError
  | EmptyEndpoints
  | TimestampInvalid
  | MissingPayload
  | HandlerError string
  | BadArg
  | Serialize string
  | Deserialize string
  | Io string
  | InvalidUtf8
  | TypeMismatch nat nat
  | InvalidLinkId string
  | PacketTooLarge string

type_synonym 'a telemetry_result = "(telemetry_error, 'a) outcome"

datatype telemetry_error_code =
    Code_GenericError
  | Code_InvalidType
  | Code_SizeMismatch
  | Code_SizeMismatchError
  | Code_EmptyEndpoints
  | Code_TimestampInvalid
  | Code_MissingPayload
  | Code_HandlerError
  | Code_BadArg
  | Code_Serialize
  | Code_Deserialize
  | Code_Io
  | Code_InvalidUtf8
  | Code_TypeMismatch
  | Code_InvalidLinkId
  | Code_PacketTooLarge

fun to_error_code :: "telemetry_error \<Rightarrow> telemetry_error_code" where
  "to_error_code (GenericError _) = Code_GenericError"
| "to_error_code InvalidType = Code_InvalidType"
| "to_error_code (SizeMismatch _ _) = Code_SizeMismatch"
| "to_error_code SizeMismatchError = Code_SizeMismatchError"
| "to_error_code EmptyEndpoints = Code_EmptyEndpoints"
| "to_error_code TimestampInvalid = Code_TimestampInvalid"
| "to_error_code MissingPayload = Code_MissingPayload"
| "to_error_code (HandlerError _) = Code_HandlerError"
| "to_error_code BadArg = Code_BadArg"
| "to_error_code (Serialize _) = Code_Serialize"
| "to_error_code (Deserialize _) = Code_Deserialize"
| "to_error_code (Io _) = Code_Io"
| "to_error_code InvalidUtf8 = Code_InvalidUtf8"
| "to_error_code (TypeMismatch _ _) = Code_TypeMismatch"
| "to_error_code (InvalidLinkId _) = Code_InvalidLinkId"
| "to_error_code (PacketTooLarge _) = Code_PacketTooLarge"

text \<open>The discriminants of \<open>#[repr(i32)] enum TelemetryErrorCode\<close>.\<close>

fun error_code_i32 :: "telemetry_error_code \<Rightarrow> int" where
  "error_code_i32 Code_GenericError = - 2"
| "error_code_i32 Code_InvalidType = - 3"
| "error_code_i32 Code_SizeMismatch = - 4"
| "error_code_i32 Code_SizeMismatchError = - 5"
| "error_code_i32 Code_EmptyEndpoints = - 6"
| "error_code_i32 Code_TimestampInvalid = - 7"
| "error_code_i32 Code_MissingPayload = - 8"
| "error_code_i32 Code_HandlerError = - 9"
| "error_code_i32 Code_BadArg = - 10"
| "error_code_i32 Code_Serialize = - 11"
| "error_code_i32 Code_Deserialize = - 12"
| "error_code_i32 Code_Io = - 13"
| "error_code_i32 Code_InvalidUtf8 = - 14"
| "error_code_i32 Code_TypeMismatch = - 15"
| "error_code_i32 Code_InvalidLinkId = - 16"
| "error_code_i32 Code_PacketTooLarge = - 17"

definition all_error_codes :: "telemetry_error_code list" where
  "all_error_codes =
    [Code_GenericError, Code_InvalidType, Code_SizeMismatch, Code_SizeMismatchError,
     Code_EmptyEndpoints, Code_TimestampInvalid, Code_MissingPayload, Code_HandlerError,
     Code_BadArg, Code_Serialize, Code_Deserialize, Code_Io, Code_InvalidUtf8,
     Code_TypeMismatch, Code_InvalidLinkId, Code_PacketTooLarge]"

definition error_code_max :: int where
  "error_code_max = error_code_i32 Code_InvalidType"

definition error_code_min :: int where
  "error_code_min = error_code_i32 Code_Io"

text \<open>
  \<open>try_enum_from_i32\<close> rejects what is outside \<open>MIN..=MAX\<close> and reinterprets the rest as the
  variant with that discriminant.
\<close>

definition error_code_try_from_i32 :: "int \<Rightarrow> telemetry_error_code option" where
  "error_code_try_from_i32 x =
     (if x < error_code_min \<or> x > error_code_max then None
      else find (\<lambda>c. error_code_i32 c = x) all_error_codes)"

section \<open>Message metadata\<close>

datatype message_data_type =
    Float64 | Float32 | UInt8 | UInt16 | UInt32 | UInt64 | UInt128
  | Int8 | Int16 | Int32 | Int64 | Int128 | Bool_T | String_T | Binary | NoData

datatype message_class = Data | Error | Warning

datatype message_element = Static nat message_data_type message_class | Dynamic message_data_type message_class

datatype reliable_mode = NoReliable | Ordered | Unordered

datatype data_endpoint = UserEndpoint nat | TimeSync | Discovery | TelemetryErrorEndpoint

datatype data_type =
    UserType nat
  | TimeSyncAnnounce | TimeSyncRequest | TimeSyncResponse
  | DiscoveryAnnounce | DiscoveryTimeSyncSources | DiscoveryTopology
  | ReliableAck | ReliablePartialAck | ReliablePacketRequest
  | TelemetryErrorType

record message_meta =
  mm_name :: bytes
  mm_element :: message_element
  mm_endpoints :: "data_endpoint list"
  mm_reliable :: reliable_mode
  mm_priority :: u8

record endpoint_meta =
  em_name :: bytes
  em_link_local_only :: bool

record json_endpoint =
  je_name :: bytes
  je_link_local_only :: "bool option"

record json_type =
  jt_name :: bytes
  jt_reliable :: "bool option"
  jt_reliable_mode :: "reliable_mode option"
  jt_priority :: "u8 option"
  jt_element :: message_element
  jt_endpoints :: "data_endpoint list"

record schema =
  user_endpoints :: "json_endpoint list"
  user_types :: "json_type list"

fun data_type_of :: "message_element \<Rightarrow> message_data_type" where
  "data_type_of (Static _ dt _) = dt"
| "data_type_of (Dynamic dt _) = dt"

fun message_type_of :: "message_element \<Rightarrow> message_class" where
  "message_type_of (Static _ _ mt) = mt"
| "message_type_of (Dynamic _ mt) = mt"

fun element_into :: "message_element \<Rightarrow> nat" where
  "element_into (Static a _ _) = a"
| "element_into (Dynamic _ _) = 0"

subsection \<open>The tables of the generated enums\<close>

fun get_endpoint_meta :: "'z schema_scheme \<Rightarrow> data_endpoint \<Rightarrow> endpoint_meta" where
  "get_endpoint_meta S (UserEndpoint i) =
     \<lparr>em_name = je_name (user_endpoints S ! i),
      em_link_local_only = (case je_link_local_only (user_endpoints S ! i) of None \<Rightarrow> False | Some b \<Rightarrow> b)\<rparr>"
| "get_endpoint_meta S TimeSync = \<lparr>em_name = str ''TIME_SYNC'', em_link_local_only = False\<rparr>"
| "get_endpoint_meta S Discovery = \<lparr>em_name = str ''DISCOVERY'', em_link_local_only = False\<rparr>"
| "get_endpoint_meta S TelemetryErrorEndpoint =
     \<lparr>em_name = str ''TELEMETRY_ERROR'', em_link_local_only = False\<rparr>"

definition user_type_meta :: "json_type \<Rightarrow> message_meta" where
  "user_type_meta t =
     \<lparr>mm_name = jt_name t, mm_element = jt_element t, mm_endpoints = jt_endpoints t,
      mm_reliable = (case jt_reliable_mode t of
          Some m \<Rightarrow> m
        | None \<Rightarrow> if jt_reliable t = Some True then Ordered else NoReliable),
      mm_priority = (case jt_priority t of None \<Rightarrow> 0 | Some p \<Rightarrow> p)\<rparr>"

definition control_meta :: "string \<Rightarrow> message_element \<Rightarrow> data_endpoint \<Rightarrow> u8 \<Rightarrow> message_meta" where
  "control_meta n el ep p =
     \<lparr>mm_name = str n, mm_element = el, mm_endpoints = [ep], mm_reliable = NoReliable, mm_priority = p\<rparr>"

fun get_message_meta :: "'z schema_scheme \<Rightarrow> data_type \<Rightarrow> message_meta" where
  "get_message_meta S (UserType i) = user_type_meta (user_types S ! i)"
| "get_message_meta S TimeSyncAnnounce =
     control_meta ''TIME_SYNC_ANNOUNCE'' (Static 2 UInt64 Data) TimeSync 255"
| "get_message_meta S TimeSyncRequest =
     control_meta ''TIME_SYNC_REQUEST'' (Static 2 UInt64 Data) TimeSync 255"
| "get_message_meta S TimeSyncResponse =
     control_meta ''TIME_SYNC_RESPONSE'' (Static 4 UInt64 Data) TimeSync 255"
| "get_message_meta S DiscoveryAnnounce =
     control_meta ''DISCOVERY_ANNOUNCE'' (Dynamic UInt32 Data) Discovery 240"
| "get_message_meta S DiscoveryTimeSyncSources =
     control_meta ''DISCOVERY_TIMESYNC_SOURCES'' (Dynamic UInt8 Data) Discovery 240"
| "get_message_meta S DiscoveryTopology =
     control_meta ''DISCOVERY_TOPOLOGY'' (Dynamic UInt8 Data) Discovery 240"
| "get_message_meta S ReliableAck =
     control_meta ''RELIABLE_ACK'' (Static 2 UInt32 Data) TelemetryErrorEndpoint 250"
| "get_message_meta S ReliablePartialAck =
     control_meta ''RELIABLE_PARTIAL_ACK'' (Static 2 UInt32 Data) TelemetryErrorEndpoint 250"
| "get_message_meta S ReliablePacketRequest =
     control_meta ''RELIABLE_PACKET_REQUEST'' (Static 2 UInt32 Data) TelemetryErrorEndpoint 250"
| "get_message_meta S TelemetryErrorType =
     \<lparr>mm_name = str ''TELEMETRY_ERROR'', mm_element = Dynamic String_T Error,
      mm_endpoints = [TelemetryErrorEndpoint], mm_reliable = Ordered, mm_priority = 200\<rparr>"

subsection \<open>Discriminants\<close>

definition data_type_count :: "'z schema_scheme \<Rightarrow> nat" where
  "data_type_count S = length (user_types S) + 10"

definition data_endpoint_count :: "'z schema_scheme \<Rightarrow> nat" where
  "data_endpoint_count S = length (user_endpoints S) + 3"

definition builtin_types :: "data_type list" where
  "builtin_types =
    [TimeSyncAnnounce, TimeSyncRequest, TimeSyncResponse, DiscoveryAnnounce,
     DiscoveryTimeSyncSources, DiscoveryTopology, ReliableAck, ReliablePartialAck,
     ReliablePacketRequest, TelemetryErrorType]"

definition builtin_endpoints :: "data_endpoint list" where
  "builtin_endpoints = [TimeSync, Discovery, TelemetryErrorEndpoint]"

definition all_types :: "'z schema_scheme \<Rightarrow> data_type list" where
  "all_types S = map UserType [0..<length (user_types S)] @ builtin_types"

definition all_endpoints :: "'z schema_scheme \<Rightarrow> data_endpoint list" where
  "all_endpoints S = map UserEndpoint [0..<length (user_endpoints S)] @ builtin_endpoints"

fun type_index :: "'z schema_scheme \<Rightarrow> data_type \<Rightarrow> nat" where
  "type_index S (UserType i) = i"
| "type_index S TimeSyncAnnounce = length (user_types S)"
| "type_index S TimeSyncRequest = length (user_types S) + 1"
| "type_index S TimeSyncResponse = length (user_types S) + 2"
| "type_index S DiscoveryAnnounce = length (user_types S) + 3"
| "type_index S DiscoveryTimeSyncSources = length (user_types S) + 4"
| "type_index S DiscoveryTopology = length (user_types S) + 5"
| "type_index S ReliableAck = length (user_types S) + 6"
| "type_index S ReliablePartialAck = length (user_types S) + 7"
| "type_index S ReliablePacketRequest = length (user_types S) + 8"
| "type_index S TelemetryErrorType = length (user_types S) + 9"

fun endpoint_index :: "'z schema_scheme \<Rightarrow> data_endpoint \<Rightarrow> nat" where
  "endpoint_index S (UserEndpoint i) = i"
| "endpoint_index S TimeSync = length (user_endpoints S)"
| "endpoint_index S Discovery = length (user_endpoints S) + 1"
| "endpoint_index S TelemetryErrorEndpoint = length (user_endpoints S) + 2"

text \<open>The casts \<open>ty as u32\<close> and \<open>ep as u32\<close>.\<close>

definition ty_u32 :: "'z schema_scheme \<Rightarrow> data_type \<Rightarrow> u32" where
  "ty_u32 S ty = of_nat (type_index S ty)"

definition ep_u32 :: "'z schema_scheme \<Rightarrow> data_endpoint \<Rightarrow> u32" where
  "ep_u32 S ep = of_nat (endpoint_index S ep)"

definition max_value_data_type :: "'z schema_scheme \<Rightarrow> u32" where
  "max_value_data_type S = of_nat (data_type_count S - 1)"

definition max_value_data_endpoint :: "'z schema_scheme \<Rightarrow> u32" where
  "max_value_data_endpoint S = of_nat (data_endpoint_count S - 1)"

text \<open>
  \<open>try_enum_from_u32\<close>: the range check, then the variant whose discriminant is the value.
\<close>

definition try_enum_from_u32 :: "u32 \<Rightarrow> 'e list \<Rightarrow> u32 \<Rightarrow> 'e option" where
  "try_enum_from_u32 max_value variants x =
     (if x > max_value then None else Some (variants ! unat x))"

definition data_type_try_from_u32 :: "'z schema_scheme \<Rightarrow> u32 \<Rightarrow> data_type option" where
  "data_type_try_from_u32 S x = try_enum_from_u32 (max_value_data_type S) (all_types S) x"

definition data_endpoint_try_from_u32 :: "'z schema_scheme \<Rightarrow> u32 \<Rightarrow> data_endpoint option" where
  "data_endpoint_try_from_u32 S x =
     try_enum_from_u32 (max_value_data_endpoint S) (all_endpoints S) x"

text \<open>
  The values an enum has, and the sizes the generated code relies on: discriminants fit in
  \<open>u32\<close> and the types of the JSON schema name declared endpoints.
\<close>

definition valid_type :: "'z schema_scheme \<Rightarrow> data_type \<Rightarrow> bool" where
  "valid_type S ty \<longleftrightarrow> ty \<in> set (all_types S)"

definition valid_endpoint :: "'z schema_scheme \<Rightarrow> data_endpoint \<Rightarrow> bool" where
  "valid_endpoint S ep \<longleftrightarrow> ep \<in> set (all_endpoints S)"

definition schema_wf :: "'z schema_scheme \<Rightarrow> bool" where
  "schema_wf S \<longleftrightarrow>
     data_type_count S < 2 ^ 32 \<and> data_endpoint_count S < 2 ^ 32 \<and>
     (\<forall>t \<in> set (user_types S). \<forall>ep \<in> set (jt_endpoints t). valid_endpoint S ep)"

subsection \<open>Queries\<close>

definition is_reliable_type :: "'z schema_scheme \<Rightarrow> data_type \<Rightarrow> bool" where
  "is_reliable_type S ty \<longleftrightarrow> mm_reliable (get_message_meta S ty) \<noteq> NoReliable"

definition reliable_mode_of :: "'z schema_scheme \<Rightarrow> data_type \<Rightarrow> reliable_mode" where
  "reliable_mode_of S ty = mm_reliable (get_message_meta S ty)"

definition message_priority :: "'z schema_scheme \<Rightarrow> data_type \<Rightarrow> u8" where
  "message_priority S ty = mm_priority (get_message_meta S ty)"

definition get_data_type :: "'z schema_scheme \<Rightarrow> data_type \<Rightarrow> message_data_type" where
  "get_data_type S ty = data_type_of (mm_element (get_message_meta S ty))"

definition get_info_type :: "'z schema_scheme \<Rightarrow> data_type \<Rightarrow> message_class" where
  "get_info_type S ty = message_type_of (mm_element (get_message_meta S ty))"

definition get_message_name :: "'z schema_scheme \<Rightarrow> data_type \<Rightarrow> bytes" where
  "get_message_name S ty = mm_name (get_message_meta S ty)"

definition endpoint_as_str :: "'z schema_scheme \<Rightarrow> data_endpoint \<Rightarrow> bytes" where
  "endpoint_as_str S ep = em_name (get_endpoint_meta S ep)"

definition is_link_local_only :: "'z schema_scheme \<Rightarrow> data_endpoint \<Rightarrow> bool" where
  "is_link_local_only S ep = em_link_local_only (get_endpoint_meta S ep)"

section \<open>The order of endpoints\<close>

text \<open>\<open>#[derive(Ord)]\<close> on a fieldless enum compares the declaration order of the variants.\<close>

fun endpoint_key :: "data_endpoint \<Rightarrow> nat \<times> nat" where
  "endpoint_key (UserEndpoint i) = (0, i)"
| "endpoint_key TimeSync = (1, 0)"
| "endpoint_key Discovery = (2, 0)"
| "endpoint_key TelemetryErrorEndpoint = (3, 0)"

lemma endpoint_key_inject [simp]: "endpoint_key a = endpoint_key b \<longleftrightarrow> a = b"
  by (cases a; cases b) auto

instantiation data_endpoint :: linorder
begin

definition less_eq_data_endpoint :: "data_endpoint \<Rightarrow> data_endpoint \<Rightarrow> bool" where
  "a \<le> b \<longleftrightarrow> endpoint_key a \<le> endpoint_key b"

definition less_data_endpoint :: "data_endpoint \<Rightarrow> data_endpoint \<Rightarrow> bool" where
  "a < b \<longleftrightarrow> endpoint_key a < endpoint_key b"

instance
proof
  fix a b c :: data_endpoint
  show "a < b \<longleftrightarrow> a \<le> b \<and> \<not> b \<le> a"
    unfolding less_eq_data_endpoint_def less_data_endpoint_def by (rule less_le_not_le)
  show "a \<le> a"
    unfolding less_eq_data_endpoint_def by simp
  show "a \<le> b \<Longrightarrow> b \<le> c \<Longrightarrow> a \<le> c"
    unfolding less_eq_data_endpoint_def by (rule order_trans)
  show "a \<le> b \<Longrightarrow> b \<le> a \<Longrightarrow> a = b"
    unfolding less_eq_data_endpoint_def by (simp flip: endpoint_key_inject)
  show "a \<le> b \<or> b \<le> a"
    unfolding less_eq_data_endpoint_def by (rule linear)
qed

end

section \<open>Facts about discriminants\<close>

lemma length_all_types [simp]: "length (all_types S) = data_type_count S"
  by (simp add: all_types_def builtin_types_def data_type_count_def)

lemma length_all_endpoints [simp]: "length (all_endpoints S) = data_endpoint_count S"
  by (simp add: all_endpoints_def builtin_endpoints_def data_endpoint_count_def)

lemma type_index_bound: "valid_type S ty \<Longrightarrow> type_index S ty < data_type_count S"
  by (auto simp: valid_type_def all_types_def builtin_types_def data_type_count_def)

lemma endpoint_index_bound: "valid_endpoint S ep \<Longrightarrow> endpoint_index S ep < data_endpoint_count S"
  by (auto simp: valid_endpoint_def all_endpoints_def builtin_endpoints_def data_endpoint_count_def)

lemma nth_type_index: "valid_type S ty \<Longrightarrow> all_types S ! type_index S ty = ty"
  by (auto simp: valid_type_def all_types_def builtin_types_def nth_append)

lemma nth_endpoint_index: "valid_endpoint S ep \<Longrightarrow> all_endpoints S ! endpoint_index S ep = ep"
  by (auto simp: valid_endpoint_def all_endpoints_def builtin_endpoints_def nth_append)

lemma type_index_nth: "i < data_type_count S \<Longrightarrow> type_index S (all_types S ! i) = i"
  by (auto simp: all_types_def builtin_types_def data_type_count_def nth_append nth_Cons
      less_Suc_eq_le split: nat.splits)

lemma endpoint_index_nth: "i < data_endpoint_count S \<Longrightarrow> endpoint_index S (all_endpoints S ! i) = i"
  by (auto simp: all_endpoints_def builtin_endpoints_def data_endpoint_count_def nth_append nth_Cons
      less_Suc_eq_le split: nat.splits)

lemma valid_type_nth: "i < data_type_count S \<Longrightarrow> valid_type S (all_types S ! i)"
  by (metis length_all_types nth_mem valid_type_def)

lemma valid_endpoint_nth: "i < data_endpoint_count S \<Longrightarrow> valid_endpoint S (all_endpoints S ! i)"
  by (metis length_all_endpoints nth_mem valid_endpoint_def)

lemma schema_wf_counts:
  "schema_wf S \<Longrightarrow> data_type_count S < 2 ^ 32"
  "schema_wf S \<Longrightarrow> data_endpoint_count S < 2 ^ 32"
  by (simp_all add: schema_wf_def)

lemma count_pos [simp]: "0 < data_type_count S" "0 < data_endpoint_count S"
  by (simp_all add: data_type_count_def data_endpoint_count_def)

lemma unat_ty_u32: "schema_wf S \<Longrightarrow> valid_type S ty \<Longrightarrow> unat (ty_u32 S ty) = type_index S ty"
  using type_index_bound [of S ty] schema_wf_counts(1) [of S]
  by (simp add: ty_u32_def unat_of_nat_small)

lemma unat_ep_u32: "schema_wf S \<Longrightarrow> valid_endpoint S ep \<Longrightarrow> unat (ep_u32 S ep) = endpoint_index S ep"
  using endpoint_index_bound [of S ep] schema_wf_counts(2) [of S]
  by (simp add: ep_u32_def unat_of_nat_small)

lemma unat_max_value_data_type: "schema_wf S \<Longrightarrow> unat (max_value_data_type S) = data_type_count S - 1"
  using schema_wf_counts(1) [of S] by (simp add: max_value_data_type_def unat_of_nat_small)

lemma unat_max_value_data_endpoint:
  "schema_wf S \<Longrightarrow> unat (max_value_data_endpoint S) = data_endpoint_count S - 1"
  using schema_wf_counts(2) [of S] by (simp add: max_value_data_endpoint_def unat_of_nat_small)

lemma data_type_try_from_u32_eq:
  "schema_wf S \<Longrightarrow> data_type_try_from_u32 S x =
     (if unat x < data_type_count S then Some (all_types S ! unat x) else None)"
  by (auto simp: data_type_try_from_u32_def try_enum_from_u32_def word_less_nat_alt
      unat_max_value_data_type data_type_count_def)

lemma data_endpoint_try_from_u32_eq:
  "schema_wf S \<Longrightarrow> data_endpoint_try_from_u32 S x =
     (if unat x < data_endpoint_count S then Some (all_endpoints S ! unat x) else None)"
  by (auto simp: data_endpoint_try_from_u32_def try_enum_from_u32_def word_less_nat_alt
      unat_max_value_data_endpoint data_endpoint_count_def)

lemma data_type_roundtrip:
  "schema_wf S \<Longrightarrow> valid_type S ty \<Longrightarrow> data_type_try_from_u32 S (ty_u32 S ty) = Some ty"
  by (simp add: data_type_try_from_u32_eq unat_ty_u32 type_index_bound nth_type_index)

lemma data_endpoint_roundtrip:
  "schema_wf S \<Longrightarrow> valid_endpoint S ep \<Longrightarrow> data_endpoint_try_from_u32 S (ep_u32 S ep) = Some ep"
  by (simp add: data_endpoint_try_from_u32_eq unat_ep_u32 endpoint_index_bound nth_endpoint_index)

lemma data_type_try_from_u32_valid:
  "schema_wf S \<Longrightarrow> data_type_try_from_u32 S x = Some ty \<Longrightarrow> valid_type S ty \<and> ty_u32 S ty = x"
  by (auto simp: data_type_try_from_u32_eq valid_type_nth ty_u32_def type_index_nth split: if_splits)

lemma data_endpoint_try_from_u32_valid:
  "schema_wf S \<Longrightarrow> data_endpoint_try_from_u32 S x = Some ep \<Longrightarrow> valid_endpoint S ep \<and> ep_u32 S ep = x"
  by (auto simp: data_endpoint_try_from_u32_eq valid_endpoint_nth ep_u32_def endpoint_index_nth
      split: if_splits)

lemma endpoint_less_iff_index:
  "valid_endpoint S a \<Longrightarrow> valid_endpoint S b \<Longrightarrow> a < b \<longleftrightarrow> endpoint_index S a < endpoint_index S b"
  by (auto simp: valid_endpoint_def all_endpoints_def builtin_endpoints_def less_data_endpoint_def)

lemma endpoint_index_inject:
  "valid_endpoint S a \<Longrightarrow> valid_endpoint S b \<Longrightarrow> endpoint_index S a = endpoint_index S b \<longleftrightarrow> a = b"
  by (metis nth_endpoint_index)

lemma builtin_valid [simp]:
  "valid_type S TimeSyncAnnounce" "valid_type S TimeSyncRequest" "valid_type S TimeSyncResponse"
  "valid_type S DiscoveryAnnounce" "valid_type S DiscoveryTimeSyncSources"
  "valid_type S DiscoveryTopology" "valid_type S ReliableAck" "valid_type S ReliablePartialAck"
  "valid_type S ReliablePacketRequest" "valid_type S TelemetryErrorType"
  "valid_endpoint S TimeSync" "valid_endpoint S Discovery" "valid_endpoint S TelemetryErrorEndpoint"
  by (simp_all add: valid_type_def all_types_def builtin_types_def
      valid_endpoint_def all_endpoints_def builtin_endpoints_def)

end
