(* ===== verification/Config.thy ===== *)
theory Config
  imports Complex_Main Telemetry_Types
begin

text \<open>
  Build-time configuration: the literal parsers of \<open>src/lib.rs\<close>, the constants of
  \<open>src/config.rs\<close> as the record \<open>config\<close>, built from the build environment, and
  \<open>data_type_size\<close>, which depends on two of them. A \<open>const\<close> that fails to evaluate is a
  compile error; it is \<open>Panic\<close> here. \<open>config\<close> extends \<open>schema\<close>, so every schema query
  applies to it.
\<close>

section \<open>Floating-point values\<close>

text \<open>
  The values of \<open>f64\<close> that the queues use: the growth factor. A finite \<open>f64\<close> is the
  rational number it denotes.
\<close>

datatype f64 = NaN | PosInf | NegInf | Fin rat

section \<open>Literal parsers\<close>

definition is_digit :: "u8 \<Rightarrow> bool" where
  "is_digit c \<longleftrightarrow> \<not> (c < 0x30 \<or> c > 0x39)"

fun parse_usize_loop :: "bytes \<Rightarrow> nat \<Rightarrow> ('e, nat) outcome" where
  "parse_usize_loop [] val = Ok val"
| "parse_usize_loop (c # cs) val =
     (if \<not> is_digit c then Panic ''Invalid digit''
      else parse_usize_loop cs ((val * 10 + unat (c - 0x30)) mod usize_limit))"

definition parse_usize :: "bytes \<Rightarrow> ('e, nat) outcome" where
  "parse_usize s = parse_usize_loop s 0"

fun parse_u8_loop :: "bytes \<Rightarrow> nat \<Rightarrow> ('e, u8) outcome" where
  "parse_u8_loop [] val = Ok (of_nat val)"
| "parse_u8_loop (c # cs) val =
     (if \<not> is_digit c then Panic ''invalid digit in u8''
      else let val = val * 10 + unat (c - 0x30)
           in if val > 255 then Panic ''u8 overflow'' else parse_u8_loop cs val)"

definition parse_u8 :: "bytes \<Rightarrow> ('e, u8) outcome" where
  "parse_u8 s = (if s = [] then Panic ''empty string'' else parse_u8_loop s 0)"

fun parse_u128_loop :: "bytes \<Rightarrow> nat \<Rightarrow> ('e, 128 word) outcome" where
  "parse_u128_loop [] val = Ok (of_nat val)"
| "parse_u128_loop (c # cs) val =
     (if \<not> is_digit c then Panic ''invalid digit in u128''
      else let digit = unat (c - 0x30)
           in if val > (2 ^ 128 - 1 - digit) div 10 then Panic ''u128 overflow''
              else parse_u128_loop cs (val * 10 + digit))"

definition parse_u128 :: "bytes \<Rightarrow> ('e, 128 word) outcome" where
  "parse_u128 s = (if s = [] then Panic ''empty string'' else parse_u128_loop s 0)"

section \<open>The configuration record\<close>

record config = schema +
  device_identifier :: bytes
  max_recent_rx_ids :: nat
  starting_queue_size :: nat
  max_queue_budget :: nat
  queue_grow_step :: f64
  payload_compress_threshold :: nat
  static_string_length :: nat
  static_hex_length :: nat
  string_precision :: nat
  max_stack_payload :: nat
  max_handler_retries :: nat
  reliable_retransmit_ms :: u64
  reliable_max_retries :: u32
  reliable_max_pending :: nat
  reliable_max_return_routes :: nat
  reliable_max_end_to_end_pending :: nat
  reliable_max_end_to_end_ack_cache :: nat

text \<open>\<open>match option_env!(name) \<lbrace> Some(val) => parse_usize(val), None => default \<rbrace>\<close>\<close>

definition env_usize :: "(string \<Rightarrow> bytes option) \<Rightarrow> string \<Rightarrow> nat \<Rightarrow> ('e, nat) outcome" where
  "env_usize env name dflt = (case env name of Some val \<Rightarrow> parse_usize val | None \<Rightarrow> Ok dflt)"

text \<open>
  The constants of \<open>src/config.rs\<close> from the build environment. \<open>grow\<close> is the value of
  \<open>QUEUE_GROW_STEP\<close>, and \<open>stack\<close> the one \<open>define_stack_payload!\<close> yields.
\<close>

definition config_from_env ::
  "schema \<Rightarrow> (string \<Rightarrow> bytes option) \<Rightarrow> f64 \<Rightarrow> nat \<Rightarrow> ('e, config) outcome" where
  "config_from_env S env grow stack =
     andthen (env_usize env ''MAX_RECENT_RX_IDS'' 128) (\<lambda>rx_ids.
     andthen (env_usize env ''STARTING_QUEUE_SIZE'' 128) (\<lambda>starting.
     andthen (case env ''MAX_QUEUE_BUDGET'' of
                Some val \<Rightarrow> parse_usize val
              | None \<Rightarrow> env_usize env ''MAX_QUEUE_SIZE'' (1024 * 100)) (\<lambda>budget.
     andthen (env_usize env ''PAYLOAD_COMPRESS_THRESHOLD'' 128) (\<lambda>threshold.
     andthen (env_usize env ''STATIC_STRING_LENGTH'' 1024) (\<lambda>slen.
     andthen (env_usize env ''STATIC_HEX_LENGTH'' 1024) (\<lambda>hlen.
     andthen (env_usize env ''STRING_PRECISION'' 8) (\<lambda>prec.
     andthen (env_usize env ''MAX_HANDLER_RETRIES'' 3) (\<lambda>hretries.
     andthen (env_usize env ''RELIABLE_RETRANSMIT_MS'' 200) (\<lambda>rms.
     andthen (env_usize env ''RELIABLE_MAX_RETRIES'' 8) (\<lambda>rretries.
     andthen (env_usize env ''RELIABLE_MAX_PENDING'' 16) (\<lambda>pending.
     andthen (env_usize env ''RELIABLE_MAX_RETURN_ROUTES'' rx_ids) (\<lambda>routes.
     andthen (env_usize env ''RELIABLE_MAX_END_TO_END_PENDING'' pending) (\<lambda>e2e.
     andthen (env_usize env ''RELIABLE_MAX_END_TO_END_ACK_CACHE'' rx_ids) (\<lambda>cache.
     Ok \<lparr>user_endpoints = user_endpoints S, user_types = user_types S,
         device_identifier = (case env ''DEVICE_IDENTIFIER'' of
             Some val \<Rightarrow> val | None \<Rightarrow> str ''TEST_PLATFORM''),
         max_recent_rx_ids = rx_ids, starting_queue_size = starting, max_queue_budget = budget,
         queue_grow_step = grow, payload_compress_threshold = threshold,
         static_string_length = slen, static_hex_length = hlen, string_precision = prec,
         max_stack_payload = stack, max_handler_retries = hretries,
         reliable_retransmit_ms = of_nat rms, reliable_max_retries = of_nat rretries,
         reliable_max_pending = pending, reliable_max_return_routes = routes,
         reliable_max_end_to_end_pending = e2e, reliable_max_end_to_end_ack_cache = cache\<rparr>
     ))))))))))))))"

definition recent_rx_queue_bytes :: "'z config_scheme \<Rightarrow> nat" where
  "recent_rx_queue_bytes C =
     (let requested = usat_mul (max_recent_rx_ids C) 8
      in if requested < max_queue_budget C then requested else max_queue_budget C)"

fun data_type_size :: "'z config_scheme \<Rightarrow> message_data_type \<Rightarrow> nat" where
  "data_type_size C Float64 = 8"
| "data_type_size C Float32 = 4"
| "data_type_size C UInt8 = 1"
| "data_type_size C UInt16 = 2"
| "data_type_size C UInt32 = 4"
| "data_type_size C UInt64 = 8"
| "data_type_size C UInt128 = 16"
| "data_type_size C Int8 = 1"
| "data_type_size C Int16 = 2"
| "data_type_size C Int32 = 4"
| "data_type_size C Int64 = 8"
| "data_type_size C Int128 = 16"
| "data_type_size C Bool_T = 1"
| "data_type_size C String_T = static_string_length C"
| "data_type_size C Binary = static_hex_length C"
| "data_type_size C NoData = 0"

definition get_needed_message_size :: "'z config_scheme \<Rightarrow> data_type \<Rightarrow> nat" where
  "get_needed_message_size C ty =
     (data_type_size C (get_data_type C ty) * element_into (mm_element (get_message_meta C ty)))
       mod usize_limit"

section \<open>Correctness of the parsers\<close>

text \<open>The number a digit string denotes, most significant digit first.\<close>

definition decimal_value :: "bytes \<Rightarrow> nat" where
  "decimal_value s = foldl (\<lambda>v c. v * 10 + unat (c - 0x30)) 0 s"

lemma foldl_decimal_mono: "v \<le> foldl (\<lambda>v c. v * 10 + unat (c - (0x30::u8))) v s"
proof (induction s arbitrary: v)
  case Nil
  then show ?case by simp
next
  case (Cons c s)
  have "v \<le> v * 10 + unat (c - 0x30)" by simp
  also have "\<dots> \<le> foldl (\<lambda>v c. v * 10 + unat (c - (0x30::u8))) (v * 10 + unat (c - 0x30)) s"
    by (rule Cons.IH)
  finally show ?case by simp
qed

lemma digit_value: "is_digit c \<Longrightarrow> unat (c - 0x30) \<le> 9"
  by (auto simp: is_digit_def word_less_nat_alt unat_sub word_le_nat_alt)

lemma parse_u8_loop_spec:
  "parse_u8_loop s v = Ok r \<longleftrightarrow>
     (\<forall>c \<in> set s. is_digit c) \<and> foldl (\<lambda>v c. v * 10 + unat (c - 0x30)) v s \<le> 255 \<and>
     r = of_nat (foldl (\<lambda>v c. v * 10 + unat (c - 0x30)) v s)" if "v \<le> 255"
  using that
proof (induction s arbitrary: v)
  case Nil
  then show ?case by auto
next
  case (Cons c s)
  show ?case
  proof (cases "v * 10 + unat (c - 0x30) \<le> 255")
    case True
    then show ?thesis using Cons.IH [OF True] by (auto simp: Let_def)
  next
    case False
    have "\<not> foldl (\<lambda>v c. v * 10 + unat (c - (0x30::u8))) (v * 10 + unat (c - 0x30)) s \<le> 255"
      using foldl_decimal_mono [of "v * 10 + unat (c - 0x30)" s] False by linarith
    with False show ?thesis by (auto simp: Let_def)
  qed
qed

lemma u128_guard:
  "d \<le> 9 \<Longrightarrow> v \<le> (2 ^ 128 - 1 - d) div (10::nat) \<longleftrightarrow> v * 10 + d \<le> 2 ^ 128 - 1"
  by (simp add: less_eq_div_iff_mult_less_eq) linarith

lemma parse_u128_loop_spec:
  "parse_u128_loop s v = Ok r \<longleftrightarrow>
     (\<forall>c \<in> set s. is_digit c) \<and> foldl (\<lambda>v c. v * 10 + unat (c - 0x30)) v s \<le> 2 ^ 128 - 1 \<and>
     r = of_nat (foldl (\<lambda>v c. v * 10 + unat (c - 0x30)) v s)" if "v \<le> 2 ^ 128 - 1"
  using that
proof (induction s arbitrary: v)
  case Nil
  then show ?case by auto
next
  case (Cons c s)
  show ?case
  proof (cases "is_digit c")
    case False
    then show ?thesis by simp
  next
    case digit: True
    note guard = u128_guard [OF digit_value [OF digit], of v]
    show ?thesis
    proof (cases "v * 10 + unat (c - 0x30) \<le> 2 ^ 128 - 1")
      case True
      with guard have "\<not> (2 ^ 128 - 1 - unat (c - 0x30)) div 10 < v" by linarith
      then have step: "parse_u128_loop (c # s) v = parse_u128_loop s (v * 10 + unat (c - 0x30))"
        using digit by (simp only: parse_u128_loop.simps Let_def if_False not_True_eq_False)
      show ?thesis unfolding step using Cons.IH [OF True] digit by simp
    next
      case False
      with guard have "(2 ^ 128 - 1 - unat (c - 0x30)) div 10 < v" by linarith
      then have step: "parse_u128_loop (c # s) v = Panic ''u128 overflow''"
        using digit by (simp only: parse_u128_loop.simps Let_def if_True if_False not_True_eq_False)
      have "\<not> foldl (\<lambda>v c. v * 10 + unat (c - (0x30::u8))) (v * 10 + unat (c - 0x30)) s \<le> 2 ^ 128 - 1"
        using foldl_decimal_mono [of "v * 10 + unat (c - 0x30)" s] False by linarith
      then show ?thesis unfolding step by simp
    qed
  qed
qed

end
