(* ===== verification/Small_Payload.thy ===== *)
theory Small_Payload
  imports Config
begin

text \<open>
  \<open>src/small_payload.rs\<close>: payload storage that keeps up to \<open>INLINE\<close> bytes in place. The
  inline array is \<open>[MaybeUninit<u8>; INLINE]\<close>: a list of \<open>INLINE\<close> cells of which
  \<open>None\<close> is one that was never written. Reading such a cell is undefined behaviour in Rust;
  \<open>sp_wf\<close> says that no read of the module reaches one.
\<close>

type_synonym inline_buf = "u8 option list"

datatype small_payload = Inline u8 inline_buf | Heap bytes

definition inline_from_slice :: "nat \<Rightarrow> bytes \<Rightarrow> ('e, inline_buf \<times> u8) outcome" where
  "inline_from_slice N data =
     (if \<not> length data \<le> N then Panic ''InlineBuf capacity exceeded''
      else if \<not> length data \<le> 255 then Panic ''InlineBuf len does not fit in u8''
      else Ok (map Some data @ replicate (N - length data) None, of_nat (length data)))"

definition inline_as_slice :: "inline_buf \<Rightarrow> u8 \<Rightarrow> bytes" where
  "inline_as_slice buf len = map the (take (unat len) buf)"

definition small_payload_new :: "nat \<Rightarrow> bytes \<Rightarrow> ('e, small_payload) outcome" where
  "small_payload_new N data =
     (if length data \<le> N
      then andthen (inline_from_slice N data) (\<lambda>(buf, len). Ok (Inline len buf))
      else Ok (Heap data))"

fun sp_as_slice :: "small_payload \<Rightarrow> bytes" where
  "sp_as_slice (Inline len buf) = inline_as_slice buf len"
| "sp_as_slice (Heap arc) = arc"

fun sp_to_arc :: "small_payload \<Rightarrow> bytes" where
  "sp_to_arc (Inline len buf) = inline_as_slice buf len"
| "sp_to_arc (Heap arc) = arc"

fun sp_len :: "small_payload \<Rightarrow> nat" where
  "sp_len (Inline len buf) = unat len"
| "sp_len (Heap a) = length a"

fun sp_is_inline :: "small_payload \<Rightarrow> bool" where
  "sp_is_inline (Inline len buf) = True"
| "sp_is_inline (Heap a) = False"

text \<open>\<open>size_of::<Arc<[u8]>>()\<close> is a fat pointer.\<close>

definition arc_slice_size :: nat where
  "arc_slice_size = 16"

fun sp_byte_cost :: "small_payload \<Rightarrow> nat" where
  "sp_byte_cost (Inline len buf) = unat len"
| "sp_byte_cost (Heap a) = length a + arc_slice_size"

definition sp_eq :: "small_payload \<Rightarrow> small_payload \<Rightarrow> bool" where
  "sp_eq p q \<longleftrightarrow> sp_as_slice p = sp_as_slice q"

text \<open>The invariant behind the module's \<open>unsafe\<close> reads.\<close>

fun sp_wf :: "nat \<Rightarrow> small_payload \<Rightarrow> bool" where
  "sp_wf N (Inline len buf) \<longleftrightarrow>
     length buf = N \<and> unat len \<le> N \<and> (\<forall>c \<in> set (take (unat len) buf). c \<noteq> None)"
| "sp_wf N (Heap a) \<longleftrightarrow> N < length a"

lemma map_the_Some [simp]: "map (the \<circ> Some) xs = xs"
  by (simp add: comp_def)

lemma small_payload_new_cases:
  "small_payload_new N data =
     (if N < length data then Ok (Heap data)
      else if length data \<le> 255
      then Ok (Inline (of_nat (length data)) (map Some data @ replicate (N - length data) None))
      else Panic ''InlineBuf len does not fit in u8'')"
  by (simp add: small_payload_new_def inline_from_slice_def)

lemma small_payload_new_Ok:
  assumes "small_payload_new N data = Ok p"
  shows "sp_wf N p" "sp_as_slice p = data" "sp_to_arc p = data" "sp_len p = length data"
    "sp_is_inline p \<longleftrightarrow> length data \<le> N"
    "sp_byte_cost p = length data + (if length data \<le> N then 0 else arc_slice_size)"
  using assms
  by (auto simp: small_payload_new_cases inline_as_slice_def unat_of_nat_small split: if_splits)

lemma small_payload_new_total: "N \<le> 255 \<Longrightarrow> \<exists>p. small_payload_new N data = Ok p"
  by (simp add: small_payload_new_cases)

lemma small_payload_new_not_Err [simp]: "small_payload_new N data \<noteq> Err e"
  by (simp add: small_payload_new_cases)

end
