(* ===== verification/Packet.thy ===== *)
theory Packet
  imports Small_Payload
begin

text \<open>
  \<open>src/packet.rs\<close>: the packet, its constructors, its validation against the schema, the typed
  accessors and the 64-bit identifier that routers and relays use to drop duplicates. A value of a
  primitive type \<open>T\<close> of \<open>w\<close> bytes is the word of its bits.
\<close>

record packet =
  pkt_ty :: data_type
  pkt_data_size :: nat
  pkt_sender :: bytes
  pkt_endpoints :: "data_endpoint list"
  pkt_timestamp :: u64
  pkt_payload :: small_payload

definition payload :: "packet \<Rightarrow> bytes" where
  "payload p = sp_as_slice (pkt_payload p)"

section \<open>Validation helpers\<close>

fun element_width :: "message_data_type \<Rightarrow> nat" where
  "element_width UInt8 = 1"
| "element_width Int8 = 1"
| "element_width Bool_T = 1"
| "element_width UInt16 = 2"
| "element_width Int16 = 2"
| "element_width UInt32 = 4"
| "element_width Int32 = 4"
| "element_width Float32 = 4"
| "element_width UInt64 = 8"
| "element_width Int64 = 8"
| "element_width Float64 = 8"
| "element_width UInt128 = 16"
| "element_width Int128 = 16"
| "element_width String_T = 1"
| "element_width Binary = 1"
| "element_width NoData = 0"

definition hash_step :: "u64 \<Rightarrow> u8 \<Rightarrow> u64" where
  "hash_step h b =
     (let h = h XOR ucast b;
          h = h * 0x9E3779B1
      in h XOR drop_bit 27 h)"

definition hash_bytes_u64 :: "u64 \<Rightarrow> bytes \<Rightarrow> u64" where
  "hash_bytes_u64 h bs = foldl hash_step h bs"

text \<open>\<open>bytes.iter().rposition(|&b| b != 0).map(|i| i + 1).unwrap_or(0)\<close>\<close>

definition nul_trimmed_len :: "bytes \<Rightarrow> nat" where
  "nul_trimmed_len bs = length (dropWhile (\<lambda>b. b = 0) (rev bs))"

definition validate_dynamic_len_and_content ::
  "'z schema_scheme \<Rightarrow> data_type \<Rightarrow> bytes \<Rightarrow> unit telemetry_result" where
  "validate_dynamic_len_and_content C ty bs =
     (let dt = get_data_type C ty in
      case dt of
        String_T \<Rightarrow>
          (let end = nul_trimmed_len bs in
           if end > 0 \<and> \<not> from_utf8 (take end bs) then Err InvalidUtf8 else Ok ())
      | Binary \<Rightarrow> Ok ()
      | _ \<Rightarrow>
          (let w = element_width dt in
           if w = 0 \<or> length bs mod w \<noteq> 0 then Err (SizeMismatch w (length bs)) else Ok ()))"

section \<open>Construction and validation\<close>

definition packet_new ::
  "'z config_scheme \<Rightarrow> data_type \<Rightarrow> data_endpoint list \<Rightarrow> bytes \<Rightarrow> u64 \<Rightarrow> bytes \<Rightarrow> packet telemetry_result" where
  "packet_new C ty eps sender timestamp data =
     (if eps = [] then Err EmptyEndpoints
      else
        andthen
          (case mm_element (get_message_meta C ty) of
             Static need _ _ \<Rightarrow>
               (let need = (need * data_type_size C (get_data_type C ty)) mod usize_limit in
                if length data \<noteq> need then Err (SizeMismatch need (length data)) else Ok ())
           | Dynamic _ _ \<Rightarrow> validate_dynamic_len_and_content C ty data)
          (\<lambda>_. andthen (small_payload_new (max_stack_payload C) data) (\<lambda>sp.
             Ok \<lparr>pkt_ty = ty, pkt_data_size = length data, pkt_sender = sender,
                 pkt_endpoints = eps, pkt_timestamp = timestamp, pkt_payload = sp\<rparr>)))"

definition packet_validate :: "'z config_scheme \<Rightarrow> packet \<Rightarrow> unit telemetry_result" where
  "packet_validate C p =
     (if pkt_endpoints p = [] then Err EmptyEndpoints
      else if sp_len (pkt_payload p) \<noteq> pkt_data_size p
      then Err (SizeMismatch (pkt_data_size p) (sp_len (pkt_payload p)))
      else
        (case mm_element (get_message_meta C (pkt_ty p)) of
           Static need _ _ \<Rightarrow>
             (let need = (need * data_type_size C (get_data_type C (pkt_ty p))) mod usize_limit in
              if pkt_data_size p \<noteq> need then Err (SizeMismatch need (pkt_data_size p)) else Ok ())
         | Dynamic _ _ \<Rightarrow> validate_dynamic_len_and_content C (pkt_ty p) (payload p)))"

definition packet_id_seed :: u64 where
  "packet_id_seed = 0x9E3779B97F4A7C15"

definition packet_id :: "'z schema_scheme \<Rightarrow> packet \<Rightarrow> u64" where
  "packet_id C p =
     (let h = packet_id_seed;
          h = hash_bytes_u64 h (pkt_sender p);
          h = hash_bytes_u64 h (get_message_name C (pkt_ty p));
          h = foldl (\<lambda>h ep. hash_bytes_u64 h (endpoint_as_str C ep)) h (pkt_endpoints p);
          h = hash_bytes_u64 h (to_le_bytes 8 (pkt_timestamp p));
          h = hash_bytes_u64 h (to_le_bytes 8 (of_nat (pkt_data_size p) :: u64))
      in hash_bytes_u64 h (payload p))"

text \<open>\<open>ByteCost for Packet\<close>; the struct itself is \<open>size_of::<Packet>()\<close> bytes.\<close>

definition packet_byte_cost :: "nat \<Rightarrow> packet \<Rightarrow> nat" where
  "packet_byte_cost packet_size p =
     packet_size + length (pkt_sender p) + length (pkt_endpoints p) * 4 + sp_byte_cost (pkt_payload p)"

section \<open>Typed accessors\<close>

definition ensure_kind :: "'z config_scheme \<Rightarrow> packet \<Rightarrow> message_data_type \<Rightarrow> unit telemetry_result" where
  "ensure_kind C p expected =
     (let dt = get_data_type C (pkt_ty p) in
      if dt \<noteq> expected then Err (TypeMismatch (data_type_size C expected) (data_type_size C dt))
      else Ok ())"

definition as_le_bytes ::
  "'z config_scheme \<Rightarrow> packet \<Rightarrow> message_data_type \<Rightarrow> nat \<Rightarrow> 'a::len word list telemetry_result" where
  "as_le_bytes C p expected_kind width =
     andthen (ensure_kind C p expected_kind) (\<lambda>_.
       if length (payload p) mod width \<noteq> 0
       then Err (SizeMismatch (length (payload p) div width * width) (length (payload p)))
       else Ok (map from_le_bytes (chunks_exact width (payload p))))"

definition data_as_u8 :: "'z config_scheme \<Rightarrow> packet \<Rightarrow> u8 list telemetry_result" where
  "data_as_u8 C p = as_le_bytes C p UInt8 1"

definition data_as_u16 :: "'z config_scheme \<Rightarrow> packet \<Rightarrow> u16 list telemetry_result" where
  "data_as_u16 C p = as_le_bytes C p UInt16 2"

definition data_as_u32 :: "'z config_scheme \<Rightarrow> packet \<Rightarrow> u32 list telemetry_result" where
  "data_as_u32 C p = as_le_bytes C p UInt32 4"

definition data_as_u64 :: "'z config_scheme \<Rightarrow> packet \<Rightarrow> u64 list telemetry_result" where
  "data_as_u64 C p = as_le_bytes C p UInt64 8"

definition data_as_bool :: "'z config_scheme \<Rightarrow> packet \<Rightarrow> bool list telemetry_result" where
  "data_as_bool C p = andthen (ensure_kind C p Bool_T) (\<lambda>_. Ok (map (\<lambda>b. b \<noteq> 0) (payload p)))"

definition data_as_string :: "'z config_scheme \<Rightarrow> packet \<Rightarrow> bytes telemetry_result" where
  "data_as_string C p =
     andthen (ensure_kind C p String_T) (\<lambda>_.
       let end = nul_trimmed_len (payload p) in
       if end = 0 then Ok []
       else if from_utf8 (take end (payload p)) then Ok (take end (payload p)) else Err InvalidUtf8)"

definition data_as_binary :: "'z config_scheme \<Rightarrow> packet \<Rightarrow> bytes telemetry_result" where
  "data_as_binary C p = andthen (ensure_kind C p Binary) (\<lambda>_. Ok (payload p))"

definition data_as_utf8_ref :: "'z schema_scheme \<Rightarrow> packet \<Rightarrow> bytes option" where
  "data_as_utf8_ref C p =
     (if get_data_type C (pkt_ty p) \<noteq> String_T then None
      else if nul_trimmed_len (payload p) = 0 then None
      else let s = take (nul_trimmed_len (payload p)) (payload p)
           in if from_utf8 s then Some s else None)"

section \<open>Typed constructors\<close>

definition from_prim_le_slice_with_sender ::
  "'z config_scheme \<Rightarrow> data_type \<Rightarrow> nat \<Rightarrow> 'a::len word list \<Rightarrow> data_endpoint list \<Rightarrow> bytes \<Rightarrow> u64 \<Rightarrow>
     packet telemetry_result" where
  "from_prim_le_slice_with_sender C ty size_of_T values eps sender timestamp =
     (let dt = get_data_type C ty in
      if dt = Bool_T \<or> dt = String_T \<or> dt = Binary then Err BadArg
      else
        (let element_size = data_type_size C dt in
         if element_size \<noteq> size_of_T then Err (TypeMismatch element_size size_of_T)
         else
           (let total_bytes = length values * element_size in
            andthen
              (case mm_element (get_message_meta C ty) of
                 Static exact _ _ \<Rightarrow>
                   (let exact_bytes = (exact * element_size) mod usize_limit in
                    if total_bytes \<noteq> exact_bytes then Err (SizeMismatch exact_bytes total_bytes) else Ok ())
               | Dynamic _ _ \<Rightarrow> Ok ())
              (\<lambda>_. packet_new C ty eps sender timestamp (concat (map (to_le_bytes element_size) values))))))"

definition from_prim_le_slice ::
  "'z config_scheme \<Rightarrow> data_type \<Rightarrow> nat \<Rightarrow> 'a::len word list \<Rightarrow> data_endpoint list \<Rightarrow> u64 \<Rightarrow> packet telemetry_result" where
  "from_prim_le_slice C ty size_of_T values eps timestamp =
     from_prim_le_slice_with_sender C ty size_of_T values eps (device_identifier C) timestamp"

definition from_u64_slice ::
  "'z config_scheme \<Rightarrow> data_type \<Rightarrow> u64 list \<Rightarrow> data_endpoint list \<Rightarrow> u64 \<Rightarrow> packet telemetry_result" where
  "from_u64_slice C ty values eps timestamp = from_prim_le_slice C ty 8 values eps timestamp"

definition from_no_data ::
  "'z config_scheme \<Rightarrow> data_type \<Rightarrow> data_endpoint list \<Rightarrow> u64 \<Rightarrow> packet telemetry_result" where
  "from_no_data C ty eps timestamp =
     andthen
       (case mm_element (get_message_meta C ty) of
          Static need _ _ \<Rightarrow> if need \<noteq> 0 then Err (SizeMismatch need 0) else Ok ()
        | Dynamic _ _ \<Rightarrow> Ok ())
       (\<lambda>_. packet_new C ty eps (device_identifier C) timestamp [])"

definition from_bool_slice ::
  "'z config_scheme \<Rightarrow> data_type \<Rightarrow> bool list \<Rightarrow> data_endpoint list \<Rightarrow> u64 \<Rightarrow> packet telemetry_result" where
  "from_bool_slice C ty values eps timestamp =
     (if get_data_type C ty \<noteq> Bool_T then Err (TypeMismatch (data_type_size C (get_data_type C ty)) 1)
      else
        andthen
          (case mm_element (get_message_meta C ty) of
             Static exact _ _ \<Rightarrow>
               if length values \<noteq> exact then Err (SizeMismatch exact (length values)) else Ok ()
           | Dynamic _ _ \<Rightarrow> Ok ())
          (\<lambda>_. packet_new C ty eps (device_identifier C) timestamp
                (map (\<lambda>b. if b then 1 else 0) values)))"

definition from_str_slice ::
  "'z config_scheme \<Rightarrow> data_type \<Rightarrow> bytes \<Rightarrow> data_endpoint list \<Rightarrow> u64 \<Rightarrow> packet telemetry_result" where
  "from_str_slice C ty s eps timestamp =
     (if get_data_type C ty \<noteq> String_T then Err (TypeMismatch (data_type_size C (get_data_type C ty)) 1)
      else packet_new C ty eps (device_identifier C) timestamp s)"

section \<open>What a payload has to satisfy\<close>

text \<open>
  The schema's demand on a payload, stated without the order of the checks: a static type fixes the
  number of bytes, a dynamic string is UTF-8 up to trailing NULs, a dynamic number or boolean has
  whole elements, a dynamic binary is free.
\<close>

definition trimmed :: "bytes \<Rightarrow> bytes" where
  "trimmed bs = rev (dropWhile (\<lambda>b. b = 0) (rev bs))"

definition payload_fits :: "'z config_scheme \<Rightarrow> data_type \<Rightarrow> bytes \<Rightarrow> bool" where
  "payload_fits C ty data \<longleftrightarrow>
     (case mm_element (get_message_meta C ty) of
        Static n dt _ \<Rightarrow> length data = (n * data_type_size C dt) mod usize_limit
      | Dynamic dt _ \<Rightarrow>
          if dt = String_T then from_utf8 (trimmed data)
          else dt = Binary \<or> 0 < element_width dt \<and> element_width dt dvd length data)"

lemma take_nul_trimmed: "take (nul_trimmed_len bs) bs = trimmed bs"
proof -
  have "rev bs = takeWhile (\<lambda>b. b = 0) (rev bs) @ dropWhile (\<lambda>b. b = 0) (rev bs)"
    by simp
  then have "bs = rev (dropWhile (\<lambda>b. b = 0) (rev bs)) @ rev (takeWhile (\<lambda>b. b = 0) (rev bs))"
    by (metis rev_append rev_rev_ident)
  then show ?thesis
    by (metis append_eq_conv_conj length_rev nul_trimmed_len_def trimmed_def)
qed

lemma nul_trimmed_len_0: "nul_trimmed_len bs = 0 \<longleftrightarrow> trimmed bs = []"
  by (simp add: nul_trimmed_len_def trimmed_def)

lemma get_data_type_element:
  "mm_element (get_message_meta C ty) = Static n dt c \<Longrightarrow> get_data_type C ty = dt"
  "mm_element (get_message_meta C ty) = Dynamic dt c \<Longrightarrow> get_data_type C ty = dt"
  by (simp_all add: get_data_type_def)

lemma validate_dynamic_Ok_iff:
  "validate_dynamic_len_and_content C ty bs = Ok () \<longleftrightarrow>
     (let dt = get_data_type C ty in
      if dt = String_T then from_utf8 (trimmed bs)
      else dt = Binary \<or> 0 < element_width dt \<and> element_width dt dvd length bs)"
  by (cases "get_data_type C ty")
    (auto simp: validate_dynamic_len_and_content_def Let_def take_nul_trimmed nul_trimmed_len_0
      mod_eq_0_iff_dvd)

lemma validate_dynamic_not_Panic [simp]: "validate_dynamic_len_and_content C ty bs \<noteq> Panic m"
  by (cases "get_data_type C ty")
    (auto simp: validate_dynamic_len_and_content_def Let_def)

lemma packet_new_Ok_iff:
  "packet_new C ty eps sender ts data = Ok p \<longleftrightarrow>
     eps \<noteq> [] \<and> payload_fits C ty data \<and>
     (\<exists>sp. small_payload_new (max_stack_payload C) data = (Ok sp :: (telemetry_error, small_payload) outcome) \<and>
        p = \<lparr>pkt_ty = ty, pkt_data_size = length data, pkt_sender = sender,
             pkt_endpoints = eps, pkt_timestamp = ts, pkt_payload = sp\<rparr>)"
  by (cases "mm_element (get_message_meta C ty)")
    (auto simp: packet_new_def payload_fits_def outcome_simps validate_dynamic_Ok_iff
      get_data_type_element Let_def split: if_splits)

lemma packet_new_fields:
  assumes "packet_new C ty eps sender ts data = Ok p"
  shows "pkt_ty p = ty" "pkt_data_size p = length data" "pkt_sender p = sender"
    "pkt_endpoints p = eps" "pkt_timestamp p = ts" "payload p = data"
    "sp_wf (max_stack_payload C) (pkt_payload p)" "sp_len (pkt_payload p) = length data"
    "eps \<noteq> []" "payload_fits C ty data"
  using assms by (auto simp: packet_new_Ok_iff payload_def dest: small_payload_new_Ok)

lemma packet_validate_Ok_iff:
  "packet_validate C p = Ok () \<longleftrightarrow>
     pkt_endpoints p \<noteq> [] \<and> sp_len (pkt_payload p) = pkt_data_size p \<and>
     (case mm_element (get_message_meta C (pkt_ty p)) of
        Static n dt _ \<Rightarrow> pkt_data_size p = (n * data_type_size C dt) mod usize_limit
      | Dynamic _ _ \<Rightarrow> payload_fits C (pkt_ty p) (payload p))"
  by (cases "mm_element (get_message_meta C (pkt_ty p))")
    (auto simp: packet_validate_def payload_fits_def validate_dynamic_Ok_iff
      get_data_type_element Let_def split: if_splits)

lemma packet_new_validates:
  "packet_new C ty eps sender ts data = Ok p \<Longrightarrow> packet_validate C p = Ok ()"
  by (cases "mm_element (get_message_meta C ty)")
    (auto simp: packet_validate_Ok_iff packet_new_fields payload_fits_def dest: packet_new_fields(10))

lemma packet_new_total:
  "max_stack_payload C \<le> 255 \<Longrightarrow> eps \<noteq> [] \<Longrightarrow> payload_fits C ty data \<Longrightarrow>
     \<exists>p. packet_new C ty eps sender ts data = Ok p"
  using small_payload_new_total by (fastforce simp: packet_new_Ok_iff)

lemma packet_new_not_Panic:
  "max_stack_payload C \<le> 255 \<Longrightarrow> packet_new C ty eps sender ts data \<noteq> Panic m"
  by (cases "mm_element (get_message_meta C ty)")
    (auto simp: packet_new_def outcome_simps small_payload_new_cases Let_def split: if_splits)

section \<open>The hash keeps different states apart\<close>

lemma unshift_27: "(y XOR drop_bit 27 y) XOR drop_bit 27 (y XOR drop_bit 27 y) XOR drop_bit 54 (y XOR drop_bit 27 y) = (y::u64)"
  by (rule bit_word_eqI) (auto simp: bit_simps dest: bit_imp_le_length)

lemma xorshift_inject: "y XOR drop_bit 27 y = z XOR drop_bit 27 z \<longleftrightarrow> y = (z :: u64)"
  by (metis unshift_27)

lemma odd_mult_inject: "y * 0x9E3779B1 = z * 0x9E3779B1 \<longleftrightarrow> y = (z :: u64)"
proof -
  have one: "(0x9E3779B1 * 14962265741255716689 :: u64) = 1" by simp
  have "x * 0x9E3779B1 * 14962265741255716689 = (x :: u64)" for x
    by (simp only: mult.assoc one mult_1_right)
  then show ?thesis by metis
qed

lemma xor_byte_inject: "h XOR b = k XOR b \<longleftrightarrow> h = (k :: u64)"
proof
  assume "h XOR b = k XOR b"
  then have "(h XOR b) XOR b = (k XOR b) XOR b" by simp
  then show "h = k" by (simp only: xor.assoc xor_self_eq xor.right_neutral)
qed simp

lemma hash_step_inject: "hash_step h b = hash_step k b \<longleftrightarrow> h = k"
  unfolding hash_step_def Let_def by (simp only: xorshift_inject odd_mult_inject xor_byte_inject)

lemma hash_bytes_inject: "hash_bytes_u64 h bs = hash_bytes_u64 k bs \<longleftrightarrow> h = k"
  by (induction bs arbitrary: h k) (simp_all add: hash_bytes_u64_def hash_step_inject)

section \<open>Accessors invert constructors\<close>

lemma ensure_kind_Ok [simp]: "ensure_kind C p k = Ok () \<longleftrightarrow> get_data_type C (pkt_ty p) = k"
  by (simp add: ensure_kind_def Let_def)

lemma length_concat_le_bytes [simp]: "length (concat (map (to_le_bytes w) vs)) = length vs * w"
  by (induction vs) auto

lemma chunks_exact_le_bytes: "0 < w \<Longrightarrow> chunks_exact w (concat (map (to_le_bytes w) vs)) = map (to_le_bytes w) vs"
  by (rule chunks_exact_concat) auto

lemma as_le_bytes_encoded:
  assumes "payload p = concat (map (to_le_bytes w) (vs :: 'a::len word list))"
    and "LENGTH('a) = 8 * w" and "get_data_type C (pkt_ty p) = k"
  shows "as_le_bytes C p k w = Ok vs"
proof -
  have w: "0 < w" using assms(2) by (cases w) auto
  have rt: "from_le_bytes (to_le_bytes w v) = v" for v :: "'a word"
    using assms(2) by (simp add: from_to_le_bytes)
  show ?thesis
    using assms(1,3) w
    by (simp add: as_le_bytes_def ensure_kind_def Let_def chunks_exact_le_bytes rt comp_def)
qed

lemma from_prim_Ok:
  assumes "from_prim_le_slice_with_sender C ty w vs eps sender ts = Ok p"
  shows "packet_new C ty eps sender ts (concat (map (to_le_bytes w) vs)) = Ok p"
    and "get_data_type C ty \<notin> {Bool_T, String_T, Binary}"
    and "data_type_size C (get_data_type C ty) = w"
  using assms
  by (auto simp: from_prim_le_slice_with_sender_def Let_def outcome_simps split: if_splits)

lemma from_u64_slice_payload:
  assumes "from_u64_slice C ty vs eps ts = Ok p"
  shows "pkt_ty p = ty" "pkt_sender p = device_identifier C" "pkt_timestamp p = ts"
    "data_as_u64 C p = Ok vs \<or> get_data_type C ty \<noteq> UInt64"
proof -
  have new: "packet_new C ty eps (device_identifier C) ts (concat (map (to_le_bytes 8) vs)) = Ok p"
    using assms from_prim_Ok by (auto simp: from_u64_slice_def from_prim_le_slice_def)
  show "pkt_ty p = ty" "pkt_sender p = device_identifier C" "pkt_timestamp p = ts"
    using new by (auto dest: packet_new_fields)
  show "data_as_u64 C p = Ok vs \<or> get_data_type C ty \<noteq> UInt64"
    using new as_le_bytes_encoded [of p 8 vs C UInt64]
    by (auto simp: data_as_u64_def packet_new_fields)
qed

end
