(* ===== verification/Wire_Format.thy ===== *)
theory Wire_Format
  imports Packet
begin

text \<open>
  \<open>src/serialize.rs\<close>: the compact v2 wire format. \<open>env\<close> adds to the configuration what the
  module takes from outside the repository: the checksum of \<open>crc32fast\<close>, the two calls into
  \<open>zstd_safe\<close> (capacity of the output buffer, input, \<open>None\<close> on error) and whether the
  \<open>compression\<close> feature is on. The five functions that walk a frame repeat the reading of its
  fixed header; that shared code is \<open>read_prelude\<close>, \<open>type_from_raw\<close> and
  \<open>read_endpoints\<close> here.
\<close>

record env = config +
  compression_feature :: bool
  crc32 :: "bytes \<Rightarrow> u32"
  zstd_compress :: "nat \<Rightarrow> bytes \<Rightarrow> bytes option"
  zstd_decompress :: "nat \<Rightarrow> bytes \<Rightarrow> bytes option"

text \<open>
  What \<open>zstd\<close> documents: the output fits the buffer, and decompressing a compressed frame into a
  buffer of the original length gives the original.
\<close>

definition zstd_ok :: "env \<Rightarrow> bool" where
  "zstd_ok E \<longleftrightarrow>
     (\<forall>cap x c. zstd_compress E cap x = Some c \<longrightarrow>
        0 < length c \<and> length c \<le> cap \<and> zstd_decompress E (length x) c = Some x)"

record telemetry_envelope =
  te_ty :: data_type
  te_endpoints :: "data_endpoint list"
  te_sender :: bytes
  te_timestamp_ms :: u64

record reliable_header =
  rh_flags :: u8
  rh_seq :: u32
  rh_ack :: u32

definition RELIABLE_FLAG_ACK_ONLY :: u8 where "RELIABLE_FLAG_ACK_ONLY = 0x01"
definition RELIABLE_FLAG_UNORDERED :: u8 where "RELIABLE_FLAG_UNORDERED = 0x02"
definition RELIABLE_FLAG_UNSEQUENCED :: u8 where "RELIABLE_FLAG_UNSEQUENCED = 0x80"
definition RELIABLE_HEADER_BYTES :: nat where "RELIABLE_HEADER_BYTES = 1 + 4 + 4"
definition CRC32_BYTES :: nat where "CRC32_BYTES = 4"
definition FLAG_COMPRESSED_PAYLOAD :: u8 where "FLAG_COMPRESSED_PAYLOAD = 0x01"
definition FLAG_COMPRESSED_SENDER :: u8 where "FLAG_COMPRESSED_SENDER = 0x02"

lemmas wire_constants =
  RELIABLE_FLAG_ACK_ONLY_def RELIABLE_FLAG_UNORDERED_def RELIABLE_FLAG_UNSEQUENCED_def
  RELIABLE_HEADER_BYTES_def CRC32_BYTES_def FLAG_COMPRESSED_PAYLOAD_def FLAG_COMPRESSED_SENDER_def

section \<open>ULEB128\<close>

function write_uleb128 :: "u64 \<Rightarrow> bytes" where
  "write_uleb128 v =
     (let byte = (ucast (v AND 0x7F) :: u8);
          v' = drop_bit 7 v
      in if v' \<noteq> 0 then (byte OR 0x80) # write_uleb128 v' else [byte])"
  by pat_completeness auto
termination
proof (relation "measure unat")
  show "wf (measure (unat :: u64 \<Rightarrow> nat))" by simp
next
  fix v v' :: u64 and byte :: u8
  assume "v' = drop_bit 7 v" and "v' \<noteq> 0"
  then show "(v', v) \<in> measure unat"
    by (simp add: drop_bit_decreases)
qed

declare write_uleb128.simps [simp del]

function uleb128_size_loop :: "u64 \<Rightarrow> nat \<Rightarrow> nat" where
  "uleb128_size_loop v n = (if v \<ge> 0x80 then uleb128_size_loop (drop_bit 7 v) (n + 1) else n)"
  by pat_completeness auto
termination
  by (relation "measure (unat \<circ> fst)") (auto simp: unat_drop_bit_div word_le_nat_alt)

declare uleb128_size_loop.simps [simp del]

definition uleb128_size :: "u64 \<Rightarrow> nat" where
  "uleb128_size v = uleb128_size_loop v 1"

section \<open>The byte cursor\<close>

record byte_reader =
  rd_buf :: bytes
  rd_off :: nat

definition reader_new :: "bytes \<Rightarrow> byte_reader" where
  "reader_new buf = \<lparr>rd_buf = buf, rd_off = 0\<rparr>"

definition remaining :: "byte_reader \<Rightarrow> nat" where
  "remaining r = length (rd_buf r) - rd_off r"

definition read_bytes :: "nat \<Rightarrow> byte_reader \<Rightarrow> (bytes \<times> byte_reader) telemetry_result" where
  "read_bytes n r =
     (if remaining r < n then Err (Deserialize ''short read'')
      else Ok (take n (drop (rd_off r) (rd_buf r)), r\<lparr>rd_off := rd_off r + n\<rparr>))"

definition read_byte :: "byte_reader \<Rightarrow> (u8 \<times> byte_reader) telemetry_result" where
  "read_byte r = andthen (read_bytes 1 r) (\<lambda>(bs, r). Ok (bs ! 0, r))"

fun read_uleb128_loop :: "nat \<Rightarrow> u64 \<Rightarrow> nat \<Rightarrow> byte_reader \<Rightarrow> (u64 \<times> byte_reader) telemetry_result" where
  "read_uleb128_loop 0 result shift r = Err (Deserialize ''uleb128 too long'')"
| "read_uleb128_loop (Suc n) result shift r =
     andthen (read_byte r) (\<lambda>(b, r).
       let result = result OR push_bit shift (ucast (b AND 0x7F)) in
       if b AND 0x80 = 0 then Ok (result, r)
       else read_uleb128_loop n result (shift + 7) r)"

definition read_uleb128 :: "byte_reader \<Rightarrow> (u64 \<times> byte_reader) telemetry_result" where
  "read_uleb128 r = read_uleb128_loop 10 0 0 r"

definition read_u32_le :: "byte_reader \<Rightarrow> (u32 \<times> byte_reader) telemetry_result" where
  "read_u32_le r = andthen (read_bytes 4 r) (\<lambda>(b, r). Ok (from_le_bytes b, r))"

definition write_u32_le :: "u32 \<Rightarrow> bytes" where
  "write_u32_le v = to_le_bytes 4 v"

section \<open>Checksum trailer\<close>

definition append_crc32 :: "env \<Rightarrow> bytes \<Rightarrow> bytes" where
  "append_crc32 E out = out @ to_le_bytes 4 (crc32 E out)"

definition split_crc32 :: "bytes \<Rightarrow> (bytes \<times> u32) telemetry_result" where
  "split_crc32 buf =
     (if length buf < CRC32_BYTES then Err (Deserialize ''short buffer'')
      else let data_len = length buf - CRC32_BYTES
           in Ok (take data_len buf, from_le_bytes (drop data_len buf)))"

definition verify_crc32 :: "env \<Rightarrow> bytes \<Rightarrow> bytes telemetry_result" where
  "verify_crc32 E buf =
     andthen (split_crc32 buf) (\<lambda>(data, expected).
       if crc32 E data \<noteq> expected then Err (Deserialize ''crc32 mismatch'') else Ok data)"

section \<open>Reliable header\<close>

definition write_reliable_header :: "reliable_header \<Rightarrow> bytes" where
  "write_reliable_header h = rh_flags h # write_u32_le (rh_seq h) @ write_u32_le (rh_ack h)"

definition read_reliable_header :: "byte_reader \<Rightarrow> (reliable_header \<times> byte_reader) telemetry_result" where
  "read_reliable_header r =
     andthen (read_byte r) (\<lambda>(flags, r).
     andthen (read_u32_le r) (\<lambda>(seq, r).
     andthen (read_u32_le r) (\<lambda>(ack, r).
     Ok (\<lparr>rh_flags = flags, rh_seq = seq, rh_ack = ack\<rparr>, r))))"

section \<open>Payload compression\<close>

definition compress_to_vec_bounded :: "env \<Rightarrow> bytes \<Rightarrow> nat \<Rightarrow> bytes option" where
  "compress_to_vec_bounded E input max_output =
     (if input = [] \<or> max_output = 0 then None else zstd_compress E max_output input)"

definition compress_if_beneficial :: "env \<Rightarrow> bytes \<Rightarrow> bool \<times> bytes" where
  "compress_if_beneficial E data =
     (if \<not> compression_feature E then (False, data)
      else if length data < payload_compress_threshold E then (False, data)
      else (case compress_to_vec_bounded E data (length data - 2) of
              None \<Rightarrow> (False, data)
            | Some compressed \<Rightarrow>
                if length compressed + 1 \<ge> length data then (False, data) else (True, compressed)))"

text \<open>\<open>vec![0u8; expected_len]\<close> panics above \<open>isize::MAX\<close> bytes.\<close>

definition decompress :: "env \<Rightarrow> bytes \<Rightarrow> nat \<Rightarrow> bytes telemetry_result" where
  "decompress E compressed expected_len =
     (if \<not> compression_feature E
      then Err (Deserialize ''compressed payloads not supported (compression feature disabled)'')
      else if expected_len > isize_max then Panic ''capacity overflow''
      else (case zstd_decompress E expected_len compressed of
              None \<Rightarrow> Err (Deserialize ''decompression failed'')
            | Some out \<Rightarrow>
                if length out \<noteq> expected_len then Err (Deserialize ''decompressed size mismatch'')
                else Ok out))"

definition decode_sender_name :: "env \<Rightarrow> bytes \<Rightarrow> bool \<Rightarrow> nat \<Rightarrow> bytes telemetry_result" where
  "decode_sender_name E wire compressed sender_len =
     (if compressed then
        andthen (decompress E wire sender_len) (\<lambda>d.
          if from_utf8 d then Ok d else Err (Deserialize ''sender not UTF-8 after decompress''))
      else if from_utf8 wire then Ok wire else Err (Deserialize ''sender not UTF-8''))"

section \<open>Endpoint bitmap\<close>

definition EP_BITMAP_BITS :: "'z schema_scheme \<Rightarrow> nat" where
  "EP_BITMAP_BITS E = unat (max_value_data_endpoint E) + 1"

definition EP_BITMAP_BYTES :: "'z schema_scheme \<Rightarrow> nat" where
  "EP_BITMAP_BYTES E = (EP_BITMAP_BITS E + 7) div 8"

definition bitmap_set :: "bytes \<Rightarrow> nat \<Rightarrow> bytes" where
  "bitmap_set bm idx = bm[idx div 8 := bm ! (idx div 8) OR push_bit (idx mod 8) 1]"

definition bitmap_test :: "bytes \<Rightarrow> nat \<Rightarrow> bool" where
  "bitmap_test bm idx \<longleftrightarrow> drop_bit (idx mod 8) (bm ! (idx div 8)) AND 1 \<noteq> 0"

definition build_endpoint_bitmap :: "'z schema_scheme \<Rightarrow> data_endpoint list \<Rightarrow> bytes" where
  "build_endpoint_bitmap E eps =
     foldl (\<lambda>bm ep. let idx = unat (ep_u32 E ep) in
              if idx < EP_BITMAP_BITS E then bitmap_set bm idx else bm)
       (replicate (EP_BITMAP_BYTES E) 0) eps"

definition expand_endpoint_bitmap :: "'z schema_scheme \<Rightarrow> bytes \<Rightarrow> data_endpoint list telemetry_result" where
  "expand_endpoint_bitmap E bm =
     (if length bm \<noteq> EP_BITMAP_BYTES E then Err (Deserialize ''bad endpoint bitmap size'')
      else try_map
             (\<lambda>idx. ok_or (Deserialize ''bad endpoint bit set'') (data_endpoint_try_from_u32 E (of_nat idx)))
             (filter (bitmap_test bm) [0..<EP_BITMAP_BITS E]))"

definition count_ones :: "u8 \<Rightarrow> nat" where
  "count_ones b = length (filter (bit b) [0..<8])"

definition bitmap_popcount :: "bytes \<Rightarrow> nat" where
  "bitmap_popcount bm = sum_list (map count_ones bm)"

section \<open>Serialization\<close>

definition frame_flags :: "bool \<Rightarrow> bool \<Rightarrow> u8" where
  "frame_flags payload_compressed sender_compressed =
     (let flags = 0;
          flags = (if payload_compressed then flags OR FLAG_COMPRESSED_PAYLOAD else flags)
      in if sender_compressed then flags OR FLAG_COMPRESSED_SENDER else flags)"

definition serialize_packet_inner :: "env \<Rightarrow> packet \<Rightarrow> reliable_header option \<Rightarrow> bytes telemetry_result" where
  "serialize_packet_inner E pkt reliable =
     (let bm = build_endpoint_bitmap E (pkt_endpoints pkt);
          sender_bytes = pkt_sender pkt;
          (sender_compressed, sender_wire) = compress_if_beneficial E sender_bytes;
          (payload_compressed, payload_wire) = compress_if_beneficial E (payload pkt);
          nep_unique = bitmap_popcount bm
      in if \<not> nep_unique \<le> 255 then Panic ''too many endpoints selected to fit in NEP u8''
         else Ok (append_crc32 E
           ([frame_flags payload_compressed sender_compressed, of_nat nep_unique]
            @ write_uleb128 (of_nat (type_index E (pkt_ty pkt)))
            @ write_uleb128 (of_nat (pkt_data_size pkt))
            @ write_uleb128 (pkt_timestamp pkt)
            @ write_uleb128 (of_nat (length sender_bytes))
            @ (if sender_compressed then write_uleb128 (of_nat (length sender_wire)) else [])
            @ bm @ sender_wire
            @ (case reliable of Some hdr \<Rightarrow> write_reliable_header hdr | None \<Rightarrow> [])
            @ payload_wire)))"

definition serialize_packet_with_reliable :: "env \<Rightarrow> packet \<Rightarrow> reliable_header \<Rightarrow> bytes telemetry_result" where
  "serialize_packet_with_reliable E pkt header = serialize_packet_inner E pkt (Some header)"

definition serialize_packet :: "env \<Rightarrow> packet \<Rightarrow> bytes telemetry_result" where
  "serialize_packet E pkt =
     (if is_reliable_type E (pkt_ty pkt)
      then serialize_packet_with_reliable E pkt
             \<lparr>rh_flags = RELIABLE_FLAG_UNSEQUENCED, rh_seq = 0, rh_ack = 0\<rparr>
      else serialize_packet_inner E pkt None)"

definition serialize_reliable_ack :: "env \<Rightarrow> bytes \<Rightarrow> data_type \<Rightarrow> u64 \<Rightarrow> u32 \<Rightarrow> bytes" where
  "serialize_reliable_ack E sender ty timestamp_ms ack =
     (let bm = replicate (EP_BITMAP_BYTES E) 0;
          (sender_compressed, sender_wire) = compress_if_beneficial E sender
      in append_crc32 E
           ([frame_flags False sender_compressed, 0]
            @ write_uleb128 (of_nat (type_index E ty))
            @ write_uleb128 0
            @ write_uleb128 timestamp_ms
            @ write_uleb128 (of_nat (length sender))
            @ (if sender_compressed then write_uleb128 (of_nat (length sender_wire)) else [])
            @ bm @ sender_wire
            @ write_reliable_header \<lparr>rh_flags = RELIABLE_FLAG_ACK_ONLY, rh_seq = 0, rh_ack = ack\<rparr>))"

section \<open>Deserialization\<close>

record wire_header =
  wh_flags :: u8
  wh_nep :: nat
  wh_ty :: u64
  wh_dsz :: nat
  wh_ts :: u64
  wh_slen :: nat
  wh_sender_wire_len :: nat

definition wh_payload_compressed :: "wire_header \<Rightarrow> bool" where
  "wh_payload_compressed h \<longleftrightarrow> wh_flags h AND FLAG_COMPRESSED_PAYLOAD \<noteq> 0"

definition wh_sender_compressed :: "wire_header \<Rightarrow> bool" where
  "wh_sender_compressed h \<longleftrightarrow> wh_flags h AND FLAG_COMPRESSED_SENDER \<noteq> 0"

definition read_prelude :: "byte_reader \<Rightarrow> (wire_header \<times> byte_reader) telemetry_result" where
  "read_prelude r =
     andthen (read_byte r) (\<lambda>(flags, r).
     andthen (read_byte r) (\<lambda>(nep, r).
     andthen (read_uleb128 r) (\<lambda>(ty_v, r).
     andthen (read_uleb128 r) (\<lambda>(dsz, r).
     andthen (read_uleb128 r) (\<lambda>(ts_v, r).
     andthen (read_uleb128 r) (\<lambda>(slen, r).
     andthen (if flags AND FLAG_COMPRESSED_SENDER \<noteq> 0 then read_uleb128 r else Ok (slen, r))
       (\<lambda>(swl, r).
     Ok (\<lparr>wh_flags = flags, wh_nep = unat nep, wh_ty = ty_v, wh_dsz = unat dsz, wh_ts = ts_v,
          wh_slen = unat slen, wh_sender_wire_len = unat swl\<rparr>, r))))))))"

definition type_from_raw :: "'z schema_scheme \<Rightarrow> u64 \<Rightarrow> data_type telemetry_result" where
  "type_from_raw E ty_v =
     (if ty_v > 0xFFFFFFFF then Err (Deserialize ''type too large'')
      else if (ucast ty_v :: u32) > max_value_data_type E then Err InvalidType
      else ok_or InvalidType (data_type_try_from_u32 E (ucast ty_v)))"

definition is_reliable_type_from_raw :: "'z schema_scheme \<Rightarrow> u64 \<Rightarrow> bool telemetry_result" where
  "is_reliable_type_from_raw E ty_v =
     andthen (type_from_raw E ty_v) (\<lambda>ty. Ok (is_reliable_type E ty))"

definition read_endpoints ::
  "'z schema_scheme \<Rightarrow> wire_header \<Rightarrow> byte_reader \<Rightarrow> (data_endpoint list \<times> byte_reader) telemetry_result" where
  "read_endpoints E h r =
     andthen (read_bytes (EP_BITMAP_BYTES E) r) (\<lambda>(bm, r).
     andthen (expand_endpoint_bitmap E bm) (\<lambda>eps.
     if length eps \<noteq> wh_nep h then Err (Deserialize ''endpoint count mismatch'') else Ok (eps, r)))"

definition read_sender ::
  "env \<Rightarrow> wire_header \<Rightarrow> byte_reader \<Rightarrow> (bytes \<times> byte_reader) telemetry_result" where
  "read_sender E h r =
     andthen (read_bytes (wh_sender_wire_len h) r) (\<lambda>(wire, r).
     andthen (decode_sender_name E wire (wh_sender_compressed h) (wh_slen h)) (\<lambda>sender.
     Ok (sender, r)))"

text \<open>The optional reliable header of a data frame; an ACK-only frame is not a packet.\<close>

definition skip_reliable_header ::
  "'z schema_scheme \<Rightarrow> data_type \<Rightarrow> byte_reader \<Rightarrow> byte_reader telemetry_result" where
  "skip_reliable_header E ty r =
     (if is_reliable_type E ty then
        andthen (read_reliable_header r) (\<lambda>(hdr, r).
          if rh_flags hdr AND RELIABLE_FLAG_ACK_ONLY \<noteq> 0
          then Err (Deserialize ''reliable control frame'') else Ok r)
      else Ok r)"

definition deserialize_packet :: "env \<Rightarrow> bytes \<Rightarrow> packet telemetry_result" where
  "deserialize_packet E buf =
     andthen (verify_crc32 E buf) (\<lambda>data.
     if data = [] then Err (Deserialize ''short prelude'') else
     andthen (read_prelude (reader_new data)) (\<lambda>(h, r).
     andthen (is_reliable_type_from_raw E (wh_ty h)) (\<lambda>reliable.
     let reliable_len = (if reliable then RELIABLE_HEADER_BYTES else 0) in
     if remaining r < wadd (wadd (wadd (EP_BITMAP_BYTES E) (wh_sender_wire_len h)) reliable_len)
                        (if wh_payload_compressed h then 1 else wh_dsz h)
     then Err (Deserialize ''short buffer'') else
     andthen (read_endpoints E h r) (\<lambda>(eps, r).
     andthen (read_sender E h r) (\<lambda>(sender, r).
     andthen (type_from_raw E (wh_ty h)) (\<lambda>ty.
     andthen (skip_reliable_header E ty r) (\<lambda>r.
     andthen (if \<not> wh_payload_compressed h
              then andthen (read_bytes (wh_dsz h) r) (\<lambda>(p, r). Ok p)
              else andthen (read_bytes (remaining r) r) (\<lambda>(c, r). decompress E c (wh_dsz h))) (\<lambda>p.
     packet_new E ty eps sender (wh_ts h) p))))))))"

text \<open>
  The part of the header that \<open>peek_envelope\<close> and \<open>peek_frame_info_inner\<close> share, up to
  and including the type.
\<close>

definition read_envelope ::
  "env \<Rightarrow> bytes \<Rightarrow> (telemetry_envelope \<times> byte_reader) telemetry_result" where
  "read_envelope E data =
     (if data = [] then Err (Deserialize ''short prelude'') else
     andthen (read_prelude (reader_new data)) (\<lambda>(h, r).
     if remaining r < wadd (EP_BITMAP_BYTES E) (wh_sender_wire_len h)
     then Err (Deserialize ''short buffer'') else
     andthen (read_endpoints E h r) (\<lambda>(eps, r).
     andthen (read_sender E h r) (\<lambda>(sender, r).
     andthen (type_from_raw E (wh_ty h)) (\<lambda>ty.
     Ok (\<lparr>te_ty = ty, te_endpoints = eps, te_sender = sender, te_timestamp_ms = wh_ts h\<rparr>, r))))))"

definition peek_envelope :: "env \<Rightarrow> bytes \<Rightarrow> telemetry_envelope telemetry_result" where
  "peek_envelope E buf =
     andthen (verify_crc32 E buf) (\<lambda>data.
     andthen (read_envelope E data) (\<lambda>(envelope, r). Ok envelope))"

record telemetry_frame_info =
  fi_envelope :: telemetry_envelope
  fi_reliable :: "reliable_header option"

definition ack_only :: "telemetry_frame_info \<Rightarrow> bool" where
  "ack_only fi =
     (case fi_reliable fi of Some h \<Rightarrow> rh_flags h AND RELIABLE_FLAG_ACK_ONLY \<noteq> 0 | None \<Rightarrow> False)"

definition peek_frame_info_inner :: "env \<Rightarrow> bytes \<Rightarrow> telemetry_frame_info telemetry_result" where
  "peek_frame_info_inner E buf =
     andthen (read_envelope E buf) (\<lambda>(envelope, r).
     andthen (if is_reliable_type E (te_ty envelope)
              then (if remaining r < RELIABLE_HEADER_BYTES then Err (Deserialize ''short buffer'')
                    else andthen (read_reliable_header r) (\<lambda>(hdr, r). Ok (Some hdr)))
              else Ok None) (\<lambda>reliable.
     Ok \<lparr>fi_envelope = envelope, fi_reliable = reliable\<rparr>))"

definition peek_frame_info :: "env \<Rightarrow> bytes \<Rightarrow> telemetry_frame_info telemetry_result" where
  "peek_frame_info E buf = andthen (verify_crc32 E buf) (peek_frame_info_inner E)"

definition peek_frame_info_unchecked :: "env \<Rightarrow> bytes \<Rightarrow> telemetry_frame_info telemetry_result" where
  "peek_frame_info_unchecked E buf = andthen (split_crc32 buf) (\<lambda>(data, crc). peek_frame_info_inner E data)"

definition reliable_header_offset :: "'z schema_scheme \<Rightarrow> bytes \<Rightarrow> nat option telemetry_result" where
  "reliable_header_offset E buf =
     (if length buf < CRC32_BYTES + 1 then Err (Deserialize ''short prelude'')
      else
        (let data_len = length buf - CRC32_BYTES in
         andthen (read_prelude (reader_new (take data_len buf))) (\<lambda>(h, r).
         if remaining r < wadd (EP_BITMAP_BYTES E) (wh_sender_wire_len h)
         then Err (Deserialize ''short buffer'') else
         andthen (read_bytes (EP_BITMAP_BYTES E) r) (\<lambda>(_, r).
         andthen (read_bytes (wh_sender_wire_len h) r) (\<lambda>(_, r).
         andthen (type_from_raw E (wh_ty h)) (\<lambda>ty.
         if \<not> is_reliable_type E ty then Ok None else Ok (Some (rd_off r))))))))"

text \<open>\<open>buf[off..off + n].copy_from_slice(xs)\<close>\<close>

definition copy_into :: "nat \<Rightarrow> bytes \<Rightarrow> bytes \<Rightarrow> bytes" where
  "copy_into off xs buf = take off buf @ xs @ drop (off + length xs) buf"

definition rewrite_reliable_header ::
  "env \<Rightarrow> bytes \<Rightarrow> u8 \<Rightarrow> u32 \<Rightarrow> u32 \<Rightarrow> (bool \<times> bytes) telemetry_result" where
  "rewrite_reliable_header E buf flags seq ack =
     andthen (reliable_header_offset E buf) (\<lambda>found.
     case found of
       None \<Rightarrow> Ok (False, buf)
     | Some off \<Rightarrow>
         (let data_len = length buf - CRC32_BYTES in
          if data_len - off < RELIABLE_HEADER_BYTES then Err (Deserialize ''short buffer'')
          else
            (let buf = buf[off := flags];
                 buf = copy_into (off + 1) (to_le_bytes 4 seq) buf;
                 buf = copy_into (off + 5) (to_le_bytes 4 ack) buf
             in if length buf < CRC32_BYTES then Err (Deserialize ''short buffer'')
                else Ok (True, copy_into data_len (to_le_bytes 4 (crc32 E (take data_len buf))) buf))))"

section \<open>Sizes and identifiers\<close>

definition header_size_bytes :: "env \<Rightarrow> packet \<Rightarrow> nat" where
  "header_size_bytes E pkt =
     (let prelude = 2;
          (sender_compressed, sender_wire) = compress_if_beneficial E (pkt_sender pkt)
      in prelude
         + uleb128_size (of_nat (type_index E (pkt_ty pkt)))
         + uleb128_size (of_nat (pkt_data_size pkt))
         + uleb128_size (pkt_timestamp pkt)
         + uleb128_size (of_nat (length (pkt_sender pkt)))
         + (if sender_compressed then uleb128_size (of_nat (length sender_wire)) else 0))"

definition packet_wire_size :: "env \<Rightarrow> packet \<Rightarrow> nat" where
  "packet_wire_size E pkt =
     (let header = header_size_bytes E pkt;
          (sender_compressed, sender_wire) = compress_if_beneficial E (pkt_sender pkt);
          (payload_compressed, payload_wire) = compress_if_beneficial E (payload pkt);
          reliable_len = (if is_reliable_type E (pkt_ty pkt) then RELIABLE_HEADER_BYTES else 0)
      in header + EP_BITMAP_BYTES E + length sender_wire + reliable_len + length payload_wire + CRC32_BYTES)"

definition packet_id_from_wire :: "env \<Rightarrow> bytes \<Rightarrow> u64 telemetry_result" where
  "packet_id_from_wire E buf =
     andthen (verify_crc32 E buf) (\<lambda>data.
     if length data < 2 then Err (Deserialize ''short prelude'') else
     andthen (read_prelude (reader_new data)) (\<lambda>(h, r).
     if remaining r < wadd (EP_BITMAP_BYTES E) (wh_sender_wire_len h)
     then Err (Deserialize ''short buffer'') else
     andthen (read_bytes (EP_BITMAP_BYTES E) r) (\<lambda>(bm, r).
     andthen (type_from_raw E (wh_ty h)) (\<lambda>ty.
     andthen (read_bytes (wh_sender_wire_len h) r) (\<lambda>(sender_wire, r).
     andthen (if wh_sender_compressed h then decompress E sender_wire (wh_slen h) else Ok sender_wire)
       (\<lambda>sender.
     andthen (skip_reliable_header E ty r) (\<lambda>r.
     andthen (if \<not> wh_payload_compressed h
              then (if remaining r < wh_dsz h then Err (Deserialize ''short buffer'')
                    else andthen (read_bytes (wh_dsz h) r) (\<lambda>(p, r). Ok p))
              else (if remaining r < 1 then Err (Deserialize ''short buffer'')
                    else andthen (read_bytes (remaining r) r) (\<lambda>(c, r). decompress E c (wh_dsz h))))
       (\<lambda>payload_bytes.
     let h0 = hash_bytes_u64 packet_id_seed sender;
         h1 = hash_bytes_u64 h0 (get_message_name E ty) in
     andthen (try_map (\<lambda>idx.
          if of_nat idx > max_value_data_endpoint E then Err (Deserialize ''bad endpoint bit set'')
          else ok_or (Deserialize ''bad endpoint bit set'') (data_endpoint_try_from_u32 E (of_nat idx)))
        (filter (bitmap_test bm) [0..<EP_BITMAP_BITS E])) (\<lambda>eps.
     let h2 = foldl (\<lambda>h ep. hash_bytes_u64 h (endpoint_as_str E ep)) h1 eps;
         h3 = hash_bytes_u64 h2 (to_le_bytes 8 (wh_ts h));
         h4 = hash_bytes_u64 h3 (to_le_bytes 8 (of_nat (wh_dsz h) :: u64))
     in Ok (hash_bytes_u64 h4 payload_bytes))))))))))"

end
