(* ===== verification/Wire_Codec.thy ===== *)
theory Wire_Codec
  imports Wire_Format
begin

text \<open>
  Reading back what was written. \<open>before r xs\<close> says that the cursor \<open>r\<close> stands before exactly
  the bytes \<open>xs\<close>. A field of the wire format is an encoder and a decoder that agree in the sense
  of the locale \<open>field_codec\<close>; the locale proves once that a sequence of such fields is read
  back, and every field of the format interprets it.
\<close>

definition before :: "byte_reader \<Rightarrow> bytes \<Rightarrow> bool" where
  "before r xs \<longleftrightarrow> rd_off r \<le> length (rd_buf r) \<and> drop (rd_off r) (rd_buf r) = xs"

definition advance :: "nat \<Rightarrow> byte_reader \<Rightarrow> byte_reader" where
  "advance n r = r\<lparr>rd_off := rd_off r + n\<rparr>"

lemma at_reader_new [simp]: "before (reader_new buf) buf"
  by (simp add: before_def reader_new_def)

lemma at_advance: "before r (xs @ ys) \<Longrightarrow> before (advance (length xs) r) ys"
  unfolding before_def advance_def
  by (auto simp flip: drop_drop simp: add.commute)
    (metis Nat.le_diff_conv2 length_append length_drop le_add1)

lemma at_remaining: "before r xs \<Longrightarrow> remaining r = length xs"
  by (auto simp: before_def remaining_def)

lemma advance_advance [simp]: "advance m (advance n r) = advance (n + m) r"
  by (simp add: advance_def add.assoc)

lemma advance_0 [simp]: "advance 0 r = r"
  by (simp add: advance_def)

lemma rd_buf_advance [simp]: "rd_buf (advance n r) = rd_buf r"
  by (simp add: advance_def)

lemma rd_off_advance [simp]: "rd_off (advance n r) = rd_off r + n"
  by (simp add: advance_def)

lemma read_bytes_at: "before r (xs @ ys) \<Longrightarrow> length xs = n \<Longrightarrow> read_bytes n r = Ok (xs, advance n r)"
  by (auto simp: read_bytes_def at_remaining advance_def) (simp add: before_def)

lemma read_byte_at: "before r (b # ys) \<Longrightarrow> read_byte r = Ok (b, advance (Suc 0) r)"
  using read_bytes_at [of r "[b]" ys 1] by (simp add: read_byte_def)

section \<open>The contract of a field\<close>

text \<open>The loop \<open>for _ in 0..count\<close> around a decoder.\<close>

fun read_many ::
  "(byte_reader \<Rightarrow> ('a \<times> byte_reader) telemetry_result) \<Rightarrow> nat \<Rightarrow> byte_reader \<Rightarrow>
     ('a list \<times> byte_reader) telemetry_result" where
  "read_many dec 0 r = Ok ([], r)"
| "read_many dec (Suc n) r =
     andthen (dec r) (\<lambda>(v, r). andthen (read_many dec n r) (\<lambda>(vs, r). Ok (v # vs, r)))"

locale field_codec =
  fixes enc :: "'a \<Rightarrow> bytes"
    and dec :: "byte_reader \<Rightarrow> ('a \<times> byte_reader) telemetry_result"
    and valid :: "'a \<Rightarrow> bool"
  assumes dec_enc: "valid v \<Longrightarrow> before r (enc v @ rest) \<Longrightarrow> dec r = Ok (v, advance (length (enc v)) r)"
begin

lemma read_many_enc:
  "list_all valid vs \<Longrightarrow> before r (concat (map enc vs) @ rest) \<Longrightarrow>
     read_many dec (length vs) r = Ok (vs, advance (length (concat (map enc vs))) r)"
proof (induction vs arbitrary: r)
  case Nil
  then show ?case by simp
next
  case (Cons v vs)
  from Cons.prems have here: "before r (enc v @ (concat (map enc vs) @ rest))" by simp
  then have "before (advance (length (enc v)) r) (concat (map enc vs) @ rest)"
    by (rule at_advance)
  with Cons.IH Cons.prems(1) show ?case
    by (simp add: dec_enc [OF _ here])
qed

lemma dec_enc_injective:
  assumes "valid v" and "valid w" and "enc v @ xs = enc w @ ys"
  shows "v = w \<and> xs = ys"
proof -
  have "dec (reader_new (enc v @ xs)) = Ok (v, advance (length (enc v)) (reader_new (enc v @ xs)))"
    using assms(1) by (rule dec_enc [where rest = xs]) simp
  moreover have "dec (reader_new (enc w @ ys)) = Ok (w, advance (length (enc w)) (reader_new (enc w @ ys)))"
    using assms(2) by (rule dec_enc [where rest = ys]) simp
  ultimately show ?thesis using assms(3) by simp
qed

end

section \<open>ULEB128\<close>

lemma and_127: "(v :: 'a::len word) AND 0x7F = take_bit 7 v"
proof -
  have "(0x7F :: 'a word) = mask 7" by (simp add: mask_eq_exp_minus_1)
  then show ?thesis by (simp add: take_bit_eq_mask)
qed

lemma bit_128: "bit (0x80 :: int) n \<longleftrightarrow> n = 7"
proof -
  have "bit (2 ^ 7 :: int) n \<longleftrightarrow> n = 7" by (subst bit_exp_iff) auto
  then show ?thesis by simp
qed

lemma cont_byte_payload: "(ucast (take_bit 7 v :: u64) OR 0x80 :: u8) AND 0x7F = ucast (take_bit 7 v)"
  unfolding and_127 by (rule bit_word_eqI) (auto simp: bit_simps bit_128)

lemma last_byte_payload: "(ucast (take_bit 7 v :: u64) :: u8) AND 0x7F = ucast (take_bit 7 v)"
  unfolding and_127 by (rule bit_word_eqI) (auto simp: bit_simps)

lemma cont_byte_flag: "(b OR 0x80 :: u8) AND 0x80 \<noteq> 0"
proof -
  have "bit ((b OR 0x80) AND 0x80 :: u8) 7" by (simp add: bit_simps bit_128)
  then show ?thesis by auto
qed

lemma last_byte_flag: "(ucast (take_bit 7 v :: u64) :: u8) AND 0x80 = 0"
  by (rule bit_word_eqI) (auto simp: bit_simps bit_128)

lemma uleb_widen: "(ucast (ucast (take_bit 7 v :: u64) :: u8) :: u64) = take_bit 7 v"
  by (rule bit_word_eqI) (auto simp: bit_simps)

lemma uleb_join:
  "push_bit s (take_bit 7 v) OR push_bit (s + 7) (drop_bit 7 v) = push_bit s (v :: u64)"
proof (rule bit_word_eqI)
  fix n
  show "bit (push_bit s (take_bit 7 v) OR push_bit (s + 7) (drop_bit 7 v)) n \<longleftrightarrow> bit (push_bit s v) n"
  proof (cases "s + 7 \<le> n")
    case True
    then have "7 + (n - (s + 7)) = n - s" by simp
    with True show ?thesis by (auto simp: bit_simps)
  next
    case False
    then show ?thesis by (auto simp: bit_simps)
  qed
qed

lemma drop_bit_0_take: "drop_bit 7 (v :: u64) = 0 \<Longrightarrow> take_bit 7 v = v"
  by (metis bits_ident push_bit_of_0 add.left_neutral)

lemma read_uleb128_loop_write:
  assumes "before r (write_uleb128 v @ rest)" and "unat v < 2 ^ (7 * n)" and "0 < n"
  shows "read_uleb128_loop n acc s r =
    Ok (acc OR push_bit s v, advance (length (write_uleb128 v)) r)"
  using assms
proof (induction v arbitrary: n acc s r rule: write_uleb128.induct)
  case (1 v)
  obtain m where n: "n = Suc m" using "1.prems"(3) by (cases n) auto
  show ?case
  proof (cases "drop_bit 7 v = 0")
    case True
    have w: "write_uleb128 v = [ucast (take_bit 7 v)]"
      using True by (subst write_uleb128.simps) (simp add: Let_def and_127)
    have "read_byte r = Ok (ucast (take_bit 7 v), advance (Suc 0) r)"
      using "1.prems"(1) w by (intro read_byte_at) auto
    then have "read_uleb128_loop n acc s r = Ok (acc OR push_bit s (take_bit 7 v), advance (Suc 0) r)"
      by (simp add: n Let_def last_byte_payload last_byte_flag uleb_widen)
    then show ?thesis by (simp add: w drop_bit_0_take [OF True])
  next
    case False
    have w: "write_uleb128 v = (ucast (take_bit 7 v) OR 0x80) # write_uleb128 (drop_bit 7 v)"
      using False by (subst write_uleb128.simps) (simp add: Let_def and_127)
    have rb: "read_byte r = Ok (ucast (take_bit 7 v) OR 0x80, advance (Suc 0) r)"
      using "1.prems"(1) w by (intro read_byte_at) auto
    have here: "before (advance (Suc 0) r) (write_uleb128 (drop_bit 7 v) @ rest)"
      using "1.prems"(1) w at_advance [of r "[ucast (take_bit 7 v) OR 0x80]"] by simp
    have small: "unat (drop_bit 7 v) < 2 ^ (7 * m)"
      using "1.prems"(2) by (simp add: n unat_drop_bit_div power_add less_mult_imp_div_less mult.commute)
    have "0 < m" using small False by (cases m) (auto simp: unat_eq_0)
    note IH = "1.IH" [OF refl refl False here small this]
    show ?thesis
      by (simp add: n rb w Let_def cont_byte_payload cont_byte_flag uleb_widen IH
          or.assoc uleb_join)
  qed
qed

text \<open>Every 64-bit value is written as its ULEB128 bytes and read back from them.\<close>

interpretation uleb: field_codec write_uleb128 read_uleb128 "\<lambda>_. True"
proof
  fix v :: u64 and r rest
  assume "before r (write_uleb128 v @ rest)"
  moreover have "unat v < 2 ^ (7 * 10)"
    using unat_u64_bound [of v] by simp
  ultimately show "read_uleb128 r = Ok (v, advance (length (write_uleb128 v)) r)"
    unfolding read_uleb128_def by (subst read_uleb128_loop_write) auto
qed


section \<open>Fixed-width fields\<close>

interpretation u32le: field_codec write_u32_le read_u32_le "\<lambda>_. True"
proof
  fix v :: u32 and r rest
  assume "before r (write_u32_le v @ rest)"
  then have "read_bytes 4 r = Ok (write_u32_le v, advance 4 r)"
    by (rule read_bytes_at) (simp add: write_u32_le_def)
  then show "read_u32_le r = Ok (v, advance (length (write_u32_le v)) r)"
    by (simp add: read_u32_le_def write_u32_le_def)
qed

lemma length_write_reliable_header [simp]: "length (write_reliable_header h) = RELIABLE_HEADER_BYTES"
  by (simp add: write_reliable_header_def write_u32_le_def wire_constants)

interpretation relhdr: field_codec write_reliable_header read_reliable_header "\<lambda>_. True"
proof
  fix h :: reliable_header and r rest
  assume here: "before r (write_reliable_header h @ rest)"
  let ?r1 = "advance (Suc 0) r"
  let ?r2 = "advance 4 ?r1"
  have b: "read_byte r = Ok (rh_flags h, ?r1)"
    using here by (intro read_byte_at) (simp add: write_reliable_header_def)
  have at1: "before ?r1 (write_u32_le (rh_seq h) @ (write_u32_le (rh_ack h) @ rest))"
    using here at_advance [of r "[rh_flags h]"] by (simp add: write_reliable_header_def)
  have s: "read_u32_le ?r1 = Ok (rh_seq h, ?r2)"
    using u32le.dec_enc [OF TrueI at1] by (simp add: write_u32_le_def)
  have at2: "before ?r2 (write_u32_le (rh_ack h) @ rest)"
    using at_advance [OF at1] by (simp add: write_u32_le_def)
  have a: "read_u32_le ?r2 = Ok (rh_ack h, advance 4 ?r2)"
    using u32le.dec_enc [OF TrueI at2] by (simp add: write_u32_le_def)
  show "read_reliable_header r = Ok (h, advance (length (write_reliable_header h)) r)"
    unfolding read_reliable_header_def using b s a by (simp add: wire_constants)
qed

section \<open>The size function agrees with the writer\<close>

lemma uleb128_size_loop_write: "uleb128_size_loop v n + 1 = n + length (write_uleb128 v)"
proof (induction v n rule: uleb128_size_loop.induct)
  case (1 v n)
  have "v \<ge> 0x80 \<longleftrightarrow> drop_bit 7 v \<noteq> 0"
    by (simp add: word_le_nat_alt unat_drop_bit_div div_eq_0_iff not_less flip: unat_eq_0)
  with 1 show ?case
    by (subst uleb128_size_loop.simps, subst write_uleb128.simps) (auto simp: Let_def)
qed

lemma uleb128_size_write: "uleb128_size v = length (write_uleb128 v)"
  using uleb128_size_loop_write [of v 1] by (simp add: uleb128_size_def)

end
