(* ===== verification/Wire_Bitmap.thy ===== *)
theory Wire_Bitmap
  imports Wire_Codec
begin

text \<open>
  The endpoint bitmap of \<open>src/serialize.rs\<close>: a set bit per endpoint, so expanding what was built
  gives the endpoints in increasing order and without repetition, and the population count is their
  number.
\<close>

lemma EP_BITMAP_BITS_count: "schema_wf E \<Longrightarrow> EP_BITMAP_BITS E = data_endpoint_count E"
  by (simp add: EP_BITMAP_BITS_def unat_max_value_data_endpoint data_endpoint_count_def)

lemma bits_in_bytes: "j < EP_BITMAP_BITS E \<Longrightarrow> j div 8 < EP_BITMAP_BYTES E"
  by (auto simp: EP_BITMAP_BYTES_def)

lemma bitmap_test_bit: "bitmap_test bm j \<longleftrightarrow> bit (bm ! (j div 8)) (j mod 8)"
  by (simp add: bitmap_test_def and_one_eq bit_iff_odd_drop_bit odd_iff_mod_2_eq_one)

lemma length_bitmap_set [simp]: "length (bitmap_set bm i) = length bm"
  by (simp add: bitmap_set_def)

lemma bitmap_test_set:
  "i div 8 < length bm \<Longrightarrow> bitmap_test (bitmap_set bm i) j \<longleftrightarrow> j = i \<or> bitmap_test bm j"
proof (cases "i div 8 = j div 8")
  case True
  assume "i div 8 < length bm"
  moreover have "i mod 8 = j mod 8 \<longleftrightarrow> i = j" using True by (metis div_mult_mod_eq)
  ultimately show ?thesis using True
    by (auto simp: bitmap_test_bit bitmap_set_def bit_simps)
next
  case False
  then show "i div 8 < length bm \<Longrightarrow> ?thesis"
    by (auto simp: bitmap_test_bit bitmap_set_def)
qed

definition set_endpoint :: "'z schema_scheme \<Rightarrow> bytes \<Rightarrow> data_endpoint \<Rightarrow> bytes" where
  "set_endpoint E bm ep =
     (let idx = unat (ep_u32 E ep) in if idx < EP_BITMAP_BITS E then bitmap_set bm idx else bm)"

lemma build_endpoint_bitmap_fold:
  "build_endpoint_bitmap E eps = foldl (set_endpoint E) (replicate (EP_BITMAP_BYTES E) 0) eps"
  by (simp add: build_endpoint_bitmap_def set_endpoint_def [abs_def])

lemma length_set_endpoint [simp]: "length (set_endpoint E bm ep) = length bm"
  by (simp add: set_endpoint_def Let_def)

lemma length_fold_set [simp]: "length (foldl (set_endpoint E) bm eps) = length bm"
  by (induction eps arbitrary: bm) auto

lemma length_build [simp]: "length (build_endpoint_bitmap E eps) = EP_BITMAP_BYTES E"
  by (simp add: build_endpoint_bitmap_fold)

lemma set_endpoint_valid:
  "schema_wf E \<Longrightarrow> valid_endpoint E ep \<Longrightarrow> set_endpoint E bm ep = bitmap_set bm (endpoint_index E ep)"
  by (simp add: set_endpoint_def Let_def unat_ep_u32 EP_BITMAP_BITS_count endpoint_index_bound)

lemma test_fold_set:
  assumes "schema_wf E" and "\<forall>ep \<in> set eps. valid_endpoint E ep" and "length bm = EP_BITMAP_BYTES E"
  shows "bitmap_test (foldl (set_endpoint E) bm eps) j \<longleftrightarrow>
    j \<in> endpoint_index E ` set eps \<or> bitmap_test bm j"
  using assms(2,3)
proof (induction eps arbitrary: bm)
  case Nil
  then show ?case by simp
next
  case (Cons ep eps)
  have "endpoint_index E ep < EP_BITMAP_BITS E"
    using Cons.prems assms(1) by (simp add: EP_BITMAP_BITS_count endpoint_index_bound)
  then have "bitmap_test (bitmap_set bm (endpoint_index E ep)) j \<longleftrightarrow>
      j = endpoint_index E ep \<or> bitmap_test bm j"
    using Cons.prems by (intro bitmap_test_set) (auto dest: bits_in_bytes)
  with Cons show ?case by (auto simp: set_endpoint_valid assms(1))
qed

lemma bitmap_test_replicate: "j div 8 < n \<Longrightarrow> \<not> bitmap_test (replicate n 0) j"
  by (simp add: bitmap_test_bit)

lemma bitmap_test_build:
  assumes "schema_wf E" and "\<forall>ep \<in> set eps. valid_endpoint E ep" and "j div 8 < EP_BITMAP_BYTES E"
  shows "bitmap_test (build_endpoint_bitmap E eps) j \<longleftrightarrow> j \<in> endpoint_index E ` set eps"
  using test_fold_set [OF assms(1,2), of "replicate (EP_BITMAP_BYTES E) 0" j]
    bitmap_test_replicate [OF assms(3)]
  by (simp add: build_endpoint_bitmap_fold)

lemma sorted_endpoint_indices:
  "sorted eps \<Longrightarrow> distinct eps \<Longrightarrow> \<forall>ep \<in> set eps. valid_endpoint E ep \<Longrightarrow>
     sorted (map (endpoint_index E) eps) \<and> distinct (map (endpoint_index E) eps)"
proof (induction eps)
  case Nil
  then show ?case by simp
next
  case (Cons a eps)
  have "endpoint_index E a < endpoint_index E b" if "b \<in> set eps" for b
  proof -
    have "a < b" using Cons.prems that by (auto simp: order.strict_iff_order)
    then show ?thesis using Cons.prems that endpoint_less_iff_index [of E a b] by simp
  qed
  with Cons show ?case by (auto intro: less_imp_le) fastforce
qed

lemma set_bits_of_build:
  assumes "schema_wf E" and "\<forall>ep \<in> set eps. valid_endpoint E ep"
  shows "filter (bitmap_test (build_endpoint_bitmap E eps)) [0..<EP_BITMAP_BITS E] =
    map (endpoint_index E) (sort_dedup eps)"
proof (rule sorted_distinct_set_unique)
  let ?bm = "build_endpoint_bitmap E eps"
  have indices: "sorted (map (endpoint_index E) (sort_dedup eps))"
    "distinct (map (endpoint_index E) (sort_dedup eps))"
    using sorted_endpoint_indices [of "sort_dedup eps" E] assms(2) by auto
  show "sorted (map (endpoint_index E) (sort_dedup eps))"
    "distinct (map (endpoint_index E) (sort_dedup eps))" by (fact indices)+
  show "sorted (filter (bitmap_test ?bm) [0..<EP_BITMAP_BITS E])"
    by (simp add: sorted_wrt_filter)
  show "distinct (filter (bitmap_test ?bm) [0..<EP_BITMAP_BITS E])" by simp
  have "bitmap_test ?bm j \<longleftrightarrow> j \<in> endpoint_index E ` set eps" if "j < EP_BITMAP_BITS E" for j
    using bitmap_test_build [OF assms bits_in_bytes [OF that]] .
  moreover have "endpoint_index E ep < EP_BITMAP_BITS E" if "ep \<in> set eps" for ep
    using that assms by (simp add: EP_BITMAP_BITS_count endpoint_index_bound)
  ultimately show "set (filter (bitmap_test ?bm) [0..<EP_BITMAP_BITS E]) =
      set (map (endpoint_index E) (sort_dedup eps))" by auto
qed

lemma try_indices:
  assumes "schema_wf E" and "\<forall>ep \<in> set eps. valid_endpoint E ep"
  shows "try_map (\<lambda>idx. ok_or e (data_endpoint_try_from_u32 E (of_nat idx)))
           (map (endpoint_index E) eps) = Ok eps"
  using assms(2)
proof (induction eps)
  case Nil
  then show ?case by simp
next
  case (Cons ep eps)
  then have "data_endpoint_try_from_u32 E (of_nat (endpoint_index E ep)) = Some ep"
    using data_endpoint_roundtrip [OF assms(1), of ep] by (simp add: ep_u32_def)
  with Cons show ?case by simp
qed

theorem expand_build:
  assumes "schema_wf E" and "\<forall>ep \<in> set eps. valid_endpoint E ep"
  shows "expand_endpoint_bitmap E (build_endpoint_bitmap E eps) = Ok (sort_dedup eps)"
  using assms by (simp add: expand_endpoint_bitmap_def set_bits_of_build try_indices)

lemma popcount_bits: "bitmap_popcount bm = length (filter (bitmap_test bm) [0..<8 * length bm])"
proof (induction bm)
  case Nil
  then show ?case by (simp add: bitmap_popcount_def)
next
  case (Cons b bm)
  have split: "[0..<8 * length (b # bm)] = [0..<8] @ map (\<lambda>j. j + 8) [0..<8 * length bm]"
    by (simp add: map_add_upt upt_add_eq_append [of 0 8, simplified] add.commute)
  have "filter (bitmap_test (b # bm)) [0..<8] = filter (bit b) [0..<8]"
    by (rule filter_cong) (auto simp: bitmap_test_bit)
  moreover have "bitmap_test (b # bm) (j + 8) = bitmap_test bm j" for j
    by (simp add: bitmap_test_bit)
  ultimately show ?case
    using Cons unfolding split
    by (simp add: bitmap_popcount_def count_ones_def filter_map comp_def)
qed

lemma popcount_build:
  assumes "schema_wf E" and "\<forall>ep \<in> set eps. valid_endpoint E ep"
  shows "bitmap_popcount (build_endpoint_bitmap E eps) = length (sort_dedup eps)"
proof -
  let ?bm = "build_endpoint_bitmap E eps"
  have le: "EP_BITMAP_BITS E \<le> 8 * EP_BITMAP_BYTES E" by (auto simp: EP_BITMAP_BYTES_def)
  have beyond: "\<not> bitmap_test ?bm j" if "EP_BITMAP_BITS E \<le> j" and "j < 8 * EP_BITMAP_BYTES E" for j
  proof -
    have "j \<notin> endpoint_index E ` set eps"
      using that(1) assms by (force simp: EP_BITMAP_BITS_count dest: endpoint_index_bound)
    then show ?thesis using that(2) bitmap_test_build [OF assms, of j] by simp
  qed
  have "[0..<8 * EP_BITMAP_BYTES E] = [0..<EP_BITMAP_BITS E] @ [EP_BITMAP_BITS E..<8 * EP_BITMAP_BYTES E]"
    using le by (metis le_add_diff_inverse upt_add_eq_append zero_le)
  then have "filter (bitmap_test ?bm) [0..<8 * EP_BITMAP_BYTES E] =
      filter (bitmap_test ?bm) [0..<EP_BITMAP_BITS E]"
    using beyond by (simp add: filter_empty_conv)
  then show ?thesis by (simp add: popcount_bits set_bits_of_build assms)
qed

end
