(* ===== verification/Wire_Frame.thy ===== *)
theory Wire_Frame
  imports Wire_Bitmap
begin

text \<open>
  The layout of a frame: the fixed header is one more field of the format (it interprets
  \<open>field_codec\<close>), and a serialized packet is that header, the endpoint bitmap, the sender, the
  reliable header if any, the payload and the checksum.
\<close>

section \<open>The fixed header as a field\<close>

definition encode_prelude :: "wire_header \<Rightarrow> bytes" where
  "encode_prelude h =
     [wh_flags h, of_nat (wh_nep h)]
     @ write_uleb128 (wh_ty h)
     @ write_uleb128 (of_nat (wh_dsz h))
     @ write_uleb128 (wh_ts h)
     @ write_uleb128 (of_nat (wh_slen h))
     @ (if wh_sender_compressed h then write_uleb128 (of_nat (wh_sender_wire_len h)) else [])"

definition prelude_valid :: "wire_header \<Rightarrow> bool" where
  "prelude_valid h \<longleftrightarrow>
     wh_nep h \<le> 255 \<and> wh_dsz h < 2 ^ 64 \<and> wh_slen h < 2 ^ 64 \<and> wh_sender_wire_len h < 2 ^ 64 \<and>
     (\<not> wh_sender_compressed h \<longrightarrow> wh_sender_wire_len h = wh_slen h)"

lemma encode_prelude_not_Nil [simp]: "encode_prelude h \<noteq> []"
  by (simp add: encode_prelude_def)

lemma length_encode_prelude: "2 \<le> length (encode_prelude h)"
  by (simp add: encode_prelude_def)

lemma uleb_at: "before r (write_uleb128 v @ rest) \<Longrightarrow>
    read_uleb128 r = Ok (v, advance (length (write_uleb128 v)) r) \<and>
    before (advance (length (write_uleb128 v)) r) rest"
  using uleb.dec_enc [of r v rest] at_advance [of r "write_uleb128 v" rest] by simp

lemma byte_at: "before r (b # rest) \<Longrightarrow>
    read_byte r = Ok (b, advance (Suc 0) r) \<and> before (advance (Suc 0) r) rest"
  using read_byte_at [of r b rest] at_advance [of r "[b]" rest] by simp

interpretation prelude: field_codec encode_prelude read_prelude prelude_valid
proof
  fix h r rest
  assume valid: "prelude_valid h" and here: "before r (encode_prelude h @ rest)"
  let ?ty = "write_uleb128 (wh_ty h)"
  let ?dsz = "write_uleb128 (of_nat (wh_dsz h))"
  let ?ts = "write_uleb128 (wh_ts h)"
  let ?slen = "write_uleb128 (of_nat (wh_slen h))"
  let ?swl = "write_uleb128 (of_nat (wh_sender_wire_len h))"
  let ?opt = "if wh_sender_compressed h then ?swl else []"
  define r1 where "r1 = advance (Suc 0) r"
  define r2 where "r2 = advance (Suc 0) r1"
  define r3 where "r3 = advance (length ?ty) r2"
  define r4 where "r4 = advance (length ?dsz) r3"
  define r5 where "r5 = advance (length ?ts) r4"
  define r6 where "r6 = advance (length ?slen) r5"
  have "before r (wh_flags h # (of_nat (wh_nep h) # (?ty @ ?dsz @ ?ts @ ?slen @ ?opt @ rest)))"
    using here by (simp add: encode_prelude_def)
  note s1 = byte_at [OF this, folded r1_def]
  note s2 = byte_at [OF conjunct2 [OF s1], folded r2_def]
  note s3 = uleb_at [OF conjunct2 [OF s2], folded r3_def]
  note s4 = uleb_at [OF conjunct2 [OF s3], folded r4_def]
  note s5 = uleb_at [OF conjunct2 [OF s4], folded r5_def]
  note s6 = uleb_at [OF conjunct2 [OF s5], folded r6_def]
  have s7: "(if wh_flags h AND FLAG_COMPRESSED_SENDER \<noteq> 0 then read_uleb128 r6
        else Ok (of_nat (wh_slen h), r6)) = Ok (of_nat (wh_sender_wire_len h), advance (length ?opt) r6)"
  proof (cases "wh_sender_compressed h")
    case True
    then have "before r6 (?swl @ rest)" using s6 by simp
    from uleb_at [OF this] show ?thesis using True by (simp add: wh_sender_compressed_def)
  next
    case False
    then show ?thesis using valid by (simp add: wh_sender_compressed_def prelude_valid_def)
  qed
  have bounds: "unat (of_nat (wh_nep h) :: u8) = wh_nep h" "unat (of_nat (wh_dsz h) :: u64) = wh_dsz h"
    "unat (of_nat (wh_slen h) :: u64) = wh_slen h"
    "unat (of_nat (wh_sender_wire_len h) :: u64) = wh_sender_wire_len h"
    using valid by (simp_all add: prelude_valid_def unat_of_nat_small)
  have total: "advance (length ?opt) r6 = advance (length (encode_prelude h)) r"
    by (simp add: r1_def r2_def r3_def r4_def r5_def r6_def encode_prelude_def add.assoc)
  show "read_prelude r = Ok (h, advance (length (encode_prelude h)) r)"
    unfolding read_prelude_def
    by (simp add: s1 s2 s3 s4 s5 s6 s7 bounds total [symmetric])
qed

section \<open>Compressed fields\<close>

lemma compress_if_beneficial_cases:
  assumes "zstd_ok E"
  obtains (plain) "compress_if_beneficial E d = (False, d)"
  | (packed) c where "compress_if_beneficial E d = (True, c)" "compression_feature E"
      "0 < length c" "length c < length d" "zstd_decompress E (length d) c = Some d"
proof (cases "compress_if_beneficial E d = (False, d)")
  case True
  then show thesis by (rule plain)
next
  case False
  then obtain c where "compress_if_beneficial E d = (True, c)" "compression_feature E"
    "zstd_compress E (length d - 2) d = Some c" "length c + 1 < length d"
    by (auto simp: compress_if_beneficial_def compress_to_vec_bounded_def split: if_splits option.splits)
  with assms show thesis by (intro packed [of c]) (auto simp: zstd_ok_def)
qed

lemma length_compressed: "zstd_ok E \<Longrightarrow> length (snd (compress_if_beneficial E d)) \<le> length d"
  by (rule compress_if_beneficial_cases [of E d]) auto

text \<open>What the receiver makes of a field the sender compressed if that was beneficial.\<close>

lemma decompress_compressed:
  assumes "zstd_ok E" and "compress_if_beneficial E d = (c, w)" and "length d \<le> isize_max"
  shows "(if c then decompress E w (length d) else Ok w) = Ok d"
  using assms(2,3) by (cases rule: compress_if_beneficial_cases [OF assms(1), of d]) (auto simp: decompress_def)

lemma compressed_nonempty:
  assumes "zstd_ok E" and "compress_if_beneficial E d = (True, w)"
  shows "0 < length w"
  using assms(2) by (cases rule: compress_if_beneficial_cases [OF assms(1), of d]) auto

lemma decode_sender_compressed:
  assumes "zstd_ok E" and "compress_if_beneficial E d = (c, w)" and "length d \<le> isize_max" and "from_utf8 d"
  shows "decode_sender_name E w c (length d) = Ok d"
  using decompress_compressed [OF assms(1-3)] assms(4)
  by (auto simp: decode_sender_name_def split: if_splits)

lemma frame_flags_payload [simp]: "frame_flags p s AND FLAG_COMPRESSED_PAYLOAD \<noteq> 0 \<longleftrightarrow> p"
  by (cases p; cases s) (simp_all add: frame_flags_def wire_constants)

lemma frame_flags_sender [simp]: "frame_flags p s AND FLAG_COMPRESSED_SENDER \<noteq> 0 \<longleftrightarrow> s"
  by (cases p; cases s) (simp_all add: frame_flags_def wire_constants)

section \<open>Checksum\<close>

lemma split_append_crc32: "split_crc32 (append_crc32 E data) = Ok (data, crc32 E data)"
  by (simp add: split_crc32_def append_crc32_def CRC32_BYTES_def)

lemma verify_append_crc32 [simp]: "verify_crc32 E (append_crc32 E data) = Ok data"
  by (simp add: verify_crc32_def split_append_crc32)

lemma verify_crc32_Ok_iff: "verify_crc32 E buf = Ok data \<longleftrightarrow> buf = append_crc32 E data"
proof
  assume ok: "verify_crc32 E buf = Ok data"
  let ?n = "length buf - CRC32_BYTES"
  have len: "CRC32_BYTES \<le> length buf" and data: "data = take ?n buf"
    and crc: "crc32 E data = from_le_bytes (drop ?n buf)"
    using ok by (auto simp: verify_crc32_def split_crc32_def outcome_simps Let_def split: if_splits)
  have "length (drop ?n buf) = 4" using len by (simp add: CRC32_BYTES_def)
  then have "to_le_bytes 4 (crc32 E data) = drop ?n buf"
    using to_from_le_bytes [of "drop ?n buf", where 'a = 32] by (simp add: crc)
  then show "buf = append_crc32 E data" by (simp add: append_crc32_def data)
qed simp

end
