(* ===== verification/Wire_Roundtrip.thy ===== *)
theory Wire_Roundtrip
  imports Wire_Frame
begin

text \<open>
  What a receiver makes of a frame this library serialized: the whole packet, its envelope, the frame
  information with the reliable header, the deduplication identifier, the size prediction and the
  in-place rewriting of the reliable header.
\<close>

section \<open>A serialized packet is its layout\<close>

definition sender_wire :: "env \<Rightarrow> packet \<Rightarrow> bytes" where
  "sender_wire E p = snd (compress_if_beneficial E (pkt_sender p))"

definition payload_wire :: "env \<Rightarrow> packet \<Rightarrow> bytes" where
  "payload_wire E p = snd (compress_if_beneficial E (payload p))"

definition header_of :: "env \<Rightarrow> packet \<Rightarrow> wire_header" where
  "header_of E p =
     \<lparr>wh_flags = frame_flags (fst (compress_if_beneficial E (payload p)))
                             (fst (compress_if_beneficial E (pkt_sender p))),
      wh_nep = length (sort_dedup (pkt_endpoints p)),
      wh_ty = of_nat (type_index E (pkt_ty p)),
      wh_dsz = pkt_data_size p, wh_ts = pkt_timestamp p,
      wh_slen = length (pkt_sender p), wh_sender_wire_len = length (sender_wire E p)\<rparr>"

definition reliable_bytes :: "reliable_header option \<Rightarrow> bytes" where
  "reliable_bytes rel = (case rel of Some hdr \<Rightarrow> write_reliable_header hdr | None \<Rightarrow> [])"

definition frame_body :: "env \<Rightarrow> packet \<Rightarrow> reliable_header option \<Rightarrow> bytes" where
  "frame_body E p rel =
     encode_prelude (header_of E p) @ build_endpoint_bitmap E (pkt_endpoints p) @ sender_wire E p
     @ reliable_bytes rel @ payload_wire E p"

text \<open>
  The contents of a frame: a type and endpoints of the schema, at most 255 distinct endpoints, a
  sender that is a Rust string, and a size that fits one allocation. The packets that can be sent are
  those \<open>Packet::new\<close> built; an acknowledgement frame has such contents too, and no endpoints.
\<close>

definition wire_sendable :: "env \<Rightarrow> packet \<Rightarrow> bool" where
  "wire_sendable E p \<longleftrightarrow>
     schema_wf E \<and> zstd_ok E \<and> valid_type E (pkt_ty p) \<and> list_all (valid_endpoint E) (pkt_endpoints p) \<and>
     length (sort_dedup (pkt_endpoints p)) \<le> 255 \<and> from_utf8 (pkt_sender p) \<and>
     length (pkt_sender p) + length (payload p) \<le> isize_max \<and> pkt_data_size p = length (payload p)"

definition wire_packet :: "env \<Rightarrow> packet \<Rightarrow> bool" where
  "wire_packet E p \<longleftrightarrow>
     wire_sendable E p \<and>
     packet_new E (pkt_ty p) (pkt_endpoints p) (pkt_sender p) (pkt_timestamp p) (payload p) = Ok p"

definition reliable_matches :: "env \<Rightarrow> packet \<Rightarrow> reliable_header option \<Rightarrow> bool" where
  "reliable_matches E p rel \<longleftrightarrow> (rel \<noteq> None \<longleftrightarrow> is_reliable_type E (pkt_ty p))"

lemma wire_sendableD:
  assumes "wire_sendable E p"
  shows "schema_wf E" "zstd_ok E" "valid_type E (pkt_ty p)"
    "\<forall>ep \<in> set (pkt_endpoints p). valid_endpoint E ep"
    "length (sort_dedup (pkt_endpoints p)) \<le> 255" "from_utf8 (pkt_sender p)"
    "length (pkt_sender p) \<le> isize_max" "length (payload p) \<le> isize_max"
    "length (pkt_sender p) + length (payload p) \<le> isize_max"
    "pkt_data_size p = length (payload p)"
  using assms by (auto simp: wire_sendable_def list_all_iff)

lemma wire_packetD:
  assumes "wire_packet E p"
  shows "wire_sendable E p" "pkt_endpoints p \<noteq> []"
    "packet_new E (pkt_ty p) (pkt_endpoints p) (pkt_sender p) (pkt_timestamp p) (payload p) = Ok p"
  using assms packet_new_fields(9) [of E "pkt_ty p" "pkt_endpoints p" "pkt_sender p" "pkt_timestamp p" "payload p" p]
  by (auto simp: wire_packet_def)

lemma popcount_packet:
  "wire_sendable E p \<Longrightarrow>
     bitmap_popcount (build_endpoint_bitmap E (pkt_endpoints p)) = length (sort_dedup (pkt_endpoints p))"
  by (rule popcount_build) (auto dest: wire_sendableD)

lemma serialize_packet_inner_layout:
  assumes "wire_sendable E p"
  shows "serialize_packet_inner E p rel = Ok (append_crc32 E (frame_body E p rel))"
  using wire_sendableD(5) [OF assms]
  by (simp add: serialize_packet_inner_def popcount_packet [OF assms] frame_body_def encode_prelude_def
      header_of_def sender_wire_def payload_wire_def reliable_bytes_def wh_sender_compressed_def
      case_prod_beta Let_def split: option.split)

definition default_reliable :: "env \<Rightarrow> packet \<Rightarrow> reliable_header option" where
  "default_reliable E p =
     (if is_reliable_type E (pkt_ty p)
      then Some \<lparr>rh_flags = RELIABLE_FLAG_UNSEQUENCED, rh_seq = 0, rh_ack = 0\<rparr> else None)"

lemma default_reliable_matches [simp]: "reliable_matches E p (default_reliable E p)"
  by (simp add: reliable_matches_def default_reliable_def)

lemma serialize_packet_layout:
  "wire_sendable E p \<Longrightarrow> serialize_packet E p = Ok (append_crc32 E (frame_body E p (default_reliable E p)))"
  by (simp add: serialize_packet_def serialize_packet_with_reliable_def default_reliable_def
      serialize_packet_inner_layout)

section \<open>Walking the layout\<close>

lemma header_of_valid: "wire_sendable E p \<Longrightarrow> prelude_valid (header_of E p)"
proof -
  assume p: "wire_sendable E p"
  note d = wire_sendableD [OF p]
  have "length (sender_wire E p) \<le> length (pkt_sender p)"
    unfolding sender_wire_def using d(2) by (rule length_compressed)
  moreover have "\<not> fst (compress_if_beneficial E (pkt_sender p)) \<Longrightarrow> sender_wire E p = pkt_sender p"
    unfolding sender_wire_def by (cases rule: compress_if_beneficial_cases [OF d(2), of "pkt_sender p"]) auto
  ultimately show ?thesis
    using d(5,7,8,10) by (auto simp: prelude_valid_def header_of_def wh_sender_compressed_def isize_max_def)
qed

lemma bitmap_bytes_small: "schema_wf E \<Longrightarrow> EP_BITMAP_BYTES E \<le> 2 ^ 30"
  using schema_wf_counts(2) [of E] by (simp add: EP_BITMAP_BYTES_def EP_BITMAP_BITS_count)

lemma type_from_raw_header:
  assumes "wire_sendable E p"
  shows "type_from_raw E (wh_ty (header_of E p)) = Ok (pkt_ty p)"
proof -
  note d = wire_sendableD [OF assms]
  have small: "type_index E (pkt_ty p) < 2 ^ 32"
    using type_index_bound [OF d(3)] schema_wf_counts(1) [OF d(1)] by simp
  have cast: "ucast (of_nat (type_index E (pkt_ty p)) :: u64) = ty_u32 E (pkt_ty p)"
    using small by (simp add: ty_u32_def unsigned_of_nat take_bit_nat_eq_self)
  have "\<not> max_value_data_type E < ty_u32 E (pkt_ty p)"
    using type_index_bound [OF d(3)]
    by (simp add: word_less_nat_alt unat_max_value_data_type d unat_ty_u32)
  moreover have "\<not> (0xFFFFFFFF :: u64) < of_nat (type_index E (pkt_ty p))"
    using small by (simp add: word_less_nat_alt unat_of_nat_small)
  ultimately show ?thesis
    by (simp add: type_from_raw_def header_of_def cast data_type_roundtrip d)
qed

lemma header_of_simps [simp]:
  "wh_ts (header_of E p) = pkt_timestamp p" "wh_dsz (header_of E p) = pkt_data_size p"
  "wh_slen (header_of E p) = length (pkt_sender p)"
  "wh_sender_wire_len (header_of E p) = length (sender_wire E p)"
  "wh_nep (header_of E p) = length (sort_dedup (pkt_endpoints p))"
  "wh_payload_compressed (header_of E p) = fst (compress_if_beneficial E (payload p))"
  "wh_sender_compressed (header_of E p) = fst (compress_if_beneficial E (pkt_sender p))"
  by (simp_all add: header_of_def wh_payload_compressed_def wh_sender_compressed_def)

definition off_endpoints :: "env \<Rightarrow> packet \<Rightarrow> nat" where
  "off_endpoints E p = length (encode_prelude (header_of E p))"

definition off_sender :: "env \<Rightarrow> packet \<Rightarrow> nat" where
  "off_sender E p = off_endpoints E p + EP_BITMAP_BYTES E"

definition off_reliable :: "env \<Rightarrow> packet \<Rightarrow> nat" where
  "off_reliable E p = off_sender E p + length (sender_wire E p)"

lemmas off_defs = off_reliable_def off_sender_def off_endpoints_def

lemma walk_prelude:
  assumes "wire_sendable E p"
  shows "read_prelude (reader_new (frame_body E p rel @ rest)) =
      Ok (header_of E p, advance (off_endpoints E p) (reader_new (frame_body E p rel @ rest)))"
    and "before (advance (off_endpoints E p) (reader_new (frame_body E p rel @ rest)))
      (build_endpoint_bitmap E (pkt_endpoints p) @ sender_wire E p @ reliable_bytes rel @ payload_wire E p @ rest)"
proof -
  let ?r = "reader_new (frame_body E p rel @ rest)"
  let ?rest = "build_endpoint_bitmap E (pkt_endpoints p) @ sender_wire E p @ reliable_bytes rel @ payload_wire E p @ rest"
  have here: "before ?r (encode_prelude (header_of E p) @ ?rest)"
    using at_reader_new [of "frame_body E p rel @ rest"] by (simp add: frame_body_def)
  show "read_prelude ?r = Ok (header_of E p, advance (off_endpoints E p) ?r)"
    unfolding off_endpoints_def by (rule prelude.dec_enc [OF header_of_valid [OF assms] here])
  show "before (advance (off_endpoints E p) ?r) ?rest"
    unfolding off_endpoints_def by (rule at_advance [OF here])
qed

lemma walk_bitmap:
  assumes "before r (build_endpoint_bitmap E eps @ rest)"
  shows "read_bytes (EP_BITMAP_BYTES E) r = Ok (build_endpoint_bitmap E eps, advance (EP_BITMAP_BYTES E) r)"
    and "before (advance (EP_BITMAP_BYTES E) r) rest"
  using assms at_advance [OF assms] by (auto intro: read_bytes_at)

lemma walk_endpoints:
  assumes "wire_sendable E p" and "before r (build_endpoint_bitmap E (pkt_endpoints p) @ rest)"
  shows "read_endpoints E (header_of E p) r = Ok (sort_dedup (pkt_endpoints p), advance (EP_BITMAP_BYTES E) r)"
  using walk_bitmap [OF assms(2)] expand_build [OF wire_sendableD(1,4) [OF assms(1)]]
  by (simp add: read_endpoints_def)

lemma walk_sender:
  assumes "wire_sendable E p" and "before r (sender_wire E p @ rest)"
  shows "read_bytes (length (sender_wire E p)) r = Ok (sender_wire E p, advance (length (sender_wire E p)) r)"
    and "before (advance (length (sender_wire E p)) r) rest"
    and "read_sender E (header_of E p) r = Ok (pkt_sender p, advance (length (sender_wire E p)) r)"
proof -
  note d = wire_sendableD [OF assms(1)]
  show read: "read_bytes (length (sender_wire E p)) r = Ok (sender_wire E p, advance (length (sender_wire E p)) r)"
    using assms(2) by (rule read_bytes_at) simp
  show "before (advance (length (sender_wire E p)) r) rest"
    by (rule at_advance [OF assms(2)])
  have "compress_if_beneficial E (pkt_sender p) = (fst (compress_if_beneficial E (pkt_sender p)), sender_wire E p)"
    by (simp add: sender_wire_def)
  from decode_sender_compressed [OF d(2) this d(7,6)]
  show "read_sender E (header_of E p) r = Ok (pkt_sender p, advance (length (sender_wire E p)) r)"
    by (simp add: read_sender_def read)
qed

lemma walk_reliable:
  assumes "before r (reliable_bytes (Some hdr) @ rest)"
  shows "read_reliable_header r = Ok (hdr, advance RELIABLE_HEADER_BYTES r)"
    and "before (advance RELIABLE_HEADER_BYTES r) rest"
  using assms relhdr.dec_enc [OF TrueI, of r hdr rest] at_advance [of r "write_reliable_header hdr" rest]
  by (simp_all add: reliable_bytes_def)

definition data_frame :: "reliable_header option \<Rightarrow> bool" where
  "data_frame rel = (case rel of Some h \<Rightarrow> rh_flags h AND RELIABLE_FLAG_ACK_ONLY = 0 | None \<Rightarrow> True)"

lemma default_reliable_data [simp]: "data_frame (default_reliable E p)"
  by (simp add: data_frame_def default_reliable_def wire_constants)

lemma walk_skip_reliable:
  assumes "reliable_matches E p rel" and "data_frame rel" and "before r (reliable_bytes rel @ rest)"
  shows "skip_reliable_header E (pkt_ty p) r = Ok (advance (length (reliable_bytes rel)) r)"
    and "before (advance (length (reliable_bytes rel)) r) rest"
proof -
  show "skip_reliable_header E (pkt_ty p) r = Ok (advance (length (reliable_bytes rel)) r)"
  proof (cases rel)
    case None
    then show ?thesis using assms by (simp add: skip_reliable_header_def reliable_matches_def reliable_bytes_def)
  next
    case (Some hdr)
    then show ?thesis using assms walk_reliable [of r hdr rest]
      by (simp add: skip_reliable_header_def reliable_matches_def data_frame_def reliable_bytes_def)
  qed
  show "before (advance (length (reliable_bytes rel)) r) rest"
    by (rule at_advance [OF assms(3)])
qed

lemma length_reliable_bytes:
  "reliable_matches E p rel \<Longrightarrow>
     length (reliable_bytes rel) = (if is_reliable_type E (pkt_ty p) then RELIABLE_HEADER_BYTES else 0)"
  by (cases rel) (auto simp: reliable_matches_def reliable_bytes_def)

lemma walk_payload:
  assumes "wire_sendable E p" and "before r (payload_wire E p)"
  shows "(if \<not> fst (compress_if_beneficial E (payload p))
          then andthen (read_bytes (pkt_data_size p) r) (\<lambda>(b, r). Ok b)
          else andthen (read_bytes (remaining r) r) (\<lambda>(c, r). decompress E c (pkt_data_size p))) = Ok (payload p)"
proof -
  note d = wire_sendableD [OF assms(1)]
  have split: "compress_if_beneficial E (payload p) = (fst (compress_if_beneficial E (payload p)), payload_wire E p)"
    by (simp add: payload_wire_def)
  have read: "read_bytes (length (payload_wire E p)) r = Ok (payload_wire E p, advance (length (payload_wire E p)) r)"
    using assms(2) by (intro read_bytes_at [where ys = "[]"]) auto
  have rem: "remaining r = length (payload_wire E p)" by (rule at_remaining [OF assms(2)])
  note back' = decompress_compressed [OF d(2) split d(8)]
  show ?thesis
  proof (cases "fst (compress_if_beneficial E (payload p))")
    case True
    then show ?thesis using back' by (simp add: rem read d(10))
  next
    case False
    then have "payload_wire E p = payload p" using back' by simp
    then show ?thesis using False read by (simp add: d(10))
  qed
qed

section \<open>What the receiver reads\<close>

lemma remaining_endpoints:
  assumes "wire_sendable E p"
  shows "remaining (advance (off_endpoints E p) (reader_new (frame_body E p rel))) =
    EP_BITMAP_BYTES E + length (sender_wire E p) + length (reliable_bytes rel) + length (payload_wire E p)"
  using at_remaining [OF walk_prelude(2) [OF assms, of rel "[]"]] by (simp add: add.assoc)

lemma packet_new_resorted:
  assumes "wire_packet E p"
  shows "packet_new E (pkt_ty p) (sort_dedup (pkt_endpoints p)) (pkt_sender p) (pkt_timestamp p) (payload p) =
    Ok (p\<lparr>pkt_endpoints := sort_dedup (pkt_endpoints p)\<rparr>)"
proof -
  note d = wire_packetD [OF assms]
  have "sort_dedup (pkt_endpoints p) \<noteq> []"
    using d(2) by (metis set_empty set_sort_dedup)
  with d(3) show ?thesis by (cases p) (auto simp: packet_new_Ok_iff)
qed

lemma frame_body_not_Nil [simp]: "frame_body E p rel \<noteq> []"
  by (simp add: frame_body_def)

lemma payload_wire_min:
  assumes "wire_sendable E p"
  shows "(if fst (compress_if_beneficial E (payload p)) then 1 else pkt_data_size p) \<le> length (payload_wire E p)"
  using wire_sendableD(10) [OF assms]
  by (cases rule: compress_if_beneficial_cases [OF wire_sendableD(2) [OF assms], of "payload p"])
    (auto simp: payload_wire_def Suc_le_eq)

lemma wire_lengths_small:
  assumes "wire_sendable E p"
  shows "EP_BITMAP_BYTES E + length (sender_wire E p) + RELIABLE_HEADER_BYTES + length (payload_wire E p) < usize_limit"
proof -
  note d = wire_sendableD [OF assms]
  have "length (sender_wire E p) \<le> length (pkt_sender p)" "length (payload_wire E p) \<le> length (payload p)"
    unfolding sender_wire_def payload_wire_def using d(2) by (rule length_compressed)+
  then show ?thesis
    using d(9) bitmap_bytes_small [OF d(1)] by (simp add: usize_limit_def isize_max_def wire_constants)
qed

text \<open>Up to the reliable header every frame with these contents is read the same way.\<close>

lemma deserialize_walk:
  assumes p: "wire_sendable E p" and rel: "reliable_matches E p rel"
  shows "deserialize_packet E (append_crc32 E (frame_body E p rel)) =
    andthen (skip_reliable_header E (pkt_ty p) (advance (off_reliable E p) (reader_new (frame_body E p rel)))) (\<lambda>r.
    andthen (if \<not> fst (compress_if_beneficial E (payload p))
             then andthen (read_bytes (pkt_data_size p) r) (\<lambda>(b, r). Ok b)
             else andthen (read_bytes (remaining r) r) (\<lambda>(c, r). decompress E c (pkt_data_size p)))
      (packet_new E (pkt_ty p) (sort_dedup (pkt_endpoints p)) (pkt_sender p) (pkt_timestamp p)))"
proof -
  define r0 where "r0 = reader_new (frame_body E p rel)"
  define r1 where "r1 = advance (off_endpoints E p) r0"
  define r2 where "r2 = advance (EP_BITMAP_BYTES E) r1"
  note w1 = walk_prelude [OF p, of rel "[]", simplified, folded r0_def, folded r1_def]
  note w2 = walk_endpoints [OF p w1(2), folded r2_def] walk_bitmap(2) [OF w1(2), folded r2_def]
  note w3 = walk_sender [OF p w2(2)]
  have raw: "is_reliable_type_from_raw E (wh_ty (header_of E p)) = Ok (is_reliable_type E (pkt_ty p))"
    by (simp add: is_reliable_type_from_raw_def type_from_raw_header p)
  have "wadd (wadd (wadd (EP_BITMAP_BYTES E) (length (sender_wire E p))) (length (reliable_bytes rel)))
      (if fst (compress_if_beneficial E (payload p)) then 1 else pkt_data_size p) \<le> remaining r1"
    using payload_wire_min [OF p] wire_lengths_small [OF p] remaining_endpoints [OF p, of rel]
      length_reliable_bytes [OF rel]
    by (simp add: r1_def r0_def split: if_splits)
  then have room: "\<not> remaining r1 < wadd (wadd (wadd (EP_BITMAP_BYTES E) (length (sender_wire E p)))
        (if is_reliable_type E (pkt_ty p) then RELIABLE_HEADER_BYTES else 0))
      (if fst (compress_if_beneficial E (payload p)) then 1 else pkt_data_size p)"
    by (simp add: length_reliable_bytes [OF rel])
  have off: "advance (length (sender_wire E p)) r2 = advance (off_reliable E p) r0"
    by (simp add: r2_def r1_def off_defs add.assoc)
  show ?thesis
    unfolding deserialize_packet_def using room
    by (cases "is_reliable_type E (pkt_ty p)"; cases "fst (compress_if_beneficial E (payload p))")
      (simp_all add: w1 w2 w3 raw off Let_def type_from_raw_header [OF p] flip: r0_def)
qed

lemma before_reliable:
  "before (advance (off_reliable E p) (reader_new (frame_body E p rel))) (reliable_bytes rel @ payload_wire E p)"
proof -
  have "frame_body E p rel = (encode_prelude (header_of E p) @ build_endpoint_bitmap E (pkt_endpoints p)
      @ sender_wire E p) @ (reliable_bytes rel @ payload_wire E p)"
    by (simp add: frame_body_def)
  from at_advance [OF at_reader_new [of "frame_body E p rel", unfolded this]]
  show ?thesis by (simp add: frame_body_def off_defs add.assoc)
qed

lemma deserialize_layout:
  assumes built: "wire_packet E p" and rel: "reliable_matches E p rel" and dat: "data_frame rel"
  shows "deserialize_packet E (append_crc32 E (frame_body E p rel)) =
    Ok (p\<lparr>pkt_endpoints := sort_dedup (pkt_endpoints p)\<rparr>)"
proof -
  note p = wire_packetD(1) [OF built]
  note w = walk_skip_reliable [OF rel dat before_reliable]
  show ?thesis
    by (simp only: deserialize_walk [OF p rel] w(1) andthen.simps walk_payload [OF p w(2)]
        packet_new_resorted [OF built])
qed

lemma deserialize_control_frame:
  assumes p: "wire_sendable E p" and rel: "is_reliable_type E (pkt_ty p)"
    and ack: "rh_flags hdr AND RELIABLE_FLAG_ACK_ONLY \<noteq> 0"
  shows "deserialize_packet E (append_crc32 E (frame_body E p (Some hdr))) =
    Err (Deserialize ''reliable control frame'')"
proof -
  have "reliable_matches E p (Some hdr)" using rel by (simp add: reliable_matches_def)
  then show ?thesis
    using walk_reliable(1) [OF before_reliable [of E p "Some hdr"]] rel ack
    by (simp add: deserialize_walk [OF p] skip_reliable_header_def)
qed

definition envelope_of :: "packet \<Rightarrow> telemetry_envelope" where
  "envelope_of p =
     \<lparr>te_ty = pkt_ty p, te_endpoints = sort_dedup (pkt_endpoints p), te_sender = pkt_sender p,
      te_timestamp_ms = pkt_timestamp p\<rparr>"

lemma read_envelope_layout:
  assumes p: "wire_sendable E p"
  shows "read_envelope E (frame_body E p rel) =
    Ok (envelope_of p, advance (off_reliable E p) (reader_new (frame_body E p rel)))"
proof -
  define r0 where "r0 = reader_new (frame_body E p rel)"
  define r1 where "r1 = advance (off_endpoints E p) r0"
  define r2 where "r2 = advance (EP_BITMAP_BYTES E) r1"
  note w1 = walk_prelude [OF p, of rel "[]", simplified, folded r0_def, folded r1_def]
  note w2 = walk_endpoints [OF p w1(2), folded r2_def] walk_bitmap(2) [OF w1(2), folded r2_def]
  note w3 = walk_sender [OF p w2(2)]
  have room: "\<not> remaining r1 < wadd (EP_BITMAP_BYTES E) (length (sender_wire E p))"
    using wire_lengths_small [OF p] remaining_endpoints [OF p, of rel] by (simp add: r1_def r0_def)
  have off: "advance (length (sender_wire E p)) r2 = advance (off_reliable E p) r0"
    by (simp add: r2_def r1_def off_defs add.assoc)
  show ?thesis
    unfolding read_envelope_def
    by (simp add: w1 w2 w3 room type_from_raw_header [OF p] off envelope_of_def flip: r0_def)
qed

lemma peek_inner_layout:
  assumes p: "wire_sendable E p" and rel: "reliable_matches E p rel"
  shows "peek_frame_info_inner E (frame_body E p rel) = Ok \<lparr>fi_envelope = envelope_of p, fi_reliable = rel\<rparr>"
proof (cases rel)
  case None
  then show ?thesis using rel
    by (simp add: peek_frame_info_inner_def read_envelope_layout [OF p] reliable_matches_def envelope_of_def)
next
  case (Some hdr)
  define r where "r = advance (off_reliable E p) (reader_new (frame_body E p rel))"
  have here: "before r (reliable_bytes (Some hdr) @ payload_wire E p)"
    using before_reliable [of E p rel] Some by (simp add: r_def)
  have "RELIABLE_HEADER_BYTES \<le> remaining r"
    using at_remaining [OF here] by (simp add: reliable_bytes_def)
  then show ?thesis using rel Some walk_reliable [OF here]
    by (simp add: peek_frame_info_inner_def read_envelope_layout [OF p] reliable_matches_def envelope_of_def
        r_def)
qed

section \<open>Identifier, size, header rewriting\<close>

lemma try_indices_checked:
  assumes "schema_wf E" and "\<forall>ep \<in> set eps. valid_endpoint E ep"
  shows "try_map (\<lambda>idx. if of_nat idx > max_value_data_endpoint E then Err e
      else ok_or e (data_endpoint_try_from_u32 E (of_nat idx))) (map (endpoint_index E) eps) = Ok eps"
  using assms(2)
proof (induction eps)
  case Nil
  then show ?case by simp
next
  case (Cons ep eps)
  then have "\<not> max_value_data_endpoint E < ep_u32 E ep"
    using endpoint_index_bound [of E ep]
    by (simp add: word_less_nat_alt unat_max_value_data_endpoint unat_ep_u32 assms(1))
  with Cons show ?case
    using data_endpoint_roundtrip [OF assms(1), of ep] by (simp add: ep_u32_def)
qed

lemma packet_id_from_wire_layout:
  assumes p: "wire_sendable E p" and rel: "reliable_matches E p rel" and dat: "data_frame rel"
  shows "packet_id_from_wire E (append_crc32 E (frame_body E p rel)) =
    Ok (packet_id E (p\<lparr>pkt_endpoints := sort_dedup (pkt_endpoints p)\<rparr>))"
proof -
  define r0 where "r0 = reader_new (frame_body E p rel)"
  define r1 where "r1 = advance (off_endpoints E p) r0"
  define r2 where "r2 = advance (EP_BITMAP_BYTES E) r1"
  define r3 where "r3 = advance (length (sender_wire E p)) r2"
  define r4 where "r4 = advance (length (reliable_bytes rel)) r3"
  note d = wire_sendableD [OF p]
  note w1 = walk_prelude [OF p, of rel "[]", simplified, folded r0_def, folded r1_def]
  note w2 = walk_bitmap [OF w1(2), folded r2_def]
  note w3 = walk_sender [OF p w2(2), folded r3_def]
  note w4 = walk_skip_reliable [OF rel dat w3(2), folded r4_def]
  note w5 = walk_payload [OF p w4(2)]
  have rem4: "\<not> remaining r4 < (if fst (compress_if_beneficial E (payload p)) then 1 else pkt_data_size p)"
    using payload_wire_min [OF p] at_remaining [OF w4(2)] by simp
  have sender: "(if fst (compress_if_beneficial E (pkt_sender p))
      then decompress E (sender_wire E p) (length (pkt_sender p)) else Ok (sender_wire E p)) = Ok (pkt_sender p)"
    unfolding sender_wire_def using decompress_compressed [OF d(2) _ d(7)] by (metis prod.collapse)
  have room: "\<not> remaining r1 < wadd (EP_BITMAP_BYTES E) (length (sender_wire E p))"
    using wire_lengths_small [OF p] remaining_endpoints [OF p, of rel] by (simp add: r1_def r0_def)
  have long: "\<not> length (frame_body E p rel) < 2"
    using length_encode_prelude [of "header_of E p"] by (simp add: frame_body_def)
  have same: "payload (p\<lparr>pkt_endpoints := eps\<rparr>) = payload p" for eps by (simp add: payload_def)
  show ?thesis
    unfolding packet_id_from_wire_def using w5 rem4 sender room w3 w4(1)
    by (cases "fst (compress_if_beneficial E (payload p))"; cases "fst (compress_if_beneficial E (pkt_sender p))")
      (simp_all add: w1 w2 long type_from_raw_header [OF p] set_bits_of_build d
        try_indices_checked packet_id_def same Let_def flip: r0_def)
qed

lemma length_frame:
  assumes "wire_sendable E p" and "reliable_matches E p rel"
  shows "length (append_crc32 E (frame_body E p rel)) = packet_wire_size E p"
  using length_reliable_bytes [OF assms(2)]
  by (simp add: append_crc32_def frame_body_def packet_wire_size_def header_size_bytes_def encode_prelude_def
      uleb128_size_write sender_wire_def payload_wire_def wh_sender_compressed_def header_of_def
      CRC32_BYTES_def case_prod_beta Let_def)

lemma reliable_header_offset_layout:
  assumes p: "wire_sendable E p"
  shows "reliable_header_offset E (append_crc32 E (frame_body E p rel)) =
    Ok (if is_reliable_type E (pkt_ty p) then Some (off_reliable E p) else None)"
proof -
  define r0 where "r0 = reader_new (frame_body E p rel)"
  define r1 where "r1 = advance (off_endpoints E p) r0"
  define r2 where "r2 = advance (EP_BITMAP_BYTES E) r1"
  note w1 = walk_prelude [OF p, of rel "[]", simplified, folded r0_def, folded r1_def]
  note w2 = walk_bitmap [OF w1(2), folded r2_def]
  note w3 = walk_sender [OF p w2(2)]
  have room: "\<not> remaining r1 < wadd (EP_BITMAP_BYTES E) (length (sender_wire E p))"
    using wire_lengths_small [OF p] remaining_endpoints [OF p, of rel] by (simp add: r1_def r0_def)
  have long: "\<not> length (append_crc32 E (frame_body E p rel)) < CRC32_BYTES + 1"
    using length_encode_prelude [of "header_of E p"] by (simp add: frame_body_def append_crc32_def CRC32_BYTES_def)
  have data: "take (length (append_crc32 E (frame_body E p rel)) - CRC32_BYTES) (append_crc32 E (frame_body E p rel))
      = frame_body E p rel"
    by (simp add: append_crc32_def CRC32_BYTES_def)
  have off: "rd_off (advance (length (sender_wire E p)) r2) = off_reliable E p"
    by (simp add: r2_def r1_def r0_def off_defs reader_new_def)
  show ?thesis
    unfolding reliable_header_offset_def
    using off long by (simp add: data w1 w2 w3 room type_from_raw_header [OF p] Let_def flip: r0_def)
qed

lemma copy_into_replace:
  "length xs = length ys \<Longrightarrow> copy_into (length as) ys (as @ xs @ bs) = as @ ys @ bs"
  by (simp add: copy_into_def)

lemma rewrite_header_bytes:
  fixes h :: reliable_header
  assumes "length as = off"
  shows "copy_into (off + 5) (to_le_bytes 4 ack) (copy_into (off + 1) (to_le_bytes 4 seq)
      ((as @ write_reliable_header h @ bs)[off := flags])) =
    as @ write_reliable_header \<lparr>rh_flags = flags, rh_seq = seq, rh_ack = ack\<rparr> @ bs"
proof -
  have 1: "(as @ write_reliable_header h @ bs)[off := flags] =
      (as @ [flags]) @ to_le_bytes 4 (rh_seq h) @ to_le_bytes 4 (rh_ack h) @ bs"
    using assms by (auto simp: write_reliable_header_def write_u32_le_def)
  have 2: "copy_into (off + 1) (to_le_bytes 4 seq) \<dots> =
      (as @ [flags] @ to_le_bytes 4 seq) @ to_le_bytes 4 (rh_ack h) @ bs"
    using copy_into_replace [of "to_le_bytes 4 (rh_seq h)" "to_le_bytes 4 seq" "as @ [flags]"] assms by simp
  have 3: "copy_into (off + 5) (to_le_bytes 4 ack) \<dots> =
      (as @ [flags] @ to_le_bytes 4 seq) @ to_le_bytes 4 ack @ bs"
    using copy_into_replace [of "to_le_bytes 4 (rh_ack h)" "to_le_bytes 4 ack" "as @ [flags] @ to_le_bytes 4 seq"]
      assms by simp
  show ?thesis unfolding 1 2 3 by (simp add: write_reliable_header_def write_u32_le_def)
qed

lemma rewrite_layout:
  assumes p: "wire_sendable E p" and rel: "is_reliable_type E (pkt_ty p)"
  shows "rewrite_reliable_header E (append_crc32 E (frame_body E p (Some h))) flags seq ack =
    Ok (True, append_crc32 E (frame_body E p (Some \<lparr>rh_flags = flags, rh_seq = seq, rh_ack = ack\<rparr>)))"
proof -
  let ?as = "encode_prelude (header_of E p) @ build_endpoint_bitmap E (pkt_endpoints p) @ sender_wire E p"
  let ?h' = "\<lparr>rh_flags = flags, rh_seq = seq, rh_ack = ack\<rparr>"
  let ?body = "frame_body E p (Some h)" and ?body' = "frame_body E p (Some ?h')"
  have frame: "append_crc32 E ?body = ?as @ write_reliable_header h @ (payload_wire E p @ to_le_bytes 4 (crc32 E ?body))"
    by (simp add: append_crc32_def frame_body_def reliable_bytes_def)
  have off: "length ?as = off_reliable E p" by (simp add: off_defs)
  have len: "length (append_crc32 E ?body) - CRC32_BYTES = length ?body'"
    by (simp add: append_crc32_def CRC32_BYTES_def frame_body_def reliable_bytes_def)
  have room: "\<not> length ?body' - off_reliable E p < RELIABLE_HEADER_BYTES"
    using off by (simp add: frame_body_def reliable_bytes_def)
  note new = rewrite_header_bytes [OF off, of ack seq h "payload_wire E p @ to_le_bytes 4 (crc32 E ?body)" flags,
      folded frame]
  have new': "?as @ write_reliable_header ?h' @ (payload_wire E p @ to_le_bytes 4 (crc32 E ?body)) =
      ?body' @ to_le_bytes 4 (crc32 E ?body)"
    by (simp add: frame_body_def reliable_bytes_def)
  have crc: "copy_into (length ?body') (to_le_bytes 4 (crc32 E ?body')) (?body' @ to_le_bytes 4 (crc32 E ?body)) =
      append_crc32 E ?body'"
    using copy_into_replace [of "to_le_bytes 4 (crc32 E ?body)" "to_le_bytes 4 (crc32 E ?body')" ?body' "[]"]
    by (simp add: append_crc32_def)
  show ?thesis
    unfolding rewrite_reliable_header_def reliable_header_offset_layout [OF p]
    by (simp only: rel if_True andthen.simps option.case Let_def len room if_False new new')
      (simp add: crc CRC32_BYTES_def)
qed

end
