(* ===== verification/Wire_Safety.thy ===== *)
theory Wire_Safety
  imports Wire_Roundtrip
begin

text \<open>
  Frames from anywhere: what holds of an arbitrary byte string the receiver is given. No parser step
  but the allocation of a decompression buffer can panic, and a packet that is accepted is a packet
  \<open>Packet::new\<close> would build, with its endpoints sorted and without repetition.
\<close>

section \<open>No parser step panics\<close>

lemma read_bytes_no_panic [simp]: "read_bytes n r \<noteq> Panic m"
  by (simp add: read_bytes_def)

lemma read_byte_no_panic [simp]: "read_byte r \<noteq> Panic m"
  by (auto simp: read_byte_def outcome_simps)

lemma read_uleb128_loop_no_panic: "read_uleb128_loop n acc s r \<noteq> Panic m"
  by (induction n acc s r rule: read_uleb128_loop.induct) (auto simp: outcome_simps Let_def)

lemma read_uleb128_no_panic [simp]: "read_uleb128 r \<noteq> Panic m"
  by (simp add: read_uleb128_def read_uleb128_loop_no_panic)

lemma read_u32_le_no_panic [simp]: "read_u32_le r \<noteq> Panic m"
  by (auto simp: read_u32_le_def outcome_simps)

lemma read_reliable_header_no_panic [simp]: "read_reliable_header r \<noteq> Panic m"
  by (auto simp: read_reliable_header_def outcome_simps)

lemma read_prelude_no_panic [simp]: "read_prelude r \<noteq> Panic m"
  by (auto simp: read_prelude_def outcome_simps split: if_splits)

lemma type_from_raw_no_panic [simp]: "type_from_raw E v \<noteq> Panic m"
  by (simp add: type_from_raw_def)

lemma is_reliable_type_from_raw_no_panic [simp]: "is_reliable_type_from_raw E v \<noteq> Panic m"
  by (auto simp: is_reliable_type_from_raw_def outcome_simps)

lemma try_map_no_panic: "(\<And>x m. f x \<noteq> Panic m) \<Longrightarrow> try_map f xs \<noteq> Panic m"
  by (induction xs) (auto simp: outcome_simps)

lemma read_endpoints_no_panic [simp]: "read_endpoints E h r \<noteq> Panic m"
  by (auto simp: read_endpoints_def expand_endpoint_bitmap_def outcome_simps try_map_no_panic split: if_splits)

lemma skip_reliable_header_no_panic [simp]: "skip_reliable_header E ty r \<noteq> Panic m"
  by (auto simp: skip_reliable_header_def outcome_simps split: if_splits)

lemma verify_crc32_no_panic [simp]: "verify_crc32 E buf \<noteq> Panic m"
  by (auto simp: verify_crc32_def split_crc32_def outcome_simps Let_def split: if_splits)

lemma decompress_panic:
  "decompress E c n = Panic m \<Longrightarrow> compression_feature E \<and> isize_max < n \<and> m = ''capacity overflow''"
  by (auto simp: decompress_def split: if_splits option.splits)

lemma read_sender_panic:
  "read_sender E h r = Panic m \<Longrightarrow> compression_feature E \<and> isize_max < wh_slen h \<and> m = ''capacity overflow''"
  by (auto simp: read_sender_def decode_sender_name_def outcome_simps dest!: decompress_panic split: if_splits)

lemma deserialize_panic:
  assumes "deserialize_packet E buf = Panic m" and "max_stack_payload E \<le> 255"
  shows "compression_feature E \<and> m = ''capacity overflow'' \<and>
    (\<exists>data h r. verify_crc32 E buf = Ok data \<and> read_prelude (reader_new data) = Ok (h, r) \<and>
       (isize_max < wh_slen h \<or> isize_max < wh_dsz h))"
  using assms unfolding deserialize_packet_def
  by (clarsimp simp: outcome_simps Let_def packet_new_not_Panic split: if_split_asm)
    (auto dest!: read_sender_panic decompress_panic)

section \<open>Accepted packets are well formed\<close>

lemma expand_endpoint_bitmap_Ok:
  assumes "schema_wf E" and "expand_endpoint_bitmap E bm = Ok eps"
  shows "eps = map ((!) (all_endpoints E)) (filter (bitmap_test bm) [0..<data_endpoint_count E])"
proof -
  have small: "unat (of_nat i :: u32) = i" if "i < data_endpoint_count E" for i
    using that schema_wf_counts(2) [OF assms(1)] by (simp add: unat_of_nat_small)
  have "try_map (\<lambda>idx. ok_or (Deserialize ''bad endpoint bit set'') (data_endpoint_try_from_u32 E (of_nat idx)))
      (filter (bitmap_test bm) [0..<data_endpoint_count E]) =
    Ok (map ((!) (all_endpoints E)) (filter (bitmap_test bm) [0..<data_endpoint_count E]))"
    by (rule try_map_total) (simp add: data_endpoint_try_from_u32_eq [OF assms(1)] small)
  with assms show ?thesis
    by (auto simp: expand_endpoint_bitmap_def EP_BITMAP_BITS_count split: if_splits)
qed

lemma expanded_endpoints:
  assumes "schema_wf E" and "expand_endpoint_bitmap E bm = Ok eps"
  shows "sorted eps" "distinct eps" "\<forall>ep \<in> set eps. valid_endpoint E ep"
proof -
  let ?is = "filter (bitmap_test bm) [0..<data_endpoint_count E]"
  note eps = expand_endpoint_bitmap_Ok [OF assms]
  have mono: "all_endpoints E ! i < all_endpoints E ! j"
    if "i < j" and "j < data_endpoint_count E" for i j
    using that by (simp add: endpoint_less_iff_index [of E] valid_endpoint_nth endpoint_index_nth)
  have "sorted_wrt (\<lambda>i j. all_endpoints E ! i < all_endpoints E ! j) ?is"
    by (rule sorted_wrt_mono_rel [of _ "(<)"]) (auto intro: mono simp: sorted_wrt_filter)
  then have "sorted_wrt (<) eps" by (simp add: eps sorted_wrt_map)
  then show "sorted eps" "distinct eps" by (auto simp: strict_sorted_iff)
  show "\<forall>ep \<in> set eps. valid_endpoint E ep" by (auto simp: eps valid_endpoint_nth)
qed

lemma type_from_raw_valid: "schema_wf E \<Longrightarrow> type_from_raw E v = Ok ty \<Longrightarrow> valid_type E ty"
  by (auto simp: type_from_raw_def dest: data_type_try_from_u32_valid split: if_splits)

lemma read_sender_utf8: "read_sender E h r = Ok (s, r') \<Longrightarrow> from_utf8 s"
  by (auto simp: read_sender_def decode_sender_name_def outcome_simps split: if_splits)

lemma read_prelude_nep: "read_prelude r = Ok (h, r') \<Longrightarrow> wh_nep h \<le> 255"
proof -
  assume "read_prelude r = Ok (h, r')"
  then obtain b :: u8 where "wh_nep h = unat b"
    by (auto simp: read_prelude_def outcome_simps)
  then show ?thesis using unat_u8_bound [of b] by simp
qed

lemma deserialize_OkE:
  assumes "deserialize_packet E buf = Ok p"
  obtains data h r1 r2 r3 eps sender ty bs where
    "verify_crc32 E buf = Ok data" "read_prelude (reader_new data) = Ok (h, r1)"
    "read_endpoints E h r1 = Ok (eps, r2)" "read_sender E h r2 = Ok (sender, r3)"
    "type_from_raw E (wh_ty h) = Ok ty" "packet_new E ty eps sender (wh_ts h) bs = Ok p"
  using assms
  by (clarsimp simp: deserialize_packet_def outcome_simps Let_def split: if_splits) blast+

lemma deserialize_well_formed:
  assumes wf: "schema_wf E" and ok: "deserialize_packet E buf = Ok p"
  shows "valid_type E (pkt_ty p)" "\<forall>ep \<in> set (pkt_endpoints p). valid_endpoint E ep"
    "sorted (pkt_endpoints p)" "distinct (pkt_endpoints p)" "length (pkt_endpoints p) \<le> 255"
    "from_utf8 (pkt_sender p)" "pkt_data_size p = length (payload p)" "packet_validate E p = Ok ()"
    "packet_new E (pkt_ty p) (pkt_endpoints p) (pkt_sender p) (pkt_timestamp p) (payload p) = Ok p"
    "\<exists>data. buf = append_crc32 E data"
proof -
  from ok obtain data h r1 r2 r3 eps sender ty bs where parts:
    "verify_crc32 E buf = Ok data" "read_prelude (reader_new data) = Ok (h, r1)"
    "read_endpoints E h r1 = Ok (eps, r2)" "read_sender E h r2 = Ok (sender, r3)"
    "type_from_raw E (wh_ty h) = Ok ty" "packet_new E ty eps sender (wh_ts h) bs = Ok p"
    by (rule deserialize_OkE)
  obtain bm where bm: "expand_endpoint_bitmap E bm = Ok eps" and nep: "length eps = wh_nep h"
    using parts(3) by (auto simp: read_endpoints_def outcome_simps split: if_splits)
  note f = packet_new_fields [OF parts(6)] and e = expanded_endpoints [OF wf bm]
  show "valid_type E (pkt_ty p)" using type_from_raw_valid [OF wf parts(5)] f(1) by simp
  show "\<forall>ep \<in> set (pkt_endpoints p). valid_endpoint E ep" "sorted (pkt_endpoints p)" "distinct (pkt_endpoints p)"
    using e f(4) by auto
  show "length (pkt_endpoints p) \<le> 255" using read_prelude_nep [OF parts(2)] nep f(4) by simp
  show "from_utf8 (pkt_sender p)" using read_sender_utf8 [OF parts(4)] f(3) by simp
  show "pkt_data_size p = length (payload p)" using f(2,6) by simp
  show "packet_validate E p = Ok ()" by (rule packet_new_validates [OF parts(6)])
  show "packet_new E (pkt_ty p) (pkt_endpoints p) (pkt_sender p) (pkt_timestamp p) (payload p) = Ok p"
    using parts(6) f by simp
  show "\<exists>data. buf = append_crc32 E data" using parts(1) by (auto simp: verify_crc32_Ok_iff)
qed

lemma deserialized_wire_packet:
  assumes "schema_wf E" and "zstd_ok E" and "deserialize_packet E buf = Ok p"
    and "length (pkt_sender p) + length (payload p) \<le> isize_max"
  shows "wire_packet E p"
  using deserialize_well_formed [OF assms(1,3)] assms
  by (simp add: wire_packet_def wire_sendable_def list_all_iff)

section \<open>The identifier of an accepted frame\<close>

lemma try_map_mono:
  "try_map f xs = Ok ys \<Longrightarrow> (\<And>x y. x \<in> set xs \<Longrightarrow> f x = Ok y \<Longrightarrow> g x = Ok y) \<Longrightarrow> try_map g xs = Ok ys"
  by (induction xs arbitrary: ys) (auto simp: outcome_simps)

lemma checked_endpoints:
  assumes "schema_wf E" and "expand_endpoint_bitmap E bm = Ok eps"
  shows "try_map (\<lambda>idx. if of_nat idx > max_value_data_endpoint E then Err (Deserialize ''bad endpoint bit set'')
      else ok_or (Deserialize ''bad endpoint bit set'') (data_endpoint_try_from_u32 E (of_nat idx)))
    (filter (bitmap_test bm) [0..<EP_BITMAP_BITS E]) = Ok eps"
proof (rule try_map_mono)
  show "try_map (\<lambda>idx. ok_or (Deserialize ''bad endpoint bit set'') (data_endpoint_try_from_u32 E (of_nat idx)))
      (filter (bitmap_test bm) [0..<EP_BITMAP_BITS E]) = Ok eps"
    using assms(2) by (simp add: expand_endpoint_bitmap_def split: if_splits)
  fix idx y
  assume "idx \<in> set (filter (bitmap_test bm) [0..<EP_BITMAP_BITS E])"
    and "ok_or (Deserialize ''bad endpoint bit set'') (data_endpoint_try_from_u32 E (of_nat idx)) = Ok y"
  moreover have "\<not> max_value_data_endpoint E < of_nat idx" if "idx < data_endpoint_count E"
    using that schema_wf_counts(2) [OF assms(1)]
    by (simp add: word_less_nat_alt unat_max_value_data_endpoint assms(1) unat_of_nat_small)
  ultimately show "(if of_nat idx > max_value_data_endpoint E then Err (Deserialize ''bad endpoint bit set'')
      else ok_or (Deserialize ''bad endpoint bit set'') (data_endpoint_try_from_u32 E (of_nat idx))) = Ok y"
    by (simp add: EP_BITMAP_BITS_count [OF assms(1)])
qed

lemma read_bytes_Ok: "read_bytes n r = Ok (bs, r') \<Longrightarrow> length bs = n \<and> remaining r = n + remaining r'"
  by (auto simp: read_bytes_def remaining_def split: if_splits)

lemma read_byte_Ok: "read_byte r = Ok (b, r') \<Longrightarrow> remaining r = 1 + remaining r'"
  by (auto simp: read_byte_def outcome_simps dest!: read_bytes_Ok)

lemma read_reliable_header_Ok: "read_reliable_header r = Ok (hdr, r') \<Longrightarrow> remaining r = RELIABLE_HEADER_BYTES + remaining r'"
  by (auto simp: read_reliable_header_def read_u32_le_def wire_constants outcome_simps dest!: read_byte_Ok read_bytes_Ok)

lemma skip_reliable_header_Ok:
  "skip_reliable_header E ty r = Ok r' \<Longrightarrow>
   remaining r = (if is_reliable_type E ty then RELIABLE_HEADER_BYTES else 0) + remaining r'"
  by (auto simp: skip_reliable_header_def outcome_simps dest!: read_reliable_header_Ok split: if_splits)

lemma read_prelude_two: "read_prelude (reader_new data) = Ok (h, r) \<Longrightarrow> \<not> length data < 2"
  by (auto simp: read_prelude_def outcome_simps dest!: read_byte_Ok) (simp add: remaining_def reader_new_def)

lemma uleb128_loop_remaining: "read_uleb128_loop n acc s r = Ok (v, r') \<Longrightarrow> remaining r' \<le> remaining r"
  by (induction n acc s r rule: read_uleb128_loop.induct)
    (fastforce simp: outcome_simps Let_def dest!: read_byte_Ok split: if_splits)+

lemma read_prelude_remaining: "read_prelude r = Ok (h, r') \<Longrightarrow> remaining r' \<le> remaining r"
  by (auto simp: read_prelude_def read_uleb128_def outcome_simps dest!: read_byte_Ok uleb128_loop_remaining split: if_splits)

lemma decompress_length: "decompress E c n = Ok bs \<Longrightarrow> length bs = n"
  by (auto simp: decompress_def split: if_splits option.splits)

lemma wadd_le: "wadd a b \<le> a + b"
  by (simp add: wadd_def)

lemma andthen_OkE: "andthen m f = Ok y \<Longrightarrow> (\<And>x. m = Ok x \<Longrightarrow> f x = Ok y \<Longrightarrow> P) \<Longrightarrow> P"
  by (auto simp: andthen_eq_Ok)

lemma guard_OkE: "(if c then Err e else m) = Ok y \<Longrightarrow> (\<not> c \<Longrightarrow> m = Ok y \<Longrightarrow> P) \<Longrightarrow> P"
  by (simp split: if_splits)

lemma case_prod_OkE: "(case x of (a, b) \<Rightarrow> f a b) = Ok y \<Longrightarrow> (\<And>a b. x = (a, b) \<Longrightarrow> f a b = Ok y \<Longrightarrow> P) \<Longrightarrow> P"
  by (cases x) simp

lemma deserialize_readsE:
  assumes "deserialize_packet E buf = Ok p"
  obtains data h r1 ty bm r2 eps wire r3 sender r4 bs where
    "verify_crc32 E buf = Ok data" "read_prelude (reader_new data) = Ok (h, r1)" "type_from_raw E (wh_ty h) = Ok ty"
    "\<not> remaining r1 < wadd (wadd (wadd (EP_BITMAP_BYTES E) (wh_sender_wire_len h))
        (if is_reliable_type E ty then RELIABLE_HEADER_BYTES else 0)) (if wh_payload_compressed h then 1 else wh_dsz h)"
    "read_bytes (EP_BITMAP_BYTES E) r1 = Ok (bm, r2)" "expand_endpoint_bitmap E bm = Ok eps"
    "read_bytes (wh_sender_wire_len h) r2 = Ok (wire, r3)"
    "decode_sender_name E wire (wh_sender_compressed h) (wh_slen h) = Ok sender"
    "skip_reliable_header E ty r3 = Ok r4"
    "(if \<not> wh_payload_compressed h then andthen (read_bytes (wh_dsz h) r4) (\<lambda>(p, r). Ok p)
        else andthen (read_bytes (remaining r4) r4) (\<lambda>(c, r). decompress E c (wh_dsz h))) = Ok bs"
    "packet_new E ty eps sender (wh_ts h) bs = Ok p"
  using assms
  unfolding deserialize_packet_def Let_def is_reliable_type_from_raw_def read_endpoints_def read_sender_def
  by (elim andthen_OkE guard_OkE case_prod_OkE) (rule that; simp)

text \<open>The two readers of a frame, the one that builds the packet and the one that only hashes it, agree.\<close>

lemma packet_id_from_wire_accepted:
  assumes wf: "schema_wf E" and ok: "deserialize_packet E buf = Ok p" and len: "length buf \<le> isize_max"
  shows "packet_id_from_wire E buf = Ok (packet_id E p)"
proof -
  from ok obtain data h r1 ty bm r2 eps wire r3 sender r4 bs where
    crc: "verify_crc32 E buf = Ok data" and pre: "read_prelude (reader_new data) = Ok (h, r1)"
    and ty: "type_from_raw E (wh_ty h) = Ok ty"
    and room: "\<not> remaining r1 < wadd (wadd (wadd (EP_BITMAP_BYTES E) (wh_sender_wire_len h))
        (if is_reliable_type E ty then RELIABLE_HEADER_BYTES else 0)) (if wh_payload_compressed h then 1 else wh_dsz h)"
    and bm: "read_bytes (EP_BITMAP_BYTES E) r1 = Ok (bm, r2)" "expand_endpoint_bitmap E bm = Ok eps"
    and snd: "read_bytes (wh_sender_wire_len h) r2 = Ok (wire, r3)"
      "decode_sender_name E wire (wh_sender_compressed h) (wh_slen h) = Ok sender"
    and rel: "skip_reliable_header E ty r3 = Ok r4"
    and pay: "(if \<not> wh_payload_compressed h then andthen (read_bytes (wh_dsz h) r4) (\<lambda>(p, r). Ok p)
        else andthen (read_bytes (remaining r4) r4) (\<lambda>(c, r). decompress E c (wh_dsz h))) = Ok bs"
    and new: "packet_new E ty eps sender (wh_ts h) bs = Ok p"
    by (rule deserialize_readsE)
  note lens = read_bytes_Ok [OF bm(1)] read_bytes_Ok [OF snd(1)] skip_reliable_header_Ok [OF rel]
  have total: "remaining r1 \<le> isize_max"
    using read_prelude_remaining [OF pre] crc len
    by (simp add: verify_crc32_Ok_iff append_crc32_def remaining_def reader_new_def)
  have room1: "\<not> remaining r1 < wadd (EP_BITMAP_BYTES E) (wh_sender_wire_len h)"
    using wadd_le [of "EP_BITMAP_BYTES E" "wh_sender_wire_len h"] lens by linarith
  have left: "1 \<le> remaining r4" if "wh_payload_compressed h"
  proof -
    let ?rel = "if is_reliable_type E ty then RELIABLE_HEADER_BYTES else 0"
    have "EP_BITMAP_BYTES E + wh_sender_wire_len h + ?rel \<le> isize_max" using lens total by linarith
    then have "EP_BITMAP_BYTES E + wh_sender_wire_len h + ?rel + 1 < usize_limit" by (simp add: isize_max_def usize_limit_def)
    then show ?thesis using room that lens by simp
  qed
  have sender: "(if wh_sender_compressed h then decompress E wire (wh_slen h) else Ok wire) = Ok sender"
    using snd(2) by (auto simp: decode_sender_name_def outcome_simps split: if_splits)
  have payload: "(if \<not> wh_payload_compressed h
      then (if remaining r4 < wh_dsz h then Err (Deserialize ''short buffer'')
            else andthen (read_bytes (wh_dsz h) r4) (\<lambda>(p, r). Ok p))
      else (if remaining r4 < 1 then Err (Deserialize ''short buffer'')
            else andthen (read_bytes (remaining r4) r4) (\<lambda>(c, r). decompress E c (wh_dsz h)))) = Ok bs"
    using pay left by (auto simp: outcome_simps read_bytes_def split: if_splits)
  have size: "length bs = wh_dsz h"
    using pay by (auto simp: outcome_simps dest: read_bytes_Ok decompress_length split: if_splits)
  note f = packet_new_fields [OF new]
  show ?thesis
    unfolding packet_id_from_wire_def crc andthen.simps pre prod.case if_not_P [OF read_prelude_two [OF pre]] if_not_P [OF room1]
      bm(1) ty snd(1) sender rel payload checked_endpoints [OF wf bm(2)] Let_def
    by (simp add: packet_id_def f size)
qed

end
