(* ===== verification/Sample_Env.thy ===== *)
theory Sample_Env
  imports Wire_Roundtrip
begin

text \<open>
  A concrete instance of the configuration for evaluating the model: two endpoints and three data
  types of \<open>telemetry_config.json\<close>, the default constants of \<open>src/config.rs\<close>, a small
  compression threshold, and stand-ins for the foreign functions: an additive checksum and a
  run-length coder for a repeated byte.
\<close>

definition sample_schema :: schema where
  "sample_schema =
     \<lparr>user_endpoints =
        [\<lparr>je_name = str ''SD_CARD'', je_link_local_only = None\<rparr>,
         \<lparr>je_name = str ''RADIO'', je_link_local_only = None\<rparr>],
      user_types =
        [\<lparr>jt_name = str ''GPS_DATA'', jt_reliable = None, jt_reliable_mode = Some Ordered,
          jt_priority = None, jt_element = Static 3 Float32 Data,
          jt_endpoints = [UserEndpoint 1, UserEndpoint 0]\<rparr>,
         \<lparr>jt_name = str ''BATTERY_STATUS'', jt_reliable = None, jt_reliable_mode = None,
          jt_priority = None, jt_element = Static 2 Float32 Data,
          jt_endpoints = [UserEndpoint 1, UserEndpoint 0]\<rparr>,
         \<lparr>jt_name = str ''MESSAGE_DATA'', jt_reliable = None, jt_reliable_mode = None,
          jt_priority = None, jt_element = Dynamic String_T Data,
          jt_endpoints = [UserEndpoint 1, UserEndpoint 0]\<rparr>]\<rparr>"

definition checksum :: "bytes \<Rightarrow> u32" where
  "checksum bs = sum_list (map ucast bs)"

definition run_compress :: "nat \<Rightarrow> bytes \<Rightarrow> bytes option" where
  "run_compress cap x =
     (case x of [] \<Rightarrow> None
      | b # bs \<Rightarrow> if list_all (\<lambda>c. c = b) bs \<and> length x \<le> 255 \<and> 2 \<le> cap
                  then Some [of_nat (length x), b] else None)"

definition run_decompress :: "nat \<Rightarrow> bytes \<Rightarrow> bytes option" where
  "run_decompress cap c =
     (case c of [n, b] \<Rightarrow> if unat n \<le> cap then Some (replicate (unat n) b) else None | _ \<Rightarrow> None)"

definition sample_env :: env where
  "sample_env =
     \<lparr>user_endpoints = user_endpoints sample_schema, user_types = user_types sample_schema,
      device_identifier = str ''TEST'', max_recent_rx_ids = 128, starting_queue_size = 128,
      max_queue_budget = 102400, queue_grow_step = Fin 3.2, payload_compress_threshold = 6,
      static_string_length = 1024, static_hex_length = 1024, string_precision = 8,
      max_stack_payload = 64, max_handler_retries = 3, reliable_retransmit_ms = 200,
      reliable_max_retries = 8, reliable_max_pending = 16, reliable_max_return_routes = 128,
      reliable_max_end_to_end_pending = 16, reliable_max_end_to_end_ack_cache = 128,
      compression_feature = True, crc32 = checksum,
      zstd_compress = run_compress, zstd_decompress = run_decompress\<rparr>"

lemmas sample_defs = sample_env_def sample_schema_def

text \<open>Two packets: a reliable GPS fix whose payload compresses, and a battery reading.\<close>

definition gps_packet :: packet where
  "gps_packet =
     \<lparr>pkt_ty = UserType 0, pkt_data_size = 12, pkt_sender = str ''TEST'',
      pkt_endpoints = [UserEndpoint 1, UserEndpoint 0], pkt_timestamp = 1000,
      pkt_payload = Inline 12 (replicate 12 (Some 7) @ replicate 52 None)\<rparr>"

definition battery_packet :: packet where
  "battery_packet =
     \<lparr>pkt_ty = UserType 1, pkt_data_size = 8, pkt_sender = str ''TEST'',
      pkt_endpoints = [UserEndpoint 0, UserEndpoint 1], pkt_timestamp = 70000,
      pkt_payload = Inline 8 (map Some [1, 2, 3, 4, 5, 6, 7, 8] @ replicate 56 None)\<rparr>"

lemma sample_zstd_ok: "zstd_ok sample_env"
  unfolding zstd_ok_def
proof (intro allI impI)
  fix cap x c
  assume "zstd_compress sample_env cap x = Some c"
  then obtain b bs where x: "x = b # bs" and same: "list_all (\<lambda>c. c = b) bs" and short: "length x \<le> 255"
    and cap: "2 \<le> cap" and c: "c = [of_nat (length x), b]"
    by (auto simp: sample_env_def run_compress_def split: list.splits if_splits)
  have "replicate (length x) b = x"
    using same by (simp add: x list_all_iff replicate_length_same)
  moreover have "unat (of_nat (length x) :: u8) = length x"
    using short by (simp add: unat_of_nat_small)
  ultimately show "0 < length c \<and> length c \<le> cap \<and> zstd_decompress sample_env (length x) c = Some x"
    using cap by (simp add: c sample_env_def run_decompress_def)
qed

lemma sample_schema_wf: "schema_wf sample_env"
  by (auto simp: schema_wf_def sample_defs data_type_count_def data_endpoint_count_def
      valid_endpoint_def all_endpoints_def upt_conv_Cons)

lemma sample_fields:
  "length (user_types sample_env) = 3" "length (user_endpoints sample_env) = 2"
  "compression_feature sample_env" "max_stack_payload sample_env = 64"
  "payload_compress_threshold sample_env = 6" "crc32 sample_env = checksum"
  by (simp_all add: sample_defs)

lemma sample_counts: "data_type_count sample_env = 13" "data_endpoint_count sample_env = 5"
  by (simp_all add: data_type_count_def data_endpoint_count_def sample_fields)

lemma sample_types:
  "all_types sample_env ! 0 = UserType 0" "all_types sample_env ! Suc 0 = UserType 1"
  "all_endpoints sample_env ! 0 = UserEndpoint 0" "all_endpoints sample_env ! Suc 0 = UserEndpoint 1"
  by (simp_all add: all_types_def all_endpoints_def sample_fields upt_conv_Cons)

lemma sample_meta:
  "mm_element (user_type_meta (user_types sample_env ! 0)) = Static 3 Float32 Data"
  "mm_element (user_type_meta (user_types sample_env ! Suc 0)) = Static 2 Float32 Data"
  "is_reliable_type sample_env (UserType 0)" "\<not> is_reliable_type sample_env (UserType (Suc 0))"
  by (simp_all add: sample_defs user_type_meta_def is_reliable_type_def)


lemma gps_packet_new:
  "packet_new sample_env (UserType 0) [UserEndpoint 1, UserEndpoint 0] (str ''TEST'') 1000
     (replicate 12 7) = Ok gps_packet"
  by (simp add: packet_new_def sample_meta gps_packet_def small_payload_new_cases
   get_data_type_def usize_limit_def sample_fields)

lemma battery_packet_new:
  "packet_new sample_env (UserType 1) [UserEndpoint 0, UserEndpoint 1] (str ''TEST'') 70000
     [1, 2, 3, 4, 5, 6, 7, 8] = Ok battery_packet"
  by (simp add: packet_new_def sample_meta battery_packet_def small_payload_new_cases
   get_data_type_def usize_limit_def sample_fields)

lemma sample_valid:
  "valid_type sample_env (UserType 0)" "valid_type sample_env (UserType (Suc 0))"
  "valid_endpoint sample_env (UserEndpoint 0)" "valid_endpoint sample_env (UserEndpoint (Suc 0))"
  by (simp_all add: valid_type_def valid_endpoint_def sample_fields all_types_def all_endpoints_def upt_conv_Cons)

lemma test_utf8: "from_utf8 (str ''TEST'')"
  by (rule from_utf8_ascii) (auto simp: str_def)

lemma gps_wire_packet: "wire_packet sample_env gps_packet"
  using gps_packet_new packet_new_fields [OF gps_packet_new]
  by (simp add: wire_packet_def wire_sendable_def sample_schema_wf sample_zstd_ok sample_valid test_utf8
      isize_max_def sort_dedup_def)

lemma battery_wire_packet: "wire_packet sample_env battery_packet"
  using battery_packet_new packet_new_fields [OF battery_packet_new]
  by (simp add: wire_packet_def wire_sendable_def sample_schema_wf sample_zstd_ok sample_valid test_utf8
      isize_max_def sort_dedup_def)
end
