(* ===== verification/Wire_Properties.thy ===== *)
theory Wire_Properties
  imports Wire_Safety Sample_Env
begin

text \<open>
  The promises of the wire format, each with an instance on the sample configuration.
\<close>

text \<open>
  C1. Every sendable packet serializes, and deserializing the frame gives the packet back with its
  endpoints sorted and without repetition (the wire carries them as a bitmap), with or without
  compression of the sender and of the payload.
\<close>

theorem serialize_deserialize:
  assumes "wire_packet E p"
  shows "\<exists>frame. serialize_packet E p = Ok frame \<and>
    deserialize_packet E frame = Ok (p\<lparr>pkt_endpoints := sort_dedup (pkt_endpoints p)\<rparr>)"
  using serialize_packet_layout [OF wire_packetD(1) [OF assms]]
    deserialize_layout [OF assms default_reliable_matches default_reliable_data] by simp

theorem serialize_deserialize_witness:
  "\<exists>frame. serialize_packet sample_env gps_packet = Ok frame \<and>
    deserialize_packet sample_env frame = Ok (gps_packet\<lparr>pkt_endpoints := [UserEndpoint 0, UserEndpoint 1]\<rparr>)"
  using serialize_deserialize [OF gps_wire_packet]
  by (simp add: gps_packet_def sort_dedup_def less_eq_data_endpoint_def)

text \<open>
  C4. A node that accepted a frame and serializes the packet again produces a frame that its peer
  reads as the very same packet, with the default reliable header and, for a reliable type, with every
  other header that does not mark an acknowledgement: any sequence number, any acknowledged number, any
  other flags.
\<close>

theorem forwarding_preserves_packet:
  assumes "schema_wf E" and "zstd_ok E" and "deserialize_packet E buf = Ok p"
    and "length (pkt_sender p) + length (payload p) \<le> isize_max"
    and "rh_flags hdr AND RELIABLE_FLAG_ACK_ONLY = 0"
  shows "andthen (serialize_packet E p) (deserialize_packet E) = Ok p \<and>
    (is_reliable_type E (pkt_ty p) \<longrightarrow> andthen (serialize_packet_with_reliable E p hdr) (deserialize_packet E) = Ok p)"
proof -
  have p: "wire_packet E p" by (rule deserialized_wire_packet [OF assms(1-4)])
  have same: "sort_dedup (pkt_endpoints p) = pkt_endpoints p"
    using deserialize_well_formed(3,4) [OF assms(1,3)] by simp
  have "deserialize_packet E (append_crc32 E (frame_body E p (Some hdr))) = Ok p" if "is_reliable_type E (pkt_ty p)"
    using deserialize_layout [OF p, of "Some hdr"] that assms(5) same by (simp add: reliable_matches_def data_frame_def)
  moreover have "deserialize_packet E (append_crc32 E (frame_body E p (default_reliable E p))) = Ok p"
    using deserialize_layout [OF p default_reliable_matches default_reliable_data] same by simp
  ultimately show ?thesis
    using wire_packetD(1) [OF p]
    by (simp add: serialize_packet_layout serialize_packet_with_reliable_def serialize_packet_inner_layout)
qed

theorem forwarding_preserves_packet_witness:
  "andthen (serialize_packet_with_reliable sample_env (gps_packet\<lparr>pkt_endpoints := [UserEndpoint 0, UserEndpoint 1]\<rparr>)
      \<lparr>rh_flags = RELIABLE_FLAG_UNORDERED, rh_seq = 9, rh_ack = 4\<rparr>) (deserialize_packet sample_env) =
    Ok (gps_packet\<lparr>pkt_endpoints := [UserEndpoint 0, UserEndpoint 1]\<rparr>)"
proof -
  let ?p = "gps_packet\<lparr>pkt_endpoints := [UserEndpoint 0, UserEndpoint 1]\<rparr>"
  let ?frame = "append_crc32 sample_env (frame_body sample_env gps_packet (default_reliable sample_env gps_packet))"
  have "deserialize_packet sample_env ?frame = Ok ?p"
    using deserialize_layout [OF gps_wire_packet default_reliable_matches default_reliable_data]
    by (simp add: packet_new_fields [OF gps_packet_new] sort_dedup_def less_eq_data_endpoint_def)
  moreover have "length (pkt_sender ?p) + length (payload ?p) \<le> isize_max"
    using wire_sendableD(9) [OF wire_packetD(1) [OF gps_wire_packet]] by (simp add: payload_def)
  ultimately show ?thesis
    using forwarding_preserves_packet [OF sample_schema_wf sample_zstd_ok, of ?frame ?p
        "\<lparr>rh_flags = RELIABLE_FLAG_UNORDERED, rh_seq = 9, rh_ack = 4\<rparr>"]
    by (simp add: packet_new_fields [OF gps_packet_new] sample_meta wire_constants)
qed

text \<open>
  C30. Whatever bytes arrive, an accepted packet satisfies \<open>Packet::validate\<close>: its type and
  endpoints are of the schema, the endpoints are sorted, distinct and at most 255, the sender is UTF-8
  and the size field is the size of the payload; and the frame ended in the checksum of its body.
\<close>

theorem deserialize_accepts_only_valid:
  assumes "schema_wf E" and "deserialize_packet E buf = Ok p"
  shows "packet_validate E p = Ok () \<and> valid_type E (pkt_ty p) \<and>
    list_all (valid_endpoint E) (pkt_endpoints p) \<and> sorted (pkt_endpoints p) \<and> distinct (pkt_endpoints p) \<and>
    length (pkt_endpoints p) \<le> 255 \<and> from_utf8 (pkt_sender p) \<and> pkt_data_size p = length (payload p) \<and>
    (\<exists>data. buf = data @ to_le_bytes 4 (crc32 E data))"
  using deserialize_well_formed [OF assms] by (simp add: list_all_iff append_crc32_def)

theorem deserialize_accepts_only_valid_witness:
  "packet_validate sample_env battery_packet = Ok () \<and> sorted (pkt_endpoints battery_packet)"
proof -
  let ?frame = "append_crc32 sample_env (frame_body sample_env battery_packet (default_reliable sample_env battery_packet))"
  have "deserialize_packet sample_env ?frame = Ok battery_packet"
    using deserialize_layout [OF battery_wire_packet default_reliable_matches default_reliable_data]
    by (simp add: battery_packet_def sort_dedup_def less_eq_data_endpoint_def)
  from deserialize_accepts_only_valid [OF sample_schema_wf this] show ?thesis by simp
qed

text \<open>
  C31. No input makes the parser panic, except a frame that declares more than \<open>isize::MAX\<close> bytes
  for a compressed field while the compression feature is on: the allocation of the output buffer
  then overflows the capacity.
\<close>

theorem deserialize_panics_only_on_capacity:
  assumes "max_stack_payload E \<le> 255" and "deserialize_packet E buf = Panic m"
  shows "compression_feature E \<and> m = ''capacity overflow'' \<and>
    (\<exists>data h r. verify_crc32 E buf = Ok data \<and> read_prelude (reader_new data) = Ok (h, r) \<and>
       (isize_max < wh_slen h \<or> isize_max < wh_dsz h))"
  by (rule deserialize_panic [OF assms(2,1)])

text \<open>The header of a frame with one endpoint, no sender and a declared payload of $2^{63}$ bytes.\<close>

definition oversized_header :: wire_header where
  "oversized_header =
     \<lparr>wh_flags = FLAG_COMPRESSED_PAYLOAD, wh_nep = 1, wh_ty = 1, wh_dsz = 2 ^ 63, wh_ts = 0, wh_slen = 0,
      wh_sender_wire_len = 0\<rparr>"

definition oversized_frame :: bytes where
  "oversized_frame = append_crc32 sample_env (encode_prelude oversized_header @ [1, 0])"

lemma oversized_reads:
  defines "r \<equiv> reader_new (encode_prelude oversized_header @ [1, 0])"
  defines "n \<equiv> length (encode_prelude oversized_header)"
  shows "read_prelude r = Ok (oversized_header, advance n r)" "before (advance n r) [1, 0]"
proof -
  have here: "before r (encode_prelude oversized_header @ [1, 0])" by (simp add: r_def)
  have "prelude_valid oversized_header"
    by (simp add: prelude_valid_def oversized_header_def wh_sender_compressed_def wire_constants)
  from prelude.dec_enc [OF this here] show "read_prelude r = Ok (oversized_header, advance n r)"
    by (simp add: n_def)
  show "before (advance n r) [1, 0]" unfolding n_def by (rule at_advance [OF here])
qed

lemma sample_bitmap_bytes: "EP_BITMAP_BYTES sample_env = 1" "EP_BITMAP_BITS sample_env = 5"
  by (simp_all add: EP_BITMAP_BYTES_def EP_BITMAP_BITS_count sample_schema_wf sample_counts)

lemma oversized_fields:
  "wh_ty oversized_header = 1" "wh_nep oversized_header = 1" "wh_dsz oversized_header = 2 ^ 63"
  "wh_slen oversized_header = 0" "wh_sender_wire_len oversized_header = 0"
  "wh_payload_compressed oversized_header" "\<not> wh_sender_compressed oversized_header"
  by (simp_all add: oversized_header_def wh_payload_compressed_def wh_sender_compressed_def wire_constants)

lemma oversized_frame_panics: "deserialize_packet sample_env oversized_frame = Panic ''capacity overflow''"
proof -
  define r0 where "r0 = reader_new (encode_prelude oversized_header @ [1, 0])"
  define r1 where "r1 = advance (length (encode_prelude oversized_header)) r0"
  note reads = oversized_reads [folded r0_def, folded r1_def]
  have bm: "read_bytes 1 r1 = Ok ([1], advance 1 r1)" by (rule read_bytes_at [where ys = "[0]"]) (use reads(2) in simp_all)
  have at2: "before (advance 1 r1) [0]" using at_advance [of r1 "[1]" "[0]"] reads(2) by simp
  have rem: "remaining r1 = 2" "remaining (advance (Suc 0) r1) = Suc 0"
    using at_remaining [OF reads(2)] at_remaining [OF at2] by simp_all
  have none: "read_bytes 0 (advance 1 r1) = Ok ([], advance 1 r1)"
    using read_bytes_at [of "advance 1 r1" "[]" "[0]" 0] at2 by simp
  have rest: "read_bytes 1 (advance 1 r1) = Ok ([0], advance 1 (advance 1 r1))"
    by (rule read_bytes_at [where ys = "[]"]) (use at2 in auto)
  have bits: "filter (bitmap_test [1]) [0..<5] = [0]"
    by (simp add: bitmap_test_def upt_rec)
  have eps: "expand_endpoint_bitmap sample_env [1] = Ok [UserEndpoint 0]"
    by (simp add: expand_endpoint_bitmap_def sample_bitmap_bytes bits
        data_endpoint_try_from_u32_eq sample_schema_wf sample_counts sample_types)
  have ty: "type_from_raw sample_env 1 = Ok (UserType 1)"
    by (simp add: type_from_raw_def word_less_nat_alt unat_max_value_data_type sample_schema_wf
        data_type_try_from_u32_eq sample_counts sample_types)
  show ?thesis
    unfolding oversized_frame_def deserialize_packet_def
    using reads bm at2 none rest eps ty
    by (simp add: is_reliable_type_from_raw_def sample_bitmap_bytes sample_meta read_endpoints_def read_sender_def
        rem decode_sender_name_def skip_reliable_header_def
        oversized_fields wadd_def usize_limit_def decompress_def isize_max_def sample_fields Let_def flip: r0_def)
qed

theorem deserialize_panics_only_on_capacity_witness:
  "compression_feature sample_env \<and>
   (\<exists>data h r. verify_crc32 sample_env oversized_frame = Ok data \<and> read_prelude (reader_new data) = Ok (h, r) \<and>
      (isize_max < wh_slen h \<or> isize_max < wh_dsz h))"
  using deserialize_panics_only_on_capacity [OF _ oversized_frame_panics] by (simp add: sample_fields)

text \<open>
  A frame sent with a reliable header is read back with exactly that header by
  \<open>peek_frame_info\<close>, together with the envelope of the packet; the payload is never decoded.
\<close>

theorem peek_reliable_header:
  assumes "wire_sendable E p" and "is_reliable_type E (pkt_ty p)"
  shows "andthen (serialize_packet_with_reliable E p hdr) (peek_frame_info E) =
    Ok \<lparr>fi_envelope = \<lparr>te_ty = pkt_ty p, te_endpoints = sort_dedup (pkt_endpoints p),
                     te_sender = pkt_sender p, te_timestamp_ms = pkt_timestamp p\<rparr>,
        fi_reliable = Some hdr\<rparr>"
  using peek_inner_layout [OF assms(1), of "Some hdr"] assms(2)
  by (simp add: serialize_packet_with_reliable_def serialize_packet_inner_layout [OF assms(1)] peek_frame_info_def
      reliable_matches_def envelope_of_def)

theorem peek_reliable_header_witness:
  "\<exists>env. andthen (serialize_packet_with_reliable sample_env gps_packet \<lparr>rh_flags = 0, rh_seq = 5, rh_ack = 3\<rparr>)
      (peek_frame_info sample_env) = Ok \<lparr>fi_envelope = env, fi_reliable = Some \<lparr>rh_flags = 0, rh_seq = 5, rh_ack = 3\<rparr>\<rparr>"
  using peek_reliable_header [OF wire_packetD(1) [OF gps_wire_packet], of "\<lparr>rh_flags = 0, rh_seq = 5, rh_ack = 3\<rparr>"]
    packet_new_fields(1) [OF gps_packet_new] by (simp add: sample_meta)

text \<open>
  C10. Rewriting the reliable header of a frame in place gives, byte for byte, the frame serialized
  with the new header: nothing but the header and the checksum changes.
\<close>

theorem rewrite_reliable_header_in_place:
  assumes "wire_sendable E p" and "is_reliable_type E (pkt_ty p)"
  shows "andthen (serialize_packet_with_reliable E p hdr) (\<lambda>frame. rewrite_reliable_header E frame flags seq ack) =
    andthen (serialize_packet_with_reliable E p \<lparr>rh_flags = flags, rh_seq = seq, rh_ack = ack\<rparr>)
      (\<lambda>frame. Ok (True, frame))"
  by (simp add: serialize_packet_with_reliable_def serialize_packet_inner_layout [OF assms(1)] rewrite_layout [OF assms])

theorem rewrite_reliable_header_in_place_witness:
  "andthen (serialize_packet sample_env gps_packet) (\<lambda>frame. rewrite_reliable_header sample_env frame 0 9 4) =
    andthen (serialize_packet_with_reliable sample_env gps_packet \<lparr>rh_flags = 0, rh_seq = 9, rh_ack = 4\<rparr>)
      (\<lambda>frame. Ok (True, frame))"
  using rewrite_reliable_header_in_place [OF wire_packetD(1) [OF gps_wire_packet]]
    packet_new_fields(1) [OF gps_packet_new] by (simp add: serialize_packet_def sample_meta)

lemma uleb128_size_le: "uleb128_size v \<le> Suc (unat v)"
proof -
  have "uleb128_size_loop v n \<le> n + unat v" for n
  proof (induction v n rule: uleb128_size_loop.induct)
    case (1 v n)
    have "Suc (unat v div 128) \<le> unat v" if "128 \<le> unat v" using that by linarith
    then show ?case using 1 by (auto simp: uleb128_size_loop.simps [of v n] word_le_nat_alt unat_drop_bit_div)
  qed
  from this [of 1] show ?thesis by (simp add: uleb128_size_def)
qed

lemma gps_wire_size: "packet_wire_size sample_env gps_packet < 5000"
proof -
  have small: "length (snd (compress_if_beneficial sample_env (str ''TEST''))) \<le> 4"
    "length (snd (compress_if_beneficial sample_env (payload gps_packet))) \<le> 12"
    using length_compressed [OF sample_zstd_ok, of "str ''TEST''"] length_compressed [OF sample_zstd_ok, of "payload gps_packet"]
    by (simp_all add: packet_new_fields [OF gps_packet_new])
  then have "uleb128_size (of_nat (length (snd (compress_if_beneficial sample_env (str ''TEST''))))) \<le> 5"
    using uleb128_size_le [of "of_nat (length (snd (compress_if_beneficial sample_env (str ''TEST''))))"]
    by (simp add: unat_of_nat_small)
  moreover have "uleb128_size (of_nat (type_index sample_env (UserType 0))) \<le> 14"
    using uleb128_size_le [of "of_nat (type_index sample_env (UserType 0))"] type_index_bound [of sample_env "UserType 0"]
    by (simp add: unat_of_nat_small sample_counts)
  moreover have "EP_BITMAP_BYTES sample_env = 1"
    by (simp add: EP_BITMAP_BYTES_def EP_BITMAP_BITS_count [OF sample_schema_wf] sample_counts)
  ultimately show ?thesis
    using small uleb128_size_le [of 12] uleb128_size_le [of 1000] uleb128_size_le [of 4]
    by (auto simp: packet_wire_size_def header_size_bytes_def Let_def case_prod_beta packet_new_fields [OF gps_packet_new] wire_constants)
qed

text \<open>
  C33. Whatever frame the reader accepts, whoever built it and with whatever reliable header, the
  deduplication identifier computed from its bytes is the identifier of the packet it is read as. A frame
  is a slice, so it has at most \<open>isize::MAX\<close> bytes.
\<close>

theorem packet_id_from_wire_agrees:
  assumes "schema_wf E" and "deserialize_packet E buf = Ok p" and "length buf \<le> isize_max"
  shows "packet_id_from_wire E buf = Ok (packet_id E p)"
  by (rule packet_id_from_wire_accepted [OF assms])

theorem packet_id_from_wire_agrees_witness:
  "packet_id_from_wire sample_env (append_crc32 sample_env
      (frame_body sample_env gps_packet (Some \<lparr>rh_flags = 0, rh_seq = 9, rh_ack = 4\<rparr>))) =
    Ok (packet_id sample_env (gps_packet\<lparr>pkt_endpoints := [UserEndpoint 0, UserEndpoint 1]\<rparr>))"
proof (rule packet_id_from_wire_agrees [OF sample_schema_wf])
  let ?hdr = "Some \<lparr>rh_flags = 0, rh_seq = 9, rh_ack = 4\<rparr>"
  have rel: "reliable_matches sample_env gps_packet ?hdr" "data_frame ?hdr"
    by (simp_all add: reliable_matches_def data_frame_def packet_new_fields [OF gps_packet_new] sample_meta)
  show "deserialize_packet sample_env (append_crc32 sample_env (frame_body sample_env gps_packet ?hdr)) =
      Ok (gps_packet\<lparr>pkt_endpoints := [UserEndpoint 0, UserEndpoint 1]\<rparr>)"
    using deserialize_layout [OF gps_wire_packet rel]
    by (simp add: packet_new_fields [OF gps_packet_new] sort_dedup_def less_eq_data_endpoint_def)
  have "length (append_crc32 sample_env (frame_body sample_env gps_packet ?hdr)) = packet_wire_size sample_env gps_packet"
    by (rule length_frame [OF wire_packetD(1) [OF gps_wire_packet] rel(1)])
  also note gps_wire_size
  finally show "length (append_crc32 sample_env (frame_body sample_env gps_packet ?hdr)) \<le> isize_max"
    by (simp add: isize_max_def)
qed

lemma gps_hash_prefix:
  "hash_bytes_u64 (hash_bytes_u64 packet_id_seed (str ''TEST'')) (str ''GPS_DATA'') = 0xf91d36917842429b"
 by code_simp

lemma gps_hash_orders:
  "hash_bytes_u64 (hash_bytes_u64 0xf91d36917842429b (str ''RADIO'')) (str ''SD_CARD'') = 0x469fdfd4c0860298"
  "hash_bytes_u64 (hash_bytes_u64 0xf91d36917842429b (str ''SD_CARD'')) (str ''RADIO'') = 0x8c7011a53d1d135d"
 by code_simp+

lemma sample_names:
  "get_message_name sample_env (UserType 0) = str ''GPS_DATA''"
  "endpoint_as_str sample_env (UserEndpoint 0) = str ''SD_CARD''"
  "endpoint_as_str sample_env (UserEndpoint (Suc 0)) = str ''RADIO''"
  by (simp_all add: get_message_name_def endpoint_as_str_def sample_defs user_type_meta_def)

text \<open>
  The GPS packet of the default schema, whose endpoints the schema lists as Radio, SdCard, has
  another identifier before it is sent than the receiver computes from its frame.
\<close>

theorem packet_id_depends_on_endpoint_order:
  "andthen (serialize_packet sample_env gps_packet) (packet_id_from_wire sample_env) \<noteq>
     Ok (packet_id sample_env gps_packet)"
proof -
  note p = wire_packetD(1) [OF gps_wire_packet] and f = packet_new_fields [OF gps_packet_new]
  have "sort_dedup (pkt_endpoints gps_packet) = [UserEndpoint 0, UserEndpoint 1]"
    by (simp add: f sort_dedup_def less_eq_data_endpoint_def)
  then have wire: "andthen (serialize_packet sample_env gps_packet) (packet_id_from_wire sample_env) =
      Ok (packet_id sample_env (gps_packet\<lparr>pkt_endpoints := [UserEndpoint 0, UserEndpoint 1]\<rparr>))"
    using packet_id_from_wire_layout [OF p default_reliable_matches default_reliable_data]
    by (simp add: serialize_packet_layout [OF p])
  have same: "payload (gps_packet\<lparr>pkt_endpoints := eps\<rparr>) = payload gps_packet" for eps
    by (simp add: payload_def)
  show ?thesis
    unfolding wire packet_id_def Let_def
    by (simp add: same f sample_names gps_hash_prefix gps_hash_orders hash_bytes_inject)
qed

text \<open>
  \<open>packet_wire_size\<close> predicts exactly the length of the serialized frame.
\<close>

theorem packet_wire_size_exact:
  assumes "wire_sendable E p"
  shows "\<exists>frame. serialize_packet E p = Ok frame \<and> length frame = packet_wire_size E p"
  by (simp add: serialize_packet_layout [OF assms] length_frame [OF assms])

theorem packet_wire_size_exact_witness:
  "\<exists>frame. serialize_packet sample_env gps_packet = Ok frame \<and> length frame = packet_wire_size sample_env gps_packet"
  by (rule packet_wire_size_exact [OF wire_packetD(1) [OF gps_wire_packet]])

section \<open>Acknowledgement frames\<close>

definition ack_packet :: "bytes \<Rightarrow> data_type \<Rightarrow> u64 \<Rightarrow> packet" where
  "ack_packet sender ty ts =
     \<lparr>pkt_ty = ty, pkt_data_size = 0, pkt_sender = sender, pkt_endpoints = [], pkt_timestamp = ts,
      pkt_payload = Heap []\<rparr>"

lemma ack_packet_simps [simp]:
  "pkt_ty (ack_packet s ty ts) = ty" "pkt_data_size (ack_packet s ty ts) = 0"
  "pkt_sender (ack_packet s ty ts) = s" "pkt_endpoints (ack_packet s ty ts) = []"
  "pkt_timestamp (ack_packet s ty ts) = ts" "payload (ack_packet s ty ts) = []"
  by (simp_all add: ack_packet_def payload_def)

lemma compress_nothing [simp]: "compress_if_beneficial E [] = (False, [])"
  by (simp add: compress_if_beneficial_def compress_to_vec_bounded_def)

lemma serialize_reliable_ack_layout:
  "serialize_reliable_ack E sender ty ts ack =
     append_crc32 E (frame_body E (ack_packet sender ty ts)
       (Some \<lparr>rh_flags = RELIABLE_FLAG_ACK_ONLY, rh_seq = 0, rh_ack = ack\<rparr>))"
  by (simp add: serialize_reliable_ack_def frame_body_def encode_prelude_def header_of_def sender_wire_def
      payload_wire_def reliable_bytes_def build_endpoint_bitmap_def wh_sender_compressed_def sort_dedup_def
      case_prod_beta Let_def)

lemma ack_packet_sendable:
  "schema_wf E \<Longrightarrow> zstd_ok E \<Longrightarrow> valid_type E ty \<Longrightarrow> from_utf8 sender \<Longrightarrow> length sender \<le> isize_max \<Longrightarrow>
     wire_sendable E (ack_packet sender ty ts)"
  by (simp add: wire_sendable_def sort_dedup_def)

text \<open>
  An acknowledgement frame is recognised as such: \<open>peek_frame_info\<close> reads the acknowledged
  sequence number and the type it belongs to, and \<open>deserialize_packet\<close> refuses to make a packet
  of it.
\<close>

theorem reliable_ack_frame:
  assumes "schema_wf E" and "zstd_ok E" and "valid_type E ty" and "is_reliable_type E ty"
    and "from_utf8 sender" and "length sender \<le> isize_max"
  shows "(\<exists>fi. peek_frame_info E (serialize_reliable_ack E sender ty ts ack) = Ok fi \<and> ack_only fi \<and>
      te_ty (fi_envelope fi) = ty \<and> te_sender (fi_envelope fi) = sender \<and> te_timestamp_ms (fi_envelope fi) = ts \<and>
      fi_reliable fi = Some \<lparr>rh_flags = RELIABLE_FLAG_ACK_ONLY, rh_seq = 0, rh_ack = ack\<rparr>) \<and>
    deserialize_packet E (serialize_reliable_ack E sender ty ts ack) =
      Err (Deserialize ''reliable control frame'')"
proof -
  note p = ack_packet_sendable [OF assms(1-3,5,6), of ts]
  let ?hdr = "\<lparr>rh_flags = RELIABLE_FLAG_ACK_ONLY, rh_seq = 0, rh_ack = ack\<rparr>"
  have "reliable_matches E (ack_packet sender ty ts) (Some ?hdr)"
    using assms(4) by (simp add: reliable_matches_def)
  from peek_inner_layout [OF p this] deserialize_control_frame [OF p, of ?hdr] assms(4)
  show ?thesis
    by (simp add: serialize_reliable_ack_layout peek_frame_info_def ack_only_def envelope_of_def
        RELIABLE_FLAG_ACK_ONLY_def)
qed

theorem reliable_ack_frame_witness:
  "deserialize_packet sample_env (serialize_reliable_ack sample_env (str ''TEST'') (UserType 0) 10 7) =
     Err (Deserialize ''reliable control frame'')"
  using reliable_ack_frame [OF sample_schema_wf sample_zstd_ok sample_valid(1) sample_meta(3) test_utf8]
  by (simp add: isize_max_def)

text \<open>
  A frame whose last four bytes are not the checksum of the rest is rejected with the same error
  by every entry point that verifies frames.
\<close>

theorem corrupted_frame_rejected:
  assumes "4 \<le> length buf" and "to_le_bytes 4 (crc32 E (take (length buf - 4) buf)) \<noteq> drop (length buf - 4) buf"
  shows "deserialize_packet E buf = Err (Deserialize ''crc32 mismatch'') \<and>
    peek_envelope E buf = Err (Deserialize ''crc32 mismatch'') \<and>
    peek_frame_info E buf = Err (Deserialize ''crc32 mismatch'') \<and>
    packet_id_from_wire E buf = Err (Deserialize ''crc32 mismatch'')"
proof -
  have "to_le_bytes 4 (from_le_bytes (drop (length buf - 4) buf) :: u32) = drop (length buf - 4) buf"
    using to_from_le_bytes [of "drop (length buf - 4) buf", where 'a = 32] assms(1) by simp
  with assms have "verify_crc32 E buf = Err (Deserialize ''crc32 mismatch'')"
    by (auto simp: verify_crc32_def split_crc32_def CRC32_BYTES_def Let_def)
  then show ?thesis
    by (simp add: deserialize_packet_def peek_envelope_def peek_frame_info_def packet_id_from_wire_def)
qed

theorem corrupted_frame_rejected_witness:
  "deserialize_packet sample_env [1, 1, 3, 0, 0, 0] = Err (Deserialize ''crc32 mismatch'')"
proof -
  have "crc32 sample_env [1, 1] = 2" by (simp add: sample_fields checksum_def)
  moreover have "to_le_bytes 4 (2 :: u32) = [2, 0, 0, 0]" by code_simp
  ultimately show ?thesis using corrupted_frame_rejected [of "[1, 1, 3, 0, 0, 0]" sample_env] by simp
qed

end
