(* ===== verification/Bounded_Deque.thy ===== *)
theory Bounded_Deque
  imports Config
begin

text \<open>
  \<open>src/queue.rs\<close>: a double-ended queue under a byte budget. \<open>cost\<close> is the \<open>byte_cost\<close> of the
  item type and \<open>esize\<close> its \<open>size_of\<close>. The record keeps the capacity of the \<open>VecDeque\<close>
  beside its contents, so that reallocation is visible. The result of a push is paired with the
  queue it leaves, because a refused item may already have evicted others.
\<close>

record 'a bounded_deque =
  bd_q :: "'a list"
  bd_cap :: nat
  bd_max_bytes :: nat
  bd_cur_bytes :: nat
  bd_max_elems :: nat
  bd_grow_num :: nat
  bd_grow_den :: nat

section \<open>Construction\<close>

text \<open>
  \<open>f64::clamp\<close>, a multiplication by a power of two, and the saturating cast to \<open>usize\<close>; the
  first bound is the double nearest to 1.01.
\<close>

definition clamp_lo :: rat where
  "clamp_lo = 4548635623644201 / 4503599627370496"

fun f64_clamp :: "rat \<Rightarrow> rat \<Rightarrow> f64 \<Rightarrow> f64" where
  "f64_clamp lo hi NaN = NaN"
| "f64_clamp lo hi PosInf = Fin hi"
| "f64_clamp lo hi NegInf = Fin lo"
| "f64_clamp lo hi (Fin x) = Fin (if x < lo then lo else if x > hi then hi else x)"

fun f64_scale_as_usize :: "nat \<Rightarrow> f64 \<Rightarrow> nat" where
  "f64_scale_as_usize k (Fin x) = min (nat \<lfloor>x * of_nat k\<rfloor>) (usize_limit - 1)"
| "f64_scale_as_usize k PosInf = usize_limit - 1"
| "f64_scale_as_usize k _ = 0"

definition float_to_ratio :: "f64 \<Rightarrow> nat \<times> nat" where
  "float_to_ratio mult =
     (let mult = f64_clamp clamp_lo 16 mult;
          DEN = 1024;
          num = f64_scale_as_usize DEN mult;
          num = max num (DEN + 1)
      in (num, DEN))"

fun f64_le_one :: "f64 \<Rightarrow> bool" where
  "f64_le_one (Fin x) = (x \<le> 1)"
| "f64_le_one NegInf = True"
| "f64_le_one _ = False"

definition bd_new :: "nat \<Rightarrow> nat \<Rightarrow> nat \<Rightarrow> f64 \<Rightarrow> ('e, 'a bounded_deque) outcome" where
  "bd_new esize max_bytes starting_bytes grow_mult =
     (if starting_bytes > max_bytes then Panic ''starting_bytes must be less than max_bytes''
      else if max_bytes = 0 then Panic ''max_bytes must be greater than 0''
      else if f64_le_one grow_mult then Panic ''grow_mult must be greater than 1.0''
      else
        (let min_cost = max esize 1;
             max_elems = max (max_bytes div min_cost) 1;
             starting_elems = starting_bytes div min_cost;
             start_cap = min (max starting_elems 1) max_elems;
             (grow_num, grow_den) = float_to_ratio grow_mult
         in if start_cap * esize > isize_max then Panic ''capacity overflow''
            else Ok \<lparr>bd_q = [], bd_cap = start_cap, bd_max_bytes = max_bytes, bd_cur_bytes = 0,
                     bd_max_elems = max_elems, bd_grow_num = grow_num, bd_grow_den = grow_den\<rparr>))"

section \<open>Queries and removal\<close>

definition bd_contains :: "'a bounded_deque \<Rightarrow> 'a \<Rightarrow> bool" where
  "bd_contains d v \<longleftrightarrow> v \<in> set (bd_q d)"

definition bd_clear :: "'a bounded_deque \<Rightarrow> 'a bounded_deque" where
  "bd_clear d = d\<lparr>bd_q := [], bd_cur_bytes := 0\<rparr>"

definition pop_front :: "('a \<Rightarrow> nat) \<Rightarrow> 'a bounded_deque \<Rightarrow> 'a option \<times> 'a bounded_deque" where
  "pop_front cost d =
     (case bd_q d of
        [] \<Rightarrow> (None, d)
      | v # q \<Rightarrow> (Some v, d\<lparr>bd_q := q, bd_cur_bytes := bd_cur_bytes d - cost v\<rparr>))"

definition pop_back :: "('a \<Rightarrow> nat) \<Rightarrow> 'a bounded_deque \<Rightarrow> 'a option \<times> 'a bounded_deque" where
  "pop_back cost d =
     (if bd_q d = [] then (None, d)
      else (let v = last (bd_q d)
            in (Some v, d\<lparr>bd_q := butlast (bd_q d), bd_cur_bytes := bd_cur_bytes d - cost v\<rparr>)))"

definition remove_pos :: "('a \<Rightarrow> nat) \<Rightarrow> nat \<Rightarrow> 'a bounded_deque \<Rightarrow> 'a option \<times> 'a bounded_deque" where
  "remove_pos cost idx d =
     (if idx < length (bd_q d)
      then (let v = bd_q d ! idx
            in (Some v, d\<lparr>bd_q := take idx (bd_q d) @ drop (idx + 1) (bd_q d),
                          bd_cur_bytes := bd_cur_bytes d - cost v\<rparr>))
      else (None, d))"

text \<open>\<open>iter().position(p)\<close>\<close>

fun position :: "('a \<Rightarrow> bool) \<Rightarrow> 'a list \<Rightarrow> nat option" where
  "position p [] = None"
| "position p (x # xs) = (if p x then Some 0 else map_option Suc (position p xs))"

definition remove_value :: "('a \<Rightarrow> nat) \<Rightarrow> 'a \<Rightarrow> 'a bounded_deque \<Rightarrow> 'a bounded_deque" where
  "remove_value cost needle d =
     (case position (\<lambda>x. x = needle) (bd_q d) of
        Some idx \<Rightarrow> snd (remove_pos cost idx d)
      | None \<Rightarrow> d)"

lemma length_remove_pos:
  "idx < length (bd_q d) \<Longrightarrow> length (bd_q (snd (remove_pos cost idx d))) = length (bd_q d) - 1"
  by (simp add: remove_pos_def Let_def)

function bd_retain_loop :: "('a \<Rightarrow> nat) \<Rightarrow> ('a \<Rightarrow> bool) \<Rightarrow> nat \<Rightarrow> 'a bounded_deque \<Rightarrow> 'a bounded_deque" where
  "bd_retain_loop cost keep idx d =
     (if idx < length (bd_q d) then
        if keep (bd_q d ! idx) then bd_retain_loop cost keep (idx + 1) d
        else bd_retain_loop cost keep idx (snd (remove_pos cost idx d))
      else d)"
  by pat_completeness auto
termination
  by (relation "measure (\<lambda>(cost, keep, idx, d). length (bd_q d) - idx)") (auto simp: length_remove_pos)

declare bd_retain_loop.simps [simp del]

definition bd_retain :: "('a \<Rightarrow> nat) \<Rightarrow> ('a \<Rightarrow> bool) \<Rightarrow> 'a bounded_deque \<Rightarrow> 'a bounded_deque" where
  "bd_retain cost keep d = bd_retain_loop cost keep 0 d"

section \<open>Insertion\<close>

text \<open>\<open>VecDeque::reserve_exact\<close>, and the growth of \<open>push_back\<close> and \<open>insert\<close> on a full buffer.\<close>

definition reserve_exact :: "nat \<Rightarrow> nat \<Rightarrow> 'a bounded_deque \<Rightarrow> (telemetry_error, 'a bounded_deque) outcome" where
  "reserve_exact esize additional d =
     (let need = length (bd_q d) + additional in
      if need \<le> bd_cap d then Ok d
      else if need * esize > isize_max then Panic ''capacity overflow''
      else Ok (d\<lparr>bd_cap := need\<rparr>))"

definition grow_one :: "nat \<Rightarrow> nat \<Rightarrow> nat" where
  "grow_one esize cap = max (2 * cap) (if esize = 1 then 8 else if esize \<le> 1024 then 4 else 1)"

definition bd_insert_at :: "nat \<Rightarrow> nat \<Rightarrow> 'a \<Rightarrow> 'a bounded_deque \<Rightarrow> 'a bounded_deque" where
  "bd_insert_at esize idx v d =
     d\<lparr>bd_q := take idx (bd_q d) @ v # drop idx (bd_q d),
       bd_cap := (if length (bd_q d) = bd_cap d then grow_one esize (bd_cap d) else bd_cap d)\<rparr>"

definition ensure_room_for_one ::
  "('a \<Rightarrow> nat) \<Rightarrow> nat \<Rightarrow> 'a bounded_deque \<Rightarrow> (telemetry_error, 'a bounded_deque) outcome" where
  "ensure_room_for_one cost esize d =
     (let len = length (bd_q d); cap = bd_cap d in
      if len < cap then Ok d
      else if len \<ge> bd_max_elems d then Ok (snd (pop_front cost d))
      else if cap \<ge> bd_max_elems d then Ok (snd (pop_front cost d))
      else
        (let scaled = usat_add (usat_mul cap (bd_grow_num d)) (bd_grow_den d - 1);
             target_cap = scaled div bd_grow_den d;
             target_cap = max target_cap (cap + 1);
             target_cap = min target_cap (bd_max_elems d);
             add = target_cap - cap
         in if add > 0 then reserve_exact esize add d else Ok (snd (pop_front cost d))))"

function evict_front :: "('a \<Rightarrow> nat) \<Rightarrow> nat \<Rightarrow> 'a bounded_deque \<Rightarrow> 'a bounded_deque" where
  "evict_front cost c d =
     (if bd_q d \<noteq> [] \<and> wadd (bd_cur_bytes d) c > bd_max_bytes d
      then evict_front cost c (snd (pop_front cost d)) else d)"
  by pat_completeness auto
termination
  by (relation "measure (\<lambda>(cost, c, d). length (bd_q d))") (auto simp: pop_front_def split: list.splits)

declare evict_front.simps [simp del]

definition prepare_push_fifo ::
  "('a \<Rightarrow> nat) \<Rightarrow> nat \<Rightarrow> nat \<Rightarrow> 'a bounded_deque \<Rightarrow> 'a bounded_deque \<times> unit telemetry_result" where
  "prepare_push_fifo cost esize c d =
     (if c > bd_max_bytes d then (d, Err (PacketTooLarge ''Item exceeds maximum byte budget''))
      else
        (let d = evict_front cost c d;
             d = (if length (bd_q d) \<ge> bd_max_elems d then snd (pop_front cost d) else d)
         in case ensure_room_for_one cost esize d of
              Ok d \<Rightarrow> (d, Ok ())
            | Err e \<Rightarrow> (d, Err e)
            | Panic m \<Rightarrow> (d, Panic m)))"

definition push_back ::
  "('a \<Rightarrow> nat) \<Rightarrow> nat \<Rightarrow> 'a \<Rightarrow> 'a bounded_deque \<Rightarrow> 'a bounded_deque \<times> unit telemetry_result" where
  "push_back cost esize v d =
     (let c = cost v in
      case prepare_push_fifo cost esize c d of
        (d, Ok _) \<Rightarrow>
          (let d = bd_insert_at esize (length (bd_q d)) v d
           in (d\<lparr>bd_cur_bytes := usat_add (bd_cur_bytes d) c\<rparr>, Ok ()))
      | (d, r) \<Rightarrow> (d, r))"

definition tail_priority :: "('a \<Rightarrow> u8) \<Rightarrow> 'a bounded_deque \<Rightarrow> u8" where
  "tail_priority prio d = (if bd_q d = [] then 0 else prio (last (bd_q d)))"

function evict_back ::
  "('a \<Rightarrow> nat) \<Rightarrow> ('a \<Rightarrow> u8) \<Rightarrow> nat \<Rightarrow> u8 \<Rightarrow> 'a bounded_deque \<Rightarrow> 'a bounded_deque \<times> unit telemetry_result" where
  "evict_back cost prio c new_priority d =
     (if bd_q d \<noteq> [] \<and> wadd (bd_cur_bytes d) c > bd_max_bytes d
      then if tail_priority prio d > new_priority then (d, Err (Io ''priority queue saturated''))
           else evict_back cost prio c new_priority (snd (pop_back cost d))
      else (d, Ok ()))"
  by pat_completeness auto
termination
  by (relation "measure (\<lambda>(cost, prio, c, p, d). length (bd_q d))") (auto simp: pop_back_def Let_def)

declare evict_back.simps [simp del]

definition push_back_prioritized ::
  "('a \<Rightarrow> nat) \<Rightarrow> nat \<Rightarrow> ('a \<Rightarrow> u8) \<Rightarrow> 'a \<Rightarrow> 'a bounded_deque \<Rightarrow> 'a bounded_deque \<times> unit telemetry_result" where
  "push_back_prioritized cost esize prio v d =
     (let c = cost v in
      if c > bd_max_bytes d then (d, Err (PacketTooLarge ''Item exceeds maximum byte budget''))
      else
        (let new_priority = prio v in
         case evict_back cost prio c new_priority d of
           (d, Ok _) \<Rightarrow>
             if length (bd_q d) \<ge> bd_max_elems d \<and> tail_priority prio d > new_priority
             then (d, Err (Io ''priority queue saturated''))
             else
               (let d = (if length (bd_q d) \<ge> bd_max_elems d then snd (pop_back cost d) else d)
                in case ensure_room_for_one cost esize d of
                     Ok d \<Rightarrow>
                       (let idx = (case position (\<lambda>x. prio x < new_priority) (bd_q d) of
                                     Some idx \<Rightarrow> idx | None \<Rightarrow> length (bd_q d));
                            d = bd_insert_at esize idx v d
                        in (d\<lparr>bd_cur_bytes := usat_add (bd_cur_bytes d) c\<rparr>, Ok ()))
                   | Err e \<Rightarrow> (d, Err e)
                   | Panic m \<Rightarrow> (d, Panic m))
         | (d, r) \<Rightarrow> (d, r)))"

end
