(* ===== verification/Bounded_Deque_Laws.thy ===== *)
theory Bounded_Deque_Laws
  imports Bounded_Deque
begin

text \<open>
  The invariant of the bounded queue, the functional behaviour of every operation on queues that
  satisfy it, and the contract the two kinds of push share (locale \<open>budgeted_push\<close>).
\<close>

abbreviation total :: "('a \<Rightarrow> nat) \<Rightarrow> 'a list \<Rightarrow> nat" where
  "total cost xs \<equiv> sum_list (map cost xs)"

definition bd_wf :: "('a \<Rightarrow> nat) \<Rightarrow> nat \<Rightarrow> 'a bounded_deque \<Rightarrow> bool" where
  "bd_wf cost esize d \<longleftrightarrow>
     bd_cur_bytes d = total cost (bd_q d) \<and> total cost (bd_q d) \<le> bd_max_bytes d \<and>
     bd_max_bytes d \<le> isize_max \<and> length (bd_q d) \<le> bd_cap d \<and> 0 < bd_cap d \<and>
     bd_cap d \<le> bd_max_elems d \<and> bd_max_elems d * esize \<le> isize_max \<and>
     0 < bd_grow_den d \<and> bd_grow_den d < bd_grow_num d"

text \<open>The queue with other contents: what every removal leaves.\<close>

definition bd_set :: "('a \<Rightarrow> nat) \<Rightarrow> 'a list \<Rightarrow> 'a bounded_deque \<Rightarrow> 'a bounded_deque" where
  "bd_set cost q d = d\<lparr>bd_q := q, bd_cur_bytes := total cost q\<rparr>"

lemma bd_set_simps [simp]:
  "bd_q (bd_set cost q d) = q" "bd_cur_bytes (bd_set cost q d) = total cost q"
  "bd_max_bytes (bd_set cost q d) = bd_max_bytes d" "bd_max_elems (bd_set cost q d) = bd_max_elems d"
  "bd_cap (bd_set cost q d) = bd_cap d" "bd_set cost q (bd_set cost q' d) = bd_set cost q d"
  by (simp_all add: bd_set_def)

lemma bd_wfD:
  assumes "bd_wf cost esize d"
  shows "bd_cur_bytes d = total cost (bd_q d)" "total cost (bd_q d) \<le> bd_max_bytes d"
    "bd_max_bytes d \<le> isize_max" "length (bd_q d) \<le> bd_cap d" "0 < bd_cap d"
    "bd_cap d \<le> bd_max_elems d" "bd_max_elems d * esize \<le> isize_max" "0 < bd_grow_den d"
    "bd_grow_den d < bd_grow_num d" "length (bd_q d) \<le> bd_max_elems d"
  using assms by (simp_all add: bd_wf_def)

lemma bd_set_self: "bd_wf cost esize d \<Longrightarrow> bd_set cost (bd_q d) d = d"
  by (cases d) (simp add: bd_wf_def bd_set_def)

lemma bd_wf_set [wf_intros]:
  "bd_wf cost esize d \<Longrightarrow> total cost q \<le> bd_max_bytes d \<Longrightarrow> length q \<le> bd_cap d \<Longrightarrow>
     bd_wf cost esize (bd_set cost q d)"
  by (simp add: bd_wf_def bd_set_def)

lemma bd_wf_cap:
  "bd_wf cost esize d \<Longrightarrow> bd_cap d \<le> cap \<Longrightarrow> cap \<le> bd_max_elems d \<Longrightarrow> bd_wf cost esize (d\<lparr>bd_cap := cap\<rparr>)"
  by (simp add: bd_wf_def)

section \<open>Removal\<close>

lemma total_take_le: "total cost (take n xs) \<le> total cost xs"
  by (metis append_take_drop_id le_add1 map_append sum_list_append)

lemma total_drop_le: "total cost (drop n xs) \<le> total cost xs"
  by (metis append_take_drop_id le_add2 map_append sum_list_append)

lemma total_filter_le: "total cost (filter p xs) \<le> total cost xs"
  by (induction xs) auto

lemma total_remove1_le: "total cost (remove1 v xs) \<le> total cost xs"
  by (induction xs) auto

lemma pop_front_set:
  "bd_wf cost esize d \<Longrightarrow> bd_q d \<noteq> [] \<Longrightarrow> pop_front cost d = (Some (hd (bd_q d)), bd_set cost (tl (bd_q d)) d)"
  by (cases "bd_q d") (auto simp: pop_front_def bd_wf_def bd_set_def)

lemma total_butlast: "xs \<noteq> [] \<Longrightarrow> total cost xs - cost (last xs) = total cost (butlast xs)"
  by (induction xs rule: rev_induct) auto

lemma pop_back_set:
  "bd_wf cost esize d \<Longrightarrow> bd_q d \<noteq> [] \<Longrightarrow> pop_back cost d = (Some (last (bd_q d)), bd_set cost (butlast (bd_q d)) d)"
  by (auto simp: pop_back_def bd_wf_def bd_set_def total_butlast Let_def)

lemma total_without:
  "i < length xs \<Longrightarrow> total cost xs - cost (xs ! i) = total cost (take i xs @ drop (Suc i) xs)"
proof -
  assume "i < length xs"
  then have "total cost xs = total cost (take i xs @ xs ! i # drop (Suc i) xs)"
    by (simp flip: id_take_nth_drop)
  then show ?thesis by simp
qed

lemma remove_pos_set:
  "bd_wf cost esize d \<Longrightarrow> i < length (bd_q d) \<Longrightarrow>
     remove_pos cost i d = (Some (bd_q d ! i), bd_set cost (take i (bd_q d) @ drop (Suc i) (bd_q d)) d)"
  using total_without [of i "bd_q d" cost] by (simp add: remove_pos_def bd_wf_def bd_set_def Let_def)

lemma bd_wf_take: "bd_wf cost esize d \<Longrightarrow> bd_wf cost esize (bd_set cost (take n (bd_q d)) d)"
  using total_take_le [of cost n "bd_q d"] by (intro wf_intros) (auto dest: bd_wfD)

lemma bd_wf_drop: "bd_wf cost esize d \<Longrightarrow> bd_wf cost esize (bd_set cost (drop n (bd_q d)) d)"
  using total_drop_le [of cost n "bd_q d"] by (intro wf_intros) (auto dest: bd_wfD)

lemma bd_wf_without:
  assumes "bd_wf cost esize d" and "i < length (bd_q d)"
  shows "bd_wf cost esize (bd_set cost (take i (bd_q d) @ drop (Suc i) (bd_q d)) d)"
  using assms total_without [of i "bd_q d" cost] by (intro wf_intros) (auto dest: bd_wfD)

lemma position_eq: "position (\<lambda>x. x = v) xs = Some i \<Longrightarrow>
    i < length xs \<and> take i xs @ drop (Suc i) xs = remove1 v xs"
  by (induction xs arbitrary: i) (auto split: if_splits)

lemma position_None: "position p xs = None \<longleftrightarrow> (\<forall>x \<in> set xs. \<not> p x)"
  by (induction xs) auto

lemma remove_value_set:
  assumes "bd_wf cost esize d"
  shows "remove_value cost v d = bd_set cost (remove1 v (bd_q d)) d"
proof (cases "position (\<lambda>x. x = v) (bd_q d)")
  case None
  then have "remove1 v (bd_q d) = bd_q d" by (auto simp: position_None remove1_idem)
  then show ?thesis using None by (simp add: remove_value_def bd_set_self [OF assms])
next
  case (Some i)
  then show ?thesis using position_eq [OF Some] by (simp add: remove_value_def remove_pos_set [OF assms])
qed

lemma bd_retain_loop_set:
  assumes "bd_wf cost esize d" and "i \<le> length (bd_q d)"
  shows "bd_retain_loop cost keep i d = bd_set cost (take i (bd_q d) @ filter keep (drop i (bd_q d))) d"
  using assms
proof (induction cost keep i d rule: bd_retain_loop.induct)
  case (1 cost keep i d)
  show ?case
  proof (cases "i < length (bd_q d)")
    case False
    then show ?thesis using "1.prems" by (subst bd_retain_loop.simps) (simp add: bd_set_self)
  next
    case True
    then have split: "drop i (bd_q d) = bd_q d ! i # drop (Suc i) (bd_q d)" by (simp add: Cons_nth_drop_Suc)
    show ?thesis
    proof (cases "keep (bd_q d ! i)")
      case True
      then show ?thesis
        using "1.IH"(1) [OF \<open>i < _\<close>] "1.prems" \<open>i < length (bd_q d)\<close>
        by (subst bd_retain_loop.simps) (simp add: split take_Suc_conv_app_nth)
    next
      case False
      let ?d = "snd (remove_pos cost i d)"
      have d: "?d = bd_set cost (take i (bd_q d) @ drop (Suc i) (bd_q d)) d"
        using "1.prems" \<open>i < _\<close> by (simp add: remove_pos_set)
      have "bd_wf cost esize ?d" unfolding d by (rule bd_wf_without) (use "1.prems" \<open>i < _\<close> in auto)
      from "1.IH"(2) [OF \<open>i < _\<close> False this] show ?thesis
        using False "1.prems" \<open>i < length (bd_q d)\<close>
        by (subst bd_retain_loop.simps) (simp add: d split)
    qed
  qed
qed

lemma bd_retain_set:
  "bd_wf cost esize d \<Longrightarrow> bd_retain cost keep d = bd_set cost (filter keep (bd_q d)) d"
  by (simp add: bd_retain_def bd_retain_loop_set)

lemma bd_wf_filter: "bd_wf cost esize d \<Longrightarrow> bd_wf cost esize (bd_set cost (filter keep (bd_q d)) d)"
  using total_filter_le [of cost keep "bd_q d"] length_filter_le [of keep "bd_q d"] bd_wfD(2,4) [of cost esize d]
  by (intro wf_intros) linarith+

section \<open>Making room\<close>

lemma wadd_budget: "bd_wf cost esize d \<Longrightarrow> c \<le> bd_max_bytes d \<Longrightarrow> wadd (bd_cur_bytes d) c = total cost (bd_q d) + c"
  using bd_wfD [of cost esize d] by (simp add: isize_max_def usize_limit_def)

lemma evict_front_set:
  assumes "bd_wf cost esize d" and "c \<le> bd_max_bytes d"
  shows "\<exists>n. evict_front cost c d = bd_set cost (drop n (bd_q d)) d \<and>
    total cost (drop n (bd_q d)) + c \<le> bd_max_bytes d \<and>
    (\<forall>m<n. bd_max_bytes d < total cost (drop m (bd_q d)) + c)"
  using assms
proof (induction cost c d rule: evict_front.induct)
  case (1 cost c d)
  show ?case
  proof (cases "bd_q d \<noteq> [] \<and> bd_max_bytes d < total cost (bd_q d) + c")
    case False
    then show ?thesis using "1.prems"
      by (intro exI [of _ 0]) (auto simp: evict_front.simps [of cost c d] wadd_budget bd_set_self)
  next
    case True
    let ?d = "snd (pop_front cost d)"
    have d: "?d = bd_set cost (drop 1 (bd_q d)) d"
      using True "1.prems"(1) by (simp add: pop_front_set drop_Suc)
    have wf: "bd_wf cost esize ?d" unfolding d by (rule bd_wf_drop [OF "1.prems"(1)])
    have guard: "bd_q d \<noteq> [] \<and> bd_max_bytes d < wadd (bd_cur_bytes d) c"
      using True by (simp add: wadd_budget [OF "1.prems"])
    have "c \<le> bd_max_bytes ?d" using "1.prems"(2) by (simp add: d)
    from "1.IH" [OF guard wf this] obtain n where n:
      "evict_front cost c ?d = bd_set cost (drop n (drop 1 (bd_q d))) d"
      "total cost (drop n (drop 1 (bd_q d))) + c \<le> bd_max_bytes d"
      "\<forall>m<n. bd_max_bytes d < total cost (drop m (drop 1 (bd_q d))) + c"
      by (auto simp: d)
    have "bd_max_bytes d < total cost (drop m (bd_q d)) + c" if "m < Suc n" for m
      using n(3) True that by (cases m) (auto simp: drop_Suc)
    then show ?thesis
      using n guard by (intro exI [of _ "Suc n"]) (auto simp: evict_front.simps [of cost c d] drop_Suc)
  qed
qed

lemma ensure_room_Ok:
  assumes "bd_wf cost esize d" and "length (bd_q d) < bd_max_elems d"
  shows "\<exists>cap. ensure_room_for_one cost esize d = Ok (d\<lparr>bd_cap := cap\<rparr>) \<and> length (bd_q d) < cap \<and>
    bd_cap d \<le> cap \<and> cap \<le> bd_max_elems d"
proof (cases "length (bd_q d) < bd_cap d")
  case True
  then show ?thesis using bd_wfD(6) [OF assms(1)]
    by (intro exI [of _ "bd_cap d"]) (simp add: ensure_room_for_one_def)
next
  case False
  note w = bd_wfD [OF assms(1)]
  have full: "length (bd_q d) = bd_cap d" using False w(4) by simp
  define target where "target = min (max (usat_add (usat_mul (bd_cap d) (bd_grow_num d)) (bd_grow_den d - 1)
      div bd_grow_den d) (bd_cap d + 1)) (bd_max_elems d)"
  have target: "bd_cap d < target" "target \<le> bd_max_elems d"
    using assms(2) full by (auto simp: target_def)
  have "target * esize \<le> bd_max_elems d * esize" using target(2) by (rule mult_le_mono1)
  then have "target * esize \<le> isize_max" using w(7) by (rule le_trans)
  then show ?thesis using False assms(2) target full
    by (intro exI [of _ target])
      (simp add: ensure_room_for_one_def reserve_exact_def Let_def target_def [symmetric, simplified])
qed

section \<open>Insertion\<close>

text \<open>
  Appending keeps a suffix of the queue: nothing is evicted as long as a longer suffix fits the
  budget and the element limit, and the buffer is never reallocated by the insertion itself.
\<close>

lemma push_back_set:
  assumes wf: "bd_wf cost esize d" and small: "cost v \<le> bd_max_bytes d"
  shows "\<exists>n cap. push_back cost esize v d = ((bd_set cost (drop n (bd_q d) @ [v]) d)\<lparr>bd_cap := cap\<rparr>, Ok ()) \<and>
    total cost (drop n (bd_q d) @ [v]) \<le> bd_max_bytes d \<and> length (drop n (bd_q d) @ [v]) \<le> cap \<and>
    bd_cap d \<le> cap \<and> cap \<le> bd_max_elems d \<and>
    (\<forall>m<n. bd_max_bytes d < total cost (drop m (bd_q d)) + cost v \<or> bd_max_elems d \<le> length (drop m (bd_q d)))"
proof -
  note w = bd_wfD [OF wf]
  obtain k where k: "evict_front cost (cost v) d = bd_set cost (drop k (bd_q d)) d"
    "total cost (drop k (bd_q d)) + cost v \<le> bd_max_bytes d"
    "\<forall>m<k. bd_max_bytes d < total cost (drop m (bd_q d)) + cost v"
    using evict_front_set [OF wf small] by blast
  let ?full = "bd_max_elems d \<le> length (drop k (bd_q d))"
  define n where "n = (if ?full then Suc k else k)"
  let ?d = "bd_set cost (drop n (bd_q d)) d"
  have wf': "bd_wf cost esize ?d" by (rule bd_wf_drop [OF wf])
  have nonempty: "?full \<Longrightarrow> drop k (bd_q d) \<noteq> []" using w(5,6) by auto
  have step: "(if bd_max_elems d \<le> length (drop k (bd_q d))
      then snd (pop_front cost (bd_set cost (drop k (bd_q d)) d)) else bd_set cost (drop k (bd_q d)) d) = ?d"
    using nonempty pop_front_set [OF bd_wf_drop [OF wf], of k] by (simp add: n_def drop_Suc tl_drop)
  have len: "length (drop n (bd_q d)) < bd_max_elems d" using w(5,6,10) by (auto simp: n_def)
  have fits: "total cost (drop n (bd_q d)) + cost v \<le> bd_max_bytes d"
    using k(2) total_drop_le [of cost 1 "drop k (bd_q d)"] by (auto simp: n_def drop_Suc tl_drop)
  obtain cap where cap: "ensure_room_for_one cost esize ?d = Ok (?d\<lparr>bd_cap := cap\<rparr>)"
    "length (drop n (bd_q d)) < cap" "bd_cap d \<le> cap" "cap \<le> bd_max_elems d"
    using ensure_room_Ok [OF wf'] len by auto
  have "usat_add (total cost (drop n (bd_q d))) (cost v) = total cost (drop n (bd_q d)) + cost v"
    using fits w(3) by (intro usat_add_exact) (simp add: usize_limit_def isize_max_def)
  moreover have "prepare_push_fifo cost esize (cost v) d = (?d\<lparr>bd_cap := cap\<rparr>, Ok ())"
    by (simp only: prepare_push_fifo_def Let_def k(1) bd_set_simps step cap(1)) (simp add: small not_less)
  ultimately have "push_back cost esize v d = ((bd_set cost (drop n (bd_q d) @ [v]) d)\<lparr>bd_cap := cap\<rparr>, Ok ())"
    using cap(2) by (simp add: push_back_def bd_insert_at_def bd_set_def Let_def)
  moreover have "\<forall>m<n. bd_max_bytes d < total cost (drop m (bd_q d)) + cost v \<or> bd_max_elems d \<le> length (drop m (bd_q d))"
    using k(3) by (auto simp: n_def less_Suc_eq)
  ultimately show ?thesis using fits cap by (intro exI [of _ n] exI [of _ cap]) (auto simp: n_def)
qed

lemma push_back_too_large:
  "bd_max_bytes d < cost v \<Longrightarrow>
     push_back cost esize v d = (d, Err (PacketTooLarge ''Item exceeds maximum byte budget''))"
  by (simp add: push_back_def prepare_push_fifo_def)

lemma push_back_wf:
  assumes "bd_wf cost esize d"
  shows "bd_wf cost esize (fst (push_back cost esize v d))"
proof (cases "cost v \<le> bd_max_bytes d")
  case True
  from push_back_set [OF assms True] obtain n cap where
    "push_back cost esize v d = ((bd_set cost (drop n (bd_q d) @ [v]) d)\<lparr>bd_cap := cap\<rparr>, Ok ())"
    "total cost (drop n (bd_q d) @ [v]) \<le> bd_max_bytes d" "length (drop n (bd_q d) @ [v]) \<le> cap"
    "bd_cap d \<le> cap" "cap \<le> bd_max_elems d" by blast
  then show ?thesis using bd_wfD [OF assms] by (simp add: bd_wf_def bd_set_def)
next
  case False
  then show ?thesis using assms by (simp add: push_back_too_large)
qed

subsection \<open>By priority\<close>

text \<open>The reference: behind every item of at least the same priority.\<close>

definition insert_prio :: "('a \<Rightarrow> u8) \<Rightarrow> 'a \<Rightarrow> 'a list \<Rightarrow> 'a list" where
  "insert_prio prio v xs = takeWhile (\<lambda>x. prio v \<le> prio x) xs @ v # dropWhile (\<lambda>x. prio v \<le> prio x) xs"

definition prio_sorted :: "('a \<Rightarrow> u8) \<Rightarrow> 'a list \<Rightarrow> bool" where
  "prio_sorted prio xs \<longleftrightarrow> sorted_wrt (\<lambda>x y. prio y \<le> prio x) xs"

lemma position_insert:
  "(case position (\<lambda>x. prio x < p) xs of Some i \<Rightarrow> i | None \<Rightarrow> length xs) = length (takeWhile (\<lambda>x. p \<le> prio x) xs)"
  for prio :: "'a \<Rightarrow> u8"
  by (induction xs) (auto split: option.splits)

lemma insert_at_position:
  fixes prio :: "'a \<Rightarrow> u8"
  defines "i xs v \<equiv> (case position (\<lambda>x. prio x < prio v) xs of Some i \<Rightarrow> i | None \<Rightarrow> length xs)"
  shows "take (i xs v) xs @ v # drop (i xs v) xs = insert_prio prio v xs"
  unfolding i_def position_insert insert_prio_def
  by (metis append_eq_conv_conj takeWhile_dropWhile_id)

lemma prio_sorted_Cons: "prio_sorted prio (x # xs) \<longleftrightarrow> (\<forall>y \<in> set xs. prio y \<le> prio x) \<and> prio_sorted prio xs"
  by (simp add: prio_sorted_def)

lemma insert_prio_Cons:
  "insert_prio prio v (x # xs) = (if prio v \<le> prio x then x # insert_prio prio v xs else v # x # xs)"
  by (simp add: insert_prio_def)

lemma set_insert_prio [simp]: "set (insert_prio prio v xs) = insert v (set xs)"
  by (induction xs) (auto simp: insert_prio_Cons, simp_all add: insert_prio_def)

lemma total_insert_prio [simp]: "total cost (insert_prio prio v xs) = total cost xs + cost v"
  by (induction xs) (auto simp: insert_prio_Cons, simp_all add: insert_prio_def)

lemma length_insert_prio [simp]: "length (insert_prio prio v xs) = Suc (length xs)"
  by (induction xs) (auto simp: insert_prio_Cons, simp_all add: insert_prio_def)

lemma prio_sorted_insert: "prio_sorted prio xs \<Longrightarrow> prio_sorted prio (insert_prio prio v xs)"
proof (induction xs)
  case Nil
  then show ?case by (simp add: insert_prio_def prio_sorted_def)
next
  case (Cons x xs)
  then show ?case by (auto simp: insert_prio_Cons prio_sorted_Cons dest: order_trans)
qed

lemma insert_prio_fifo:
  "prio_sorted prio xs \<Longrightarrow>
     filter (\<lambda>x. prio x = p) (insert_prio prio v xs) = filter (\<lambda>x. prio x = p) xs @ (if prio v = p then [v] else [])"
proof (induction xs)
  case Nil
  then show ?case by (simp add: insert_prio_def)
next
  case (Cons x xs)
  show ?case
  proof (cases "prio v \<le> prio x")
    case True
    with Cons show ?thesis by (auto simp: insert_prio_Cons prio_sorted_Cons)
  next
    case False
    then have "\<forall>y \<in> set (x # xs). prio y \<noteq> prio v"
      using Cons.prems by (auto simp: prio_sorted_Cons)
    then have "prio v = p \<Longrightarrow> filter (\<lambda>x. prio x = p) (x # xs) = []" by (auto simp: filter_empty_conv)
    with False show ?thesis by (auto simp: insert_prio_Cons)
  qed
qed

lemma tail_priority_take:
  assumes "bd_q d = take n xs" and "n \<le> length xs" and "0 < n"
  shows "tail_priority prio d = prio (xs ! (n - 1))"
proof -
  have "take n xs \<noteq> []" using assms(2,3) by auto
  then show ?thesis using assms by (simp add: tail_priority_def last_conv_nth min_def)
qed

text \<open>
  Making room for a prioritized item keeps a prefix of the queue and only gives up items that do not
  have a higher priority; it fails at the first item that has.
\<close>

definition refused :: "'a bounded_deque \<Rightarrow> ('a \<Rightarrow> nat) \<Rightarrow> ('a \<Rightarrow> u8) \<Rightarrow> nat \<Rightarrow> u8 \<Rightarrow> nat \<Rightarrow> bool" where
  "refused d cost prio c p n \<longleftrightarrow>
     0 < n \<and> n \<le> length (bd_q d) \<and> p < prio (bd_q d ! (n - 1)) \<and>
     (bd_max_bytes d < total cost (take n (bd_q d)) + c \<or> bd_max_elems d \<le> n)"

definition given_up :: "'a bounded_deque \<Rightarrow> ('a \<Rightarrow> nat) \<Rightarrow> ('a \<Rightarrow> u8) \<Rightarrow> nat \<Rightarrow> u8 \<Rightarrow> nat \<Rightarrow> bool" where
  "given_up d cost prio c p n \<longleftrightarrow>
     (\<forall>m. n < m \<and> m \<le> length (bd_q d) \<longrightarrow>
        (bd_max_bytes d < total cost (take m (bd_q d)) + c \<or> bd_max_elems d \<le> m) \<and>
        prio (bd_q d ! (m - 1)) \<le> p)"

lemma given_up_Suc:
  "given_up d cost prio c p (Suc n) \<Longrightarrow> Suc n \<le> length (bd_q d) \<Longrightarrow> prio (bd_q d ! n) \<le> p \<Longrightarrow>
   bd_max_bytes d < total cost (take (Suc n) (bd_q d)) + c \<or> bd_max_elems d \<le> Suc n \<Longrightarrow>
   given_up d cost prio c p n"
  unfolding given_up_def by (metis Suc_lessI diff_Suc_1)

lemma evict_back_set:
  assumes wf: "bd_wf cost esize d" and small: "c \<le> bd_max_bytes d"
    and "k \<le> length (bd_q d)" and "given_up d cost prio c p k"
  shows "\<exists>n \<le> k. given_up d cost prio c p n \<and>
    (evict_back cost prio c p (bd_set cost (take k (bd_q d)) d) = (bd_set cost (take n (bd_q d)) d, Ok ()) \<and>
       total cost (take n (bd_q d)) + c \<le> bd_max_bytes d \<or>
     evict_back cost prio c p (bd_set cost (take k (bd_q d)) d) =
       (bd_set cost (take n (bd_q d)) d, Err (Io ''priority queue saturated'')) \<and> refused d cost prio c p n)"
  using assms(3,4)
proof (induction k)
  case 0
  then show ?case using small by (subst evict_back.simps) simp
next
  case (Suc k)
  let ?d = "bd_set cost (take (Suc k) (bd_q d)) d"
  have wf': "bd_wf cost esize ?d" by (rule bd_wf_take [OF wf])
  have guard: "wadd (bd_cur_bytes ?d) c = total cost (take (Suc k) (bd_q d)) + c"
    using wadd_budget [OF wf'] small by simp
  have tail: "tail_priority prio ?d = prio (bd_q d ! k)"
    using tail_priority_take [of ?d "Suc k" "bd_q d"] Suc.prems(1) by simp
  have nonempty: "take (Suc k) (bd_q d) \<noteq> []" using Suc.prems(1) by auto
  have pop: "snd (pop_back cost ?d) = bd_set cost (take k (bd_q d)) d"
    using pop_back_set [OF wf'] nonempty Suc.prems(1) by (simp add: butlast_take)
  note unfold' = evict_back.simps [of cost prio c p ?d, unfolded guard tail pop]
  consider (fits) "total cost (take (Suc k) (bd_q d)) + c \<le> bd_max_bytes d"
    | (stop) "bd_max_bytes d < total cost (take (Suc k) (bd_q d)) + c" "p < prio (bd_q d ! k)"
    | (drop) "bd_max_bytes d < total cost (take (Suc k) (bd_q d)) + c" "prio (bd_q d ! k) \<le> p"
    by (cases "p < prio (bd_q d ! k)"; cases "total cost (take (Suc k) (bd_q d)) + c \<le> bd_max_bytes d")
      (auto simp: not_less not_le)
  then show ?case
  proof cases
    case fits
    then show ?thesis using Suc.prems unfold' by (intro exI [of _ "Suc k"]) auto
  next
    case stop
    then show ?thesis using Suc.prems unfold' nonempty by (intro exI [of _ "Suc k"]) (auto simp: refused_def)
  next
    case drop
    have "given_up d cost prio c p k" by (rule given_up_Suc) (use drop Suc.prems in auto)
    with Suc.IH Suc.prems(1) obtain n where "n \<le> k" "given_up d cost prio c p n"
      "evict_back cost prio c p (bd_set cost (take k (bd_q d)) d) = (bd_set cost (take n (bd_q d)) d, Ok ()) \<and>
         total cost (take n (bd_q d)) + c \<le> bd_max_bytes d \<or>
       evict_back cost prio c p (bd_set cost (take k (bd_q d)) d) =
         (bd_set cost (take n (bd_q d)) d, Err (Io ''priority queue saturated'')) \<and> refused d cost prio c p n"
      by auto
    moreover have "evict_back cost prio c p ?d = evict_back cost prio c p (bd_set cost (take k (bd_q d)) d)"
      using drop(1) leD [OF drop(2)] nonempty unfold' by simp
    ultimately show ?thesis by (intro exI [of _ n] conjI) (simp_all only: le_SucI)
  qed
qed

lemma push_prioritized_room:
  assumes wf: "bd_wf cost esize d" and small: "cost v \<le> bd_max_bytes d"
    and ev: "evict_back cost prio (cost v) (prio v) d = (bd_set cost (take k (bd_q d)) d, Ok ())"
    and fits: "total cost (take n (bd_q d)) + cost v \<le> bd_max_bytes d"
    and room: "length (take n (bd_q d)) < bd_max_elems d"
    and go: "\<not> (bd_max_elems d \<le> length (take k (bd_q d)) \<and> prio v < tail_priority prio (bd_set cost (take k (bd_q d)) d))"
    and step: "(if bd_max_elems d \<le> length (take k (bd_q d)) then snd (pop_back cost (bd_set cost (take k (bd_q d)) d))
      else bd_set cost (take k (bd_q d)) d) = bd_set cost (take n (bd_q d)) d"
  shows "\<exists>cap. push_back_prioritized cost esize prio v d =
      ((bd_set cost (insert_prio prio v (take n (bd_q d))) d)\<lparr>bd_cap := cap\<rparr>, Ok ()) \<and>
    Suc (length (take n (bd_q d))) \<le> cap \<and> bd_cap d \<le> cap \<and> cap \<le> bd_max_elems d"
proof -
  let ?d = "bd_set cost (take n (bd_q d)) d"
  obtain cap where cap: "ensure_room_for_one cost esize ?d = Ok (?d\<lparr>bd_cap := cap\<rparr>)"
    "length (take n (bd_q d)) < cap" "bd_cap d \<le> cap" "cap \<le> bd_max_elems d"
    using ensure_room_Ok [OF bd_wf_take [OF wf]] room by auto
  have "usat_add (total cost (take n (bd_q d))) (cost v) = total cost (take n (bd_q d)) + cost v"
    using fits bd_wfD(3) [OF wf] by (intro usat_add_exact) (simp add: usize_limit_def isize_max_def)
  moreover have q: "bd_q (?d\<lparr>bd_cap := cap\<rparr>) = take n (bd_q d)" by (simp add: bd_set_def)
  moreover have "push_back_prioritized cost esize prio v d =
      (let d' = bd_insert_at esize (case position (\<lambda>x. prio x < prio v) (take n (bd_q d)) of
            Some idx \<Rightarrow> idx | None \<Rightarrow> length (take n (bd_q d))) v (?d\<lparr>bd_cap := cap\<rparr>)
       in (d'\<lparr>bd_cur_bytes := usat_add (bd_cur_bytes d') (cost v)\<rparr>, Ok ()))"
    unfolding push_back_prioritized_def Let_def ev prod.case outcome.case
    by (simp only: bd_set_simps step cap(1) go if_False outcome.case q) (simp add: small not_less)
  ultimately show ?thesis using cap(2-4)
    by (intro exI [of _ cap]) (simp add: bd_insert_at_def insert_at_position bd_set_def Let_def del: take_take)
qed

lemma push_prioritized_set:
  assumes wf: "bd_wf cost esize d" and small: "cost v \<le> bd_max_bytes d"
  shows "\<exists>n. given_up d cost prio (cost v) (prio v) n \<and> n \<le> length (bd_q d) \<and>
    ((\<exists>cap. push_back_prioritized cost esize prio v d =
        ((bd_set cost (insert_prio prio v (take n (bd_q d))) d)\<lparr>bd_cap := cap\<rparr>, Ok ()) \<and>
        total cost (take n (bd_q d)) + cost v \<le> bd_max_bytes d \<and>
        Suc n \<le> cap \<and> bd_cap d \<le> cap \<and> cap \<le> bd_max_elems d) \<or>
     push_back_prioritized cost esize prio v d =
        (bd_set cost (take n (bd_q d)) d, Err (Io ''priority queue saturated'')) \<and>
        refused d cost prio (cost v) (prio v) n)"
proof -
  note w = bd_wfD [OF wf]
  have "given_up d cost prio (cost v) (prio v) (length (bd_q d))" by (auto simp: given_up_def)
  from evict_back_set [OF wf small _ this] bd_set_self [OF wf] obtain k where
    k: "k \<le> length (bd_q d)" "given_up d cost prio (cost v) (prio v) k" and ev:
    "evict_back cost prio (cost v) (prio v) d = (bd_set cost (take k (bd_q d)) d, Ok ()) \<and>
       total cost (take k (bd_q d)) + cost v \<le> bd_max_bytes d \<or>
     evict_back cost prio (cost v) (prio v) d =
       (bd_set cost (take k (bd_q d)) d, Err (Io ''priority queue saturated'')) \<and>
       refused d cost prio (cost v) (prio v) k"
    by auto
  let ?full = "bd_max_elems d \<le> k"
  consider (err) "evict_back cost prio (cost v) (prio v) d =
       (bd_set cost (take k (bd_q d)) d, Err (Io ''priority queue saturated''))" "refused d cost prio (cost v) (prio v) k"
    | (room) "evict_back cost prio (cost v) (prio v) d = (bd_set cost (take k (bd_q d)) d, Ok ())"
       "total cost (take k (bd_q d)) + cost v \<le> bd_max_bytes d" "\<not> ?full"
    | (full) "evict_back cost prio (cost v) (prio v) d = (bd_set cost (take k (bd_q d)) d, Ok ())"
       "total cost (take k (bd_q d)) + cost v \<le> bd_max_bytes d" "?full" "prio v < prio (bd_q d ! (k - 1))"
    | (swap) "evict_back cost prio (cost v) (prio v) d = (bd_set cost (take k (bd_q d)) d, Ok ())"
       "total cost (take k (bd_q d)) + cost v \<le> bd_max_bytes d" "?full" "prio (bd_q d ! (k - 1)) \<le> prio v"
    using ev by fastforce
  then show ?thesis
  proof cases
    case err
    then show ?thesis using k small by (intro exI [of _ k]) (simp add: push_back_prioritized_def not_less)
  next
    case room
    then show ?thesis using k push_prioritized_room [OF wf small room(1,2)] by (intro exI [of _ k]) auto
  next
    case full
    have pos: "0 < k" using full(3) w(5,6) by linarith
    have "tail_priority prio (bd_set cost (take k (bd_q d)) d) = prio (bd_q d ! (k - 1))"
      using tail_priority_take [OF _ k(1) pos] by simp
    then have "push_back_prioritized cost esize prio v d =
        (bd_set cost (take k (bd_q d)) d, Err (Io ''priority queue saturated''))"
      using full k(1) small by (simp add: push_back_prioritized_def not_less)
    moreover have "refused d cost prio (cost v) (prio v) k" using full k(1) pos by (simp add: refused_def)
    ultimately show ?thesis using k by blast
  next
    case swap
    have pos: "0 < k" using swap(3) w(5,6) by linarith
    then obtain n where n: "k = Suc n" by (cases k) auto
    have tail: "tail_priority prio (bd_set cost (take k (bd_q d)) d) = prio (bd_q d ! (k - 1))"
      using tail_priority_take [OF _ k(1) pos] by simp
    have pop: "snd (pop_back cost (bd_set cost (take k (bd_q d)) d)) = bd_set cost (take n (bd_q d)) d"
    proof -
      have "take k (bd_q d) \<noteq> []" using pos k(1) by auto
      then show ?thesis using pop_back_set [OF bd_wf_take [OF wf], of k] k(1) by (simp add: n butlast_take)
    qed
    have "total cost (take n (bd_q d)) + cost v \<le> bd_max_bytes d"
      using swap(2) total_take_le [of cost n "take k (bd_q d)"] by (simp add: n min_def)
    moreover have "given_up d cost prio (cost v) (prio v) n"
      by (rule given_up_Suc) (use k swap(3,4) in \<open>simp_all add: n\<close>)
    moreover have "length (take n (bd_q d)) < bd_max_elems d" using k(1) w(10) by (simp add: n)
    moreover have "\<not> (bd_max_elems d \<le> length (take k (bd_q d)) \<and>
        prio v < tail_priority prio (bd_set cost (take k (bd_q d)) d))"
      using leD [OF swap(4)] by (simp add: tail)
    moreover have "(if bd_max_elems d \<le> length (take k (bd_q d))
        then snd (pop_back cost (bd_set cost (take k (bd_q d)) d)) else bd_set cost (take k (bd_q d)) d) =
        bd_set cost (take n (bd_q d)) d"
      using swap(3) k(1) pop by simp
    moreover have "length (take n (bd_q d)) = n" "n \<le> length (bd_q d)" using k(1) by (simp_all add: n)
    ultimately show ?thesis
      using push_prioritized_room [OF wf small swap(1), of n] by (intro exI [of _ n]) metis
  qed
qed

lemma push_prioritized_too_large:
  "bd_max_bytes d < cost v \<Longrightarrow>
     push_back_prioritized cost esize prio v d = (d, Err (PacketTooLarge ''Item exceeds maximum byte budget''))"
  by (simp add: push_back_prioritized_def)

text \<open>The outcomes of a prioritized push, in terms of the items it keeps.\<close>

lemma push_prioritized_cases [consumes 1, case_names large stored full]:
  assumes "bd_wf cost esize d"
  obtains (large) "push_back_prioritized cost esize prio v d =
      (d, Err (PacketTooLarge ''Item exceeds maximum byte budget''))" "bd_max_bytes d < cost v"
  | (stored) n cap where "push_back_prioritized cost esize prio v d =
        ((bd_set cost (insert_prio prio v (take n (bd_q d))) d)\<lparr>bd_cap := cap\<rparr>, Ok ())"
      "total cost (take n (bd_q d)) + cost v \<le> bd_max_bytes d" "Suc n \<le> cap" "bd_cap d \<le> cap"
      "cap \<le> bd_max_elems d" "n \<le> length (bd_q d)" "given_up d cost prio (cost v) (prio v) n" "cost v \<le> bd_max_bytes d"
  | (full) n where "push_back_prioritized cost esize prio v d =
        (bd_set cost (take n (bd_q d)) d, Err (Io ''priority queue saturated''))"
      "refused d cost prio (cost v) (prio v) n" "given_up d cost prio (cost v) (prio v) n" "cost v \<le> bd_max_bytes d"
  using push_prioritized_set [OF assms, of v prio] push_prioritized_too_large [of d cost v esize prio]
  by (metis not_le)

lemma push_prioritized_wf:
  assumes "bd_wf cost esize d"
  shows "bd_wf cost esize (fst (push_back_prioritized cost esize prio v d))"
  using assms
proof (cases rule: push_prioritized_cases [where prio = prio and v = v])
  case large
  then show ?thesis using assms by simp
next
  case (stored n cap)
  then show ?thesis using bd_wfD [OF assms] by (simp add: bd_wf_def bd_set_def)
next
  case (full n)
  then show ?thesis using bd_wf_take [OF assms] by simp
qed

section \<open>Construction\<close>

lemma bd_new_cases:
  assumes "max_bytes \<le> isize_max" and "esize \<le> isize_max"
  shows "if starting_bytes \<le> max_bytes \<and> 0 < max_bytes \<and> \<not> f64_le_one grow
    then \<exists>d. bd_new esize max_bytes starting_bytes grow = (Ok d :: ('e, 'a bounded_deque) outcome) \<and> bd_q d = [] \<and> bd_wf cost esize d \<and>
      bd_max_bytes d = max_bytes \<and> bd_max_elems d = max (max_bytes div max esize 1) 1
    else \<exists>m. bd_new esize max_bytes starting_bytes grow = (Panic m :: ('e, 'a bounded_deque) outcome)"
proof -
  let ?min_cost = "max esize 1"
  let ?elems = "max (max_bytes div ?min_cost) 1"
  let ?cap = "min (max (starting_bytes div ?min_cost) 1) ?elems"
  have elems: "?elems * esize \<le> isize_max"
  proof (cases "max_bytes div ?min_cost \<le> 1")
    case True
    then show ?thesis using assms(2) by simp
  next
    case False
    have "max_bytes div ?min_cost * esize \<le> max_bytes div ?min_cost * ?min_cost" by (rule mult_le_mono2) simp
    also have "\<dots> \<le> max_bytes" by (rule div_times_less_eq_dividend)
    finally show ?thesis using False assms(1) by simp
  qed
  have "?cap * esize \<le> ?elems * esize" by (rule mult_le_mono1) simp
  with elems have "\<not> isize_max < ?cap * esize" by linarith
  moreover have "snd (float_to_ratio grow) = 1024" "1024 < fst (float_to_ratio grow)"
    by (simp_all add: float_to_ratio_def Let_def)
  ultimately show ?thesis
    using elems assms(1) by (auto simp: bd_new_def bd_wf_def case_prod_beta Let_def split: if_splits)
qed

section \<open>The contract of a push\<close>

text \<open>
  What the router relies on, whichever way it queues: the invariant and the budget are kept, a push
  that reports success has stored the item, nothing but the pushed items is ever in the queue, and
  no push panics.
\<close>

locale budgeted_push =
  fixes inv :: "'q \<Rightarrow> bool"
    and items :: "'q \<Rightarrow> 'a list"
    and cost :: "'a \<Rightarrow> nat"
    and budget :: "'q \<Rightarrow> nat"
    and push :: "'a \<Rightarrow> 'q \<Rightarrow> 'q \<times> unit telemetry_result"
  assumes push_inv: "inv q \<Longrightarrow> inv (fst (push v q))"
    and push_budget: "inv q \<Longrightarrow> budget (fst (push v q)) = budget q"
    and push_items: "inv q \<Longrightarrow> set (items (fst (push v q))) \<subseteq> insert v (set (items q))"
    and push_stores: "inv q \<Longrightarrow> snd (push v q) = Ok () \<Longrightarrow> v \<in> set (items (fst (push v q)))"
    and push_no_panic: "inv q \<Longrightarrow> snd (push v q) \<noteq> Panic m"
    and inv_budget: "inv q \<Longrightarrow> sum_list (map cost (items q)) \<le> budget q"
begin

lemma push_all:
  assumes "inv q"
  shows "inv (foldl (\<lambda>q v. fst (push v q)) q vs)"
    and "budget (foldl (\<lambda>q v. fst (push v q)) q vs) = budget q"
    and "set (items (foldl (\<lambda>q v. fst (push v q)) q vs)) \<subseteq> set vs \<union> set (items q)"
  using assms
proof (induction vs arbitrary: q)
  case (Cons v vs)
  { case 1 then show ?case using Cons.IH(1) push_inv by simp }
  { case 2 then show ?case using Cons.IH(2) push_inv push_budget by simp }
  { case 3 then show ?case using Cons.IH(3) [OF push_inv [OF 3], of v] push_items [OF 3, of v] by auto }
qed simp_all

lemma push_all_within_budget:
  assumes "inv q"
  shows "sum_list (map cost (items (foldl (\<lambda>q v. fst (push v q)) q vs))) \<le> budget q"
  using inv_budget [OF push_all(1) [OF assms]] push_all(2) [OF assms] by simp

end

interpretation fifo: budgeted_push "bd_wf cost esize" bd_q cost bd_max_bytes "push_back cost esize"
  for cost :: "'a \<Rightarrow> nat" and esize :: nat
proof
  fix q :: "'a bounded_deque" and v :: 'a
  assume wf: "bd_wf cost esize q"
  then show "bd_wf cost esize (fst (push_back cost esize v q))" by (rule push_back_wf)
  show "total cost (bd_q q) \<le> bd_max_bytes q" using wf by (rule bd_wfD)
  consider (large) "push_back cost esize v q = (q, Err (PacketTooLarge ''Item exceeds maximum byte budget''))"
    | (stored) n cap where "push_back cost esize v q = ((bd_set cost (drop n (bd_q q) @ [v]) q)\<lparr>bd_cap := cap\<rparr>, Ok ())"
    using push_back_set [OF wf, of v] push_back_too_large [of q cost v esize] by (meson not_le)
  note outcomes = this
  show "bd_max_bytes (fst (push_back cost esize v q)) = bd_max_bytes q"
    by (cases rule: outcomes) (auto simp: bd_set_def)
  show "set (bd_q (fst (push_back cost esize v q))) \<subseteq> insert v (set (bd_q q))"
    by (cases rule: outcomes) (auto simp: bd_set_def dest: in_set_dropD)
  show "snd (push_back cost esize v q) = Ok () \<Longrightarrow> v \<in> set (bd_q (fst (push_back cost esize v q)))"
    by (cases rule: outcomes) (auto simp: bd_set_def)
  show "snd (push_back cost esize v q) \<noteq> Panic m" for m
    by (cases rule: outcomes) auto
qed

interpretation prioritized: budgeted_push "bd_wf cost esize" bd_q cost bd_max_bytes "push_back_prioritized cost esize prio"
  for cost :: "'a \<Rightarrow> nat" and esize :: nat and prio :: "'a \<Rightarrow> u8"
proof
  fix q :: "'a bounded_deque" and v :: 'a
  assume wf: "bd_wf cost esize q"
  note outcomes = push_prioritized_cases [OF wf, of prio v]
  show "bd_wf cost esize (fst (push_back_prioritized cost esize prio v q))" using wf by (rule push_prioritized_wf)
  show "total cost (bd_q q) \<le> bd_max_bytes q" using wf by (rule bd_wfD)
  show "bd_max_bytes (fst (push_back_prioritized cost esize prio v q)) = bd_max_bytes q"
    by (cases rule: outcomes) (auto simp: bd_set_def)
  show "set (bd_q (fst (push_back_prioritized cost esize prio v q))) \<subseteq> insert v (set (bd_q q))"
    by (cases rule: outcomes) (auto simp: bd_set_def dest: in_set_takeD)
  show "snd (push_back_prioritized cost esize prio v q) = Ok () \<Longrightarrow>
      v \<in> set (bd_q (fst (push_back_prioritized cost esize prio v q)))"
    by (cases rule: outcomes) (auto simp: bd_set_def)
  show "snd (push_back_prioritized cost esize prio v q) \<noteq> Panic m" for m
    by (cases rule: outcomes) auto
qed

end
