(* ===== verification/Queue_Properties.thy ===== *)
theory Queue_Properties
  imports Bounded_Deque_Laws
begin

text \<open>The promises of the bounded queue, each with an instance on a small queue.\<close>

text \<open>Items of ten bytes with a number and a priority, under a budget of thirty bytes.\<close>

definition item_cost :: "nat \<times> u8 \<Rightarrow> nat" where
  "item_cost x = 10"

definition small_queue :: "(nat \<times> u8) bounded_deque" where
  "small_queue =
     \<lparr>bd_q = [(1, 9), (2, 5), (3, 5)], bd_cap = 4, bd_max_bytes = 30, bd_cur_bytes = 30, bd_max_elems = 4,
      bd_grow_num = 3276, bd_grow_den = 1024\<rparr>"

lemma small_queue_wf: "bd_wf item_cost 7 small_queue"
  by (simp add: bd_wf_def small_queue_def item_cost_def isize_max_def)

text \<open>
  Appending an item that fits the byte budget succeeds. It evicts a prefix of the queue, the
  shortest one that lets the item fit the byte budget and the element limit; the order of the rest is
  kept, and the buffer stays within the element limit.
\<close>

theorem push_back_evicts_oldest:
  assumes "bd_wf cost esize d" and "cost v \<le> bd_max_bytes d"
  shows "\<exists>n d'. push_back cost esize v d = (d', Ok ()) \<and> bd_q d' = drop n (bd_q d) @ [v] \<and>
    bd_wf cost esize d' \<and> bd_cap d' \<le> bd_max_elems d \<and>
    (\<forall>m<n. bd_max_bytes d < sum_list (map cost (drop m (bd_q d))) + cost v \<or>
      bd_max_elems d \<le> length (drop m (bd_q d)))"
proof -
  have "bd_wf cost esize (fst (push_back cost esize v d))" by (rule push_back_wf [OF assms(1)])
  with push_back_set [OF assms] show ?thesis by (fastforce simp: bd_set_def)
qed

theorem push_back_evicts_oldest_witness:
  "\<exists>n d'. push_back item_cost 7 (4, 1) small_queue = (d', Ok ()) \<and> bd_q d' = drop n (bd_q small_queue) @ [(4, 1)] \<and>
    bd_wf item_cost 7 d'"
  using push_back_evicts_oldest [OF small_queue_wf, of "(4, 1)"]
  by (simp add: item_cost_def small_queue_def) blast

text \<open>
  C8. A prioritized push keeps the queue sorted by descending priority and, within a priority, in
  order of arrival. It gives up a suffix of the queue, and only items whose priority is not above the
  new one; it is refused, leaving the rest of the queue, when the next item to give up has a higher
  priority.
\<close>

theorem push_back_prioritized_order:
  assumes "bd_wf cost esize d" and "prio_sorted prio (bd_q d)" and "cost v \<le> bd_max_bytes d"
  shows "\<exists>kept lost d' r. push_back_prioritized cost esize prio v d = (d', r) \<and> bd_wf cost esize d' \<and>
    bd_q d = kept @ lost \<and> list_all (\<lambda>x. prio x \<le> prio v) lost \<and> prio_sorted prio (bd_q d') \<and>
    (r = Ok () \<and> bd_q d' = insert_prio prio v kept \<and>
       (\<forall>p. filter (\<lambda>x. prio x = p) (bd_q d') =
             filter (\<lambda>x. prio x = p) kept @ (if prio v = p then [v] else [])) \<or>
     r = Err (Io ''priority queue saturated'') \<and> bd_q d' = kept \<and> kept \<noteq> [] \<and> prio v < prio (last kept))"
proof -
  have split: "bd_q d = take n (bd_q d) @ drop n (bd_q d)" for n by simp
  have sorted: "prio_sorted prio (take n (bd_q d))" for n
    using assms(2) by (simp add: prio_sorted_def)
  have lost: "list_all (\<lambda>x. prio x \<le> prio v) (drop n (bd_q d))" if g: "given_up d cost prio (cost v) (prio v) n" for n
  proof (unfold list_all_length, intro allI impI)
    fix i assume "i < length (drop n (bd_q d))"
    then show "prio (drop n (bd_q d) ! i) \<le> prio v"
      using g [unfolded given_up_def, rule_format, of "Suc (n + i)"] by simp
  qed
  have wf: "bd_wf cost esize (fst (push_back_prioritized cost esize prio v d))"
    by (rule push_prioritized_wf [OF assms(1)])
  show ?thesis using assms(1)
  proof (cases rule: push_prioritized_cases [where prio = prio and v = v])
    case large
    then show ?thesis using assms(3) by simp
  next
    case (stored n cap)
    then show ?thesis
      using wf split [of n] lost [of n] prio_sorted_insert [OF sorted [of n], of v] insert_prio_fifo [OF sorted [of n], of _ v]
      by (intro exI [of _ "take n (bd_q d)"] exI [of _ "drop n (bd_q d)"] exI) (auto simp: bd_set_def)
  next
    case (full n)
    have kept: "take n (bd_q d) \<noteq> []" using full(2) by (auto simp: refused_def)
    then have "last (take n (bd_q d)) = bd_q d ! (n - 1)"
      using full(2) by (auto simp: refused_def last_conv_nth min_def)
    with kept show ?thesis
      using wf full split [of n] lost [of n] sorted [of n]
      by (intro exI [of _ "take n (bd_q d)"] exI [of _ "drop n (bd_q d)"] exI) (auto simp: refused_def)
  qed
qed

theorem push_back_prioritized_order_witness:
  "\<exists>kept lost d' r. push_back_prioritized item_cost 7 snd (4, 5) small_queue = (d', r) \<and>
     bd_q small_queue = kept @ lost \<and> prio_sorted snd (bd_q d')"
  using push_back_prioritized_order [OF small_queue_wf, of snd "(4, 5)"]
  by (simp add: item_cost_def prio_sorted_def small_queue_def) blast

text \<open>
  Whatever sequence of items is queued, by arrival or by priority, refused ones included, the
  bytes in the queue stay within the budget, the byte counter is exact, and the queue holds no more
  than its element limit.
\<close>

theorem queue_stays_within_budget:
  assumes "bd_wf cost esize d"
  shows "(let d' = foldl (\<lambda>d v. fst (push_back cost esize v d)) d vs in
      bd_cur_bytes d' = sum_list (map cost (bd_q d')) \<and> bd_cur_bytes d' \<le> bd_max_bytes d \<and>
      length (bd_q d') \<le> bd_max_elems d' \<and> bd_cap d' \<le> bd_max_elems d') \<and>
    (let d' = foldl (\<lambda>d v. fst (push_back_prioritized cost esize prio v d)) d vs in
      bd_cur_bytes d' = sum_list (map cost (bd_q d')) \<and> bd_cur_bytes d' \<le> bd_max_bytes d \<and>
      length (bd_q d') \<le> bd_max_elems d' \<and> bd_cap d' \<le> bd_max_elems d')"
  using fifo.push_all_within_budget [OF assms, where vs = vs] prioritized.push_all_within_budget [OF assms, where vs = vs and prio = prio]
    bd_wfD [OF fifo.push_all(1) [OF assms, where vs = vs]] bd_wfD [OF prioritized.push_all(1) [OF assms, where vs = vs and prio = prio]]
  by (simp add: Let_def)

theorem queue_stays_within_budget_witness:
  "let d' = foldl (\<lambda>d v. fst (push_back item_cost 7 v d)) small_queue [(4, 1), (5, 2)] in
     bd_cur_bytes d' = sum_list (map item_cost (bd_q d')) \<and> bd_cur_bytes d' \<le> 30"
  using queue_stays_within_budget [OF small_queue_wf, of "[(4, 1), (5, 2)]" snd]
  by (simp add: Let_def small_queue_def)

text \<open>
  \<open>retain\<close> keeps exactly the items that satisfy the predicate, in their order, and
  \<open>remove_value\<close> drops the first occurrence; both keep the byte counter exact.
\<close>

theorem retain_and_remove_exact:
  assumes "bd_wf cost esize d"
  shows "bd_q (bd_retain cost keep d) = filter keep (bd_q d) \<and> bd_wf cost esize (bd_retain cost keep d) \<and>
    bd_q (remove_value cost v d) = remove1 v (bd_q d) \<and> bd_wf cost esize (remove_value cost v d)"
proof -
  have "length (remove1 v (bd_q d)) \<le> length (bd_q d)" by (simp add: length_remove1)
  then have "bd_wf cost esize (bd_set cost (remove1 v (bd_q d)) d)"
    using bd_wfD(2,4) [OF assms] total_remove1_le [of cost v "bd_q d"] by (intro bd_wf_set [OF assms]) linarith+
  then show ?thesis
    using bd_wf_filter [OF assms] by (simp add: bd_retain_set [OF assms] remove_value_set [OF assms])
qed

theorem retain_and_remove_exact_witness:
  "bd_q (bd_retain item_cost (\<lambda>x. snd x = 5) small_queue) = [(2, 5), (3, 5)]"
  using retain_and_remove_exact [OF small_queue_wf, of "\<lambda>x. snd x = 5"] by (simp add: small_queue_def)

text \<open>
  A queue is constructed, empty and satisfying its invariant, exactly when the starting size is
  within a positive budget and the growth factor is not a number at most one (a NaN is accepted and
  grows by the least ratio above one).
\<close>

theorem bd_new_Ok_iff:
  assumes "max_bytes \<le> isize_max" and "esize \<le> isize_max"
  shows "(\<exists>d. bd_new esize max_bytes starting_bytes grow = Ok d \<and> bd_q d = [] \<and> bd_wf cost esize d) \<longleftrightarrow>
    starting_bytes \<le> max_bytes \<and> 0 < max_bytes \<and> \<not> f64_le_one grow"
  using bd_new_cases [OF assms, of starting_bytes grow cost]
  by (auto simp: bd_new_def split: if_splits)

theorem bd_new_Ok_iff_witness:
  "\<exists>d. bd_new 7 30 10 (Fin 2) = (Ok d :: (telemetry_error, (nat \<times> u8) bounded_deque) outcome) \<and> bd_q d = [] \<and> bd_wf item_cost 7 d"
  using bd_new_Ok_iff [of 30 7 10 "Fin 2" item_cost] by (simp add: isize_max_def)

end
