(* ===== verification/Calendar.thy ===== *)
theory Calendar
  imports Prelude
begin

text \<open>
  The proleptic Gregorian calendar of \<open>src/timesync.rs\<close> and \<open>src/packet.rs\<close>: the conversions
  between a day number and a date, with the wrap-around of the signed integers they use, and the
  proof that they are inverse to each other.
\<close>

section \<open>Signed machine integers\<close>

definition i32 :: "int \<Rightarrow> int" where
  "i32 x = signed_take_bit 31 x"

definition i64 :: "int \<Rightarrow> int" where
  "i64 x = signed_take_bit 63 x"

definition u32_of :: "int \<Rightarrow> int" where
  "u32_of x = x mod 2 ^ 32"

text \<open>Division of signed integers truncates towards zero.\<close>

definition tdiv :: "int \<Rightarrow> int \<Rightarrow> int" where
  "tdiv a b = (if 0 \<le> a then a div b else - ((- a) div b))"

lemma tdiv_nonneg [simp]: "0 \<le> a \<Longrightarrow> tdiv a b = a div b"
  by (simp add: tdiv_def)

lemma i32_id: "- (2 ^ 31) \<le> x \<Longrightarrow> x < 2 ^ 31 \<Longrightarrow> i32 x = x"
  unfolding i32_def by (rule signed_take_bit_int_eq_self) simp_all

lemma i64_id: "- (2 ^ 63) \<le> x \<Longrightarrow> x < 2 ^ 63 \<Longrightarrow> i64 x = x"
  unfolding i64_def by (rule signed_take_bit_int_eq_self) simp_all

lemma i32_wrap_add [simp]: "i32 (i32 x + y) = i32 (x + y)"
  unfolding i32_def by (simp add: signed_take_bit_eq_iff_take_bit_eq take_bit_eq_mod mod_simps signed_take_bit_eq_take_bit_shift ac_simps)

lemma i32_range: "- (2 ^ 31) \<le> i32 x" "i32 x < 2 ^ 31"
  using signed_take_bit_int_greater_eq_minus_exp [of 31 x] signed_take_bit_int_less_exp [of 31 x]
  by (simp_all add: i32_def)

section \<open>The conversions\<close>

definition days_from_civil :: "int \<Rightarrow> int \<Rightarrow> int \<Rightarrow> int" where
  "days_from_civil year month day =
     (let year = i32 (year - (if month \<le> 2 then 1 else 0));
          era = tdiv (if year \<ge> 0 then year else i32 (year - 399)) 400;
          yoe = i32 (year - i32 (era * 400));
          mp = i32 (i32 month + (if month > 2 then - 3 else 9));
          doy = i32 (tdiv (i32 (153 * mp + 2)) 5 + i32 day - 1);
          doe = i32 (i32 (yoe * 365) + tdiv yoe 4 - tdiv yoe 100 + doy)
      in i32 (i32 (era * 146097) + doe - 719468))"

definition civil_from_days :: "int \<Rightarrow> int \<times> int \<times> int" where
  "civil_from_days z =
     (let z = i64 (z + 719468);
          era = tdiv (if z \<ge> 0 then z else i64 (z - 146096)) 146097;
          doe = i64 (z - i64 (era * 146097));
          yoe = tdiv (doe - tdiv doe 1460 + tdiv doe 36524 - tdiv doe 146096) 365;
          y = i32 (i32 yoe + i32 (i32 era * 400));
          doy = doe - (365 * yoe + tdiv yoe 4 - tdiv yoe 100);
          mp = tdiv (5 * doy + 2) 153;
          d = doy - tdiv (153 * mp + 2) 5 + 1;
          m = mp + (if mp < 10 then 3 else - 9);
          y = i32 (y + (if m \<le> 2 then 1 else 0))
      in (y, u32_of m, u32_of d))"

section \<open>The year of a day within its era\<close>

text \<open>
  Years start in March, so that the leap day is the last one. \<open>year_start k\<close> is the first day of
  year \<open>k\<close> of an era of 400 years, and \<open>year_number\<close> the expression the code divides by 365.
\<close>

definition year_start :: "int \<Rightarrow> int" where
  "year_start k = 365 * k + k div 4 - k div 100"

definition year_end :: "int \<Rightarrow> int" where
  "year_end k = (if k = 399 then 146096 else year_start (k + 1) - 1)"

definition year_number :: "int \<Rightarrow> int" where
  "year_number doe = doe - doe div 1460 + doe div 36524 - doe div 146096"

lemma year_number_step: "year_number x \<le> year_number (x + 1)"
proof -
  have "(x + 1) div 1460 \<le> x div 1460 + 1" "x div 36524 \<le> (x + 1) div 36524"
    "(x + 1) div 146096 \<le> x div 146096 + 1" by linarith+
  moreover have "(x + 1) div 36524 = x div 36524 + 1" if "(x + 1) div 146096 \<noteq> x div 146096"
  proof -
    define q where "q = 4 * ((x + 1) div 146096)"
    have x: "x + 1 = 36524 * q" unfolding q_def using that by linarith
    then have "(x + 1) div 36524 = q" by simp
    moreover have "x div 36524 = q - 1" by (rule int_div_pos_eq [of _ _ _ 36523]) (use x in simp_all)
    ultimately show ?thesis by simp
  qed
  moreover have "x div 146096 \<le> (x + 1) div 146096" by linarith
  ultimately show ?thesis unfolding year_number_def by linarith
qed

lemma year_number_mono: "x \<le> y \<Longrightarrow> year_number x \<le> year_number y"
  by (induction y rule: int_ge_induct) (auto intro: order_trans [OF _ year_number_step])

lemma year_bounds_table:
  "list_all (\<lambda>k. 365 * k \<le> year_number (year_start k) \<and> year_number (year_end k) \<le> 365 * k + 364)
     (map int [0..<400])"
  unfolding year_number_def year_start_def year_end_def by code_simp

lemma year_bounds:
  assumes "0 \<le> k" and "k < 400"
  shows "365 * k \<le> year_number (year_start k)" "year_number (year_end k) \<le> 365 * k + 364"
proof -
  have "k \<in> set (map int [0..<400])" using assms by (auto intro!: image_eqI [of _ _ "nat k"])
  with year_bounds_table show "365 * k \<le> year_number (year_start k)" "year_number (year_end k) \<le> 365 * k + 364"
    by (auto simp: list_all_iff)
qed

lemma year_of_day:
  assumes "0 \<le> doe" and "doe < 146097"
  defines "k \<equiv> year_number doe div 365"
  shows "0 \<le> k" "k < 400" "year_start k \<le> doe" "doe \<le> year_end k"
proof -
  have n: "365 * k \<le> year_number doe" "year_number doe < 365 * k + 365" by (simp_all add: k_def)
  have "year_number 0 \<le> year_number doe" "year_number doe \<le> year_number 146096"
    using assms by (auto intro: year_number_mono)
  then show k: "0 \<le> k" "k < 400" using n by (simp_all add: year_number_def)
  show "year_start k \<le> doe"
  proof (rule ccontr)
    assume before: "\<not> year_start k \<le> doe"
    then have "k \<noteq> 0" using assms(1) by (auto simp: year_start_def)
    then have "doe \<le> year_end (k - 1)" using before k by (auto simp: year_end_def)
    then have "year_number doe \<le> 365 * (k - 1) + 364"
      using year_number_mono [of doe "year_end (k - 1)"] year_bounds(2) [of "k - 1"] k \<open>k \<noteq> 0\<close> by linarith
    then show False using n by (simp add: algebra_simps)
  qed
  show "doe \<le> year_end k"
  proof (rule ccontr)
    assume after: "\<not> doe \<le> year_end k"
    then have "k \<noteq> 399" using assms(2) by (auto simp: year_end_def)
    then have "year_start (k + 1) \<le> doe" using after by (auto simp: year_end_def)
    then have "365 * (k + 1) \<le> year_number doe"
      using year_number_mono [of "year_start (k + 1)" doe] year_bounds(1) [of "k + 1"] k \<open>k \<noteq> 399\<close> by linarith
    then show False using n by (simp add: algebra_simps)
  qed
qed

section \<open>Dates\<close>

definition leap :: "int \<Rightarrow> bool" where
  "leap y \<longleftrightarrow> y mod 4 = 0 \<and> (y mod 100 \<noteq> 0 \<or> y mod 400 = 0)"

definition days_in_month :: "int \<Rightarrow> int \<Rightarrow> int" where
  "days_in_month y m =
     (if m = 2 then (if leap y then 29 else 28) else if m \<in> {4, 6, 9, 11} then 30 else 31)"

definition month_index :: "int \<Rightarrow> int" where
  "month_index doy = (5 * doy + 2) div 153"

definition month_of :: "int \<Rightarrow> int" where
  "month_of doy = month_index doy + (if month_index doy < 10 then 3 else - 9)"

definition day_of :: "int \<Rightarrow> int" where
  "day_of doy = doy - (153 * month_index doy + 2) div 5 + 1"

lemma month_table:
  "list_all (\<lambda>doy. 0 \<le> month_index doy \<and> month_index doy \<le> 11 \<and> 1 \<le> day_of doy \<and> day_of doy \<le> 31 \<and>
      (month_of doy = 2 \<longrightarrow> day_of doy \<le> (if doy = 365 then 29 else 28)) \<and>
      (month_of doy \<in> {4, 6, 9, 11} \<longrightarrow> day_of doy \<le> 30)) (map int [0..<366])"
  unfolding month_of_def day_of_def month_index_def by code_simp

lemma leap_table:
  "list_all (\<lambda>k. year_end k - year_start k \<le> 365 \<and> (year_end k - year_start k = 365 \<longrightarrow> leap (k + 1)))
     (map int [0..<400])"
  unfolding leap_def year_start_def year_end_def by code_simp

lemma in_int_range: "0 \<le> k \<Longrightarrow> k < int n \<Longrightarrow> k \<in> set (map int [0..<n])"
  by (auto intro!: image_eqI [of _ _ "nat k"])

lemma month_bounds:
  assumes "0 \<le> doy" and "doy \<le> 365"
  shows "0 \<le> month_index doy" "month_index doy \<le> 11" "1 \<le> day_of doy" "day_of doy \<le> 31"
    "month_of doy = 2 \<Longrightarrow> day_of doy \<le> (if doy = 365 then 29 else 28)"
    "month_of doy \<in> {4, 6, 9, 11} \<Longrightarrow> day_of doy \<le> 30"
  using month_table in_int_range [of doy 366] assms by (auto simp: list_all_iff simp del: set_map)

lemma year_length:
  assumes "0 \<le> k" and "k < 400"
  shows "year_end k - year_start k \<le> 365" "year_end k - year_start k = 365 \<Longrightarrow> leap (k + 1)"
  using leap_table in_int_range [of k 400] assms by (auto simp: list_all_iff simp del: set_map)

lemma leap_period: "leap (k + 400 * e) \<longleftrightarrow> leap k"
proof -
  have "(k + 4 * (100 * e)) mod 4 = k mod 4" "(k + 100 * (4 * e)) mod 100 = k mod 100"
    by (rule mod_mult_self2)+
  then show ?thesis by (simp add: leap_def)
qed

text \<open>The parts of a day number, and the date without machine arithmetic.\<close>

definition era_of :: "int \<Rightarrow> int" where "era_of z = (z + 719468) div 146097"
definition doe_of :: "int \<Rightarrow> int" where "doe_of z = (z + 719468) mod 146097"
definition yoe_of :: "int \<Rightarrow> int" where "yoe_of z = year_number (doe_of z) div 365"
definition doy_of :: "int \<Rightarrow> int" where "doy_of z = doe_of z - year_start (yoe_of z)"

lemma parts:
  assumes "0 \<le> z"
  shows "0 \<le> doe_of z" "doe_of z < 146097" "0 \<le> yoe_of z" "yoe_of z < 400" "0 \<le> doy_of z" "doy_of z \<le> 365"
    "z + 719468 = era_of z * 146097 + doe_of z" "0 \<le> era_of z" "doy_of z = 365 \<Longrightarrow> leap (yoe_of z + 1)"
proof -
  show d: "0 \<le> doe_of z" "doe_of z < 146097" by (simp_all add: doe_of_def)
  show y: "0 \<le> yoe_of z" "yoe_of z < 400" and s: "0 \<le> doy_of z"
    using year_of_day(1-3) [OF d] by (simp_all add: yoe_of_def doy_of_def)
  have e: "doe_of z \<le> year_end (yoe_of z)" using year_of_day(4) [OF d] by (simp add: yoe_of_def)
  then show "doy_of z \<le> 365" using year_length(1) [OF y] by (simp add: doy_of_def)
  show "z + 719468 = era_of z * 146097 + doe_of z" by (simp add: era_of_def doe_of_def)
  show "0 \<le> era_of z" using assms by (simp add: era_of_def pos_imp_zdiv_nonneg_iff)
  show "doy_of z = 365 \<Longrightarrow> leap (yoe_of z + 1)"
    using e year_length [OF y] by (simp add: doy_of_def)
qed

lemma month_of_range:
  assumes "0 \<le> doy" and "doy \<le> 365"
  shows "1 \<le> month_of doy \<and> month_of doy \<le> 12"
proof (cases "month_index doy < 10")
  case True
  then show ?thesis using month_bounds(1,2) [OF assms] unfolding month_of_def by simp
next
  case False
  then show ?thesis using month_bounds(1,2) [OF assms] unfolding month_of_def by simp
qed

lemma civil_from_days_exact:
  assumes "0 \<le> z" and "z < 2 ^ 38"
  shows "civil_from_days z =
    (yoe_of z + 400 * era_of z + (if month_of (doy_of z) \<le> 2 then 1 else 0), month_of (doy_of z), day_of (doy_of z))"
proof -
  note p = parts [OF assms(1)]
  have era: "era_of z \<le> 1900000" unfolding era_of_def using assms(2) by simp
  have z64: "i64 (z + 719468) = z + 719468" using assms by (intro i64_id) auto
  have e64: "i64 (era_of z * 146097) = era_of z * 146097" using era p(8) by (intro i64_id) auto
  have d64: "i64 (z + 719468 - era_of z * 146097) = doe_of z" using p(1,2,7) by (subst i64_id) auto
  have "year_number 0 \<le> year_number (doe_of z)" using p(1) by (rule year_number_mono)
  then have n: "0 \<le> year_number (doe_of z)" by (simp add: year_number_def)
  have yoe: "tdiv (doe_of z - tdiv (doe_of z) 1460 + tdiv (doe_of z) 36524 - tdiv (doe_of z) 146096) 365 = yoe_of z"
    using p(1) n by (simp add: yoe_of_def year_number_def)
  have doy: "doe_of z - (365 * yoe_of z + tdiv (yoe_of z) 4 - tdiv (yoe_of z) 100) = doy_of z"
    using p(3) by (simp add: doy_of_def year_start_def)
  note m = month_bounds [OF p(5,6)] and mo = month_of_range [OF p(5,6)]
  have mp: "tdiv (5 * doy_of z + 2) 153 = month_index (doy_of z)" using p(5) by (simp add: month_index_def)
  have day: "doy_of z - tdiv (153 * month_index (doy_of z) + 2) 5 + 1 = day_of (doy_of z)"
    using m(1) by (simp add: day_of_def)
  have i32s: "i32 (yoe_of z) = yoe_of z" "i32 (era_of z) = era_of z" "i32 (era_of z * 400) = era_of z * 400"
    "i32 (yoe_of z + era_of z * 400) = yoe_of z + era_of z * 400"
    "i32 (yoe_of z + era_of z * 400 + 1) = yoe_of z + era_of z * 400 + 1"
    using p(3,4,8) era by (auto intro!: i32_id)
  have u32s: "u32_of (month_of (doy_of z)) = month_of (doy_of z)" "u32_of (day_of (doy_of z)) = day_of (doy_of z)"
    using mo m(3,4) by (auto simp: u32_of_def)
  have era': "tdiv (z + 719468) 146097 = era_of z" using assms(1) by (simp add: era_of_def)
  show ?thesis
    unfolding civil_from_days_def Let_def z64
    using assms(1) by (simp add: era' e64 d64 yoe doy mp day i32s u32s flip: month_of_def)
qed

lemma civil_from_days_valid:
  assumes "0 \<le> z" and "z < 2 ^ 38" and "civil_from_days z = (y, m, d)"
  shows "1 \<le> m" "m \<le> 12" "1 \<le> d" "d \<le> days_in_month y m" "0 \<le> y" "y < 2 ^ 30"
proof -
  note p = parts [OF assms(1)]
  note mb = month_bounds [OF p(5,6)] and mo = month_of_range [OF p(5,6)]
  have date: "y = yoe_of z + 400 * era_of z + (if m \<le> 2 then 1 else 0)" "m = month_of (doy_of z)" "d = day_of (doy_of z)"
    using assms(3) civil_from_days_exact [OF assms(1,2)] by auto
  show "1 \<le> m" "m \<le> 12" "1 \<le> d" using mo mb(3) date by auto
  have "leap y" if "m = 2" "doy_of z = 365"
    using p(9) [OF that(2)] leap_period [of "yoe_of z + 1" "era_of z"] that(1) date(1) by (simp add: ac_simps)
  then show "d \<le> days_in_month y m"
    using mb(4-6) unfolding date(2,3) [symmetric] by (auto simp: days_in_month_def split: if_splits)
  have "era_of z \<le> 1900000" unfolding era_of_def using assms(2) by simp
  then show "y < 2 ^ 30" using p(4) date(1) by (auto split: if_splits)
  show "0 \<le> y" using p(3,8) date(1) by (auto split: if_splits)
qed

section \<open>The conversions are inverse\<close>

text \<open>
  The date is converted back in 32-bit arithmetic, so that the day number is recovered modulo
  \<open>2 ^ 32\<close>: exactly as long as it fits an \<open>i32\<close>.
\<close>

lemma days_from_civil_of_parts:
  assumes "0 \<le> z" and "z < 2 ^ 38"
  shows "(case civil_from_days z of (y, m, d) \<Rightarrow> days_from_civil y m d) = i32 z"
proof -
  note p = parts [OF assms(1)]
  note mb = month_bounds [OF p(5,6)] and mo = month_of_range [OF p(5,6)]
  let ?m = "month_of (doy_of z)" and ?d = "day_of (doy_of z)" and ?mp = "month_index (doy_of z)"
  have era: "era_of z \<le> 1900000" unfolding era_of_def using assms(2) by simp
  have year: "i32 (yoe_of z + 400 * era_of z) = yoe_of z + 400 * era_of z" "i32 (era_of z * 400) = era_of z * 400"
    "i32 (yoe_of z) = yoe_of z" "i32 (yoe_of z * 365) = yoe_of z * 365"
    using p(3,4,8) era by (auto intro!: i32_id)
  have "(yoe_of z + 400 * era_of z) div 400 = era_of z" using p(3,4) by simp
  then have era': "tdiv (yoe_of z + 400 * era_of z) 400 = era_of z" using p(3,8) by simp
  have mp: "i32 (i32 ?m + (if ?m > 2 then - 3 else 9)) = ?mp"
    using mb(1,2) mo by (subst i32_id; auto simp: month_of_def intro: i32_id)
  have i153: "i32 (153 * ?mp + 2) = 153 * ?mp + 2" "i32 ?d = ?d" using mb(1-4) by (auto intro!: i32_id)
  have doy: "i32 (tdiv (153 * ?mp + 2) 5 + ?d - 1) = doy_of z"
    using mb(1) p(5,6) by (simp add: day_of_def i32_id)
  have doe: "yoe_of z * 365 + tdiv (yoe_of z) 4 - tdiv (yoe_of z) 100 + doy_of z = doe_of z" "i32 (doe_of z) = doe_of z"
    using p(1,2,3) by (auto simp: doy_of_def year_start_def intro!: i32_id)
  have wrap: "i32 (i32 (era_of z * 146097) + doe_of z - 719468) = i32 z"
  proof -
    have z: "era_of z * 146097 + (doe_of z - 719468) = z" using p(7) by linarith
    show ?thesis
      using i32_wrap_add [of "era_of z * 146097" "doe_of z - 719468"] unfolding z by (simp add: add_diff_eq)
  qed
  have yoe': "yoe_of z + 400 * era_of z - era_of z * 400 = yoe_of z" by simp
  have nonneg: "0 \<le> yoe_of z + 400 * era_of z" using p(3,8) by simp
  show ?thesis
    unfolding civil_from_days_exact [OF assms] prod.case days_from_civil_def Let_def
    by (simp only: add_diff_cancel_right' year nonneg if_True era' yoe' mp i153 doy doe wrap)
qed

lemma days_from_civil_from_days:
  assumes "0 \<le> z" and "z < 2 ^ 31"
  shows "(case civil_from_days z of (y, m, d) \<Rightarrow> days_from_civil y m d) = z"
  using days_from_civil_of_parts [OF assms(1)] i32_id [of z] assms by simp

end
