(* ===== verification/BTree_Map.thy ===== *)
theory BTree_Map
  imports Prelude
begin

text \<open>
  \<open>alloc::collections::BTreeMap\<close> as the source uses it: a finite map whose iteration,
  \<open>values\<close>, \<open>keys\<close> and \<open>pop_first\<close> go through the keys in increasing order. The
  model is the strictly increasing list of its entries. \<open>ordered_map\<close> is the contract of
  the operations; the components rely on its facts through the interpretation \<open>bt\<close>.
\<close>

type_synonym ('k, 'v) btree = "('k \<times> 'v) list"

definition bt_wf :: "('k::linorder, 'v) btree \<Rightarrow> bool" where
  "bt_wf m \<longleftrightarrow> sorted_wrt (<) (map fst m)"

definition bt_get :: "('k, 'v) btree \<Rightarrow> 'k \<Rightarrow> 'v option" where
  "bt_get m k = map_of m k"

definition bt_contains :: "('k, 'v) btree \<Rightarrow> 'k \<Rightarrow> bool" where
  "bt_contains m k \<longleftrightarrow> bt_get m k \<noteq> None"

definition bt_insert :: "'k::linorder \<Rightarrow> 'v \<Rightarrow> ('k, 'v) btree \<Rightarrow> ('k, 'v) btree" where
  "bt_insert k v m = takeWhile (\<lambda>p. fst p < k) m @ (k, v) # dropWhile (\<lambda>p. fst p \<le> k) m"

definition bt_remove :: "'k \<Rightarrow> ('k, 'v) btree \<Rightarrow> ('k, 'v) btree" where
  "bt_remove k m = filter (\<lambda>p. fst p \<noteq> k) m"

definition bt_retain :: "('k \<Rightarrow> 'v \<Rightarrow> bool) \<Rightarrow> ('k, 'v) btree \<Rightarrow> ('k, 'v) btree" where
  "bt_retain f m = filter (\<lambda>(k, v). f k v) m"

fun bt_pop_first :: "('k, 'v) btree \<Rightarrow> ('k \<times> 'v) option \<times> ('k, 'v) btree" where
  "bt_pop_first [] = (None, [])"
| "bt_pop_first (e # m) = (Some e, m)"

text \<open>The update of an entry through \<open>get_mut\<close>.\<close>

definition bt_modify :: "'k \<Rightarrow> ('v \<Rightarrow> 'v) \<Rightarrow> ('k, 'v) btree \<Rightarrow> ('k, 'v) btree" where
  "bt_modify key f m = map (\<lambda>(k, v). if k = key then (k, f v) else (k, v)) m"

definition bt_keys :: "('k, 'v) btree \<Rightarrow> 'k list" where
  "bt_keys m = map fst m"

definition bt_values :: "('k, 'v) btree \<Rightarrow> 'v list" where
  "bt_values m = map snd m"

text \<open>\<open>collect\<close> of an iterator of entries: later entries overwrite earlier ones.\<close>

definition bt_collect :: "('k::linorder \<times> 'v) list \<Rightarrow> ('k, 'v) btree" where
  "bt_collect es = fold (\<lambda>(k, v). bt_insert k v) es []"

section \<open>Representation lemmas\<close>

lemma bt_wf_Nil [simp]: "bt_wf []"
  by (simp add: bt_wf_def)

lemma bt_wf_Cons: "bt_wf ((k, v) # m) \<longleftrightarrow> (\<forall>p \<in> set m. k < fst p) \<and> bt_wf m"
  by (auto simp: bt_wf_def)

lemma bt_wf_distinct: "bt_wf m \<Longrightarrow> distinct (map fst m)"
  unfolding bt_wf_def by (simp add: strict_sorted_iff)

lemma bt_insert_Cons:
  "bt_insert k v ((a, b) # m) =
     (if a < k then (a, b) # bt_insert k v m
      else if a = k then (k, v) # dropWhile (\<lambda>p. fst p \<le> k) m
      else (k, v) # (a, b) # m)"
  by (auto simp: bt_insert_def)

lemma bt_insert_Nil [simp]: "bt_insert k v [] = [(k, v)]"
  by (simp add: bt_insert_def)

lemma bt_wf_dropWhile: "bt_wf ((k, v) # m) \<Longrightarrow> dropWhile (\<lambda>p. fst p \<le> k) m = m"
  by (cases m) (auto simp: bt_wf_Cons)

lemma set_bt_insert: "bt_wf m \<Longrightarrow> set (bt_insert k v m) = insert (k, v) {p \<in> set m. fst p \<noteq> k}"
proof (induction m)
  case Nil
  then show ?case by simp
next
  case (Cons e m)
  obtain a b where "e = (a, b)" by (cases e)
  with Cons show ?case
    by (cases "a = k") (auto simp: bt_insert_Cons bt_wf_Cons bt_wf_dropWhile)
qed

lemma bt_wf_insert: "bt_wf m \<Longrightarrow> bt_wf (bt_insert k v m)"
proof (induction m)
  case Nil
  then show ?case by (simp add: bt_wf_def)
next
  case (Cons e m)
  obtain a b where "e = (a, b)" by (cases e)
  with Cons show ?case
    by (cases "a = k") (auto simp: bt_insert_Cons bt_wf_Cons bt_wf_dropWhile set_bt_insert)
qed

lemma map_of_bt_insert: "bt_wf m \<Longrightarrow> map_of (bt_insert k v m) = (map_of m)(k \<mapsto> v)"
proof (induction m)
  case Nil
  then show ?case by simp
next
  case (Cons e m)
  obtain a b where "e = (a, b)" by (cases e)
  with Cons show ?case
    by (cases "a = k") (auto simp: bt_insert_Cons bt_wf_Cons bt_wf_dropWhile fun_eq_iff)
qed

lemma bt_wf_filter: "bt_wf m \<Longrightarrow> bt_wf (filter P m)"
  unfolding bt_wf_def by (induction m) auto

lemma map_of_filter_neq: "map_of (filter (\<lambda>p. fst p \<noteq> k) m) = (map_of m)(k := None)"
  by (induction m) (auto simp: fun_eq_iff)

section \<open>The contract of an ordered map\<close>

locale ordered_map =
  fixes empty :: "'m"
    and get :: "'m \<Rightarrow> 'k::linorder \<Rightarrow> 'v option"
    and insert :: "'k \<Rightarrow> 'v \<Rightarrow> 'm \<Rightarrow> 'm"
    and remove :: "'k \<Rightarrow> 'm \<Rightarrow> 'm"
    and keys :: "'m \<Rightarrow> 'k list"
    and invar :: "'m \<Rightarrow> bool"
  assumes get_empty: "get empty k = None"
    and get_insert: "invar m \<Longrightarrow> get (insert k v m) = (get m)(k \<mapsto> v)"
    and get_remove: "invar m \<Longrightarrow> get (remove k m) = (get m)(k := None)"
    and keys_get: "invar m \<Longrightarrow> k \<in> set (keys m) \<longleftrightarrow> get m k \<noteq> None"
    and keys_sorted: "invar m \<Longrightarrow> sorted_wrt (<) (keys m)"
    and invar_empty: "invar empty"
    and invar_insert: "invar m \<Longrightarrow> invar (insert k v m)"
    and invar_remove: "invar m \<Longrightarrow> invar (remove k m)"
begin

lemma get_insert_same: "invar m \<Longrightarrow> get (insert k v m) k = Some v"
  by (simp add: get_insert)

lemma get_insert_other: "invar m \<Longrightarrow> j \<noteq> k \<Longrightarrow> get (insert k v m) j = get m j"
  by (simp add: get_insert)

lemma set_keys: "invar m \<Longrightarrow> set (keys m) = dom (get m)"
  using keys_get by (auto simp: dom_def)

lemma distinct_keys: "invar m \<Longrightarrow> distinct (keys m)"
  using keys_sorted strict_sorted_iff by blast

lemma card_dom: "invar m \<Longrightarrow> card (dom (get m)) = length (keys m)"
  using set_keys distinct_keys distinct_card by metis

lemma length_keys_insert:
  assumes "invar m"
  shows "length (keys (insert k v m)) =
    (if get m k = None then Suc (length (keys m)) else length (keys m))"
proof -
  have fin: "finite (dom (get m))" using assms set_keys by (metis List.finite_set)
  have "length (keys (insert k v m)) = card (Set.insert k (dom (get m)))"
    using assms card_dom [OF invar_insert [OF assms], of k v] by (simp add: get_insert)
  also have "\<dots> = (if get m k = None then Suc (card (dom (get m))) else card (dom (get m)))"
    using fin by (auto simp: card_insert_if dom_def)
  finally show ?thesis using assms by (simp add: card_dom)
qed

lemma length_keys_remove:
  assumes "invar m"
  shows "length (keys (remove k m)) =
    (if get m k = None then length (keys m) else length (keys m) - 1)"
proof -
  have "length (keys (remove k m)) = card (dom (get m) - {k})"
    using assms card_dom [OF invar_remove [OF assms], of k] by (simp add: get_remove)
  then show ?thesis using assms
    by (auto simp: card_Diff_singleton_if card_dom domIff)
qed

end

interpretation bt: ordered_map "[]" bt_get bt_insert bt_remove bt_keys bt_wf
proof unfold_locales
  show "bt_get [] k = None" for k :: "'a::linorder"
    by (simp add: bt_get_def)
  show "bt_wf m \<Longrightarrow> bt_get (bt_insert k v m) = (bt_get m)(k \<mapsto> v)" for m :: "('a, 'b) btree" and k v
    by (simp add: bt_get_def map_of_bt_insert fun_eq_iff)
  show "bt_wf m \<Longrightarrow> bt_get (bt_remove k m) = (bt_get m)(k := None)" for m :: "('a, 'b) btree" and k
    by (simp add: bt_get_def bt_remove_def map_of_filter_neq fun_eq_iff)
  show "bt_wf m \<Longrightarrow> k \<in> set (bt_keys m) \<longleftrightarrow> bt_get m k \<noteq> None" for m :: "('a, 'b) btree" and k
    by (simp add: bt_keys_def bt_get_def map_of_eq_None_iff)
  show "bt_wf m \<Longrightarrow> sorted_wrt (<) (bt_keys m)" for m :: "('a, 'b) btree"
    by (simp add: bt_keys_def bt_wf_def)
  show "bt_wf []" by simp
  show "bt_wf m \<Longrightarrow> bt_wf (bt_insert k v m)" for m :: "('a, 'b) btree" and k v
    by (rule bt_wf_insert)
  show "bt_wf m \<Longrightarrow> bt_wf (bt_remove k m)" for m :: "('a, 'b) btree" and k
    by (simp add: bt_remove_def bt_wf_filter)
qed

lemmas bt_wf_intros [wf_intros] = bt_wf_Nil bt_wf_insert bt.invar_remove

lemma bt_wf_retain [wf_intros]: "bt_wf m \<Longrightarrow> bt_wf (bt_retain f m)"
  by (simp add: bt_retain_def bt_wf_filter)

lemma bt_get_retain:
  "bt_wf m \<Longrightarrow> bt_get (bt_retain f m) k =
     (case bt_get m k of None \<Rightarrow> None | Some v \<Rightarrow> if f k v then Some v else None)"
proof (induction m)
  case Nil
  then show ?case by (simp add: bt_get_def bt_retain_def)
next
  case (Cons e m)
  obtain a b where e: "e = (a, b)" by (cases e)
  have "bt_wf m" using Cons.prems e by (simp add: bt_wf_Cons)
  note IH = Cons.IH [OF this]
  have "k = a \<Longrightarrow> map_of m k = None"
    using Cons.prems e by (auto simp: bt_wf_Cons map_of_eq_None_iff)
  with IH e show ?case
    by (auto simp: bt_get_def bt_retain_def split: option.splits)
qed

lemma bt_get_in_set: "bt_wf m \<Longrightarrow> bt_get m k = Some v \<longleftrightarrow> (k, v) \<in> set m"
  by (simp add: bt_get_def bt_wf_distinct)

lemma bt_pop_first_wf [wf_intros]: "bt_wf m \<Longrightarrow> bt_wf (snd (bt_pop_first m))"
  by (cases m rule: bt_pop_first.cases) (auto simp: bt_wf_Cons)

lemma bt_pop_first_least:
  "bt_wf m \<Longrightarrow> bt_pop_first m = (Some (k, v), m') \<Longrightarrow>
     bt_get m k = Some v \<and> m' = bt_remove k m \<and> (\<forall>j \<in> set (bt_keys m'). k < j)"
  by (cases m rule: bt_pop_first.cases)
    (auto simp: bt_wf_Cons bt_get_def bt_remove_def bt_keys_def intro!: filter_True [symmetric])

lemma length_bt_keys [simp]: "length (bt_keys m) = length m"
  by (simp add: bt_keys_def)

lemma bt_collect_wf [wf_intros]: "bt_wf (bt_collect es)"
proof -
  have "bt_wf m \<Longrightarrow> bt_wf (fold (\<lambda>(k, v). bt_insert k v) es m)" for m
    by (induction es arbitrary: m) (auto intro: bt_wf_insert)
  then show ?thesis by (simp add: bt_collect_def)
qed

lemma map_fst_modify [simp]: "map fst (bt_modify k f m) = map fst m"
  by (induction m) (auto simp: bt_modify_def)

lemma length_modify [simp]: "length (bt_modify k f m) = length m"
  by (simp add: bt_modify_def)

lemma bt_wf_modify [wf_intros]: "bt_wf m \<Longrightarrow> bt_wf (bt_modify k f m)"
  by (simp add: bt_wf_def)

lemma bt_get_modify: "bt_get (bt_modify k f m) j = (if j = k then map_option f (bt_get m k) else bt_get m j)"
  by (induction m) (auto simp: bt_modify_def bt_get_def)

end
