(* ===== verification/Network_Time.thy ===== *)
theory Network_Time
  imports Calendar BTree_Map
begin

text \<open>
  The clocks of \<open>src/timesync.rs\<close>: full and partial network time, the slewed clock and the clock
  assembled from several sources. \<open>i128\<close> values are integers; its saturating operations are
  \<open>sat128\<close>.
\<close>

section \<open>Network time\<close>

record network_time =
  nt_year :: int
  nt_month :: u8
  nt_day :: u8
  nt_hour :: u8
  nt_minute :: u8
  nt_second :: u8
  nt_nanosecond :: u32

record partial_network_time =
  pt_year :: "int option"
  pt_month :: "u8 option"
  pt_day :: "u8 option"
  pt_hour :: "u8 option"
  pt_minute :: "u8 option"
  pt_second :: "u8 option"
  pt_nanosecond :: "u32 option"

definition partial_default :: partial_network_time where
  "partial_default =
     \<lparr>pt_year = None, pt_month = None, pt_day = None, pt_hour = None, pt_minute = None,
      pt_second = None, pt_nanosecond = None\<rparr>"

definition from_unix_ns :: "int \<Rightarrow> network_time option" where
  "from_unix_ns unix_ns =
     (if unix_ns < 0 then None
      else
        (let secs = unix_ns div 1000000000;
             nanos = unix_ns mod 1000000000;
             days = i64 (secs div 86400);
             sod = secs mod 86400;
             (year, month, day) = civil_from_days days
         in Some \<lparr>nt_year = year, nt_month = word_of_int month, nt_day = word_of_int day,
                  nt_hour = word_of_int (sod div 3600), nt_minute = word_of_int (sod mod 3600 div 60),
                  nt_second = word_of_int (sod mod 60), nt_nanosecond = word_of_int nanos\<rparr>))"

definition as_unix_ns :: "network_time \<Rightarrow> int option" where
  "as_unix_ns t =
     (if \<not> (1 \<le> nt_month t \<and> nt_month t \<le> 12) \<or> \<not> (1 \<le> nt_day t \<and> nt_day t \<le> 31)
         \<or> nt_hour t > 23 \<or> nt_minute t > 59 \<or> nt_second t > 59 \<or> nt_nanosecond t \<ge> 1000000000
      then None
      else
        (let days = days_from_civil (nt_year t) (uint (nt_month t)) (uint (nt_day t));
             secs = days * 86400 + uint (nt_hour t) * 3600 + uint (nt_minute t) * 60 + uint (nt_second t)
         in Some (secs * 1000000000 + uint (nt_nanosecond t))))"

text \<open>\<open>u64::try_from(unix_ns / 1_000_000).ok()\<close>, guarded against negative times.\<close>

definition unix_ns_to_ms :: "int \<Rightarrow> u64 option" where
  "unix_ns_to_ms unix_ns =
     (if unix_ns < 0 then None
      else if unix_ns div 1000000 < 2 ^ 64 then Some (word_of_int (unix_ns div 1000000)) else None)"

definition as_unix_ms :: "network_time \<Rightarrow> u64 option" where
  "as_unix_ms t = Option.bind (as_unix_ns t) unix_ns_to_ms"

definition partial_from :: "network_time \<Rightarrow> partial_network_time" where
  "partial_from t =
     \<lparr>pt_year = Some (nt_year t), pt_month = Some (nt_month t), pt_day = Some (nt_day t),
      pt_hour = Some (nt_hour t), pt_minute = Some (nt_minute t), pt_second = Some (nt_second t),
      pt_nanosecond = Some (nt_nanosecond t)\<rparr>"

definition partial_from_unix_ms :: "u64 \<Rightarrow> partial_network_time" where
  "partial_from_unix_ms unix_ms =
     (case from_unix_ns (uint unix_ms * 1000000) of Some full \<Rightarrow> partial_from full | None \<Rightarrow> partial_default)"

definition is_complete_date :: "partial_network_time \<Rightarrow> bool" where
  "is_complete_date p \<longleftrightarrow> pt_year p \<noteq> None \<and> pt_month p \<noteq> None \<and> pt_day p \<noteq> None"

definition is_complete_time :: "partial_network_time \<Rightarrow> bool" where
  "is_complete_time p \<longleftrightarrow> pt_hour p \<noteq> None \<and> pt_minute p \<noteq> None \<and> pt_second p \<noteq> None"

definition to_network_time :: "partial_network_time \<Rightarrow> network_time option" where
  "to_network_time p =
     Option.bind (pt_year p) (\<lambda>year. Option.bind (pt_month p) (\<lambda>month. Option.bind (pt_day p) (\<lambda>day.
     Option.bind (pt_hour p) (\<lambda>hour. Option.bind (pt_minute p) (\<lambda>minute. Option.bind (pt_second p) (\<lambda>second.
     Some \<lparr>nt_year = year, nt_month = month, nt_day = day, nt_hour = hour, nt_minute = minute, nt_second = second,
           nt_nanosecond = (case pt_nanosecond p of Some ns \<Rightarrow> ns | None \<Rightarrow> 0)\<rparr>))))))"

definition advance_network_time :: "network_time \<Rightarrow> u64 \<Rightarrow> network_time option" where
  "advance_network_time base elapsed_ns =
     Option.bind (as_unix_ns base) (\<lambda>unix_ns. from_unix_ns (unix_ns + uint elapsed_ns))"

section \<open>The slewed clock\<close>

definition sat128 :: "int \<Rightarrow> int" where
  "sat128 x = max (- (2 ^ 127)) (min (2 ^ 127 - 1) x)"

definition neg128 :: "int \<Rightarrow> int" where
  "neg128 x = signed_take_bit 127 (- x)"

record slewed_network_clock =
  sc_anchor_mono_ns :: u64
  sc_anchor_unix_ns :: int
  sc_pending_adjust_ns :: int
  sc_max_slew_ppm :: u32
  sc_initialized :: bool

definition slewed_new :: "u32 \<Rightarrow> slewed_network_clock" where
  "slewed_new max_slew_ppm =
     \<lparr>sc_anchor_mono_ns = 0, sc_anchor_unix_ns = 0, sc_pending_adjust_ns = 0,
      sc_max_slew_ppm = min max_slew_ppm 999999, sc_initialized = False\<rparr>"

text \<open>The part of the pending adjustment that the elapsed time allows.\<close>

definition elapsed_ns :: "slewed_network_clock \<Rightarrow> u64 \<Rightarrow> int" where
  "elapsed_ns c now = uint (sat_sub now (sc_anchor_mono_ns c))"

definition applied_adjust_ns :: "slewed_network_clock \<Rightarrow> u64 \<Rightarrow> int" where
  "applied_adjust_ns c now =
     (let max_adjust_ns = tdiv (sat128 (elapsed_ns c now * uint (sc_max_slew_ppm c))) 1000000 in
      if sc_pending_adjust_ns c \<ge> 0 then min (sc_pending_adjust_ns c) max_adjust_ns
      else neg128 (min (neg128 (sc_pending_adjust_ns c)) max_adjust_ns))"

definition read_unix_ns :: "slewed_network_clock \<Rightarrow> u64 \<Rightarrow> int option" where
  "read_unix_ns c now =
     (if \<not> sc_initialized c then None
      else Some (sat128 (sat128 (sc_anchor_unix_ns c + elapsed_ns c now) + applied_adjust_ns c now)))"

definition read_unix_ms :: "slewed_network_clock \<Rightarrow> u64 \<Rightarrow> u64 option" where
  "read_unix_ms c now = Option.bind (read_unix_ns c now) unix_ns_to_ms"

definition steer_unix_ms :: "slewed_network_clock \<Rightarrow> u64 \<Rightarrow> u64 \<Rightarrow> slewed_network_clock" where
  "steer_unix_ms c now target_unix_ms =
     (let target_unix_ns = uint target_unix_ms * 1000000 in
      if \<not> sc_initialized c
      then c\<lparr>sc_anchor_mono_ns := now, sc_anchor_unix_ns := target_unix_ns, sc_pending_adjust_ns := 0,
             sc_initialized := True\<rparr>
      else
        (let current_unix_ns = (case read_unix_ns c now of Some t \<Rightarrow> t | None \<Rightarrow> target_unix_ns);
             remaining_adjust_ns = sat128 (sc_pending_adjust_ns c - applied_adjust_ns c now)
         in c\<lparr>sc_anchor_mono_ns := now, sc_anchor_unix_ns := current_unix_ns,
              sc_pending_adjust_ns := sat128 (remaining_adjust_ns + sat128 (target_unix_ns - current_unix_ns)),
              sc_initialized := True\<rparr>))"

section \<open>The assembled clock\<close>

record network_time_source_state =
  ns_priority :: u64
  ns_updated_mono_ms :: u64
  ns_anchor_mono_ns :: u64
  ns_ttl_ms :: "u64 option"
  ns_time :: partial_network_time

type_synonym network_clock = "(bytes, network_time_source_state) btree"

definition update_source ::
  "bytes \<Rightarrow> u64 \<Rightarrow> partial_network_time \<Rightarrow> u64 \<Rightarrow> u64 \<Rightarrow> u64 option \<Rightarrow> network_clock \<Rightarrow> network_clock" where
  "update_source source priority time updated_mono_ms anchor_mono_ns ttl_ms clock =
     bt_insert source
       \<lparr>ns_priority = priority, ns_updated_mono_ms = updated_mono_ms, ns_anchor_mono_ns = anchor_mono_ns,
        ns_ttl_ms = ttl_ms, ns_time = time\<rparr> clock"

definition remove_source :: "bytes \<Rightarrow> network_clock \<Rightarrow> network_clock" where
  "remove_source source clock = bt_remove source clock"

definition prune_expired :: "u64 \<Rightarrow> network_clock \<Rightarrow> network_clock" where
  "prune_expired now_mono_ms clock =
     bt_retain (\<lambda>_ src. case ns_ttl_ms src of
                  Some ttl \<Rightarrow> sat_sub now_mono_ms (ns_updated_mono_ms src) \<le> ttl
                | None \<Rightarrow> True) clock"

definition best_source ::
  "(network_time_source_state \<Rightarrow> bool) \<Rightarrow> network_clock \<Rightarrow> (bytes \<times> network_time_source_state) option" where
  "best_source predicate sources =
     foldl (\<lambda>best (name, src).
        if \<not> predicate src then best
        else (case best of
                None \<Rightarrow> Some (name, src)
              | Some (best_name, best_src) \<Rightarrow>
                  if ns_priority src < ns_priority best_src
                     \<or> (ns_priority src = ns_priority best_src \<and> name < best_name)
                  then Some (name, src) else Some (best_name, best_src)))
       None sources"

record network_time_reading =
  nr_time :: partial_network_time
  nr_unix_time_ms :: "u64 option"

definition reading_of :: "network_time \<Rightarrow> network_time_reading" where
  "reading_of advanced = \<lparr>nr_time = partial_from advanced, nr_unix_time_ms = as_unix_ms advanced\<rparr>"

text \<open>\<open>a.or(b)\<close>\<close>

definition or_else :: "'a option \<Rightarrow> 'a option \<Rightarrow> 'a option" where
  "or_else a b = (case a of Some x \<Rightarrow> Some x | None \<Rightarrow> b)"

definition best_state ::
  "(network_time_source_state \<Rightarrow> bool) \<Rightarrow> network_clock \<Rightarrow> network_time_source_state option" where
  "best_state predicate sources = map_option snd (best_source predicate sources)"

definition merged_time :: "network_clock \<Rightarrow> partial_network_time" where
  "merged_time sources =
     \<lparr>pt_year = Option.bind (best_state (\<lambda>s. pt_year (ns_time s) \<noteq> None) sources) (\<lambda>s. pt_year (ns_time s)),
      pt_month = Option.bind (best_state (\<lambda>s. pt_month (ns_time s) \<noteq> None) sources) (\<lambda>s. pt_month (ns_time s)),
      pt_day = Option.bind (best_state (\<lambda>s. pt_day (ns_time s) \<noteq> None) sources) (\<lambda>s. pt_day (ns_time s)),
      pt_hour = Option.bind (best_state (\<lambda>s. pt_hour (ns_time s) \<noteq> None) sources) (\<lambda>s. pt_hour (ns_time s)),
      pt_minute = Option.bind (best_state (\<lambda>s. pt_minute (ns_time s) \<noteq> None) sources) (\<lambda>s. pt_minute (ns_time s)),
      pt_second = Option.bind (best_state (\<lambda>s. pt_second (ns_time s) \<noteq> None) sources) (\<lambda>s. pt_second (ns_time s)),
      pt_nanosecond =
        Option.bind (best_state (\<lambda>s. pt_nanosecond (ns_time s) \<noteq> None) sources) (\<lambda>s. pt_nanosecond (ns_time s))\<rparr>"

definition advanced_reading :: "network_time \<Rightarrow> network_time_source_state \<Rightarrow> u64 \<Rightarrow> network_time_reading option" where
  "advanced_reading base src now_mono_ns =
     map_option reading_of (advance_network_time base (sat_sub now_mono_ns (ns_anchor_mono_ns src)))"

definition full_reading :: "network_clock \<Rightarrow> u64 \<Rightarrow> network_time_reading option" where
  "full_reading sources now_mono_ns =
     (case best_source (\<lambda>s. to_network_time (ns_time s) \<noteq> None) sources of
        Some (_, src) \<Rightarrow>
          (case to_network_time (ns_time src) of
             Some base \<Rightarrow> advanced_reading base src now_mono_ns
           | None \<Rightarrow> None)
      | None \<Rightarrow> None)"

definition current_time :: "network_clock \<Rightarrow> u64 \<Rightarrow> network_time_reading option" where
  "current_time sources now_mono_ns =
     (if sources = [] then None
      else (case full_reading sources now_mono_ns of
        Some r \<Rightarrow> Some r
      | None \<Rightarrow>
          (let hour = best_state (\<lambda>s. pt_hour (ns_time s) \<noteq> None) sources;
               minute = best_state (\<lambda>s. pt_minute (ns_time s) \<noteq> None) sources;
               second = best_state (\<lambda>s. pt_second (ns_time s) \<noteq> None) sources;
               merged = merged_time sources
           in case or_else (or_else second minute) hour of
                Some time_src \<Rightarrow>
                  if is_complete_date merged \<and> is_complete_time merged
                  then
                    (let merged = merged\<lparr>pt_nanosecond := or_else (pt_nanosecond merged) (Some 0)\<rparr> in
                     case to_network_time merged of
                       None \<Rightarrow> None
                     | Some base \<Rightarrow>
                         (case advanced_reading base time_src now_mono_ns of
                            Some r \<Rightarrow> Some r
                          | None \<Rightarrow> Some \<lparr>nr_time = merged, nr_unix_time_ms = None\<rparr>))
                  else Some \<lparr>nr_time = merged, nr_unix_time_ms = None\<rparr>
              | None \<Rightarrow> Some \<lparr>nr_time = merged, nr_unix_time_ms = None\<rparr>)))"

end
