(* ===== verification/Network_Time_Laws.thy ===== *)
theory Network_Time_Laws
  imports Network_Time
begin

text \<open>
  The conversions between Unix time and calendar fields, the slewed clock's rate and convergence, and
  the selection of a source.
\<close>

section \<open>Unix time and calendar fields\<close>

lemma uint_u8_of_int: "0 \<le> x \<Longrightarrow> x < 256 \<Longrightarrow> uint (word_of_int x :: u8) = x"
  by (simp add: unsigned_of_int take_bit_int_eq_self)

lemma uint_u32_of_int: "0 \<le> x \<Longrightarrow> x < 4294967296 \<Longrightarrow> uint (word_of_int x :: u32) = x"
  by (simp add: unsigned_of_int take_bit_int_eq_self)

lemma days_in_month_le: "days_in_month y m \<le> 31"
  by (simp add: days_in_month_def)

lemma from_unix_ns_fields:
  assumes "0 \<le> ns" and "ns < 2 ^ 38 * 86400 * 1000000000"
  shows "\<exists>t. from_unix_ns ns = Some t \<and>
    as_unix_ns t = Some (i32 (ns div 86400000000000) * 86400000000000 + ns mod 86400000000000)"
proof -
  define secs where "secs = ns div 1000000000"
  define days where "days = secs div 86400"
  define sod where "sod = secs mod 86400"
  have days: "0 \<le> days" "days < 2 ^ 38"
    using assms by (simp_all add: days_def secs_def div_less_iff_less_mult)
  have i64: "i64 days = days" using days by (intro i64_id) auto
  obtain y m d where date: "civil_from_days days = (y, m, d)" by (cases "civil_from_days days")
  note v = civil_from_days_valid [OF days date]
  have back': "days_from_civil y m d = i32 days"
    using days_from_civil_of_parts [OF days] by (simp add: date)
  have sod: "0 \<le> sod" "sod < 86400" by (simp_all add: sod_def)
  have hour: "0 \<le> sod div 3600" "sod div 3600 \<le> 23" using sod by auto
  have minute: "0 \<le> sod mod 3600 div 60" "sod mod 3600 div 60 \<le> 59" by auto
  have second: "0 \<le> sod mod 60" "sod mod 60 \<le> 59" by auto
  have nanos: "0 \<le> ns mod 1000000000" "ns mod 1000000000 < 1000000000" by auto
  have "d \<le> 31" using v(4) days_in_month_le [of y m] by simp
  let ?t = "\<lparr>nt_year = y, nt_month = word_of_int m, nt_day = word_of_int d, nt_hour = word_of_int (sod div 3600),
      nt_minute = word_of_int (sod mod 3600 div 60), nt_second = word_of_int (sod mod 60),
      nt_nanosecond = word_of_int (ns mod 1000000000)\<rparr>"
  have conv: "from_unix_ns ns = Some ?t"
    using assms(1) i64 date by (simp add: from_unix_ns_def days_def sod_def secs_def Let_def)
  have md: "0 \<le> m" "m < 256" "0 \<le> d" "d < 256" using v(1-3) \<open>d \<le> 31\<close> by simp_all
  have small: "sod div 3600 < 256" "sod mod 3600 div 60 < 256" "sod mod 60 < 256" "ns mod 1000000000 < 4294967296"
    using hour minute second nanos by linarith+
  note uints = uint_u8_of_int [OF md(1,2)] uint_u8_of_int [OF md(3,4)] uint_u8_of_int [OF hour(1) small(1)]
    uint_u8_of_int [OF minute(1) small(2)] uint_u8_of_int [OF second(1) small(3)]
    uint_u32_of_int [OF nanos(1) small(4)]
  have checks: "1 \<le> m" "m \<le> 12" "1 \<le> d" "\<not> 31 < d" "\<not> 23 < sod div 3600" "\<not> 59 < sod mod 3600 div 60"
    "\<not> 59 < sod mod 60" "\<not> 1000000000 \<le> ns mod 1000000000"
    using v(1-3) \<open>d \<le> 31\<close> hour minute second nanos by linarith+
  have u1: "as_unix_ns ?t = Some ((i32 days * 86400 + sod div 3600 * 3600 + sod mod 3600 div 60 * 60 + sod mod 60) * 1000000000
      + ns mod 1000000000)"
    unfolding as_unix_ns_def network_time.simps word_le_def word_less_def uints back' Let_def
    using checks \<open>d \<le> 31\<close> by simp
  have "sod mod 3600 mod 60 = sod mod 60" by (rule mod_mod_cancel) simp
  then have "sod div 3600 * 3600 + sod mod 3600 div 60 * 60 + sod mod 60 = sod"
    using div_mult_mod_eq [of sod 3600] div_mult_mod_eq [of "sod mod 3600" 60] by linarith
  then have "i32 days * 86400 + sod div 3600 * 3600 + sod mod 3600 div 60 * 60 + sod mod 60 = i32 days * 86400 + sod"
    by (simp add: add.assoc)
  then have u2: "(i32 days * 86400 + sod div 3600 * 3600 + sod mod 3600 div 60 * 60 + sod mod 60) * 1000000000
      + ns mod 1000000000 = i32 days * 86400000000000 + (sod * 1000000000 + ns mod 1000000000)"
    by (simp only: distrib_right)
  have u3: "sod * 1000000000 + ns mod 1000000000 = ns mod 86400000000000"
    using zmod_zmult2_eq [of 86400 ns 1000000000] by (simp add: sod_def secs_def)
  have u4: "days = ns div 86400000000000"
    using zdiv_zmult2_eq [of 86400 ns 1000000000] by (simp add: days_def secs_def)
  show ?thesis
    by (rule exI [of _ ?t], rule conjI, rule conv, rule u1 [unfolded u2, unfolded u3, unfolded u4])
qed

lemma unix_ns_roundtrip:
  assumes "0 \<le> ns" and "ns < 2 ^ 31 * 86400 * 1000000000"
  shows "\<exists>t. from_unix_ns ns = Some t \<and> as_unix_ns t = Some ns"
proof -
  have "ns div 86400000000000 < 2 ^ 31" "0 \<le> ns div 86400000000000"
    using assms by (simp_all add: div_less_iff_less_mult)
  then have "i32 (ns div 86400000000000) = ns div 86400000000000" by (intro i32_id) auto
  with from_unix_ns_fields [OF assms(1)] assms(2) show ?thesis by auto
qed

section \<open>The slewed clock\<close>

definition slewed_ok :: "slewed_network_clock \<Rightarrow> bool" where
  "slewed_ok c \<longleftrightarrow>
     sc_initialized c \<and> uint (sc_max_slew_ppm c) \<le> 999999 \<and>
     \<bar>sc_anchor_unix_ns c\<bar> \<le> 2 ^ 100 \<and> \<bar>sc_pending_adjust_ns c\<bar> \<le> 2 ^ 100"

definition slew_limit :: "slewed_network_clock \<Rightarrow> int \<Rightarrow> int" where
  "slew_limit c e = e * uint (sc_max_slew_ppm c) div 1000000"

definition clip :: "int \<Rightarrow> int \<Rightarrow> int" where
  "clip p m = (if 0 \<le> p then min p m else - min (- p) m)"

lemma sat128_id: "- (2 ^ 127) \<le> x \<Longrightarrow> x < 2 ^ 127 \<Longrightarrow> sat128 x = x"
  by (simp add: sat128_def)

lemma neg128_id: "- (2 ^ 127) < x \<Longrightarrow> x \<le> 2 ^ 127 \<Longrightarrow> neg128 x = - x"
  unfolding neg128_def by (rule signed_take_bit_int_eq_self) simp_all

lemma elapsed_bounds: "0 \<le> elapsed_ns c now" "elapsed_ns c now < 2 ^ 64"
  using unsigned_less [of "sat_sub now (sc_anchor_mono_ns c)", where 'a = int]
  by (simp_all add: elapsed_ns_def)

lemma elapsed_diff: "elapsed_ns c now = max 0 (uint now - uint (sc_anchor_mono_ns c))"
  by (auto simp: elapsed_ns_def sat_sub_def word_le_def uint_sub_if')

lemma slew_limit_bounds:
  assumes "slewed_ok c" and "0 \<le> e"
  shows "0 \<le> slew_limit c e" "slew_limit c e \<le> e"
proof -
  have "e * uint (sc_max_slew_ppm c) \<le> e * 1000000"
    using assms by (intro mult_left_mono) (auto simp: slewed_ok_def)
  then have "slew_limit c e \<le> (e * 1000000) div 1000000"
    unfolding slew_limit_def by (rule zdiv_mono1) simp
  then show "slew_limit c e \<le> e" by simp
  show "0 \<le> slew_limit c e" using assms(2) by (simp add: slew_limit_def pos_imp_zdiv_nonneg_iff)
qed

lemma slew_limit_step:
  assumes "slewed_ok c" and "0 \<le> e" and "0 \<le> x"
  shows "slew_limit c e \<le> slew_limit c (e + x)" "slew_limit c (e + x) \<le> slew_limit c e + slew_limit c x + 1"
    "slew_limit c (e + x) \<le> slew_limit c e + x"
proof -
  let ?p = "uint (sc_max_slew_ppm c)"
  have "0 \<le> x * ?p" using assms(3) by simp
  then show "slew_limit c e \<le> slew_limit c (e + x)"
    unfolding slew_limit_def by (intro zdiv_mono1) (simp_all add: algebra_simps)
  show "slew_limit c (e + x) \<le> slew_limit c e + slew_limit c x + 1"
    unfolding slew_limit_def by (simp add: distrib_right)
  have "x * ?p \<le> x * 1000000" using assms(1,3) by (intro mult_left_mono) (auto simp: slewed_ok_def)
  then have "(e * ?p + x * ?p) div 1000000 \<le> (e * ?p + x * 1000000) div 1000000" by (intro zdiv_mono1) simp_all
  then show "slew_limit c (e + x) \<le> slew_limit c e + x" by (simp add: slew_limit_def distrib_right)
qed

lemma applied_adjust_clip:
  assumes "slewed_ok c"
  shows "applied_adjust_ns c now = clip (sc_pending_adjust_ns c) (slew_limit c (elapsed_ns c now))"
proof -
  let ?e = "elapsed_ns c now" and ?p = "sc_pending_adjust_ns c"
  note e = elapsed_bounds [of c now]
  have "?e * uint (sc_max_slew_ppm c) \<le> ?e * 1000000"
    using assms e by (intro mult_left_mono) (auto simp: slewed_ok_def)
  then have prod: "?e * uint (sc_max_slew_ppm c) < 2 ^ 127" "0 \<le> ?e * uint (sc_max_slew_ppm c)" using e by auto
  then have lim: "tdiv (sat128 (?e * uint (sc_max_slew_ppm c))) 1000000 = slew_limit c ?e"
    by (simp add: sat128_id slew_limit_def)
  note b = slew_limit_bounds [OF assms e(1)]
  have p: "- (2 ^ 100) \<le> ?p" "?p \<le> 2 ^ 100" using assms by (auto simp: slewed_ok_def abs_le_iff)
  show ?thesis
  proof (cases "0 \<le> ?p")
    case True
    then show ?thesis by (simp add: applied_adjust_ns_def lim clip_def)
  next
    case False
    have n1: "neg128 ?p = - ?p" using p by (intro neg128_id) auto
    have n2: "neg128 (min (- ?p) (slew_limit c ?e)) = - min (- ?p) (slew_limit c ?e)"
      using False p b by (intro neg128_id) (auto simp: min_def)
    show ?thesis using False by (simp add: applied_adjust_ns_def lim clip_def n1 n2)
  qed
qed

lemma clip_bounds: "0 \<le> m \<Longrightarrow> - m \<le> clip p m \<and> clip p m \<le> m"
  by (auto simp: clip_def min_def)

lemma read_unix_ns_exact:
  assumes "slewed_ok c"
  shows "read_unix_ns c now =
    Some (sc_anchor_unix_ns c + elapsed_ns c now + clip (sc_pending_adjust_ns c) (slew_limit c (elapsed_ns c now)))"
proof -
  note e = elapsed_bounds [of c now]
  note b = slew_limit_bounds [OF assms e(1)]
  have "- elapsed_ns c now \<le> clip (sc_pending_adjust_ns c) (slew_limit c (elapsed_ns c now))"
    "clip (sc_pending_adjust_ns c) (slew_limit c (elapsed_ns c now)) \<le> elapsed_ns c now"
    using clip_bounds [OF b(1), of "sc_pending_adjust_ns c"] b(2) by linarith+
  moreover have "- (2 ^ 100) \<le> sc_anchor_unix_ns c" "sc_anchor_unix_ns c \<le> 2 ^ 100"
    using assms by (auto simp: slewed_ok_def abs_le_iff)
  ultimately show ?thesis
    using assms e by (simp add: read_unix_ns_def applied_adjust_clip [OF assms] sat128_id slewed_ok_def)
qed

lemma clip_step:
  assumes "0 \<le> m" and "m \<le> m'"
  shows "\<bar>clip p m' - clip p m\<bar> \<le> m' - m"
  using assms by (auto simp: clip_def min_def abs_le_iff)

text \<open>Between two readings the clock runs forward, within the slew rate of real time.\<close>

lemma slewed_rate:
  assumes ok: "slewed_ok c" and later: "now \<le> now'"
    and r: "read_unix_ns c now = Some r" and r': "read_unix_ns c now' = Some r'"
  shows "r \<le> r'"
    and "sc_anchor_mono_ns c \<le> now \<Longrightarrow>
      \<bar>(r' - r) - (uint now' - uint now)\<bar> \<le> (uint now' - uint now) * uint (sc_max_slew_ppm c) div 1000000 + 1"
proof -
  let ?e = "elapsed_ns c now" and ?e' = "elapsed_ns c now'" and ?p = "sc_pending_adjust_ns c"
  have le: "?e \<le> ?e'" using later by (auto simp: elapsed_diff word_le_def)
  note e = elapsed_bounds [of c now]
  note step = slew_limit_step [OF ok e(1), of "?e' - ?e"]
  have c: "\<bar>clip ?p (slew_limit c ?e') - clip ?p (slew_limit c ?e)\<bar> \<le> slew_limit c ?e' - slew_limit c ?e"
    using slew_limit_bounds(1) [OF ok e(1)] step(1) le by (intro clip_step) simp_all
  have diff: "r' - r = (?e' - ?e) + (clip ?p (slew_limit c ?e') - clip ?p (slew_limit c ?e))"
    using r r' by (simp add: read_unix_ns_exact [OF ok])
  show "r \<le> r'" using c diff step(3) le by (simp add: abs_le_iff)
  assume "sc_anchor_mono_ns c \<le> now"
  then have d: "?e' - ?e = uint now' - uint now" using later by (auto simp: elapsed_diff word_le_def)
  have "slew_limit c ?e' \<le> slew_limit c ?e + slew_limit c (?e' - ?e) + 1" using step(2) le by simp
  then have "\<bar>(r' - r) - (uint now' - uint now)\<bar> \<le> slew_limit c (uint now' - uint now) + 1"
    using c diff unfolding d by linarith
  then show "\<bar>(r' - r) - (uint now' - uint now)\<bar> \<le> (uint now' - uint now) * uint (sc_max_slew_ppm c) div 1000000 + 1"
    by (simp add: slew_limit_def)
qed

lemma target_ns_bounds: "0 \<le> uint (t :: u64) * 1000000" "uint (t :: u64) * 1000000 < 2 ^ 84"
proof -
  have "uint t < 2 ^ 64" using uint_lt2p [of t] by simp
  then show "uint t * 1000000 < 2 ^ 84" by simp
qed simp

lemma steer_exact:
  fixes now :: u64
  assumes ok: "slewed_ok c"
  defines "left \<equiv> sc_pending_adjust_ns c - applied_adjust_ns c now"
  shows "\<exists>r. read_unix_ns c now = Some r \<and>
    steer_unix_ms c now target = c\<lparr>sc_anchor_mono_ns := now, sc_anchor_unix_ns := r,
      sc_pending_adjust_ns := left + (uint target * 1000000 - r), sc_initialized := True\<rparr> \<and>
    \<bar>left\<bar> \<le> 2 ^ 100 \<and> \<bar>r\<bar> \<le> 2 ^ 101 \<and> uint target * 1000000 < 2 ^ 84"
proof -
  let ?e = "elapsed_ns c now" and ?p = "sc_pending_adjust_ns c"
  note e = elapsed_bounds [of c now] and b = slew_limit_bounds [OF ok elapsed_bounds(1) [of c now]]
  have left: "\<bar>left\<bar> \<le> \<bar>?p\<bar>"
    unfolding left_def applied_adjust_clip [OF ok] using b(1) by (auto simp: clip_def min_def abs_le_iff)
  have p: "\<bar>?p\<bar> \<le> 2 ^ 100" "\<bar>sc_anchor_unix_ns c\<bar> \<le> 2 ^ 100" using ok by (simp_all add: slewed_ok_def)
  have cl: "\<bar>clip ?p (slew_limit c ?e)\<bar> \<le> ?e" using clip_bounds [OF b(1), of ?p] b(2) by linarith
  define r where "r = sc_anchor_unix_ns c + ?e + clip ?p (slew_limit c ?e)"
  have r: "read_unix_ns c now = Some r" by (simp add: read_unix_ns_exact [OF ok] r_def)
  have rb: "\<bar>r\<bar> \<le> 2 ^ 101" using p(2) cl e unfolding r_def by (simp add: abs_le_iff)
  define T where "T = uint target * 1000000"
  have t: "0 \<le> T" "T < 2 ^ 84" using target_ns_bounds [of target] by (simp_all add: T_def)
  have "sat128 left = left" "sat128 (T - r) = T - r" "sat128 (left + (T - r)) = left + (T - r)"
    using left p(1) rb t by (auto intro!: sat128_id simp: abs_le_iff)
  then have "steer_unix_ms c now target = c\<lparr>sc_anchor_mono_ns := now, sc_anchor_unix_ns := r,
      sc_pending_adjust_ns := left + (uint target * 1000000 - r), sc_initialized := True\<rparr>"
    using ok r by (simp add: steer_unix_ms_def slewed_ok_def Let_def T_def flip: left_def)
  then show ?thesis using r rb t left p(1) unfolding T_def by auto
qed

lemma steer_continuous:
  assumes "slewed_ok c" and "read_unix_ns c now = Some r" and "\<bar>r\<bar> \<le> 2 ^ 98" and "\<bar>sc_pending_adjust_ns c\<bar> \<le> 2 ^ 98"
  shows "slewed_ok (steer_unix_ms c now target)" "read_unix_ns (steer_unix_ms c now target) now = Some r"
proof -
  obtain l where st: "steer_unix_ms c now target = c\<lparr>sc_anchor_mono_ns := now, sc_anchor_unix_ns := r,
      sc_pending_adjust_ns := l + (uint target * 1000000 - r), sc_initialized := True\<rparr>"
    and l: "l = sc_pending_adjust_ns c - applied_adjust_ns c now" and t: "uint target * 1000000 < 2 ^ 84"
    using steer_exact [OF assms(1), of now target] assms(2) by auto
  have "\<bar>l\<bar> \<le> \<bar>sc_pending_adjust_ns c\<bar>"
    unfolding l applied_adjust_clip [OF assms(1)]
    using slew_limit_bounds(1) [OF assms(1) elapsed_bounds(1) [of c now]] by (auto simp: clip_def min_def abs_le_iff)
  moreover define T where "T = uint target * 1000000"
  have "0 \<le> T" "T < 2 ^ 84" using target_ns_bounds [of target] by (simp_all add: T_def)
  ultimately have "\<bar>l + (T - r)\<bar> \<le> 2 ^ 100"
    using assms(3,4) by (auto simp: abs_le_iff)
  then have "\<bar>l + (uint target * 1000000 - r)\<bar> \<le> 2 ^ 100" by (simp add: T_def)
  then show ok: "slewed_ok (steer_unix_ms c now target)"
    using assms(1,3) by (simp add: st slewed_ok_def)
  have "elapsed_ns (steer_unix_ms c now target) now = 0" by (simp add: st elapsed_ns_def sat_sub_def)
  then show "read_unix_ns (steer_unix_ms c now target) now = Some r"
    using read_unix_ns_exact [OF ok, of now] by (simp add: st slew_limit_def clip_def)
qed

text \<open>Once the slew rate has let the pending adjustment through, the clock has left its anchor by all of it.\<close>

lemma settled_reading:
  assumes "slewed_ok c" and "\<bar>sc_pending_adjust_ns c\<bar> \<le> slew_limit c (elapsed_ns c now)"
  shows "read_unix_ns c now = Some (sc_anchor_unix_ns c + elapsed_ns c now + sc_pending_adjust_ns c)"
  using assms(2) by (auto simp: read_unix_ns_exact [OF assms(1)] clip_def abs_le_iff)

section \<open>Selecting a source\<close>

definition better :: "bytes \<times> network_time_source_state \<Rightarrow> bytes \<times> network_time_source_state \<Rightarrow> bool" where
  "better a b \<longleftrightarrow> (ns_priority (snd a), fst a) \<le> (ns_priority (snd b), fst b)"

lemma better_refl: "better a a"
  by (simp add: better_def)

lemma better_trans: "better a b \<Longrightarrow> better b c \<Longrightarrow> better a c"
  unfolding better_def by (rule order_trans)

lemma best_source_fold:
  "foldl (\<lambda>best (name, src).
      if \<not> P src then best
      else (case best of
              None \<Rightarrow> Some (name, src)
            | Some (best_name, best_src) \<Rightarrow>
                if ns_priority src < ns_priority best_src
                   \<or> (ns_priority src = ns_priority best_src \<and> name < best_name)
                then Some (name, src) else Some (best_name, best_src))) best xs = r \<Longrightarrow>
   (case r of
      None \<Rightarrow> best = None \<and> (\<forall>x \<in> set xs. \<not> P (snd x))
    | Some y \<Rightarrow> (best = Some y \<or> y \<in> set xs \<and> P (snd y)) \<and>
        (\<forall>x \<in> set xs. P (snd x) \<longrightarrow> better y x) \<and> (\<forall>b. best = Some b \<longrightarrow> better y b))"
proof (induction xs arbitrary: best)
  case Nil
  then show ?case by (cases r) (auto simp: better_refl)
next
  case (Cons x xs)
  obtain name src where x: "x = (name, src)" by (cases x)
  show ?case
  proof (cases "P src")
    case False
    then show ?thesis using Cons.IH [of best] Cons.prems by (cases r) (auto simp: x)
  next
    case True
    show ?thesis
    proof (cases best)
      case None
      then show ?thesis using True Cons.IH [of "Some (name, src)"] Cons.prems
        by (cases r) (auto simp: x)
    next
      case (Some b)
      obtain bn bs where b: "b = (bn, bs)" by (cases b)
      let ?take = "ns_priority src < ns_priority bs \<or> ns_priority src = ns_priority bs \<and> name < bn"
      show ?thesis
      proof (cases ?take)
        case True
        then have "better (name, src) (bn, bs)" by (auto simp: better_def less_eq_prod_def)
        then show ?thesis using True \<open>P src\<close> Some b Cons.IH [of "Some (name, src)"] Cons.prems
          by (cases r) (auto simp: x intro: better_trans)
      next
        case False
        then have "better (bn, bs) (name, src)" by (auto simp: better_def less_eq_prod_def)
        then show ?thesis using False \<open>P src\<close> Some b Cons.IH [of "Some (bn, bs)"] Cons.prems
          by (cases r) (auto simp: x intro: better_trans)
      qed
    qed
  qed
qed

lemma best_source_None: "best_source P xs = None \<longleftrightarrow> (\<forall>x \<in> set xs. \<not> P (snd x))"
proof (cases "best_source P xs")
  case None
  then show ?thesis using best_source_fold [of P None xs None] by (simp add: best_source_def)
next
  case (Some y)
  then show ?thesis using best_source_fold [of P None xs "Some y"] by (auto simp: best_source_def)
qed

lemma best_source_Some:
  "best_source P xs = Some y \<Longrightarrow> y \<in> set xs \<and> P (snd y) \<and> (\<forall>x \<in> set xs. P (snd x) \<longrightarrow> better y x)"
  using best_source_fold [of P None xs "Some y"] by (auto simp: best_source_def)

end
