(* ===== verification/Time_Sync.thy ===== *)
theory Time_Sync
  imports Packet Network_Time
begin

text \<open>
  The protocol part of \<open>src/timesync.rs\<close>: the packets of the exchange, the computation of offset
  and delay from four timestamps, and the tracker that follows the announcements of remote sources
  and elects the leader.
\<close>

section \<open>Configuration and data\<close>

datatype time_sync_role = Consumer | Source | Auto

record time_sync_config =
  tsc_role :: time_sync_role
  tsc_priority :: u64
  tsc_source_timeout_ms :: u64
  tsc_announce_interval_ms :: u64
  tsc_request_interval_ms :: u64
  tsc_consumer_promotion_enabled :: bool
  tsc_max_slew_ppm :: u32

definition time_sync_config_default :: time_sync_config where
  "time_sync_config_default =
     \<lparr>tsc_role = Consumer, tsc_priority = 100, tsc_source_timeout_ms = 5000, tsc_announce_interval_ms = 1000,
      tsc_request_interval_ms = 1000, tsc_consumer_promotion_enabled = True, tsc_max_slew_ppm = 50000\<rparr>"

record time_sync_source =
  tss_sender :: bytes
  tss_priority :: u64
  tss_last_announce_ms :: u64
  tss_last_time_ms :: u64

datatype time_sync_leader = Local u64 | Remote time_sync_source

datatype time_sync_update = NoChange | SourceChanged

record time_sync_sample =
  sample_offset_ms :: int
  sample_delay_ms :: u64

section \<open>Samples\<close>

text \<open>The arithmetic is that of \<open>i128\<close>, in which four 64-bit values cannot overflow; the casts wrap.\<close>

definition compute_offset_delay :: "u64 \<Rightarrow> u64 \<Rightarrow> u64 \<Rightarrow> u64 \<Rightarrow> time_sync_sample" where
  "compute_offset_delay t1_ms t2_ms t3_ms t4_ms =
     (let t1 = uint t1_ms; t2 = uint t2_ms; t3 = uint t3_ms; t4 = uint t4_ms;
          offset = tdiv ((t2 - t1) + (t3 - t4)) 2;
          delay = (t4 - t1) - (t3 - t2);
          delay_ms = (if delay < 0 then 0 else word_of_int delay)
      in \<lparr>sample_offset_ms = i64 offset, sample_delay_ms = delay_ms\<rparr>)"

definition compute_network_time_sample :: "u64 \<Rightarrow> u64 \<Rightarrow> u64 \<Rightarrow> u64 \<Rightarrow> u64 \<times> u64" where
  "compute_network_time_sample t1_monotonic_ms t2_network_ms t3_network_ms t4_monotonic_ms =
     (let round_trip = sat_sub t4_monotonic_ms t1_monotonic_ms;
          server_processing = sat_sub t3_network_ms t2_network_ms;
          one_way_delay = sat_sub round_trip server_processing div 2;
          estimated_network_ms = sat_add t3_network_ms one_way_delay
      in (estimated_network_ms, one_way_delay))"

section \<open>Packets\<close>

definition encode_slice_le :: "nat \<Rightarrow> 'a::len word list \<Rightarrow> bytes" where
  "encode_slice_le width data = concat (map (to_le_bytes width) data)"

definition build_timesync_announce :: "'z config_scheme \<Rightarrow> u64 \<Rightarrow> u64 \<Rightarrow> packet telemetry_result" where
  "build_timesync_announce C priority time_ms =
     from_u64_slice C TimeSyncAnnounce [priority, time_ms]
       (mm_endpoints (get_message_meta C TimeSyncAnnounce)) time_ms"

definition build_timesync_announce_with_sender ::
  "'z config_scheme \<Rightarrow> bytes \<Rightarrow> u64 \<Rightarrow> u64 \<Rightarrow> packet telemetry_result" where
  "build_timesync_announce_with_sender C sender priority time_ms =
     packet_new C TimeSyncAnnounce [TimeSync] sender time_ms (encode_slice_le 8 [priority, time_ms])"

definition build_timesync_request :: "'z config_scheme \<Rightarrow> u64 \<Rightarrow> u64 \<Rightarrow> packet telemetry_result" where
  "build_timesync_request C seq t1_ms =
     from_u64_slice C TimeSyncRequest [seq, t1_ms] (mm_endpoints (get_message_meta C TimeSyncRequest)) t1_ms"

definition build_timesync_response ::
  "'z config_scheme \<Rightarrow> u64 \<Rightarrow> u64 \<Rightarrow> u64 \<Rightarrow> u64 \<Rightarrow> packet telemetry_result" where
  "build_timesync_response C seq t1_ms t2_ms t3_ms =
     from_u64_slice C TimeSyncResponse [seq, t1_ms, t2_ms, t3_ms]
       (mm_endpoints (get_message_meta C TimeSyncResponse)) t3_ms"

definition decode_u64_payload ::
  "'z config_scheme \<Rightarrow> packet \<Rightarrow> data_type \<Rightarrow> nat \<Rightarrow> u64 list telemetry_result" where
  "decode_u64_payload C pkt expected_ty expected_words =
     (if pkt_ty pkt \<noteq> expected_ty then Err InvalidType
      else
        andthen (data_as_u64 C pkt) (\<lambda>vals.
          if length vals \<noteq> expected_words
          then Err (SizeMismatch (expected_words * 8) (length vals * 8)) else Ok vals))"

definition decode_timesync_announce :: "'z config_scheme \<Rightarrow> packet \<Rightarrow> (u64 \<times> u64) telemetry_result" where
  "decode_timesync_announce C pkt =
     andthen (decode_u64_payload C pkt TimeSyncAnnounce 2) (\<lambda>vals. Ok (vals ! 0, vals ! 1))"

definition decode_timesync_request :: "'z config_scheme \<Rightarrow> packet \<Rightarrow> (u64 \<times> u64) telemetry_result" where
  "decode_timesync_request C pkt =
     andthen (decode_u64_payload C pkt TimeSyncRequest 2) (\<lambda>vals. Ok (vals ! 0, vals ! 1))"

definition decode_timesync_response ::
  "'z config_scheme \<Rightarrow> packet \<Rightarrow> (u64 \<times> u64 \<times> u64 \<times> u64) telemetry_result" where
  "decode_timesync_response C pkt =
     andthen (decode_u64_payload C pkt TimeSyncResponse 4) (\<lambda>vals. Ok (vals ! 0, vals ! 1, vals ! 2, vals ! 3))"

section \<open>The tracker\<close>

record time_sync_tracker =
  tst_cfg :: time_sync_config
  tst_local_id :: bytes
  tst_sources :: "(bytes, time_sync_source) btree"
  tst_current_source :: "bytes option"

definition tracker_new :: "'z config_scheme \<Rightarrow> time_sync_config \<Rightarrow> time_sync_tracker" where
  "tracker_new C cfg =
     \<lparr>tst_cfg = cfg, tst_local_id = device_identifier C, tst_sources = [], tst_current_source = None\<rparr>"

definition current_source :: "time_sync_tracker \<Rightarrow> time_sync_source option" where
  "current_source t = Option.bind (tst_current_source t) (bt_get (tst_sources t))"

definition source_is_active :: "time_sync_source \<Rightarrow> u64 \<Rightarrow> u64 \<Rightarrow> bool" where
  "source_is_active src now_ms timeout_ms \<longleftrightarrow> sat_sub now_ms (tss_last_announce_ms src) \<le> timeout_ms"

text \<open>\<open>Iterator::min_by\<close> returns the first of the least elements.\<close>

definition source_less :: "time_sync_source \<Rightarrow> time_sync_source \<Rightarrow> bool" where
  "source_less a b \<longleftrightarrow>
     tss_priority a < tss_priority b \<or> (tss_priority a = tss_priority b \<and> tss_sender a < tss_sender b)"

fun min_source :: "time_sync_source list \<Rightarrow> time_sync_source option" where
  "min_source [] = None"
| "min_source (s # ss) =
     Some (foldl (\<lambda>best s. if source_less s best then s else best) s ss)"

definition active_sources :: "time_sync_tracker \<Rightarrow> u64 \<Rightarrow> time_sync_source list" where
  "active_sources t now_ms =
     filter (\<lambda>src. source_is_active src now_ms (tsc_source_timeout_ms (tst_cfg t))) (bt_values (tst_sources t))"

definition best_active_source :: "time_sync_tracker \<Rightarrow> u64 \<Rightarrow> time_sync_source option" where
  "best_active_source t now_ms = min_source (active_sources t now_ms)"

definition reselect_source :: "time_sync_tracker \<Rightarrow> u64 \<Rightarrow> time_sync_update \<times> time_sync_tracker" where
  "reselect_source t now_ms =
     (let prev = tst_current_source t;
          t = t\<lparr>tst_current_source := map_option tss_sender (best_active_source t now_ms)\<rparr>
      in (if tst_current_source t = prev then NoChange else SourceChanged, t))"

definition refresh :: "time_sync_tracker \<Rightarrow> u64 \<Rightarrow> time_sync_update \<times> time_sync_tracker" where
  "refresh t now_ms =
     reselect_source
       (t\<lparr>tst_sources := bt_retain (\<lambda>_ src. source_is_active src now_ms (tsc_source_timeout_ms (tst_cfg t)))
            (tst_sources t)\<rparr>) now_ms"

definition local_candidate_priority :: "time_sync_tracker \<Rightarrow> u64 \<Rightarrow> bool \<Rightarrow> u64 option" where
  "local_candidate_priority t now_ms has_usable_time =
     (case tsc_role (tst_cfg t) of
        Consumer \<Rightarrow>
          if has_usable_time \<and> tsc_consumer_promotion_enabled (tst_cfg t) \<and> best_active_source t now_ms = None
          then Some (tsc_priority (tst_cfg t)) else None
      | Source \<Rightarrow> Some (tsc_priority (tst_cfg t))
      | Auto \<Rightarrow>
          if has_usable_time \<and> best_active_source t now_ms = None
          then Some (tsc_priority (tst_cfg t)) else None)"

definition leader :: "time_sync_tracker \<Rightarrow> u64 \<Rightarrow> bool \<Rightarrow> time_sync_leader option" where
  "leader t now_ms has_usable_time =
     (case (local_candidate_priority t now_ms has_usable_time, best_active_source t now_ms) of
        (Some priority, Some remote) \<Rightarrow>
          if priority < tss_priority remote \<or> (priority = tss_priority remote \<and> tst_local_id t < tss_sender remote)
          then Some (Local priority) else Some (Remote remote)
      | (Some priority, None) \<Rightarrow> Some (Local priority)
      | (None, Some remote) \<Rightarrow> Some (Remote remote)
      | (None, None) \<Rightarrow> None)"

definition local_announce_priority :: "time_sync_tracker \<Rightarrow> u64 \<Rightarrow> bool \<Rightarrow> u64 option" where
  "local_announce_priority t now_ms has_usable_time =
     (case leader t now_ms has_usable_time of
        Some (Local priority) \<Rightarrow>
          Some (if list_ex (\<lambda>src. tss_priority src = priority) (active_sources t now_ms)
                then sat_sub priority 1 else priority)
      | _ \<Rightarrow> None)"

definition should_announce :: "time_sync_tracker \<Rightarrow> u64 \<Rightarrow> bool \<Rightarrow> bool" where
  "should_announce t now_ms has_usable_time \<longleftrightarrow> local_announce_priority t now_ms has_usable_time \<noteq> None"

definition should_serve :: "time_sync_tracker \<Rightarrow> u64 \<Rightarrow> bool \<Rightarrow> bool" where
  "should_serve t now_ms has_usable_time = should_announce t now_ms has_usable_time"

definition handle_announce ::
  "'z config_scheme \<Rightarrow> time_sync_tracker \<Rightarrow> packet \<Rightarrow> u64 \<Rightarrow>
     (time_sync_update \<times> time_sync_tracker) telemetry_result" where
  "handle_announce C t pkt recv_ms =
     andthen (decode_timesync_announce C pkt) (\<lambda>(priority, time_ms).
       if pkt_sender pkt = tst_local_id t then Ok (NoChange, t)
       else
         (let incoming = \<lparr>tss_sender = pkt_sender pkt, tss_priority = priority,
                          tss_last_announce_ms = recv_ms, tss_last_time_ms = time_ms\<rparr>
          in Ok (reselect_source (t\<lparr>tst_sources := bt_insert (pkt_sender pkt) incoming (tst_sources t)\<rparr>) recv_ms)))"

definition is_source_active :: "time_sync_tracker \<Rightarrow> u64 \<Rightarrow> bool" where
  "is_source_active t now_ms =
     (case current_source t of
        Some s \<Rightarrow> source_is_active s now_ms (tsc_source_timeout_ms (tst_cfg t))
      | None \<Rightarrow> False)"

section \<open>The least source\<close>

definition source_key :: "time_sync_source \<Rightarrow> u64 \<times> bytes" where
  "source_key s = (tss_priority s, tss_sender s)"

lemma source_less_key: "source_less a b \<longleftrightarrow> source_key a < source_key b"
  by (auto simp: source_less_def source_key_def less_prod_def)

lemma foldl_min_source:
  "let m = foldl (\<lambda>best s. if source_less s best then s else best) b ss in
     m \<in> insert b (set ss) \<and> source_key m \<le> source_key b \<and> (\<forall>s \<in> set ss. source_key m \<le> source_key s)"
proof (induction ss arbitrary: b)
  case Nil
  then show ?case by simp
next
  case (Cons s ss)
  let ?b = "if source_less s b then s else b"
  have "source_key ?b \<le> source_key s" "source_key ?b \<le> source_key b"
    by (auto simp: source_less_key not_less)
  with Cons [of ?b] show ?case by (auto simp: Let_def split: if_splits intro: order_trans)
qed

lemma min_source_None [simp]: "min_source ss = None \<longleftrightarrow> ss = []"
  by (cases ss) auto

lemma min_source_Some:
  "min_source ss = Some m \<Longrightarrow> m \<in> set ss \<and> (\<forall>s \<in> set ss. source_key m \<le> source_key s)"
  using foldl_min_source [of "hd ss" "tl ss"] by (cases ss) (auto simp: Let_def)

section \<open>The invariant of the tracker\<close>

definition tracker_wf :: "time_sync_tracker \<Rightarrow> bool" where
  "tracker_wf t \<longleftrightarrow>
     bt_wf (tst_sources t) \<and> list_all (\<lambda>(k, s). tss_sender s = k \<and> k \<noteq> tst_local_id t) (tst_sources t)"

lemma tracker_new_wf: "tracker_wf (tracker_new C cfg)"
  by (simp add: tracker_wf_def tracker_new_def)

lemma tracker_wf_reselect: "reselect_source t now = (u, t') \<Longrightarrow> tracker_wf t \<Longrightarrow> tracker_wf t'"
  by (auto simp: tracker_wf_def reselect_source_def Let_def)

lemma tracker_wf_insert:
  "tracker_wf t \<Longrightarrow> k \<noteq> tst_local_id t \<Longrightarrow> tss_sender s = k \<Longrightarrow>
     tracker_wf (t\<lparr>tst_sources := bt_insert k s (tst_sources t)\<rparr>)"
  by (auto simp: tracker_wf_def list_all_iff set_bt_insert bt_wf_insert)

lemma tracker_wf_retain: "tracker_wf t \<Longrightarrow> tracker_wf (t\<lparr>tst_sources := bt_retain f (tst_sources t)\<rparr>)"
  by (auto simp: tracker_wf_def list_all_iff bt_retain_def bt_wf_filter)

lemma refresh_wf: "refresh t now = (u, t') \<Longrightarrow> tracker_wf t \<Longrightarrow> tracker_wf t'"
  unfolding refresh_def by (erule tracker_wf_reselect) (rule tracker_wf_retain)

lemma handle_announce_wf:
  "handle_announce C t pkt now = Ok (u, t') \<Longrightarrow> tracker_wf t \<Longrightarrow> tracker_wf t'"
  by (auto simp: handle_announce_def outcome_simps Let_def split: if_splits)
    (auto elim!: tracker_wf_reselect intro!: tracker_wf_insert)

lemma best_active_source_Some:
  "best_active_source t now = Some m \<Longrightarrow>
     m \<in> set (active_sources t now) \<and> (\<forall>s \<in> set (active_sources t now). source_key m \<le> source_key s)"
  unfolding best_active_source_def by (rule min_source_Some)

lemma reselect_selects:
  "reselect_source t now = (u, t') \<Longrightarrow>
     tst_current_source t' = map_option tss_sender (best_active_source t' now) \<and>
     (u = NoChange \<longleftrightarrow> tst_current_source t' = tst_current_source t) \<and> tst_sources t' = tst_sources t \<and>
     tst_cfg t' = tst_cfg t \<and> tst_local_id t' = tst_local_id t"
  by (auto simp: reselect_source_def Let_def best_active_source_def active_sources_def split: if_splits)

lemma leader_LocalD:
  assumes "leader t now has = Some (Local p)" and "s \<in> set (active_sources t now)"
  shows "p = tsc_priority (tst_cfg t)" "(p, tst_local_id t) < source_key s"
proof -
  have "best_active_source t now \<noteq> None" using assms(2) by (auto simp: best_active_source_def)
  then obtain m where m: "best_active_source t now = Some m" by auto
  then have role: "tsc_role (tst_cfg t) = Source" and p: "p = tsc_priority (tst_cfg t)"
    and less: "(p, tst_local_id t) < source_key m"
    using assms(1)
    by (auto simp: leader_def local_candidate_priority_def source_key_def less_prod_def
        split: time_sync_role.splits option.splits if_splits)
  show "p = tsc_priority (tst_cfg t)" by (rule p)
  show "(p, tst_local_id t) < source_key s"
    using less best_active_source_Some [OF m] assms(2) by (auto intro: less_le_trans)
qed

end
