(* ===== verification/Time_Properties.thy ===== *)
theory Time_Properties
  imports Network_Time_Laws Time_Sync Sample_Env
begin

text \<open>The promises of the time synchronization module, each with an instance.\<close>

section \<open>Calendar and Unix time\<close>

text \<open>
  Every day number from 1970 on is converted to a date of the Gregorian calendar: a month from 1
  to 12 and a day that exists in that month of that year.
\<close>

theorem civil_from_days_is_a_date:
  assumes "0 \<le> z" and "z < 2 ^ 38" and "civil_from_days z = (y, m, d)"
  shows "1 \<le> m \<and> m \<le> 12 \<and> 1 \<le> d \<and> d \<le> days_in_month y m"
  using civil_from_days_valid [OF assms] by simp

theorem civil_from_days_is_a_date_witness:
  "civil_from_days 19782 = (2024, 2, 29) \<and> (29 :: int) \<le> days_in_month 2024 2"
proof -
  have "civil_from_days 19782 = (2024, 2, 29)" by code_simp
  with civil_from_days_is_a_date [OF _ _ this] show ?thesis by simp
qed

text \<open>
  A Unix time up to day $2^{31}$ survives the conversion to calendar fields and back, to the
  nanosecond.
\<close>

theorem unix_time_roundtrip:
  assumes "0 \<le> ns" and "ns < 2 ^ 31 * 86400 * 1000000000"
  shows "Option.bind (from_unix_ns ns) as_unix_ns = Some ns"
  using unix_ns_roundtrip [OF assms] by auto

theorem unix_time_roundtrip_witness:
  "Option.bind (from_unix_ns 1700000000123456789) as_unix_ns = Some 1700000000123456789"
  by (rule unix_time_roundtrip) simp_all

text \<open>
  From day $2^{31}$ on, well within the range of the millisecond timestamps the protocol carries,
  the 32-bit day arithmetic wraps: the calendar time the library computed has no Unix milliseconds.
\<close>

theorem unix_time_wraps_beyond_i32_days:
  "\<exists>t. from_unix_ns (2 ^ 31 * 86400 * 1000000000) = Some t \<and> as_unix_ms t = None"
proof -
  have wrap: "i32 2147483648 = - 2147483648" by (simp add: i32_def signed_take_bit_eq_take_bit_minus)
  have "\<exists>t. from_unix_ns (2 ^ 31 * 86400 * 1000000000) = Some t \<and>
      as_unix_ns t = Some (i32 (2 ^ 31 * 86400 * 1000000000 div 86400000000000) * 86400000000000 +
        2 ^ 31 * 86400 * 1000000000 mod 86400000000000)"
    by (rule from_unix_ns_fields) simp_all
  then show ?thesis by (auto simp: wrap as_unix_ms_def unix_ns_to_ms_def)
qed

section \<open>The slewed clock\<close>

definition sample_clock :: slewed_network_clock where
  "sample_clock =
     \<lparr>sc_anchor_mono_ns = 0, sc_anchor_unix_ns = 1000000000, sc_pending_adjust_ns = 5000000,
      sc_max_slew_ppm = 50000, sc_initialized = True\<rparr>"

lemma sample_clock_ok: "slewed_ok sample_clock"
  by (simp add: slewed_ok_def sample_clock_def)

text \<open>
  The slewed clock never runs backwards, and between two readings it deviates from the elapsed
  monotonic time by at most the configured rate (and one nanosecond of rounding).
\<close>

theorem slewed_clock_rate:
  assumes "slewed_ok c" and "sc_anchor_mono_ns c \<le> now" and "now \<le> now'"
    and "read_unix_ns c now = Some r" and "read_unix_ns c now' = Some r'"
  shows "r \<le> r' \<and>
    \<bar>(r' - r) - (uint now' - uint now)\<bar> \<le> (uint now' - uint now) * uint (sc_max_slew_ppm c) div 1000000 + 1"
  using slewed_rate [OF assms(1,3,4,5)] assms(2) by simp

theorem slewed_clock_rate_witness:
  "\<exists>r r'. read_unix_ns sample_clock 1000000 = Some r \<and> read_unix_ns sample_clock 2000000 = Some r' \<and>
     r \<le> r' \<and> \<bar>(r' - r) - 1000000\<bar> \<le> 50001"
proof -
  obtain r r' where r: "read_unix_ns sample_clock 1000000 = Some r" and r': "read_unix_ns sample_clock 2000000 = Some r'"
    using read_unix_ns_exact [OF sample_clock_ok] by blast
  have "sc_anchor_mono_ns sample_clock = 0" "sc_max_slew_ppm sample_clock = 50000" by (simp_all add: sample_clock_def)
  with slewed_clock_rate [OF sample_clock_ok _ _ r r'] show ?thesis using r r' by (simp add: word_le_def)
qed

text \<open>
  Steering does not step the clock: the reading at the moment of the correction is the one from
  before it.
\<close>

theorem steering_is_continuous:
  assumes "slewed_ok c" and "read_unix_ns c now = Some r" and "\<bar>r\<bar> \<le> 2 ^ 98" and "\<bar>sc_pending_adjust_ns c\<bar> \<le> 2 ^ 98"
  shows "read_unix_ns (steer_unix_ms c now target) now = Some r"
  using steer_continuous(2) [OF assms] .

theorem steering_is_continuous_witness:
  "read_unix_ns (steer_unix_ms sample_clock 1000000 2000) 1000000 = Some 1001050000"
  by (rule steering_is_continuous [OF sample_clock_ok])
    (simp_all add: read_unix_ns_exact [OF sample_clock_ok] elapsed_diff slew_limit_def clip_def,
      simp_all add: sample_clock_def)

text \<open>
  Once the slew rate has let the correction through, a clock steered to a target reads the target
  plus the elapsed time plus whatever adjustment was still pending when it was steered: the pending
  part is counted twice, because the distance from the current reading to the target contains it
  already.
\<close>

theorem steering_counts_pending_twice:
  fixes now later :: u64
  assumes "slewed_ok c" and "read_unix_ns c now = Some r" and "\<bar>r\<bar> \<le> 2 ^ 98" and "\<bar>sc_pending_adjust_ns c\<bar> \<le> 2 ^ 98"
    and "now \<le> later"
    and "\<bar>sc_pending_adjust_ns (steer_unix_ms c now target)\<bar> \<le>
      (uint later - uint now) * uint (sc_max_slew_ppm c) div 1000000"
  shows "read_unix_ns (steer_unix_ms c now target) later =
    Some (uint target * 1000000 + (uint later - uint now) + (sc_pending_adjust_ns c - applied_adjust_ns c now))"
proof -
  let ?c = "steer_unix_ms c now target"
  obtain l where st: "?c = c\<lparr>sc_anchor_mono_ns := now, sc_anchor_unix_ns := r,
      sc_pending_adjust_ns := l + (uint target * 1000000 - r), sc_initialized := True\<rparr>"
    and l: "l = sc_pending_adjust_ns c - applied_adjust_ns c now"
    using steer_exact [OF assms(1), of now target] assms(2) by auto
  have e: "elapsed_ns ?c later = uint later - uint now"
    using assms(5) by (simp add: elapsed_diff st word_le_def)
  have "\<bar>sc_pending_adjust_ns ?c\<bar> \<le> slew_limit ?c (elapsed_ns ?c later)"
    using assms(6) unfolding e by (simp add: slew_limit_def st)
  from settled_reading [OF steer_continuous(1) [OF assms(1-4)] this]
  show ?thesis unfolding e by (simp add: st l)
qed

theorem steering_counts_pending_twice_witness:
  "read_unix_ns (steer_unix_ms sample_clock 1000000 1006) 1000000000 = Some (1006000000 + 999000000 + 4950000)"
proof -
  have exact: "read_unix_ns sample_clock 1000000 = Some 1001050000"
    by (simp add: read_unix_ns_exact [OF sample_clock_ok] elapsed_diff slew_limit_def clip_def)
      (simp add: sample_clock_def)
  have applied: "applied_adjust_ns sample_clock 1000000 = 50000"
    by (simp add: applied_adjust_clip [OF sample_clock_ok] elapsed_diff slew_limit_def clip_def)
      (simp add: sample_clock_def)
  have pending: "sc_pending_adjust_ns sample_clock = 5000000" "sc_max_slew_ppm sample_clock = 50000"
    by (simp_all add: sample_clock_def)
  have new: "sc_pending_adjust_ns (steer_unix_ms sample_clock 1000000 1006) = 9900000"
    using steer_exact [OF sample_clock_ok, of 1000000 1006] by (auto simp: exact applied pending)
  show ?thesis
    using steering_counts_pending_twice [OF sample_clock_ok exact, of 1000000000 1006]
    by (simp add: pending applied new)
qed

section \<open>Sources\<close>

text \<open>
  The source chosen for a field is one that has it, with the least priority number and, among
  those, the least name; one is chosen as soon as some source has the field.
\<close>

theorem best_source_is_least:
  assumes "(name, src) \<in> set sources" and "has src"
  shows "\<exists>best best_src. best_source has sources = Some (best, best_src) \<and>
    (best, best_src) \<in> set sources \<and> has best_src \<and>
    (ns_priority best_src, best) \<le> (ns_priority src, name)"
proof -
  from assms best_source_None [of has sources] obtain y where y: "best_source has sources = Some y"
    by (cases "best_source has sources") auto
  with assms best_source_Some [of has sources] show ?thesis by (cases y) (force simp: better_def)
qed

definition gps_source :: "u64 \<Rightarrow> network_time_source_state" where
  "gps_source p =
     \<lparr>ns_priority = p, ns_updated_mono_ms = 5, ns_anchor_mono_ns = 5000000, ns_ttl_ms = None,
      ns_time = partial_from_unix_ms 1700000000000\<rparr>"

theorem best_source_is_least_witness:
  "\<exists>best best_src. best_source (\<lambda>_. True) [(str ''A'', gps_source 9), (str ''B'', gps_source 3)] = Some (best, best_src) \<and>
     (ns_priority best_src, best) \<le> (3, str ''B'')"
  using best_source_is_least [of "str ''B''" "gps_source 3"
      "[(str ''A'', gps_source 9), (str ''B'', gps_source 3)]" "\<lambda>_. True"]
  by (auto simp: gps_source_def)

section \<open>The exchange\<close>

text \<open>
  When the two directions take the same time, the four timestamps give the offset between the
  clocks and the round trip exactly.
\<close>

theorem symmetric_exchange_exact:
  fixes t1 t2 t3 t4 :: u64
  assumes "uint t2 = uint t1 + offset + delay" and "uint t2 \<le> uint t3" and "uint t4 = uint t3 - offset + delay"
    and "0 \<le> delay" and "delay < 2 ^ 62"
  shows "compute_offset_delay t1 t2 t3 t4 = \<lparr>sample_offset_ms = i64 offset, sample_delay_ms = word_of_int (2 * delay)\<rparr>"
proof -
  have "(uint t2 - uint t1) + (uint t3 - uint t4) = 2 * offset" using assms by simp
  moreover have "tdiv (2 * offset) 2 = offset" unfolding tdiv_def by (simp add: minus_mult_right del: minus_mult_right [symmetric])
  moreover have "(uint t4 - uint t1) - (uint t3 - uint t2) = 2 * delay" using assms by simp
  ultimately show ?thesis using assms(4) by (simp add: compute_offset_delay_def Let_def)
qed

theorem symmetric_exchange_exact_witness:
  "compute_offset_delay 1000 5010 5015 1025 = \<lparr>sample_offset_ms = i64 4000, sample_delay_ms = 20\<rparr>"
  using symmetric_exchange_exact [of 5010 1000 4000 10 5015 1025] by simp

text \<open>C30. Announcements, requests and responses are decoded to the values they were built from.\<close>

theorem timesync_packets_roundtrip:
  assumes "max_stack_payload C \<le> 255"
  shows "andthen (build_timesync_announce C p t) (decode_timesync_announce C) = Ok (p, t) \<and>
    andthen (build_timesync_announce_with_sender C s p t) (decode_timesync_announce C) = Ok (p, t) \<and>
    andthen (build_timesync_request C n t1) (decode_timesync_request C) = Ok (n, t1) \<and>
    andthen (build_timesync_response C n t1 t2 t3) (decode_timesync_response C) = Ok (n, t1, t2, t3)"
proof -
  have built: "\<exists>pkt. packet_new C ty eps s ts (concat (map (to_le_bytes 8) vs)) = Ok pkt \<and> pkt_ty pkt = ty \<and>
      data_as_u64 C pkt = Ok vs"
    if "mm_element (get_message_meta C ty) = Static (length vs) UInt64 Data" and "eps \<noteq> []" and "length vs \<le> 4"
    for ty eps s ts and vs :: "u64 list"
  proof -
    note fits = that
    have "payload_fits C ty (concat (map (to_le_bytes 8) vs))"
      using fits by (simp add: payload_fits_def usize_limit_def)
    then obtain pkt where pkt: "packet_new C ty eps s ts (concat (map (to_le_bytes 8) vs)) = Ok pkt"
      using packet_new_total [OF assms fits(2)] by blast
    have "get_data_type C ty = UInt64" using fits(1) by (simp add: get_data_type_def)
    then show ?thesis
      using pkt packet_new_fields [OF pkt] as_le_bytes_encoded [of pkt 8 vs C UInt64] by (auto simp: data_as_u64_def)
  qed
  have slice: "from_u64_slice C ty vs eps ts = packet_new C ty eps (device_identifier C) ts (concat (map (to_le_bytes 8) vs))"
    if "mm_element (get_message_meta C ty) = Static (length vs) UInt64 Data" and "length vs \<le> 4"
    for ty eps ts and vs :: "u64 list"
    using that by (simp add: from_u64_slice_def from_prim_le_slice_def from_prim_le_slice_with_sender_def
        get_data_type_def usize_limit_def Let_def)
  show ?thesis
    using built [of TimeSyncAnnounce "[p, t]" "[TimeSync]" "device_identifier C" t]
      built [of TimeSyncAnnounce "[p, t]" "[TimeSync]" s t]
      built [of TimeSyncRequest "[n, t1]" "[TimeSync]" "device_identifier C" t1]
      built [of TimeSyncResponse "[n, t1, t2, t3]" "[TimeSync]" "device_identifier C" t3]
    by (auto simp: build_timesync_announce_def build_timesync_announce_with_sender_def build_timesync_request_def
        build_timesync_response_def decode_timesync_announce_def decode_timesync_request_def
        decode_timesync_response_def decode_u64_payload_def encode_slice_le_def slice control_meta_def
        simp del: concat.simps)
qed

theorem timesync_packets_roundtrip_witness:
  "andthen (build_timesync_request sample_env 7 1234) (decode_timesync_request sample_env) = Ok (7, 1234)"
  using timesync_packets_roundtrip [of sample_env] by (simp add: sample_fields)

section \<open>The tracker\<close>

text \<open>
  After an announcement is handled the tracker follows the least of its active sources, counts no
  source under the local identity, and reports a change exactly when the followed source is another.
\<close>

theorem handle_announce_follows_best:
  assumes "tracker_wf t" and "handle_announce C t pkt now = Ok (u, t')" and "pkt_sender pkt \<noteq> tst_local_id t"
  shows "tracker_wf t' \<and> (u = NoChange \<longleftrightarrow> tst_current_source t' = tst_current_source t) \<and>
    tst_current_source t' = map_option tss_sender (best_active_source t' now) \<and>
    (\<exists>s. bt_get (tst_sources t') (pkt_sender pkt) = Some s \<and> tss_last_announce_ms s = now)"
proof -
  obtain p tm where sel: "reselect_source (t\<lparr>tst_sources := bt_insert (pkt_sender pkt)
      \<lparr>tss_sender = pkt_sender pkt, tss_priority = p, tss_last_announce_ms = now, tss_last_time_ms = tm\<rparr>
      (tst_sources t)\<rparr>) now = (u, t')"
    using assms(2,3) by (auto simp: handle_announce_def outcome_simps Let_def)
  have "bt_wf (tst_sources t)" using assms(1) by (simp add: tracker_wf_def)
  then show ?thesis
    using reselect_selects [OF sel] handle_announce_wf [OF assms(2,1)] by (auto simp: bt.get_insert)
qed

text \<open>A tracker that has heard one remote source, and the packet it heard.\<close>

definition announce_packet :: packet where
  "announce_packet =
     \<lparr>pkt_ty = TimeSyncAnnounce, pkt_data_size = 16, pkt_sender = str ''GPS'', pkt_endpoints = [TimeSync],
      pkt_timestamp = 9, pkt_payload = Inline 16 (map Some ([50, 0, 0, 0, 0, 0, 0, 0, 9, 0, 0, 0, 0, 0, 0, 0]) @ replicate 48 None)\<rparr>"

lemma announce_decodes: "decode_timesync_announce sample_env announce_packet = Ok (50, 9)"
proof -
  have "payload announce_packet = concat (map (to_le_bytes 8) [50, 9 :: u64])"
    unfolding announce_packet_def payload_def by code_simp
  then have "data_as_u64 sample_env announce_packet = Ok [50, 9]"
    unfolding data_as_u64_def
    by (rule as_le_bytes_encoded) (simp_all add: announce_packet_def get_data_type_def control_meta_def)
  then show ?thesis
    by (simp add: decode_timesync_announce_def decode_u64_payload_def announce_packet_def)
qed

lemma announce_handled:
  "\<exists>u t'. handle_announce sample_env (tracker_new sample_env time_sync_config_default) announce_packet 100 = Ok (u, t')"
  by (simp add: handle_announce_def announce_decodes Let_def)

theorem handle_announce_follows_best_witness:
  "\<exists>u t'. handle_announce sample_env (tracker_new sample_env time_sync_config_default) announce_packet 100 = Ok (u, t') \<and>
     tracker_wf t' \<and> tst_current_source t' = map_option tss_sender (best_active_source t' 100)"
proof -
  obtain u t' where ok:
    "handle_announce sample_env (tracker_new sample_env time_sync_config_default) announce_packet 100 = Ok (u, t')"
    using announce_handled by blast
  have "pkt_sender announce_packet \<noteq> tst_local_id (tracker_new sample_env time_sync_config_default)"
    by (simp add: announce_packet_def tracker_new_def sample_defs str_def)
  from handle_announce_follows_best [OF tracker_new_wf ok this] show ?thesis using ok by blast
qed

text \<open>
  C28. Two nodes that each hold the other's announcement as active never both announce themselves as
  the time source, whatever their roles: election by priority and identity is exclusive.
\<close>

theorem never_two_leaders:
  assumes "tst_local_id a \<noteq> tst_local_id b"
    and "sb \<in> set (active_sources a now)" and "tss_sender sb = tst_local_id b" and "tss_priority sb \<le> tsc_priority (tst_cfg b)"
    and "sa \<in> set (active_sources b now')" and "tss_sender sa = tst_local_id a" and "tss_priority sa \<le> tsc_priority (tst_cfg a)"
  shows "\<not> (should_announce a now has_time \<and> should_announce b now' has_time')"
proof
  assume "should_announce a now has_time \<and> should_announce b now' has_time'"
  then obtain p q where p: "leader a now has_time = Some (Local p)" and q: "leader b now' has_time' = Some (Local q)"
    by (auto simp: should_announce_def local_announce_priority_def split: option.splits time_sync_leader.splits)
  have "(p, tst_local_id a) < (tsc_priority (tst_cfg b), tst_local_id b)"
    using leader_LocalD(2) [OF p assms(2)] assms(3,4) by (auto simp: source_key_def less_prod_def)
  moreover have "(q, tst_local_id b) < (tsc_priority (tst_cfg a), tst_local_id a)"
    using leader_LocalD(2) [OF q assms(5)] assms(6,7) by (auto simp: source_key_def less_prod_def)
  ultimately show False
    using leader_LocalD(1) [OF p assms(2)] leader_LocalD(1) [OF q assms(5)] by (auto simp: less_prod_def)
qed

definition tracker_of :: "bytes \<Rightarrow> time_sync_source \<Rightarrow> time_sync_tracker" where
  "tracker_of name src =
     \<lparr>tst_cfg = time_sync_config_default\<lparr>tsc_role := Source\<rparr>, tst_local_id = name,
      tst_sources = [(tss_sender src, src)], tst_current_source = Some (tss_sender src)\<rparr>"

definition source_of :: "bytes \<Rightarrow> time_sync_source" where
  "source_of name = \<lparr>tss_sender = name, tss_priority = 100, tss_last_announce_ms = 10, tss_last_time_ms = 0\<rparr>"

theorem never_two_leaders_witness:
  "\<not> (should_announce (tracker_of (str ''A'') (source_of (str ''B''))) 20 True \<and>
      should_announce (tracker_of (str ''B'') (source_of (str ''A''))) 20 True)"
  by (rule never_two_leaders [where sa = "source_of (str ''A'')" and sb = "source_of (str ''B'')"])
    (simp_all add: tracker_of_def source_of_def active_sources_def bt_values_def source_is_active_def
      time_sync_config_default_def sat_sub_def str_def)

end
