(* ===== verification/Discovery.thy ===== *)
theory Discovery
  imports Wire_Codec BTree_Map Time_Sync
begin

text \<open>
  \<open>src/discovery.rs\<close>: the announce cadence, the board topology lists with their normal form and
  merge, and the three discovery payloads. A decoder's local \<open>cursor\<close> into \<open>payload\<close> is the
  \<open>byte_reader\<close> of the wire format, so the field contract of \<open>Wire_Codec\<close> applies to
  these payloads too. \<open>Vec::with_capacity\<close> on a count read from the payload only reserves memory
  and has no counterpart.
\<close>

section \<open>Cadence\<close>

definition DISCOVERY_ROUTE_TTL_MS :: u64 where "DISCOVERY_ROUTE_TTL_MS = 30000"
definition DISCOVERY_FAST_INTERVAL_MS :: u64 where "DISCOVERY_FAST_INTERVAL_MS = 250"
definition DISCOVERY_SLOW_INTERVAL_MS :: u64 where "DISCOVERY_SLOW_INTERVAL_MS = 5000"

lemmas discovery_constants = DISCOVERY_ROUTE_TTL_MS_def DISCOVERY_FAST_INTERVAL_MS_def DISCOVERY_SLOW_INTERVAL_MS_def

record discovery_cadence_state =
  current_interval_ms :: u64
  next_announce_ms :: u64

definition cadence_default :: discovery_cadence_state where
  "cadence_default = \<lparr>current_interval_ms = DISCOVERY_FAST_INTERVAL_MS, next_announce_ms = 0\<rparr>"

definition on_topology_change :: "u64 \<Rightarrow> discovery_cadence_state \<Rightarrow> discovery_cadence_state" where
  "on_topology_change now_ms c =
     c\<lparr>current_interval_ms := DISCOVERY_FAST_INTERVAL_MS, next_announce_ms := now_ms\<rparr>"

definition on_announce_sent :: "u64 \<Rightarrow> discovery_cadence_state \<Rightarrow> discovery_cadence_state" where
  "on_announce_sent now_ms c =
     c\<lparr>next_announce_ms := sat_add now_ms (current_interval_ms c),
       current_interval_ms := min (sat_mul (current_interval_ms c) 2) DISCOVERY_SLOW_INTERVAL_MS\<rparr>"

definition due :: "discovery_cadence_state \<Rightarrow> u64 \<Rightarrow> bool" where
  "due c now_ms \<longleftrightarrow> now_ms \<ge> next_announce_ms c"

section \<open>Board topology\<close>

record topology_board_node =
  tb_sender_id :: bytes
  tb_reachable_endpoints :: "data_endpoint list"
  tb_reachable_timesync_sources :: "bytes list"
  tb_connections :: "bytes list"

definition is_discovery_endpoint :: "data_endpoint \<Rightarrow> bool" where
  "is_discovery_endpoint ep \<longleftrightarrow> ep = Discovery"

definition is_discovery_type :: "data_type \<Rightarrow> bool" where
  "is_discovery_type ty \<longleftrightarrow> ty \<in> {DiscoveryAnnounce, DiscoveryTimeSyncSources, DiscoveryTopology}"

definition sort_dedup_strings :: "bytes list \<Rightarrow> bytes list" where
  "sort_dedup_strings items = sort_dedup items"

text \<open>\<open>dedup_by\<close> keeps the first of each run of items with the same key.\<close>

fun dedup_by :: "('a \<Rightarrow> 'k) \<Rightarrow> 'a list \<Rightarrow> 'a list" where
  "dedup_by key (x # y # xs) =
     (if key y = key x then dedup_by key (x # xs) else x # dedup_by key (y # xs))"
| "dedup_by key xs = xs"

definition normalize_board :: "topology_board_node \<Rightarrow> topology_board_node" where
  "normalize_board b =
     b\<lparr>tb_reachable_endpoints := sort_dedup (tb_reachable_endpoints b),
       tb_reachable_timesync_sources := sort_dedup_strings (tb_reachable_timesync_sources b),
       tb_connections := sort_dedup_strings (filter (\<lambda>peer. peer \<noteq> tb_sender_id b) (tb_connections b))\<rparr>"

text \<open>
  The order in which \<open>sort_unstable_by\<close> leaves boards of one sender is not specified; the model
  keeps them in list order, and the statements about lists with repeated senders do not depend on it.
\<close>

definition normalize_topology_boards :: "topology_board_node list \<Rightarrow> topology_board_node list" where
  "normalize_topology_boards boards =
     dedup_by tb_sender_id (sort_key tb_sender_id (map normalize_board boards))"

definition merge_board :: "topology_board_node \<Rightarrow> (bytes, topology_board_node) btree \<Rightarrow> (bytes, topology_board_node) btree" where
  "merge_board b merged =
     (let entry = (case bt_get merged (tb_sender_id b) of
            Some e \<Rightarrow> e
          | None \<Rightarrow> \<lparr>tb_sender_id = tb_sender_id b, tb_reachable_endpoints = [],
                      tb_reachable_timesync_sources = [], tb_connections = []\<rparr>)
      in bt_insert (tb_sender_id b)
           (entry\<lparr>tb_reachable_endpoints := tb_reachable_endpoints entry @ tb_reachable_endpoints b,
                  tb_reachable_timesync_sources :=
                    tb_reachable_timesync_sources entry @ tb_reachable_timesync_sources b,
                  tb_connections := tb_connections entry @ tb_connections b\<rparr>) merged)"

definition merge_topology_boards :: "topology_board_node list \<Rightarrow> topology_board_node list \<Rightarrow> topology_board_node list" where
  "merge_topology_boards dst src =
     (let merged = bt_collect (map (\<lambda>b. (tb_sender_id b, b)) dst);
          merged = fold merge_board src merged
      in normalize_topology_boards (bt_values merged))"

definition summarize_topology_boards :: "topology_board_node list \<Rightarrow> data_endpoint list \<times> bytes list" where
  "summarize_topology_boards boards =
     (sort_dedup (concat (map tb_reachable_endpoints boards)),
      sort_dedup_strings (concat (map tb_reachable_timesync_sources boards)))"

section \<open>Announce\<close>

definition build_discovery_announce ::
  "'z config_scheme \<Rightarrow> bytes \<Rightarrow> u64 \<Rightarrow> data_endpoint list \<Rightarrow> packet telemetry_result" where
  "build_discovery_announce C sender timestamp_ms endpoints =
     packet_new C DiscoveryAnnounce [Discovery] sender timestamp_ms
       (encode_slice_le 4 (map (ep_u32 C) endpoints))"

definition decode_discovery_endpoint :: "'z schema_scheme \<Rightarrow> u32 \<Rightarrow> data_endpoint telemetry_result" where
  "decode_discovery_endpoint C raw =
     ok_or (Deserialize ''bad discovery endpoint'') (data_endpoint_try_from_u32 C raw)"

definition decode_discovery_payload :: "'z schema_scheme \<Rightarrow> bytes \<Rightarrow> data_endpoint list telemetry_result" where
  "decode_discovery_payload C pl =
     (if length pl mod 4 \<noteq> 0 then Err (Deserialize ''discovery payload width'')
      else andthen (try_map (\<lambda>chunk. decode_discovery_endpoint C (from_le_bytes chunk)) (chunks_exact 4 pl))
        (\<lambda>eps. Ok (sort_dedup (filter (\<lambda>ep. \<not> is_discovery_endpoint ep) eps))))"

definition decode_discovery_announce :: "'z schema_scheme \<Rightarrow> packet \<Rightarrow> data_endpoint list telemetry_result" where
  "decode_discovery_announce C pkt =
     (if pkt_ty pkt \<noteq> DiscoveryAnnounce then Err InvalidType
      else decode_discovery_payload C (payload pkt))"

section \<open>Length-prefixed fields\<close>

text \<open>\<open>u32::try_from(bytes.len())\<close> with the caller's error, then the bytes.\<close>

definition encode_string :: "string \<Rightarrow> bytes \<Rightarrow> bytes telemetry_result" where
  "encode_string label s =
     (if length s \<ge> 2 ^ 32 then Err (Serialize label)
      else Ok (to_le_bytes 4 (of_nat (length s) :: u32) @ s))"

definition encode_strings :: "string \<Rightarrow> bytes list \<Rightarrow> bytes telemetry_result" where
  "encode_strings label ss =
     andthen (try_map (encode_string label) ss) (\<lambda>bs.
       Ok (to_le_bytes 4 (of_nat (length ss) :: u32) @ concat bs))"

text \<open>The four bytes of a count, a length or an endpoint at the cursor.\<close>

definition decode_word :: "string \<Rightarrow> byte_reader \<Rightarrow> (u32 \<times> byte_reader) telemetry_result" where
  "decode_word label r =
     (if remaining r < 4 then Err (Deserialize label)
      else Ok (from_le_bytes (take 4 (drop (rd_off r) (rd_buf r))), r\<lparr>rd_off := rd_off r + 4\<rparr>))"

definition decode_raw :: "string \<Rightarrow> nat \<Rightarrow> byte_reader \<Rightarrow> (bytes \<times> byte_reader) telemetry_result" where
  "decode_raw label len r =
     (if remaining r < len then Err (Deserialize label)
      else Ok (take len (drop (rd_off r) (rd_buf r)), r\<lparr>rd_off := rd_off r + len\<rparr>))"

definition decode_string_with :: "string \<Rightarrow> string \<Rightarrow> string \<Rightarrow> byte_reader \<Rightarrow> (bytes \<times> byte_reader) telemetry_result" where
  "decode_string_with len_label bytes_label utf8_label r =
     andthen (decode_word len_label r) (\<lambda>(len, r).
     andthen (decode_raw bytes_label (unat len) r) (\<lambda>(raw, r).
       if from_utf8 raw then Ok (raw, r) else Err (Deserialize utf8_label)))"

definition decode_string :: "string \<Rightarrow> byte_reader \<Rightarrow> (bytes \<times> byte_reader) telemetry_result" where
  "decode_string label = decode_string_with label label label"

definition decode_count ::
  "string \<Rightarrow> (byte_reader \<Rightarrow> ('a \<times> byte_reader) telemetry_result) \<Rightarrow> byte_reader \<Rightarrow>
     ('a list \<times> byte_reader) telemetry_result" where
  "decode_count label item r =
     andthen (decode_word label r) (\<lambda>(count, r). read_many item (unat count) r)"

definition finish :: "string \<Rightarrow> 'a \<times> byte_reader \<Rightarrow> 'a telemetry_result" where
  "finish label vr =
     (if rd_off (snd vr) \<noteq> length (rd_buf (snd vr)) then Err (Deserialize label) else Ok (fst vr))"

section \<open>Time sync sources\<close>

definition build_discovery_timesync_sources ::
  "'z config_scheme \<Rightarrow> bytes \<Rightarrow> u64 \<Rightarrow> bytes list \<Rightarrow> packet telemetry_result" where
  "build_discovery_timesync_sources C sender timestamp_ms sources =
     andthen (encode_strings ''discovery source id too long'' (sort_dedup sources)) (\<lambda>pl.
       packet_new C DiscoveryTimeSyncSources [Discovery] sender timestamp_ms pl)"

definition decode_discovery_timesync_sources_payload :: "bytes \<Rightarrow> bytes list telemetry_result" where
  "decode_discovery_timesync_sources_payload pl =
     andthen (decode_count ''discovery timesync source count''
       (decode_string_with ''discovery timesync source len'' ''discovery timesync source bytes''
          ''discovery timesync source utf8'') (reader_new pl)) (\<lambda>vr.
     andthen (finish ''discovery timesync trailing bytes'' vr) (\<lambda>out.
       Ok (sort_dedup (filter (\<lambda>s. s \<noteq> []) out))))"

definition decode_discovery_timesync_sources :: "packet \<Rightarrow> bytes list telemetry_result" where
  "decode_discovery_timesync_sources pkt =
     (if pkt_ty pkt \<noteq> DiscoveryTimeSyncSources then Err InvalidType
      else decode_discovery_timesync_sources_payload (payload pkt))"

section \<open>Topology\<close>

definition encode_board :: "'z schema_scheme \<Rightarrow> topology_board_node \<Rightarrow> bytes telemetry_result" where
  "encode_board C b =
     andthen (encode_string ''discovery topology sender id too long'' (tb_sender_id b)) (\<lambda>sender.
     let eps = to_le_bytes 4 (of_nat (length (tb_reachable_endpoints b)) :: u32) @
               encode_slice_le 4 (map (ep_u32 C) (tb_reachable_endpoints b)) in
     andthen (encode_strings ''discovery topology source id too long'' (tb_reachable_timesync_sources b)) (\<lambda>sources.
     andthen (encode_strings ''discovery topology connection id too long'' (tb_connections b)) (\<lambda>peers.
       Ok (sender @ eps @ sources @ peers))))"

definition build_discovery_topology ::
  "'z config_scheme \<Rightarrow> bytes \<Rightarrow> u64 \<Rightarrow> topology_board_node list \<Rightarrow> packet telemetry_result" where
  "build_discovery_topology C sender timestamp_ms boards =
     (let normalized = normalize_topology_boards boards in
      andthen (try_map (encode_board C) normalized) (\<lambda>bs.
        packet_new C DiscoveryTopology [Discovery] sender timestamp_ms
          (to_le_bytes 4 (of_nat (length normalized) :: u32) @ concat bs)))"

definition decode_topology_endpoint :: "'z schema_scheme \<Rightarrow> byte_reader \<Rightarrow> (data_endpoint \<times> byte_reader) telemetry_result" where
  "decode_topology_endpoint C r =
     andthen (decode_word ''discovery topology endpoint'' r) (\<lambda>(raw, r).
     andthen (decode_discovery_endpoint C raw) (\<lambda>ep. Ok (ep, r)))"

definition decode_board :: "'z schema_scheme \<Rightarrow> byte_reader \<Rightarrow> (topology_board_node \<times> byte_reader) telemetry_result" where
  "decode_board C r =
     andthen (decode_string ''discovery topology sender id'' r) (\<lambda>(sender_id, r).
     andthen (decode_count ''discovery topology endpoint count'' (decode_topology_endpoint C) r) (\<lambda>(eps, r).
     andthen (decode_count ''discovery topology timesync source count''
       (decode_string ''discovery topology timesync source'') r) (\<lambda>(sources, r).
     andthen (decode_count ''discovery topology connection count''
       (decode_string ''discovery topology connection'') r) (\<lambda>(peers, r).
       Ok (\<lparr>tb_sender_id = sender_id,
            tb_reachable_endpoints = filter (\<lambda>ep. \<not> is_discovery_endpoint ep) eps,
            tb_reachable_timesync_sources = filter (\<lambda>s. s \<noteq> []) sources,
            tb_connections = filter (\<lambda>s. s \<noteq> []) peers\<rparr>, r)))))"

definition decode_discovery_topology_payload :: "'z schema_scheme \<Rightarrow> bytes \<Rightarrow> topology_board_node list telemetry_result" where
  "decode_discovery_topology_payload C pl =
     andthen (decode_count ''discovery topology board count'' (decode_board C) (reader_new pl)) (\<lambda>vr.
     andthen (finish ''discovery topology trailing bytes'' vr) (\<lambda>boards.
       Ok (normalize_topology_boards boards)))"

definition decode_discovery_topology :: "'z schema_scheme \<Rightarrow> packet \<Rightarrow> topology_board_node list telemetry_result" where
  "decode_discovery_topology C pkt =
     (if pkt_ty pkt \<noteq> DiscoveryTopology then Err InvalidType
      else decode_discovery_topology_payload C (payload pkt))"

end
