(* ===== verification/Discovery_Laws.thy ===== *)
theory Discovery_Laws
  imports Discovery
begin

text \<open>
  Laws of the discovery module: every payload field is a \<open>field_codec\<close>, counted sequences of
  fields are again one, normalization yields the canonical list of boards, and merging is the
  pointwise union of what the boards report.
\<close>

section \<open>Fields\<close>

definition string_bytes :: "bytes \<Rightarrow> bytes" where
  "string_bytes s = write_u32_le (of_nat (length s)) @ s"

definition string_valid :: "bytes \<Rightarrow> bool" where
  "string_valid s \<longleftrightarrow> from_utf8 s \<and> length s < 2 ^ 32"

definition counted :: "('a \<Rightarrow> bytes) \<Rightarrow> 'a list \<Rightarrow> bytes" where
  "counted enc vs = write_u32_le (of_nat (length vs)) @ concat (map enc vs)"

lemma unat_count: "n < 2 ^ 32 \<Longrightarrow> unat (of_nat n :: u32) = n"
  by (rule unat_of_nat_small) simp

lemma decode_word_at:
  assumes "before r (write_u32_le v @ rest)"
  shows "decode_word label r = Ok (v, advance 4 r)"
proof -
  have "read_bytes 4 r = Ok (write_u32_le v, advance 4 r)"
    using assms by (rule read_bytes_at) (simp add: write_u32_le_def)
  then show ?thesis
    by (auto simp: decode_word_def read_bytes_def write_u32_le_def split: if_splits)
qed

lemma decode_raw_at: "before r (xs @ rest) \<Longrightarrow> length xs = n \<Longrightarrow> decode_raw label n r = Ok (xs, advance n r)"
  using read_bytes_at [of r xs rest n] by (auto simp: decode_raw_def read_bytes_def split: if_splits)

lemma before_word: "before r (write_u32_le v @ rest) \<Longrightarrow> before (advance 4 r) rest"
  using at_advance [of r "write_u32_le v" rest] by (simp add: write_u32_le_def)

interpretation ds: field_codec string_bytes "decode_string_with l1 l2 l3" string_valid
proof
  fix v r rest
  assume v: "string_valid v" and r: "before r (string_bytes v @ rest)"
  let ?n = "of_nat (length v) :: u32"
  have here: "before r (write_u32_le ?n @ (v @ rest))" using r by (simp add: string_bytes_def)
  show "decode_string_with l1 l2 l3 r = Ok (v, advance (length (string_bytes v)) r)"
    using v decode_word_at [OF here] decode_raw_at [OF before_word [OF here] refl]
    by (simp add: decode_string_with_def string_valid_def unat_count string_bytes_def write_u32_le_def)
qed

text \<open>A counted sequence of fields is a field.\<close>

context field_codec
begin

lemma counted_codec:
  "field_codec (counted enc) (decode_count label dec) (\<lambda>vs. list_all valid vs \<and> length vs < 2 ^ 32)"
proof
  fix vs r rest
  assume vs: "list_all valid vs \<and> length vs < 2 ^ 32" and r: "before r (counted enc vs @ rest)"
  have here: "before r (write_u32_le (of_nat (length vs)) @ (concat (map enc vs) @ rest))"
    using r by (simp add: counted_def)
  show "decode_count label dec r = Ok (vs, advance (length (counted enc vs)) r)"
    using vs decode_word_at [OF here] read_many_enc [OF _ before_word [OF here]]
    by (simp add: decode_count_def unat_count counted_def write_u32_le_def)
qed

lemma whole_payload:
  assumes "list_all valid vs" and "length vs < 2 ^ 32"
  shows "andthen (decode_count label dec (reader_new (counted enc vs))) (\<lambda>vr. andthen (finish l2 vr) f) = f vs"
proof -
  have "decode_count label dec (reader_new (counted enc vs)) =
    Ok (vs, advance (length (counted enc vs)) (reader_new (counted enc vs)))"
    using field_codec.dec_enc [OF counted_codec, of vs "reader_new (counted enc vs)" "[]" label] assms by simp
  then show ?thesis by (simp add: finish_def advance_def reader_new_def)
qed

end

interpretation dss: field_codec "counted string_bytes" "decode_count l (decode_string_with l1 l2 l3)"
  "\<lambda>vs. list_all string_valid vs \<and> length vs < 2 ^ 32"
  by (rule ds.counted_codec)

definition endpoint_sendable :: "'z schema_scheme \<Rightarrow> data_endpoint \<Rightarrow> bool" where
  "endpoint_sendable C ep \<longleftrightarrow> valid_endpoint C ep \<and> schema_wf C"

interpretation dep: field_codec "\<lambda>ep. write_u32_le (ep_u32 C ep)" "decode_topology_endpoint C" "endpoint_sendable C"
  for C :: "'z schema_scheme"
proof
  fix v r rest
  assume "endpoint_sendable C v" and r: "before r (write_u32_le (ep_u32 C v) @ rest)"
  then have "data_endpoint_try_from_u32 C (ep_u32 C v) = Some v"
    by (auto simp: endpoint_sendable_def intro: data_endpoint_roundtrip)
  with decode_word_at [OF r] show
    "decode_topology_endpoint C r = Ok (v, advance (length (write_u32_le (ep_u32 C v))) r)"
    by (simp add: decode_topology_endpoint_def decode_discovery_endpoint_def write_u32_le_def)
qed

interpretation deps: field_codec "counted (\<lambda>ep. write_u32_le (ep_u32 C ep))"
  "decode_count l (decode_topology_endpoint C)" "\<lambda>vs. list_all (endpoint_sendable C) vs \<and> length vs < 2 ^ 32"
  for C :: "'z schema_scheme" and l
  by (rule dep.counted_codec)

section \<open>Boards\<close>

definition board_bytes :: "'z schema_scheme \<Rightarrow> topology_board_node \<Rightarrow> bytes" where
  "board_bytes C b =
     string_bytes (tb_sender_id b) @ counted (\<lambda>ep. write_u32_le (ep_u32 C ep)) (tb_reachable_endpoints b) @
     counted string_bytes (tb_reachable_timesync_sources b) @ counted string_bytes (tb_connections b)"

definition board_valid :: "'z schema_scheme \<Rightarrow> topology_board_node \<Rightarrow> bool" where
  "board_valid C b \<longleftrightarrow> string_valid (tb_sender_id b) \<and>
     list_all (\<lambda>ep. endpoint_sendable C ep \<and> ep \<noteq> Discovery) (tb_reachable_endpoints b) \<and>
     length (tb_reachable_endpoints b) < 2 ^ 32 \<and>
     list_all (\<lambda>s. string_valid s \<and> s \<noteq> []) (tb_reachable_timesync_sources b) \<and>
     length (tb_reachable_timesync_sources b) < 2 ^ 32 \<and>
     list_all (\<lambda>s. string_valid s \<and> s \<noteq> []) (tb_connections b) \<and> length (tb_connections b) < 2 ^ 32"

interpretation board: field_codec "board_bytes C" "decode_board C" "board_valid C"
  for C :: "'z schema_scheme"
proof
  fix b r rest
  assume b: "board_valid C b" and r: "before r (board_bytes C b @ rest)"
  let ?e = "counted (\<lambda>ep. write_u32_le (ep_u32 C ep)) (tb_reachable_endpoints b)"
  let ?s = "counted string_bytes (tb_reachable_timesync_sources b)"
  let ?c = "counted string_bytes (tb_connections b)"
  have r0: "before r (string_bytes (tb_sender_id b) @ (?e @ ?s @ ?c @ rest))"
    using r by (simp add: board_bytes_def)
  note r1 = at_advance [OF r0]
  note r2 = at_advance [OF r1]
  note r3 = at_advance [OF r2]
  have keep: "filter (\<lambda>ep. \<not> is_discovery_endpoint ep) (tb_reachable_endpoints b) = tb_reachable_endpoints b"
    "filter (\<lambda>s. s \<noteq> []) (tb_reachable_timesync_sources b) = tb_reachable_timesync_sources b"
    "filter (\<lambda>s. s \<noteq> []) (tb_connections b) = tb_connections b"
    using b by (auto simp: board_valid_def list_all_iff is_discovery_endpoint_def intro!: filter_True)
  have v: "string_valid (tb_sender_id b)"
    "list_all (endpoint_sendable C) (tb_reachable_endpoints b) \<and> length (tb_reachable_endpoints b) < 2 ^ 32"
    "list_all string_valid (tb_reachable_timesync_sources b) \<and> length (tb_reachable_timesync_sources b) < 2 ^ 32"
    "list_all string_valid (tb_connections b) \<and> length (tb_connections b) < 2 ^ 32"
    using b by (auto simp: board_valid_def list_all_iff)
  show "decode_board C r = Ok (b, advance (length (board_bytes C b)) r)"
    unfolding decode_board_def decode_string_def
    using ds.dec_enc [OF v(1) r0] deps.dec_enc [OF v(2) r1] dss.dec_enc [OF v(3) r2] dss.dec_enc [OF v(4) r3]
    by (simp add: keep board_bytes_def add.assoc)
qed

lemma encode_string_Ok: "length s < 2 ^ 32 \<Longrightarrow> encode_string l s = Ok (string_bytes s)"
  by (simp add: encode_string_def string_bytes_def write_u32_le_def)

lemma encode_strings_Ok:
  "list_all (\<lambda>s. length s < 2 ^ 32) ss \<Longrightarrow> encode_strings l ss = Ok (counted string_bytes ss)"
  by (subst encode_strings_def, subst try_map_total [where g = string_bytes])
    (auto simp: encode_string_Ok list_all_iff counted_def write_u32_le_def)

lemma encode_board_Ok:
  assumes "board_valid C b"
  shows "encode_board C b = Ok (board_bytes C b)"
proof -
  have "list_all (\<lambda>s. length s < 2 ^ 32) (tb_reachable_timesync_sources b)"
    "list_all (\<lambda>s. length s < 2 ^ 32) (tb_connections b)" "length (tb_sender_id b) < 2 ^ 32"
    using assms by (auto simp: board_valid_def string_valid_def list_all_iff)
  then show ?thesis
    by (simp add: encode_board_def encode_string_Ok encode_strings_Ok board_bytes_def counted_def
        encode_slice_le_def write_u32_le_def comp_def Let_def)
qed

section \<open>The normal form\<close>

definition board_normal :: "topology_board_node \<Rightarrow> bool" where
  "board_normal b \<longleftrightarrow> normalize_board b = b"

definition boards_normal :: "topology_board_node list \<Rightarrow> bool" where
  "boards_normal bs \<longleftrightarrow> sorted_wrt (<) (map tb_sender_id bs) \<and> list_all board_normal bs"

lemma normalize_board_simps [simp]:
  "tb_sender_id (normalize_board b) = tb_sender_id b"
  "tb_reachable_endpoints (normalize_board b) = sort_dedup (tb_reachable_endpoints b)"
  "tb_reachable_timesync_sources (normalize_board b) = sort_dedup (tb_reachable_timesync_sources b)"
  "tb_connections (normalize_board b) = sort_dedup (filter (\<lambda>p. p \<noteq> tb_sender_id b) (tb_connections b))"
  by (simp_all add: normalize_board_def sort_dedup_strings_def)

lemma board_eqI:
  "tb_sender_id a = tb_sender_id b \<Longrightarrow> tb_reachable_endpoints a = tb_reachable_endpoints b \<Longrightarrow>
   tb_reachable_timesync_sources a = tb_reachable_timesync_sources b \<Longrightarrow> tb_connections a = tb_connections b \<Longrightarrow>
   a = (b :: topology_board_node)"
  by simp

lemma board_normal_normalize [simp]: "board_normal (normalize_board b)"
proof -
  have "filter (\<lambda>p. p \<noteq> tb_sender_id b) (sort_dedup (filter (\<lambda>p. p \<noteq> tb_sender_id b) (tb_connections b))) =
    sort_dedup (filter (\<lambda>p. p \<noteq> tb_sender_id b) (tb_connections b))"
    by (rule filter_True) auto
  then show ?thesis unfolding board_normal_def by (intro board_eqI) simp_all
qed

lemma set_dedup_by: "set (dedup_by key xs) \<subseteq> set xs"
  by (induction key xs rule: dedup_by.induct) auto

lemma keys_dedup_by: "key ` set (dedup_by key xs) = key ` set xs"
  by (induction key xs rule: dedup_by.induct) auto

lemma length_dedup_by: "length (dedup_by key xs) \<le> length xs"
  by (induction key xs rule: dedup_by.induct) auto

lemma sorted_dedup_by:
  "sorted (map key xs) \<Longrightarrow> sorted_wrt (<) (map key (dedup_by key xs))"
proof (induction key xs rule: dedup_by.induct)
  case (1 key x y xs)
  show ?case
  proof (cases "key y = key x")
    case True
    then show ?thesis using 1 by simp
  next
    case False
    have "key x < z" if "z \<in> key ` set (dedup_by key (y # xs))" for z
      using that False "1.prems" unfolding keys_dedup_by by force
    then show ?thesis using False 1 by simp
  qed
qed auto

lemma dedup_by_id: "sorted_wrt (<) (map key xs) \<Longrightarrow> dedup_by key xs = (xs :: 'a list)"
  for key :: "'a \<Rightarrow> 'k::linorder"
  by (induction key xs rule: dedup_by.induct) auto

lemma normalize_boards_normal: "boards_normal (normalize_topology_boards bs)"
proof -
  let ?s = "sort_key tb_sender_id (map normalize_board bs)"
  have "sorted_wrt (<) (map tb_sender_id (dedup_by tb_sender_id ?s))"
    by (rule sorted_dedup_by) simp
  moreover have "board_normal b" if "b \<in> set (dedup_by tb_sender_id ?s)" for b
    using subsetD [OF set_dedup_by that] by auto
  ultimately show ?thesis
    by (simp add: boards_normal_def normalize_topology_boards_def list_all_iff)
qed

lemma normalize_boards_id: "boards_normal bs \<Longrightarrow> normalize_topology_boards bs = bs"
proof -
  assume n: "boards_normal bs"
  then have "map normalize_board bs = bs"
    by (auto simp: boards_normal_def list_all_iff board_normal_def intro: map_idI)
  moreover have "sort_key tb_sender_id bs = bs"
    using n by (auto simp: boards_normal_def strict_sorted_iff intro: sorted_sort_id sort_key_id_if_sorted)
  ultimately show ?thesis
    using n by (simp add: normalize_topology_boards_def boards_normal_def dedup_by_id)
qed

lemma length_normalize: "length (normalize_topology_boards bs) \<le> length bs"
  using length_dedup_by [of tb_sender_id "sort_key tb_sender_id (map normalize_board bs)"]
  by (simp add: normalize_topology_boards_def)

lemma length_sort_dedup: "length (sort_dedup xs) \<le> length xs"
  by (simp add: sort_dedup_def) (metis length_sort remdups_adj_length)

lemma board_valid_normalize: "board_valid C b \<Longrightarrow> board_valid C (normalize_board b)"
  using length_sort_dedup [of "tb_reachable_endpoints b"] length_sort_dedup [of "tb_reachable_timesync_sources b"]
    order_trans [OF length_sort_dedup [of "filter (\<lambda>p. p \<noteq> tb_sender_id b) (tb_connections b)"] length_filter_le]
  by (auto simp: board_valid_def list_all_iff)

lemma boards_valid_normalize:
  "list_all (board_valid C) bs \<Longrightarrow> list_all (board_valid C) (normalize_topology_boards bs)"
  using set_dedup_by [of tb_sender_id "sort_key tb_sender_id (map normalize_board bs)"]
  by (auto simp: normalize_topology_boards_def list_all_iff board_valid_normalize)

section \<open>What a list of boards reports\<close>

text \<open>
  The abstract topology: which boards are known, and for each of them the endpoints, time sources and
  peers it reports, a board never being its own peer.
\<close>

record topology =
  boards_known :: "bytes set"
  endpoints_at :: "(bytes \<times> data_endpoint) set"
  sources_at :: "(bytes \<times> bytes) set"
  links :: "(bytes \<times> bytes) set"

definition gather :: "(topology_board_node \<Rightarrow> 'a list) \<Rightarrow> topology_board_node list \<Rightarrow> (bytes \<times> 'a) set" where
  "gather f bs = (\<Union>b \<in> set bs. {tb_sender_id b} \<times> set (f b))"

definition view :: "topology_board_node list \<Rightarrow> topology" where
  "view bs =
     \<lparr>boards_known = tb_sender_id ` set bs, endpoints_at = gather tb_reachable_endpoints bs,
      sources_at = gather tb_reachable_timesync_sources bs,
      links = {(a, b) \<in> gather tb_connections bs. a \<noteq> b}\<rparr>"

definition join :: "topology \<Rightarrow> topology \<Rightarrow> topology" where
  "join s t =
     \<lparr>boards_known = boards_known s \<union> boards_known t, endpoints_at = endpoints_at s \<union> endpoints_at t,
      sources_at = sources_at s \<union> sources_at t, links = links s \<union> links t\<rparr>"

lemma gather_Un: "set cs = set as \<union> set bs \<Longrightarrow> gather f cs = gather f as \<union> gather f bs"
  by (auto simp: gather_def)

lemma view_join: "set cs = set as \<union> set bs \<Longrightarrow> view cs = join (view as) (view bs)"
  by (auto simp: view_def join_def gather_Un image_Un)

lemma view_cong: "set as = set bs \<Longrightarrow> view as = view bs"
  by (simp add: view_def gather_def)

lemma join_commute: "join s t = join t s"
  by (simp add: join_def Un_commute)

lemma join_assoc: "join (join s t) u = join s (join t u)"
  by (simp add: join_def Un_assoc)

lemma join_idem [simp]: "join s s = s"
  by (simp add: join_def)

lemma view_normalize_board: "view (map normalize_board bs) = view bs"
  by (auto simp: view_def gather_def image_image)

lemma distinct_dedup_by:
  "sorted (map key xs) \<Longrightarrow> distinct (map key xs) \<Longrightarrow> dedup_by key xs = (xs :: 'a list)"
  for key :: "'a \<Rightarrow> 'k::linorder"
  by (rule dedup_by_id) (simp add: strict_sorted_iff)

lemma distinct_map_sort_key: "distinct (map k (sort_key k xs)) \<longleftrightarrow> distinct (map k xs)"
  by (simp add: distinct_map)

lemma view_normalize:
  assumes "distinct (map tb_sender_id bs)"
  shows "view (normalize_topology_boards bs) = view bs"
proof -
  let ?n = "map normalize_board bs"
  have "distinct (map tb_sender_id ?n)" using assms by (simp add: comp_def)
  then have "distinct (map tb_sender_id (sort_key tb_sender_id ?n))"
    by (simp only: distinct_map_sort_key)
  then have "dedup_by tb_sender_id (sort_key tb_sender_id ?n) = sort_key tb_sender_id ?n"
    by (intro distinct_dedup_by) auto
  then show ?thesis
    using view_normalize_board [of bs] view_cong [of "sort_key tb_sender_id ?n" ?n]
    by (simp add: normalize_topology_boards_def)
qed

subsection \<open>Merging\<close>

definition keyed :: "(bytes, topology_board_node) btree \<Rightarrow> bool" where
  "keyed m \<longleftrightarrow> bt_wf m \<and> (\<forall>(k, v) \<in> set m. tb_sender_id v = k)"

lemma keyed_senders: "keyed m \<Longrightarrow> map tb_sender_id (bt_values m) = map fst m"
  by (auto simp: keyed_def bt_values_def)

lemma keyed_distinct: "keyed m \<Longrightarrow> distinct (map tb_sender_id (bt_values m))"
  unfolding keyed_senders by (simp add: keyed_def bt_wf_distinct)

lemma keyed_insert: "keyed m \<Longrightarrow> tb_sender_id v = k \<Longrightarrow> keyed (bt_insert k v m)"
  by (auto simp: keyed_def bt_wf_insert set_bt_insert)

lemma collect_keyed:
  "keyed m \<Longrightarrow> distinct (map tb_sender_id bs) \<Longrightarrow> tb_sender_id ` set bs \<inter> fst ` set m = {} \<Longrightarrow>
   keyed (fold (\<lambda>(k, v). bt_insert k v) (map (\<lambda>b. (tb_sender_id b, b)) bs) m) \<and>
   set (bt_values (fold (\<lambda>(k, v). bt_insert k v) (map (\<lambda>b. (tb_sender_id b, b)) bs) m)) = set bs \<union> set (bt_values m)"
proof (induction bs arbitrary: m)
  case Nil
  then show ?case by simp
next
  case (Cons b bs)
  let ?m = "bt_insert (tb_sender_id b) b m"
  have wf: "bt_wf m" using Cons.prems(1) by (simp add: keyed_def)
  have k: "keyed ?m" using Cons.prems(1) by (rule keyed_insert) simp
  have new: "set ?m = insert (tb_sender_id b, b) (set m)"
    using Cons.prems(3) by (force simp: set_bt_insert [OF wf])
  have "tb_sender_id ` set bs \<inter> fst ` set ?m = {}" using Cons.prems by (auto simp: new)
  from Cons.IH [OF k _ this] Cons.prems(2) show ?case by (auto simp: bt_values_def new)
qed

lemma bt_collect_boards:
  assumes "distinct (map tb_sender_id bs)"
  shows "keyed (bt_collect (map (\<lambda>b. (tb_sender_id b, b)) bs))"
    and "set (bt_values (bt_collect (map (\<lambda>b. (tb_sender_id b, b)) bs))) = set bs"
  using collect_keyed [of "[]" bs] assms by (auto simp: bt_collect_def keyed_def bt_values_def)

lemma merge_board_keyed: "keyed m \<Longrightarrow> keyed (merge_board b m)"
  by (auto simp: merge_board_def Let_def split: option.splits intro!: keyed_insert)
    (auto simp: keyed_def bt_get_in_set)

lemma board_surjective:
  "\<lparr>tb_sender_id = tb_sender_id b, tb_reachable_endpoints = tb_reachable_endpoints b,
    tb_reachable_timesync_sources = tb_reachable_timesync_sources b, tb_connections = tb_connections b\<rparr> = b"
  by simp

lemma gather_extend:
  assumes "set as = insert e R" and "set cs = insert e' R" and "tb_sender_id e' = tb_sender_id e"
    and "tb_sender_id e = tb_sender_id b" and "set (f e') = set (f e) \<union> set (f b)"
  shows "gather f cs = gather f as \<union> gather f [b]"
  using assms by (auto simp: gather_def)

lemma merge_board_view:
  assumes "keyed m"
  shows "view (bt_values (merge_board b m)) = join (view (bt_values m)) (view [b])"
proof -
  have wf: "bt_wf m" using assms by (simp add: keyed_def)
  have one: "v = e" if "bt_get m k = Some e" and "(k, v) \<in> set m" for k v e
    using that(1) iffD2 [OF bt_get_in_set [OF wf] that(2)] by simp
  have id: "tb_sender_id v = k" if "(k, v) \<in> set m" for k v
    using that assms by (auto simp: keyed_def)
  show ?thesis
  proof (cases "bt_get m (tb_sender_id b)")
    case None
    have "(tb_sender_id b, v) \<notin> set m" for v
      using None bt_get_in_set [OF wf, of "tb_sender_id b" v] by simp
    then have "{p \<in> set m. fst p \<noteq> tb_sender_id b} = set m" by auto
    then have "set (bt_values (merge_board b m)) = insert b (set (bt_values m))"
      by (simp add: merge_board_def None set_bt_insert [OF wf] bt_values_def board_surjective)
    then show ?thesis by (intro view_join) auto
  next
    case (Some e)
    have e: "(tb_sender_id b, e) \<in> set m" using Some by (simp add: bt_get_in_set [OF wf])
    let ?rest = "{p \<in> set m. fst p \<noteq> tb_sender_id b}"
    have split: "set m = insert (tb_sender_id b, e) ?rest"
      using e by (auto dest: one [OF Some])
    have vals: "set (bt_values m) = insert e (snd ` ?rest)"
      unfolding bt_values_def set_map by (subst split) simp
    let ?e = "e\<lparr>tb_reachable_endpoints := tb_reachable_endpoints e @ tb_reachable_endpoints b,
      tb_reachable_timesync_sources := tb_reachable_timesync_sources e @ tb_reachable_timesync_sources b,
      tb_connections := tb_connections e @ tb_connections b\<rparr>"
    have new: "set (bt_values (merge_board b m)) = insert ?e (snd ` ?rest)"
      by (simp add: merge_board_def Some bt_values_def set_bt_insert [OF wf])
    note g = gather_extend [OF vals new _ id [OF e]]
    have "gather tb_connections (bt_values (merge_board b m)) =
      gather tb_connections (bt_values m) \<union> gather tb_connections [b]" by (rule g) simp_all
    moreover have "tb_sender_id ` set (bt_values (merge_board b m)) =
      tb_sender_id ` set (bt_values m) \<union> tb_sender_id ` set [b]"
      unfolding vals new using id [OF e] by simp
    ultimately show ?thesis
      using g [of tb_reachable_endpoints] g [of tb_reachable_timesync_sources]
      by (simp add: view_def join_def) blast
  qed
qed

lemma fold_merge_board:
  "keyed m \<Longrightarrow> keyed (fold merge_board src m) \<and>
     view (bt_values (fold merge_board src m)) = join (view (bt_values m)) (view src)"
proof (induction src arbitrary: m)
  case Nil
  then show ?case by (simp add: view_def join_def gather_def)
next
  case (Cons b src)
  from Cons.IH [OF merge_board_keyed [OF Cons.prems]] show ?case
    by (simp add: merge_board_view [OF Cons.prems] join_assoc view_join [of "b # src" "[b]" src])
qed

lemma merge_view:
  assumes "distinct (map tb_sender_id dst)"
  shows "view (merge_topology_boards dst src) = join (view dst) (view src)"
proof -
  note m = bt_collect_boards [OF assms]
  from fold_merge_board [OF m(1)] view_cong [OF m(2)] show ?thesis
    by (simp add: merge_topology_boards_def Let_def view_normalize keyed_distinct)
qed

lemma merge_normal: "boards_normal (merge_topology_boards dst src)"
  by (simp add: merge_topology_boards_def Let_def normalize_boards_normal)

subsection \<open>The normal form is canonical\<close>

lemma normal_distinct: "boards_normal bs \<Longrightarrow> distinct (map tb_sender_id bs)"
  by (simp add: boards_normal_def strict_sorted_iff)

lemma gather_at:
  "distinct (map tb_sender_id bs) \<Longrightarrow> b \<in> set bs \<Longrightarrow> {x. (tb_sender_id b, x) \<in> gather f bs} = set (f b)"
  by (auto simp: gather_def distinct_map inj_on_def)

lemma board_normalD:
  assumes "board_normal b"
  shows "sorted (tb_reachable_endpoints b)" "distinct (tb_reachable_endpoints b)"
    "sorted (tb_reachable_timesync_sources b)" "distinct (tb_reachable_timesync_sources b)"
    "sorted (tb_connections b)" "distinct (tb_connections b)" "tb_sender_id b \<notin> set (tb_connections b)"
proof -
  have n: "normalize_board b = b" using assms by (simp add: board_normal_def)
  have eqs: "sort_dedup (tb_reachable_endpoints b) = tb_reachable_endpoints b"
    "sort_dedup (tb_reachable_timesync_sources b) = tb_reachable_timesync_sources b"
    "sort_dedup (filter (\<lambda>p. p \<noteq> tb_sender_id b) (tb_connections b)) = tb_connections b"
    using normalize_board_simps [of b] unfolding n by simp_all
  show "sorted (tb_reachable_endpoints b)" "distinct (tb_reachable_endpoints b)"
    by (metis eqs(1) sorted_sort_dedup, metis eqs(1) distinct_sort_dedup)
  show "sorted (tb_reachable_timesync_sources b)" "distinct (tb_reachable_timesync_sources b)"
    by (metis eqs(2) sorted_sort_dedup, metis eqs(2) distinct_sort_dedup)
  show "sorted (tb_connections b)" "distinct (tb_connections b)"
    by (metis eqs(3) sorted_sort_dedup, metis eqs(3) distinct_sort_dedup)
  show "tb_sender_id b \<notin> set (tb_connections b)"
    using set_sort_dedup [of "filter (\<lambda>p. p \<noteq> tb_sender_id b) (tb_connections b)"] unfolding eqs(3) by auto
qed

lemma view_board_eq:
  assumes "boards_normal as" "boards_normal bs" "view as = view bs"
    and "a \<in> set as" "b \<in> set bs" "tb_sender_id a = tb_sender_id b"
  shows "a = b"
proof -
  note d = normal_distinct [OF assms(1)] normal_distinct [OF assms(2)]
  have n: "board_normal a" "board_normal b" using assms by (auto simp: boards_normal_def list_all_iff)
  have v: "gather tb_reachable_endpoints as = gather tb_reachable_endpoints bs"
    "gather tb_reachable_timesync_sources as = gather tb_reachable_timesync_sources bs"
    "{(x, y) \<in> gather tb_connections as. x \<noteq> y} = {(x, y) \<in> gather tb_connections bs. x \<noteq> y}"
    using assms(3) by (simp_all add: view_def)
  have e: "set (tb_reachable_endpoints a) = set (tb_reachable_endpoints b)"
    using gather_at [OF d(1) assms(4), of tb_reachable_endpoints]
      gather_at [OF d(2) assms(5), of tb_reachable_endpoints] v(1) assms(6) by simp
  have s: "set (tb_reachable_timesync_sources a) = set (tb_reachable_timesync_sources b)"
    using gather_at [OF d(1) assms(4), of tb_reachable_timesync_sources]
      gather_at [OF d(2) assms(5), of tb_reachable_timesync_sources] v(2) assms(6) by simp
  have "{y. (tb_sender_id a, y) \<in> gather tb_connections as \<and> tb_sender_id a \<noteq> y} =
    {y. (tb_sender_id a, y) \<in> gather tb_connections bs \<and> tb_sender_id a \<noteq> y}"
    using v(3) by blast
  then have c: "set (tb_connections a) = set (tb_connections b)"
    using gather_at [OF d(1) assms(4), of tb_connections] gather_at [OF d(2) assms(5), of tb_connections]
      board_normalD(7) [OF n(1)] board_normalD(7) [OF n(2)] assms(6) by auto
  note N = board_normalD(1-6) [OF n(1)] board_normalD(1-6) [OF n(2)]
  show ?thesis
    using N e s c assms(6) by (intro board_eqI) (auto intro: sorted_distinct_set_unique)
qed

lemma view_inject:
  assumes "boards_normal as" "boards_normal bs" "view as = view bs"
  shows "as = bs"
proof -
  have ids: "map tb_sender_id as = map tb_sender_id bs"
    using assms by (intro strict_sorted_equal) (auto simp: boards_normal_def view_def)
  then have len: "length as = length bs" by (rule map_eq_imp_length_eq)
  show ?thesis
  proof (rule nth_equalityI [OF len])
    fix i assume i: "i < length as"
    then have "tb_sender_id (as ! i) = tb_sender_id (bs ! i)" using ids len by (metis nth_map)
    then show "as ! i = bs ! i" using i len by (intro view_board_eq [OF assms]) auto
  qed
qed

end
