(* ===== verification/Discovery_Properties.thy ===== *)
theory Discovery_Properties
  imports Discovery_Laws Sample_Env
begin

text \<open>The promises of the discovery module, each with an instance.\<close>

section \<open>Payloads\<close>

lemma control_packet_total:
  assumes "max_stack_payload C \<le> 255" and "payload_fits C ty data"
  obtains p where "packet_new C ty [Discovery] s t data = Ok p" "pkt_ty p = ty" "pkt_sender p = s" "payload p = data"
proof -
  obtain p where "packet_new C ty [Discovery] s t data = Ok p"
    using packet_new_total [OF assms(1) _ assms(2), of "[Discovery]" s t] by auto
  with packet_new_fields [OF this] that show thesis by simp
qed

lemma discovery_payloads_fit [simp]:
  "payload_fits C DiscoveryAnnounce data \<longleftrightarrow> 4 dvd length data"
  "payload_fits C DiscoveryTimeSyncSources data"
  "payload_fits C DiscoveryTopology data"
  by (simp_all add: payload_fits_def control_meta_def)

lemma announce_packet:
  assumes "schema_wf C" and "max_stack_payload C \<le> 255" and "list_all (valid_endpoint C) eps"
  obtains p where "build_discovery_announce C s t eps = Ok p" "pkt_ty p = DiscoveryAnnounce" "pkt_sender p = s"
    "decode_discovery_announce C p = Ok (sort_dedup (filter (\<lambda>ep. ep \<noteq> Discovery) eps))"
proof -
  let ?data = "encode_slice_le 4 (map (ep_u32 C) eps)"
  have words: "?data = concat (map (to_le_bytes 4) (map (ep_u32 C) eps))" by (simp add: encode_slice_le_def)
  have len: "length ?data = 4 * length eps" by (simp add: encode_slice_le_def length_concat comp_def sum_list_triv)
  from len obtain p where p: "packet_new C DiscoveryAnnounce [Discovery] s t ?data = Ok p"
    "pkt_ty p = DiscoveryAnnounce" "pkt_sender p = s" "payload p = ?data"
    using control_packet_total [OF assms(2), of DiscoveryAnnounce ?data s t] by auto
  have "try_map (\<lambda>chunk. decode_discovery_endpoint C (from_le_bytes chunk)) (chunks_exact 4 ?data) = Ok eps"
    unfolding words using assms(1,3)
    by (subst chunks_exact_le_bytes)
      (auto simp: try_map_Ok_iff list_all2_conv_all_nth list_all_iff decode_discovery_endpoint_def
        intro!: data_endpoint_roundtrip)
  with p len have "decode_discovery_announce C p = Ok (sort_dedup (filter (\<lambda>ep. ep \<noteq> Discovery) eps))"
    by (simp add: decode_discovery_announce_def decode_discovery_payload_def is_discovery_endpoint_def)
  with p that show thesis by (simp add: build_discovery_announce_def)
qed

text \<open>
  An announce packet is decoded to the advertised endpoints as a sorted set, without the
  discovery endpoint itself.
\<close>

theorem discovery_announce_roundtrip:
  assumes "schema_wf C" and "max_stack_payload C \<le> 255" and "list_all (valid_endpoint C) eps"
  shows "andthen (build_discovery_announce C s t eps) (decode_discovery_announce C) =
    Ok (sort_dedup (filter (\<lambda>ep. ep \<noteq> Discovery) eps))"
  by (rule announce_packet [OF assms, of s t]) simp

theorem discovery_announce_roundtrip_witness:
  "andthen (build_discovery_announce sample_env (str ''A'') 7 [Discovery, UserEndpoint 1, UserEndpoint 0])
     (decode_discovery_announce sample_env) = Ok [UserEndpoint 0, UserEndpoint 1]"
proof -
  have "sort_dedup [UserEndpoint 1, UserEndpoint 0] = [UserEndpoint 0, UserEndpoint 1]"
    by (simp add: sort_dedup_def insort_key.simps less_eq_data_endpoint_def)
  then show ?thesis
    using discovery_announce_roundtrip [OF sample_schema_wf, of "[Discovery, UserEndpoint 1, UserEndpoint 0]"]
    by (simp add: sample_fields sample_valid)
qed

text \<open>
  The packet that advertises time sources is decoded to the sorted set of their non-empty names.
\<close>

theorem discovery_sources_roundtrip:
  assumes "max_stack_payload C \<le> 255" and "list_all string_valid sources" and "length sources < 2 ^ 32"
  shows "andthen (build_discovery_timesync_sources C s t sources) decode_discovery_timesync_sources =
    Ok (sort_dedup (filter (\<lambda>n. n \<noteq> []) sources))"
proof -
  let ?names = "sort_dedup sources"
  let ?data = "counted string_bytes ?names"
  have v: "list_all string_valid ?names" "length ?names < 2 ^ 32"
    using assms(2,3) length_sort_dedup [of sources] by (auto simp: list_all_iff)
  have "list_all (\<lambda>n. length n < 2 ^ 32) ?names" using v(1) by (auto simp: list_all_iff string_valid_def)
  moreover obtain p where "packet_new C DiscoveryTimeSyncSources [Discovery] s t ?data = Ok p"
    "pkt_ty p = DiscoveryTimeSyncSources" "payload p = ?data"
    using control_packet_total [OF assms(1), of DiscoveryTimeSyncSources ?data s t] by auto
  moreover have "sort_dedup (filter (\<lambda>n. n \<noteq> []) ?names) = sort_dedup (filter (\<lambda>n. n \<noteq> []) sources)"
    by (simp add: sort_dedup_eq_iff)
  ultimately show ?thesis
    using v by (simp add: build_discovery_timesync_sources_def encode_strings_Ok
        decode_discovery_timesync_sources_def decode_discovery_timesync_sources_payload_def ds.whole_payload)
qed

theorem discovery_sources_roundtrip_witness:
  "andthen (build_discovery_timesync_sources sample_env (str ''A'') 7 [str ''B'', [], str ''B''])
     decode_discovery_timesync_sources = Ok [str ''B'']"
proof -
  have "from_utf8 (str ''B'')" "from_utf8 []" by code_simp+
  then have "list_all string_valid [str ''B'', [], str ''B'']" by (simp add: string_valid_def)
  moreover have "str ''B'' \<noteq> []" by code_simp
  ultimately show ?thesis
    using discovery_sources_roundtrip [of sample_env "[str ''B'', [], str ''B'']" "str ''A''" 7]
    by (simp add: sample_fields sort_dedup_def)
qed

lemma topology_packet:
  assumes "max_stack_payload C \<le> 255" and "list_all (board_valid C) boards" and "length boards < 2 ^ 32"
  obtains p where "build_discovery_topology C s t boards = Ok p" "pkt_ty p = DiscoveryTopology" "pkt_sender p = s"
    "decode_discovery_topology C p = Ok (normalize_topology_boards boards)"
proof -
  let ?n = "normalize_topology_boards boards"
  let ?data = "counted (board_bytes C) ?n"
  have v: "list_all (board_valid C) ?n" "length ?n < 2 ^ 32"
    using assms(2,3) length_normalize [of boards] by (auto intro: boards_valid_normalize)
  have enc: "try_map (encode_board C) ?n = Ok (map (board_bytes C) ?n)"
    using v(1) by (intro try_map_total) (simp add: list_all_iff encode_board_Ok)
  obtain p where p: "packet_new C DiscoveryTopology [Discovery] s t ?data = Ok p"
    "pkt_ty p = DiscoveryTopology" "pkt_sender p = s" "payload p = ?data"
    using control_packet_total [OF assms(1), of DiscoveryTopology ?data s t] by auto
  from p v have "decode_discovery_topology C p = Ok ?n"
    using normalize_boards_id [OF normalize_boards_normal]
    by (simp add: decode_discovery_topology_def decode_discovery_topology_payload_def board.whole_payload)
  with p enc that show thesis
    by (simp add: build_discovery_topology_def Let_def counted_def [symmetric] write_u32_le_def [symmetric])
qed

text \<open>
  C34. A topology packet is decoded to the normal form of the boards it was built from, as long as they
  report neither the discovery endpoint nor empty names.
\<close>

theorem discovery_topology_roundtrip:
  assumes "max_stack_payload C \<le> 255" and "list_all (board_valid C) boards" and "length boards < 2 ^ 32"
  shows "andthen (build_discovery_topology C s t boards) (decode_discovery_topology C) =
    Ok (normalize_topology_boards boards)"
  by (rule topology_packet [OF assms, of s t]) simp

definition two_boards :: "topology_board_node list" where
  "two_boards =
     [\<lparr>tb_sender_id = str ''R2'', tb_reachable_endpoints = [UserEndpoint 1], tb_reachable_timesync_sources = [],
       tb_connections = [str ''R1'', str ''R2'']\<rparr>,
      \<lparr>tb_sender_id = str ''R1'', tb_reachable_endpoints = [], tb_reachable_timesync_sources = [str ''GPS''],
       tb_connections = [str ''R2'']\<rparr>]"

lemma two_boards_valid: "list_all (board_valid sample_env) two_boards"
proof -
  have "from_utf8 (str ''R1'')" "from_utf8 (str ''R2'')" "from_utf8 (str ''GPS'')" by code_simp+
  then have "list_all string_valid [str ''R1'', str ''R2'', str ''GPS'']" by (simp add: string_valid_def)
  moreover have "str ''R1'' \<noteq> []" "str ''R2'' \<noteq> []" "str ''GPS'' \<noteq> []" by code_simp+
  ultimately show ?thesis
    by (simp add: two_boards_def board_valid_def endpoint_sendable_def sample_valid sample_schema_wf)
qed

theorem discovery_topology_roundtrip_witness:
  "andthen (build_discovery_topology sample_env (str ''A'') 7 two_boards) (decode_discovery_topology sample_env) =
     Ok (normalize_topology_boards two_boards)"
  by (rule discovery_topology_roundtrip [OF _ two_boards_valid])
    (simp_all add: sample_fields two_boards_def)

section \<open>Merging\<close>

text \<open>
  C21. Merging a peer's boards refines the union of the abstract topologies: afterwards exactly the
  boards, endpoints, time sources and links known to either side are known, and the list is in the
  normal form that is sent and compared.
\<close>

theorem merge_refines_union:
  assumes "distinct (map tb_sender_id dst)"
  shows "view (merge_topology_boards dst src) = join (view dst) (view src) \<and>
    boards_normal (merge_topology_boards dst src)"
  by (simp add: merge_view [OF assms] merge_normal)

theorem merge_refines_union_witness:
  "view (merge_topology_boards [hd two_boards] two_boards) = join (view [hd two_boards]) (view two_boards)"
  using merge_refines_union [of "[hd two_boards]" two_boards] by simp

text \<open>
  The order in which views are merged does not matter: boards that have merged the same reports
  hold the same list, however the reports were grouped, ordered or repeated.
\<close>

theorem merge_converges:
  assumes "distinct (map tb_sender_id a)" and "distinct (map tb_sender_id b)"
  shows "merge_topology_boards a b = merge_topology_boards b a \<and>
    merge_topology_boards (merge_topology_boards a b) c = merge_topology_boards a (merge_topology_boards b c) \<and>
    merge_topology_boards (merge_topology_boards a b) b = merge_topology_boards a b"
proof -
  note d = normal_distinct [OF merge_normal]
  have "merge_topology_boards a b = merge_topology_boards b a"
    by (rule view_inject [OF merge_normal merge_normal]) (simp add: merge_view assms join_commute)
  moreover have "merge_topology_boards (merge_topology_boards a b) c = merge_topology_boards a (merge_topology_boards b c)"
    by (rule view_inject [OF merge_normal merge_normal]) (simp add: merge_view assms d join_assoc)
  moreover have "merge_topology_boards (merge_topology_boards a b) b = merge_topology_boards a b"
    by (rule view_inject [OF merge_normal merge_normal]) (simp add: merge_view assms d join_assoc)
  ultimately show ?thesis by blast
qed

theorem merge_converges_witness:
  "merge_topology_boards [hd two_boards] [last two_boards] = merge_topology_boards [last two_boards] [hd two_boards]"
  using merge_converges [of "[hd two_boards]" "[last two_boards]"] by simp

section \<open>Cadence\<close>

text \<open>
  A topology change makes an announce due at once; after \<open>n\<close> announces the interval is
  250 ms doubled \<open>n\<close> times, capped at five seconds, and the next announce is due that long after
  the last one.
\<close>

theorem cadence_backs_off:
  "due (on_topology_change t0 c) t0 \<and>
   unat (current_interval_ms (foldl (\<lambda>c t. on_announce_sent t c) (on_topology_change t0 c) ts)) =
     min (250 * 2 ^ length ts) 5000 \<and>
   unat (next_announce_ms (foldl (\<lambda>c t. on_announce_sent t c) (on_topology_change t0 c) (ts @ [t]))) =
     min (unat t + min (250 * 2 ^ length ts) 5000) (2 ^ 64 - 1)"
proof -
  have *: "unat (current_interval_ms (foldl (\<lambda>c t. on_announce_sent t c) (on_topology_change t0 c) ts)) =
     min (250 * 2 ^ length ts) 5000"
  proof (induction ts rule: rev_induct)
    case Nil
    then show ?case by (simp add: on_topology_change_def discovery_constants)
  next
    case (snoc t ts)
    let ?c = "foldl (\<lambda>c t. on_announce_sent t c) (on_topology_change t0 c) ts"
    have "unat (sat_mul (current_interval_ms ?c) 2) = 2 * unat (current_interval_ms ?c)"
      using snoc by (simp add: unat_sat_mul)
    moreover have "unat (min (sat_mul (current_interval_ms ?c) 2) 5000) =
      min (unat (sat_mul (current_interval_ms ?c) 2)) 5000"
      by (simp add: min_def word_le_nat_alt)
    ultimately show ?case using snoc by (simp add: on_announce_sent_def discovery_constants)
  qed
  then show ?thesis
    by (simp add: due_def on_topology_change_def on_announce_sent_def unat_sat_add)
qed

end
