(* ===== verification/Router_State.thy ===== *)
theory Router_State
  imports "HOL-Library.Option_ord" "HOL-Library.Product_Lexorder" Wire_Format BTree_Map Bounded_Deque Discovery
begin

text \<open>
  \<open>src/router.rs\<close>, the data of a router: queue items and their byte costs, the mutable state
  \<open>RouterInner\<close>, and the operations that share one byte budget between the queues. The fixed
  sizes of the Rust structs are parameters (record \<open>layout\<close>). A state operation returns the state
  it leaves and its result; \<open>sthen\<close> is the operator \<open>?\<close> on them.
\<close>

section \<open>State and result\<close>

definition sthen ::
  "'s \<times> ('e, 'a) outcome \<Rightarrow> ('a \<Rightarrow> 's \<Rightarrow> 's \<times> ('e, 'b) outcome) \<Rightarrow> 's \<times> ('e, 'b) outcome" where
  "sthen m f = (case m of (s, Ok x) \<Rightarrow> f x s | (s, Err e) \<Rightarrow> (s, Err e) | (s, Panic p) \<Rightarrow> (s, Panic p))"

lemma sthen_simps [simp]:
  "sthen (s, Ok x) f = f x s" "sthen (s, Err e) f = (s, Err e)" "sthen (s, Panic p) f = (s, Panic p)"
  by (simp_all add: sthen_def)

section \<open>Items\<close>

record layout =
  size_packet :: nat
  size_rx_item :: nat
  size_tx_queued :: nat
  size_sender_state :: nat
  size_side_state :: nat

datatype router_item = Item_Packet packet | Item_Serialized bytes

record router_rx_item =
  rx_src :: "nat option"
  rx_data :: router_item
  rx_priority :: u8

datatype router_tx_item =
    Broadcast router_item
  | EndToEndReplay u64
  | ToSide "nat option" nat router_item
  | ReliableReplay nat bytes

record tx_queued =
  txq_item :: router_tx_item
  txq_ignore_local :: bool
  txq_priority :: u8

fun item_byte_cost :: "layout \<Rightarrow> router_item \<Rightarrow> nat" where
  "item_byte_cost L (Item_Packet pkt) = packet_byte_cost (size_packet L) pkt"
| "item_byte_cost L (Item_Serialized bs) = arc_slice_size + length bs"

definition rx_item_byte_cost :: "layout \<Rightarrow> router_rx_item \<Rightarrow> nat" where
  "rx_item_byte_cost L it = item_byte_cost L (rx_data it)"

fun tx_item_byte_cost :: "layout \<Rightarrow> router_tx_item \<Rightarrow> nat" where
  "tx_item_byte_cost L (Broadcast d) = item_byte_cost L d"
| "tx_item_byte_cost L (EndToEndReplay _) = 8"
| "tx_item_byte_cost L (ToSide _ _ d) = item_byte_cost L d"
| "tx_item_byte_cost L (ReliableReplay _ bs) = arc_slice_size + length bs"

definition tx_queued_byte_cost :: "layout \<Rightarrow> tx_queued \<Rightarrow> nat" where
  "tx_queued_byte_cost L q = tx_item_byte_cost L (txq_item q) + 1 + 1"

definition id_byte_cost :: "u64 \<Rightarrow> nat" where
  "id_byte_cost _ = 8"

section \<open>Reliable delivery, discovery and routing data\<close>

record reliable_sent =
  sent_bytes :: bytes
  sent_last_send_ms :: u64
  sent_retries :: u32
  sent_queued :: bool
  sent_partial_acked :: bool

record reliable_tx_state =
  rtx_next_seq :: u32
  rtx_sent_order :: "u32 list"
  rtx_sent :: "(u32, reliable_sent) btree"

record end_to_end_reliable_sent =
  e2e_data :: router_item
  e2e_pending_destinations :: "(u64, nat) btree"
  e2e_tracked_destinations :: bool
  e2e_last_send_ms :: u64
  e2e_retries :: u32
  e2e_queued :: bool

record reliable_rx_state =
  rrx_expected_seq :: u32
  rrx_buffered :: "(u32, bytes) btree"

record discovery_sender_state =
  dss_reachable :: "data_endpoint list"
  dss_timesync_sources :: "bytes list"
  dss_topology_boards :: "topology_board_node list"
  dss_last_seen_ms :: u64

record discovery_side_state =
  dsd_reachable :: "data_endpoint list"
  dsd_timesync_sources :: "bytes list"
  dsd_last_seen_ms :: u64
  dsd_announcers :: "(bytes, discovery_sender_state) btree"

record adaptive_route_stats =
  estimated_bandwidth_bps :: u64
  last_observed_ms :: u64

definition stats_default :: adaptive_route_stats where
  "stats_default = \<lparr>estimated_bandwidth_bps = 0, last_observed_ms = 0\<rparr>"

definition observe :: "u64 \<Rightarrow> u64 \<Rightarrow> adaptive_route_stats \<Rightarrow> adaptive_route_stats" where
  "observe sample_bps now_ms s =
     s\<lparr>estimated_bandwidth_bps :=
         (let bw = estimated_bandwidth_bps s in
          if bw = 0 then sample_bps
          else if sample_bps \<ge> bw then sat_add (sat_mul bw 3) (sat_mul sample_bps 5) div 8
          else sat_add (sat_mul bw 7) sample_bps div 8),
       last_observed_ms := now_ms\<rparr>"

definition stats_weight :: "adaptive_route_stats \<Rightarrow> u64" where
  "stats_weight s = max (estimated_bandwidth_bps s) 1"

datatype route_selection_origin = Flood | Discovered

datatype route_selection_mode = Fanout | Weighted | Failover

datatype tx_handler_kind = Serialized_Tx | Packet_Tx

record router_side_options =
  opt_reliable_enabled :: bool
  opt_link_local_enabled :: bool
  opt_ingress_enabled :: bool
  opt_egress_enabled :: bool

definition side_options_default :: router_side_options where
  "side_options_default =
     \<lparr>opt_reliable_enabled = False, opt_link_local_enabled = False, opt_ingress_enabled = True,
      opt_egress_enabled = True\<rparr>"

record router_side =
  side_name :: bytes
  side_tx_handler :: tx_handler_kind
  side_opts :: router_side_options

record router_inner =
  sides :: "router_side option list"
  route_overrides :: "(nat option \<times> nat, bool) btree"
  typed_route_overrides :: "(nat option \<times> u32 \<times> nat, bool) btree"
  route_weights :: "(nat option \<times> nat, u32) btree"
  route_priorities :: "(nat option \<times> nat, u32) btree"
  source_route_modes :: "(nat option, route_selection_mode) btree"
  route_selection_cursors :: "(nat option, u64) btree"
  route_stats :: "(nat, adaptive_route_stats) btree"
  received_queue :: "router_rx_item bounded_deque"
  transmit_queue :: "tx_queued bounded_deque"
  recent_rx :: "u64 bounded_deque"
  reliable_tx :: "(nat \<times> u32, reliable_tx_state) btree"
  reliable_rx :: "(nat \<times> u32, reliable_rx_state) btree"
  reliable_return_routes :: "(u64, nat) btree"
  reliable_return_route_order :: "u64 list"
  end_to_end_reliable_tx :: "(u64, end_to_end_reliable_sent) btree"
  end_to_end_reliable_tx_order :: "u64 list"
  discovery_routes :: "(nat, discovery_side_state) btree"
  discovery_cadence :: discovery_cadence_state

text \<open>The state \<open>Router::new_with_clock\<close> builds; the three queues are allocated first.\<close>

definition router_inner_new :: "layout \<Rightarrow> 'z config_scheme \<Rightarrow> (telemetry_error, router_inner) outcome" where
  "router_inner_new L C =
     andthen (bd_new (size_rx_item L) (max_queue_budget C) (starting_queue_size C) (queue_grow_step C)) (\<lambda>rx.
     andthen (bd_new (size_tx_queued L) (max_queue_budget C) (starting_queue_size C) (queue_grow_step C)) (\<lambda>tx.
     andthen (bd_new 8 (max (recent_rx_queue_bytes C) 1) (max (recent_rx_queue_bytes C) 1) (queue_grow_step C)) (\<lambda>recent.
       Ok \<lparr>sides = [], route_overrides = [], typed_route_overrides = [], route_weights = [], route_priorities = [],
           source_route_modes = [], route_selection_cursors = [], route_stats = [], received_queue = rx,
           transmit_queue = tx, recent_rx = recent, reliable_tx = [], reliable_rx = [],
           reliable_return_routes = [], reliable_return_route_order = [], end_to_end_reliable_tx = [],
           end_to_end_reliable_tx_order = [], discovery_routes = [], discovery_cadence = cadence_default\<rparr>)))"

section \<open>The shared budget\<close>

datatype router_queue_kind = Received | Transmit | Recent | ReliableRxBuffer | DiscoveryRoutes

definition topology_board_byte_cost :: "topology_board_node \<Rightarrow> nat" where
  "topology_board_byte_cost b =
     usat_add (usat_add (usat_add (length (tb_sender_id b)) (length (tb_reachable_endpoints b) * 4))
       (sum_list (map length (tb_reachable_timesync_sources b)))) (sum_list (map length (tb_connections b)))"

definition discovery_sender_byte_cost :: "layout \<Rightarrow> bytes \<Rightarrow> discovery_sender_state \<Rightarrow> nat" where
  "discovery_sender_byte_cost L sender st =
     usat_add (usat_add (usat_add (usat_add (length sender) (length (dss_reachable st) * 4))
       (sum_list (map length (dss_timesync_sources st))))
       (sum_list (map topology_board_byte_cost (dss_topology_boards st)))) (size_sender_state L)"

definition discovery_route_byte_cost :: "layout \<Rightarrow> discovery_side_state \<Rightarrow> nat" where
  "discovery_route_byte_cost L route =
     usat_add (usat_add (usat_add (usat_add 8 (size_side_state L)) (length (dsd_reachable route) * 4))
       (sum_list (map length (dsd_timesync_sources route))))
       (sum_list (map (\<lambda>(sender, st). discovery_sender_byte_cost L sender st) (dsd_announcers route)))"

definition discovery_bytes_used :: "layout \<Rightarrow> router_inner \<Rightarrow> nat" where
  "discovery_bytes_used L st = sum_list (map (discovery_route_byte_cost L) (bt_values (discovery_routes st)))"

definition buffered_bytes :: "reliable_rx_state \<Rightarrow> nat" where
  "buffered_bytes rx = sum_list (map (\<lambda>bs. arc_slice_size + length bs) (bt_values (rrx_buffered rx)))"

definition reliable_rx_buffered_bytes :: "router_inner \<Rightarrow> nat" where
  "reliable_rx_buffered_bytes st = sum_list (map buffered_bytes (bt_values (reliable_rx st)))"

definition shared_queue_bytes_used :: "layout \<Rightarrow> router_inner \<Rightarrow> nat" where
  "shared_queue_bytes_used L st =
     usat_add (usat_add (usat_add (usat_add (bd_cur_bytes (received_queue st)) (bd_cur_bytes (transmit_queue st)))
       (bd_max_bytes (recent_rx st))) (reliable_rx_buffered_bytes st)) (discovery_bytes_used L st)"

definition reliable_rx_buffer_len :: "router_inner \<Rightarrow> nat" where
  "reliable_rx_buffer_len st = sum_list (map (\<lambda>rx. length (rrx_buffered rx)) (bt_values (reliable_rx st)))"

definition pop_buffered :: "reliable_rx_state \<Rightarrow> reliable_rx_state" where
  "pop_buffered rx = rx\<lparr>rrx_buffered := snd (bt_pop_first (rrx_buffered rx))\<rparr>"

definition pop_reliable_rx_buffered :: "router_inner \<Rightarrow> bytes option \<times> router_inner" where
  "pop_reliable_rx_buffered st =
     (case find (\<lambda>(_, rx). rrx_buffered rx \<noteq> []) (reliable_rx st) of
        None \<Rightarrow> (None, st)
      | Some (key, rx) \<Rightarrow>
          (map_option snd (fst (bt_pop_first (rrx_buffered rx))),
           st\<lparr>reliable_rx := bt_modify key pop_buffered (reliable_rx st)\<rparr>))"

text \<open>\<open>min_by_key\<close> returns the first of the least entries, \<open>max_by_key\<close> the last of the greatest.\<close>

definition min_by_key :: "('a \<Rightarrow> 'k::linorder) \<Rightarrow> 'a list \<Rightarrow> 'a option" where
  "min_by_key key xs =
     fold (\<lambda>x best. case best of None \<Rightarrow> Some x | Some b \<Rightarrow> if key x < key b then Some x else Some b) xs None"

definition max_by_key :: "('a \<Rightarrow> 'k::linorder) \<Rightarrow> 'a list \<Rightarrow> 'a option" where
  "max_by_key key xs =
     fold (\<lambda>x best. case best of None \<Rightarrow> Some x | Some b \<Rightarrow> if key x \<ge> key b then Some x else Some b) xs None"

definition pop_discovery_route :: "router_inner \<Rightarrow> bool \<times> router_inner" where
  "pop_discovery_route st =
     (case min_by_key (\<lambda>(_, route). dsd_last_seen_ms route) (discovery_routes st) of
        None \<Rightarrow> (False, st)
      | Some (side, _) \<Rightarrow> (True, st\<lparr>discovery_routes := bt_remove side (discovery_routes st)\<rparr>))"

fun pop_shared_queue_item :: "layout \<Rightarrow> router_queue_kind \<Rightarrow> router_inner \<Rightarrow> bool \<times> router_inner" where
  "pop_shared_queue_item L Received st =
     (case pop_front (rx_item_byte_cost L) (received_queue st) of
        (it, q) \<Rightarrow> (it \<noteq> None, st\<lparr>received_queue := q\<rparr>))"
| "pop_shared_queue_item L Transmit st =
     (case pop_front (tx_queued_byte_cost L) (transmit_queue st) of
        (it, q) \<Rightarrow> (it \<noteq> None, st\<lparr>transmit_queue := q\<rparr>))"
| "pop_shared_queue_item L Recent st =
     (case pop_front id_byte_cost (recent_rx st) of
        (it, q) \<Rightarrow> (it \<noteq> None, st\<lparr>recent_rx := q\<rparr>))"
| "pop_shared_queue_item L ReliableRxBuffer st =
     (case pop_reliable_rx_buffered st of (it, st) \<Rightarrow> (it \<noteq> None, st))"
| "pop_shared_queue_item L DiscoveryRoutes st = pop_discovery_route st"

definition largest_shared_queue :: "layout \<Rightarrow> router_inner \<Rightarrow> router_queue_kind option" where
  "largest_shared_queue L st =
     (let candidates =
        [(Received, bd_cur_bytes (received_queue st), length (bd_q (received_queue st))),
         (Transmit, bd_cur_bytes (transmit_queue st), length (bd_q (transmit_queue st))),
         (Recent, 0, 0),
         (ReliableRxBuffer, reliable_rx_buffered_bytes st, reliable_rx_buffer_len st),
         (DiscoveryRoutes, discovery_bytes_used L st, length (discovery_routes st))]
      in map_option fst
           (max_by_key (\<lambda>(kind, n, _). (n, if kind = ReliableRxBuffer then 0 else 1 :: nat))
              (filter (\<lambda>(_, n, len). n > 0 \<and> len > 0) candidates)))"

text \<open>What is left to evict; every successful removal makes it smaller.\<close>

definition evictable :: "router_inner \<Rightarrow> nat" where
  "evictable st =
     length (bd_q (received_queue st)) + length (bd_q (transmit_queue st)) + length (bd_q (recent_rx st)) +
     reliable_rx_buffer_len st + length (discovery_routes st)"

lemma min_by_key_None [simp]: "min_by_key key [] = None"
  by (simp add: min_by_key_def)

lemma fold_best_in:
  "fold (\<lambda>x best. case best of None \<Rightarrow> Some x | Some b \<Rightarrow> if P x b then Some x else Some b) xs acc = Some y \<Longrightarrow>
     y \<in> set xs \<or> acc = Some y"
  by (induction xs arbitrary: acc) (force split: option.splits if_splits)+

lemma min_by_key_in: "min_by_key key xs = Some y \<Longrightarrow> y \<in> set xs"
  unfolding min_by_key_def by (drule fold_best_in) simp

lemma max_by_key_in: "max_by_key key xs = Some y \<Longrightarrow> y \<in> set xs"
  unfolding max_by_key_def by (drule fold_best_in) simp

lemma pop_front_shrinks:
  "pop_front cost d = (it, d') \<Longrightarrow>
     (if it = None then d' = d else length (bd_q d') < length (bd_q d))"
  by (auto simp: pop_front_def split: list.splits)

lemma sum_modify_le:
  "(\<And>v. w (f v) \<le> (w v :: nat)) \<Longrightarrow>
   sum_list (map w (bt_values (bt_modify key f m))) \<le> sum_list (map w (bt_values m))"
  by (induction m) (auto simp: bt_modify_def bt_values_def intro: add_mono)

lemma sum_modify_less:
  assumes "\<And>v. w (f v) \<le> (w v :: nat)" and "w (f v) < w v" and "(key, v) \<in> set m"
  shows "sum_list (map w (bt_values (bt_modify key f m))) < sum_list (map w (bt_values m))"
proof -
  from assms(3) obtain as bs where m: "m = as @ (key, v) # bs" by (meson split_list)
  have "bt_values (bt_modify key f m) =
    bt_values (bt_modify key f as) @ f v # bt_values (bt_modify key f bs)"
    by (simp add: m bt_modify_def bt_values_def)
  moreover have "bt_values m = bt_values as @ v # bt_values bs" by (simp add: m bt_values_def)
  ultimately show ?thesis
    using assms(2) sum_modify_le [of w f key as] sum_modify_le [of w f key bs] assms(1) by simp
qed

lemma pop_buffered_shrinks:
  "length (rrx_buffered (pop_buffered rx)) \<le> length (rrx_buffered rx)"
  "rrx_buffered rx \<noteq> [] \<Longrightarrow> length (rrx_buffered (pop_buffered rx)) < length (rrx_buffered rx)"
  by (cases "rrx_buffered rx"; simp add: pop_buffered_def)+

lemma pop_shared_shrinks:
  assumes "pop_shared_queue_item L k st = (b, st')"
  shows "if b then evictable st' < evictable st else st' = st"
proof (cases k)
  case ReliableRxBuffer
  show ?thesis
  proof (cases "find (\<lambda>(_, rx). rrx_buffered rx \<noteq> []) (reliable_rx st)")
    case None
    then show ?thesis using assms ReliableRxBuffer by (auto simp: pop_reliable_rx_buffered_def)
  next
    case (Some e)
    obtain key rx where e: "e = (key, rx)" by (cases e)
    have "(key, rx) \<in> set (reliable_rx st)" "rrx_buffered rx \<noteq> []"
      using Some e by (auto simp: find_Some_iff in_set_conv_nth)
    moreover from this(2) have "fst (bt_pop_first (rrx_buffered rx)) \<noteq> None"
      by (cases "rrx_buffered rx") auto
    ultimately show ?thesis
      using assms ReliableRxBuffer Some e pop_buffered_shrinks
        sum_modify_less [of "\<lambda>rx. length (rrx_buffered rx)" pop_buffered rx key "reliable_rx st"]
      by (auto simp: pop_reliable_rx_buffered_def evictable_def reliable_rx_buffer_len_def)
  qed
next
  case DiscoveryRoutes
  show ?thesis
  proof (cases "min_by_key (\<lambda>(_, route). dsd_last_seen_ms route) (discovery_routes st)")
    case None
    then show ?thesis using assms DiscoveryRoutes by (auto simp: pop_discovery_route_def)
  next
    case (Some e)
    then have "e \<in> set (discovery_routes st)" by (rule min_by_key_in)
    then have "length (bt_remove (fst e) (discovery_routes st)) < length (discovery_routes st)"
      unfolding bt_remove_def by (intro length_filter_less) auto
    then show ?thesis using assms DiscoveryRoutes Some
      by (cases e) (auto simp: pop_discovery_route_def evictable_def reliable_rx_buffer_len_def)
  qed
qed (use assms in \<open>auto simp: evictable_def reliable_rx_buffer_len_def split: prod.splits dest!: pop_front_shrinks\<close>)

function make_room_loop ::
  "layout \<Rightarrow> nat \<Rightarrow> nat \<Rightarrow> router_queue_kind \<Rightarrow> router_inner \<Rightarrow> router_inner \<times> unit telemetry_result" where
  "make_room_loop L budget incoming_cost preferred st =
     (if usat_add (shared_queue_bytes_used L st) incoming_cost > budget then
        (let victim = (case largest_shared_queue L st of Some v \<Rightarrow> v | None \<Rightarrow> preferred) in
         case pop_shared_queue_item L victim st of
           (True, st') \<Rightarrow> make_room_loop L budget incoming_cost preferred st'
         | (False, st') \<Rightarrow>
             (case pop_shared_queue_item L preferred st' of
                (True, st'') \<Rightarrow> make_room_loop L budget incoming_cost preferred st''
              | (False, st'') \<Rightarrow> (st'', Err (PacketTooLarge ''Item exceeds maximum shared queue budget''))))
      else (st, Ok ()))"
  by pat_completeness auto
termination
  by (relation "measure (\<lambda>(L, b, c, p, st). evictable st)")
    (auto dest!: pop_shared_shrinks [OF sym] split: if_splits)

declare make_room_loop.simps [simp del]

definition make_shared_queue_room ::
  "layout \<Rightarrow> 'z config_scheme \<Rightarrow> nat \<Rightarrow> router_queue_kind \<Rightarrow> router_inner \<Rightarrow> router_inner \<times> unit telemetry_result" where
  "make_shared_queue_room L C incoming_cost preferred st =
     (if incoming_cost > max_queue_budget C
      then (st, Err (PacketTooLarge ''Item exceeds maximum shared queue budget''))
      else make_room_loop L (max_queue_budget C) incoming_cost preferred st)"

function fit_discovery_budget :: "layout \<Rightarrow> nat \<Rightarrow> router_inner \<Rightarrow> router_inner" where
  "fit_discovery_budget L budget st =
     (if shared_queue_bytes_used L st > budget then
        (case pop_discovery_route st of
           (True, st') \<Rightarrow> fit_discovery_budget L budget st'
         | (False, st') \<Rightarrow> st')
      else st)"
  by pat_completeness auto
termination
  by (relation "measure (\<lambda>(L, b, st). evictable st)")
    (auto dest!: pop_shared_shrinks [where k = DiscoveryRoutes, simplified, OF sym] split: if_splits)

declare fit_discovery_budget.simps [simp del]

definition push_received :: "layout \<Rightarrow> 'z config_scheme \<Rightarrow> router_rx_item \<Rightarrow> router_inner \<Rightarrow> router_inner \<times> unit telemetry_result" where
  "push_received L C it st =
     sthen (make_shared_queue_room L C (rx_item_byte_cost L it) Received st) (\<lambda>_ st.
       case push_back_prioritized (rx_item_byte_cost L) (size_rx_item L) rx_priority it (received_queue st) of
         (q, r) \<Rightarrow> (st\<lparr>received_queue := q\<rparr>, r))"

definition push_transmit :: "layout \<Rightarrow> 'z config_scheme \<Rightarrow> tx_queued \<Rightarrow> router_inner \<Rightarrow> router_inner \<times> unit telemetry_result" where
  "push_transmit L C it st =
     sthen (make_shared_queue_room L C (tx_queued_byte_cost L it) Transmit st) (\<lambda>_ st.
       case push_back_prioritized (tx_queued_byte_cost L) (size_tx_queued L) txq_priority it (transmit_queue st) of
         (q, r) \<Rightarrow> (st\<lparr>transmit_queue := q\<rparr>, r))"

text \<open>
  The loop that trims the recent-id cache pops from an empty queue forever when the cap is zero, so it
  is a partial function: \<open>None\<close> is a call that does not return.
\<close>

partial_function (option) trim_recent :: "nat \<Rightarrow> u64 bounded_deque \<Rightarrow> u64 bounded_deque option" where
  "trim_recent cap d =
     (if length (bd_q d) \<ge> cap then trim_recent cap (snd (pop_front id_byte_cost d)) else Some d)"

definition push_recent_rx ::
  "layout \<Rightarrow> 'z config_scheme \<Rightarrow> u64 \<Rightarrow> router_inner \<Rightarrow> (router_inner \<times> unit telemetry_result) option" where
  "push_recent_rx L C i st =
     (case trim_recent (max_recent_rx_ids C) (recent_rx st) of
        None \<Rightarrow> None
      | Some d \<Rightarrow>
          Some (sthen (make_shared_queue_room L C 0 Recent (st\<lparr>recent_rx := d\<rparr>)) (\<lambda>_ st.
            case push_back id_byte_cost 8 i (recent_rx st) of
              (q, r) \<Rightarrow> (st\<lparr>recent_rx := q\<rparr>, r))))"

section \<open>Identity of items\<close>

text \<open>
  \<open>get_hash\<close>; a panic of the wire reader (see \<open>deserialize_panics_only_on_capacity\<close>) unwinds
  through it.
\<close>

definition get_hash :: "env \<Rightarrow> router_item \<Rightarrow> (telemetry_error, u64) outcome" where
  "get_hash E it =
     (case it of
        Item_Packet pkt \<Rightarrow> Ok (packet_id E pkt)
      | Item_Serialized bs \<Rightarrow>
          (case packet_id_from_wire E bs of
             Ok i \<Rightarrow> Ok i
           | Err e \<Rightarrow> Ok (hash_bytes_u64 packet_id_seed bs)
           | Panic m \<Rightarrow> Panic m))"

definition remove_pkt_id :: "env \<Rightarrow> router_item \<Rightarrow> router_inner \<Rightarrow> router_inner \<times> unit telemetry_result" where
  "remove_pkt_id E it st =
     sthen (st, get_hash E it) (\<lambda>h st. (st\<lparr>recent_rx := remove_value id_byte_cost h (recent_rx st)\<rparr>, Ok ()))"

definition is_duplicate_pkt ::
  "layout \<Rightarrow> env \<Rightarrow> router_item \<Rightarrow> router_inner \<Rightarrow> (router_inner \<times> bool telemetry_result) option" where
  "is_duplicate_pkt L E it st =
     (case get_hash E it of
        Err e \<Rightarrow> Some (st, Err e)
      | Panic m \<Rightarrow> Some (st, Panic m)
      | Ok i \<Rightarrow>
          if bd_contains (recent_rx st) i then Some (st, Ok True)
          else map_option (\<lambda>r. sthen r (\<lambda>_ st. (st, Ok False))) (push_recent_rx L E i st))"

section \<open>Reliable receive buffers\<close>

definition reliable_key :: "'z schema_scheme \<Rightarrow> nat \<Rightarrow> data_type \<Rightarrow> nat \<times> u32" where
  "reliable_key C side ty = (side, ty_u32 C ty)"

definition rx_state_new :: reliable_rx_state where
  "rx_state_new = \<lparr>rrx_expected_seq = 1, rrx_buffered = []\<rparr>"

definition reliable_rx_state_mut :: "nat \<times> u32 \<Rightarrow> router_inner \<Rightarrow> router_inner" where
  "reliable_rx_state_mut key st =
     (case bt_get (reliable_rx st) key of
        Some _ \<Rightarrow> st
      | None \<Rightarrow> st\<lparr>reliable_rx := bt_insert key rx_state_new (reliable_rx st)\<rparr>)"

definition store_buffered :: "'z config_scheme \<Rightarrow> u32 \<Rightarrow> bytes \<Rightarrow> reliable_rx_state \<Rightarrow> reliable_rx_state" where
  "store_buffered C seq bs rx =
     rx\<lparr>rrx_buffered := bt_insert seq bs
          (if length (rrx_buffered rx) \<ge> reliable_max_pending C
           then snd (bt_pop_first (rrx_buffered rx)) else rrx_buffered rx)\<rparr>"

definition buffer_reliable_rx ::
  "layout \<Rightarrow> 'z config_scheme \<Rightarrow> nat \<Rightarrow> data_type \<Rightarrow> u32 \<Rightarrow> bytes \<Rightarrow> router_inner \<Rightarrow> router_inner \<times> unit telemetry_result" where
  "buffer_reliable_rx L C side ty seq bs st =
     (let key = reliable_key C side ty in
      if (case bt_get (reliable_rx st) key of Some rx \<Rightarrow> bt_contains (rrx_buffered rx) seq | None \<Rightarrow> False)
      then (st, Ok ())
      else
        sthen (make_shared_queue_room L C (arc_slice_size + length bs) ReliableRxBuffer st) (\<lambda>_ st.
          (let st = reliable_rx_state_mut key st
           in (st\<lparr>reliable_rx := bt_modify key (store_buffered C seq bs) (reliable_rx st)\<rparr>, Ok ()))))"

end
