(* ===== verification/Shared_Budget.thy ===== *)
theory Shared_Budget
  imports Router_State Bounded_Deque_Laws
begin

text \<open>
  The contract of queues that share one byte budget, as the router and the relay keep them: what is
  removed to make room, when making room succeeds, and that a push which follows it stays within the
  budget. \<open>left\<close> is what can still be removed, \<open>reserve\<close> the part of the budget that never can.
\<close>

abbreviation over_budget :: telemetry_error where
  "over_budget \<equiv> PacketTooLarge ''Item exceeds maximum shared queue budget''"

locale shared_budget =
  fixes used :: "'s \<Rightarrow> nat"
    and reserve :: "'s \<Rightarrow> nat"
    and wf :: "'s \<Rightarrow> bool"
    and evict :: "'s \<Rightarrow> 's \<Rightarrow> bool"
    and pop :: "'k \<Rightarrow> 's \<Rightarrow> bool \<times> 's"
    and largest :: "'s \<Rightarrow> 'k option"
    and left :: "'s \<Rightarrow> nat"
    and loop :: "nat \<Rightarrow> nat \<Rightarrow> 'k \<Rightarrow> 's \<Rightarrow> 's \<times> unit telemetry_result"
  assumes evict_refl: "wf s \<Longrightarrow> evict s s"
    and evict_trans: "evict s t \<Longrightarrow> evict t u \<Longrightarrow> evict s u"
    and evict_wf: "evict s t \<Longrightarrow> wf s \<Longrightarrow> wf t"
    and evict_reserve: "evict s t \<Longrightarrow> reserve t = reserve s"
    and evict_used: "evict s t \<Longrightarrow> wf s \<Longrightarrow> used t \<le> used s"
    and pop_evicts: "wf s \<Longrightarrow> evict s (snd (pop k s))"
    and pop_shrinks: "pop k s = (b, t) \<Longrightarrow> if b then left t < left s else t = s"
    and largest_pops: "largest s = Some k \<Longrightarrow> fst (pop k s)"
    and largest_None: "wf s \<Longrightarrow> largest s = None \<Longrightarrow> used s \<le> reserve s"
    and loop_eq: "loop budget c preferred s =
      (if usat_add (used s) c > budget then
         (let victim = (case largest s of Some v \<Rightarrow> v | None \<Rightarrow> preferred) in
          case pop victim s of
            (True, s') \<Rightarrow> loop budget c preferred s'
          | (False, s') \<Rightarrow>
              (case pop preferred s' of
                 (True, s'') \<Rightarrow> loop budget c preferred s''
               | (False, s'') \<Rightarrow> (s'', Err over_budget)))
       else (s, Ok ()))"
begin

lemma loop_result:
  assumes "wf s" and "budget < usize_limit - 1" and "loop budget c preferred s = (s', r)"
  shows "evict s s' \<and>
    (r = Ok () \<and> used s' + c \<le> budget \<or> r = Err over_budget \<and> budget < reserve s + c)"
  using assms
proof (induction "left s" arbitrary: s rule: less_induct)
  case less
  let ?victim = "case largest s of Some v \<Rightarrow> v | None \<Rightarrow> preferred"
  obtain b1 s1 where p1: "pop ?victim s = (b1, s1)" by force
  obtain b2 s2 where p2: "pop preferred s1 = (b2, s2)" by force
  have e1: "evict s s1" using pop_evicts [OF less.prems(1), of ?victim] p1 by simp
  have w1: "wf s1" using e1 less.prems(1) by (rule evict_wf)
  have e2: "evict s1 s2" using pop_evicts [OF w1, of preferred] p2 by simp
  have w2: "wf s2" using e2 w1 by (rule evict_wf)
  note fixed = evict_reserve [OF e1] evict_reserve [OF e2]
  show ?case
  proof (cases "usat_add (used s) c > budget")
    case False
    then have "used s + c \<le> budget" using less.prems(2) by (intro usat_add_ge) auto
    moreover have "s' = s" "r = Ok ()" using less.prems(3) False by (simp_all add: loop_eq [of budget c preferred s])
    ultimately show ?thesis using evict_refl [OF less.prems(1)] by simp
  next
    case big: True
    consider (first) "b1" | (second) "\<not> b1" "b2" | (none) "\<not> b1" "\<not> b2" by blast
    then show ?thesis
    proof cases
      case first
      then have "loop budget c preferred s1 = (s', r)"
        using less.prems(3) big p1 by (subst (asm) loop_eq) (simp add: Let_def)
      moreover have "left s1 < left s" using pop_shrinks [OF p1] first by simp
      ultimately show ?thesis
        using less.hyps [OF _ w1 less.prems(2)] evict_trans [OF e1] fixed by auto
    next
      case second
      then have "loop budget c preferred s2 = (s', r)"
        using less.prems(3) big p1 p2 by (subst (asm) loop_eq) (simp add: Let_def)
      moreover have "left s2 < left s"
        using pop_shrinks [OF p1] pop_shrinks [OF p2] second by simp
      ultimately show ?thesis
        using less.hyps [OF _ w2 less.prems(2)] evict_trans [OF evict_trans [OF e1 e2]] fixed by auto
    next
      case none
      then have "s' = s2" "r = Err over_budget"
        using less.prems(3) big p1 p2 by (auto simp: loop_eq [of budget c preferred s] Let_def)
      moreover have "largest s = None"
        using none(1) p1 largest_pops [of s] by (cases "largest s") auto
      then have "used s \<le> reserve s" by (rule largest_None [OF less.prems(1)])
      then have "budget < reserve s + c"
        using big usat_add_le [of "used s" c] by linarith
      ultimately show ?thesis using evict_trans [OF e1 e2] by simp
    qed
  qed
qed

text \<open>Making room is a sequence of removals.\<close>

lemma loop_closed:
  assumes pop: "\<And>s k. Q s (snd (pop k s))"
    and trans: "\<And>a b c. Q a b \<Longrightarrow> Q b c \<Longrightarrow> Q a c" and refl: "\<And>s. Q s s"
  shows "Q s (fst (loop budget c preferred s))"
proof (induction "left s" arbitrary: s rule: less_induct)
  case less
  let ?victim = "case largest s of Some v \<Rightarrow> v | None \<Rightarrow> preferred"
  obtain b1 s1 where p1: "pop ?victim s = (b1, s1)" by force
  obtain b2 s2 where p2: "pop preferred s1 = (b2, s2)" by force
  have q: "Q s s1" "Q s1 s2" using pop [of s ?victim] pop [of s1 preferred] p1 p2 by simp_all
  have "left s1 < left s" if b1 using pop_shrinks [OF p1] that by simp
  moreover have "left s2 < left s" if "\<not> b1" b2
    using pop_shrinks [OF p1] pop_shrinks [OF p2] that by simp
  ultimately show ?case
    using less [of s1] less [of s2] q p1 p2
    by (subst loop_eq) (auto simp: Let_def refl split: bool.splits intro: trans)
qed

lemma room_result:
  assumes "wf s" and "budget < usize_limit - 1"
    and "(if c > budget then (s, Err over_budget) else loop budget c preferred s) = (s', r)"
  shows "evict s s' \<and>
    (r = Ok () \<and> used s' + c \<le> budget \<or> r = Err over_budget \<and> budget < reserve s + c)"
  using assms loop_result [of s budget c preferred s' r] evict_refl [OF assms(1)] by (auto split: if_splits)

end

lemma push_prioritized_bytes:
  assumes "bd_wf cost esize d"
  shows "bd_cur_bytes (fst (push_back_prioritized cost esize prio v d)) \<le> bd_cur_bytes d + cost v"
  using assms
proof (cases rule: push_prioritized_cases [where prio = prio and v = v])
  case (stored n cap)
  then show ?thesis using total_take_le [of cost n "bd_q d"] bd_wfD(1) [OF assms]
    by (simp add: total_insert_prio)
next
  case (full n)
  then show ?thesis using total_take_le [of cost n "bd_q d"] bd_wfD(1) [OF assms] by simp
qed simp

text \<open>
  What the item queues have in common: a place in the state whose bytes count once against the
  shared budget.
\<close>

locale shared_queue = shared_budget used reserve wf evict pop largest left loop
  for used :: "'s \<Rightarrow> nat" and reserve wf evict and pop :: "'k \<Rightarrow> 's \<Rightarrow> bool \<times> 's" and largest left loop +
  fixes get :: "'s \<Rightarrow> 'a bounded_deque"
    and put :: "'a bounded_deque \<Rightarrow> 's \<Rightarrow> 's"
    and cost :: "'a \<Rightarrow> nat"
    and esize :: nat
  assumes get_put: "get (put q s) = q"
    and get_wf: "wf s \<Longrightarrow> bd_wf cost esize (get s)"
    and put_wf: "wf s \<Longrightarrow> bd_wf cost esize q \<Longrightarrow> wf (put q s)"
    and put_bytes: "bd_cur_bytes q \<le> bd_cur_bytes (get s) + c \<Longrightarrow> used s + c \<le> b \<Longrightarrow>
      b < usize_limit - 1 \<Longrightarrow> used (put q s) \<le> b"
    and put_reserve: "reserve (put q s) = reserve s"
begin

lemma push_result:
  assumes "wf s" and "budget < usize_limit - 1"
    and "sthen (if cost it > budget then (s, Err over_budget) else loop budget (cost it) kind s) (\<lambda>_ s.
      case push_back_prioritized cost esize prio it (get s) of (q, r) \<Rightarrow> (put q s, r)) = (s', r)"
  shows "wf s' \<and> (\<forall>m. r \<noteq> Panic m) \<and>
    (r = Ok () \<longrightarrow> it \<in> set (bd_q (get s')) \<and> used s' \<le> budget) \<and>
    used s' \<le> max (used s) budget \<and> reserve s' = reserve s"
proof -
  let ?room = "if cost it > budget then (s, Err over_budget) else loop budget (cost it) kind s"
  obtain s1 r1 where room: "?room = (s1, r1)" by (cases ?room) blast
  note e = room_result [OF assms(1,2) room]
  have w1: "wf s1" using e assms(1) by (blast intro: evict_wf)
  have le: "used s1 \<le> used s" using e assms(1) by (blast intro: evict_used)
  have res: "reserve s1 = reserve s" using e by (blast intro: evict_reserve)
  show ?thesis
  proof (cases "r1 = Ok ()")
    case False
    then show ?thesis using e w1 le res assms(3) unfolding room by auto
  next
    case True
    let ?p = "push_back_prioritized cost esize prio it (get s1)"
    note wt = get_wf [OF w1]
    have s': "s' = put (fst ?p) s1" "r = snd ?p"
      using True assms(3) unfolding room by (auto split: prod.splits)
    have "used s' \<le> budget"
      unfolding s' using push_prioritized_bytes [OF wt] _ assms(2) by (rule put_bytes) (use e True in auto)
    then show ?thesis
      using put_wf [OF w1 prioritized.push_inv [OF wt]] prioritized.push_stores [OF wt]
        prioritized.push_no_panic [OF wt] res by (auto simp: s' get_put put_reserve)
  qed
qed

end

end
