(* ===== verification/Router_State_Laws.thy ===== *)
theory Router_State_Laws
  imports Shared_Budget
begin

text \<open>
  Laws of the router's shared budget. \<open>evicted L st st'\<close> says that \<open>st'\<close> is \<open>st\<close> with items
  taken from the front of the queues, from the front of the reliable buffers and from the discovery
  table, and nothing else changed; making room only ever evicts in this sense.
\<close>

definition queues_wf :: "layout \<Rightarrow> router_inner \<Rightarrow> bool" where
  "queues_wf L st \<longleftrightarrow>
     bd_wf (rx_item_byte_cost L) (size_rx_item L) (received_queue st) \<and>
     bd_wf (tx_queued_byte_cost L) (size_tx_queued L) (transmit_queue st) \<and>
     bd_wf id_byte_cost 8 (recent_rx st)"

lemma queues_wfD:
  assumes "queues_wf L st"
  shows "bd_wf (rx_item_byte_cost L) (size_rx_item L) (received_queue st)"
    "bd_wf (tx_queued_byte_cost L) (size_tx_queued L) (transmit_queue st)"
    "bd_wf id_byte_cost 8 (recent_rx st)"
  using assms by (simp_all add: queues_wf_def)

section \<open>Eviction\<close>

definition buffer_suffix :: "(nat \<times> u32) \<times> reliable_rx_state \<Rightarrow> (nat \<times> u32) \<times> reliable_rx_state \<Rightarrow> bool" where
  "buffer_suffix e e' \<longleftrightarrow> fst e' = fst e \<and> (\<exists>j. snd e' = (snd e)\<lparr>rrx_buffered := drop j (rrx_buffered (snd e))\<rparr>)"

definition evicted :: "layout \<Rightarrow> router_inner \<Rightarrow> router_inner \<Rightarrow> bool" where
  "evicted L st st' \<longleftrightarrow>
     (\<exists>n m k rel P.
        st' = st\<lparr>received_queue := bd_set (rx_item_byte_cost L) (drop n (bd_q (received_queue st))) (received_queue st),
                 transmit_queue := bd_set (tx_queued_byte_cost L) (drop m (bd_q (transmit_queue st))) (transmit_queue st),
                 recent_rx := bd_set id_byte_cost (drop k (bd_q (recent_rx st))) (recent_rx st),
                 reliable_rx := rel, discovery_routes := filter P (discovery_routes st)\<rparr> \<and>
        list_all2 buffer_suffix (reliable_rx st) rel)"

lemma evictedI:
  assumes "st' = st\<lparr>received_queue := bd_set (rx_item_byte_cost L) (drop n (bd_q (received_queue st))) (received_queue st),
      transmit_queue := bd_set (tx_queued_byte_cost L) (drop m (bd_q (transmit_queue st))) (transmit_queue st),
      recent_rx := bd_set id_byte_cost (drop k (bd_q (recent_rx st))) (recent_rx st),
      reliable_rx := rel, discovery_routes := filter P (discovery_routes st)\<rparr>"
    and "list_all2 buffer_suffix (reliable_rx st) rel"
  shows "evicted L st st'"
  using assms unfolding evicted_def by blast

lemma buffer_suffix_refl: "buffer_suffix e e"
  unfolding buffer_suffix_def by (intro conjI exI [of _ 0]) simp_all

lemma buffer_suffix_trans: "buffer_suffix a b \<Longrightarrow> buffer_suffix b c \<Longrightarrow> buffer_suffix a c"
  by (force simp: buffer_suffix_def)

lemma evicted_refl: "queues_wf L st \<Longrightarrow> evicted L st st"
  by (rule evictedI [where n = 0 and m = 0 and k = 0 and rel = "reliable_rx st" and P = "\<lambda>_. True"])
    (auto simp: queues_wf_def bd_set_self buffer_suffix_refl list.rel_refl)

lemma evicted_trans:
  assumes "evicted L a b" and "evicted L b c"
  shows "evicted L a c"
proof -
  from assms obtain n m k rel P n' m' k' rel' P' where
    b: "b = a\<lparr>received_queue := bd_set (rx_item_byte_cost L) (drop n (bd_q (received_queue a))) (received_queue a),
       transmit_queue := bd_set (tx_queued_byte_cost L) (drop m (bd_q (transmit_queue a))) (transmit_queue a),
       recent_rx := bd_set id_byte_cost (drop k (bd_q (recent_rx a))) (recent_rx a),
       reliable_rx := rel, discovery_routes := filter P (discovery_routes a)\<rparr>"
    "list_all2 buffer_suffix (reliable_rx a) rel"
    and c: "c = b\<lparr>received_queue := bd_set (rx_item_byte_cost L) (drop n' (bd_q (received_queue b))) (received_queue b),
       transmit_queue := bd_set (tx_queued_byte_cost L) (drop m' (bd_q (transmit_queue b))) (transmit_queue b),
       recent_rx := bd_set id_byte_cost (drop k' (bd_q (recent_rx b))) (recent_rx b),
       reliable_rx := rel', discovery_routes := filter P' (discovery_routes b)\<rparr>"
    "list_all2 buffer_suffix (reliable_rx b) rel'"
    unfolding evicted_def by blast
  have "list_all2 buffer_suffix (reliable_rx a) rel'"
    using list_all2_trans [OF _ b(2), of buffer_suffix buffer_suffix rel'] c(2) b(1) buffer_suffix_trans by simp
  then show ?thesis
    unfolding c(1) b(1)
    by (intro evictedI [where n = "n' + n" and m = "m' + m" and k = "k' + k" and rel = rel' and P = "\<lambda>x. P x \<and> P' x"])
      (simp_all add: conj_commute)
qed

lemma evicted_queues_wf: "evicted L st st' \<Longrightarrow> queues_wf L st \<Longrightarrow> queues_wf L st'"
  by (auto simp: evicted_def queues_wf_def intro: bd_wf_drop)

lemma evicted_fixed:
  assumes "evicted L st st'"
  shows "bd_max_bytes (received_queue st') = bd_max_bytes (received_queue st)"
    "bd_max_bytes (transmit_queue st') = bd_max_bytes (transmit_queue st)"
    "bd_max_bytes (recent_rx st') = bd_max_bytes (recent_rx st)"
    "sides st' = sides st" "reliable_tx st' = reliable_tx st"
  using assms by (auto simp: evicted_def)

text \<open>One removal.\<close>

lemma pop_front_evicts:
  "bd_wf cost esize d \<Longrightarrow> \<exists>n. snd (pop_front cost d) = bd_set cost (drop n (bd_q d)) d"
proof (cases "bd_q d")
  case Nil
  assume "bd_wf cost esize d"
  then have "snd (pop_front cost d) = bd_set cost (drop 0 (bd_q d)) d"
    using Nil bd_set_self [of cost esize d] by (simp add: pop_front_def)
  then show ?thesis by blast
next
  case (Cons v q)
  assume "bd_wf cost esize d"
  then have "snd (pop_front cost d) = bd_set cost (drop 1 (bd_q d)) d"
    using Cons by (simp add: pop_front_set)
  then show ?thesis by blast
qed

lemma pop_buffered_suffix: "buffer_suffix (key, rx) (key, pop_buffered rx)"
  unfolding buffer_suffix_def pop_buffered_def
  by (cases "rrx_buffered rx") (auto intro: exI [of _ 0] exI [of _ 1])

lemma bt_modify_suffix: "list_all2 buffer_suffix m (bt_modify key pop_buffered m)"
  by (induction m) (auto simp: bt_modify_def buffer_suffix_refl pop_buffered_suffix)

lemma pop_shared_evicts:
  assumes "queues_wf L st"
  shows "evicted L st (snd (pop_shared_queue_item L k st))"
proof -
  note wf = queues_wfD [OF assms]
  have keep: "bd_set (rx_item_byte_cost L) (bd_q (received_queue st)) (received_queue st) = received_queue st"
    "bd_set (tx_queued_byte_cost L) (bd_q (transmit_queue st)) (transmit_queue st) = transmit_queue st"
    "bd_set id_byte_cost (bd_q (recent_rx st)) (recent_rx st) = recent_rx st"
    using wf by (auto intro: bd_set_self)
  have same: "list_all2 buffer_suffix (reliable_rx st) (reliable_rx st)"
    by (simp add: buffer_suffix_refl list.rel_refl)
  show ?thesis
  proof (cases k)
    case Received
    obtain n where "snd (pop_front (rx_item_byte_cost L) (received_queue st)) =
      bd_set (rx_item_byte_cost L) (drop n (bd_q (received_queue st))) (received_queue st)"
      using pop_front_evicts [OF wf(1)] by blast
    with same keep show ?thesis unfolding Received
      by (intro evictedI [where n = n and m = 0 and k = 0 and rel = "reliable_rx st" and P = "\<lambda>_. True"])
        (simp_all add: case_prod_beta)
  next
    case Transmit
    obtain n where "snd (pop_front (tx_queued_byte_cost L) (transmit_queue st)) =
      bd_set (tx_queued_byte_cost L) (drop n (bd_q (transmit_queue st))) (transmit_queue st)"
      using pop_front_evicts [OF wf(2)] by blast
    with same keep show ?thesis unfolding Transmit
      by (intro evictedI [where n = 0 and m = n and k = 0 and rel = "reliable_rx st" and P = "\<lambda>_. True"])
        (simp_all add: case_prod_beta)
  next
    case Recent
    obtain n where "snd (pop_front id_byte_cost (recent_rx st)) =
      bd_set id_byte_cost (drop n (bd_q (recent_rx st))) (recent_rx st)"
      using pop_front_evicts [OF wf(3)] by blast
    with same keep show ?thesis unfolding Recent
      by (intro evictedI [where n = 0 and m = 0 and k = n and rel = "reliable_rx st" and P = "\<lambda>_. True"])
        (simp_all add: case_prod_beta)
  next
    case ReliableRxBuffer
    with same keep show ?thesis
      by (intro evictedI [where n = 0 and m = 0 and k = 0
            and rel = "reliable_rx (snd (pop_shared_queue_item L k st))" and P = "\<lambda>_. True"])
        (auto simp add: pop_reliable_rx_buffered_def bt_modify_suffix split: prod.splits option.splits)
  next
    case DiscoveryRoutes
    show ?thesis
    proof (cases "min_by_key (\<lambda>(_, route). dsd_last_seen_ms route) (discovery_routes st)")
      case None
      then show ?thesis using DiscoveryRoutes evicted_refl [OF assms] by (simp add: pop_discovery_route_def)
    next
      case (Some e)
      with same keep DiscoveryRoutes show ?thesis
        by (intro evictedI [where n = 0 and m = 0 and k = 0 and rel = "reliable_rx st" and P = "\<lambda>p. fst p \<noteq> fst e"])
          (simp_all add: pop_discovery_route_def bt_remove_def split: prod.splits)
    qed
  qed
qed

section \<open>The largest queue\<close>

lemma min_add_min: "min (min a M + b) M = min (a + b) (M :: nat)"
  by (simp add: min_def)

lemma shared_used_eq:
  "shared_queue_bytes_used L st =
     min (bd_cur_bytes (received_queue st) + bd_cur_bytes (transmit_queue st) + bd_max_bytes (recent_rx st) +
       reliable_rx_buffered_bytes st + discovery_bytes_used L st) (usize_limit - 1)"
  by (simp only: shared_queue_bytes_used_def usat_add_def min_add_min)

lemma max_by_key_Some: "xs \<noteq> [] \<Longrightarrow> max_by_key key xs \<noteq> None"
proof -
  have *: "fold (\<lambda>x best. case best of None \<Rightarrow> Some x | Some b \<Rightarrow> if key x \<ge> key b then Some x else Some b)
      xs (Some a) \<noteq> None" for xs and a :: 'a
    by (induction xs arbitrary: a) auto
  assume "xs \<noteq> []"
  then show ?thesis by (cases xs) (auto simp: max_by_key_def *)
qed

lemma min_by_key_Some: "xs \<noteq> [] \<Longrightarrow> min_by_key key xs \<noteq> None"
proof -
  have *: "fold (\<lambda>x best. case best of None \<Rightarrow> Some x | Some b \<Rightarrow> if key x < key b then Some x else Some b)
      xs (Some a) \<noteq> None" for xs and a :: 'a
    by (induction xs arbitrary: a) auto
  assume "xs \<noteq> []"
  then show ?thesis by (cases xs) (auto simp: min_by_key_def *)
qed

lemma buffer_len_pop:
  assumes "0 < reliable_rx_buffer_len st"
  shows "fst (pop_reliable_rx_buffered st) \<noteq> None"
proof -
  from assms have "\<exists>rx \<in> set (bt_values (reliable_rx st)). rrx_buffered rx \<noteq> []"
    unfolding reliable_rx_buffer_len_def by (rule contrapos_pp) (simp add: sum_list_eq_0_iff)
  then obtain key rx where "(key, rx) \<in> set (reliable_rx st)" "rrx_buffered rx \<noteq> []"
    by (force simp: bt_values_def)
  then have "find (\<lambda>(_, rx). rrx_buffered rx \<noteq> []) (reliable_rx st) \<noteq> None"
    unfolding find_None_iff by fastforce
  then obtain e where e: "find (\<lambda>(_, rx). rrx_buffered rx \<noteq> []) (reliable_rx st) = Some e" by blast
  then have "rrx_buffered (snd e) \<noteq> []" by (cases e) (auto simp: find_Some_iff)
  with e show ?thesis
    by (cases e; cases "rrx_buffered (snd e)") (auto simp: pop_reliable_rx_buffered_def)
qed

lemma buffer_bytes_0: "reliable_rx_buffer_len st = 0 \<Longrightarrow> reliable_rx_buffered_bytes st = 0"
  by (auto simp: reliable_rx_buffer_len_def reliable_rx_buffered_bytes_def buffered_bytes_def bt_values_def)

lemma largest_pops:
  assumes "largest_shared_queue L st = Some v"
  shows "fst (pop_shared_queue_item L v st)"
proof -
  obtain n len where c: "(v, n, len) \<in> {(Received, bd_cur_bytes (received_queue st), length (bd_q (received_queue st))),
         (Transmit, bd_cur_bytes (transmit_queue st), length (bd_q (transmit_queue st))),
         (Recent, 0, 0),
         (ReliableRxBuffer, reliable_rx_buffered_bytes st, reliable_rx_buffer_len st),
         (DiscoveryRoutes, discovery_bytes_used L st, length (discovery_routes st))}" and pos: "n > 0" "len > 0"
    using assms by (auto simp: largest_shared_queue_def Let_def dest!: max_by_key_in split: if_splits)
  show ?thesis
  proof (cases v)
    case Received
    then have "bd_q (received_queue st) \<noteq> []" using c pos by auto
    then show ?thesis using Received by (auto simp: pop_front_def split: list.splits)
  next
    case Transmit
    then have "bd_q (transmit_queue st) \<noteq> []" using c pos by auto
    then show ?thesis using Transmit by (auto simp: pop_front_def split: list.splits)
  next
    case Recent
    then show ?thesis using c pos by auto
  next
    case ReliableRxBuffer
    then show ?thesis using c pos buffer_len_pop [of st] by (auto split: prod.splits)
  next
    case DiscoveryRoutes
    then have "discovery_routes st \<noteq> []" using c pos by auto
    from min_by_key_Some [OF this] DiscoveryRoutes show ?thesis
      by (auto simp: pop_discovery_route_def split: option.splits)
  qed
qed

lemma largest_None:
  assumes "queues_wf L st" and "largest_shared_queue L st = None"
  shows "shared_queue_bytes_used L st \<le> bd_max_bytes (recent_rx st)"
proof -
  define cands where "cands =
    [(Received, bd_cur_bytes (received_queue st), length (bd_q (received_queue st))),
     (Transmit, bd_cur_bytes (transmit_queue st), length (bd_q (transmit_queue st))),
     (Recent, 0, 0),
     (ReliableRxBuffer, reliable_rx_buffered_bytes st, reliable_rx_buffer_len st),
     (DiscoveryRoutes, discovery_bytes_used L st, length (discovery_routes st))]"
  have "filter (\<lambda>(_, n, len). n > 0 \<and> len > 0) cands = []"
  proof (rule ccontr)
    assume "filter (\<lambda>(_, n, len). n > 0 \<and> len > 0) cands \<noteq> []"
    then show False
      using assms(2) max_by_key_Some [of "filter (\<lambda>(_, n, len). n > 0 \<and> len > 0) cands"
          "\<lambda>(kind, n, _). (n, if kind = ReliableRxBuffer then 0 else 1 :: nat)"]
      unfolding largest_shared_queue_def Let_def cands_def [symmetric] by simp
  qed
  then have "bd_cur_bytes (received_queue st) = 0 \<or> bd_q (received_queue st) = []"
    "bd_cur_bytes (transmit_queue st) = 0 \<or> bd_q (transmit_queue st) = []"
    "reliable_rx_buffered_bytes st = 0 \<or> reliable_rx_buffer_len st = 0"
    "discovery_bytes_used L st = 0 \<or> discovery_routes st = []"
    by (auto simp: cands_def split: if_splits)
  then have "bd_cur_bytes (received_queue st) = 0" "bd_cur_bytes (transmit_queue st) = 0"
    "reliable_rx_buffered_bytes st = 0" "discovery_bytes_used L st = 0"
    using queues_wfD [OF assms(1)]
    by (auto simp: bd_wf_def buffer_bytes_0 discovery_bytes_used_def bt_values_def)
  then show ?thesis by (simp add: shared_used_eq)
qed

lemma buffer_suffix_bytes: "buffer_suffix e e' \<Longrightarrow> buffered_bytes (snd e') \<le> buffered_bytes (snd e)"
  using total_drop_le [of "\<lambda>bs. arc_slice_size + length bs" _ "bt_values (rrx_buffered (snd e))"]
  by (auto simp: buffer_suffix_def buffered_bytes_def bt_values_def drop_map)

lemma evicted_bytes:
  assumes "evicted L st st'" and "queues_wf L st"
  shows "shared_queue_bytes_used L st' \<le> shared_queue_bytes_used L st"
proof -
  from assms(1) obtain n m k rel P where
    st': "st' = st\<lparr>received_queue := bd_set (rx_item_byte_cost L) (drop n (bd_q (received_queue st))) (received_queue st),
       transmit_queue := bd_set (tx_queued_byte_cost L) (drop m (bd_q (transmit_queue st))) (transmit_queue st),
       recent_rx := bd_set id_byte_cost (drop k (bd_q (recent_rx st))) (recent_rx st),
       reliable_rx := rel, discovery_routes := filter P (discovery_routes st)\<rparr>"
    and rel: "list_all2 buffer_suffix (reliable_rx st) rel"
    unfolding evicted_def by blast
  note wf = queues_wfD [OF assms(2)]
  have "bd_cur_bytes (received_queue st') \<le> bd_cur_bytes (received_queue st)"
    "bd_cur_bytes (transmit_queue st') \<le> bd_cur_bytes (transmit_queue st)"
    using bd_wfD(1) [OF wf(1)] bd_wfD(1) [OF wf(2)] by (simp_all add: st' total_drop_le)
  moreover have "reliable_rx_buffered_bytes st' \<le> reliable_rx_buffered_bytes st"
    using rel unfolding st' reliable_rx_buffered_bytes_def bt_values_def
    by (induction rule: list_all2_induct) (auto intro: add_mono dest: buffer_suffix_bytes)
  moreover have "discovery_bytes_used L st' \<le> discovery_bytes_used L st"
    using total_filter_le [of "\<lambda>e. discovery_route_byte_cost L (snd e)" P "discovery_routes st"]
    by (simp add: st' discovery_bytes_used_def bt_values_def comp_def)
  ultimately show ?thesis by (simp add: shared_used_eq evicted_fixed(3) [OF assms(1)] min_le_iff_disj)
qed

section \<open>Making room and pushing\<close>

interpretation budget: shared_budget "shared_queue_bytes_used L" "\<lambda>st. bd_max_bytes (recent_rx st)" "queues_wf L" "evicted L"
  "pop_shared_queue_item L" "largest_shared_queue L" evictable "make_room_loop L"
  by unfold_locales
    (fact evicted_refl evicted_trans evicted_queues_wf evicted_fixed(3) evicted_bytes pop_shared_evicts
      pop_shared_shrinks largest_pops largest_None make_room_loop.simps)+

lemmas make_room_result = budget.room_result [where budget = "max_queue_budget C" for C, folded make_shared_queue_room_def]

interpretation rxq: shared_queue "shared_queue_bytes_used L" "\<lambda>st. bd_max_bytes (recent_rx st)" "queues_wf L" "evicted L"
  "pop_shared_queue_item L" "largest_shared_queue L" evictable "make_room_loop L"
  received_queue "\<lambda>q st. st\<lparr>received_queue := q\<rparr>" "rx_item_byte_cost L" "size_rx_item L"
  by unfold_locales
    (auto simp: queues_wf_def shared_used_eq reliable_rx_buffered_bytes_def discovery_bytes_used_def min_def
      split: if_splits)

interpretation txq: shared_queue "shared_queue_bytes_used L" "\<lambda>st. bd_max_bytes (recent_rx st)" "queues_wf L" "evicted L"
  "pop_shared_queue_item L" "largest_shared_queue L" evictable "make_room_loop L"
  transmit_queue "\<lambda>q st. st\<lparr>transmit_queue := q\<rparr>" "tx_queued_byte_cost L" "size_tx_queued L"
  by unfold_locales
    (auto simp: queues_wf_def shared_used_eq reliable_rx_buffered_bytes_def discovery_bytes_used_def min_def
      split: if_splits)

lemmas push_received_result = rxq.push_result [where budget = "max_queue_budget C" and prio = rx_priority and kind = Received for C,
  folded make_shared_queue_room_def, folded push_received_def]

lemmas push_transmit_result = txq.push_result [where budget = "max_queue_budget C" and prio = txq_priority and kind = Transmit for C,
  folded make_shared_queue_room_def, folded push_transmit_def]

section \<open>The recent-id cache\<close>

lemma trim_recent_zero: "trim_recent 0 d = None"
proof (rule ccontr)
  assume "trim_recent 0 d \<noteq> None"
  then obtain y where "trim_recent 0 d = Some y" by blast
  then have "(0 :: nat) \<noteq> 0"
    by (rule trim_recent.raw_induct [where P = "\<lambda>cap d y. cap \<noteq> 0", rotated]) (auto split: if_splits)
  then show False by simp
qed

lemma trim_recent_eq:
  assumes "bd_wf id_byte_cost 8 d" and "0 < cap"
  shows "trim_recent cap d = Some (bd_set id_byte_cost (drop (length (bd_q d) + 1 - cap) (bd_q d)) d)"
  using assms(1)
proof (induction "length (bd_q d)" arbitrary: d)
  case 0
  then show ?case using assms(2) bd_set_self [OF 0(2)] by (simp add: trim_recent.simps [of cap d])
next
  case (Suc n)
  show ?case
  proof (cases "cap \<le> length (bd_q d)")
    case False
    then show ?thesis using bd_set_self [OF Suc.prems] by (simp add: trim_recent.simps [of cap d])
  next
    case True
    let ?d = "bd_set id_byte_cost (tl (bd_q d)) d"
    have pop: "snd (pop_front id_byte_cost d) = ?d"
      using Suc.hyps(2) by (subst pop_front_set [OF Suc.prems]) auto
    have "bd_wf id_byte_cost 8 ?d" using bd_wf_drop [OF Suc.prems, of 1] by (simp add: drop_Suc)
    moreover have "n = length (bd_q ?d)" using Suc.hyps(2) by simp
    ultimately have "trim_recent cap ?d = Some (bd_set id_byte_cost (drop (n + 1 - cap) (tl (bd_q d))) d)"
      using Suc.hyps(1) [of ?d] by simp
    moreover have "Suc (n + 1 - cap) = length (bd_q d) + 1 - cap" using Suc.hyps(2) True by simp
    ultimately show ?thesis using True pop by (simp add: trim_recent.simps [of cap d] drop_Suc [symmetric])
  qed
qed

lemma push_recent_None: "max_recent_rx_ids C = 0 \<Longrightarrow> push_recent_rx L C i st = None"
  by (simp add: push_recent_rx_def trim_recent_zero)

lemma make_room_idle:
  "shared_queue_bytes_used L st + c \<le> max_queue_budget C \<Longrightarrow> make_shared_queue_room L C c kind st = (st, Ok ())"
  using usat_add_le [of "shared_queue_bytes_used L st" c]
  by (simp add: make_shared_queue_room_def make_room_loop.simps)

lemma push_recent_result:
  assumes "queues_wf L st" and "0 < max_recent_rx_ids C" and "8 \<le> bd_max_bytes (recent_rx st)"
    and "shared_queue_bytes_used L st \<le> max_queue_budget C"
  shows "\<exists>n cap. push_recent_rx L C i st =
      Some (st\<lparr>recent_rx := (bd_set id_byte_cost (drop n (bd_q (recent_rx st)) @ [i]) (recent_rx st))\<lparr>bd_cap := cap\<rparr>\<rparr>, Ok ()) \<and>
    bd_wf id_byte_cost 8 ((bd_set id_byte_cost (drop n (bd_q (recent_rx st)) @ [i]) (recent_rx st))\<lparr>bd_cap := cap\<rparr>) \<and>
    length (drop n (bd_q (recent_rx st)) @ [i]) \<le> max_recent_rx_ids C \<and>
    (length (bd_q (recent_rx st)) < max_recent_rx_ids C \<and> length (bd_q (recent_rx st)) < bd_max_elems (recent_rx st) \<and>
     8 * (length (bd_q (recent_rx st)) + 1) \<le> bd_max_bytes (recent_rx st) \<longrightarrow> n = 0)"
proof -
  let ?q = "bd_q (recent_rx st)"
  define t where "t = length ?q + 1 - max_recent_rx_ids C"
  define d where "d = bd_set id_byte_cost (drop t ?q) (recent_rx st)"
  note wf = queues_wfD(3) [OF assms(1)]
  have wfd: "bd_wf id_byte_cost 8 d" unfolding d_def by (rule bd_wf_drop [OF wf])
  have "shared_queue_bytes_used L (st\<lparr>recent_rx := d\<rparr>) = shared_queue_bytes_used L st"
    by (simp add: d_def shared_used_eq reliable_rx_buffered_bytes_def discovery_bytes_used_def)
  then have room: "make_shared_queue_room L C 0 Recent (st\<lparr>recent_rx := d\<rparr>) = (st\<lparr>recent_rx := d\<rparr>, Ok ())"
    using assms(4) by (intro make_room_idle) simp
  obtain m cap where push: "push_back id_byte_cost 8 i d = ((bd_set id_byte_cost (drop m (bd_q d) @ [i]) d)\<lparr>bd_cap := cap\<rparr>, Ok ())"
    and least: "\<forall>j<m. bd_max_bytes d < total id_byte_cost (drop j (bd_q d)) + id_byte_cost i \<or> bd_max_elems d \<le> length (drop j (bd_q d))"
    using push_back_set [OF wfd, of i] assms(3) by (auto simp: id_byte_cost_def d_def)
  have len: "length (drop t ?q) < max_recent_rx_ids C" using assms(2) by (simp add: t_def)
  have bytes: "total id_byte_cost xs = 8 * length xs" for xs by (induction xs) (simp_all add: id_byte_cost_def)
  have "push_recent_rx L C i st = Some (st\<lparr>recent_rx := (bd_set id_byte_cost (drop (m + t) ?q @ [i]) (recent_rx st))\<lparr>bd_cap := cap\<rparr>\<rparr>, Ok ())"
    using push unfolding push_recent_rx_def trim_recent_eq [OF wf assms(2)] t_def [symmetric] d_def [symmetric]
    by (simp add: room) (simp add: d_def)
  moreover have "bd_wf id_byte_cost 8 ((bd_set id_byte_cost (drop (m + t) ?q @ [i]) (recent_rx st))\<lparr>bd_cap := cap\<rparr>)"
    using fifo.push_inv [OF wfd, of i] unfolding push by (simp add: d_def)
  moreover have "m + t = 0" if "length ?q < max_recent_rx_ids C" "length ?q < bd_max_elems (recent_rx st)"
    "8 * (length ?q + 1) \<le> bd_max_bytes (recent_rx st)"
    using that least unfolding bytes by (cases m) (auto simp: t_def d_def id_byte_cost_def)
  ultimately show ?thesis using len by (intro exI [of _ "m + t"] exI [of _ cap]) auto
qed

section \<open>Reliable receive buffers\<close>

definition buffer_ok :: "'z config_scheme \<Rightarrow> reliable_rx_state \<Rightarrow> bool" where
  "buffer_ok C rx \<longleftrightarrow> bt_wf (rrx_buffered rx) \<and> length (rrx_buffered rx) \<le> max 1 (reliable_max_pending C)"

definition rx_buffers_ok :: "'z config_scheme \<Rightarrow> router_inner \<Rightarrow> bool" where
  "rx_buffers_ok C st \<longleftrightarrow> bt_wf (reliable_rx st) \<and> list_all (buffer_ok C) (bt_values (reliable_rx st))"

lemma bt_wf_drop: "bt_wf m \<Longrightarrow> bt_wf (drop n m)"
  by (simp add: bt_wf_def drop_map [symmetric] sorted_wrt_drop)

lemma buffer_suffix_ok: "buffer_suffix e e' \<Longrightarrow> buffer_ok C (snd e) \<Longrightarrow> buffer_ok C (snd e')"
  by (auto simp: buffer_suffix_def buffer_ok_def bt_wf_drop)

lemma evicted_buffers_ok:
  assumes "evicted L st st'" and "rx_buffers_ok C st"
  shows "rx_buffers_ok C st'"
proof -
  have rel: "list_all2 buffer_suffix (reliable_rx st) (reliable_rx st')" using assms(1) by (auto simp: evicted_def)
  have "map fst (reliable_rx st') = map fst (reliable_rx st)"
    using rel by (induction rule: list_all2_induct) (auto simp: buffer_suffix_def)
  moreover have "list_all (buffer_ok C) (bt_values (reliable_rx st'))" if "list_all (buffer_ok C) (bt_values (reliable_rx st))"
    using rel that by (induction rule: list_all2_induct) (auto simp: bt_values_def buffer_suffix_ok)
  ultimately show ?thesis using assms(2) by (simp add: rx_buffers_ok_def bt_wf_def)
qed

lemma length_bt_insert: "length (bt_insert k v m) \<le> Suc (length m)"
proof -
  have "length (takeWhile (\<lambda>p. fst p < k) m) + length (dropWhile (\<lambda>p. fst p \<le> k) m) \<le> length m"
    by (induction m) (auto simp: le_SucI)
  then show ?thesis by (simp add: bt_insert_def)
qed

lemma total_bt_insert: "total c (map snd (bt_insert k v m)) \<le> c v + total c (map snd m)"
proof -
  have "total c (map snd (takeWhile (\<lambda>p. fst p < k) m)) + total c (map snd (dropWhile (\<lambda>p. fst p \<le> k) m)) \<le> total c (map snd m)"
    by (induction m) auto
  then show ?thesis by (simp add: bt_insert_def)
qed

lemma total_pop_first: "total c (map snd (snd (bt_pop_first m))) \<le> total c (map snd m)"
  by (cases m) auto

lemma store_buffered_ok:
  assumes "buffer_ok C rx"
  shows "buffer_ok C (store_buffered C seq bs rx)"
    and "buffered_bytes (store_buffered C seq bs rx) \<le> buffered_bytes rx + (arc_slice_size + length bs)"
proof -
  let ?m = "if length (rrx_buffered rx) \<ge> reliable_max_pending C then snd (bt_pop_first (rrx_buffered rx)) else rrx_buffered rx"
  have "bt_wf ?m" using assms bt_pop_first_wf by (auto simp: buffer_ok_def)
  then have "bt_wf (rrx_buffered (store_buffered C seq bs rx))" by (simp add: store_buffered_def bt_wf_insert)
  moreover have "Suc (length ?m) \<le> max 1 (reliable_max_pending C)"
    using assms by (cases "rrx_buffered rx") (auto simp: buffer_ok_def)
  then have "length (rrx_buffered (store_buffered C seq bs rx)) \<le> max 1 (reliable_max_pending C)"
    using length_bt_insert [of seq bs ?m] by (simp add: store_buffered_def)
  ultimately show "buffer_ok C (store_buffered C seq bs rx)" by (simp add: buffer_ok_def)
  show "buffered_bytes (store_buffered C seq bs rx) \<le> buffered_bytes rx + (arc_slice_size + length bs)"
    using total_bt_insert [of "\<lambda>bs. arc_slice_size + length bs" seq bs ?m]
      total_pop_first [of "\<lambda>bs. arc_slice_size + length bs" "rrx_buffered rx"]
    by (auto simp: store_buffered_def buffered_bytes_def bt_values_def split: if_splits)
qed

lemma modify_once:
  assumes "bt_wf m" and "w (f v) \<le> w v + (c :: nat)" and "bt_get m key = Some v"
  shows "sum_list (map w (bt_values (bt_modify key f m))) \<le> sum_list (map w (bt_values m)) + c"
proof -
  have "(key, v) \<in> set m" using assms(1,3) by (simp add: bt_get_in_set)
  then obtain as bs where m: "m = as @ (key, v) # bs" by (meson split_list)
  have "key \<notin> fst ` set as" "key \<notin> fst ` set bs"
    using bt_wf_distinct [OF assms(1)] by (auto simp: m)
  then have "bt_modify key f as = as" "bt_modify key f bs = bs"
    unfolding bt_modify_def by (force intro!: map_idI)+
  then have "bt_modify key f m = as @ (key, f v) # bs" by (simp add: m) (simp add: bt_modify_def)
  then show ?thesis using assms(2) by (simp add: m bt_values_def)
qed

lemma rx_state_mut_facts:
  assumes "rx_buffers_ok C st"
  shows "rx_buffers_ok C (reliable_rx_state_mut key st)"
    and "reliable_rx_buffered_bytes (reliable_rx_state_mut key st) \<le> reliable_rx_buffered_bytes st"
    and "\<exists>rx. bt_get (reliable_rx (reliable_rx_state_mut key st)) key = Some rx \<and> buffer_ok C rx \<and>
      rx = (case bt_get (reliable_rx st) key of Some rx \<Rightarrow> rx | None \<Rightarrow> rx_state_new)"
    and "\<exists>rel. reliable_rx_state_mut key st = st\<lparr>reliable_rx := rel\<rparr>"
proof -
  have wf: "bt_wf (reliable_rx st)" using assms by (simp add: rx_buffers_ok_def)
  have new: "buffer_ok C rx_state_new" "buffered_bytes rx_state_new = 0"
    by (simp_all add: buffer_ok_def rx_state_new_def buffered_bytes_def bt_values_def)
  have ok: "list_all (buffer_ok C) (bt_values (bt_insert key rx_state_new (reliable_rx st)))"
    using assms new(1) by (auto simp: rx_buffers_ok_def list_all_iff bt_values_def set_bt_insert [OF wf])
  show "rx_buffers_ok C (reliable_rx_state_mut key st)"
    using assms ok by (auto simp: reliable_rx_state_mut_def rx_buffers_ok_def bt_wf_insert split: option.splits)
  show "reliable_rx_buffered_bytes (reliable_rx_state_mut key st) \<le> reliable_rx_buffered_bytes st"
    using total_bt_insert [of buffered_bytes key rx_state_new "reliable_rx st"] new(2)
    by (auto simp: reliable_rx_state_mut_def reliable_rx_buffered_bytes_def bt_values_def split: option.splits)
  show "\<exists>rx. bt_get (reliable_rx (reliable_rx_state_mut key st)) key = Some rx \<and> buffer_ok C rx \<and>
      rx = (case bt_get (reliable_rx st) key of Some rx \<Rightarrow> rx | None \<Rightarrow> rx_state_new)"
  proof (cases "bt_get (reliable_rx st) key")
    case None
    then show ?thesis using new(1) wf by (simp add: reliable_rx_state_mut_def bt.get_insert_same)
  next
    case (Some rx)
    then have "(key, rx) \<in> set (reliable_rx st)" using wf by (simp add: bt_get_in_set)
    then have "buffer_ok C rx" using assms by (force simp: rx_buffers_ok_def list_all_iff bt_values_def)
    then show ?thesis using Some by (simp add: reliable_rx_state_mut_def)
  qed
  show "\<exists>rel. reliable_rx_state_mut key st = st\<lparr>reliable_rx := rel\<rparr>"
    unfolding reliable_rx_state_mut_def
    by (cases "bt_get (reliable_rx st) key") (auto intro: exI [of _ "reliable_rx st"])
qed

lemma set_modify: "set (bt_values (bt_modify key f m)) \<subseteq> set (bt_values m) \<union> f ` set (bt_values m)"
  by (force simp: bt_modify_def bt_values_def)

lemma modify_buffers_ok:
  assumes "rx_buffers_ok C st" and "\<And>rx. buffer_ok C rx \<Longrightarrow> buffer_ok C (f rx)"
  shows "rx_buffers_ok C (st\<lparr>reliable_rx := bt_modify key f (reliable_rx st)\<rparr>)"
  using assms set_modify [of key f "reliable_rx st"]
  by (auto simp: rx_buffers_ok_def bt_wf_modify list_all_iff)

lemma buffer_reliable_rx_result:
  assumes "queues_wf L st" and "max_queue_budget C < usize_limit - 1" and "rx_buffers_ok C st"
    and "buffer_reliable_rx L C side ty seq bs st = (st', r)"
  shows "queues_wf L st' \<and> rx_buffers_ok C st' \<and> bd_max_bytes (recent_rx st') = bd_max_bytes (recent_rx st) \<and>
    shared_queue_bytes_used L st' \<le> max (shared_queue_bytes_used L st) (max_queue_budget C) \<and>
    (\<exists>k. bd_q (recent_rx st') = drop k (bd_q (recent_rx st)))"
proof -
  define key where "key = reliable_key C side ty"
  obtain s1 r1 where room: "make_shared_queue_room L C (arc_slice_size + length bs) ReliableRxBuffer st = (s1, r1)" by force
  note e = make_room_result [OF assms(1,2) room]
  have ev: "evicted L st s1" using e by blast
  note w1 = evicted_queues_wf [OF ev assms(1)] and b1 = evicted_buffers_ok [OF ev assms(3)]
  have rec: "\<exists>k. bd_q (recent_rx s1) = drop k (bd_q (recent_rx st))" using ev by (auto simp: evicted_def)
  let ?seen = "case bt_get (reliable_rx st) key of Some rx \<Rightarrow> bt_contains (rrx_buffered rx) seq | None \<Rightarrow> False"
  consider (seen) "?seen" | (full) "\<not> ?seen" "r1 \<noteq> Ok ()" | (stored) "\<not> ?seen" "r1 = Ok ()" by blast
  then show ?thesis
  proof cases
    case seen
    then have "st' = st" using assms(4) by (simp add: buffer_reliable_rx_def Let_def key_def)
    then show ?thesis using assms(1,3) by (auto intro: exI [of _ 0])
  next
    case full
    then have "st' = s1" using assms(4) room e by (auto simp: buffer_reliable_rx_def Let_def key_def)
    then show ?thesis using w1 b1 rec evicted_fixed(3) [OF ev] evicted_bytes [OF ev assms(1)] by auto
  next
    case stored
    let ?s2 = "reliable_rx_state_mut key s1"
    note m = rx_state_mut_facts [OF b1, of key]
    obtain rel where s2: "?s2 = s1\<lparr>reliable_rx := rel\<rparr>" using m(4) by blast
    obtain rx where rx: "bt_get (reliable_rx ?s2) key = Some rx" "buffer_ok C rx" using m(3) by blast
    have st': "st' = ?s2\<lparr>reliable_rx := bt_modify key (store_buffered C seq bs) (reliable_rx ?s2)\<rparr>"
      using stored assms(4) room by (auto simp: buffer_reliable_rx_def Let_def key_def)
    have "reliable_rx_buffered_bytes st' \<le> reliable_rx_buffered_bytes ?s2 + (arc_slice_size + length bs)"
      using modify_once [where w = buffered_bytes and f = "store_buffered C seq bs", OF _ store_buffered_ok(2) [OF rx(2)] rx(1)] m(1)
      by (simp add: st' reliable_rx_buffered_bytes_def rx_buffers_ok_def)
    then have "shared_queue_bytes_used L st' \<le> max_queue_budget C"
      using m(2) e stored(2) assms(2)
      by (simp add: st' s2 shared_used_eq discovery_bytes_used_def min_def split: if_splits)
    moreover have "rx_buffers_ok C st'" unfolding st' by (intro modify_buffers_ok m(1) store_buffered_ok(1))
    moreover have "queues_wf L st'" using w1 by (simp add: st' s2 queues_wf_def)
    ultimately show ?thesis using rec evicted_fixed(3) [OF ev] by (simp add: st' s2)
  qed
qed

section \<open>The queues over time\<close>

text \<open>
  Every way the queues change: the four pushes, the items the processing loops take out, and the calls
  that clear queues.
\<close>

inductive queue_step :: "layout \<Rightarrow> 'z config_scheme \<Rightarrow> router_inner \<Rightarrow> router_inner \<Rightarrow> bool"
  for L :: layout and C :: "'z config_scheme" where
  step_received: "push_received L C it st = (st', r) \<Longrightarrow> queue_step L C st st'"
| step_transmit: "push_transmit L C tx st = (st', r) \<Longrightarrow> queue_step L C st st'"
| step_recent: "push_recent_rx L C i st = Some (st', r) \<Longrightarrow> queue_step L C st st'"
| step_buffer: "buffer_reliable_rx L C side ty seq bs st = (st', r) \<Longrightarrow> queue_step L C st st'"
| step_evict: "pop_shared_queue_item L kind st = (b, st') \<Longrightarrow> queue_step L C st st'"
| step_forget: "queue_step L C st (st\<lparr>recent_rx := remove_value id_byte_cost i (recent_rx st)\<rparr>)"
| step_clear_rx: "queue_step L C st (st\<lparr>received_queue := bd_clear (received_queue st)\<rparr>)"
| step_clear_tx: "queue_step L C st (st\<lparr>transmit_queue := bd_clear (transmit_queue st)\<rparr>)"

inductive reachable :: "layout \<Rightarrow> 'z config_scheme \<Rightarrow> router_inner \<Rightarrow> bool"
  for L :: layout and C :: "'z config_scheme" where
  reach_new: "router_inner_new L C = Ok st \<Longrightarrow> reachable L C st"
| reach_step: "reachable L C st \<Longrightarrow> queue_step L C st st' \<Longrightarrow> reachable L C st'"

text \<open>The sizes a build has: everything that is counted fits the address space.\<close>

definition layout_ok :: "layout \<Rightarrow> 'z config_scheme \<Rightarrow> bool" where
  "layout_ok L C \<longleftrightarrow> size_rx_item L \<le> isize_max \<and> size_tx_queued L \<le> isize_max \<and>
     max_queue_budget C \<le> isize_max \<and> 8 \<le> recent_rx_queue_bytes C \<and> 0 < max_recent_rx_ids C"

definition router_inv :: "layout \<Rightarrow> 'z config_scheme \<Rightarrow> router_inner \<Rightarrow> bool" where
  "router_inv L C st \<longleftrightarrow> queues_wf L st \<and> rx_buffers_ok C st \<and> bd_max_bytes (recent_rx st) = recent_rx_queue_bytes C \<and>
     shared_queue_bytes_used L st \<le> max_queue_budget C \<and> length (bd_q (recent_rx st)) \<le> max_recent_rx_ids C"

lemma layout_okD: "layout_ok L C \<Longrightarrow> max_queue_budget C < usize_limit - 1"
  by (simp add: layout_ok_def isize_max_def usize_limit_def)

lemma recent_bytes_le: "layout_ok L C \<Longrightarrow> recent_rx_queue_bytes C \<le> max_queue_budget C"
  by (simp add: recent_rx_queue_bytes_def Let_def)

lemma bd_new_OkD:
  assumes "bd_new esize max_bytes start grow = (Ok d :: ('e, 'a bounded_deque) outcome)"
    and "max_bytes \<le> isize_max" and "esize \<le> isize_max"
  shows "bd_q d = []" "bd_wf cost esize d" "bd_max_bytes d = max_bytes"
proof -
  have "bd_q d = [] \<and> bd_wf cost esize d \<and> bd_max_bytes d = max_bytes"
    using bd_new_cases [where ?'e = 'e, OF assms(2,3), of start grow cost] assms(1)
    by (cases "start \<le> max_bytes \<and> 0 < max_bytes \<and> \<not> f64_le_one grow") auto
  then show "bd_q d = []" "bd_wf cost esize d" "bd_max_bytes d = max_bytes" by auto
qed

lemma router_inv_new:
  assumes "layout_ok L C" and "router_inner_new L C = Ok st"
  shows "router_inv L C st"
proof -
  let ?r = "max (recent_rx_queue_bytes C) 1"
  have lims: "max_queue_budget C \<le> isize_max" "size_rx_item L \<le> isize_max" "size_tx_queued L \<le> isize_max"
    "?r = recent_rx_queue_bytes C" "?r \<le> isize_max" "8 \<le> isize_max"
    using assms(1) recent_bytes_le [OF assms(1)] by (auto simp: layout_ok_def isize_max_def)
  obtain rx tx recent where
    q: "bd_new (size_rx_item L) (max_queue_budget C) (starting_queue_size C) (queue_grow_step C) = (Ok rx :: (telemetry_error, _) outcome)"
      "bd_new (size_tx_queued L) (max_queue_budget C) (starting_queue_size C) (queue_grow_step C) = (Ok tx :: (telemetry_error, _) outcome)"
      "bd_new 8 ?r ?r (queue_grow_step C) = (Ok recent :: (telemetry_error, _) outcome)"
    and st: "received_queue st = rx" "transmit_queue st = tx" "recent_rx st = recent" "reliable_rx st = []" "discovery_routes st = []"
    using assms(2) by (auto simp: router_inner_new_def outcome_simps)
  note f = bd_new_OkD(1) [OF q(1) lims(1,2)] bd_new_OkD(2) [OF q(1) lims(1,2), of "rx_item_byte_cost L"]
    bd_new_OkD(1) [OF q(2) lims(1,3)] bd_new_OkD(2) [OF q(2) lims(1,3), of "tx_queued_byte_cost L"]
    bd_new_OkD(1) [OF q(3) lims(5,6)] bd_new_OkD(2) [OF q(3) lims(5,6), of id_byte_cost]
    bd_new_OkD(3) [OF q(3) lims(5,6)]
  have "bd_cur_bytes rx = 0" "bd_cur_bytes tx = 0"
    using bd_wfD(1) [OF f(2)] bd_wfD(1) [OF f(4)] by (simp_all add: f(1,3))
  then have "shared_queue_bytes_used L st \<le> max_queue_budget C"
    using recent_bytes_le [OF assms(1)] lims(4) f(7)
    by (simp add: shared_used_eq st reliable_rx_buffered_bytes_def discovery_bytes_used_def bt_values_def min_def)
  then show ?thesis
    using f lims(4) by (simp add: router_inv_def queues_wf_def rx_buffers_ok_def st bt_values_def)
qed

lemma clear_wf: "bd_wf cost esize d \<Longrightarrow> bd_wf cost esize (bd_clear d)"
  by (simp add: bd_wf_def bd_clear_def)

lemma router_invD:
  assumes "router_inv L C st"
  shows "queues_wf L st" "rx_buffers_ok C st" "bd_max_bytes (recent_rx st) = recent_rx_queue_bytes C"
    "shared_queue_bytes_used L st \<le> max_queue_budget C" "length (bd_q (recent_rx st)) \<le> max_recent_rx_ids C"
  using assms by (simp_all add: router_inv_def)

lemma evicted_inv: "evicted L st st' \<Longrightarrow> router_inv L C st \<Longrightarrow> router_inv L C st'"
  using evicted_bytes [of L st st'] evicted_queues_wf [of L st st'] evicted_buffers_ok [of L st st' C]
    evicted_fixed(3) [of L st st']
  by (auto simp: router_inv_def) (auto simp: evicted_def)

lemma push_keeps:
  assumes "queues_wf L st" and "max_queue_budget C < usize_limit - 1"
    and "sthen (make_shared_queue_room L C c kind st) (\<lambda>_ st. case f st of (q, r) \<Rightarrow> (put q st, r)) = (st', r)"
    and "\<And>q s. reliable_rx (put q s) = reliable_rx s \<and> recent_rx (put q s) = recent_rx s"
  shows "\<exists>s1. evicted L st s1 \<and> reliable_rx st' = reliable_rx s1 \<and> recent_rx st' = recent_rx s1"
proof -
  obtain s1 r1 where room: "make_shared_queue_room L C c kind st = (s1, r1)" by force
  with make_room_result [OF assms(1,2) room] assms(3,4) show ?thesis
    by (intro exI [of _ s1]) (auto split: prod.splits)
qed

lemma push_inv:
  assumes "router_inv L C st" and "\<exists>s1. evicted L st s1 \<and> reliable_rx st' = reliable_rx s1 \<and> recent_rx st' = recent_rx s1"
    and "queues_wf L st'" and "shared_queue_bytes_used L st' \<le> max (shared_queue_bytes_used L st) (max_queue_budget C)"
  shows "router_inv L C st'"
  using assms evicted_inv [of L st _ C] by (auto simp: router_inv_def rx_buffers_ok_def)

lemma recent_inv:
  assumes "router_inv L C st" and "bd_wf id_byte_cost 8 d" and "bd_max_bytes d = bd_max_bytes (recent_rx st)"
    and "length (bd_q d) \<le> max_recent_rx_ids C"
  shows "router_inv L C (st\<lparr>recent_rx := d\<rparr>)"
proof -
  have "shared_queue_bytes_used L (st\<lparr>recent_rx := d\<rparr>) = shared_queue_bytes_used L st"
    using assms(3) by (simp add: shared_used_eq reliable_rx_buffered_bytes_def discovery_bytes_used_def)
  then show ?thesis using assms by (simp add: router_inv_def queues_wf_def rx_buffers_ok_def)
qed

lemma queue_step_inv:
  assumes "layout_ok L C" and "queue_step L C st st'" and "router_inv L C st"
  shows "router_inv L C st'"
  using assms(2,3)
proof cases
  case (step_received it r)
  note lim = layout_okD [OF assms(1)] and inv = router_invD [OF assms(3)]
  have "\<exists>s1. evicted L st s1 \<and> reliable_rx st' = reliable_rx s1 \<and> recent_rx st' = recent_rx s1"
    by (rule push_keeps [OF inv(1) lim step_received [unfolded push_received_def]]) simp
  with push_received_result [OF inv(1) lim step_received] show ?thesis by (blast intro: push_inv [OF assms(3)])
next
  case (step_transmit tx r)
  note lim = layout_okD [OF assms(1)] and inv = router_invD [OF assms(3)]
  have "\<exists>s1. evicted L st s1 \<and> reliable_rx st' = reliable_rx s1 \<and> recent_rx st' = recent_rx s1"
    by (rule push_keeps [OF inv(1) lim step_transmit [unfolded push_transmit_def]]) simp
  with push_transmit_result [OF inv(1) lim step_transmit] show ?thesis by (blast intro: push_inv [OF assms(3)])
next
  case (step_recent i r)
  note inv = router_invD [OF assms(3)]
  have "8 \<le> bd_max_bytes (recent_rx st)" "0 < max_recent_rx_ids C"
    using assms(1) inv(3) by (auto simp: layout_ok_def)
  with push_recent_result [OF inv(1) _ _ inv(4), of i] step_recent obtain n cap where
    st': "st' = st\<lparr>recent_rx := (bd_set id_byte_cost (drop n (bd_q (recent_rx st)) @ [i]) (recent_rx st))\<lparr>bd_cap := cap\<rparr>\<rparr>"
    "bd_wf id_byte_cost 8 ((bd_set id_byte_cost (drop n (bd_q (recent_rx st)) @ [i]) (recent_rx st))\<lparr>bd_cap := cap\<rparr>)"
    "length (drop n (bd_q (recent_rx st)) @ [i]) \<le> max_recent_rx_ids C" by auto
  then show ?thesis unfolding st'(1) by (intro recent_inv [OF assms(3)]) auto
next
  case (step_buffer side ty seq bs r)
  note inv = router_invD [OF assms(3)]
  from buffer_reliable_rx_result [OF inv(1) layout_okD [OF assms(1)] inv(2) step_buffer] show ?thesis
    using assms(3) by (auto simp: router_inv_def)
next
  case (step_evict kind b)
  then show ?thesis using pop_shared_evicts [OF router_invD(1) [OF assms(3)], of kind] evicted_inv assms(3) by auto
next
  case (step_forget i)
  note w = queues_wfD(3) [OF router_invD(1) [OF assms(3)]]
  have "bd_wf id_byte_cost 8 (bd_set id_byte_cost (remove1 i (bd_q (recent_rx st))) (recent_rx st))"
    using total_remove1_le [of id_byte_cost i "bd_q (recent_rx st)"] w
    by (intro bd_wf_set) (auto simp: length_remove1 dest: bd_wfD)
  then show ?thesis using router_invD(5) [OF assms(3)] unfolding step_forget remove_value_set [OF w]
    by (intro recent_inv [OF assms(3)]) (auto simp: length_remove1)
next
  case step_clear_rx
  then show ?thesis using assms(3) clear_wf
    by (auto simp: router_inv_def queues_wf_def rx_buffers_ok_def shared_used_eq bd_clear_def
        reliable_rx_buffered_bytes_def discovery_bytes_used_def bd_wf_def min_def split: if_splits)
next
  case step_clear_tx
  then show ?thesis using assms(3) clear_wf
    by (auto simp: router_inv_def queues_wf_def rx_buffers_ok_def shared_used_eq bd_clear_def
        reliable_rx_buffered_bytes_def discovery_bytes_used_def bd_wf_def min_def split: if_splits)
qed

lemma reachable_inv:
  assumes "layout_ok L C" and "reachable L C st"
  shows "router_inv L C st"
  using assms(2)
  by (induction rule: reachable.induct) (auto intro: router_inv_new [OF assms(1)] queue_step_inv [OF assms(1)])

end
