(* ===== verification/Router_Properties.thy ===== *)
theory Router_Properties
  imports Router_State_Laws Sample_Env
begin

text \<open>
  The promises of the router's queues and caches, each with an instance on a router built with the
  sample configuration.
\<close>

definition sample_layout :: layout where
  "sample_layout =
     \<lparr>size_packet = 160, size_rx_item = 184, size_tx_queued = 192, size_sender_state = 80, size_side_state = 80\<rparr>"

definition gps_rx_item :: router_rx_item where
  "gps_rx_item = \<lparr>rx_src = Some 0, rx_data = Item_Packet gps_packet, rx_priority = 100\<rparr>"

lemma sample_queue_fields:
  "max_queue_budget sample_env = 102400" "starting_queue_size sample_env = 128"
  "queue_grow_step sample_env = Fin 3.2" "max_recent_rx_ids sample_env = 128"
  "recent_rx_queue_bytes sample_env = 1024" "reliable_max_pending sample_env = 16"
  by (simp_all add: sample_env_def recent_rx_queue_bytes_def usat_mul_def usize_limit_def)

lemma sample_layout_ok: "layout_ok sample_layout sample_env"
  by (simp add: layout_ok_def sample_layout_def isize_max_def sample_queue_fields)

lemma sample_router: "\<exists>st. router_inner_new sample_layout sample_env = Ok st"
proof -
  have lims: "(102400 :: nat) \<le> isize_max" "size_rx_item sample_layout \<le> isize_max"
    "size_tx_queued sample_layout \<le> isize_max" "(8 :: nat) \<le> isize_max" "(1024 :: nat) \<le> isize_max"
    by (simp_all add: isize_max_def sample_layout_def)
  note new = bd_new_cases [where ?'e = telemetry_error and grow = "Fin 3.2"]
  obtain rx where rx: "bd_new (size_rx_item sample_layout) 102400 128 (Fin 3.2) =
      (Ok rx :: (telemetry_error, router_rx_item bounded_deque) outcome)"
    using new [where ?'a = router_rx_item and cost = "\<lambda>_. 0", OF lims(1,2), of 128] by auto
  obtain tx where tx: "bd_new (size_tx_queued sample_layout) 102400 128 (Fin 3.2) =
      (Ok tx :: (telemetry_error, tx_queued bounded_deque) outcome)"
    using new [where ?'a = tx_queued and cost = "\<lambda>_. 0", OF lims(1,3), of 128] by auto
  obtain recent where recent: "bd_new 8 1024 1024 (Fin 3.2) =
      (Ok recent :: (telemetry_error, u64 bounded_deque) outcome)"
    using new [where ?'a = u64 and cost = "\<lambda>_. 0", OF lims(5,4), of 1024] by auto
  from rx tx recent show ?thesis by (simp add: router_inner_new_def sample_queue_fields outcome_simps)
qed

text \<open>A router whose transmit queue holds two retransmission requests.\<close>

definition busy_router :: router_inner where
  "busy_router =
     \<lparr>sides = [], route_overrides = [], typed_route_overrides = [], route_weights = [], route_priorities = [],
      source_route_modes = [], route_selection_cursors = [], route_stats = [],
      received_queue = \<lparr>bd_q = [], bd_cap = 1, bd_max_bytes = 102400, bd_cur_bytes = 0, bd_max_elems = 556,
        bd_grow_num = 3276, bd_grow_den = 1024\<rparr>,
      transmit_queue = \<lparr>bd_q =
          [\<lparr>txq_item = EndToEndReplay 1, txq_ignore_local = True, txq_priority = 9\<rparr>,
           \<lparr>txq_item = EndToEndReplay 2, txq_ignore_local = True, txq_priority = 5\<rparr>],
        bd_cap = 3, bd_max_bytes = 102400, bd_cur_bytes = 20, bd_max_elems = 533, bd_grow_num = 3276,
        bd_grow_den = 1024\<rparr>,
      recent_rx = \<lparr>bd_q = [7], bd_cap = 128, bd_max_bytes = 1024, bd_cur_bytes = 8, bd_max_elems = 128,
        bd_grow_num = 3276, bd_grow_den = 1024\<rparr>,
      reliable_tx = [], reliable_rx = [], reliable_return_routes = [], reliable_return_route_order = [],
      end_to_end_reliable_tx = [], end_to_end_reliable_tx_order = [], discovery_routes = [],
      discovery_cadence = cadence_default\<rparr>"

lemma busy_router_wf: "queues_wf sample_layout busy_router"
  by (simp add: queues_wf_def busy_router_def bd_wf_def sample_layout_def isize_max_def tx_queued_byte_cost_def
      id_byte_cost_def)

section \<open>The shared budget\<close>

lemma recent_reserve_counted:
  "shared_queue_bytes_used L st < usize_limit - 1 \<Longrightarrow> bd_max_bytes (recent_rx st) \<le> shared_queue_bytes_used L st"
  by (simp add: shared_used_eq min_def split: if_splits)

text \<open>
  C5. Whatever sequence of pushes, evictions and clears a router goes through, its queues, its
  reliable receive buffers, its discovery table and the reserve of its recent-id cache together stay
  within the configured byte budget; every reliable receive buffer holds at most
  \<open>RELIABLE_MAX_PENDING\<close> frames (one when that is zero) and the recent-id cache at most
  \<open>MAX_RECENT_RX_IDS\<close> ids.
\<close>

theorem router_stays_within_budget:
  assumes "layout_ok L C" and "reachable L C st"
  shows "shared_queue_bytes_used L st \<le> max_queue_budget C \<and>
    list_all (\<lambda>rx. length (rrx_buffered rx) \<le> max 1 (reliable_max_pending C)) (bt_values (reliable_rx st)) \<and>
    length (bd_q (recent_rx st)) \<le> max_recent_rx_ids C"
  using reachable_inv [OF assms] by (auto simp: router_inv_def rx_buffers_ok_def buffer_ok_def list_all_iff)

theorem router_stays_within_budget_witness:
  "\<exists>st st' r. router_inner_new sample_layout sample_env = Ok st \<and>
    push_received sample_layout sample_env gps_rx_item st = (st', r) \<and>
    shared_queue_bytes_used sample_layout st' \<le> 102400"
proof -
  obtain st where st: "router_inner_new sample_layout sample_env = Ok st" using sample_router by blast
  obtain st' r where step: "push_received sample_layout sample_env gps_rx_item st = (st', r)" by force
  have "reachable sample_layout sample_env st'"
    by (rule reach_step [OF reach_new [OF st] step_received [OF step]])
  then show ?thesis using st step router_stays_within_budget [OF sample_layout_ok, of st']
    by (auto simp: sample_queue_fields)
qed

text \<open>
  C32. Making room always ends, for any state of the queues, and it fails only when the new item does
  not fit beside the reserve of the recent-id cache; otherwise the item fits afterwards. Whatever it
  evicts from the transmit queue, it takes from the front: with the queue in priority order, every
  evicted item is at least as urgent as every item that stays.
\<close>

theorem room_taken_from_most_urgent:
  assumes "queues_wf L st" and "max_queue_budget C < usize_limit - 1"
    and "prio_sorted txq_priority (bd_q (transmit_queue st))"
  shows "\<exists>st' r lost kept. make_shared_queue_room L C c preferred st = (st', r) \<and>
    bd_q (transmit_queue st) = lost @ kept \<and> bd_q (transmit_queue st') = kept \<and>
    list_all (\<lambda>x. list_all (\<lambda>y. txq_priority y \<le> txq_priority x) kept) lost \<and>
    (if bd_max_bytes (recent_rx st) + c \<le> max_queue_budget C
     then r = Ok () \<and> shared_queue_bytes_used L st' + c \<le> max_queue_budget C
     else r \<noteq> Ok ())"
proof -
  obtain st' r where room: "make_shared_queue_room L C c preferred st = (st', r)" by force
  note res = make_room_result [OF assms(1,2) room]
  then obtain n where n: "bd_q (transmit_queue st') = drop n (bd_q (transmit_queue st))" by (auto simp: evicted_def)
  have "sorted_wrt (\<lambda>x y. txq_priority y \<le> txq_priority x)
      (take n (bd_q (transmit_queue st)) @ drop n (bd_q (transmit_queue st)))"
    using assms(3) by (simp only: prio_sorted_def append_take_drop_id)
  then have "list_all (\<lambda>x. list_all (\<lambda>y. txq_priority y \<le> txq_priority x) (drop n (bd_q (transmit_queue st))))
      (take n (bd_q (transmit_queue st)))"
    unfolding sorted_wrt_append list_all_iff by blast
  moreover have "r \<noteq> Ok ()" if "\<not> bd_max_bytes (recent_rx st) + c \<le> max_queue_budget C"
    using that res evicted_fixed(3) [of L st st'] recent_reserve_counted [of L st'] assms(2) by auto
  ultimately show ?thesis using room n res
    by (intro exI [of _ st'] exI [of _ r] exI [of _ "take n (bd_q (transmit_queue st))"]
        exI [of _ "drop n (bd_q (transmit_queue st))"]) auto
qed

theorem room_taken_from_most_urgent_witness:
  "\<exists>st' lost kept. make_shared_queue_room sample_layout sample_env 101366 Transmit busy_router = (st', Ok ()) \<and>
    bd_q (transmit_queue busy_router) = lost @ kept \<and> bd_q (transmit_queue st') = kept \<and>
    list_all (\<lambda>x. list_all (\<lambda>y. txq_priority y \<le> txq_priority x) kept) lost"
proof -
  have "prio_sorted txq_priority (bd_q (transmit_queue busy_router))"
    by (simp add: prio_sorted_def busy_router_def)
  moreover have "bd_max_bytes (recent_rx busy_router) = 1024" by (simp add: busy_router_def)
  ultimately show ?thesis
    using room_taken_from_most_urgent [OF busy_router_wf, of sample_env 101366 Transmit]
      layout_okD [OF sample_layout_ok]
    by (auto simp: sample_queue_fields)
qed

section \<open>Duplicates\<close>

lemma bd_new_empty: "bd_new esize max_bytes start grow = Ok d \<Longrightarrow> bd_q d = []"
  by (auto simp: bd_new_def Let_def split: if_splits prod.splits)

lemma router_new_recent: "router_inner_new L C = Ok st \<Longrightarrow> bd_q (recent_rx st) = []"
  by (auto simp: router_inner_new_def outcome_simps dest: bd_new_empty)

lemma push_recent_reachable:
  assumes "layout_ok L C" and "reachable L C st"
  shows "\<exists>n cap st'. st' = st\<lparr>recent_rx := (bd_set id_byte_cost (drop n (bd_q (recent_rx st)) @ [i]) (recent_rx st))\<lparr>bd_cap := cap\<rparr>\<rparr> \<and>
    push_recent_rx L C i st = Some (st', Ok ()) \<and> reachable L C st'"
proof -
  note inv = router_invD [OF reachable_inv [OF assms]]
  have "0 < max_recent_rx_ids C" "8 \<le> bd_max_bytes (recent_rx st)" using assms(1) inv(3) by (auto simp: layout_ok_def)
  from push_recent_result [OF inv(1) this inv(4), of i] show ?thesis
    using reach_step [OF assms(2) step_recent] by blast
qed

text \<open>
  The duplicate check always returns. It answers whether the item's identifier is in the cache and
  leaves the identifier in the cache, so that the same item is a duplicate at the next check; a
  duplicate changes nothing, and a new item gives up only the oldest identifiers.
\<close>

theorem duplicate_check_remembers:
  assumes "layout_ok L E" and "reachable L E st" and "get_hash E it = Ok i"
  shows "\<exists>st' n. is_duplicate_pkt L E it st = Some (st', Ok (i \<in> set (bd_q (recent_rx st)))) \<and>
    is_duplicate_pkt L E it st' = Some (st', Ok True) \<and> reachable L E st' \<and>
    (if i \<in> set (bd_q (recent_rx st)) then st' = st
     else bd_q (recent_rx st') = drop n (bd_q (recent_rx st)) @ [i] \<and>
       st' = st\<lparr>recent_rx := recent_rx st'\<rparr>)"
proof (cases "i \<in> set (bd_q (recent_rx st))")
  case True
  then show ?thesis using assms(2,3) by (simp add: is_duplicate_pkt_def bd_contains_def)
next
  case False
  obtain n cap st' where
    st': "st' = st\<lparr>recent_rx := (bd_set id_byte_cost (drop n (bd_q (recent_rx st)) @ [i]) (recent_rx st))\<lparr>bd_cap := cap\<rparr>\<rparr>"
      "push_recent_rx L E i st = Some (st', Ok ())" "reachable L E st'"
    using push_recent_reachable [OF assms(1,2)] by blast
  have "is_duplicate_pkt L E it st = Some (st', Ok False)"
    using False assms(3) st'(2) by (simp add: is_duplicate_pkt_def bd_contains_def)
  moreover have "is_duplicate_pkt L E it st' = Some (st', Ok True)"
    using assms(3) by (simp add: is_duplicate_pkt_def bd_contains_def st'(1))
  moreover have "bd_q (recent_rx st') = drop n (bd_q (recent_rx st)) @ [i]" "st' = st\<lparr>recent_rx := recent_rx st'\<rparr>"
    by (simp_all add: st'(1))
  ultimately show ?thesis using False st'(3) by (intro exI [of _ st'] exI [of _ n]) simp
qed

theorem duplicate_check_remembers_witness:
  "\<exists>st st'. router_inner_new sample_layout sample_env = Ok st \<and>
    is_duplicate_pkt sample_layout sample_env (Item_Packet gps_packet) st = Some (st', Ok False) \<and>
    is_duplicate_pkt sample_layout sample_env (Item_Packet gps_packet) st' = Some (st', Ok True)"
proof -
  obtain st where st: "router_inner_new sample_layout sample_env = Ok st" using sample_router by blast
  then have "bd_q (recent_rx st) = []" by (rule router_new_recent)
  then show ?thesis
    using st duplicate_check_remembers [OF sample_layout_ok reach_new [OF st], of "Item_Packet gps_packet"
        "packet_id sample_env gps_packet"]
    by (auto simp: get_hash_def)
qed

text \<open>
  With \<open>MAX_RECENT_RX_IDS\<close> set to zero the duplicate check of a new item does not return: the
  loop that trims the cache to fewer than zero entries never ends.
\<close>

theorem zero_recent_cap_never_returns:
  assumes "max_recent_rx_ids E = 0" and "get_hash E it = Ok i" and "i \<notin> set (bd_q (recent_rx st))"
  shows "is_duplicate_pkt L E it st = None"
  using assms by (simp add: is_duplicate_pkt_def bd_contains_def push_recent_None)

theorem zero_recent_cap_never_returns_witness:
  "is_duplicate_pkt sample_layout (sample_env\<lparr>max_recent_rx_ids := 0\<rparr>) (Item_Packet gps_packet)
     (busy_router\<lparr>recent_rx := bd_clear (recent_rx busy_router)\<rparr>) = None"
  by (rule zero_recent_cap_never_returns [where i = "packet_id (sample_env\<lparr>max_recent_rx_ids := 0\<rparr>) gps_packet"])
    (simp_all add: get_hash_def bd_clear_def)

end
