(* ===== verification/Router_Routes.thy ===== *)
theory Router_Routes
  imports Router_State
begin

text \<open>
  \<open>src/router.rs\<close>, sides and routes: registering and removing sides, the route policy (overrides,
  weights, priorities, modes), which sides an item may leave through, and which of them are chosen.
  The immutable part of a \<open>Router\<close> (its sender name and its \<open>RouterConfig\<close>) is the record
  \<open>router_node\<close>; the clock is an argument \<open>now_ms\<close>.
\<close>

section \<open>The configuration of a router\<close>

text \<open>A local handler is a foreign function; the node knows its endpoint and what it is called with.\<close>

datatype endpoint_handler_fn = Packet_Handler | Serialized_Handler

record endpoint_handler =
  eh_endpoint :: data_endpoint
  eh_handler :: endpoint_handler_fn

record router_node =
  rn_sender :: bytes
  rn_handlers :: "endpoint_handler list"
  rn_reliable_enabled :: bool
  rn_timesync :: "time_sync_config option"

definition endpoint_is_router_internal :: "data_endpoint \<Rightarrow> bool" where
  "endpoint_is_router_internal ep \<longleftrightarrow> ep = TimeSync \<or> is_discovery_endpoint ep"

definition endpoint_handler_new :: "endpoint_handler_fn \<Rightarrow> data_endpoint \<Rightarrow> ('e, endpoint_handler) outcome" where
  "endpoint_handler_new kind endpoint =
     (if endpoint_is_router_internal endpoint
      then Panic ''reserved internal endpoint handlers must not be user-registered''
      else Ok \<lparr>eh_endpoint = endpoint, eh_handler = kind\<rparr>)"

definition new_packet_handler :: "data_endpoint \<Rightarrow> ('e, endpoint_handler) outcome" where
  "new_packet_handler = endpoint_handler_new Packet_Handler"

definition new_serialized_handler :: "data_endpoint \<Rightarrow> ('e, endpoint_handler) outcome" where
  "new_serialized_handler = endpoint_handler_new Serialized_Handler"

definition router_config_new :: "'z config_scheme \<Rightarrow> endpoint_handler list \<Rightarrow> ('e, router_node) outcome" where
  "router_config_new C handlers =
     (if \<not> list_all (\<lambda>h. \<not> endpoint_is_router_internal (eh_endpoint h)) handlers
      then Panic ''reserved internal endpoint handlers must not be user-registered''
      else Ok \<lparr>rn_sender = device_identifier C, rn_handlers = handlers, rn_reliable_enabled = True,
               rn_timesync = None\<rparr>)"

definition with_reliable_enabled :: "bool \<Rightarrow> router_node \<Rightarrow> router_node" where
  "with_reliable_enabled enabled N = N\<lparr>rn_reliable_enabled := enabled\<rparr>"

definition with_sender :: "bytes \<Rightarrow> router_node \<Rightarrow> router_node" where
  "with_sender sender N = N\<lparr>rn_sender := sender\<rparr>"

definition with_timesync :: "time_sync_config \<Rightarrow> router_node \<Rightarrow> router_node" where
  "with_timesync cfg N = N\<lparr>rn_timesync := Some cfg\<rparr>"

definition is_local_endpoint :: "router_node \<Rightarrow> data_endpoint \<Rightarrow> bool" where
  "is_local_endpoint N ep \<longleftrightarrow> \<not> endpoint_is_router_internal ep \<and> list_ex (\<lambda>h. eh_endpoint h = ep) (rn_handlers N)"

definition has_nonlocal_endpoint :: "'z schema_scheme \<Rightarrow> router_node \<Rightarrow> data_endpoint list \<Rightarrow> bool" where
  "has_nonlocal_endpoint C N eps \<longleftrightarrow> list_ex (\<lambda>ep. \<not> is_local_endpoint N ep \<and> \<not> is_link_local_only C ep) eps"

definition is_internal_control_type :: "data_type \<Rightarrow> bool" where
  "is_internal_control_type ty \<longleftrightarrow>
     ty \<in> {ReliableAck, ReliablePartialAck, ReliablePacketRequest} \<or>
     ty \<in> {TimeSyncAnnounce, TimeSyncRequest, TimeSyncResponse} \<or> is_discovery_type ty"

section \<open>Sides\<close>

definition side_get :: "router_inner \<Rightarrow> nat \<Rightarrow> router_side option" where
  "side_get st side = (if side < length (sides st) then sides st ! side else None)"

definition side_ref :: "router_inner \<Rightarrow> nat \<Rightarrow> router_side telemetry_result" where
  "side_ref st side = ok_or (HandlerError ''router: invalid side id'') (side_get st side)"

definition ensure_side_ingress_enabled :: "router_inner \<Rightarrow> nat \<Rightarrow> unit telemetry_result" where
  "ensure_side_ingress_enabled st side =
     andthen (side_ref st side) (\<lambda>s.
       if opt_ingress_enabled (side_opts s) then Ok ()
       else Err (HandlerError ''router: ingress disabled for side id''))"

definition note_discovery_topology_change :: "u64 \<Rightarrow> router_inner \<Rightarrow> router_inner" where
  "note_discovery_topology_change now_ms st =
     st\<lparr>discovery_cadence := on_topology_change now_ms (discovery_cadence st)\<rparr>"

definition add_side :: "tx_handler_kind \<Rightarrow> bytes \<Rightarrow> router_side_options \<Rightarrow> u64 \<Rightarrow> router_inner \<Rightarrow> nat \<times> router_inner" where
  "add_side handler name opts now_ms st =
     (length (sides st),
      note_discovery_topology_change now_ms
        (st\<lparr>sides := sides st @ [Some \<lparr>side_name = name, side_tx_handler = handler, side_opts = opts\<rparr>]\<rparr>))"

definition add_side_serialized_with_options ::
  "bytes \<Rightarrow> router_side_options \<Rightarrow> u64 \<Rightarrow> router_inner \<Rightarrow> nat \<times> router_inner" where
  "add_side_serialized_with_options name opts now_ms st = add_side Serialized_Tx name opts now_ms st"

definition add_side_packet_with_options ::
  "bytes \<Rightarrow> router_side_options \<Rightarrow> u64 \<Rightarrow> router_inner \<Rightarrow> nat \<times> router_inner" where
  "add_side_packet_with_options name opts now_ms st = add_side Packet_Tx name opts now_ms st"

text \<open>The queued items that only make sense for one destination.\<close>

fun tx_item_is_for :: "nat \<Rightarrow> router_tx_item \<Rightarrow> bool" where
  "tx_item_is_for side (ToSide _ dst _) \<longleftrightarrow> dst = side"
| "tx_item_is_for side (ReliableReplay dst _) \<longleftrightarrow> dst = side"
| "tx_item_is_for side _ \<longleftrightarrow> False"

definition drop_transmit_to :: "layout \<Rightarrow> nat \<Rightarrow> router_inner \<Rightarrow> router_inner" where
  "drop_transmit_to L side st =
     st\<lparr>transmit_queue := bd_retain (tx_queued_byte_cost L) (\<lambda>q. \<not> tx_item_is_for side (txq_item q)) (transmit_queue st)\<rparr>"

text \<open>
  \<open>remove_side\<close>, the part under the state lock; the interrupt-side queue is filtered afterwards
  under its own try-lock.
\<close>

definition remove_side :: "layout \<Rightarrow> nat \<Rightarrow> u64 \<Rightarrow> router_inner \<Rightarrow> router_inner \<times> unit telemetry_result" where
  "remove_side L side now_ms st =
     (if side_get st side = None then (st, Err BadArg)
      else
        (let st = st\<lparr>sides := (sides st)[side := None],
               route_overrides := bt_retain (\<lambda>(s, d) _. s \<noteq> Some side \<and> d \<noteq> side) (route_overrides st),
               typed_route_overrides := bt_retain (\<lambda>(s, _, d) _. s \<noteq> Some side \<and> d \<noteq> side) (typed_route_overrides st),
               route_weights := bt_retain (\<lambda>(s, d) _. s \<noteq> Some side \<and> d \<noteq> side) (route_weights st),
               route_priorities := bt_retain (\<lambda>(s, d) _. s \<noteq> Some side \<and> d \<noteq> side) (route_priorities st),
               source_route_modes := bt_remove (Some side) (source_route_modes st),
               route_selection_cursors := bt_remove (Some side) (route_selection_cursors st),
               route_stats := bt_remove side (route_stats st),
               reliable_return_routes := bt_retain (\<lambda>_ s. s \<noteq> side) (reliable_return_routes st)\<rparr>;
             st = drop_transmit_to L side st;
             st = st\<lparr>received_queue := bd_retain (rx_item_byte_cost L) (\<lambda>q. rx_src q \<noteq> Some side) (received_queue st),
               reliable_tx := bt_retain (\<lambda>(s, _) _. s \<noteq> side) (reliable_tx st),
               reliable_rx := bt_retain (\<lambda>(s, _) _. s \<noteq> side) (reliable_rx st),
               discovery_routes := bt_remove side (discovery_routes st)\<rparr>
         in (note_discovery_topology_change now_ms st, Ok ())))"

definition update_side_opts ::
  "nat \<Rightarrow> (router_side_options \<Rightarrow> router_side_options) \<Rightarrow> router_inner \<Rightarrow> router_inner option" where
  "update_side_opts side f st =
     map_option (\<lambda>s. st\<lparr>sides := (sides st)[side := Some (s\<lparr>side_opts := f (side_opts s)\<rparr>)]\<rparr>) (side_get st side)"

definition set_side_ingress_enabled :: "nat \<Rightarrow> bool \<Rightarrow> u64 \<Rightarrow> router_inner \<Rightarrow> router_inner \<times> unit telemetry_result" where
  "set_side_ingress_enabled side enabled now_ms st =
     (case update_side_opts side (\<lambda>opts. opts\<lparr>opt_ingress_enabled := enabled\<rparr>) st of
        None \<Rightarrow> (st, Err BadArg)
      | Some st \<Rightarrow> (note_discovery_topology_change now_ms st, Ok ()))"

definition set_side_egress_enabled ::
  "layout \<Rightarrow> nat \<Rightarrow> bool \<Rightarrow> u64 \<Rightarrow> router_inner \<Rightarrow> router_inner \<times> unit telemetry_result" where
  "set_side_egress_enabled L side enabled now_ms st =
     (case update_side_opts side (\<lambda>opts. opts\<lparr>opt_egress_enabled := enabled\<rparr>) st of
        None \<Rightarrow> (st, Err BadArg)
      | Some st \<Rightarrow>
          (let st = (if enabled then st else drop_transmit_to L side st)
           in (note_discovery_topology_change now_ms st, Ok ())))"

section \<open>Route policy\<close>

text \<open>The check of both ends that every policy setter starts with.\<close>

definition check_route_ends :: "nat option \<Rightarrow> nat \<Rightarrow> router_inner \<Rightarrow> unit telemetry_result" where
  "check_route_ends src dst st =
     andthen (map_err (\<lambda>_. BadArg) (side_ref st dst)) (\<lambda>_.
       case src of None \<Rightarrow> Ok () | Some s \<Rightarrow> andthen (map_err (\<lambda>_. BadArg) (side_ref st s)) (\<lambda>_. Ok ()))"

definition change_route ::
  "nat option \<Rightarrow> nat \<Rightarrow> (router_inner \<Rightarrow> router_inner) \<Rightarrow> u64 \<Rightarrow> router_inner \<Rightarrow> router_inner \<times> unit telemetry_result" where
  "change_route src dst f now_ms st =
     sthen (st, check_route_ends src dst st) (\<lambda>_ st. (note_discovery_topology_change now_ms (f st), Ok ()))"

definition set_source_route_mode ::
  "nat option \<Rightarrow> route_selection_mode \<Rightarrow> u64 \<Rightarrow> router_inner \<Rightarrow> router_inner \<times> unit telemetry_result" where
  "set_source_route_mode src mode now_ms st =
     sthen (st, case src of None \<Rightarrow> Ok () | Some s \<Rightarrow> andthen (map_err (\<lambda>_. BadArg) (side_ref st s)) (\<lambda>_. Ok ()))
       (\<lambda>_ st.
         (note_discovery_topology_change now_ms
            (st\<lparr>source_route_modes :=
                  (if mode = Fanout then bt_remove src (source_route_modes st)
                   else bt_insert src mode (source_route_modes st)),
                route_selection_cursors := bt_remove src (route_selection_cursors st)\<rparr>), Ok ()))"

definition clear_source_route_mode :: "nat option \<Rightarrow> u64 \<Rightarrow> router_inner \<Rightarrow> router_inner \<times> unit telemetry_result" where
  "clear_source_route_mode src now_ms st = set_source_route_mode src Fanout now_ms st"

definition set_route_weight ::
  "nat option \<Rightarrow> nat \<Rightarrow> u32 \<Rightarrow> u64 \<Rightarrow> router_inner \<Rightarrow> router_inner \<times> unit telemetry_result" where
  "set_route_weight src dst weight =
     change_route src dst (\<lambda>st. st\<lparr>route_weights := bt_insert (src, dst) weight (route_weights st),
       route_selection_cursors := bt_remove src (route_selection_cursors st)\<rparr>)"

definition clear_route_weight :: "nat option \<Rightarrow> nat \<Rightarrow> u64 \<Rightarrow> router_inner \<Rightarrow> router_inner \<times> unit telemetry_result" where
  "clear_route_weight src dst =
     change_route src dst (\<lambda>st. st\<lparr>route_weights := bt_remove (src, dst) (route_weights st),
       route_selection_cursors := bt_remove src (route_selection_cursors st)\<rparr>)"

definition set_route_priority ::
  "nat option \<Rightarrow> nat \<Rightarrow> u32 \<Rightarrow> u64 \<Rightarrow> router_inner \<Rightarrow> router_inner \<times> unit telemetry_result" where
  "set_route_priority src dst priority =
     change_route src dst (\<lambda>st. st\<lparr>route_priorities := bt_insert (src, dst) priority (route_priorities st)\<rparr>)"

definition clear_route_priority :: "nat option \<Rightarrow> nat \<Rightarrow> u64 \<Rightarrow> router_inner \<Rightarrow> router_inner \<times> unit telemetry_result" where
  "clear_route_priority src dst =
     change_route src dst (\<lambda>st. st\<lparr>route_priorities := bt_remove (src, dst) (route_priorities st)\<rparr>)"

definition set_route :: "nat option \<Rightarrow> nat \<Rightarrow> bool \<Rightarrow> u64 \<Rightarrow> router_inner \<Rightarrow> router_inner \<times> unit telemetry_result" where
  "set_route src dst enabled =
     change_route src dst (\<lambda>st. st\<lparr>route_overrides := bt_insert (src, dst) enabled (route_overrides st)\<rparr>)"

definition clear_route :: "nat option \<Rightarrow> nat \<Rightarrow> u64 \<Rightarrow> router_inner \<Rightarrow> router_inner \<times> unit telemetry_result" where
  "clear_route src dst =
     change_route src dst (\<lambda>st. st\<lparr>route_overrides := bt_remove (src, dst) (route_overrides st)\<rparr>)"

definition set_typed_route ::
  "'z schema_scheme \<Rightarrow> nat option \<Rightarrow> data_type \<Rightarrow> nat \<Rightarrow> bool \<Rightarrow> u64 \<Rightarrow> router_inner \<Rightarrow> router_inner \<times> unit telemetry_result" where
  "set_typed_route C src ty dst enabled =
     change_route src dst (\<lambda>st. st\<lparr>typed_route_overrides :=
       bt_insert (src, ty_u32 C ty, dst) enabled (typed_route_overrides st)\<rparr>)"

definition clear_typed_route ::
  "'z schema_scheme \<Rightarrow> nat option \<Rightarrow> data_type \<Rightarrow> nat \<Rightarrow> u64 \<Rightarrow> router_inner \<Rightarrow> router_inner \<times> unit telemetry_result" where
  "clear_typed_route C src ty dst =
     change_route src dst (\<lambda>st. st\<lparr>typed_route_overrides :=
       bt_remove (src, ty_u32 C ty, dst) (typed_route_overrides st)\<rparr>)"

definition default_route_enabled :: "nat option \<Rightarrow> nat \<Rightarrow> bool" where
  "default_route_enabled src dst \<longleftrightarrow> src \<noteq> Some dst"

definition route_allowed :: "'z schema_scheme \<Rightarrow> router_inner \<Rightarrow> nat option \<Rightarrow> data_type option \<Rightarrow> nat \<Rightarrow> bool" where
  "route_allowed C st src ty dst =
     (case side_get st dst of
        None \<Rightarrow> False
      | Some dst_side \<Rightarrow>
          if \<not> opt_egress_enabled (side_opts dst_side) then False
          else if (case src of
                     None \<Rightarrow> False
                   | Some src_id \<Rightarrow>
                       (case side_get st src_id of
                          None \<Rightarrow> True
                        | Some src_side \<Rightarrow> \<not> opt_ingress_enabled (side_opts src_side))) then False
          else if \<not> (case bt_get (route_overrides st) (src, dst) of
                        Some b \<Rightarrow> b
                      | None \<Rightarrow> default_route_enabled src dst) then False
          else
            (case ty of
               None \<Rightarrow> True
             | Some ty \<Rightarrow>
                 if list_ex (\<lambda>(s, t, _). s = src \<and> t = ty_u32 C ty) (bt_keys (typed_route_overrides st))
                 then (case bt_get (typed_route_overrides st) (src, ty_u32 C ty, dst) of
                         Some b \<Rightarrow> b
                       | None \<Rightarrow> False)
                 else True))"

definition side_is_link_local :: "router_inner \<Rightarrow> nat \<Rightarrow> bool" where
  "side_is_link_local st side =
     (case side_get st side of Some s \<Rightarrow> opt_link_local_enabled (side_opts s) | None \<Rightarrow> False)"

definition eligible_side_ids ::
  "'z schema_scheme \<Rightarrow> router_inner \<Rightarrow> nat option \<Rightarrow> data_type option \<Rightarrow> bool \<Rightarrow> nat list" where
  "eligible_side_ids C st src ty restrict_link_local =
     filter (\<lambda>side_id.
       case side_get st side_id of
         None \<Rightarrow> False
       | Some side \<Rightarrow>
           \<not> (restrict_link_local \<and> \<not> opt_link_local_enabled (side_opts side)) \<and>
           route_allowed C st src ty side_id) [0..<length (sides st)]"

section \<open>Selection\<close>

definition route_weight :: "router_inner \<Rightarrow> nat option \<Rightarrow> nat \<Rightarrow> u64" where
  "route_weight st src side =
     ucast (case bt_get (route_weights st) (src, side) of Some w \<Rightarrow> w | None \<Rightarrow> 1)"

definition route_priority :: "router_inner \<Rightarrow> nat option \<Rightarrow> nat \<Rightarrow> u32" where
  "route_priority st src side =
     (case bt_get (route_priorities st) (src, side) of Some p \<Rightarrow> p | None \<Rightarrow> 0)"

definition adaptive_weight :: "router_inner \<Rightarrow> nat \<Rightarrow> u64" where
  "adaptive_weight st side = (case bt_get (route_stats st) side of Some s \<Rightarrow> stats_weight s | None \<Rightarrow> 1)"

text \<open>\<open>entry(src).or_insert(0)\<close>, and the increment of the cursor.\<close>

definition cursor_of :: "router_inner \<Rightarrow> nat option \<Rightarrow> u64" where
  "cursor_of st src = (case bt_get (route_selection_cursors st) src of Some c \<Rightarrow> c | None \<Rightarrow> 0)"

definition advance_cursor :: "nat option \<Rightarrow> router_inner \<Rightarrow> router_inner" where
  "advance_cursor src st =
     st\<lparr>route_selection_cursors := bt_insert src (cursor_of st src + 1) (route_selection_cursors st)\<rparr>"

definition total_weight :: "(nat \<Rightarrow> u64) \<Rightarrow> nat list \<Rightarrow> u64" where
  "total_weight w ss = foldl (\<lambda>acc side. acc + w side) 0 ss"

fun pick_weighted :: "(nat \<Rightarrow> u64) \<Rightarrow> nat list \<Rightarrow> u64 \<Rightarrow> nat list" where
  "pick_weighted w [] r = []"
| "pick_weighted w (side # ss) r =
     (if r < w side then [side] else pick_weighted w ss (r - w side))"

definition apply_adaptive_discovery_selection ::
  "router_inner \<Rightarrow> nat option \<Rightarrow> nat list \<Rightarrow> router_inner \<times> nat list" where
  "apply_adaptive_discovery_selection st src ss =
     (let ss = sort ss;
          unmeasured = filter (\<lambda>side. \<not> bt_contains (route_stats st) side) ss
      in if unmeasured \<noteq> []
         then (advance_cursor src st, [unmeasured ! (unat (cursor_of st src) mod length unmeasured)])
         else
           (let total = total_weight (adaptive_weight st) ss
            in if total = 0 then (st, take 1 ss)
               else (advance_cursor src st, pick_weighted (adaptive_weight st) ss (cursor_of st src mod total))))"

definition apply_route_selection ::
  "router_inner \<Rightarrow> nat option \<Rightarrow> nat list \<Rightarrow> route_selection_origin \<Rightarrow> router_inner \<times> nat list" where
  "apply_route_selection st src ss origin =
     (if length ss \<le> 1 then (st, ss)
      else
        (let selection_mode = bt_get (source_route_modes st) src
         in if selection_mode = None \<and> origin = Discovered
            then apply_adaptive_discovery_selection st src ss
            else
              (case (case selection_mode of Some md \<Rightarrow> md | None \<Rightarrow> Fanout) of
                 Fanout \<Rightarrow> (st, ss)
               | Weighted \<Rightarrow>
                   (let ss = sort ss;
                        total = total_weight (route_weight st src) ss
                    in if total = 0 then (st, [])
                       else (advance_cursor src st,
                             pick_weighted (route_weight st src) ss (cursor_of st src mod total)))
               | Failover \<Rightarrow> (st, take 1 (sort_key (\<lambda>side. (route_priority st src side, side)) ss)))))"

text \<open>The bandwidth sample of a successful transmission; the product is computed in 128 bits.\<close>

definition record_side_tx_sample :: "nat \<Rightarrow> nat \<Rightarrow> u64 \<Rightarrow> u64 \<Rightarrow> router_inner \<Rightarrow> router_inner" where
  "record_side_tx_sample side nbytes started_ms ended_ms st =
     (let sample_ms = max (sat_sub ended_ms started_ms) 1;
          sample_bps = of_nat (min (nbytes * 1000 div unat sample_ms) (2 ^ 64 - 1));
          stats = (case bt_get (route_stats st) side of Some s \<Rightarrow> s | None \<Rightarrow> stats_default)
      in st\<lparr>route_stats := bt_insert side (observe sample_bps ended_ms stats) (route_stats st)\<rparr>)"

end
