(* ===== verification/Router_Plan.thy ===== *)
theory Router_Plan
  imports Router_Routes
begin

text \<open>
  \<open>src/router.rs\<close>, where an item goes: the endpoints and type of an item, the packet id an
  end-to-end acknowledgement is for, the preferred time source of a time-sync packet, and
  \<open>remote_side_plan\<close>, which combines them with the discovery table and the route policy. The
  features \<open>discovery\<close> and \<open>timesync\<close> are on.
\<close>

definition item_route_info :: "env \<Rightarrow> router_item \<Rightarrow> (data_endpoint list \<times> data_type) telemetry_result" where
  "item_route_info E it =
     (case it of
        Item_Packet pkt \<Rightarrow> andthen (packet_validate E pkt) (\<lambda>_. Ok (sort_dedup (pkt_endpoints pkt), pkt_ty pkt))
      | Item_Serialized bs \<Rightarrow> andthen (peek_envelope E bs) (\<lambda>e. Ok (sort_dedup (te_endpoints e), te_ty e)))"

definition endpoints_are_link_local_only :: "'z schema_scheme \<Rightarrow> data_endpoint list \<Rightarrow> bool" where
  "endpoints_are_link_local_only C eps \<longleftrightarrow> eps \<noteq> [] \<and> list_all (is_link_local_only C) eps"

section \<open>End-to-end acknowledgements\<close>

definition END_TO_END_ACK_SENDER :: bytes where "END_TO_END_ACK_SENDER = str ''E2EACK''"
definition END_TO_END_ACK_PREFIX :: bytes where "END_TO_END_ACK_PREFIX = str ''E2EACK:''"

definition starts_with :: "bytes \<Rightarrow> bytes \<Rightarrow> bool" where
  "starts_with pre s \<longleftrightarrow> take (length pre) s = pre"

definition sender_hash :: "bytes \<Rightarrow> u64" where
  "sender_hash sender = hash_bytes_u64 0x517CC1B727220A95 sender"

definition is_end_to_end_ack_sender :: "bytes \<Rightarrow> bool" where
  "is_end_to_end_ack_sender sender \<longleftrightarrow> sender = END_TO_END_ACK_SENDER \<or> starts_with END_TO_END_ACK_PREFIX sender"

definition decode_end_to_end_ack_sender_hash :: "bytes \<Rightarrow> u64 option" where
  "decode_end_to_end_ack_sender_hash sender =
     (if starts_with END_TO_END_ACK_PREFIX sender \<and> drop (length END_TO_END_ACK_PREFIX) sender \<noteq> []
      then Some (sender_hash (drop (length END_TO_END_ACK_PREFIX) sender)) else None)"

definition encode_end_to_end_ack_sender :: "router_node \<Rightarrow> bytes" where
  "encode_end_to_end_ack_sender N = END_TO_END_ACK_PREFIX @ rn_sender N"

definition is_end_to_end_destination_sender :: "bytes \<Rightarrow> bool" where
  "is_end_to_end_destination_sender sender \<longleftrightarrow> sender \<noteq> str ''RELAY'' \<and> \<not> is_end_to_end_ack_sender sender"

definition encode_end_to_end_reliable_ack :: "u64 \<Rightarrow> bytes" where
  "encode_end_to_end_reliable_ack pid = to_le_bytes 8 pid"

definition decode_end_to_end_reliable_ack :: "bytes \<Rightarrow> u64 telemetry_result" where
  "decode_end_to_end_reliable_ack pl =
     (if length pl \<noteq> 8 then Err (Deserialize ''bad reliable e2e ack payload'') else Ok (from_le_bytes pl))"

definition control_target_of_packet :: "packet \<Rightarrow> u64 option telemetry_result" where
  "control_target_of_packet pkt =
     (if pkt_ty pkt \<noteq> ReliableAck \<or> \<not> is_end_to_end_ack_sender (pkt_sender pkt) then Ok None
      else andthen (decode_end_to_end_reliable_ack (payload pkt)) (\<lambda>i. Ok (Some i)))"

definition reliable_control_target_packet_id :: "env \<Rightarrow> router_item \<Rightarrow> u64 option telemetry_result" where
  "reliable_control_target_packet_id E it =
     (case it of
        Item_Packet pkt \<Rightarrow> control_target_of_packet pkt
      | Item_Serialized bs \<Rightarrow> andthen (deserialize_packet E bs) control_target_of_packet)"

section \<open>The plan\<close>

definition is_timesync_type :: "data_type \<Rightarrow> bool" where
  "is_timesync_type ty \<longleftrightarrow> ty \<in> {TimeSyncAnnounce, TimeSyncRequest, TimeSyncResponse}"

definition timesync_source_of_packet ::
  "router_node \<Rightarrow> time_sync_tracker option \<Rightarrow> packet \<Rightarrow> data_type \<Rightarrow> bytes option" where
  "timesync_source_of_packet N tracker pkt ty =
     (if ty = TimeSyncRequest \<and> pkt_sender pkt = rn_sender N
      then Option.bind tracker (\<lambda>t. map_option tss_sender (current_source t))
      else if ty = TimeSyncAnnounce \<or> ty = TimeSyncResponse then Some (pkt_sender pkt)
      else None)"

definition preferred_timesync_route_source ::
  "env \<Rightarrow> router_node \<Rightarrow> time_sync_tracker option \<Rightarrow> router_item \<Rightarrow> data_type \<Rightarrow> bytes option telemetry_result" where
  "preferred_timesync_route_source E N tracker it ty =
     (if \<not> is_timesync_type ty then Ok None
      else
        (case it of
           Item_Packet pkt \<Rightarrow> Ok (timesync_source_of_packet N tracker pkt ty)
         | Item_Serialized bs \<Rightarrow>
             andthen (deserialize_packet E bs) (\<lambda>pkt. Ok (timesync_source_of_packet N tracker pkt ty))))"

definition route_is_fresh :: "u64 \<Rightarrow> u64 \<Rightarrow> bool" where
  "route_is_fresh now_ms last_seen_ms \<longleftrightarrow> \<not> (sat_sub now_ms last_seen_ms > DISCOVERY_ROUTE_TTL_MS)"

text \<open>The sides of the discovery table the loop of \<open>remote_side_plan\<close> does not skip.\<close>

definition usable_discovery_routes ::
  "'z schema_scheme \<Rightarrow> router_inner \<Rightarrow> nat option \<Rightarrow> data_type \<Rightarrow> bool \<Rightarrow> u64 \<Rightarrow> (nat \<times> discovery_side_state) list" where
  "usable_discovery_routes C st exclude ty restrict_link_local now_ms =
     filter (\<lambda>(side, route).
       \<not> (exclude = Some side \<or> \<not> route_is_fresh now_ms (dsd_last_seen_ms route)) \<and>
       \<not> (restrict_link_local \<and> \<not> side_is_link_local st side) \<and>
       route_allowed C st exclude (Some ty) side) (discovery_routes st)"

definition reaches_source :: "bytes option \<Rightarrow> discovery_side_state \<Rightarrow> bool" where
  "reaches_source preferred route =
     (case preferred of Some source \<Rightarrow> source \<in> set (dsd_timesync_sources route) | None \<Rightarrow> False)"

definition remote_side_plan ::
  "env \<Rightarrow> router_node \<Rightarrow> time_sync_tracker option \<Rightarrow> u64 \<Rightarrow> router_item \<Rightarrow> nat option \<Rightarrow> router_inner \<Rightarrow>
     router_inner \<times> nat list telemetry_result" where
  "remote_side_plan E N tracker now_ms it exclude st =
     sthen (st, item_route_info E it) (\<lambda>(eps, ty) st.
     sthen (st, reliable_control_target_packet_id E it) (\<lambda>preferred_packet_id st.
       let flood = (\<lambda>restrict.
             case apply_route_selection st exclude (eligible_side_ids E st exclude (Some ty) restrict) Flood of
               (st, ss) \<Rightarrow> (st, Ok ss))
       in if is_discovery_type ty then flood False
          else
            sthen (st, preferred_timesync_route_source E N tracker it ty) (\<lambda>preferred_source st.
            case preferred_packet_id of
              Some pid \<Rightarrow>
                (st, Ok (case bt_get (reliable_return_routes st) pid of
                   Some side \<Rightarrow> if route_allowed E st exclude (Some ty) side then [side] else []
                 | None \<Rightarrow> []))
            | None \<Rightarrow>
                (let wanted = has_nonlocal_endpoint E N eps \<or> is_timesync_type ty;
                     restrict_link_local = endpoints_are_link_local_only E eps;
                     origin = (if is_reliable_type E ty then Flood else Discovered);
                     fallback =
                       (if restrict_link_local then flood True
                        else if wanted then flood False else (st, Ok []))
                 in if discovery_routes st = [] then fallback
                    else
                      (let routes = usable_discovery_routes E st exclude ty restrict_link_local now_ms;
                           exact_targets = map fst (filter (\<lambda>(_, route). reaches_source preferred_source route) routes);
                           generic_targets =
                             map fst (filter (\<lambda>(_, route). \<not> reaches_source preferred_source route \<and>
                               list_ex (\<lambda>ep. ep \<in> set (dsd_reachable route)) eps) routes);
                           discovered = (\<lambda>targets.
                             case apply_route_selection st exclude targets origin of (st, ss) \<Rightarrow> (st, Ok ss))
                       in if exact_targets \<noteq> [] then discovered exact_targets
                          else if generic_targets \<noteq> [] then discovered generic_targets
                          else fallback)))))"

definition should_route_remote ::
  "env \<Rightarrow> router_node \<Rightarrow> time_sync_tracker option \<Rightarrow> u64 \<Rightarrow> router_item \<Rightarrow> nat option \<Rightarrow> router_inner \<Rightarrow>
     router_inner \<times> bool telemetry_result" where
  "should_route_remote E N tracker now_ms it exclude st =
     sthen (remote_side_plan E N tracker now_ms it exclude st) (\<lambda>ss st. (st, Ok (ss \<noteq> [])))"

text \<open>
  Where a broadcast goes: \<open>tx_item_impl\<close> first asks whether there is a remote side at all and
  then plans again.
\<close>

definition broadcast_targets ::
  "env \<Rightarrow> router_node \<Rightarrow> time_sync_tracker option \<Rightarrow> u64 \<Rightarrow> router_item \<Rightarrow> router_inner \<Rightarrow>
     router_inner \<times> nat list telemetry_result" where
  "broadcast_targets E N tracker now_ms it st =
     sthen (should_route_remote E N tracker now_ms it None st) (\<lambda>send_remote st.
       if \<not> send_remote then (st, Ok []) else remote_side_plan E N tracker now_ms it None st)"

section \<open>Queueing to the planned sides\<close>

definition router_item_priority :: "env \<Rightarrow> router_item \<Rightarrow> u8 telemetry_result" where
  "router_item_priority E it =
     (case it of
        Item_Packet pkt \<Rightarrow> Ok (message_priority E (pkt_ty pkt))
      | Item_Serialized bs \<Rightarrow> andthen (peek_envelope E bs) (\<lambda>e. Ok (message_priority E (te_ty e))))"

definition router_item_priority_bumped :: "'z schema_scheme \<Rightarrow> data_type \<Rightarrow> u8" where
  "router_item_priority_bumped C ty = sat_add (message_priority C ty) 16"

fun push_all_transmit :: "layout \<Rightarrow> 'z config_scheme \<Rightarrow> tx_queued list \<Rightarrow> router_inner \<Rightarrow> router_inner \<times> unit telemetry_result" where
  "push_all_transmit L C [] st = (st, Ok ())"
| "push_all_transmit L C (q # qs) st = sthen (push_transmit L C q st) (\<lambda>_. push_all_transmit L C qs)"

definition enqueue_to_sides ::
  "layout \<Rightarrow> env \<Rightarrow> router_node \<Rightarrow> time_sync_tracker option \<Rightarrow> u64 \<Rightarrow> router_item \<Rightarrow> nat option \<Rightarrow> bool \<Rightarrow> router_inner \<Rightarrow>
     router_inner \<times> unit telemetry_result" where
  "enqueue_to_sides L E N tracker now_ms it exclude ignore_local st =
     sthen (remote_side_plan E N tracker now_ms it exclude st) (\<lambda>ss st.
     sthen (st, router_item_priority E it) (\<lambda>priority.
       push_all_transmit L E
         (map (\<lambda>idx. \<lparr>txq_item = ToSide exclude idx it, txq_ignore_local = ignore_local, txq_priority = priority\<rparr>) ss)))"

end
