(* ===== verification/Router_Route_Laws.thy ===== *)
theory Router_Route_Laws
  imports "HOL-Library.Multiset" Router_Plan
begin

text \<open>
  Laws of route selection: the weighted pick as a division of the cursor's residues among the sides,
  what every selection keeps of the eligible sides, and the policy every plan respects.
\<close>

section \<open>Weights\<close>

definition nat_total :: "(nat \<Rightarrow> u64) \<Rightarrow> nat list \<Rightarrow> nat" where
  "nat_total w ss = sum_list (map (\<lambda>s. unat (w s)) ss)"

lemma nat_total_simps [simp]: "nat_total w [] = 0" "nat_total w (s # ss) = unat (w s) + nat_total w ss"
  by (simp_all add: nat_total_def)

lemma nat_total_sort [simp]: "nat_total w (sort ss) = nat_total w ss"
proof -
  have "mset (map (\<lambda>s. unat (w s)) (sort ss)) = mset (map (\<lambda>s. unat (w s)) ss)" by simp
  then show ?thesis unfolding nat_total_def by (metis sum_mset_sum_list)
qed

lemma foldl_weight: "foldl (\<lambda>acc s. acc + w s) a ss = a + foldl (\<lambda>acc s. acc + (w s :: u64)) 0 ss"
proof (induction ss arbitrary: a)
  case (Cons s ss)
  show ?case using Cons [of "a + w s"] Cons [of "w s"] by simp
qed simp

lemma total_weight_eq: "total_weight w ss = of_nat (nat_total w ss)"
proof (induction ss)
  case (Cons s ss)
  then show ?case using foldl_weight [of w "w s" ss] by (simp add: total_weight_def)
qed (simp add: total_weight_def)

lemma unat_total_weight: "nat_total w ss < 2 ^ 64 \<Longrightarrow> unat (total_weight w ss) = nat_total w ss"
  by (simp add: total_weight_eq unat_of_nat_small)

lemma upt_shift: "[0..<a + b] = [0..<a] @ map (\<lambda>r. r + a) [0..<b]"
  using upt_add_eq_append [of 0 a b] map_add_upt [of a b] by (simp only: add.commute [of b a] zero_le)

text \<open>A residue below the total falls into the share of one side, and the shares are laid end to end.\<close>

lemma pick_weighted_cycle:
  "nat_total w ss < 2 ^ 64 \<Longrightarrow>
   map (\<lambda>r. pick_weighted w ss (of_nat r)) [0..<nat_total w ss] = concat (map (\<lambda>s. replicate (unat (w s)) [s]) ss)"
proof (induction ss)
  case (Cons s ss)
  have below: "pick_weighted w (s # ss) (of_nat r) = [s]" if "r < unat (w s)" for r
    using that unat_u64_bound [of "w s"] by (simp add: word_less_nat_alt unat_of_nat_small)
  have above: "pick_weighted w (s # ss) (of_nat (r + unat (w s))) = pick_weighted w ss (of_nat r)"
    if "r < nat_total w ss" for r
  proof -
    have "unat (of_nat (r + unat (w s)) :: u64) = r + unat (w s)"
      using that Cons.prems by (intro unat_of_nat_small) simp
    then have "\<not> (of_nat (r + unat (w s)) :: u64) < w s" by (simp add: word_less_nat_alt)
    moreover have "(of_nat (r + unat (w s)) :: u64) - w s = of_nat r" by simp
    ultimately show ?thesis by (simp only: pick_weighted.simps if_False)
  qed
  let ?pick = "\<lambda>r. pick_weighted w (s # ss) (of_nat r)"
  have "map ?pick [0..<unat (w s)] = map (\<lambda>_. [s]) [0..<unat (w s)]"
    using below by (intro map_cong refl) (simp only: set_upt atLeastLessThan_iff)
  moreover have "map (\<lambda>r. ?pick (r + unat (w s))) [0..<nat_total w ss] =
      map (\<lambda>r. pick_weighted w ss (of_nat r)) [0..<nat_total w ss]"
    using above by (intro map_cong refl) (simp only: set_upt atLeastLessThan_iff)
  ultimately have "map ?pick [0..<nat_total w (s # ss)] =
      map (\<lambda>_. [s]) [0..<unat (w s)] @ map (\<lambda>r. pick_weighted w ss (of_nat r)) [0..<nat_total w ss]"
    by (simp only: nat_total_simps upt_shift map_append map_map o_def)
  then show ?case using Cons by (simp add: map_replicate_const)
qed simp

lemma map_mod_rotate: "0 < n \<Longrightarrow> map (\<lambda>i. (c + i) mod n) [0..<n] = rotate c [0..<n]"
  by (rule nth_equalityI) (auto simp: nth_rotate)

lemma mset_rotate: "mset (rotate n xs) = mset xs"
proof -
  have "mset (rotate1 ys) = mset ys" for ys :: "'a list" by (cases ys) auto
  then show ?thesis by (induction n arbitrary: xs) (auto simp: rotate_def)
qed

lemma pick_weighted_singleton:
  "unat r < nat_total w ss \<Longrightarrow> nat_total w ss < 2 ^ 64 \<Longrightarrow> \<exists>s \<in> set ss. pick_weighted w ss r = [s]"
proof (induction ss arbitrary: r)
  case (Cons s ss)
  show ?case
  proof (cases "r < w s")
    case False
    then have "unat (r - w s) = unat r - unat (w s)" by (simp add: unat_sub word_less_nat_alt word_le_nat_alt)
    with False Cons.prems have "unat (r - w s) < nat_total w ss" by (auto simp: word_less_nat_alt)
    with Cons.IH [of "r - w s"] Cons.prems False show ?thesis by simp
  qed simp
qed simp

lemma set_pick_weighted: "set (pick_weighted w ss r) \<subseteq> set ss"
  by (induction ss arbitrary: r) auto

section \<open>What a selection keeps\<close>

lemma adaptive_selection_subset: "set (snd (apply_adaptive_discovery_selection st src ss)) \<subseteq> set ss"
proof -
  let ?un = "filter (\<lambda>side. \<not> bt_contains (route_stats st) side) (sort ss)"
  have "?un ! (unat (cursor_of st src) mod length ?un) \<in> set ?un" if "?un \<noteq> []"
    using that by (intro nth_mem mod_less_divisor) blast
  moreover have "set ?un \<subseteq> set ss" by auto
  ultimately show ?thesis
    using set_pick_weighted [of "adaptive_weight st" "sort ss" "cursor_of st src mod total_weight (adaptive_weight st) (sort ss)"]
      set_take_subset [of 1 "sort ss"]
    unfolding apply_adaptive_discovery_selection_def Let_def by (auto simp del: set_filter)
qed

lemma selection_subset: "set (snd (apply_route_selection st src ss origin)) \<subseteq> set ss"
  using adaptive_selection_subset [of st src ss] set_pick_weighted [of "route_weight st src" "sort ss"]
    set_take_subset [of 1 "sort_key (\<lambda>side. (route_priority st src side, side)) ss"]
  unfolding apply_route_selection_def Let_def
  by (auto split: option.splits route_selection_mode.splits)

lemma selection_state:
  "fst (apply_route_selection st src ss origin) = st \<or> fst (apply_route_selection st src ss origin) = advance_cursor src st"
  by (auto simp: apply_route_selection_def apply_adaptive_discovery_selection_def Let_def
      split: option.splits route_selection_mode.splits)

text \<open>The plan depends on the policy, the sides and the tables, none of which a selection changes.\<close>

lemma advance_cursor_fields [simp]:
  "sides (advance_cursor src st) = sides st" "route_overrides (advance_cursor src st) = route_overrides st"
  "typed_route_overrides (advance_cursor src st) = typed_route_overrides st"
  "route_weights (advance_cursor src st) = route_weights st"
  "route_priorities (advance_cursor src st) = route_priorities st"
  "source_route_modes (advance_cursor src st) = source_route_modes st"
  "discovery_routes (advance_cursor src st) = discovery_routes st"
  "reliable_return_routes (advance_cursor src st) = reliable_return_routes st"
  by (simp_all add: advance_cursor_def)

lemma side_get_cursor [simp]: "side_get (advance_cursor src st) side = side_get st side"
  by (simp add: side_get_def)

lemma route_allowed_cursor [simp]: "route_allowed C (advance_cursor src' st) src ty dst = route_allowed C st src ty dst"
  by (simp only: route_allowed_def side_get_cursor advance_cursor_fields)

lemma eligible_iff:
  "side \<in> set (eligible_side_ids C st src ty restrict) \<longleftrightarrow>
     route_allowed C st src ty side \<and> (restrict \<longrightarrow> side_is_link_local st side)"
  by (auto simp: eligible_side_ids_def route_allowed_def side_is_link_local_def side_get_def split: option.splits if_splits)

lemma sorted_eligible: "sorted_wrt (<) (eligible_side_ids C st src ty restrict)"
  unfolding eligible_side_ids_def by (intro sorted_wrt_filter) simp

lemma usable_routes:
  assumes "(side, route) \<in> set (usable_discovery_routes C st exclude ty restrict now_ms)"
  shows "route_allowed C st exclude (Some ty) side" "exclude \<noteq> Some side"
    "restrict \<longrightarrow> side_is_link_local st side" "(side, route) \<in> set (discovery_routes st)"
    "route_is_fresh now_ms (dsd_last_seen_ms route)"
  using assms by (auto simp: usable_discovery_routes_def)

section \<open>A cycle of weighted picks\<close>

text \<open>The sides chosen by \<open>n\<close> selections in a row.\<close>

fun route_picks :: "nat \<Rightarrow> router_inner \<Rightarrow> nat option \<Rightarrow> nat list \<Rightarrow> route_selection_origin \<Rightarrow> nat list list" where
  "route_picks 0 st src ss origin = []"
| "route_picks (Suc n) st src ss origin =
     (case apply_route_selection st src ss origin of (st', p) \<Rightarrow> p # route_picks n st' src ss origin)"

lemma bt_get_insert_here: "bt_get (bt_insert k v m) k = Some v"
proof -
  have "map_of (takeWhile (\<lambda>p. fst p < k) m) k = None"
    by (auto simp: map_of_eq_None_iff dest: set_takeWhileD)
  then show ?thesis by (simp add: bt_get_def bt_insert_def map_add_def)
qed

lemma cursor_advance [simp]: "cursor_of (advance_cursor src st) src = cursor_of st src + 1"
  by (simp add: cursor_of_def) (simp add: advance_cursor_def bt_get_insert_here cursor_of_def)

lemma route_weight_advance [simp]: "route_weight (advance_cursor src' st) src = route_weight st src"
  by (simp add: route_weight_def fun_eq_iff)

lemma weighted_selection:
  assumes "bt_get (source_route_modes st) src = Some Weighted" and "1 < length ss"
    and "0 < nat_total (route_weight st src) ss" and "nat_total (route_weight st src) ss < 2 ^ 64"
  shows "apply_route_selection st src ss origin =
    (advance_cursor src st,
     pick_weighted (route_weight st src) (sort ss) (cursor_of st src mod total_weight (route_weight st src) (sort ss)))"
proof -
  have "unat (total_weight (route_weight st src) (sort ss)) = nat_total (route_weight st src) ss"
    using assms(4) by (simp add: unat_total_weight)
  then have "total_weight (route_weight st src) (sort ss) \<noteq> 0" using assms(3) by auto
  then show ?thesis using assms(1,2) by (simp add: apply_route_selection_def Let_def)
qed

lemma route_picks_eq:
  assumes "bt_get (source_route_modes st) src = Some Weighted" and "1 < length ss"
    and "0 < nat_total (route_weight st src) ss" and "nat_total (route_weight st src) ss < 2 ^ 64"
  shows "route_picks n st src ss origin =
    map (\<lambda>i. pick_weighted (route_weight st src) (sort ss)
      ((cursor_of st src + of_nat i) mod total_weight (route_weight st src) (sort ss))) [0..<n]"
  using assms
proof (induction n arbitrary: st)
  case (Suc n)
  have "[0..<Suc n] = 0 # map Suc [0..<n]" by (simp add: map_Suc_upt upt_conv_Cons)
  with Suc.IH [of "advance_cursor src st"] Suc.prems show ?case
    by (simp add: weighted_selection add.assoc)
qed simp

lemma route_picks_cycle:
  assumes "bt_get (source_route_modes st) src = Some Weighted" and "1 < length ss"
    and "0 < nat_total (route_weight st src) ss" and "nat_total (route_weight st src) ss < 2 ^ 64"
    and "unat (cursor_of st src) + nat_total (route_weight st src) ss \<le> 2 ^ 64"
  shows "mset (route_picks (nat_total (route_weight st src) ss) st src ss origin) =
    mset (concat (map (\<lambda>s. replicate (unat (route_weight st src s)) [s]) (sort ss)))"
proof -
  let ?w = "route_weight st src" and ?c = "cursor_of st src"
  let ?n = "nat_total ?w ss"
  let ?f = "\<lambda>r. pick_weighted ?w (sort ss) (of_nat r)"
  have residue: "(?c + of_nat i) mod total_weight ?w (sort ss) = of_nat ((unat ?c + i) mod ?n)" if "i < ?n" for i
  proof -
    have "unat (?c + of_nat i) = unat ?c + i"
      using that assms(4,5) by (subst unat_add_lem [THEN iffD1]) (simp_all add: unat_of_nat_small)
    moreover have "unat (of_nat ((unat ?c + i) mod ?n) :: u64) = (unat ?c + i) mod ?n"
      using assms(4) mod_less_divisor [OF assms(3), of "unat ?c + i"] by (intro unat_of_nat_small) simp
    ultimately show ?thesis
      using assms(4) by (simp add: word_unat_eq_iff unat_mod unat_total_weight)
  qed
  have "route_picks ?n st src ss origin = map ?f (map (\<lambda>i. (unat ?c + i) mod ?n) [0..<?n])"
    unfolding route_picks_eq [OF assms(1-4)] map_map o_def by (intro map_cong refl) (simp add: residue)
  also have "\<dots> = map ?f (rotate (unat ?c) [0..<?n])" by (simp only: map_mod_rotate [OF assms(3)])
  finally have "mset (route_picks ?n st src ss origin) = mset (map ?f [0..<nat_total ?w (sort ss)])"
    by (simp add: mset_rotate)
  moreover have "nat_total ?w (sort ss) < 2 ^ 64" using assms(4) by simp
  ultimately show ?thesis by (simp only: pick_weighted_cycle)
qed

lemma route_weight_bound: "unat (route_weight st src s) < 2 ^ 32"
proof -
  have "unat (ucast (x :: u32) :: u64) < 2 ^ 32" for x
    using unat_u32_bound [of x] by (simp add: unsigned_ucast_eq take_bit_nat_eq_self)
  then show ?thesis by (simp add: route_weight_def)
qed

lemma route_total_bound: "length ss < 2 ^ 32 \<Longrightarrow> nat_total (route_weight st src) ss < 2 ^ 64"
proof -
  assume l: "length ss < 2 ^ 32"
  have "nat_total (route_weight st src) ss \<le> length ss * (2 ^ 32 - 1)"
    using route_weight_bound [of st src] by (induction ss) (auto simp: add_mono less_eq_Suc_le)
  also have "\<dots> \<le> 2 ^ 32 * (2 ^ 32 - 1)" using l by (intro mult_le_mono1) simp
  also have "\<dots> < (2 :: nat) ^ 64" by simp
  finally show ?thesis .
qed

lemma count_shares:
  "distinct ss \<Longrightarrow> count (mset (concat (map (\<lambda>s. replicate (f s) [s]) ss))) [x] = (if x \<in> set ss then f x else 0)"
  by (induction ss) auto

section \<open>The policy of a plan\<close>

lemma route_allowed_facts:
  assumes "route_allowed C st src (Some ty) d"
  shows "\<exists>s. side_get st d = Some s \<and> opt_egress_enabled (side_opts s)"
    and "src = Some d \<Longrightarrow> bt_get (route_overrides st) (src, d) = Some True"
    and "bt_get (route_overrides st) (src, d) \<noteq> Some False"
    and "bt_get (typed_route_overrides st) (src, ty_u32 C ty, d) \<noteq> Some False"
proof -
  have mem: "list_ex (\<lambda>(s, t, _). s = src \<and> t = ty_u32 C ty) (bt_keys (typed_route_overrides st))"
    if "bt_get (typed_route_overrides st) (src, ty_u32 C ty, d) = Some b" for b
    using map_of_SomeD [OF that [unfolded bt_get_def]] by (force simp: list_ex_iff bt_keys_def)
  show "\<exists>s. side_get st d = Some s \<and> opt_egress_enabled (side_opts s)"
    "src = Some d \<Longrightarrow> bt_get (route_overrides st) (src, d) = Some True"
    "bt_get (route_overrides st) (src, d) \<noteq> Some False"
    using assms by (auto simp: route_allowed_def default_route_enabled_def split: option.splits if_splits)
  show "bt_get (typed_route_overrides st) (src, ty_u32 C ty, d) \<noteq> Some False"
    using assms mem [of False] by (auto simp: route_allowed_def split: option.splits if_splits)
qed

definition plan_ok :: "'z schema_scheme \<Rightarrow> router_inner \<Rightarrow> nat option \<Rightarrow> data_type \<Rightarrow> bool \<Rightarrow>
    router_inner \<times> nat list telemetry_result \<Rightarrow> bool" where
  "plan_ok C st exclude ty restrict plan \<longleftrightarrow>
     (fst plan = st \<or> fst plan = advance_cursor exclude st) \<and>
     (\<forall>ss. snd plan = Ok ss \<longrightarrow> list_all (route_allowed C st exclude (Some ty)) ss \<and>
       (restrict \<longrightarrow> list_all (side_is_link_local st) ss))"

lemma plan_ok_select:
  assumes "list_all (\<lambda>d. route_allowed C st exclude (Some ty) d \<and> (restrict \<longrightarrow> side_is_link_local st d)) targets"
  shows "plan_ok C st exclude ty restrict
    (case apply_route_selection st exclude targets origin of (st, ss) \<Rightarrow> (st, Ok ss))"
  using assms selection_subset [of st exclude targets origin] selection_state [of st exclude targets origin]
  by (auto simp: plan_ok_def case_prod_beta list_all_iff)

lemma plan_ok_flood:
  assumes "restrict \<longrightarrow> narrow"
  shows "plan_ok C st exclude ty restrict
    (case apply_route_selection st exclude (eligible_side_ids C st exclude (Some ty) narrow) Flood of (st, ss) \<Rightarrow> (st, Ok ss))"
  using assms by (intro plan_ok_select) (auto simp: list_all_iff eligible_iff)

lemma plan_ok_none: "plan_ok C st exclude ty restrict (st, Ok [])"
  by (simp add: plan_ok_def)

lemma plan_ok_discovered:
  assumes "restrict \<longrightarrow> narrow"
    and "targets = map fst (filter P (usable_discovery_routes C st exclude ty narrow now_ms))"
  shows "plan_ok C st exclude ty restrict
    (case apply_route_selection st exclude targets origin of (st, ss) \<Rightarrow> (st, Ok ss))"
  using assms by (intro plan_ok_select) (auto simp: list_all_iff dest: usable_routes)

lemma plan_policy:
  assumes "remote_side_plan E N tracker now_ms it exclude st = (st', Ok ss)"
    and "item_route_info E it = Ok (eps, ty)"
  shows "(st' = st \<or> st' = advance_cursor exclude st) \<and> list_all (route_allowed E st exclude (Some ty)) ss \<and>
    (endpoints_are_link_local_only E eps \<and> \<not> is_discovery_type ty \<and>
       reliable_control_target_packet_id E it = Ok None \<longrightarrow> list_all (side_is_link_local st) ss)"
proof -
  let ?restrict = "endpoints_are_link_local_only E eps \<and> \<not> is_discovery_type ty \<and>
    reliable_control_target_packet_id E it = Ok None"
  obtain pid where pid: "reliable_control_target_packet_id E it = Ok pid"
    using assms by (cases "reliable_control_target_packet_id E it") (auto simp: remote_side_plan_def)
  have "plan_ok E st exclude ty ?restrict (st', Ok ss)"
  proof (cases "is_discovery_type ty")
    case True
    then show ?thesis using assms(1) plan_ok_flood [of ?restrict False E st exclude ty]
      unfolding remote_side_plan_def assms(2) pid by simp
  next
    case False
    obtain source where source: "preferred_timesync_route_source E N tracker it ty = Ok source"
      using assms False pid by (cases "preferred_timesync_route_source E N tracker it ty") (auto simp: remote_side_plan_def)
    note plan = assms(1) [unfolded remote_side_plan_def assms(2) pid source sthen_simps prod.case Let_def]
    show ?thesis
    proof (cases pid)
      case (Some i)
      then show ?thesis using plan False pid
        by (auto simp: plan_ok_def source split: option.splits if_splits)
    next
      case None
      show ?thesis
        unfolding plan [symmetric]
        by (simp only: None source False option.case if_False sthen_simps split: if_split)
          (intro conjI impI; (rule plan_ok_none | rule plan_ok_discovered [OF _ refl] | rule plan_ok_flood); blast)
    qed
  qed
  then show ?thesis by (simp add: plan_ok_def)
qed

lemma eligible_cursor [simp]:
  "eligible_side_ids C (advance_cursor src' st) src ty restrict = eligible_side_ids C st src ty restrict"
  by (simp only: eligible_side_ids_def side_get_cursor route_allowed_cursor advance_cursor_fields)

lemma flood_plan:
  assumes "item_route_info E it = Ok (eps, ty)" and "reliable_control_target_packet_id E it = Ok None"
    and "\<not> is_discovery_type ty" and "\<not> is_timesync_type ty" and "has_nonlocal_endpoint E N eps"
    and "\<not> endpoints_are_link_local_only E eps" and "discovery_routes st = []"
  shows "remote_side_plan E N tracker now_ms it exclude st =
    (case apply_route_selection st exclude (eligible_side_ids E st exclude (Some ty) False) Flood of (st, ss) \<Rightarrow> (st, Ok ss))"
  using assms by (simp add: remote_side_plan_def preferred_timesync_route_source_def)

end
