(* ===== verification/Route_Properties.thy ===== *)
theory Route_Properties
  imports Router_Route_Laws Sample_Env
begin

text \<open>The promises of routing, each with an instance on a small router.\<close>

text \<open>A router with two open sides, no learned routes, and no local endpoints.\<close>

definition open_side :: "string \<Rightarrow> router_side" where
  "open_side name = \<lparr>side_name = str name, side_tx_handler = Serialized_Tx, side_opts = side_options_default\<rparr>"

definition two_sided :: router_inner where
  "two_sided =
     \<lparr>sides = [Some (open_side ''A''), Some (open_side ''B'')], route_overrides = [], typed_route_overrides = [],
      route_weights = [], route_priorities = [((None, 0), 5)], source_route_modes = [(None, Weighted)],
      route_selection_cursors = [], route_stats = [],
      received_queue = \<lparr>bd_q = [], bd_cap = 1, bd_max_bytes = 102400, bd_cur_bytes = 0, bd_max_elems = 556,
        bd_grow_num = 3276, bd_grow_den = 1024\<rparr>,
      transmit_queue = \<lparr>bd_q = [], bd_cap = 1, bd_max_bytes = 102400, bd_cur_bytes = 0, bd_max_elems = 533,
        bd_grow_num = 3276, bd_grow_den = 1024\<rparr>,
      recent_rx = \<lparr>bd_q = [], bd_cap = 128, bd_max_bytes = 1024, bd_cur_bytes = 0, bd_max_elems = 128,
        bd_grow_num = 3276, bd_grow_den = 1024\<rparr>,
      reliable_tx = [], reliable_rx = [], reliable_return_routes = [], reliable_return_route_order = [],
      end_to_end_reliable_tx = [], end_to_end_reliable_tx_order = [], discovery_routes = [],
      discovery_cadence = cadence_default\<rparr>"

definition sample_node :: router_node where
  "sample_node = \<lparr>rn_sender = str ''TEST'', rn_handlers = [], rn_reliable_enabled = True, rn_timesync = None\<rparr>"

lemma two_sided_get:
  "side_get two_sided 0 = Some (open_side ''A'')" "side_get two_sided (Suc 0) = Some (open_side ''B'')"
  by (simp_all add: side_get_def two_sided_def)

lemma two_sided_allowed: "route_allowed C two_sided None ty 0" "route_allowed C two_sided None ty (Suc 0)"
  unfolding route_allowed_def two_sided_get
  by (simp_all add: two_sided_def open_side_def side_options_default_def bt_get_def bt_keys_def default_route_enabled_def
      split: option.splits)

lemma two_sided_eligible: "eligible_side_ids C two_sided None ty False = [0, 1]"
proof -
  have "[0..<length (sides two_sided)] = [0, 1]" by (simp add: two_sided_def upt_conv_Cons)
  then show ?thesis by (simp add: eligible_side_ids_def two_sided_get two_sided_allowed)
qed

section \<open>Selection\<close>

text \<open>
  C27. Weighted selection divides the traffic exactly: over one cycle of the cursor, as many selections
  as the weights of the offered sides add up to, every side is chosen exactly as often as its weight
  says, and nothing else is chosen.
\<close>

theorem weighted_selection_is_fair:
  assumes "bt_get (source_route_modes st) src = Some Weighted" and "1 < length ss" and "distinct ss"
    and "length ss < 2 ^ 32" and "n = sum_list (map (\<lambda>s. unat (route_weight st src s)) ss)" and "0 < n"
    and "unat (cursor_of st src) + n \<le> 2 ^ 64"
  shows "length (filter (\<lambda>p. p = [s]) (route_picks n st src ss origin)) =
      (if s \<in> set ss then unat (route_weight st src s) else 0) \<and>
    list_all (\<lambda>p. \<exists>s \<in> set ss. p = [s]) (route_picks n st src ss origin)"
proof -
  have n: "n = nat_total (route_weight st src) ss" using assms(5) by (simp add: nat_total_def)
  have m: "mset (route_picks n st src ss origin) =
      mset (concat (map (\<lambda>s. replicate (unat (route_weight st src s)) [s]) (sort ss)))"
    using route_picks_cycle [OF assms(1,2) _ route_total_bound [OF assms(4)]] assms(6,7) unfolding n by blast
  have "length (filter (\<lambda>p. p = [s]) (route_picks n st src ss origin)) = count (mset (route_picks n st src ss origin)) [s]"
    by (auto simp: count_mset count_list_eq_length_filter intro!: arg_cong [where f = length] filter_cong)
  also have "\<dots> = (if s \<in> set ss then unat (route_weight st src s) else 0)"
    unfolding m using assms(3) count_shares [of "sort ss"] by simp
  finally have c: "length (filter (\<lambda>p. p = [s]) (route_picks n st src ss origin)) =
      (if s \<in> set ss then unat (route_weight st src s) else 0)" .
  have "set (route_picks n st src ss origin) = set (concat (map (\<lambda>s. replicate (unat (route_weight st src s)) [s]) (sort ss)))"
    using m by (metis set_mset_mset)
  then have "list_all (\<lambda>p. \<exists>s \<in> set ss. p = [s]) (route_picks n st src ss origin)"
    unfolding list_all_iff by auto
  with c show ?thesis by blast
qed

theorem weighted_selection_is_fair_witness:
  "length (filter (\<lambda>p. p = [1]) (route_picks 4 (two_sided\<lparr>route_weights := [((None, 0), 3)]\<rparr>) None [0, 1] Flood)) = 1"
proof -
  let ?st = "two_sided\<lparr>route_weights := [((None, 0), 3)]\<rparr>"
  have "bt_get (source_route_modes ?st) None = Some Weighted" "cursor_of ?st None = 0"
    by (simp_all add: two_sided_def bt_get_def cursor_of_def)
  moreover have "unat (route_weight ?st None 0) = 3" "unat (route_weight ?st None 1) = 1"
    by (simp_all add: route_weight_def bt_get_def)
  ultimately show ?thesis
    using weighted_selection_is_fair [of ?st None "[0, 1]" 4 1 Flood] by simp
qed

text \<open>
  Failover selection chooses, of several sides, the one with the least priority number, and the
  lower side id between equal priorities; it changes no state.
\<close>

theorem failover_selects_least_priority:
  assumes "bt_get (source_route_modes st) src = Some Failover" and "1 < length ss"
  shows "\<exists>m \<in> set ss. apply_route_selection st src ss origin = (st, [m]) \<and>
    (\<forall>s \<in> set ss. (route_priority st src m, m) \<le> (route_priority st src s, s))"
proof -
  let ?key = "\<lambda>side. (route_priority st src side, side)"
  obtain m ms where ms: "sort_key ?key ss = m # ms"
    using assms(2) by (cases "sort_key ?key ss") (auto dest: arg_cong [of _ _ length])
  have "set ss = insert m (set ms)" by (metis ms set_sort list.set(2))
  moreover have "sorted (map ?key (m # ms))" using sorted_sort_key [of ?key ss] by (simp only: ms)
  ultimately have "m \<in> set ss" "\<forall>s \<in> set ss. ?key m \<le> ?key s" by auto
  then show ?thesis using assms ms by (auto simp: apply_route_selection_def Let_def)
qed

theorem failover_selects_least_priority_witness:
  "apply_route_selection (two_sided\<lparr>source_route_modes := [(None, Failover)]\<rparr>) None [0, 1] Flood =
     (two_sided\<lparr>source_route_modes := [(None, Failover)]\<rparr>, [1])"
proof -
  let ?st = "two_sided\<lparr>source_route_modes := [(None, Failover)]\<rparr>"
  have "bt_get (source_route_modes ?st) None = Some Failover" by (simp add: bt_get_def)
  moreover have "route_priority ?st None 0 = 5" "route_priority ?st None 1 = 0"
    by (simp_all add: route_priority_def two_sided_def bt_get_def)
  ultimately show ?thesis using failover_selects_least_priority [of ?st None "[0, 1]" Flood] by auto
qed

section \<open>The plan\<close>

text \<open>
  C9. A plan respects the route policy: every side it names is registered with egress enabled, was
  not ruled out by a route or typed-route override, and is the side the item came from only when an
  override says so; an item whose endpoints are all link-local leaves only through link-local sides,
  unless it is a discovery packet or an end-to-end acknowledgement. Planning changes nothing but the
  selection cursor of the source.
\<close>

theorem plan_respects_policy:
  assumes "remote_side_plan E N tracker now_ms it exclude st = (st', Ok ss)"
    and "item_route_info E it = Ok (eps, ty)"
  shows "(st' = st \<or> st' = advance_cursor exclude st) \<and>
    list_all (\<lambda>d. (\<exists>s. side_get st d = Some s \<and> opt_egress_enabled (side_opts s)) \<and>
      bt_get (route_overrides st) (exclude, d) \<noteq> Some False \<and>
      bt_get (typed_route_overrides st) (exclude, ty_u32 E ty, d) \<noteq> Some False \<and>
      (exclude = Some d \<longrightarrow> bt_get (route_overrides st) (exclude, d) = Some True)) ss \<and>
    (endpoints_are_link_local_only E eps \<and> \<not> is_discovery_type ty \<and>
       reliable_control_target_packet_id E it = Ok None \<longrightarrow> list_all (side_is_link_local st) ss)"
proof -
  from plan_policy [OF assms] have
    "st' = st \<or> st' = advance_cursor exclude st" "list_all (route_allowed E st exclude (Some ty)) ss"
    "endpoints_are_link_local_only E eps \<and> \<not> is_discovery_type ty \<and>
       reliable_control_target_packet_id E it = Ok None \<longrightarrow> list_all (side_is_link_local st) ss"
    by blast+
  moreover from this(2) have "list_all (\<lambda>d. (\<exists>s. side_get st d = Some s \<and> opt_egress_enabled (side_opts s)) \<and>
      bt_get (route_overrides st) (exclude, d) \<noteq> Some False \<and>
      bt_get (typed_route_overrides st) (exclude, ty_u32 E ty, d) \<noteq> Some False \<and>
      (exclude = Some d \<longrightarrow> bt_get (route_overrides st) (exclude, d) = Some True)) ss"
    unfolding list_all_iff by (auto dest: route_allowed_facts)
  ultimately show ?thesis by blast
qed

text \<open>A battery reading is planned by flooding: nothing is known about its endpoints.\<close>

lemma battery_route_info:
  "item_route_info sample_env (Item_Packet battery_packet) = Ok ([UserEndpoint 0, UserEndpoint 1], UserType 1)"
proof -
  have "packet_validate sample_env battery_packet = Ok ()" by (rule packet_new_validates [OF battery_packet_new])
  moreover have "sort_dedup [UserEndpoint 0, UserEndpoint 1] = [UserEndpoint 0, UserEndpoint 1]"
    by (simp add: sort_dedup_def less_eq_data_endpoint_def)
  ultimately show ?thesis by (simp add: item_route_info_def) (simp add: battery_packet_def)
qed

lemma battery_control: "reliable_control_target_packet_id sample_env (Item_Packet battery_packet) = Ok None"
  by (simp add: reliable_control_target_packet_id_def control_target_of_packet_def battery_packet_def)

lemma battery_nonlocal:
  "has_nonlocal_endpoint sample_env sample_node [UserEndpoint 0, UserEndpoint 1]"
  "\<not> endpoints_are_link_local_only sample_env [UserEndpoint 0, UserEndpoint 1]"
  by (simp_all add: has_nonlocal_endpoint_def endpoints_are_link_local_only_def is_local_endpoint_def sample_node_def
      is_link_local_only_def sample_defs)

theorem plan_respects_policy_witness:
  "\<exists>st' ss. remote_side_plan sample_env sample_node None 0 (Item_Packet battery_packet) None two_sided = (st', Ok ss) \<and>
    list_all (\<lambda>d. \<exists>s. side_get two_sided d = Some s \<and> opt_egress_enabled (side_opts s)) ss"
proof -
  obtain st' ss where plan:
    "remote_side_plan sample_env sample_node None 0 (Item_Packet battery_packet) None two_sided = (st', Ok ss)"
    using flood_plan [OF battery_route_info battery_control, where N = sample_node and st = two_sided and exclude = None and tracker = None and now_ms = 0]
      battery_nonlocal by (auto simp: two_sided_def is_discovery_type_def is_timesync_type_def split: prod.splits)
  then show ?thesis
    using plan_respects_policy [OF plan battery_route_info] by (auto simp: list_all_iff)
qed

text \<open>
  Asking whether an item has a remote side plans for it and advances the cursor, and the broadcast
  then plans again. With two sides of equal weight and a cursor at an even position, where a fresh
  cursor starts, every broadcast goes to the second side and leaves the cursor at an even position:
  the first side is never used.
\<close>

theorem equal_weights_starve_first_side:
  assumes "item_route_info E it = Ok (eps, ty)" and "reliable_control_target_packet_id E it = Ok None"
    and "\<not> is_discovery_type ty" and "\<not> is_timesync_type ty" and "has_nonlocal_endpoint E N eps"
    and "\<not> endpoints_are_link_local_only E eps" and "discovery_routes st = []"
    and "eligible_side_ids E st None (Some ty) False = [a, b]"
    and "bt_get (source_route_modes st) None = Some Weighted"
    and "route_weight st None a = 1" and "route_weight st None b = 1" and "even (cursor_of st None)"
  shows "\<exists>st'. broadcast_targets E N tracker now_ms it st = (st', Ok [b]) \<and>
    st' = advance_cursor None (advance_cursor None st) \<and> even (cursor_of st' None)"
proof -
  let ?st1 = "advance_cursor None st"
  have ab: "sort [a, b] = [a, b]" using sorted_eligible [of E st None "Some ty" False] assms(8) by simp
  have sel: "apply_route_selection s None [a, b] Flood =
      (advance_cursor None s, if even (cursor_of s None) then [a] else [b])"
    if "bt_get (source_route_modes s) None = Some Weighted" "route_weight s None a = 1" "route_weight s None b = 1" for s
  proof -
    have "total_weight (route_weight s None) [a, b] = 2" using that by (simp add: total_weight_def)
    moreover have "apply_route_selection s None [a, b] Flood = (advance_cursor None s,
        pick_weighted (route_weight s None) [a, b] (cursor_of s None mod total_weight (route_weight s None) [a, b]))"
      using weighted_selection [of s None "[a, b]" Flood] that ab by simp
    moreover have "cursor_of s None mod 2 = (if even (cursor_of s None) then 0 else 1)" by (simp add: mod2_eq_if)
    ultimately show ?thesis using that by simp
  qed
  have plan: "remote_side_plan E N tracker now_ms it None s =
      (case apply_route_selection s None [a, b] Flood of (st, ss) \<Rightarrow> (st, Ok ss))" if "s = st \<or> s = ?st1" for s
    using flood_plan [OF assms(1,2), where N = N and st = s and exclude = None and tracker = tracker and now_ms = now_ms] that assms(3-8) by auto
  have "remote_side_plan E N tracker now_ms it None st = (?st1, Ok [a])"
    using plan [of st] sel [of st] assms(9-12) by simp
  moreover have "remote_side_plan E N tracker now_ms it None ?st1 = (advance_cursor None ?st1, Ok [b])"
    using plan [of ?st1] sel [of ?st1] assms(9-12) by simp
  ultimately show ?thesis using assms(12)
    by (simp add: broadcast_targets_def should_route_remote_def)
qed

theorem equal_weights_starve_first_side_witness:
  "\<exists>st'. broadcast_targets sample_env sample_node None 0 (Item_Packet battery_packet) two_sided = (st', Ok [1]) \<and>
    even (cursor_of st' None)"
proof -
  have "route_weight two_sided None 0 = 1" "route_weight two_sided None 1 = 1" "cursor_of two_sided None = 0"
    "discovery_routes two_sided = []" "bt_get (source_route_modes two_sided) None = Some Weighted"
    by (simp_all add: route_weight_def cursor_of_def bt_get_def two_sided_def)
  then show ?thesis
    using equal_weights_starve_first_side [OF battery_route_info battery_control _ _ battery_nonlocal _ two_sided_eligible]
    by (auto simp: is_discovery_type_def is_timesync_type_def)
qed

end
