(* ===== verification/Router_Reliable.thy ===== *)
theory Router_Reliable
  imports Router_Plan
begin

text \<open>
  \<open>src/router.rs\<close>, reliable delivery over one side: sequence numbers and the frames kept for
  retransmission, acknowledgements and requests, timeouts, and the receiver that restores the order. A
  side's callback is a foreign function: its answer to the \<open>i\<close>-th attempt is an argument, together
  with whether the transmit gate is taken and the clock around the call (record \<open>tx_call\<close>). What
  the callback does to the router by calling back into it is not part of the model.
\<close>

section \<open>Queueing\<close>

definition tx_queue_item_with_priority ::
  "layout \<Rightarrow> 'z config_scheme \<Rightarrow> router_tx_item \<Rightarrow> bool \<Rightarrow> u8 \<Rightarrow> router_inner \<Rightarrow> router_inner \<times> unit telemetry_result" where
  "tx_queue_item_with_priority L C item ignore_local priority st =
     push_transmit L C \<lparr>txq_item = item, txq_ignore_local = ignore_local, txq_priority = priority\<rparr> st"

definition tx_item_priority :: "env \<Rightarrow> router_tx_item \<Rightarrow> u8 telemetry_result" where
  "tx_item_priority E item =
     (case item of
        Broadcast d \<Rightarrow> router_item_priority E d
      | EndToEndReplay _ \<Rightarrow> Ok (router_item_priority_bumped E ReliableAck)
      | ToSide _ _ d \<Rightarrow> router_item_priority E d
      | ReliableReplay _ bs \<Rightarrow> andthen (peek_envelope E bs) (\<lambda>e. Ok (router_item_priority_bumped E (te_ty e))))"

definition tx_queue_item_with_flags ::
  "layout \<Rightarrow> env \<Rightarrow> router_tx_item \<Rightarrow> bool \<Rightarrow> router_inner \<Rightarrow> router_inner \<times> unit telemetry_result" where
  "tx_queue_item_with_flags L E item ignore_local st =
     sthen (st, tx_item_priority E item) (\<lambda>priority. tx_queue_item_with_priority L E item ignore_local priority)"

section \<open>Control packets\<close>

definition reliable_control_packet ::
  "env \<Rightarrow> router_node \<Rightarrow> u64 \<Rightarrow> data_type \<Rightarrow> data_type \<Rightarrow> u32 \<Rightarrow> packet telemetry_result" where
  "reliable_control_packet E N timestamp control_ty ty seq =
     packet_new E control_ty (mm_endpoints (get_message_meta E control_ty)) (rn_sender N) timestamp
       (encode_slice_le 4 [ty_u32 E ty, seq])"

definition queue_reliable_control ::
  "layout \<Rightarrow> env \<Rightarrow> router_node \<Rightarrow> u64 \<Rightarrow> data_type \<Rightarrow> nat \<Rightarrow> data_type \<Rightarrow> u32 \<Rightarrow> router_inner \<Rightarrow>
     router_inner \<times> unit telemetry_result" where
  "queue_reliable_control L E N timestamp control_ty side ty seq st =
     sthen (st, reliable_control_packet E N timestamp control_ty ty seq) (\<lambda>pkt.
       tx_queue_item_with_priority L E (ToSide None side (Item_Packet pkt)) True (message_priority E control_ty))"

definition queue_reliable_ack ::
  "layout \<Rightarrow> env \<Rightarrow> router_node \<Rightarrow> u64 \<Rightarrow> nat \<Rightarrow> data_type \<Rightarrow> u32 \<Rightarrow> router_inner \<Rightarrow> router_inner \<times> unit telemetry_result" where
  "queue_reliable_ack L E N timestamp = queue_reliable_control L E N timestamp ReliableAck"

definition queue_reliable_packet_request ::
  "layout \<Rightarrow> env \<Rightarrow> router_node \<Rightarrow> u64 \<Rightarrow> nat \<Rightarrow> data_type \<Rightarrow> u32 \<Rightarrow> router_inner \<Rightarrow> router_inner \<times> unit telemetry_result" where
  "queue_reliable_packet_request L E N timestamp = queue_reliable_control L E N timestamp ReliablePacketRequest"

definition queue_reliable_partial_ack ::
  "layout \<Rightarrow> env \<Rightarrow> router_node \<Rightarrow> u64 \<Rightarrow> nat \<Rightarrow> data_type \<Rightarrow> u32 \<Rightarrow> router_inner \<Rightarrow> router_inner \<times> unit telemetry_result" where
  "queue_reliable_partial_ack L E N timestamp = queue_reliable_control L E N timestamp ReliablePartialAck"

section \<open>The sending end\<close>

definition tx_state_new :: reliable_tx_state where
  "tx_state_new = \<lparr>rtx_next_seq = 1, rtx_sent_order = [], rtx_sent = []\<rparr>"

definition reliable_tx_state_mut :: "nat \<times> u32 \<Rightarrow> router_inner \<Rightarrow> router_inner" where
  "reliable_tx_state_mut key st =
     (case bt_get (reliable_tx st) key of
        Some _ \<Rightarrow> st
      | None \<Rightarrow> st\<lparr>reliable_tx := bt_insert key tx_state_new (reliable_tx st)\<rparr>)"

text \<open>The state \<open>reliable_tx_state_mut\<close> refers to, and its update.\<close>

definition tx_state_of :: "nat \<times> u32 \<Rightarrow> router_inner \<Rightarrow> reliable_tx_state" where
  "tx_state_of key st = (case bt_get (reliable_tx st) key of Some tx \<Rightarrow> tx | None \<Rightarrow> tx_state_new)"

definition update_tx_state ::
  "nat \<times> u32 \<Rightarrow> (reliable_tx_state \<Rightarrow> reliable_tx_state) \<Rightarrow> router_inner \<Rightarrow> router_inner" where
  "update_tx_state key f st =
     (let st = reliable_tx_state_mut key st
      in st\<lparr>reliable_tx := bt_modify key f (reliable_tx st)\<rparr>)"

fun ack_prefix :: "u32 \<Rightarrow> u32 list \<Rightarrow> (u32, reliable_sent) btree \<Rightarrow> u32 list \<times> (u32, reliable_sent) btree" where
  "ack_prefix ack [] sent = ([], sent)"
| "ack_prefix ack (seq # order) sent =
     (if seq > ack then (seq # order, sent) else ack_prefix ack order (bt_remove seq sent))"

definition handle_reliable_ack :: "'z schema_scheme \<Rightarrow> nat \<Rightarrow> data_type \<Rightarrow> u32 \<Rightarrow> router_inner \<Rightarrow> router_inner" where
  "handle_reliable_ack C side ty ack =
     update_tx_state (reliable_key C side ty) (\<lambda>tx.
       if reliable_mode_of C ty = Unordered
       then tx\<lparr>rtx_sent := bt_remove ack (rtx_sent tx), rtx_sent_order := filter (\<lambda>seq. seq \<noteq> ack) (rtx_sent_order tx)\<rparr>
       else (case ack_prefix ack (rtx_sent_order tx) (rtx_sent tx) of
               (order, sent) \<Rightarrow> tx\<lparr>rtx_sent_order := order, rtx_sent := sent\<rparr>))"

definition handle_reliable_partial_ack :: "'z schema_scheme \<Rightarrow> nat \<Rightarrow> data_type \<Rightarrow> u32 \<Rightarrow> router_inner \<Rightarrow> router_inner" where
  "handle_reliable_partial_ack C side ty seq =
     update_tx_state (reliable_key C side ty) (\<lambda>tx.
       tx\<lparr>rtx_sent := bt_modify seq (\<lambda>sent. sent\<lparr>sent_partial_acked := True\<rparr>) (rtx_sent tx)\<rparr>)"

definition queue_reliable_retransmit ::
  "layout \<Rightarrow> env \<Rightarrow> nat \<Rightarrow> data_type \<Rightarrow> u32 \<Rightarrow> router_inner \<Rightarrow> router_inner \<times> unit telemetry_result" where
  "queue_reliable_retransmit L E side ty seq st =
     (let key = reliable_key E side ty;
          st = reliable_tx_state_mut key st
      in case bt_get (rtx_sent (tx_state_of key st)) seq of
           None \<Rightarrow> (st, Ok ())
         | Some sent \<Rightarrow>
             if sent_queued sent then (st, Ok ())
             else
               (let st = update_tx_state key (\<lambda>tx.
                      tx\<lparr>rtx_sent := bt_modify seq (\<lambda>s. s\<lparr>sent_queued := True, sent_partial_acked := False\<rparr>) (rtx_sent tx)\<rparr>) st
                in tx_queue_item_with_priority L E (ReliableReplay side (sent_bytes sent)) True
                     (router_item_priority_bumped E ty) st))"

text \<open>One sequence number of the timeout scan: the entry's fate and whether to queue it again.\<close>

definition timeout_entry :: "'z config_scheme \<Rightarrow> u64 \<Rightarrow> u32 \<Rightarrow> reliable_tx_state \<Rightarrow> reliable_tx_state \<times> bool" where
  "timeout_entry C now seq tx =
     (case bt_get (rtx_sent tx) seq of
        None \<Rightarrow> (tx, False)
      | Some sent \<Rightarrow>
          if sent_queued sent \<or> now - sent_last_send_ms sent < reliable_retransmit_ms C then (tx, False)
          else if sent_partial_acked sent then (tx, False)
          else if sent_retries sent \<ge> reliable_max_retries C
          then (tx\<lparr>rtx_sent := bt_remove seq (rtx_sent tx),
                   rtx_sent_order := filter (\<lambda>s. s \<noteq> seq) (rtx_sent_order tx)\<rparr>, False)
          else (tx\<lparr>rtx_sent := bt_modify seq (\<lambda>s. s\<lparr>sent_retries := sent_retries s + 1\<rparr>) (rtx_sent tx)\<rparr>, True))"

fun timeout_scan :: "'z config_scheme \<Rightarrow> u64 \<Rightarrow> u32 list \<Rightarrow> reliable_tx_state \<Rightarrow> reliable_tx_state \<times> u32 list" where
  "timeout_scan C now [] tx = (tx, [])"
| "timeout_scan C now (seq # seqs) tx =
     (case timeout_entry C now seq tx of
        (tx, again) \<Rightarrow> (case timeout_scan C now seqs tx of (tx, q) \<Rightarrow> (tx, if again then seq # q else q)))"

fun timeout_streams ::
  "'z config_scheme \<Rightarrow> u64 \<Rightarrow> (nat \<times> u32, reliable_tx_state) btree \<Rightarrow>
     (nat \<times> u32, reliable_tx_state) btree \<times> (nat \<times> data_type \<times> u32) list" where
  "timeout_streams C now [] = ([], [])"
| "timeout_streams C now (((side, ty_raw), tx) # m) =
     (case timeout_streams C now m of (m', q') \<Rightarrow>
        (case data_type_try_from_u32 C ty_raw of
           None \<Rightarrow> (((side, ty_raw), tx) # m', q')
         | Some ty \<Rightarrow>
             (case timeout_scan C now (rtx_sent_order tx) tx of
                (tx', q) \<Rightarrow> (((side, ty_raw), tx') # m', map (\<lambda>seq. (side, ty, seq)) q @ q'))))"

fun requeue_all ::
  "layout \<Rightarrow> env \<Rightarrow> (nat \<times> data_type \<times> u32) list \<Rightarrow> router_inner \<Rightarrow> router_inner \<times> unit telemetry_result" where
  "requeue_all L E [] st = (st, Ok ())"
| "requeue_all L E ((side, ty, seq) # rest) st =
     sthen (queue_reliable_retransmit L E side ty seq st) (\<lambda>_. requeue_all L E rest)"

definition process_reliable_timeouts ::
  "layout \<Rightarrow> env \<Rightarrow> u64 \<Rightarrow> router_inner \<Rightarrow> router_inner \<times> unit telemetry_result" where
  "process_reliable_timeouts L E now st =
     (if reliable_tx st = [] then (st, Ok ())
      else
        (case timeout_streams E now (reliable_tx st) of
           (m, requeue) \<Rightarrow> requeue_all L E requeue (st\<lparr>reliable_tx := m\<rparr>)))"

section \<open>Calling a side\<close>

text \<open>
  What foreign code answers during one call of a side: the transmit gate, the callback at each attempt, and
  the clock. The readings of the clock up to the callback are one instant, \<open>call_started_ms\<close>, and those
  after it another, \<open>call_ended_ms\<close>.
\<close>

record tx_call =
  call_busy :: bool
  call_serialized :: "nat \<Rightarrow> bytes \<Rightarrow> unit telemetry_result"
  call_packet :: "nat \<Rightarrow> packet \<Rightarrow> unit telemetry_result"
  call_started_ms :: u64
  call_ended_ms :: u64

fun retry_from :: "nat \<Rightarrow> nat \<Rightarrow> (nat \<Rightarrow> ('e, 'a) outcome) \<Rightarrow> 'e option \<Rightarrow> ('e, 'a) outcome" where
  "retry_from i 0 f last_err = (case last_err of Some e \<Rightarrow> Err e | None \<Rightarrow> Panic ''times > 0'')"
| "retry_from i (Suc n) f last_err =
     (case f i of Ok v \<Rightarrow> Ok v | Err e \<Rightarrow> retry_from (Suc i) n f (Some e) | Panic m \<Rightarrow> Panic m)"

definition retry :: "nat \<Rightarrow> (nat \<Rightarrow> ('e, 'a) outcome) \<Rightarrow> ('e, 'a) outcome" where
  "retry n f = retry_from 0 n f None"

definition router_item_wire_len :: "env \<Rightarrow> router_item \<Rightarrow> nat telemetry_result" where
  "router_item_wire_len E it =
     (case it of
        Item_Packet pkt \<Rightarrow> andthen (serialize_packet E pkt) (\<lambda>bs. Ok (length bs))
      | Item_Serialized bs \<Rightarrow> Ok (length bs))"

definition sample_call :: "nat \<Rightarrow> tx_call \<Rightarrow> nat \<Rightarrow> router_inner \<Rightarrow> router_inner" where
  "sample_call side call nbytes st = record_side_tx_sample side nbytes (call_started_ms call) (call_ended_ms call) st"

definition handler_attempt :: "env \<Rightarrow> tx_handler_kind \<Rightarrow> router_item \<Rightarrow> tx_call \<Rightarrow> nat \<Rightarrow> unit telemetry_result" where
  "handler_attempt E handler it call i =
     (case (handler, it) of
        (Serialized_Tx, Item_Serialized bs) \<Rightarrow> call_serialized call i bs
      | (Packet_Tx, Item_Packet pkt) \<Rightarrow> call_packet call i pkt
      | (Serialized_Tx, Item_Packet pkt) \<Rightarrow> andthen (serialize_packet E pkt) (call_serialized call i)
      | (Packet_Tx, Item_Serialized bs) \<Rightarrow> andthen (deserialize_packet E bs) (call_packet call i))"

definition call_side_tx_handler ::
  "env \<Rightarrow> tx_call \<Rightarrow> nat \<Rightarrow> tx_handler_kind \<Rightarrow> router_item \<Rightarrow> router_inner \<Rightarrow> router_inner \<times> unit telemetry_result" where
  "call_side_tx_handler E call side handler it st =
     (if call_busy call then (st, Err (Io ''side tx busy''))
      else
        (let result = retry (max_handler_retries E) (handler_attempt E handler it call)
         in if is_ok result
            then (case router_item_wire_len E it of
                    Ok n \<Rightarrow> (sample_call side call n st, result)
                  | Err _ \<Rightarrow> (st, result)
                  | Panic m \<Rightarrow> (st, Panic m))
            else (st, result)))"

definition is_side_tx_busy :: "telemetry_error \<Rightarrow> bool" where
  "is_side_tx_busy e \<longleftrightarrow> e = Io ''side tx busy''"

definition adjust_reliable_for_side ::
  "env \<Rightarrow> router_side_options \<Rightarrow> router_item \<Rightarrow> router_item option telemetry_result" where
  "adjust_reliable_for_side E opts it =
     (if opt_reliable_enabled opts then Ok (Some it)
      else
        (case it of
           Item_Serialized bs \<Rightarrow>
             andthen (peek_frame_info E bs) (\<lambda>frame.
               case (if is_reliable_type E (te_ty (fi_envelope frame)) then fi_reliable frame else None) of
                 None \<Rightarrow> Ok (Some (Item_Serialized bs))
               | Some hdr \<Rightarrow>
                   if rh_flags hdr AND RELIABLE_FLAG_ACK_ONLY \<noteq> 0 then Ok None
                   else if rh_flags hdr AND RELIABLE_FLAG_UNSEQUENCED = 0
                   then andthen (rewrite_reliable_header E bs RELIABLE_FLAG_UNSEQUENCED (rh_seq hdr) 0)
                          (\<lambda>(_, v). Ok (Some (Item_Serialized v)))
                   else Ok (Some (Item_Serialized bs)))
         | Item_Packet pkt \<Rightarrow>
             if pkt_ty pkt \<in> {ReliableAck, ReliablePartialAck, ReliablePacketRequest} then Ok None
             else Ok (Some (Item_Packet pkt))))"

definition side_has_multiple_announcers :: "router_inner \<Rightarrow> nat \<Rightarrow> u64 \<Rightarrow> bool" where
  "side_has_multiple_announcers st side now_ms =
     (case bt_get (discovery_routes st) side of
        None \<Rightarrow> False
      | Some route \<Rightarrow>
          length (take 2 (filter (\<lambda>s. sat_sub now_ms (dss_last_seen_ms s) \<le> DISCOVERY_ROUTE_TTL_MS)
            (bt_values (dsd_announcers route)))) > 1)"

text \<open>The sequence number of a new reliable frame.\<close>

definition next_seq :: "u32 \<Rightarrow> u32" where
  "next_seq s = (if s + 1 = 0 then 1 else s + 1)"

definition alloc_seq :: "env \<Rightarrow> nat \<times> u32 \<Rightarrow> router_inner \<Rightarrow> router_inner \<times> u32 telemetry_result" where
  "alloc_seq E key st =
     (let st = reliable_tx_state_mut key st;
          tx = tx_state_of key st
      in if length (rtx_sent tx) \<ge> reliable_max_pending E
         then (st, Err (PacketTooLarge ''router reliable history full''))
         else (update_tx_state key (\<lambda>tx. tx\<lparr>rtx_next_seq := next_seq (rtx_next_seq tx)\<rparr>) st, Ok (rtx_next_seq tx)))"

definition remember_sent :: "nat \<times> u32 \<Rightarrow> u32 \<Rightarrow> bytes \<Rightarrow> u64 \<Rightarrow> router_inner \<Rightarrow> router_inner" where
  "remember_sent key seq bs now_ms =
     update_tx_state key (\<lambda>tx.
       tx\<lparr>rtx_sent_order := rtx_sent_order tx @ [seq],
          rtx_sent := bt_insert seq
            \<lparr>sent_bytes = bs, sent_last_send_ms = now_ms, sent_retries = 0, sent_queued = False,
             sent_partial_acked = False\<rparr> (rtx_sent tx)\<rparr>)"

definition item_frame_type :: "env \<Rightarrow> router_item \<Rightarrow> data_type telemetry_result" where
  "item_frame_type E it =
     (case it of
        Item_Packet pkt \<Rightarrow> Ok (pkt_ty pkt)
      | Item_Serialized bs \<Rightarrow> andthen (peek_frame_info E bs) (\<lambda>frame. Ok (te_ty (fi_envelope frame))))"

text \<open>The frame that goes out with a sequence number; \<open>None\<close> when it has no reliable header.\<close>

definition sequenced_frame :: "env \<Rightarrow> router_item \<Rightarrow> u8 \<Rightarrow> u32 \<Rightarrow> bytes option telemetry_result" where
  "sequenced_frame E it flags seq =
     (case it of
        Item_Packet pkt \<Rightarrow>
          andthen (serialize_packet_with_reliable E pkt \<lparr>rh_flags = flags, rh_seq = seq, rh_ack = 0\<rparr>) (\<lambda>bs. Ok (Some bs))
      | Item_Serialized bs \<Rightarrow>
          andthen (rewrite_reliable_header E bs flags seq 0) (\<lambda>(found, v). Ok (if found then Some v else None)))"

definition transmit_frame ::
  "env \<Rightarrow> tx_call \<Rightarrow> nat \<Rightarrow> bytes \<Rightarrow> router_inner \<Rightarrow> router_inner \<times> unit telemetry_result" where
  "transmit_frame E call side bs st =
     (if call_busy call then (st, Err (Io ''side tx busy''))
      else
        (let result = retry (max_handler_retries E) (\<lambda>i. call_serialized call i bs)
         in (if is_ok result then sample_call side call (length bs) st else st, result)))"

text \<open>A reliable frame: it takes a number, goes out, and is kept when the side accepted it.\<close>

definition send_sequenced ::
  "env \<Rightarrow> tx_call \<Rightarrow> nat \<Rightarrow> data_type \<Rightarrow> router_item \<Rightarrow> router_inner \<Rightarrow> router_inner \<times> unit telemetry_result" where
  "send_sequenced E call side ty it st =
     (let key = reliable_key E side ty;
          flags = (if reliable_mode_of E ty = Unordered then RELIABLE_FLAG_UNORDERED else 0)
      in sthen (alloc_seq E key st) (\<lambda>seq st.
         sthen (st, sequenced_frame E it flags seq) (\<lambda>frame st.
         case frame of
           None \<Rightarrow>
             (case it of
                Item_Serialized bs \<Rightarrow> transmit_frame E call side bs st
              | Item_Packet _ \<Rightarrow> (st, Ok ()))
         | Some bs \<Rightarrow>
             sthen (transmit_frame E call side bs st) (\<lambda>_ st.
               (remember_sent key seq bs (call_ended_ms call) st, Ok ())))))"

definition send_adjusted ::
  "env \<Rightarrow> tx_call \<Rightarrow> nat \<Rightarrow> router_side_options \<Rightarrow> router_item \<Rightarrow> router_inner \<Rightarrow> router_inner \<times> unit telemetry_result" where
  "send_adjusted E call side opts it st =
     sthen (st, adjust_reliable_for_side E opts it) (\<lambda>r st.
       case r of
         Some a \<Rightarrow> call_side_tx_handler E call side Serialized_Tx a st
       | None \<Rightarrow> (st, Ok ()))"

definition send_reliable_to_side ::
  "env \<Rightarrow> router_node \<Rightarrow> tx_call \<Rightarrow> nat \<Rightarrow> router_item \<Rightarrow> router_inner \<Rightarrow> router_inner \<times> unit telemetry_result" where
  "send_reliable_to_side E N call side it st =
     sthen (st, side_ref st side) (\<lambda>s st.
       let opts = side_opts s;
           hop_reliable_enabled = opt_reliable_enabled opts \<and> rn_reliable_enabled N \<and>
             \<not> side_has_multiple_announcers st side (call_started_ms call)
       in if side_tx_handler s = Packet_Tx then call_side_tx_handler E call side Packet_Tx it st
          else if \<not> hop_reliable_enabled then send_adjusted E call side (opts\<lparr>opt_reliable_enabled := False\<rparr>) it st
          else
            sthen (st, item_frame_type E it) (\<lambda>ty st.
              if \<not> is_reliable_type E ty then send_adjusted E call side opts it st
              else send_sequenced E call side ty it st))"

definition send_reliable_raw_to_side ::
  "env \<Rightarrow> tx_call \<Rightarrow> nat \<Rightarrow> bytes \<Rightarrow> router_inner \<Rightarrow> router_inner \<times> unit telemetry_result" where
  "send_reliable_raw_to_side E call side bs st =
     sthen (st, side_ref st side) (\<lambda>s st.
       if \<not> opt_egress_enabled (side_opts s) then (st, Ok ())
       else if call_busy call then (st, Err (Io ''side tx busy''))
       else
         sthen (st,
           case side_tx_handler s of
             Serialized_Tx \<Rightarrow>
               map_err (\<lambda>_. Io ''reliable retransmit failed'')
                 (retry (max_handler_retries E) (\<lambda>i. call_serialized call i bs))
           | Packet_Tx \<Rightarrow>
               andthen (deserialize_packet E bs) (\<lambda>pkt.
                 map_err (\<lambda>_. Io ''reliable retransmit failed'')
                   (retry (max_handler_retries E) (\<lambda>i. call_packet call i pkt))))
           (\<lambda>_ st. (sample_call side call (length bs) st, Ok ())))"

text \<open>\<open>tx_item_impl\<close> on a queued retransmission.\<close>

definition tx_reliable_replay ::
  "layout \<Rightarrow> env \<Rightarrow> tx_call \<Rightarrow> nat \<Rightarrow> bytes \<Rightarrow> router_inner \<Rightarrow> router_inner \<times> unit telemetry_result" where
  "tx_reliable_replay L E call dst bs st =
     sthen (st, peek_frame_info E bs) (\<lambda>frame st.
       case fi_reliable frame of
         None \<Rightarrow> (st, Ok ())
       | Some hdr \<Rightarrow>
           (let key = reliable_key E dst (te_ty (fi_envelope frame));
                st = reliable_tx_state_mut key st
            in if \<not> bt_contains (rtx_sent (tx_state_of key st)) (rh_seq hdr) then (st, Ok ())
               else
                 (case send_reliable_raw_to_side E call dst bs st of
                    (st, Err e) \<Rightarrow>
                      if is_side_tx_busy e then tx_queue_item_with_flags L E (ReliableReplay dst bs) True st
                      else (st, Err e)
                  | (st, Panic m) \<Rightarrow> (st, Panic m)
                  | (st, Ok _) \<Rightarrow>
                      (update_tx_state key (\<lambda>tx.
                         tx\<lparr>rtx_sent := bt_modify (rh_seq hdr)
                              (\<lambda>s. s\<lparr>sent_last_send_ms := call_ended_ms call, sent_queued := False\<rparr>) (rtx_sent tx)\<rparr>) st,
                       Ok ()))))"

end
