(* ===== verification/Router_Receive.thy ===== *)
theory Router_Receive
  imports Router_Reliable
begin

text \<open>
  \<open>src/router.rs\<close>, the receiving end of a reliable side: the ordered receiver with its buffer of
  early frames, the control packets a peer sends back, and the routes acknowledgements return on.
\<close>

section \<open>The ordered receiver\<close>

text \<open>
  The loop that takes the run of buffered frames following \<open>nxt\<close>: the frames, the last
  sequence number delivered, the next one expected, and the rest of the buffer.
\<close>

function release_run ::
  "u32 \<Rightarrow> u32 \<Rightarrow> (u32, bytes) btree \<Rightarrow> bytes list \<times> u32 \<times> u32 \<times> (u32, bytes) btree" where
  "release_run nxt delivered buf =
     (case bt_get buf nxt of
        None \<Rightarrow> ([], delivered, nxt, buf)
      | Some bs \<Rightarrow>
          (case release_run (next_seq nxt) nxt (bt_remove nxt buf) of
             (rel, d, n, rest) \<Rightarrow> (bs # rel, d, n, rest)))"
  by pat_completeness auto
termination
proof (relation "measure (\<lambda>(_, _, buf). length buf)")
  fix nxt delivered :: u32 and buf :: "(u32, bytes) btree" and bs
  assume "bt_get buf nxt = Some bs"
  then have "(nxt, bs) \<in> set buf" by (simp add: bt_get_def map_of_SomeD)
  then have "length (bt_remove nxt buf) < length buf"
    unfolding bt_remove_def by (intro length_filter_less) auto
  then show "((next_seq nxt, nxt, bt_remove nxt buf), (nxt, delivered, buf)) \<in> measure (\<lambda>(_, _, buf). length buf)"
    by simp
qed simp

declare release_run.simps [simp del]

datatype ordered_action = AckOld u32 | RequestMissing u32 u32 | Deliver u32 "bytes list"

definition rx_state_of :: "nat \<times> u32 \<Rightarrow> router_inner \<Rightarrow> reliable_rx_state" where
  "rx_state_of key st = (case bt_get (reliable_rx st) key of Some rx \<Rightarrow> rx | None \<Rightarrow> rx_state_new)"

definition ordered_rx ::
  "layout \<Rightarrow> 'z config_scheme \<Rightarrow> nat \<Rightarrow> data_type \<Rightarrow> u32 \<Rightarrow> bytes \<Rightarrow> router_inner \<Rightarrow>
     router_inner \<times> ordered_action telemetry_result" where
  "ordered_rx L C src ty seq bs st =
     (let key = reliable_key C src ty;
          st = reliable_rx_state_mut key st;
          rx = rx_state_of key st;
          expected = rrx_expected_seq rx
      in if seq < expected then (st, Ok (AckOld (sat_sub expected 1)))
         else if seq > expected
         then sthen (buffer_reliable_rx L C src ty seq bs st) (\<lambda>_ st. (st, Ok (RequestMissing expected seq)))
         else
           (case release_run (seq + 1) seq (rrx_buffered rx) of
              (rel, delivered, nxt, rest) \<Rightarrow>
                (st\<lparr>reliable_rx := bt_modify key (\<lambda>rx. rx\<lparr>rrx_buffered := rest, rrx_expected_seq := nxt\<rparr>) (reliable_rx st)\<rparr>,
                 Ok (Deliver delivered (bs # rel)))))"

section \<open>Control packets\<close>

definition handle_end_to_end_ack :: "u64 \<Rightarrow> bytes \<Rightarrow> router_inner \<Rightarrow> router_inner \<times> bool" where
  "handle_end_to_end_ack pid sender st =
     (case bt_get (end_to_end_reliable_tx st) pid of
        None \<Rightarrow> (st, False)
      | Some sent \<Rightarrow>
          (case decode_end_to_end_ack_sender_hash sender of
             None \<Rightarrow> (st\<lparr>end_to_end_reliable_tx := bt_remove pid (end_to_end_reliable_tx st)\<rparr>, True)
           | Some h \<Rightarrow>
               (let pending = bt_remove h (e2e_pending_destinations sent)
                in (st\<lparr>end_to_end_reliable_tx :=
                        (if pending = [] then bt_remove pid (end_to_end_reliable_tx st)
                         else bt_modify pid (\<lambda>s. s\<lparr>e2e_pending_destinations := pending\<rparr>) (end_to_end_reliable_tx st))\<rparr>,
                    True))))"

definition handle_internal_reliable_packet ::
  "layout \<Rightarrow> env \<Rightarrow> packet \<Rightarrow> nat option \<Rightarrow> router_inner \<Rightarrow> router_inner \<times> bool telemetry_result" where
  "handle_internal_reliable_packet L E pkt src st =
     (if pkt_ty pkt \<notin> {ReliableAck, ReliablePartialAck, ReliablePacketRequest} then (st, Ok False)
      else
        (case src of
           None \<Rightarrow> (st, Ok False)
         | Some src \<Rightarrow>
             (case (if pkt_ty pkt = ReliableAck \<and> is_end_to_end_ack_sender (pkt_sender pkt)
                    then decode_end_to_end_reliable_ack (payload pkt) else Err BadArg) of
                Ok pid \<Rightarrow> (case handle_end_to_end_ack pid (pkt_sender pkt) st of (st, b) \<Rightarrow> (st, Ok b))
              | _ \<Rightarrow>
                  sthen (st, data_as_u32 E pkt) (\<lambda>vals st.
                    if length vals \<noteq> 2 then (st, Err (Deserialize ''bad reliable control payload''))
                    else
                      sthen (st, ok_or InvalidType (data_type_try_from_u32 E (vals ! 0))) (\<lambda>ty st.
                        if pkt_ty pkt = ReliableAck then (handle_reliable_ack E src ty (vals ! 1) st, Ok True)
                        else if pkt_ty pkt = ReliablePartialAck
                        then (handle_reliable_partial_ack E src ty (vals ! 1) st, Ok True)
                        else sthen (queue_reliable_retransmit L E src ty (vals ! 1) st) (\<lambda>_ st. (st, Ok True)))))))"

section \<open>Return routes\<close>

text \<open>The order list is trimmed from the front while it is full; it cannot be empty then.\<close>

fun trim_return_routes ::
  "nat \<Rightarrow> u64 list \<Rightarrow> (u64, 'v) btree \<Rightarrow> u64 list \<times> (u64, 'v) btree" where
  "trim_return_routes cap [] routes = ([], routes)"
| "trim_return_routes cap (oldest # order) routes =
     (if length (oldest # order) \<ge> cap then trim_return_routes cap order (bt_remove oldest routes)
      else (oldest # order, routes))"

definition note_reliable_return_route :: "'z config_scheme \<Rightarrow> nat \<Rightarrow> u64 \<Rightarrow> router_inner \<Rightarrow> router_inner" where
  "note_reliable_return_route C side pid st =
     (let order = filter (\<lambda>i. bt_contains (reliable_return_routes st) i \<and> i \<noteq> pid) (reliable_return_route_order st)
      in case trim_return_routes (max (reliable_max_return_routes C) 1) order (reliable_return_routes st) of
           (order, routes) \<Rightarrow>
             st\<lparr>reliable_return_route_order := order @ [pid], reliable_return_routes := bt_insert pid side routes\<rparr>)"

definition note_return_route_for :: "env \<Rightarrow> nat \<Rightarrow> router_item \<Rightarrow> router_inner \<Rightarrow> router_inner \<times> unit telemetry_result" where
  "note_return_route_for E src it st =
     (case it of
        Item_Packet pkt \<Rightarrow>
          (if is_reliable_type E (pkt_ty pkt) \<and> \<not> is_internal_control_type (pkt_ty pkt)
           then note_reliable_return_route E src (packet_id E pkt) st else st, Ok ())
      | Item_Serialized bs \<Rightarrow>
          (case peek_envelope E bs of
             Panic m \<Rightarrow> (st, Panic m)
           | Err _ \<Rightarrow> (st, Ok ())
           | Ok e \<Rightarrow>
               if is_reliable_type E (te_ty e) \<and> \<not> is_internal_control_type (te_ty e)
               then (case packet_id_from_wire E bs of
                       Ok i \<Rightarrow> (note_reliable_return_route E src i st, Ok ())
                     | Err _ \<Rightarrow> (st, Ok ())
                     | Panic m \<Rightarrow> (st, Panic m))
               else (st, Ok ())))"

end
