(* ===== verification/Router_Reliable_Laws.thy ===== *)
theory Router_Reliable_Laws
  imports Router_Receive Router_Route_Laws Router_State_Laws
begin

text \<open>
  Laws of reliable delivery over one side. For the receiver, a stream is the function \<open>F\<close> from
  sequence numbers to frames that the sender works through; \<open>ordered_run\<close> feeds the receiver any
  arrivals of that stream, in any order and with repetitions, between any evictions.
\<close>

section \<open>Access to one stream\<close>

lemma next_seq_nonzero: "next_seq s \<noteq> 0"
  by (simp add: next_seq_def)

lemma unat_next_seq: "s \<noteq> - 1 \<Longrightarrow> unat (next_seq s) = Suc (unat s)"
  by (simp add: next_seq_def unatSuc eq_neg_iff_add_eq_0 add.commute)

lemma tx_state_of_mut [simp]: "tx_state_of key (reliable_tx_state_mut key st) = tx_state_of key st"
  by (auto simp: tx_state_of_def reliable_tx_state_mut_def bt_get_insert_here split: option.splits)

lemma tx_mut_present: "bt_get (reliable_tx (reliable_tx_state_mut key st)) key = Some (tx_state_of key st)"
  by (auto simp: tx_state_of_def reliable_tx_state_mut_def bt_get_insert_here split: option.splits)

lemma tx_state_of_update [simp]: "tx_state_of key (update_tx_state key f st) = f (tx_state_of key st)"
proof -
  have "bt_get (reliable_tx (update_tx_state key f st)) key = Some (f (tx_state_of key st))"
    by (simp add: update_tx_state_def Let_def bt_get_modify tx_mut_present)
  then show ?thesis by (simp add: tx_state_of_def [of key "update_tx_state key f st"])
qed

lemma rx_state_of_mut [simp]: "rx_state_of key (reliable_rx_state_mut key st) = rx_state_of key st"
  by (auto simp: rx_state_of_def reliable_rx_state_mut_def bt_get_insert_here split: option.splits)

lemma rx_mut_present: "bt_get (reliable_rx (reliable_rx_state_mut key st)) key = Some (rx_state_of key st)"
  by (auto simp: rx_state_of_def reliable_rx_state_mut_def bt_get_insert_here split: option.splits)

lemma rx_state_of_modify:
  "bt_get (reliable_rx st) key = Some rx \<Longrightarrow>
   rx_state_of key (st\<lparr>reliable_rx := bt_modify key f (reliable_rx st)\<rparr>) = f rx"
  by (simp add: rx_state_of_def bt_get_modify)

text \<open>Eviction shortens the buffer of a stream from the front and leaves the rest of it alone.\<close>

lemma evicted_rx_state:
  assumes "evicted L st s"
  shows "\<exists>j. rx_state_of key s = (rx_state_of key st)\<lparr>rrx_buffered := drop j (rrx_buffered (rx_state_of key st))\<rparr>"
proof -
  have "list_all2 buffer_suffix (reliable_rx st) (reliable_rx s)" using assms by (auto simp: evicted_def)
  then have "(case (map_of (reliable_rx st) key, map_of (reliable_rx s) key) of
      (None, None) \<Rightarrow> True
    | (Some a, Some b) \<Rightarrow> \<exists>j. b = a\<lparr>rrx_buffered := drop j (rrx_buffered a)\<rparr>
    | _ \<Rightarrow> False)"
  proof (induction rule: list_all2_induct)
    case (Cons e m e' m')
    then show ?case by (cases e; cases e') (auto simp: buffer_suffix_def)
  qed simp
  then show ?thesis
    by (auto simp: rx_state_of_def bt_get_def rx_state_new_def split: option.splits)
qed

lemma set_bt_insert_subset: "set (bt_insert k v m) \<subseteq> insert (k, v) (set m)"
  by (auto simp: bt_insert_def dest: set_takeWhileD set_dropWhileD)

lemma buffer_rx_state:
  assumes "queues_wf L st" and "max_queue_budget C < usize_limit - 1" and "rx_buffers_ok C st"
    and "buffer_reliable_rx L C src ty seq bs st = (st', r)" and "key = reliable_key C src ty"
  shows "rrx_expected_seq (rx_state_of key st') = rrx_expected_seq (rx_state_of key st) \<and>
    set (rrx_buffered (rx_state_of key st')) \<subseteq> insert (seq, bs) (set (rrx_buffered (rx_state_of key st))) \<and>
    (r = Ok () \<longrightarrow> bt_contains (rrx_buffered (rx_state_of key st')) seq) \<and>
    (r = Ok () \<or> (\<exists>e. r = Err e))"
proof -
  obtain s1 r1 where room: "make_shared_queue_room L C (arc_slice_size + length bs) ReliableRxBuffer st = (s1, r1)" by force
  note res = make_room_result [OF assms(1,2) room]
  obtain j where s1: "rx_state_of key s1 = (rx_state_of key st)\<lparr>rrx_buffered := drop j (rrx_buffered (rx_state_of key st))\<rparr>"
    using evicted_rx_state res by blast
  let ?seen = "case bt_get (reliable_rx st) key of Some rx \<Rightarrow> bt_contains (rrx_buffered rx) seq | None \<Rightarrow> False"
  consider (seen) "?seen" | (full) "\<not> ?seen" "r1 \<noteq> Ok ()" | (stored) "\<not> ?seen" "r1 = Ok ()" by blast
  then show ?thesis
  proof cases
    case seen
    then have "st' = st" "r = Ok ()" using assms(4,5) by (auto simp: buffer_reliable_rx_def Let_def)
    then show ?thesis using seen by (auto simp: rx_state_of_def split: option.splits)
  next
    case full
    then have "st' = s1" "r = r1" using assms(4,5) room res by (auto simp: buffer_reliable_rx_def Let_def)
    then show ?thesis using full res s1 set_drop_subset [of j "rrx_buffered (rx_state_of key st)"] by auto
  next
    case stored
    then have "st' = (reliable_rx_state_mut key s1)\<lparr>reliable_rx :=
        bt_modify key (store_buffered C seq bs) (reliable_rx (reliable_rx_state_mut key s1))\<rparr>" "r = Ok ()"
      using assms(4,5) room by (auto simp: buffer_reliable_rx_def Let_def)
    then have st': "rx_state_of key st' = store_buffered C seq bs (rx_state_of key s1)" "r = Ok ()"
      by (simp_all add: rx_state_of_modify [OF rx_mut_present])
    let ?m = "if length (rrx_buffered (rx_state_of key s1)) \<ge> reliable_max_pending C
      then snd (bt_pop_first (rrx_buffered (rx_state_of key s1))) else rrx_buffered (rx_state_of key s1)"
    have "set ?m \<subseteq> set (rrx_buffered (rx_state_of key st))"
      using set_drop_subset [of j "rrx_buffered (rx_state_of key st)"] s1
      by (cases "rrx_buffered (rx_state_of key s1)") auto
    then show ?thesis
      using st' s1 set_bt_insert_subset [of seq bs ?m]
      by (auto simp: store_buffered_def bt_contains_def bt_get_insert_here)
  qed
qed

section \<open>The ordered receiver\<close>

definition stream_ok :: "(u32 \<Rightarrow> bytes) \<Rightarrow> reliable_rx_state \<Rightarrow> bool" where
  "stream_ok F rx \<longleftrightarrow> (\<forall>(k, b) \<in> set (rrx_buffered rx). b = F k \<and> k \<noteq> - 1)"

definition frames_between :: "(u32 \<Rightarrow> bytes) \<Rightarrow> nat \<Rightarrow> nat \<Rightarrow> bytes list" where
  "frames_between F a b = map (\<lambda>i. F (of_nat i)) [a..<b]"

lemma frames_between_append:
  "a \<le> b \<Longrightarrow> b \<le> c \<Longrightarrow> frames_between F a b @ frames_between F b c = frames_between F a c"
  using upt_add_eq_append [of a b "c - b"] by (simp add: frames_between_def flip: map_append)

lemma release_run_spec:
  assumes "\<forall>(k, b) \<in> set buf. b = F k \<and> k \<noteq> - 1"
  shows "case release_run nxt d buf of (rel, d', n, rest) \<Rightarrow>
    unat nxt \<le> unat n \<and> rel = frames_between F (unat nxt) (unat n) \<and> set rest \<subseteq> set buf \<and> bt_get rest n = None"
  using assms
proof (induction nxt d buf rule: release_run.induct)
  case (1 nxt d buf)
  show ?case
  proof (cases "bt_get buf nxt")
    case None
    then show ?thesis by (simp add: release_run.simps [of nxt d buf] frames_between_def)
  next
    case (Some bs)
    then have mem: "(nxt, bs) \<in> set buf" by (simp add: bt_get_def map_of_SomeD)
    then have nxt: "nxt \<noteq> - 1" "bs = F nxt" using 1(2) by auto
    have sub: "set (bt_remove nxt buf) \<subseteq> set buf" by (auto simp: bt_remove_def)
    obtain rel d' n rest where run: "release_run (next_seq nxt) nxt (bt_remove nxt buf) = (rel, d', n, rest)"
      by (cases "release_run (next_seq nxt) nxt (bt_remove nxt buf)")
    have ih: "Suc (unat nxt) \<le> unat n" "rel = frames_between F (Suc (unat nxt)) (unat n)"
      "set rest \<subseteq> set (bt_remove nxt buf)" "bt_get rest n = None"
      using 1(1) [OF Some] 1(2) sub run unat_next_seq [OF nxt(1)] by auto
    have "F nxt # frames_between F (Suc (unat nxt)) (unat n) = frames_between F (unat nxt) (unat n)"
      using ih(1) by (simp add: frames_between_def upt_conv_Cons)
    then show ?thesis using Some run ih nxt sub by (auto simp: release_run.simps [of nxt d buf])
  qed
qed

text \<open>What an arrival does to its stream.\<close>

definition receiver_ok :: "layout \<Rightarrow> 'z config_scheme \<Rightarrow> router_inner \<Rightarrow> bool" where
  "receiver_ok L C st \<longleftrightarrow> queues_wf L st \<and> max_queue_budget C < usize_limit - 1 \<and> rx_buffers_ok C st"

lemma receiver_ok_mut: "receiver_ok L C st \<Longrightarrow> receiver_ok L C (reliable_rx_state_mut key st)"
  using rx_state_mut_facts(1,4) [of C st key] by (auto simp: receiver_ok_def queues_wf_def)

lemma release_run_wf: "bt_wf buf \<Longrightarrow> case release_run nxt d buf of (rel, d', n, rest) \<Rightarrow> bt_wf rest \<and> length rest \<le> length buf"
proof (induction nxt d buf rule: release_run.induct)
  case (1 nxt d buf)
  have "length (bt_remove nxt buf) \<le> length buf" by (simp add: bt_remove_def)
  then show ?case using 1
    by (force simp: release_run.simps [of nxt d buf] bt.invar_remove split: option.splits prod.splits)
qed

lemma receiver_ok_release:
  assumes "receiver_ok L C st" and "bt_get (reliable_rx st) key = Some rx"
    and "release_run nxt d (rrx_buffered rx) = (rel, d', n, rest)"
  shows "receiver_ok L C (st\<lparr>reliable_rx := bt_modify key (\<lambda>rx. rx\<lparr>rrx_buffered := rest, rrx_expected_seq := n\<rparr>) (reliable_rx st)\<rparr>)"
proof -
  have wf: "bt_wf (reliable_rx st)" and ok: "list_all (buffer_ok C) (bt_values (reliable_rx st))"
    using assms(1) by (auto simp: receiver_ok_def rx_buffers_ok_def)
  have "(key, rx) \<in> set (reliable_rx st)" using assms(2) wf by (simp add: bt_get_in_set)
  then have "buffer_ok C rx" using ok by (force simp: list_all_iff bt_values_def)
  then have "bt_wf rest" "length rest \<le> max 1 (reliable_max_pending C)"
    using release_run_wf [of "rrx_buffered rx" nxt d] assms(3) by (auto simp: buffer_ok_def)
  then have "rx_buffers_ok C (st\<lparr>reliable_rx := bt_modify key (\<lambda>rx. rx\<lparr>rrx_buffered := rest, rrx_expected_seq := n\<rparr>) (reliable_rx st)\<rparr>)"
    using assms(1) by (intro modify_buffers_ok) (auto simp: receiver_ok_def buffer_ok_def)
  then show ?thesis using assms(1) by (simp add: receiver_ok_def queues_wf_def)
qed

lemma ordered_rx_step:
  assumes "receiver_ok L C st" and "key = reliable_key C src ty" and "ordered_rx L C src ty seq bs st = (st', r)"
  obtains (old) "seq < rrx_expected_seq (rx_state_of key st)" "rx_state_of key st' = rx_state_of key st"
      "r = Ok (AckOld (sat_sub (rrx_expected_seq (rx_state_of key st)) 1))" "receiver_ok L C st'"
  | (early) "rrx_expected_seq (rx_state_of key st) < seq"
      "rrx_expected_seq (rx_state_of key st') = rrx_expected_seq (rx_state_of key st)"
      "set (rrx_buffered (rx_state_of key st')) \<subseteq> insert (seq, bs) (set (rrx_buffered (rx_state_of key st)))"
      "r = Ok (RequestMissing (rrx_expected_seq (rx_state_of key st)) seq) \<and>
         bt_contains (rrx_buffered (rx_state_of key st')) seq \<or> (\<exists>e. r = Err e)" "receiver_ok L C st'"
  | (due) rel d n rest where "seq = rrx_expected_seq (rx_state_of key st)"
      "release_run (seq + 1) seq (rrx_buffered (rx_state_of key st)) = (rel, d, n, rest)"
      "rx_state_of key st' = (rx_state_of key st)\<lparr>rrx_buffered := rest, rrx_expected_seq := n\<rparr>"
      "r = Ok (Deliver d (bs # rel))" "receiver_ok L C st'"
proof -
  let ?s = "reliable_rx_state_mut key st"
  note ok = receiver_ok_mut [OF assms(1), of key]
  note step = assms(3) [unfolded ordered_rx_def Let_def assms(2) [symmetric] rx_state_of_mut]
  consider "seq < rrx_expected_seq (rx_state_of key st)" | "rrx_expected_seq (rx_state_of key st) < seq"
    | "seq = rrx_expected_seq (rx_state_of key st)" by fastforce
  then show ?thesis
  proof cases
    case 1
    then show ?thesis using step ok by (intro old) auto
  next
    case 2
    obtain s r1 where b: "buffer_reliable_rx L C src ty seq bs ?s = (s, r1)" by force
    have fixed: "queues_wf L ?s" "max_queue_budget C < usize_limit - 1" "rx_buffers_ok C ?s"
      using ok by (auto simp: receiver_ok_def)
    note f = buffer_rx_state [OF fixed b assms(2)]
    have "st' = s" "r = (case r1 of Ok _ \<Rightarrow> Ok (RequestMissing (rrx_expected_seq (rx_state_of key st)) seq) | Err e \<Rightarrow> Err e | Panic m \<Rightarrow> Panic m)"
      using step 2 b f order_less_not_sym [OF 2] by auto
    then show ?thesis using 2 f fixed(2) buffer_reliable_rx_result [OF fixed b]
      by (intro early) (auto simp: receiver_ok_def)
  next
    case 3
    obtain rel d n rest where run: "release_run (seq + 1) seq (rrx_buffered (rx_state_of key st)) = (rel, d, n, rest)"
      by (cases "release_run (seq + 1) seq (rrx_buffered (rx_state_of key st))")
    have st': "st' = ?s\<lparr>reliable_rx := bt_modify key (\<lambda>rx. rx\<lparr>rrx_buffered := rest, rrx_expected_seq := n\<rparr>) (reliable_rx ?s)\<rparr>"
      "r = Ok (Deliver d (bs # rel))" using step 3 run by auto
    show ?thesis
      by (rule due [OF 3 run _ st'(2)])
        (simp_all add: st'(1) rx_state_of_modify [OF rx_mut_present] receiver_ok_release [OF ok rx_mut_present run])
  qed
qed

section \<open>Runs of a stream\<close>

datatype rx_event = Arrives u32 | Pressure router_queue_kind

fun delivered_frames :: "ordered_action telemetry_result \<Rightarrow> bytes list" where
  "delivered_frames (Ok (Deliver _ frames)) = frames"
| "delivered_frames _ = []"

fun ordered_run ::
  "layout \<Rightarrow> 'z config_scheme \<Rightarrow> nat \<Rightarrow> data_type \<Rightarrow> (u32 \<Rightarrow> bytes) \<Rightarrow> rx_event list \<Rightarrow> router_inner \<Rightarrow> router_inner \<times> bytes list" where
  "ordered_run L C src ty F [] st = (st, [])"
| "ordered_run L C src ty F (Arrives seq # es) st =
     (case ordered_rx L C src ty seq (F seq) st of
        (st, r) \<Rightarrow> (case ordered_run L C src ty F es st of (st, d) \<Rightarrow> (st, delivered_frames r @ d)))"
| "ordered_run L C src ty F (Pressure kind # es) st =
     ordered_run L C src ty F es (snd (pop_shared_queue_item L kind st))"

fun arrival_ok :: "(u32 \<Rightarrow> bool) \<Rightarrow> rx_event \<Rightarrow> bool" where
  "arrival_ok P (Arrives seq) \<longleftrightarrow> P seq"
| "arrival_ok P (Pressure _) \<longleftrightarrow> True"

lemma arrival_ok_mono: "arrival_ok P e \<Longrightarrow> (\<And>s. P s \<Longrightarrow> Q s) \<Longrightarrow> arrival_ok Q e"
  by (cases e) auto

lemma pressure_state:
  assumes "receiver_ok L C st"
  shows "receiver_ok L C (snd (pop_shared_queue_item L kind st))"
    and "\<exists>j. rx_state_of key (snd (pop_shared_queue_item L kind st)) =
      (rx_state_of key st)\<lparr>rrx_buffered := drop j (rrx_buffered (rx_state_of key st))\<rparr>"
proof -
  have ev: "evicted L st (snd (pop_shared_queue_item L kind st))"
    using assms by (intro pop_shared_evicts) (simp add: receiver_ok_def)
  show "receiver_ok L C (snd (pop_shared_queue_item L kind st))"
    using assms evicted_queues_wf [OF ev] evicted_buffers_ok [OF ev, of C] by (simp add: receiver_ok_def)
  show "\<exists>j. rx_state_of key (snd (pop_shared_queue_item L kind st)) =
      (rx_state_of key st)\<lparr>rrx_buffered := drop j (rrx_buffered (rx_state_of key st))\<rparr>"
    by (rule evicted_rx_state [OF ev])
qed

lemma ordered_run_spec:
  assumes "receiver_ok L C st" and "key = reliable_key C src ty" and "stream_ok F (rx_state_of key st)"
    and "list_all (arrival_ok (\<lambda>s. s \<noteq> - 1)) es" and "ordered_run L C src ty F es st = (st', d)"
  shows "unat (rrx_expected_seq (rx_state_of key st)) \<le> unat (rrx_expected_seq (rx_state_of key st')) \<and>
    d = frames_between F (unat (rrx_expected_seq (rx_state_of key st))) (unat (rrx_expected_seq (rx_state_of key st')))"
  using assms(1,3-)
proof (induction es arbitrary: st d)
  case Nil
  then show ?case by (simp add: frames_between_def)
next
  case (Cons e es)
  show ?case
  proof (cases e)
    case (Pressure kind)
    obtain j where j: "rx_state_of key (snd (pop_shared_queue_item L kind st)) =
        (rx_state_of key st)\<lparr>rrx_buffered := drop j (rrx_buffered (rx_state_of key st))\<rparr>"
      using pressure_state(2) [OF Cons.prems(1)] by blast
    then have ok: "stream_ok F (rx_state_of key (snd (pop_shared_queue_item L kind st)))"
      using Cons.prems(2) set_drop_subset [of j "rrx_buffered (rx_state_of key st)"] by (auto simp: stream_ok_def)
    have "list_all (arrival_ok (\<lambda>s. s \<noteq> - 1)) es"
      "ordered_run L C src ty F es (snd (pop_shared_queue_item L kind st)) = (st', d)"
      using Cons.prems(3,4) Pressure by auto
    from Cons.IH [OF pressure_state(1) [OF Cons.prems(1)] ok this] j show ?thesis by simp
  next
    case (Arrives seq)
    obtain s r where step: "ordered_rx L C src ty seq (F seq) st = (s, r)" by force
    obtain d' where rest: "ordered_run L C src ty F es s = (st', d')" and d: "d = delivered_frames r @ d'"
      using Cons.prems(4) step Arrives by (auto split: prod.splits)
    have seq: "seq \<noteq> - 1" using Cons.prems(3) Arrives by simp
    have es: "list_all (arrival_ok (\<lambda>s. s \<noteq> - 1)) es" using Cons.prems(3) by simp
    from Cons.prems(1) assms(2) step show ?thesis
    proof (cases rule: ordered_rx_step)
      case old
      then show ?thesis using Cons.IH [OF old(4) _ es rest] Cons.prems(2) d by simp
    next
      case early
      then have "stream_ok F (rx_state_of key s)" using Cons.prems(2) seq by (auto simp: stream_ok_def)
      moreover have "delivered_frames r = []" using early(4) by auto
      ultimately show ?thesis using Cons.IH [OF early(5) _ es rest] early(2) d by simp
    next
      case (due rel n1 n rest1)
      have nxt: "unat (seq + 1) = Suc (unat seq)"
        using seq by (metis unat_next_seq next_seq_def add.inverse_unique add.commute)
      have run: "unat (seq + 1) \<le> unat n" "rel = frames_between F (unat (seq + 1)) (unat n)"
        "set rest1 \<subseteq> set (rrx_buffered (rx_state_of key st))"
        using release_run_spec [of "rrx_buffered (rx_state_of key st)" F "seq + 1" seq] Cons.prems(2) due(2)
        by (auto simp: stream_ok_def)
      have "stream_ok F (rx_state_of key s)" using Cons.prems(2) run(3) due(3) by (auto simp: stream_ok_def)
      from Cons.IH [OF due(5) this es rest] have
        ih: "unat n \<le> unat (rrx_expected_seq (rx_state_of key st'))"
          "d' = frames_between F (unat n) (unat (rrx_expected_seq (rx_state_of key st')))"
        using due(3) by auto
      have "F seq # rel = frames_between F (unat seq) (unat n)"
        using run(1,2) nxt by (simp add: frames_between_def upt_conv_Cons)
      then have "d = frames_between F (unat seq) (unat (rrx_expected_seq (rx_state_of key st')))"
        using d due(4) ih frames_between_append [of "unat seq" "unat n" _ F] run(1) nxt by (simp flip: append_Cons)
      then show ?thesis using due(1) ih(1) run(1) nxt by simp
    qed
  qed
qed

text \<open>A receiver that expects sequence number zero, which no sender uses, delivers nothing.\<close>

lemma zero_expected_stalls:
  assumes "receiver_ok L C st" and "key = reliable_key C src ty" and "rrx_expected_seq (rx_state_of key st) = 0"
    and "list_all (arrival_ok (\<lambda>s. s \<noteq> 0)) es" and "ordered_run L C src ty F es st = (st', d)"
  shows "rrx_expected_seq (rx_state_of key st') = 0 \<and> d = []"
  using assms(1,3-)
proof (induction es arbitrary: st d)
  case (Cons e es)
  show ?case
  proof (cases e)
    case (Pressure kind)
    have "rrx_expected_seq (rx_state_of key (snd (pop_shared_queue_item L kind st))) = 0"
      using pressure_state(2) [OF Cons.prems(1), of key kind] Cons.prems(2) by auto
    from Cons.IH [OF pressure_state(1) [OF Cons.prems(1)] this] Cons.prems(3,4) Pressure show ?thesis by simp
  next
    case (Arrives seq)
    obtain s r where step: "ordered_rx L C src ty seq (F seq) st = (s, r)" by force
    obtain d' where rest: "ordered_run L C src ty F es s = (st', d')" and d: "d = delivered_frames r @ d'"
      using Cons.prems(4) step Arrives by (auto split: prod.splits)
    from Cons.prems(1) assms(2) step show ?thesis
    proof (cases rule: ordered_rx_step)
      case early
      then have "delivered_frames r = []" by auto
      then show ?thesis using Cons.IH [OF early(5) _ _ rest] early(2) Cons.prems(2,3) d by simp
    qed (use Cons.prems(2,3) Arrives in auto)
  qed
qed simp

section \<open>The sender\<close>

lemma tx_mut_idem:
  "bt_get (rtx_sent (tx_state_of key st)) seq = Some sent \<Longrightarrow> reliable_tx_state_mut key st = st"
  by (auto simp: tx_state_of_def tx_state_new_def reliable_tx_state_mut_def bt_get_def split: option.splits)

lemma tx_state_sample [simp]: "tx_state_of key (sample_call side call n st) = tx_state_of key st"
  by (simp add: tx_state_of_def sample_call_def record_side_tx_sample_def Let_def)

lemma tx_mut_update: "reliable_tx_state_mut key (update_tx_state key f st) = update_tx_state key f st"
  by (simp add: reliable_tx_state_mut_def [of key "update_tx_state key f st"])
    (simp add: update_tx_state_def Let_def bt_get_modify tx_mut_present)

lemma retry_all_fail:
  assumes "\<forall>i. \<exists>e. f i = Err e" and "0 < n"
  shows "\<exists>e. retry n f = Err e"
proof -
  have "\<exists>e. retry_from i n f last = Err e" if "0 < n \<or> last \<noteq> None" for i n last
    using that
  proof (induction n arbitrary: i last)
    case (Suc n)
    obtain e where "f i = Err e" using assms(1) by blast
    then show ?case using Suc.IH [of "Some e"] by simp
  qed auto
  then show ?thesis using assms(2) by (simp add: retry_def)
qed

lemma retransmit_unknown:
  "bt_get (rtx_sent (tx_state_of (reliable_key E side ty) st)) seq = None \<Longrightarrow>
   queue_reliable_retransmit L E side ty seq st = (reliable_tx_state_mut (reliable_key E side ty) st, Ok ())"
  by (simp add: queue_reliable_retransmit_def Let_def)

lemma retransmit_queued:
  "bt_get (rtx_sent (tx_state_of (reliable_key E side ty) st)) seq = Some sent \<Longrightarrow> sent_queued sent \<Longrightarrow>
   queue_reliable_retransmit L E side ty seq st = (st, Ok ())"
  by (simp add: queue_reliable_retransmit_def Let_def tx_mut_idem)

lemma timeout_queued:
  "bt_get (rtx_sent tx) seq = Some sent \<Longrightarrow> sent_queued sent \<Longrightarrow> timeout_entry C now seq tx = (tx, False)"
  by (simp add: timeout_entry_def)

lemma transmit_frame_state:
  "transmit_frame E call side bs st = (st', r) \<Longrightarrow> \<not> is_ok r \<Longrightarrow> st' = st"
  by (auto simp: transmit_frame_def Let_def split: if_splits)

lemma ack_prefix_spec:
  "ack_prefix ack order sent =
     (dropWhile (\<lambda>s. s \<le> ack) order, fold bt_remove (takeWhile (\<lambda>s. s \<le> ack) order) sent)"
  by (induction order arbitrary: sent) (auto simp: not_less)

lemma fold_bt_remove: "fold bt_remove ks m = filter (\<lambda>p. fst p \<notin> set ks) m"
  by (induction ks arbitrary: m) (auto simp: bt_remove_def intro: filter_cong)

text \<open>The frames kept for retransmission: they are listed in sending order and never too many.\<close>

definition history_ok :: "'z config_scheme \<Rightarrow> reliable_tx_state \<Rightarrow> bool" where
  "history_ok C tx \<longleftrightarrow> bt_wf (rtx_sent tx) \<and> set (bt_keys (rtx_sent tx)) \<subseteq> set (rtx_sent_order tx) \<and>
     length (rtx_sent tx) \<le> reliable_max_pending C \<and> rtx_next_seq tx \<noteq> 0"

lemma history_ok_new: "history_ok C tx_state_new"
  by (simp add: history_ok_def tx_state_new_def bt_keys_def)

lemma history_ok_modify:
  "history_ok C tx \<Longrightarrow> history_ok C (tx\<lparr>rtx_sent := bt_modify seq f (rtx_sent tx)\<rparr>)"
  by (simp add: history_ok_def bt_wf_modify bt_keys_def)

lemma history_ok_remove:
  "history_ok C tx \<Longrightarrow>
   history_ok C (tx\<lparr>rtx_sent := bt_remove seq (rtx_sent tx), rtx_sent_order := filter (\<lambda>s. s \<noteq> seq) (rtx_sent_order tx)\<rparr>)"
  by (auto simp: history_ok_def bt_keys_def bt_remove_def bt_wf_filter intro: le_trans [OF length_filter_le])

lemma history_ok_ack:
  assumes "history_ok C tx" and "ack_prefix ack (rtx_sent_order tx) (rtx_sent tx) = (order, sent)"
  shows "history_ok C (tx\<lparr>rtx_sent_order := order, rtx_sent := sent\<rparr>)"
proof -
  let ?gone = "takeWhile (\<lambda>s. s \<le> ack) (rtx_sent_order tx)"
  have "order = dropWhile (\<lambda>s. s \<le> ack) (rtx_sent_order tx)" "sent = filter (\<lambda>p. fst p \<notin> set ?gone) (rtx_sent tx)"
    using assms(2) by (auto simp: ack_prefix_spec fold_bt_remove)
  moreover have "set (rtx_sent_order tx) = set ?gone \<union> set (dropWhile (\<lambda>s. s \<le> ack) (rtx_sent_order tx))"
    by (metis set_append takeWhile_dropWhile_id)
  ultimately show ?thesis
    using assms(1) by (auto simp: history_ok_def bt_keys_def bt_wf_filter intro: le_trans [OF length_filter_le])
qed

lemma history_ok_sent:
  assumes "history_ok C tx" and "length (rtx_sent tx) < reliable_max_pending C"
  shows "history_ok C (tx\<lparr>rtx_sent_order := rtx_sent_order tx @ [seq], rtx_sent := bt_insert seq v (rtx_sent tx)\<rparr>)"
  using assms length_bt_insert [of seq v "rtx_sent tx"]
  by (auto simp: history_ok_def bt_wf_insert bt_keys_def set_bt_insert)

lemma timeout_scan_ok: "history_ok C tx \<Longrightarrow> history_ok C (fst (timeout_scan C now seqs tx))"
proof (induction seqs arbitrary: tx)
  case (Cons seq seqs)
  have "history_ok C (fst (timeout_entry C now seq tx))"
    using Cons.prems history_ok_modify history_ok_remove by (auto simp: timeout_entry_def split: option.splits)
  then show ?case using Cons.IH [of "fst (timeout_entry C now seq tx)"] by (simp add: case_prod_beta)
qed simp

section \<open>The history of every stream\<close>

definition histories_ok :: "'z config_scheme \<Rightarrow> router_inner \<Rightarrow> bool" where
  "histories_ok C st \<longleftrightarrow> list_all (history_ok C) (bt_values (reliable_tx st))"

lemma histories_cong: "reliable_tx st' = reliable_tx st \<Longrightarrow> histories_ok C st' = histories_ok C st"
  by (simp add: histories_ok_def)

lemma pop_shared_tx: "reliable_tx (snd (pop_shared_queue_item L kind st)) = reliable_tx st"
  by (cases kind) (auto simp: pop_reliable_rx_buffered_def pop_discovery_route_def split: prod.splits option.splits)

lemma make_room_tx: "reliable_tx (fst (make_room_loop L budget c preferred st)) = reliable_tx st"
  using budget.loop_closed [where Q = "\<lambda>a b. reliable_tx b = reliable_tx a" and L = L] pop_shared_tx by simp

lemma push_transmit_tx: "push_transmit L C q st = (st', r) \<Longrightarrow> reliable_tx st' = reliable_tx st"
  using make_room_tx [of L "max_queue_budget C" "tx_queued_byte_cost L q" Transmit st]
  by (cases "make_room_loop L (max_queue_budget C) (tx_queued_byte_cost L q) Transmit st";
      cases "snd (make_room_loop L (max_queue_budget C) (tx_queued_byte_cost L q) Transmit st)")
    (auto simp: push_transmit_def make_shared_queue_room_def split: if_splits prod.splits)

lemma queue_item_tx: "tx_queue_item_with_priority L C item il p st = (st', r) \<Longrightarrow> reliable_tx st' = reliable_tx st"
  unfolding tx_queue_item_with_priority_def by (rule push_transmit_tx)

lemma histories_mut: "histories_ok C st \<Longrightarrow> histories_ok C (reliable_tx_state_mut key st)"
  using set_bt_insert_subset [of key tx_state_new "reliable_tx st"] history_ok_new [of C]
  by (auto simp: histories_ok_def reliable_tx_state_mut_def list_all_iff bt_values_def split: option.splits)

lemma histories_of: "histories_ok C st \<Longrightarrow> history_ok C (tx_state_of key st)"
  using history_ok_new [of C]
  by (force simp: tx_state_of_def histories_ok_def bt_get_def list_all_iff bt_values_def dest: map_of_SomeD split: option.splits)

lemma histories_update_at:
  assumes "histories_ok C st" and "history_ok C (f (tx_state_of key st))" and "bt_wf (reliable_tx st)"
  shows "histories_ok C (update_tx_state key f st)"
proof -
  let ?s = "reliable_tx_state_mut key st"
  have wf: "bt_wf (reliable_tx ?s)" using assms(3) by (auto simp: reliable_tx_state_mut_def bt_wf_insert split: option.splits)
  have "history_ok C (f tx)" if "(key, tx) \<in> set (reliable_tx ?s)" for tx
    using that wf tx_mut_present [of key st] assms(2) by (simp flip: bt_get_in_set)
  then show ?thesis using histories_mut [OF assms(1), of key]
    by (force simp: histories_ok_def update_tx_state_def Let_def list_all_iff bt_values_def bt_modify_def)
qed

definition senders_ok :: "'z config_scheme \<Rightarrow> router_inner \<Rightarrow> bool" where
  "senders_ok C st \<longleftrightarrow> histories_ok C st \<and> bt_wf (reliable_tx st)"

lemma senders_cong: "reliable_tx st' = reliable_tx st \<Longrightarrow> senders_ok C st' = senders_ok C st"
  by (simp add: senders_ok_def histories_ok_def)

lemma senders_mut: "senders_ok C st \<Longrightarrow> senders_ok C (reliable_tx_state_mut key st)"
  using histories_mut [of C st key]
  by (auto simp: senders_ok_def reliable_tx_state_mut_def bt_wf_insert split: option.splits)

lemma senders_update:
  assumes "senders_ok C st" and "history_ok C (tx_state_of key st) \<Longrightarrow> history_ok C (f (tx_state_of key st))"
  shows "senders_ok C (update_tx_state key f st)"
  using assms histories_update_at [of C st f key] histories_of [of C st key] senders_mut [of C st key]
  by (auto simp: senders_ok_def update_tx_state_def Let_def bt_wf_modify)

lemma senders_retransmit:
  assumes "senders_ok E st" and "queue_reliable_retransmit L E side ty seq st = (st', r)"
  shows "senders_ok E st'"
proof -
  let ?key = "reliable_key E side ty"
  let ?s = "reliable_tx_state_mut ?key st"
  note ok = senders_mut [OF assms(1), of ?key]
  show ?thesis
  proof (cases "bt_get (rtx_sent (tx_state_of ?key st)) seq")
    case None
    then show ?thesis using assms(2) ok by (simp add: retransmit_unknown)
  next
    case (Some sent)
    show ?thesis
    proof (cases "sent_queued sent")
      case True
      then show ?thesis using assms(1,2) Some by (simp add: retransmit_queued)
    next
      case False
      have "senders_ok E (update_tx_state ?key (\<lambda>tx.
          tx\<lparr>rtx_sent := bt_modify seq (\<lambda>s. s\<lparr>sent_queued := True, sent_partial_acked := False\<rparr>) (rtx_sent tx)\<rparr>) ?s)"
        using ok by (rule senders_update) (rule history_ok_modify)
      moreover have "tx_queue_item_with_priority L E (ReliableReplay side (sent_bytes sent)) True (router_item_priority_bumped E ty)
          (update_tx_state ?key (\<lambda>tx. tx\<lparr>rtx_sent := bt_modify seq (\<lambda>s. s\<lparr>sent_queued := True, sent_partial_acked := False\<rparr>)
             (rtx_sent tx)\<rparr>) ?s) = (st', r)"
        using assms(2) Some False by (simp add: queue_reliable_retransmit_def Let_def)
      from queue_item_tx [OF this] have "senders_ok E st' = senders_ok E (update_tx_state ?key (\<lambda>tx.
          tx\<lparr>rtx_sent := bt_modify seq (\<lambda>s. s\<lparr>sent_queued := True, sent_partial_acked := False\<rparr>) (rtx_sent tx)\<rparr>) ?s)"
        by (rule senders_cong)
      ultimately show ?thesis by simp
    qed
  qed
qed

lemma senders_requeue: "senders_ok E st \<Longrightarrow> senders_ok E (fst (requeue_all L E q st))"
proof (induction q arbitrary: st)
  case (Cons e q)
  obtain side ty seq where e: "e = (side, ty, seq)" by (cases e)
  obtain s r where s: "queue_reliable_retransmit L E side ty seq st = (s, r)" by force
  have "senders_ok E s" by (rule senders_retransmit [OF Cons.prems s])
  with Cons.IH show ?case by (cases r) (simp_all add: e s)
qed simp

lemma timeout_streams_keys: "map fst (fst (timeout_streams C now m)) = map fst m"
  by (induction C now m rule: timeout_streams.induct) (auto split: prod.splits option.splits)

lemma timeout_streams_ok:
  "list_all (history_ok C) (bt_values m) \<Longrightarrow> list_all (history_ok C) (bt_values (fst (timeout_streams C now m)))"
proof (induction C now m rule: timeout_streams.induct)
  case (2 C now side ty_raw tx m)
  have "history_ok C (fst (timeout_scan C now (rtx_sent_order tx) tx))"
    using 2(2) by (intro timeout_scan_ok) (simp add: bt_values_def)
  then show ?case using 2 by (auto simp: bt_values_def split: prod.splits option.splits)
qed (simp add: bt_values_def)

lemma senders_timeouts:
  assumes "senders_ok E st" and "process_reliable_timeouts L E now st = (st', r)"
  shows "senders_ok E st'"
proof -
  let ?s = "st\<lparr>reliable_tx := fst (timeout_streams E now (reliable_tx st))\<rparr>"
  have "senders_ok E ?s"
    using assms(1) timeout_streams_ok [of E "reliable_tx st" now] timeout_streams_keys [of E now "reliable_tx st"]
    by (simp add: senders_ok_def histories_ok_def bt_wf_def)
  from senders_requeue [OF this, of L "snd (timeout_streams E now (reliable_tx st))"] show ?thesis
    using assms by (auto simp: process_reliable_timeouts_def case_prod_beta split: if_splits)
qed

lemma sample_tx [simp]: "reliable_tx (sample_call side call n st) = reliable_tx st"
  by (simp add: sample_call_def record_side_tx_sample_def Let_def)

lemma call_side_tx: "reliable_tx (fst (call_side_tx_handler E call side handler it st)) = reliable_tx st"
  by (auto simp: call_side_tx_handler_def Let_def split: outcome.splits)

lemma transmit_frame_tx: "transmit_frame E call side bs st = (st', r) \<Longrightarrow> reliable_tx st' = reliable_tx st"
  by (auto simp: transmit_frame_def Let_def split: if_splits)

lemma adjusted_tx: "send_adjusted E call side opts it st = (st', r) \<Longrightarrow> reliable_tx st' = reliable_tx st"
proof -
  have "reliable_tx (fst (send_adjusted E call side opts it st)) = reliable_tx st"
    by (cases "adjust_reliable_for_side E opts it") (simp_all add: send_adjusted_def call_side_tx split: option.splits)
  then show "send_adjusted E call side opts it st = (st', r) \<Longrightarrow> reliable_tx st' = reliable_tx st" by simp
qed

lemma history_ok_next: "history_ok C tx \<Longrightarrow> history_ok C (tx\<lparr>rtx_next_seq := next_seq (rtx_next_seq tx)\<rparr>)"
  by (simp add: history_ok_def next_seq_nonzero)

lemma alloc_seq_cases:
  assumes "alloc_seq E key st = (st', r)" and "senders_ok E st"
  obtains (refused) "r = Err (PacketTooLarge ''router reliable history full'')" "senders_ok E st'"
    "tx_state_of key st' = tx_state_of key st" "reliable_max_pending E \<le> length (rtx_sent (tx_state_of key st))"
  | (given) "r = Ok (rtx_next_seq (tx_state_of key st))" "senders_ok E st'"
    "tx_state_of key st' = (tx_state_of key st)\<lparr>rtx_next_seq := next_seq (rtx_next_seq (tx_state_of key st))\<rparr>"
    "length (rtx_sent (tx_state_of key st)) < reliable_max_pending E"
  using assms senders_mut [OF assms(2), of key]
    senders_update [OF senders_mut [OF assms(2), of key], of key "\<lambda>tx. tx\<lparr>rtx_next_seq := next_seq (rtx_next_seq tx)\<rparr>"]
  by (auto simp: alloc_seq_def Let_def history_ok_next not_le split: if_splits)

lemma senders_sequenced:
  assumes "senders_ok E st" and "send_sequenced E call side ty it st = (st', r)"
  shows "senders_ok E st'"
proof -
  let ?key = "reliable_key E side ty" and ?flags = "if reliable_mode_of E ty = Unordered then RELIABLE_FLAG_UNORDERED else 0"
  obtain s1 r1 where alloc: "alloc_seq E ?key st = (s1, r1)" by force
  note body = assms(2) [unfolded send_sequenced_def Let_def alloc]
  from alloc assms(1) show ?thesis
  proof (cases rule: alloc_seq_cases)
    case refused
    then show ?thesis using body by simp
  next
    case given
    let ?seq = "rtx_next_seq (tx_state_of ?key st)"
    note body = body [unfolded given(1) sthen_simps]
    show ?thesis
    proof (cases "sequenced_frame E it ?flags ?seq")
      case (Ok frame)
      note body = body [unfolded Ok sthen_simps]
      show ?thesis
      proof (cases frame)
        case None
        then have "reliable_tx st' = reliable_tx s1" using body by (cases it) (auto dest: transmit_frame_tx)
        then show ?thesis using given(2) by (simp add: senders_cong [of st' s1])
      next
        case (Some bs)
        obtain s2 r2 where tx: "transmit_frame E call side bs s1 = (s2, r2)" by force
        have ok: "senders_ok E s2" "tx_state_of ?key s2 = tx_state_of ?key s1"
          using transmit_frame_tx [OF tx] given(2) by (simp_all add: senders_cong [of s2 s1] tx_state_of_def)
        have "senders_ok E (remember_sent ?key ?seq bs (call_ended_ms call) s2)"
          unfolding remember_sent_def using ok given(3,4) by (intro senders_update history_ok_sent) simp_all
        then show ?thesis using body Some tx ok by (cases r2) auto
      qed
    qed (use body given in auto)
  qed
qed

lemma senders_send:
  assumes "senders_ok E st" and "send_reliable_to_side E N call side it st = (st', r)"
  shows "senders_ok E st'"
proof -
  have same: "senders_ok E s'" if "reliable_tx s' = reliable_tx st" for s' using that assms(1) by (simp add: senders_cong [of s' st])
  have handler: "senders_ok E (fst (call_side_tx_handler E call side Packet_Tx it st))" by (rule same) (rule call_side_tx)
  show ?thesis
    using assms(2) same handler senders_sequenced [OF assms(1), of call side _ it st' r]
    by (cases "side_ref st side"; cases "item_frame_type E it")
      (auto simp: send_reliable_to_side_def Let_def dest: adjusted_tx split: if_splits)
qed

lemma senders_raw: "reliable_tx (fst (send_reliable_raw_to_side E call side bs st)) = reliable_tx st"
proof -
  have "reliable_tx (fst (sthen (st, m) (\<lambda>_ st. (sample_call side call n st, Ok ())))) = reliable_tx st"
    for m :: "unit telemetry_result" and n
    by (cases m) simp_all
  then show ?thesis
    by (cases "side_ref st side") (simp_all add: send_reliable_raw_to_side_def)
qed

lemma senders_flags: "tx_queue_item_with_flags L E item il st = (st', r) \<Longrightarrow> reliable_tx st' = reliable_tx st"
  by (cases "tx_item_priority E item") (auto simp: tx_queue_item_with_flags_def dest: queue_item_tx)

lemma senders_replay:
  assumes "senders_ok E st" and "tx_reliable_replay L E call dst bs st = (st', r)"
  shows "senders_ok E st'"
proof (cases "peek_frame_info E bs")
  case (Ok frame)
  show ?thesis
  proof (cases "fi_reliable frame")
    case None
    then show ?thesis using assms Ok by (simp add: tx_reliable_replay_def)
  next
    case (Some hdr)
    let ?key = "reliable_key E dst (te_ty (fi_envelope frame))"
    let ?s = "reliable_tx_state_mut ?key st"
    obtain s2 r2 where raw: "send_reliable_raw_to_side E call dst bs ?s = (s2, r2)" by force
    have ok: "senders_ok E ?s" "senders_ok E s2"
      using senders_mut [OF assms(1), of ?key] senders_raw [of E call dst bs ?s] raw by (simp_all add: senders_cong [of s2 ?s])
    have "senders_ok E (update_tx_state ?key (\<lambda>tx. tx\<lparr>rtx_sent := bt_modify (rh_seq hdr)
        (\<lambda>s. s\<lparr>sent_last_send_ms := call_ended_ms call, sent_queued := False\<rparr>) (rtx_sent tx)\<rparr>) s2)"
      using ok(2) by (rule senders_update) (rule history_ok_modify)
    moreover have "senders_ok E s3" if "tx_queue_item_with_flags L E (ReliableReplay dst bs) True s2 = (s3, r3)" for s3 r3
      using senders_flags [OF that] ok(2) by (simp add: senders_cong [of s3 s2])
    ultimately show ?thesis using assms(2) Ok Some raw ok
      by (cases r2) (auto simp: tx_reliable_replay_def Let_def split: if_splits)
  qed
qed (use assms in \<open>simp_all add: tx_reliable_replay_def\<close>)

lemma senders_ack: "senders_ok E st \<Longrightarrow> senders_ok E (handle_reliable_ack E side ty ack st)"
  unfolding handle_reliable_ack_def
  by (rule senders_update) (auto intro: history_ok_remove history_ok_ack split: prod.splits)

lemma senders_partial_ack: "senders_ok E st \<Longrightarrow> senders_ok E (handle_reliable_partial_ack E side ty seq st)"
  unfolding handle_reliable_partial_ack_def by (rule senders_update) (auto intro: history_ok_modify)

inductive sender_step :: "layout \<Rightarrow> env \<Rightarrow> router_node \<Rightarrow> router_inner \<Rightarrow> router_inner \<Rightarrow> bool"
  for L :: layout and E :: env and N :: router_node where
  step_send: "send_reliable_to_side E N call side it st = (st', r) \<Longrightarrow> sender_step L E N st st'"
| step_replay: "tx_reliable_replay L E call dst bs st = (st', r) \<Longrightarrow> sender_step L E N st st'"
| step_ack: "sender_step L E N st (handle_reliable_ack E side ty ack st)"
| step_partial: "sender_step L E N st (handle_reliable_partial_ack E side ty seq st)"
| step_request: "queue_reliable_retransmit L E side ty seq st = (st', r) \<Longrightarrow> sender_step L E N st st'"
| step_timeouts: "process_reliable_timeouts L E now st = (st', r) \<Longrightarrow> sender_step L E N st st'"

lemma sender_step_ok: "sender_step L E N st st' \<Longrightarrow> senders_ok E st \<Longrightarrow> senders_ok E st'"
  by (induction rule: sender_step.induct)
    (auto intro: senders_send senders_replay senders_ack senders_partial_ack senders_retransmit senders_timeouts)

end
