(* ===== verification/Router_Sender_Laws.thy ===== *)
theory Router_Sender_Laws
  imports Router_Reliable_Laws "HOL-Library.Sublist"
begin

text \<open>
  The order in which a sender lists the frames it keeps. Every operation leaves the list of a stream as
  it is or shortens it, and a transmission adds the number it has just handed out at the end; so along
  a run, which carries the log of the numbers handed out, the list is a subsequence of the log.
\<close>

section \<open>Operations that hand out no number\<close>

definition keeps_order :: "reliable_tx_state \<Rightarrow> reliable_tx_state \<Rightarrow> bool" where
  "keeps_order tx tx' \<longleftrightarrow> rtx_next_seq tx' = rtx_next_seq tx \<and> subseq (rtx_sent_order tx') (rtx_sent_order tx)"

definition streams_kept :: "router_inner \<Rightarrow> router_inner \<Rightarrow> bool" where
  "streams_kept a b \<longleftrightarrow> (bt_wf (reliable_tx a) \<longrightarrow>
     bt_wf (reliable_tx b) \<and> (\<forall>key. keeps_order (tx_state_of key a) (tx_state_of key b)))"

lemma keeps_order_refl [simp]: "keeps_order tx tx"
  by (simp add: keeps_order_def)

lemma keeps_order_trans: "keeps_order a b \<Longrightarrow> keeps_order b c \<Longrightarrow> keeps_order a c"
  by (auto simp: keeps_order_def intro: subseq_order.trans)

lemma streams_kept_same: "reliable_tx b = reliable_tx a \<Longrightarrow> streams_kept a b"
  by (simp add: streams_kept_def tx_state_of_def)

lemma streams_kept_trans: "streams_kept a b \<Longrightarrow> streams_kept b c \<Longrightarrow> streams_kept a c"
  unfolding streams_kept_def by (meson keeps_order_trans)

lemma tx_state_of_mut_any:
  "bt_wf (reliable_tx st) \<Longrightarrow> tx_state_of key' (reliable_tx_state_mut key st) = tx_state_of key' st"
  by (cases "key' = key") (auto simp: tx_state_of_def reliable_tx_state_mut_def bt.get_insert split: option.splits)

lemma tx_wf_mut: "bt_wf (reliable_tx st) \<Longrightarrow> bt_wf (reliable_tx (reliable_tx_state_mut key st))"
  by (simp add: reliable_tx_state_mut_def bt_wf_insert split: option.splits)

lemma tx_state_of_update_any:
  "bt_wf (reliable_tx st) \<Longrightarrow>
   tx_state_of key' (update_tx_state key f st) = (if key' = key then f (tx_state_of key st) else tx_state_of key' st)"
proof (cases "key' = key")
  case False
  assume "bt_wf (reliable_tx st)"
  from tx_state_of_mut_any [OF this, of key' key] False show ?thesis
    by (simp add: update_tx_state_def Let_def tx_state_of_def bt_get_modify)
qed simp

lemma tx_wf_update: "bt_wf (reliable_tx st) \<Longrightarrow> bt_wf (reliable_tx (update_tx_state key f st))"
  by (simp add: update_tx_state_def Let_def bt_wf_modify tx_wf_mut)

lemma kept_mut: "streams_kept st (reliable_tx_state_mut key st)"
  by (simp add: streams_kept_def tx_state_of_mut_any tx_wf_mut)

lemma kept_update: "(\<And>tx. keeps_order tx (f tx)) \<Longrightarrow> streams_kept st (update_tx_state key f st)"
  by (simp add: streams_kept_def tx_state_of_update_any tx_wf_update)

lemma kept_ack: "streams_kept st (handle_reliable_ack E side ty ack st)"
  unfolding handle_reliable_ack_def
  by (rule kept_update) (auto simp: keeps_order_def ack_prefix_spec intro: suffix_imp_subseq suffix_dropWhile)

lemma kept_partial_ack: "streams_kept st (handle_reliable_partial_ack E side ty seq st)"
  unfolding handle_reliable_partial_ack_def by (rule kept_update) (simp add: keeps_order_def)

lemma kept_retransmit: "streams_kept st (fst (queue_reliable_retransmit L E side ty seq st))"
proof -
  let ?key = "reliable_key E side ty"
  let ?f = "\<lambda>tx. tx\<lparr>rtx_sent := bt_modify seq (\<lambda>s. s\<lparr>sent_queued := True, sent_partial_acked := False\<rparr>) (rtx_sent tx)\<rparr>"
  let ?s = "update_tx_state ?key ?f (reliable_tx_state_mut ?key st)"
  have s: "streams_kept st ?s"
    by (rule streams_kept_trans [OF kept_mut [of st ?key] kept_update]) (simp add: keeps_order_def)
  have "streams_kept st (fst (tx_queue_item_with_priority L E it il p ?s))" for it il p
    using streams_kept_trans [OF s streams_kept_same] queue_item_tx [OF surjective_pairing] by blast
  then show ?thesis using kept_mut [of st ?key]
    by (simp add: queue_reliable_retransmit_def Let_def split: option.splits)
qed

lemma kept_requeue: "streams_kept st (fst (requeue_all L E q st))"
proof (induction q arbitrary: st)
  case Nil
  then show ?case by (simp add: streams_kept_same)
next
  case (Cons e q)
  obtain side ty seq where e: "e = (side, ty, seq)" by (cases e)
  obtain s r where s: "queue_reliable_retransmit L E side ty seq st = (s, r)" by force
  with kept_retransmit [of st L E side ty seq] have "streams_kept st s" by simp
  with Cons.IH [of s] show ?case by (cases r) (auto simp: e s intro: streams_kept_trans)
qed

lemma timeout_scan_order: "keeps_order tx (fst (timeout_scan C now seqs tx))"
proof (induction seqs arbitrary: tx)
  case (Cons seq seqs)
  have "keeps_order tx (fst (timeout_entry C now seq tx))"
    by (auto simp: timeout_entry_def keeps_order_def split: option.splits)
  from keeps_order_trans [OF this Cons.IH] show ?case by (simp add: case_prod_beta)
qed simp

lemma timeout_streams_get:
  "case bt_get m key of None \<Rightarrow> bt_get (fst (timeout_streams C now m)) key = None
   | Some tx \<Rightarrow> \<exists>tx'. bt_get (fst (timeout_streams C now m)) key = Some tx' \<and> keeps_order tx tx'"
proof (induction C now m rule: timeout_streams.induct)
  case (2 C now side ty_raw tx m)
  have "keeps_order tx tx'" if "timeout_scan C now (rtx_sent_order tx) tx = (tx', q)" for tx' q
    using timeout_scan_order [of tx C now "rtx_sent_order tx"] that by simp
  then show ?case using 2 by (auto simp: bt_get_def split: prod.splits option.splits if_splits)
qed (simp add: bt_get_def)

lemma kept_timeouts: "streams_kept st (fst (process_reliable_timeouts L E now st))"
proof -
  let ?s = "st\<lparr>reliable_tx := fst (timeout_streams E now (reliable_tx st))\<rparr>"
  have "keeps_order (tx_state_of key st) (tx_state_of key ?s)" for key
    using timeout_streams_get [where m = "reliable_tx st" and key = key and C = E and now = now] by (auto simp: tx_state_of_def split: option.splits)
  then have "streams_kept st ?s"
    using timeout_streams_keys [of E now "reliable_tx st"] by (simp add: streams_kept_def bt_wf_def)
  from streams_kept_trans [OF this kept_requeue] show ?thesis
    by (simp add: process_reliable_timeouts_def case_prod_beta streams_kept_same)
qed

lemma kept_replay: "streams_kept st (fst (tx_reliable_replay L E call dst bs st))"
proof (cases "peek_frame_info E bs")
  case (Ok frame)
  show ?thesis
  proof (cases "fi_reliable frame")
    case None
    then show ?thesis using Ok by (simp add: tx_reliable_replay_def streams_kept_same)
  next
    case (Some hdr)
    let ?key = "reliable_key E dst (te_ty (fi_envelope frame))"
    let ?s = "reliable_tx_state_mut ?key st"
    obtain s2 r2 where raw: "send_reliable_raw_to_side E call dst bs ?s = (s2, r2)" by force
    have s2: "streams_kept st s2"
      using streams_kept_trans [OF kept_mut [of st ?key] streams_kept_same [of s2]] senders_raw [of E call dst bs ?s] raw by simp
    have "streams_kept st (update_tx_state ?key (\<lambda>tx. tx\<lparr>rtx_sent := bt_modify (rh_seq hdr)
        (\<lambda>s. s\<lparr>sent_last_send_ms := call_ended_ms call, sent_queued := False\<rparr>) (rtx_sent tx)\<rparr>) s2)"
      by (rule streams_kept_trans [OF s2 kept_update]) (simp add: keeps_order_def)
    moreover have "streams_kept st (fst (tx_queue_item_with_flags L E it il s2))" for it il
      using streams_kept_trans [OF s2 streams_kept_same] senders_flags [OF surjective_pairing] by blast
    ultimately show ?thesis using Ok Some raw s2 kept_mut [of st ?key]
      by (cases r2) (auto simp: tx_reliable_replay_def Let_def)
  qed
qed (simp_all add: tx_reliable_replay_def streams_kept_same)

section \<open>Transmissions\<close>

definition hands_out :: "reliable_tx_state \<Rightarrow> reliable_tx_state \<Rightarrow> bool" where
  "hands_out tx tx' \<longleftrightarrow> rtx_next_seq tx' = next_seq (rtx_next_seq tx) \<and>
     (rtx_sent_order tx' = rtx_sent_order tx \<or> rtx_sent_order tx' = rtx_sent_order tx @ [rtx_next_seq tx])"

definition streams_move :: "router_inner \<Rightarrow> router_inner \<Rightarrow> bool" where
  "streams_move a b \<longleftrightarrow> (bt_wf (reliable_tx a) \<longrightarrow> bt_wf (reliable_tx b) \<and>
     (\<forall>key. keeps_order (tx_state_of key a) (tx_state_of key b) \<or> hands_out (tx_state_of key a) (tx_state_of key b)))"

lemma kept_moves: "streams_kept a b \<Longrightarrow> streams_move a b"
  by (auto simp: streams_kept_def streams_move_def)

lemma streams_move_same: "streams_move a b \<Longrightarrow> reliable_tx c = reliable_tx b \<Longrightarrow> streams_move a c"
  by (simp add: streams_move_def tx_state_of_def)

lemma moves_sequenced: "streams_move st (fst (send_sequenced E call side ty it st))"
proof -
  let ?key = "reliable_key E side ty" and ?flags = "if reliable_mode_of E ty = Unordered then RELIABLE_FLAG_UNORDERED else 0"
  let ?seq = "rtx_next_seq (tx_state_of ?key st)"
  let ?s = "reliable_tx_state_mut ?key st"
  let ?s1 = "update_tx_state ?key (\<lambda>tx. tx\<lparr>rtx_next_seq := next_seq (rtx_next_seq tx)\<rparr>) ?s"
  have s1: "streams_move st ?s1"
    by (auto simp: streams_move_def tx_state_of_update_any tx_wf_update tx_wf_mut tx_state_of_mut_any hands_out_def)
  have sent: "streams_move st (fst (sthen (transmit_frame E call side bs ?s1) (\<lambda>_ st.
      (remember_sent ?key ?seq bs (call_ended_ms call) st, Ok ()))))" for bs
  proof -
    obtain s2 r2 where tx: "transmit_frame E call side bs ?s1 = (s2, r2)" by force
    note same = transmit_frame_tx [OF tx]
    have "streams_move st (remember_sent ?key ?seq bs (call_ended_ms call) s2)"
      unfolding streams_move_def
    proof (intro impI conjI allI)
      assume wf: "bt_wf (reliable_tx st)"
      then have wf2: "bt_wf (reliable_tx s2)" by (simp add: same tx_wf_update tx_wf_mut)
      then show "bt_wf (reliable_tx (remember_sent ?key ?seq bs (call_ended_ms call) s2))"
        unfolding remember_sent_def by (rule tx_wf_update)
      fix key
      have "tx_state_of key s2 = tx_state_of key ?s1" by (simp add: tx_state_of_def same)
      then show "keeps_order (tx_state_of key st) (tx_state_of key (remember_sent ?key ?seq bs (call_ended_ms call) s2)) \<or>
          hands_out (tx_state_of key st) (tx_state_of key (remember_sent ?key ?seq bs (call_ended_ms call) s2))"
        using wf by (auto simp: remember_sent_def tx_state_of_update_any [OF wf2] tx_state_of_update_any tx_wf_mut
            tx_state_of_mut_any hands_out_def)
    qed
    then show ?thesis using streams_move_same [OF s1 same] tx by (cases r2) simp_all
  qed
  have alone: "streams_move st (fst (transmit_frame E call side bs ?s1))" for bs
    using streams_move_same [OF s1] transmit_frame_tx [OF surjective_pairing] by blast
  show ?thesis
  proof (cases "reliable_max_pending E \<le> length (rtx_sent (tx_state_of ?key st))")
    case True
    then show ?thesis using kept_moves [OF kept_mut [of st ?key]] by (simp add: send_sequenced_def alloc_seq_def Let_def)
  next
    case False
    then have a: "alloc_seq E ?key st = (?s1, Ok ?seq)" by (simp add: alloc_seq_def Let_def)
    show ?thesis
      unfolding send_sequenced_def Let_def a sthen_simps
      using s1 sent alone
      by (cases "sequenced_frame E it ?flags ?seq") (auto split: option.splits router_item.splits)
  qed
qed

lemma moves_send: "streams_move st (fst (send_reliable_to_side E N call side it st))"
proof -
  have same: "streams_move st s" if "reliable_tx s = reliable_tx st" for s
    using that by (intro kept_moves streams_kept_same)
  have "streams_move st (fst (send_adjusted E call side opts it st))" for opts
    by (rule same) (rule adjusted_tx [OF surjective_pairing])
  moreover have "streams_move st (fst (call_side_tx_handler E call side h it st))" for h by (rule same) (rule call_side_tx)
  ultimately show ?thesis
    using same [of st] moves_sequenced [of st E call side _ it]
    by (cases "side_ref st side"; cases "item_frame_type E it") (simp_all add: send_reliable_to_side_def Let_def)
qed

section \<open>Runs\<close>

lemma sender_step_moves: "sender_step L E N st st' \<Longrightarrow> streams_move st st'"
proof (induction rule: sender_step.induct)
  case (step_send call side it st st' r)
  then show ?case using moves_send [of st E N call side it] by simp
next
  case (step_replay call dst bs st st' r)
  then show ?case using kept_moves [OF kept_replay, of st L E call dst bs] by simp
next
  case (step_request side ty seq st st' r)
  then show ?case using kept_moves [OF kept_retransmit, of st L E side ty seq] by simp
next
  case (step_timeouts now st st' r)
  then show ?case using kept_moves [OF kept_timeouts, of st L E now] by simp
qed (intro kept_moves kept_ack kept_partial_ack)+

text \<open>The number that a step hands out on a stream.\<close>

definition handed_out :: "nat \<times> u32 \<Rightarrow> router_inner \<Rightarrow> router_inner \<Rightarrow> u32 list" where
  "handed_out key st st' =
     (if rtx_next_seq (tx_state_of key st') = rtx_next_seq (tx_state_of key st) then []
      else [rtx_next_seq (tx_state_of key st)])"

inductive sender_run ::
  "layout \<Rightarrow> env \<Rightarrow> router_node \<Rightarrow> nat \<times> u32 \<Rightarrow> router_inner \<Rightarrow> u32 list \<Rightarrow> router_inner \<Rightarrow> bool"
  for L :: layout and E :: env and N :: router_node and key :: "nat \<times> u32" where
  Sender_Nil: "sender_run L E N key st [] st"
| Sender_Step: "sender_run L E N key st sent st' \<Longrightarrow> sender_step L E N st' st'' \<Longrightarrow>
    sender_run L E N key st (sent @ handed_out key st' st'') st''"

lemma sender_run_steps: "sender_run L E N key st sent st' \<Longrightarrow> (sender_step L E N)\<^sup>*\<^sup>* st st'"
  by (induction rule: sender_run.induct) auto

lemma next_seq_moves: "next_seq s \<noteq> s"
  by (auto simp: next_seq_def)

lemma sender_run_order:
  assumes "sender_run L E N key st sent st'" and "reliable_tx st = []"
  shows "bt_wf (reliable_tx st') \<and> subseq (rtx_sent_order (tx_state_of key st')) sent \<and>
    sent = map (\<lambda>k. (next_seq ^^ k) 1) [0..<length sent] \<and>
    rtx_next_seq (tx_state_of key st') = (next_seq ^^ length sent) 1"
  using assms
proof (induction rule: sender_run.induct)
  case (Sender_Nil st)
  then show ?case by (simp add: tx_state_of_def bt_get_def tx_state_new_def)
next
  case (Sender_Step st sent st' st'')
  let ?a = "tx_state_of key st'" and ?b = "tx_state_of key st''"
  have IH: "bt_wf (reliable_tx st')" "subseq (rtx_sent_order ?a) sent" "rtx_next_seq ?a = (next_seq ^^ length sent) 1"
    and log: "sent = map (\<lambda>k. (next_seq ^^ k) 1) [0..<length sent]"
    using Sender_Step.IH Sender_Step.prems by blast+
  from sender_step_moves [OF Sender_Step.hyps(2)] IH(1)
  have wf: "bt_wf (reliable_tx st'')" and "keeps_order ?a ?b \<or> hands_out ?a ?b" unfolding streams_move_def by blast+
  then consider (kept) "keeps_order ?a ?b" | (given) "hands_out ?a ?b" by blast
  then show ?case
  proof cases
    case kept
    then have "handed_out key st' st'' = []" by (simp add: handed_out_def keeps_order_def)
    then show ?thesis using kept wf IH log by (auto simp: keeps_order_def intro: subseq_order.trans)
  next
    case given
    then have "handed_out key st' st'' = [rtx_next_seq ?a]" by (simp add: handed_out_def hands_out_def next_seq_moves)
    moreover have "subseq (rtx_sent_order ?b) (sent @ [rtx_next_seq ?a])"
      using given IH(2) by (auto simp: hands_out_def intro: subseq_rev_drop_many)
    ultimately show ?thesis using given wf IH(3) log by (simp add: hands_out_def)
  qed
qed

end
