(* ===== verification/Reliable_Properties.thy ===== *)
theory Reliable_Properties
  imports Router_Sender_Laws Router_Properties Route_Properties
begin

text \<open>
  The promises of reliable delivery over one side, and four situations in which a stream stops, each
  with an instance on a small router.
\<close>

section \<open>The receiver\<close>

text \<open>
  C2. The ordered receiver delivers every frame of a stream exactly once and in order: whatever frames
  of the stream arrive, in whatever order and however often, with whatever is evicted from the queues
  and buffers between arrivals, the frames delivered so far are those from number one up to the one
  expected next.
\<close>

theorem ordered_stream_in_order:
  assumes "queues_wf L st" and "max_queue_budget C < usize_limit - 1" and "rx_buffers_ok C st"
    and "bt_get (reliable_rx st) (reliable_key C src ty) = None"
    and "list_all (arrival_ok (\<lambda>seq. seq \<noteq> - 1)) events"
    and "ordered_run L C src ty F events st = (st', delivered)"
  shows "delivered =
    map (\<lambda>i. F (of_nat i)) [1..<unat (rrx_expected_seq (rx_state_of (reliable_key C src ty) st'))]"
proof -
  have "rx_state_of (reliable_key C src ty) st = rx_state_new" using assms(4) by (simp add: rx_state_of_def)
  moreover have "receiver_ok L C st" using assms(1-3) by (simp add: receiver_ok_def)
  ultimately show ?thesis
    using ordered_run_spec [OF _ refl _ assms(5,6)]
    by (simp add: stream_ok_def rx_state_new_def frames_between_def)
qed

definition tiny_frame :: "u32 \<Rightarrow> bytes" where
  "tiny_frame k = [ucast k]"

theorem ordered_stream_in_order_witness:
  "\<exists>n. snd (ordered_run sample_layout sample_env 0 (UserType 0) tiny_frame
      [Arrives 2, Arrives 1, Pressure Transmit, Arrives 1, Arrives 3] busy_router) =
    map (\<lambda>i. tiny_frame (of_nat i)) [1..<n]"
proof -
  let ?events = "[Arrives 2, Arrives 1, Pressure Transmit, Arrives 1, Arrives 3]"
  obtain st' d where run: "ordered_run sample_layout sample_env 0 (UserType 0) tiny_frame ?events busy_router = (st', d)"
    by force
  have rx: "rx_buffers_ok sample_env busy_router" "bt_get (reliable_rx busy_router) (reliable_key sample_env 0 (UserType 0)) = None"
    by (simp_all add: rx_buffers_ok_def busy_router_def bt_values_def bt_get_def)
  have "list_all (arrival_ok (\<lambda>seq. seq \<noteq> - 1)) ?events" by simp
  from ordered_stream_in_order [OF busy_router_wf layout_okD [OF sample_layout_ok] rx this run] run
  show ?thesis by auto
qed

text \<open>
  C35. The frame with the last sequence number ends an ordered stream: the receiver then expects number
  zero, while the sender continues with number one and never uses zero. Every later frame is taken for
  an early one, and nothing is delivered again.
\<close>

theorem ordered_stream_stops_after_wrap:
  assumes "queues_wf L st" and "max_queue_budget C < usize_limit - 1" and "rx_buffers_ok C st"
    and "rrx_expected_seq (rx_state_of (reliable_key C src ty) st) = - 1"
    and "bt_get (rrx_buffered (rx_state_of (reliable_key C src ty) st)) 0 = None"
    and "list_all (arrival_ok (\<lambda>seq. \<exists>s. seq = next_seq s)) events"
    and "ordered_run L C src ty F (Arrives (- 1) # events) st = (st', delivered)"
  shows "delivered = [F (- 1)] \<and> rrx_expected_seq (rx_state_of (reliable_key C src ty) st') = 0"
proof -
  let ?key = "reliable_key C src ty"
  have ok: "receiver_ok L C st" using assms(1-3) by (simp add: receiver_ok_def)
  obtain s r where step: "ordered_rx L C src ty (- 1) (F (- 1)) st = (s, r)" by force
  obtain d where rest: "ordered_run L C src ty F events s = (st', d)" and d: "delivered = delivered_frames r @ d"
    using assms(7) step by (auto split: prod.splits)
  have es: "list_all (arrival_ok (\<lambda>seq. seq \<noteq> 0)) events"
    using assms(6) next_seq_nonzero unfolding list_all_iff by (auto elim!: arrival_ok_mono)
  from ok refl step show ?thesis
  proof (cases rule: ordered_rx_step)
    case (due rel n1 n rest1)
    have "rel = []" "n = 0"
      using due(2) assms(5) release_run.simps [of 0 "- 1" "rrx_buffered (rx_state_of ?key st)"] by simp_all
    moreover from this have "rrx_expected_seq (rx_state_of ?key s) = 0" using due(3) by simp
    ultimately show ?thesis using zero_expected_stalls [OF due(5) refl _ es rest] due(4) d by simp
  qed (use assms(4) in auto)
qed

definition last_expected :: router_inner where
  "last_expected = busy_router\<lparr>reliable_rx := [((0, 0), \<lparr>rrx_expected_seq = - 1, rrx_buffered = []\<rparr>)]\<rparr>"

theorem ordered_stream_stops_after_wrap_witness:
  "snd (ordered_run sample_layout sample_env 0 (UserType 0) tiny_frame [Arrives (- 1), Arrives (next_seq (- 1)), Arrives 2]
     last_expected) = [tiny_frame (- 1)]"
proof -
  let ?events = "[Arrives (next_seq (- 1)), Arrives 2]"
  obtain st' d where run: "ordered_run sample_layout sample_env 0 (UserType 0) tiny_frame (Arrives (- 1) # ?events) last_expected = (st', d)"
    by force
  have key: "reliable_key sample_env 0 (UserType 0) = (0, 0)" by (simp add: reliable_key_def ty_u32_def)
  have "2 = next_seq (1 :: u32)" by (simp add: next_seq_def)
  then have ev: "list_all (arrival_ok (\<lambda>seq. \<exists>s. seq = next_seq s)) ?events" by auto
  have wf: "queues_wf sample_layout last_expected" using busy_router_wf by (simp add: last_expected_def queues_wf_def)
  have st: "rx_buffers_ok sample_env last_expected"
    "rrx_expected_seq (rx_state_of (reliable_key sample_env 0 (UserType 0)) last_expected) = - 1"
    "bt_get (rrx_buffered (rx_state_of (reliable_key sample_env 0 (UserType 0)) last_expected)) 0 = None"
    by (simp_all add: key rx_buffers_ok_def last_expected_def bt_values_def bt_get_def rx_state_of_def buffer_ok_def bt_wf_def)
  from ordered_stream_stops_after_wrap [OF wf layout_okD [OF sample_layout_ok] st ev run] run show ?thesis by simp
qed

section \<open>The sender\<close>

text \<open>
  C29. Through any sequence of transmissions, retransmissions, acknowledgements, requests and timeout
  scans, every stream of a router that starts without streams keeps at most \<open>RELIABLE_MAX_PENDING\<close>
  frames, each of them listed. The numbers handed out on a stream are 1, 2, 3 and so on, without zero after
  the largest number, and the list is a subsequence of them: it names the kept frames in sending order.
\<close>

theorem retransmission_history_bounded:
  assumes "reliable_tx st = []" and "sender_run L E N key st sent st'"
  shows "list_all (\<lambda>tx. length (rtx_sent tx) \<le> reliable_max_pending E \<and>
      set (bt_keys (rtx_sent tx)) \<subseteq> set (rtx_sent_order tx) \<and> rtx_next_seq tx \<noteq> 0) (bt_values (reliable_tx st')) \<and>
    subseq (rtx_sent_order (tx_state_of key st')) sent \<and>
    sent = map (\<lambda>k. (next_seq ^^ k) 1) [0..<length sent] \<and>
    rtx_next_seq (tx_state_of key st') = (next_seq ^^ length sent) 1"
proof -
  have "senders_ok E st" using assms(1) by (simp add: senders_ok_def histories_ok_def bt_values_def)
  with sender_run_steps [OF assms(2)] have "senders_ok E st'"
    by (induction rule: rtranclp_induct) (auto intro: sender_step_ok)
  then have "list_all (\<lambda>tx. length (rtx_sent tx) \<le> reliable_max_pending E \<and>
      set (bt_keys (rtx_sent tx)) \<subseteq> set (rtx_sent_order tx) \<and> rtx_next_seq tx \<noteq> 0) (bt_values (reliable_tx st'))"
    by (auto simp: senders_ok_def histories_ok_def history_ok_def list_all_iff)
  with sender_run_order [OF assms(2,1)] show ?thesis by blast
qed

theorem retransmission_history_bounded_witness:
  "\<exists>st' r. send_reliable_to_side sample_env sample_node
      \<lparr>call_busy = False, call_serialized = \<lambda>_ _. Ok (), call_packet = \<lambda>_ _. Ok (), call_started_ms = 0, call_ended_ms = 1\<rparr>
      0 (Item_Packet gps_packet) two_sided = (st', r) \<and>
    list_all (\<lambda>tx. length (rtx_sent tx) \<le> 16) (bt_values (reliable_tx st')) \<and>
    subseq (rtx_sent_order (tx_state_of (0, 0) st')) (handed_out (0, 0) two_sided st')"
proof -
  let ?call = "\<lparr>call_busy = False, call_serialized = \<lambda>_ _. Ok (), call_packet = \<lambda>_ _. Ok (), call_started_ms = 0, call_ended_ms = 1\<rparr>"
  obtain st' r where send: "send_reliable_to_side sample_env sample_node ?call 0 (Item_Packet gps_packet) two_sided = (st', r)"
    by force
  have "sender_run sample_layout sample_env sample_node (0, 0) two_sided ([] @ handed_out (0, 0) two_sided st') st'"
    by (rule Sender_Step [OF Sender_Nil step_send [OF send]])
  moreover have "reliable_tx two_sided = []" by (simp add: two_sided_def)
  ultimately show ?thesis
    using retransmission_history_bounded [of two_sided sample_layout sample_env sample_node "(0, 0)" _ st'] send
    by (auto simp: list_all_iff sample_queue_fields)
qed

text \<open>
  A transmission that fails, because the transmit gate is taken or because every attempt of the
  side's callback fails, has already taken a sequence number and leaves no frame behind for it: a
  request for that number finds nothing to send. An ordered receiver waits for it forever.
\<close>

theorem failed_send_skips_number:
  assumes "side_get st side = Some s" and "side_tx_handler s = Serialized_Tx"
    and "opt_reliable_enabled (side_opts s)" and "rn_reliable_enabled N"
    and "\<not> side_has_multiple_announcers st side (call_started_ms call)" and "is_reliable_type E (pkt_ty pkt)"
    and "key = reliable_key E side (pkt_ty pkt)" and "seq = rtx_next_seq (tx_state_of key st)"
    and "length (rtx_sent (tx_state_of key st)) < reliable_max_pending E"
    and "bt_get (rtx_sent (tx_state_of key st)) seq = None"
    and "sequenced_frame E (Item_Packet pkt)
      (if reliable_mode_of E (pkt_ty pkt) = Unordered then RELIABLE_FLAG_UNORDERED else 0) seq = Ok (Some bs)"
    and "0 < max_handler_retries E"
    and "if call_busy call then True else (\<forall>i. \<exists>e. call_serialized call i bs = Err e)"
  shows "\<exists>st' e. send_reliable_to_side E N call side (Item_Packet pkt) st = (st', Err e) \<and>
    rtx_next_seq (tx_state_of key st') = next_seq seq \<and> rtx_sent (tx_state_of key st') = rtx_sent (tx_state_of key st) \<and>
    queue_reliable_retransmit L E side (pkt_ty pkt) seq st' = (st', Ok ())"
proof -
  obtain s1 where alloc: "alloc_seq E key st = (s1, Ok seq)"
    "s1 = update_tx_state key (\<lambda>tx. tx\<lparr>rtx_next_seq := next_seq (rtx_next_seq tx)\<rparr>) (reliable_tx_state_mut key st)"
    using assms(8,9) by (simp add: alloc_seq_def Let_def)
  obtain e where tx: "transmit_frame E call side bs s1 = (s1, Err e)"
    using assms(12,13) retry_all_fail [of "\<lambda>i. call_serialized call i bs" "max_handler_retries E"]
    by (auto simp: transmit_frame_def Let_def split: if_splits)
  have "send_reliable_to_side E N call side (Item_Packet pkt) st = send_sequenced E call side (pkt_ty pkt) (Item_Packet pkt) st"
    using assms(1-6) by (simp add: send_reliable_to_side_def side_ref_def item_frame_type_def)
  moreover have "send_sequenced E call side (pkt_ty pkt) (Item_Packet pkt) st = (s1, Err e)"
    using alloc(1) assms(7,11) tx by (simp add: send_sequenced_def Let_def)
  moreover have "tx_state_of key s1 = (tx_state_of key st)\<lparr>rtx_next_seq := next_seq seq\<rparr>"
    using assms(8) by (simp add: alloc(2))
  moreover from this have "queue_reliable_retransmit L E side (pkt_ty pkt) seq s1 = (reliable_tx_state_mut key s1, Ok ())"
    using assms(7,10) retransmit_unknown [of E side "pkt_ty pkt" s1 seq L] by simp
  moreover have "reliable_tx_state_mut key s1 = s1" unfolding alloc(2) by (rule tx_mut_update)
  ultimately show ?thesis by simp
qed

definition reliable_sided :: router_inner where
  "reliable_sided = two_sided\<lparr>sides :=
     [Some ((open_side ''A'')\<lparr>side_opts := side_options_default\<lparr>opt_reliable_enabled := True\<rparr>\<rparr>)]\<rparr>"

definition failing_call :: tx_call where
  "failing_call =
     \<lparr>call_busy = False, call_serialized = \<lambda>_ _. Err (Io ''link down''), call_packet = \<lambda>_ _. Err (Io ''link down''),
      call_started_ms = 0, call_ended_ms = 1\<rparr>"

lemma gps_sequenced: "\<exists>bs. sequenced_frame sample_env (Item_Packet gps_packet) flags seq = Ok (Some bs)"
  by (simp add: sequenced_frame_def serialize_packet_with_reliable_def
      serialize_packet_inner_layout [OF wire_packetD(1) [OF gps_wire_packet]])

theorem failed_send_skips_number_witness:
  "\<exists>st' e. send_reliable_to_side sample_env sample_node failing_call 0 (Item_Packet gps_packet) reliable_sided = (st', Err e) \<and>
    rtx_next_seq (tx_state_of (reliable_key sample_env 0 (UserType 0)) st') = 2 \<and>
    queue_reliable_retransmit sample_layout sample_env 0 (UserType 0) 1 st' = (st', Ok ())"
proof -
  let ?key = "reliable_key sample_env 0 (pkt_ty gps_packet)"
  have side: "side_get reliable_sided 0 = Some ((open_side ''A'')\<lparr>side_opts := side_options_default\<lparr>opt_reliable_enabled := True\<rparr>\<rparr>)"
    by (simp add: side_get_def reliable_sided_def)
  have tx: "tx_state_of ?key reliable_sided = tx_state_new"
    by (simp add: tx_state_of_def reliable_sided_def two_sided_def bt_get_def)
  have quiet: "\<not> side_has_multiple_announcers reliable_sided 0 (call_started_ms failing_call)"
    by (simp add: side_has_multiple_announcers_def reliable_sided_def two_sided_def bt_get_def)
  have ty: "is_reliable_type sample_env (pkt_ty gps_packet)" using sample_meta(3) by (simp add: gps_packet_def)
  obtain bs where bs: "sequenced_frame sample_env (Item_Packet gps_packet)
      (if reliable_mode_of sample_env (pkt_ty gps_packet) = Unordered then RELIABLE_FLAG_UNORDERED else 0)
      (rtx_next_seq (tx_state_of ?key reliable_sided)) = Ok (Some bs)"
    using gps_sequenced by blast
  have more: "0 < max_handler_retries sample_env" "rn_reliable_enabled sample_node" "reliable_max_pending sample_env = 16"
    by (simp_all add: sample_env_def sample_node_def)
  show ?thesis
    using failed_send_skips_number [OF side _ _ more(2) quiet ty refl refl _ _ bs more(1), where L = sample_layout] tx more(3)
    by (simp add: open_side_def failing_call_def tx_state_new_def bt_get_def gps_packet_def next_seq_def) blast
qed

text \<open>
  C36. A queued retransmission that fails leaves its frame marked as queued. From then on neither a
  timeout, at any time, nor a request from the peer sends the frame again, and no timeout removes it
  from the history.
\<close>

theorem failed_retransmission_never_retried:
  assumes "tx_reliable_replay L E call dst bs st = (st', Err e)" and "peek_frame_info E bs = Ok frame"
    and "fi_reliable frame = Some hdr" and "ty = te_ty (fi_envelope frame)" and "key = reliable_key E dst ty"
    and "bt_get (rtx_sent (tx_state_of key st)) (rh_seq hdr) = Some sent" and "sent_queued sent"
  shows "bt_get (rtx_sent (tx_state_of key st')) (rh_seq hdr) = Some sent \<and>
    (\<forall>now. timeout_entry E now (rh_seq hdr) (tx_state_of key st') = (tx_state_of key st', False)) \<and>
    queue_reliable_retransmit L E dst ty (rh_seq hdr) st' = (st', Ok ())"
proof -
  have mut: "reliable_tx_state_mut key st = st" using assms(6) by (rule tx_mut_idem)
  obtain s2 r2 where raw: "send_reliable_raw_to_side E call dst bs st = (s2, r2)" by force
  have s2: "reliable_tx s2 = reliable_tx st" using senders_raw [of E call dst bs st] raw by simp
  have "reliable_tx st' = reliable_tx st"
    using assms(1-5) mut raw s2 senders_flags [of L E "ReliableReplay dst bs" True s2 st' "Err e"]
    by (cases r2) (auto simp: tx_reliable_replay_def Let_def bt_contains_def assms(6) split: if_splits)
  then have tx: "tx_state_of key st' = tx_state_of key st" by (simp add: tx_state_of_def)
  then show ?thesis
    using assms(5-7) timeout_queued [of "tx_state_of key st'" _ _ E] retransmit_queued [of E dst ty st' "rh_seq hdr" sent L] by simp
qed

text \<open>The first frame of the stream, kept by the sender and queued for retransmission.\<close>

definition replaying :: "bytes \<Rightarrow> router_inner" where
  "replaying bs = reliable_sided\<lparr>reliable_tx :=
     [((0, 0), \<lparr>rtx_next_seq = 2, rtx_sent_order = [1], rtx_sent =
        [(1, \<lparr>sent_bytes = bs, sent_last_send_ms = 0, sent_retries = 1, sent_queued = True, sent_partial_acked = False\<rparr>)]\<rparr>)]\<rparr>"

lemma gps_frame:
  "\<exists>bs frame. peek_frame_info sample_env bs = Ok frame \<and> te_ty (fi_envelope frame) = UserType 0 \<and>
     fi_reliable frame = Some \<lparr>rh_flags = 0, rh_seq = 1, rh_ack = 0\<rparr>"
proof -
  note send = wire_packetD(1) [OF gps_wire_packet]
  have ty: "pkt_ty gps_packet = UserType 0" by (simp add: gps_packet_def)
  let ?hdr = "Some \<lparr>rh_flags = 0, rh_seq = 1, rh_ack = 0\<rparr>"
  have "peek_frame_info_inner sample_env (frame_body sample_env gps_packet ?hdr) =
      Ok \<lparr>fi_envelope = envelope_of gps_packet, fi_reliable = ?hdr\<rparr>"
    using sample_meta(3) by (intro peek_inner_layout [OF send]) (simp add: reliable_matches_def ty)
  then have "peek_frame_info sample_env (append_crc32 sample_env (frame_body sample_env gps_packet ?hdr)) =
      Ok \<lparr>fi_envelope = envelope_of gps_packet, fi_reliable = ?hdr\<rparr>"
    by (simp add: peek_frame_info_def)
  moreover have "te_ty (envelope_of gps_packet) = UserType 0" by (simp add: envelope_of_def ty)
  ultimately show ?thesis
    by (intro exI [of _ "append_crc32 sample_env (frame_body sample_env gps_packet ?hdr)"]
        exI [of _ "\<lparr>fi_envelope = envelope_of gps_packet, fi_reliable = ?hdr\<rparr>"]) simp
qed

theorem failed_retransmission_never_retried_witness:
  "\<exists>bs st' e. tx_reliable_replay sample_layout sample_env failing_call 0 bs (replaying bs) = (st', Err e) \<and>
    queue_reliable_retransmit sample_layout sample_env 0 (UserType 0) 1 st' = (st', Ok ())"
proof -
  obtain bs frame where frame: "peek_frame_info sample_env bs = Ok frame" "te_ty (fi_envelope frame) = UserType 0"
    "fi_reliable frame = Some \<lparr>rh_flags = 0, rh_seq = 1, rh_ack = 0\<rparr>" using gps_frame by blast
  have key: "reliable_key sample_env 0 (te_ty (fi_envelope frame)) = (0, 0)" by (simp add: frame(2) reliable_key_def ty_u32_def)
  have sent: "bt_get (rtx_sent (tx_state_of (0, 0) (replaying bs))) 1 =
      Some \<lparr>sent_bytes = bs, sent_last_send_ms = 0, sent_retries = 1, sent_queued = True, sent_partial_acked = False\<rparr>"
    by (simp add: tx_state_of_def replaying_def bt_get_def)
  have side: "side_ref (replaying bs) 0 = Ok ((open_side ''A'')\<lparr>side_opts := side_options_default\<lparr>opt_reliable_enabled := True\<rparr>\<rparr>)"
    by (simp add: side_ref_def side_get_def replaying_def reliable_sided_def)
  obtain e where "retry (max_handler_retries sample_env) (\<lambda>i. call_serialized failing_call i bs) = Err e"
    using retry_all_fail [of "\<lambda>i. call_serialized failing_call i bs" "max_handler_retries sample_env"]
    by (auto simp: failing_call_def sample_env_def)
  then have raw: "send_reliable_raw_to_side sample_env failing_call 0 bs (replaying bs) =
      (replaying bs, Err (Io ''reliable retransmit failed''))"
    by (simp add: send_reliable_raw_to_side_def side open_side_def side_options_default_def) (simp add: failing_call_def)
  have "tx_reliable_replay sample_layout sample_env failing_call 0 bs (replaying bs) =
      (replaying bs, Err (Io ''reliable retransmit failed''))"
    by (simp add: tx_reliable_replay_def frame(1,3) key Let_def tx_mut_idem [OF sent] sent bt_contains_def raw is_side_tx_busy_def)
  moreover from failed_retransmission_never_retried [OF this frame(1,3) refl refl] have
    "queue_reliable_retransmit sample_layout sample_env 0 (UserType 0) 1 (replaying bs) = (replaying bs, Ok ())"
    by (simp add: key sent frame(2) [symmetric])
  ultimately show ?thesis by blast
qed

end
