(* ===== verification/Router_Time.thy ===== *)
theory Router_Time
  imports Router_Reliable
begin

text \<open>
  \<open>src/router.rs\<close>, the time synchronisation of a router: the runtime state behind its own lock,
  the local time sources, the polling cycle and the handling of received time-sync packets. An
  \<open>instant\<close> is one reading of the router's clock in milliseconds and in nanoseconds; an operation
  that reads the clock again later takes one instant for each of these readings.
\<close>

section \<open>The runtime state\<close>

record instant =
  in_ms :: u64
  in_ns :: u64

record pending_time_sync_request =
  ptr_seq :: u64
  ptr_t1_mono_ms :: u64
  ptr_source :: bytes

record remote_time_sync_source =
  rts_priority :: u64
  rts_last_sample_mono_ms :: u64
  rts_sample_unix_ms :: u64

record time_sync_runtime =
  tsr_cfg :: "time_sync_config option"
  tsr_tracker :: "time_sync_tracker option"
  tsr_clock :: network_clock
  tsr_disciplined_clock :: slewed_network_clock
  tsr_remote_sources :: "(bytes, remote_time_sync_source) btree"
  tsr_next_seq :: u64
  tsr_next_announce_mono_ms :: u64
  tsr_next_request_mono_ms :: u64
  tsr_pending_request :: "pending_time_sync_request option"

definition slew_limit_of :: "time_sync_config option \<Rightarrow> u32" where
  "slew_limit_of cfg = (case cfg of Some c \<Rightarrow> tsc_max_slew_ppm c | None \<Rightarrow> tsc_max_slew_ppm time_sync_config_default)"

definition runtime_new :: "'z config_scheme \<Rightarrow> time_sync_config option \<Rightarrow> time_sync_runtime" where
  "runtime_new C cfg =
     \<lparr>tsr_cfg = cfg, tsr_tracker = map_option (tracker_new C) cfg, tsr_clock = [],
      tsr_disciplined_clock = slewed_new (slew_limit_of cfg), tsr_remote_sources = [], tsr_next_seq = 1,
      tsr_next_announce_mono_ms = 0, tsr_next_request_mono_ms = 0, tsr_pending_request = None\<rparr>"

definition timesync_has_usable_time :: "time_sync_runtime \<Rightarrow> u64 \<Rightarrow> bool" where
  "timesync_has_usable_time tr now_mono_ns \<longleftrightarrow>
     read_unix_ms (tsr_disciplined_clock tr) now_mono_ns \<noteq> None \<or>
     Option.bind (current_time (tsr_clock tr) now_mono_ns) nr_unix_time_ms \<noteq> None"

definition remote_of :: "time_sync_leader option \<Rightarrow> time_sync_source option" where
  "remote_of ld = (case ld of Some (Remote r) \<Rightarrow> Some r | _ \<Rightarrow> None)"

definition reconcile_pending_timesync_request ::
  "time_sync_leader option \<Rightarrow> u64 \<Rightarrow> time_sync_runtime \<Rightarrow> time_sync_runtime" where
  "reconcile_pending_timesync_request ld now_ms tr =
     (case tsr_pending_request tr of
        Some pending \<Rightarrow>
          if Some (ptr_source pending) \<noteq> map_option tss_sender (remote_of ld)
          then tr\<lparr>tsr_pending_request := None, tsr_next_request_mono_ms := now_ms\<rparr> else tr
      | None \<Rightarrow> tr)"

text \<open>The expiry of sources that every entry point starts with.\<close>

definition expire_sources :: "u64 \<Rightarrow> time_sync_runtime \<Rightarrow> time_sync_runtime" where
  "expire_sources now_ms tr =
     (let timeout_ms = (case tsr_cfg tr of Some c \<Rightarrow> tsc_source_timeout_ms c | None \<Rightarrow> 0)
      in tr\<lparr>tsr_clock := prune_expired now_ms (tsr_clock tr),
            tsr_remote_sources :=
              bt_retain (\<lambda>_ s. sat_sub now_ms (rts_last_sample_mono_ms s) \<le> timeout_ms) (tsr_remote_sources tr)\<rparr>)"

text \<open>The tracker is refreshed and asked for the leader, with the usability of the time found before.\<close>

definition refresh_tracker :: "instant \<Rightarrow> time_sync_runtime \<Rightarrow> time_sync_runtime" where
  "refresh_tracker now tr = tr\<lparr>tsr_tracker := map_option (\<lambda>t. snd (refresh t (in_ms now))) (tsr_tracker tr)\<rparr>"

definition leader_now :: "instant \<Rightarrow> bool \<Rightarrow> time_sync_runtime \<Rightarrow> time_sync_leader option" where
  "leader_now now usable tr = Option.bind (tsr_tracker tr) (\<lambda>t. leader t (in_ms now) usable)"

text \<open>The disciplined clock is steered to the last sample of a remote leader.\<close>

definition steer_to_leader :: "instant \<Rightarrow> time_sync_leader option \<Rightarrow> time_sync_runtime \<Rightarrow> time_sync_runtime" where
  "steer_to_leader now ld tr =
     (case Option.bind (remote_of ld) (\<lambda>r. bt_get (tsr_remote_sources tr) (tss_sender r)) of
        Some s \<Rightarrow> tr\<lparr>tsr_disciplined_clock := steer_unix_ms (tsr_disciplined_clock tr) (in_ns now) (rts_sample_unix_ms s)\<rparr>
      | None \<Rightarrow> tr)"

definition refresh_timesync_state :: "instant \<Rightarrow> time_sync_runtime \<Rightarrow> time_sync_runtime" where
  "refresh_timesync_state now tr =
     (let tr = expire_sources (in_ms now) tr;
          usable = timesync_has_usable_time tr (in_ns now);
          tr = refresh_tracker now tr;
          ld = leader_now now usable tr
      in steer_to_leader now ld (reconcile_pending_timesync_request ld (in_ms now) tr))"

definition router_network_time :: "instant \<Rightarrow> time_sync_runtime \<Rightarrow> time_sync_runtime \<times> network_time_reading option" where
  "router_network_time now tr =
     (let tr = refresh_timesync_state now tr
      in (tr, case read_unix_ms (tsr_disciplined_clock tr) (in_ns now) of
                Some unix_ms \<Rightarrow> Some \<lparr>nr_time = partial_from_unix_ms unix_ms, nr_unix_time_ms = Some unix_ms\<rparr>
              | None \<Rightarrow> current_time (tsr_clock tr) (in_ns now)))"

definition network_time_ms :: "instant \<Rightarrow> time_sync_runtime \<Rightarrow> time_sync_runtime \<times> u64 option" where
  "network_time_ms now tr = (case router_network_time now tr of (tr, r) \<Rightarrow> (tr, Option.bind r nr_unix_time_ms))"

definition packet_timestamp_ms :: "instant \<Rightarrow> time_sync_runtime \<Rightarrow> time_sync_runtime \<times> u64" where
  "packet_timestamp_ms now tr =
     (case network_time_ms now tr of (tr, ms) \<Rightarrow> (tr, case ms of Some m \<Rightarrow> m | None \<Rightarrow> in_ms now))"

section \<open>Local time sources\<close>

definition INTERNAL_TIMESYNC_SOURCE_ID :: bytes where "INTERNAL_TIMESYNC_SOURCE_ID = str ''__timesync_remote__''"
definition LOCAL_TIMESYNC_FULL_SOURCE_ID :: bytes where "LOCAL_TIMESYNC_FULL_SOURCE_ID = str ''__timesync_local_full__''"
definition LOCAL_TIMESYNC_DATE_SOURCE_ID :: bytes where "LOCAL_TIMESYNC_DATE_SOURCE_ID = str ''__timesync_local_date__''"
definition LOCAL_TIMESYNC_TOD_SOURCE_ID :: bytes where "LOCAL_TIMESYNC_TOD_SOURCE_ID = str ''__timesync_local_tod__''"
definition LOCAL_TIMESYNC_SUBSEC_SOURCE_ID :: bytes where "LOCAL_TIMESYNC_SUBSEC_SOURCE_ID = str ''__timesync_local_subsec__''"

definition clear_network_time_source :: "bytes \<Rightarrow> time_sync_runtime \<Rightarrow> time_sync_runtime" where
  "clear_network_time_source source tr = tr\<lparr>tsr_clock := remove_source source (tsr_clock tr)\<rparr>"

definition unix_ms_of :: "partial_network_time \<Rightarrow> u64 option" where
  "unix_ms_of time = Option.bind (to_network_time time) as_unix_ms"

definition install_source ::
  "bytes \<Rightarrow> u64 \<Rightarrow> partial_network_time \<Rightarrow> u64 \<Rightarrow> u64 \<Rightarrow> u64 option \<Rightarrow> time_sync_runtime \<Rightarrow> time_sync_runtime" where
  "install_source source priority time now_ms now_ns ttl_ms tr =
     (let tr = tr\<lparr>tsr_clock := update_source source priority time now_ms now_ns ttl_ms (tsr_clock tr)\<rparr>
      in case unix_ms_of time of
           Some unix_ms \<Rightarrow> tr\<lparr>tsr_disciplined_clock := steer_unix_ms (tsr_disciplined_clock tr) now_ns unix_ms\<rparr>
         | None \<Rightarrow> tr)"

definition update_network_time_source ::
  "bytes \<Rightarrow> u64 \<Rightarrow> partial_network_time \<Rightarrow> u64 option \<Rightarrow> instant \<Rightarrow> time_sync_runtime \<Rightarrow> time_sync_runtime" where
  "update_network_time_source source priority time ttl_ms now = install_source source priority time (in_ms now) (in_ns now) ttl_ms"

text \<open>The clock is read before the lock is taken (\<open>obs\<close>) and again under it (\<open>com\<close>).\<close>

definition set_network_time_source_impl ::
  "bytes \<Rightarrow> u64 \<Rightarrow> partial_network_time \<Rightarrow> u64 option \<Rightarrow> instant \<times> instant \<Rightarrow> time_sync_runtime \<Rightarrow> time_sync_runtime" where
  "set_network_time_source_impl source priority time ttl_ms readings tr =
     (let obs = fst readings;
          com = snd readings;
          adjusted =
            (case to_network_time time of
               Some base \<Rightarrow>
                 (case advance_network_time base (sat_sub (in_ns com) (in_ns obs)) of
                    Some t \<Rightarrow> partial_from t
                  | None \<Rightarrow> time)
             | None \<Rightarrow> time);
          adjusted_mono_ms = sat_add (in_ms obs) (sat_sub (in_ms com) (in_ms obs))
      in install_source source priority adjusted (max (in_ms com) adjusted_mono_ms) (in_ns com) ttl_ms tr)"

definition local_network_time_priority :: "time_sync_runtime \<Rightarrow> u64" where
  "local_network_time_priority tr = (case tsr_cfg tr of Some c \<Rightarrow> tsc_priority c | None \<Rightarrow> 0)"

text \<open>\<open>rd i\<close> are the two clock readings of the \<open>i\<close>-th source that is set.\<close>

definition set_local_network_time ::
  "partial_network_time \<Rightarrow> (nat \<Rightarrow> instant \<times> instant) \<Rightarrow> time_sync_runtime \<Rightarrow> time_sync_runtime" where
  "set_local_network_time time rd tr =
     (let priority = local_network_time_priority tr
      in if is_complete_date time \<and> is_complete_time time
         then
           clear_network_time_source LOCAL_TIMESYNC_SUBSEC_SOURCE_ID
             (clear_network_time_source LOCAL_TIMESYNC_TOD_SOURCE_ID
               (clear_network_time_source LOCAL_TIMESYNC_DATE_SOURCE_ID
                 (set_network_time_source_impl LOCAL_TIMESYNC_FULL_SOURCE_ID priority time None (rd 0) tr)))
         else
           (let tr = clear_network_time_source LOCAL_TIMESYNC_FULL_SOURCE_ID tr;
                tr = (if pt_year time \<noteq> None \<or> pt_month time \<noteq> None \<or> pt_day time \<noteq> None
                      then set_network_time_source_impl LOCAL_TIMESYNC_DATE_SOURCE_ID priority
                             (partial_default\<lparr>pt_year := pt_year time, pt_month := pt_month time, pt_day := pt_day time\<rparr>)
                             None (rd 0) tr
                      else tr);
                tr = (if pt_hour time \<noteq> None \<or> pt_minute time \<noteq> None \<or> pt_second time \<noteq> None
                      then set_network_time_source_impl LOCAL_TIMESYNC_TOD_SOURCE_ID priority
                             (partial_default\<lparr>pt_hour := pt_hour time, pt_minute := pt_minute time,
                                pt_second := pt_second time, pt_nanosecond := pt_nanosecond time\<rparr>)
                             None (rd 1) tr
                      else tr)
            in if pt_nanosecond time \<noteq> None
               then set_network_time_source_impl LOCAL_TIMESYNC_SUBSEC_SOURCE_ID priority
                      (partial_default\<lparr>pt_nanosecond := pt_nanosecond time\<rparr>) None (rd 2) tr
               else tr))"

definition clear_local_network_time :: "time_sync_runtime \<Rightarrow> time_sync_runtime" where
  "clear_local_network_time tr =
     clear_network_time_source LOCAL_TIMESYNC_SUBSEC_SOURCE_ID
       (clear_network_time_source LOCAL_TIMESYNC_TOD_SOURCE_ID
         (clear_network_time_source LOCAL_TIMESYNC_DATE_SOURCE_ID
           (clear_network_time_source LOCAL_TIMESYNC_FULL_SOURCE_ID tr)))"

definition set_local_network_date ::
  "int \<Rightarrow> u8 \<Rightarrow> u8 \<Rightarrow> (nat \<Rightarrow> instant \<times> instant) \<Rightarrow> time_sync_runtime \<Rightarrow> time_sync_runtime" where
  "set_local_network_date year month day =
     set_local_network_time (partial_default\<lparr>pt_year := Some year, pt_month := Some month, pt_day := Some day\<rparr>)"

definition set_local_network_time_hm :: "u8 \<Rightarrow> u8 \<Rightarrow> (nat \<Rightarrow> instant \<times> instant) \<Rightarrow> time_sync_runtime \<Rightarrow> time_sync_runtime" where
  "set_local_network_time_hm hour minute =
     set_local_network_time (partial_default\<lparr>pt_hour := Some hour, pt_minute := Some minute\<rparr>)"

definition set_local_network_time_hms ::
  "u8 \<Rightarrow> u8 \<Rightarrow> u8 \<Rightarrow> (nat \<Rightarrow> instant \<times> instant) \<Rightarrow> time_sync_runtime \<Rightarrow> time_sync_runtime" where
  "set_local_network_time_hms hour minute second =
     set_local_network_time (partial_default\<lparr>pt_hour := Some hour, pt_minute := Some minute, pt_second := Some second\<rparr>)"

definition set_local_network_time_hms_nanos ::
  "u8 \<Rightarrow> u8 \<Rightarrow> u8 \<Rightarrow> u32 \<Rightarrow> (nat \<Rightarrow> instant \<times> instant) \<Rightarrow> time_sync_runtime \<Rightarrow> time_sync_runtime" where
  "set_local_network_time_hms_nanos hour minute second nanosecond =
     set_local_network_time (partial_default\<lparr>pt_hour := Some hour, pt_minute := Some minute,
       pt_second := Some second, pt_nanosecond := Some nanosecond\<rparr>)"

definition set_local_network_time_hms_millis ::
  "u8 \<Rightarrow> u8 \<Rightarrow> u8 \<Rightarrow> u16 \<Rightarrow> (nat \<Rightarrow> instant \<times> instant) \<Rightarrow> time_sync_runtime \<Rightarrow> time_sync_runtime" where
  "set_local_network_time_hms_millis hour minute second millisecond =
     set_local_network_time (partial_default\<lparr>pt_hour := Some hour, pt_minute := Some minute,
       pt_second := Some second, pt_nanosecond := Some (sat_mul (ucast millisecond) 1000000)\<rparr>)"

definition set_local_network_datetime ::
  "int \<Rightarrow> u8 \<Rightarrow> u8 \<Rightarrow> u8 \<Rightarrow> u8 \<Rightarrow> u8 \<Rightarrow> (nat \<Rightarrow> instant \<times> instant) \<Rightarrow> time_sync_runtime \<Rightarrow> time_sync_runtime" where
  "set_local_network_datetime year month day hour minute second =
     set_local_network_time \<lparr>pt_year = Some year, pt_month = Some month, pt_day = Some day, pt_hour = Some hour,
       pt_minute = Some minute, pt_second = Some second, pt_nanosecond = None\<rparr>"

definition set_local_network_datetime_nanos ::
  "int \<Rightarrow> u8 \<Rightarrow> u8 \<Rightarrow> u8 \<Rightarrow> u8 \<Rightarrow> u8 \<Rightarrow> u32 \<Rightarrow> (nat \<Rightarrow> instant \<times> instant) \<Rightarrow>
     time_sync_runtime \<Rightarrow> time_sync_runtime" where
  "set_local_network_datetime_nanos year month day hour minute second nanosecond =
     set_local_network_time \<lparr>pt_year = Some year, pt_month = Some month, pt_day = Some day, pt_hour = Some hour,
       pt_minute = Some minute, pt_second = Some second, pt_nanosecond = Some nanosecond\<rparr>"

definition set_local_network_datetime_millis ::
  "int \<Rightarrow> u8 \<Rightarrow> u8 \<Rightarrow> u8 \<Rightarrow> u8 \<Rightarrow> u8 \<Rightarrow> u16 \<Rightarrow> (nat \<Rightarrow> instant \<times> instant) \<Rightarrow>
     time_sync_runtime \<Rightarrow> time_sync_runtime" where
  "set_local_network_datetime_millis year month day hour minute second millisecond =
     set_local_network_time \<lparr>pt_year = Some year, pt_month = Some month, pt_day = Some day, pt_hour = Some hour,
       pt_minute = Some minute, pt_second = Some second,
       pt_nanosecond = Some (sat_mul (ucast millisecond) 1000000)\<rparr>"

definition set_timesync_config ::
  "'z config_scheme \<Rightarrow> time_sync_config option \<Rightarrow> time_sync_runtime \<Rightarrow> time_sync_runtime" where
  "set_timesync_config C cfg tr =
     (let stale = bt_keys (tsr_remote_sources tr);
          tr = tr\<lparr>tsr_cfg := cfg, tsr_tracker := map_option (tracker_new C) cfg,
                  tsr_disciplined_clock := slewed_new (slew_limit_of cfg), tsr_remote_sources := [],
                  tsr_next_seq := 1, tsr_next_announce_mono_ms := 0, tsr_next_request_mono_ms := 0,
                  tsr_pending_request := None\<rparr>
      in clear_local_network_time
           (fold clear_network_time_source stale (clear_network_time_source INTERNAL_TIMESYNC_SOURCE_ID tr)))"

section \<open>Logging a packet of words\<close>

definition log_raw ::
  "'z config_scheme \<Rightarrow> bytes \<Rightarrow> data_type \<Rightarrow> nat \<Rightarrow> 'a::len word list \<Rightarrow> u64 \<Rightarrow> packet telemetry_result" where
  "log_raw C sender ty width data timestamp =
     (let got = length data * width
      in andthen
           (case mm_element (get_message_meta C ty) of
              Static _ _ _ \<Rightarrow>
                if got \<noteq> get_needed_message_size C ty then Err (SizeMismatch (get_needed_message_size C ty) got) else Ok ()
            | Dynamic _ _ \<Rightarrow> if got mod width \<noteq> 0 then Err (SizeMismatch width got) else Ok ())
           (\<lambda>_. packet_new C ty (mm_endpoints (get_message_meta C ty)) sender timestamp (encode_slice_le width data)))"

definition tx_queue_item ::
  "layout \<Rightarrow> env \<Rightarrow> router_tx_item \<Rightarrow> router_inner \<Rightarrow> router_inner \<times> unit telemetry_result" where
  "tx_queue_item L E item st = tx_queue_item_with_flags L E item False st"

definition log_queue_ts ::
  "layout \<Rightarrow> env \<Rightarrow> router_node \<Rightarrow> data_type \<Rightarrow> u64 \<Rightarrow> nat \<Rightarrow> 'a::len word list \<Rightarrow> router_inner \<Rightarrow>
     router_inner \<times> unit telemetry_result" where
  "log_queue_ts L E N ty timestamp width data st =
     sthen (st, log_raw E (rn_sender N) ty width data timestamp) (\<lambda>pkt. tx_queue_item L E (Broadcast (Item_Packet pkt)))"

section \<open>The polling cycle\<close>

definition schedule_announce :: "instant \<Rightarrow> time_sync_config \<Rightarrow> u64 option \<Rightarrow> time_sync_runtime \<Rightarrow> time_sync_runtime \<times> u64 option" where
  "schedule_announce now cfg prio tr =
     (if prio \<noteq> None \<and> in_ms now \<ge> tsr_next_announce_mono_ms tr
      then (tr\<lparr>tsr_next_announce_mono_ms := sat_add (in_ms now) (tsc_announce_interval_ms cfg)\<rparr>, prio)
      else (tr, None))"

definition schedule_request ::
  "instant \<Rightarrow> time_sync_config \<Rightarrow> time_sync_leader option \<Rightarrow> time_sync_runtime \<Rightarrow> time_sync_runtime \<times> (u64 \<times> u64) option" where
  "schedule_request now cfg ld tr =
     (case remote_of ld of
        Some remote \<Rightarrow>
          if in_ms now \<ge> tsr_next_request_mono_ms tr \<and> tsr_pending_request tr = None
          then
            (let seq = tsr_next_seq tr; nxt = seq + 1
             in (tr\<lparr>tsr_next_seq := (if nxt = 0 then 1 else nxt),
                    tsr_next_request_mono_ms := sat_add (in_ms now) (tsc_request_interval_ms cfg),
                    tsr_pending_request := Some \<lparr>ptr_seq = seq, ptr_t1_mono_ms = in_ms now, ptr_source = tss_sender remote\<rparr>\<rparr>,
                 Some (seq, in_ms now)))
          else (tr, None)
      | None \<Rightarrow> (tr, None))"

text \<open>
  The part of \<open>poll_timesync\<close> under the lock: the priority to announce and the request to send.
  \<open>None\<close> is the early return of a router without a time-sync configuration.
\<close>

definition poll_locked ::
  "instant \<Rightarrow> time_sync_runtime \<Rightarrow> time_sync_runtime \<times> (u64 option \<times> (u64 \<times> u64) option) option" where
  "poll_locked now tr =
     (let tr = expire_sources (in_ms now) tr
      in case tsr_cfg tr of
           None \<Rightarrow> (tr, None)
         | Some cfg \<Rightarrow>
             (let usable = timesync_has_usable_time tr (in_ns now);
                  tr = refresh_tracker now tr;
                  ld = leader_now now usable tr;
                  announce_prio = Option.bind (tsr_tracker tr) (\<lambda>t. local_announce_priority t (in_ms now) usable);
                  tr = steer_to_leader now ld (reconcile_pending_timesync_request ld (in_ms now) tr)
              in case schedule_announce now cfg announce_prio tr of
                   (tr, ann) \<Rightarrow> (case schedule_request now cfg ld tr of (tr, req) \<Rightarrow> (tr, Some (ann, req)))))"

text \<open>\<open>t_ann\<close> and \<open>t_req\<close> are the clock readings for the time stamps of the two packets.\<close>

definition poll_timesync ::
  "layout \<Rightarrow> env \<Rightarrow> router_node \<Rightarrow> instant \<Rightarrow> instant \<Rightarrow> instant \<Rightarrow> time_sync_runtime \<times> router_inner \<Rightarrow>
     (time_sync_runtime \<times> router_inner) \<times> bool telemetry_result" where
  "poll_timesync L E N now t_ann t_req s =
     (case poll_locked now (fst s) of
        (tr, None) \<Rightarrow> ((tr, snd s), Ok False)
      | (tr, Some (ann, req)) \<Rightarrow>
          sthen
            (case ann of
               None \<Rightarrow> ((tr, snd s), Ok ())
             | Some priority \<Rightarrow>
                 (case packet_timestamp_ms t_ann tr of (tr, time_ms) \<Rightarrow>
                    (case log_queue_ts L E N TimeSyncAnnounce time_ms 8 [priority, time_ms] (snd s) of
                       (st, r) \<Rightarrow> ((tr, st), r))))
            (\<lambda>_ (tr, st).
              sthen
                (case req of
                   None \<Rightarrow> ((tr, st), Ok ())
                 | Some (seq, t1) \<Rightarrow>
                     (case packet_timestamp_ms t_req tr of (tr, ts) \<Rightarrow>
                        (case log_queue_ts L E N TimeSyncRequest ts 8 [seq, t1] st of (st, r) \<Rightarrow> ((tr, st), r))))
                (\<lambda>_ s. (s, Ok (ann \<noteq> None \<or> req \<noteq> None)))))"

section \<open>Received time-sync packets\<close>

record timesync_response =
  trs_seq :: u64
  trs_t1 :: u64
  trs_t2 :: u64
  trs_t3 :: u64
  trs_dst :: "nat option"

definition note_remote_sample ::
  "instant \<Rightarrow> time_sync_config \<Rightarrow> bytes \<Rightarrow> u64 \<Rightarrow> u64 \<Rightarrow> time_sync_runtime \<Rightarrow> time_sync_runtime" where
  "note_remote_sample now cfg sender priority unix_ms tr =
     tr\<lparr>tsr_remote_sources :=
          bt_insert sender \<lparr>rts_priority = priority, rts_last_sample_mono_ms = in_ms now, rts_sample_unix_ms = unix_ms\<rparr>
            (tsr_remote_sources tr),
        tsr_clock := update_source sender priority (partial_from_unix_ms unix_ms) (in_ms now) (in_ns now)
          (Some (tsc_source_timeout_ms cfg)) (tsr_clock tr)\<rparr>"

definition on_announce ::
  "'z config_scheme \<Rightarrow> time_sync_config \<Rightarrow> instant \<Rightarrow> bool \<Rightarrow> time_sync_tracker \<Rightarrow> packet \<Rightarrow> time_sync_runtime \<Rightarrow>
     time_sync_runtime \<times> unit telemetry_result" where
  "on_announce C cfg now usable t pkt tr =
     sthen (tr, decode_timesync_announce C pkt) (\<lambda>(priority, time_ms) tr.
     sthen (tr, handle_announce C t pkt (in_ms now)) (\<lambda>(_, t) tr.
       let tr = note_remote_sample now cfg (pkt_sender pkt) priority time_ms (tr\<lparr>tsr_tracker := Some t\<rparr>)
       in (if map_option tss_sender (remote_of (leader t (in_ms now) usable)) = Some (pkt_sender pkt)
           then tr\<lparr>tsr_disciplined_clock := steer_unix_ms (tsr_disciplined_clock tr) (in_ns now) time_ms\<rparr>
           else tr, Ok ())))"

definition network_now :: "instant \<Rightarrow> time_sync_runtime \<Rightarrow> u64" where
  "network_now now tr =
     (case or_else (read_unix_ms (tsr_disciplined_clock tr) (in_ns now))
             (Option.bind (current_time (tsr_clock tr) (in_ns now)) nr_unix_time_ms) of
        Some m \<Rightarrow> m
      | None \<Rightarrow> in_ms now)"

definition on_request ::
  "'z config_scheme \<Rightarrow> instant \<Rightarrow> bool \<Rightarrow> time_sync_tracker \<Rightarrow> packet \<Rightarrow> nat option \<Rightarrow> time_sync_runtime \<Rightarrow>
     time_sync_runtime \<times> timesync_response option telemetry_result" where
  "on_request C now usable t pkt src tr =
     (if should_serve t (in_ms now) usable
      then sthen (tr, decode_timesync_request C pkt) (\<lambda>(seq, t1) tr.
        (tr, Ok (Some \<lparr>trs_seq = seq, trs_t1 = t1, trs_t2 = network_now now tr, trs_t3 = network_now now tr, trs_dst = src\<rparr>)))
      else (tr, Ok None))"

definition sample_priority :: "instant \<Rightarrow> time_sync_config \<Rightarrow> time_sync_tracker \<Rightarrow> bytes \<Rightarrow> time_sync_runtime \<Rightarrow> u64" where
  "sample_priority now cfg t sender tr =
     (case or_else (map_option tss_priority (best_active_source t (in_ms now)))
             (map_option rts_priority (bt_get (tsr_remote_sources tr) sender)) of
        Some p \<Rightarrow> p
      | None \<Rightarrow> tsc_priority cfg)"

definition on_response ::
  "'z config_scheme \<Rightarrow> time_sync_config \<Rightarrow> instant \<Rightarrow> time_sync_tracker \<Rightarrow> packet \<Rightarrow> time_sync_runtime \<Rightarrow>
     time_sync_runtime \<times> unit telemetry_result" where
  "on_response C cfg now t pkt tr =
     sthen (tr, decode_timesync_response C pkt) (\<lambda>(seq, _, t2, t3) tr.
       (case tsr_pending_request tr of
          Some pending \<Rightarrow>
            if ptr_seq pending = seq \<and> ptr_source pending = pkt_sender pkt
            then
              (let estimate_ms = fst (compute_network_time_sample (ptr_t1_mono_ms pending) t2 t3 (in_ms now));
                   tr = note_remote_sample now cfg (pkt_sender pkt) (sample_priority now cfg t (pkt_sender pkt) tr) estimate_ms tr
               in tr\<lparr>tsr_disciplined_clock := steer_unix_ms (tsr_disciplined_clock tr) (in_ns now) estimate_ms,
                     tsr_pending_request := None\<rparr>)
            else tr
        | None \<Rightarrow> tr, Ok ()))"

text \<open>
  The part of \<open>handle_internal_timesync_packet\<close> under the lock, for a router whose configuration is
  \<open>cfg\<close>: the response to send and whether to poll afterwards. \<open>None\<close> is the early return of a
  router without a tracker.
\<close>

definition timesync_packet_locked ::
  "'z config_scheme \<Rightarrow> time_sync_config \<Rightarrow> instant \<Rightarrow> packet \<Rightarrow> nat option \<Rightarrow> time_sync_runtime \<Rightarrow>
     time_sync_runtime \<times> (timesync_response option \<times> bool) option telemetry_result" where
  "timesync_packet_locked C cfg now pkt src tr =
     (let tr = expire_sources (in_ms now) tr;
          usable = timesync_has_usable_time tr (in_ns now)
      in case tsr_tracker tr of
           None \<Rightarrow> (tr, Ok None)
         | Some t \<Rightarrow>
             if pkt_ty pkt = TimeSyncAnnounce
             then sthen (on_announce C cfg now usable t pkt tr) (\<lambda>_ tr. (tr, Ok (Some (None, True))))
             else if pkt_ty pkt = TimeSyncRequest
             then sthen (on_request C now usable t pkt src tr) (\<lambda>response tr. (tr, Ok (Some (response, False))))
             else if pkt_ty pkt = TimeSyncResponse
             then sthen (on_response C cfg now t pkt tr) (\<lambda>_ tr. (tr, Ok (Some (None, False))))
             else (tr, Ok (Some (None, False))))"

definition queue_internal_timesync_response ::
  "layout \<Rightarrow> env \<Rightarrow> router_node \<Rightarrow> instant \<Rightarrow> timesync_response \<Rightarrow> time_sync_runtime \<times> router_inner \<Rightarrow>
     (time_sync_runtime \<times> router_inner) \<times> unit telemetry_result" where
  "queue_internal_timesync_response L E N now resp s =
     (case packet_timestamp_ms now (fst s) of (tr, pkt_ts) \<Rightarrow>
        sthen ((tr, snd s), packet_new E TimeSyncResponse [TimeSync] (rn_sender N) pkt_ts
            (encode_slice_le 8 [trs_seq resp, trs_t1 resp, trs_t2 resp, trs_t3 resp]))
          (\<lambda>pkt (tr, st).
            (case tx_queue_item_with_flags L E
                    (case trs_dst resp of Some dst \<Rightarrow> ToSide None dst (Item_Packet pkt) | None \<Rightarrow> Broadcast (Item_Packet pkt))
                    True st of
               (st, r) \<Rightarrow> ((tr, st), r))))"

end
