(* ===== verification/Router_Time_Laws.thy ===== *)
theory Router_Time_Laws
  imports Router_Time Network_Time_Laws
begin

text \<open>
  The invariant of the time-sync runtime and the steps it is kept by, and how the polling cycle depends
  on the leader of the moment.
\<close>

section \<open>The leader of the moment\<close>

definition current_leader :: "instant \<Rightarrow> time_sync_runtime \<Rightarrow> time_sync_leader option" where
  "current_leader now tr =
     (let tr = expire_sources (in_ms now) tr
      in leader_now now (timesync_has_usable_time tr (in_ns now)) (refresh_tracker now tr))"

definition follows :: "instant \<Rightarrow> time_sync_runtime \<Rightarrow> bytes option" where
  "follows now tr = map_option tss_sender (remote_of (current_leader now tr))"

text \<open>The state after the common prefix of \<open>poll_timesync\<close> and \<open>refresh_timesync_state\<close>.\<close>

definition settled :: "instant \<Rightarrow> time_sync_runtime \<Rightarrow> time_sync_runtime" where
  "settled now tr =
     reconcile_pending_timesync_request (current_leader now tr) (in_ms now)
       (refresh_tracker now (expire_sources (in_ms now) tr))"

lemma refresh_timesync_state_eq:
  "refresh_timesync_state now tr = steer_to_leader now (current_leader now tr) (settled now tr)"
  by (simp add: refresh_timesync_state_def current_leader_def settled_def Let_def)

lemma expire_sources_fields [simp]:
  "tsr_cfg (expire_sources t tr) = tsr_cfg tr" "tsr_tracker (expire_sources t tr) = tsr_tracker tr"
  "tsr_pending_request (expire_sources t tr) = tsr_pending_request tr"
  "tsr_next_seq (expire_sources t tr) = tsr_next_seq tr"
  "tsr_disciplined_clock (expire_sources t tr) = tsr_disciplined_clock tr"
  by (simp_all add: expire_sources_def Let_def)

lemma refresh_tracker_fields [simp]:
  "tsr_cfg (refresh_tracker now tr) = tsr_cfg tr" "tsr_clock (refresh_tracker now tr) = tsr_clock tr"
  "tsr_pending_request (refresh_tracker now tr) = tsr_pending_request tr"
  "tsr_next_seq (refresh_tracker now tr) = tsr_next_seq tr"
  "tsr_remote_sources (refresh_tracker now tr) = tsr_remote_sources tr"
  "tsr_disciplined_clock (refresh_tracker now tr) = tsr_disciplined_clock tr"
  by (simp_all add: refresh_tracker_def)

lemma reconcile_fields [simp]:
  "tsr_cfg (reconcile_pending_timesync_request ld t tr) = tsr_cfg tr"
  "tsr_clock (reconcile_pending_timesync_request ld t tr) = tsr_clock tr"
  "tsr_tracker (reconcile_pending_timesync_request ld t tr) = tsr_tracker tr"
  "tsr_next_seq (reconcile_pending_timesync_request ld t tr) = tsr_next_seq tr"
  "tsr_remote_sources (reconcile_pending_timesync_request ld t tr) = tsr_remote_sources tr"
  "tsr_disciplined_clock (reconcile_pending_timesync_request ld t tr) = tsr_disciplined_clock tr"
  by (simp_all add: reconcile_pending_timesync_request_def split: option.splits)

lemma reconcile_pending:
  "tsr_pending_request (reconcile_pending_timesync_request ld t tr) =
     (case tsr_pending_request tr of
        Some p \<Rightarrow> if map_option tss_sender (remote_of ld) = Some (ptr_source p) then Some p else None
      | None \<Rightarrow> None)"
  by (cases "tsr_pending_request tr"; cases "remote_of ld")
    (auto simp: reconcile_pending_timesync_request_def)

lemma steer_to_leader_fields [simp]:
  "tsr_cfg (steer_to_leader now ld tr) = tsr_cfg tr" "tsr_clock (steer_to_leader now ld tr) = tsr_clock tr"
  "tsr_tracker (steer_to_leader now ld tr) = tsr_tracker tr"
  "tsr_pending_request (steer_to_leader now ld tr) = tsr_pending_request tr"
  "tsr_next_seq (steer_to_leader now ld tr) = tsr_next_seq tr"
  "tsr_remote_sources (steer_to_leader now ld tr) = tsr_remote_sources tr"
  by (simp_all add: steer_to_leader_def split: option.splits)

lemma pending_after_settled:
  "tsr_pending_request (settled now tr) =
     (case tsr_pending_request tr of
        Some p \<Rightarrow> if follows now tr = Some (ptr_source p) then Some p else None
      | None \<Rightarrow> None)"
  by (simp add: settled_def reconcile_pending follows_def split: option.split)

lemma schedule_announce_fields:
  assumes "schedule_announce now cfg prio tr = (tr', ann)"
  shows "tsr_cfg tr' = tsr_cfg tr" "tsr_clock tr' = tsr_clock tr" "tsr_tracker tr' = tsr_tracker tr"
    "tsr_pending_request tr' = tsr_pending_request tr" "tsr_next_seq tr' = tsr_next_seq tr"
    "tsr_remote_sources tr' = tsr_remote_sources tr"
  using assms by (auto simp: schedule_announce_def split: if_splits)

lemma schedule_request_pending:
  assumes "tsr_pending_request tr = Some p"
  shows "schedule_request now cfg ld tr = (tr, None)"
  using assms by (simp add: schedule_request_def split: option.splits)

lemma poll_lockedE:
  assumes "poll_locked now tr = (tr', Some (ann, req))"
  obtains cfg prio tr1 where "tsr_cfg tr = Some cfg"
    "schedule_announce now cfg prio (steer_to_leader now (current_leader now tr) (settled now tr)) = (tr1, ann)"
    "schedule_request now cfg (current_leader now tr) tr1 = (tr', req)"
  using assms
  by (auto simp: poll_locked_def current_leader_def settled_def Let_def split: option.splits prod.splits)

section \<open>The invariant\<close>

definition seq_after :: "u64 \<Rightarrow> u64" where
  "seq_after n = (if n + 1 = 0 then 1 else n + 1)"

definition runtime_ok :: "time_sync_runtime \<Rightarrow> bool" where
  "runtime_ok tr \<longleftrightarrow>
     (tsr_cfg tr = None \<longleftrightarrow> tsr_tracker tr = None) \<and>
     (\<forall>t. tsr_tracker tr = Some t \<longrightarrow> tracker_wf t) \<and>
     bt_wf (tsr_clock tr) \<and> bt_wf (tsr_remote_sources tr) \<and> tsr_next_seq tr \<noteq> 0 \<and>
     (\<forall>p. tsr_pending_request tr = Some p \<longrightarrow> ptr_seq p \<noteq> 0 \<and> tsr_next_seq tr = seq_after (ptr_seq p))"

lemma runtime_new_ok: "runtime_ok (runtime_new C cfg)"
  by (auto simp: runtime_ok_def runtime_new_def tracker_new_wf)

lemma runtime_okD:
  assumes "runtime_ok tr"
  shows "bt_wf (tsr_clock tr)" "bt_wf (tsr_remote_sources tr)" "tsr_next_seq tr \<noteq> 0"
    "tsr_tracker tr = Some t \<Longrightarrow> tracker_wf t"
  using assms by (auto simp: runtime_ok_def)

lemma runtime_ok_cong:
  assumes "runtime_ok tr" and "tsr_cfg tr' = tsr_cfg tr" and "tsr_next_seq tr' = tsr_next_seq tr"
    and "tsr_pending_request tr' = tsr_pending_request tr \<or> tsr_pending_request tr' = None"
    and "tsr_tracker tr' = tsr_tracker tr" and "bt_wf (tsr_clock tr) \<Longrightarrow> bt_wf (tsr_clock tr')"
    and "bt_wf (tsr_remote_sources tr) \<Longrightarrow> bt_wf (tsr_remote_sources tr')"
  shows "runtime_ok tr'"
  using assms by (auto simp: runtime_ok_def)

lemma expire_sources_ok: "runtime_ok tr \<Longrightarrow> runtime_ok (expire_sources t tr)"
  by (erule runtime_ok_cong)
    (auto simp: expire_sources_def Let_def prune_expired_def intro: wf_intros)

lemma refresh_tracker_ok: "runtime_ok tr \<Longrightarrow> runtime_ok (refresh_tracker now tr)"
  by (auto simp: runtime_ok_def refresh_tracker_def intro: refresh_wf [OF surjective_pairing])

lemma steer_to_leader_ok: "runtime_ok tr \<Longrightarrow> runtime_ok (steer_to_leader now ld tr)"
  by (erule runtime_ok_cong) (auto simp: runtime_ok_def)

lemma settled_ok:
  assumes "runtime_ok tr"
  shows "runtime_ok (settled now tr)"
proof -
  let ?e = "refresh_tracker now (expire_sources (in_ms now) tr)"
  have e: "runtime_ok ?e" by (intro refresh_tracker_ok expire_sources_ok assms)
  then show ?thesis unfolding settled_def
    by (rule runtime_ok_cong) (use runtime_okD [OF e] in \<open>auto simp: reconcile_pending split: option.splits\<close>)
qed

lemma refresh_timesync_state_ok: "runtime_ok tr \<Longrightarrow> runtime_ok (refresh_timesync_state now tr)"
  unfolding refresh_timesync_state_eq by (intro steer_to_leader_ok settled_ok)

lemma network_time_ok: "runtime_ok tr \<Longrightarrow> runtime_ok (fst (router_network_time now tr))"
  by (simp add: router_network_time_def Let_def refresh_timesync_state_ok)

lemma clear_source_ok: "runtime_ok tr \<Longrightarrow> runtime_ok (clear_network_time_source s tr)"
  by (erule runtime_ok_cong)
    (auto simp: clear_network_time_source_def remove_source_def intro: wf_intros)

lemma install_source_ok: "runtime_ok tr \<Longrightarrow> runtime_ok (install_source s p t m n ttl tr)"
  by (erule runtime_ok_cong)
    (auto simp: install_source_def Let_def update_source_def intro: wf_intros split: option.splits)

lemma set_source_impl_ok: "runtime_ok tr \<Longrightarrow> runtime_ok (set_network_time_source_impl s p t ttl rd tr)"
  by (simp add: set_network_time_source_impl_def Let_def install_source_ok)

lemma set_local_network_time_ok: "runtime_ok tr \<Longrightarrow> runtime_ok (set_local_network_time time rd tr)"
  by (simp add: set_local_network_time_def Let_def clear_source_ok set_source_impl_ok)

lemma clear_local_network_time_ok: "runtime_ok tr \<Longrightarrow> runtime_ok (clear_local_network_time tr)"
  by (simp add: clear_local_network_time_def clear_source_ok)

lemma fold_clear_ok: "runtime_ok tr \<Longrightarrow> runtime_ok (fold clear_network_time_source ss tr)"
  by (induction ss arbitrary: tr) (simp_all add: clear_source_ok)

lemma set_timesync_config_ok:
  assumes "runtime_ok tr"
  shows "runtime_ok (set_timesync_config C cfg tr)"
proof -
  have "runtime_ok (tr\<lparr>tsr_cfg := cfg, tsr_tracker := map_option (tracker_new C) cfg,
    tsr_disciplined_clock := slewed_new (slew_limit_of cfg), tsr_remote_sources := [],
    tsr_next_seq := 1, tsr_next_announce_mono_ms := 0, tsr_next_request_mono_ms := 0,
    tsr_pending_request := None\<rparr>)"
    using assms by (auto simp: runtime_ok_def tracker_new_wf)
  then show ?thesis
    unfolding set_timesync_config_def Let_def by (intro clear_local_network_time_ok fold_clear_ok clear_source_ok)
qed

lemma schedule_request_ok:
  assumes "runtime_ok tr" and "schedule_request now cfg ld tr = (tr', req)"
  shows "runtime_ok tr'"
  using assms
  by (auto simp: schedule_request_def runtime_ok_def seq_after_def Let_def split: option.splits if_splits)

lemma poll_locked_ok:
  assumes "runtime_ok tr" and "poll_locked now tr = (tr', r)"
  shows "runtime_ok tr'"
proof (cases r)
  case None
  then show ?thesis using assms
    by (auto simp: poll_locked_def Let_def expire_sources_ok split: option.splits prod.splits)
next
  case (Some ar)
  obtain ann req where r: "r = Some (ann, req)" using Some by (cases ar) simp
  from assms(2) [unfolded r] obtain cfg prio tr1 where
    a: "schedule_announce now cfg prio (steer_to_leader now (current_leader now tr) (settled now tr)) = (tr1, ann)"
    and q: "schedule_request now cfg (current_leader now tr) tr1 = (tr', req)"
    by (rule poll_lockedE)
  have ok: "runtime_ok (steer_to_leader now (current_leader now tr) (settled now tr))"
    by (intro steer_to_leader_ok settled_ok assms(1))
  then have "runtime_ok tr1"
    by (rule runtime_ok_cong) (use schedule_announce_fields [OF a] runtime_okD [OF ok] in auto)
  then show ?thesis using q by (rule schedule_request_ok)
qed

lemma note_remote_sample_ok: "runtime_ok tr \<Longrightarrow> runtime_ok (note_remote_sample now cfg s p u tr)"
  by (erule runtime_ok_cong)
    (auto simp: note_remote_sample_def update_source_def intro: wf_intros)

lemma disciplined_ok [simp]: "runtime_ok (tr\<lparr>tsr_disciplined_clock := c\<rparr>) \<longleftrightarrow> runtime_ok tr"
  by (simp add: runtime_ok_def)

lemma pending_cleared_ok: "runtime_ok tr \<Longrightarrow> runtime_ok (tr\<lparr>tsr_pending_request := None\<rparr>)"
  by (simp add: runtime_ok_def)

lemma on_announce_ok:
  assumes ok: "runtime_ok tr" and t: "tsr_tracker tr = Some t" and r: "on_announce C cfg now usable t pkt tr = (tr', r)"
  shows "runtime_ok tr'"
proof (cases "\<exists>p tm u t'. decode_timesync_announce C pkt = Ok (p, tm) \<and> handle_announce C t pkt (in_ms now) = Ok (u, t')")
  case True
  then obtain p tm u t' where d: "decode_timesync_announce C pkt = Ok (p, tm)"
    and h: "handle_announce C t pkt (in_ms now) = Ok (u, t')" by blast
  have "tracker_wf t'" using handle_announce_wf [OF h] runtime_okD(4) [OF ok t] by simp
  then have "runtime_ok (tr\<lparr>tsr_tracker := Some t'\<rparr>)" using ok t by (auto simp: runtime_ok_def)
  from note_remote_sample_ok [OF this] show ?thesis
    using r by (auto simp: on_announce_def d h Let_def split: if_splits)
next
  case False
  then have "tr' = tr" using r
    by (cases "decode_timesync_announce C pkt"; cases "handle_announce C t pkt (in_ms now)")
      (auto simp: on_announce_def split: prod.splits)
  then show ?thesis using ok by simp
qed

lemma on_request_same: "on_request C now usable t pkt src tr = (tr', r) \<Longrightarrow> tr' = tr"
  by (cases "decode_timesync_request C pkt") (auto simp: on_request_def split: if_splits)

lemma on_response_ok:
  assumes "runtime_ok tr" and "on_response C cfg now t pkt tr = (tr', r)"
  shows "runtime_ok tr'"
proof -
  have "runtime_ok (tr\<lparr>tsr_disciplined_clock := c, tsr_pending_request := None\<rparr>)" if "runtime_ok tr" for tr c
    using that by (simp add: runtime_ok_def)
  with assms note_remote_sample_ok show ?thesis
    by (cases "decode_timesync_response C pkt")
      (auto simp: on_response_def Let_def split: option.splits if_splits)
qed

lemma fst_sthen_return: "fst (sthen m (\<lambda>x s. (s, g x))) = fst m"
  by (auto simp: sthen_def split: prod.splits outcome.splits)

lemma timesync_packet_locked_ok:
  assumes ok: "runtime_ok tr"
  shows "runtime_ok (fst (timesync_packet_locked C cfg now pkt src tr))"
proof (cases "tsr_tracker tr")
  case None
  then show ?thesis using expire_sources_ok [OF ok] by (simp add: timesync_packet_locked_def Let_def)
next
  case (Some t)
  let ?tr = "expire_sources (in_ms now) tr"
  note ok' = expire_sources_ok [OF ok, of "in_ms now"]
  have t: "tsr_tracker ?tr = Some t" using Some by simp
  have a: "runtime_ok (fst (on_announce C cfg now u t pkt ?tr))" for u
    by (rule on_announce_ok [OF ok' t surjective_pairing])
  have q: "runtime_ok (fst (on_request C now u t pkt src ?tr))" for u
    using ok' on_request_same [OF surjective_pairing, of C now u t pkt src ?tr] by metis
  have p: "runtime_ok (fst (on_response C cfg now t pkt ?tr))"
    by (rule on_response_ok [OF ok' surjective_pairing])
  from a q p show ?thesis
    by (simp add: timesync_packet_locked_def Let_def Some fst_sthen_return ok')
qed

section \<open>Runs\<close>

text \<open>What can happen to the runtime of a router: each rule is one call of an operation.\<close>

inductive runtime_step :: "'z config_scheme \<Rightarrow> time_sync_runtime \<Rightarrow> time_sync_runtime \<Rightarrow> bool"
  for C where
  Read: "runtime_step C tr (fst (router_network_time now tr))"
| Update: "runtime_step C tr (update_network_time_source s p time ttl now tr)"
| Set_Local: "runtime_step C tr (set_local_network_time time rd tr)"
| Clear_Local: "runtime_step C tr (clear_local_network_time tr)"
| Clear_Source: "runtime_step C tr (clear_network_time_source s tr)"
| Configure: "runtime_step C tr (set_timesync_config C cfg tr)"
| Poll: "runtime_step C tr (fst (poll_locked now tr))"
| Packet: "runtime_step C tr (fst (timesync_packet_locked C cfg now pkt src tr))"

inductive runtime_run :: "'z config_scheme \<Rightarrow> time_sync_runtime \<Rightarrow> time_sync_runtime \<Rightarrow> bool"
  for C where
  Run_Nil: "runtime_run C tr tr"
| Run_Step: "runtime_run C tr tr' \<Longrightarrow> runtime_step C tr' tr'' \<Longrightarrow> runtime_run C tr tr''"

lemma runtime_step_ok: "runtime_step C tr tr' \<Longrightarrow> runtime_ok tr \<Longrightarrow> runtime_ok tr'"
proof (induction rule: runtime_step.induct)
  case (Update tr s p time ttl now)
  then show ?case by (simp add: update_network_time_source_def install_source_ok)
next
  case (Poll tr now)
  then show ?case using poll_locked_ok [OF _ surjective_pairing] by blast
next
  case (Packet tr cfg now pkt src)
  then show ?case using timesync_packet_locked_ok by blast
qed (simp_all add: network_time_ok set_local_network_time_ok clear_local_network_time_ok clear_source_ok set_timesync_config_ok)

lemma runtime_run_ok: "runtime_run C tr tr' \<Longrightarrow> runtime_ok tr \<Longrightarrow> runtime_ok tr'"
  by (induction rule: runtime_run.induct) (auto intro: runtime_step_ok)

end
