(* ===== verification/Runtime_Properties.thy ===== *)
theory Runtime_Properties
  imports Router_Time_Laws Time_Properties
begin

text \<open>The time synchronisation of a router as a whole, each property with an instance.\<close>

section \<open>A router that has heard one announcement\<close>

definition seconds :: "u64 \<Rightarrow> instant" where
  "seconds n = \<lparr>in_ms = n * 1000, in_ns = n * 1000000000\<rparr>"

definition gps_remote :: time_sync_source where
  "gps_remote = \<lparr>tss_sender = str ''GPS'', tss_priority = 50, tss_last_announce_ms = 1000, tss_last_time_ms = 9\<rparr>"

definition heard_runtime :: time_sync_runtime where
  "heard_runtime =
     \<lparr>tsr_cfg = Some time_sync_config_default,
      tsr_tracker = Some \<lparr>tst_cfg = time_sync_config_default, tst_local_id = str ''TEST'',
        tst_sources = [(str ''GPS'', gps_remote)], tst_current_source = Some (str ''GPS'')\<rparr>,
      tsr_clock = [(str ''GPS'', \<lparr>ns_priority = 50, ns_updated_mono_ms = 1000, ns_anchor_mono_ns = 1000000000,
        ns_ttl_ms = Some 5000, ns_time = partial_from_unix_ms 9\<rparr>)],
      tsr_disciplined_clock = \<lparr>sc_anchor_mono_ns = 1000000000, sc_anchor_unix_ns = 9000000, sc_pending_adjust_ns = 0,
        sc_max_slew_ppm = 50000, sc_initialized = True\<rparr>,
      tsr_remote_sources = [(str ''GPS'', \<lparr>rts_priority = 50, rts_last_sample_mono_ms = 1000, rts_sample_unix_ms = 9\<rparr>)],
      tsr_next_seq = 1, tsr_next_announce_mono_ms = 0, tsr_next_request_mono_ms = 0, tsr_pending_request = None\<rparr>"

lemma gps_known:
  "pkt_sender announce_packet = str ''GPS''" "pkt_ty announce_packet = TimeSyncAnnounce" "device_identifier sample_env = str ''TEST''"
  by (simp_all add: announce_packet_def sample_defs)

lemma heard_runtime_heard:
  "timesync_packet_locked sample_env time_sync_config_default (seconds 1) announce_packet None
     (runtime_new sample_env (Some time_sync_config_default)) = (heard_runtime, Ok (Some (None, True)))"
proof -
  let ?tr = "runtime_new sample_env (Some time_sync_config_default)"
  let ?t = "tracker_new sample_env time_sync_config_default"
  let ?t' = "\<lparr>tst_cfg = time_sync_config_default, tst_local_id = str ''TEST'',
        tst_sources = [(str ''GPS'', gps_remote)], tst_current_source = Some (str ''GPS'')\<rparr>"
  have e: "expire_sources 1000 ?tr = ?tr" "tsr_tracker ?tr = Some ?t" "tsr_clock ?tr = []" "tsr_remote_sources ?tr = []"
    by (simp_all add: expire_sources_def runtime_new_def prune_expired_def bt_retain_def)
  have h: "handle_announce sample_env ?t announce_packet 1000 = Ok (SourceChanged, ?t')"
    by (simp add: handle_announce_def announce_decodes tracker_new_def gps_known str_def reselect_source_def
        best_active_source_def active_sources_def bt_values_def source_is_active_def gps_remote_def
        time_sync_config_default_def sat_sub_def Let_def)
  have l: "leader ?t' 1000 u = Some (Remote gps_remote)" for u
    by (simp add: leader_def local_candidate_priority_def best_active_source_def active_sources_def bt_values_def
        source_is_active_def gps_remote_def time_sync_config_default_def sat_sub_def)
  have s: "steer_unix_ms (tsr_disciplined_clock ?tr) 1000000000 9 = tsr_disciplined_clock heard_runtime"
    by (simp add: steer_unix_ms_def runtime_new_def slewed_new_def slew_limit_of_def time_sync_config_default_def heard_runtime_def Let_def)
  have g: "tss_sender gps_remote = str ''GPS''" by (simp add: gps_remote_def)
  show ?thesis
    by (simp add: timesync_packet_locked_def e seconds_def gps_known on_announce_def announce_decodes h l s g remote_of_def
        note_remote_sample_def update_source_def Let_def)
      (simp add: heard_runtime_def runtime_new_def time_sync_config_default_def)
qed

section \<open>Invariant\<close>

text \<open>
  C22. Whatever sequence of readings, local settings, configurations, polls and received packets a
  router goes through, its time-sync runtime stays consistent: a tracker exactly when there is a
  configuration, no source under the local identity, ordered tables, and an outstanding request whose
  number is never zero and is the one before the next number.
\<close>

theorem timesync_runtime_consistent:
  assumes "runtime_run C (runtime_new C cfg) tr"
  shows "(tsr_cfg tr = None \<longleftrightarrow> tsr_tracker tr = None) \<and> (\<forall>t. tsr_tracker tr = Some t \<longrightarrow> tracker_wf t) \<and>
    bt_wf (tsr_clock tr) \<and> bt_wf (tsr_remote_sources tr) \<and> tsr_next_seq tr \<noteq> 0 \<and>
    (\<forall>p. tsr_pending_request tr = Some p \<longrightarrow> ptr_seq p \<noteq> 0 \<and> tsr_next_seq tr = seq_after (ptr_seq p))"
  by (rule runtime_run_ok [OF assms runtime_new_ok, unfolded runtime_ok_def])

theorem timesync_runtime_consistent_witness:
  "runtime_run sample_env (runtime_new sample_env (Some time_sync_config_default)) heard_runtime \<and>
   bt_wf (tsr_clock heard_runtime) \<and> tsr_next_seq heard_runtime \<noteq> 0"
proof -
  have run: "runtime_run sample_env (runtime_new sample_env (Some time_sync_config_default)) heard_runtime"
    using Run_Step [OF Run_Nil Packet [of sample_env "runtime_new sample_env (Some time_sync_config_default)"
        time_sync_config_default "seconds 1" announce_packet None]]
    unfolding heard_runtime_heard by simp
  from timesync_runtime_consistent [OF this] run show ?thesis by blast
qed

section \<open>Requests and responses\<close>

text \<open>
  A time-sync response is taken only as the answer to the outstanding request, from the source
  it was sent to. Then the request is closed, and the sample kept for the source is the server's send
  time plus half of the round trip without the server's own time. Any other response changes nothing
  beyond the expiry of old sources.
\<close>

theorem response_answers_pending_request:
  assumes "tsr_tracker tr = Some t" and "pkt_ty pkt = TimeSyncResponse" and "bt_wf (tsr_remote_sources tr)"
    and "decode_timesync_response C pkt = Ok (seq, t1, t2, t3)"
  shows "\<exists>tr'. timesync_packet_locked C cfg now pkt src tr = (tr', Ok (Some (None, False))) \<and>
    (case tsr_pending_request tr of
       Some p \<Rightarrow>
         if ptr_seq p = seq \<and> ptr_source p = pkt_sender pkt
         then tsr_pending_request tr' = None \<and>
           map_option rts_sample_unix_ms (bt_get (tsr_remote_sources tr') (pkt_sender pkt)) =
             Some (sat_add t3 (sat_sub (sat_sub (in_ms now) (ptr_t1_mono_ms p)) (sat_sub t3 t2) div 2))
         else tr' = expire_sources (in_ms now) tr
     | None \<Rightarrow> tr' = expire_sources (in_ms now) tr)"
proof -
  let ?tr = "expire_sources (in_ms now) tr"
  have wf: "bt_wf (tsr_remote_sources ?tr)"
    using assms(3) by (simp add: expire_sources_def Let_def bt_wf_retain)
  obtain tr' where r: "on_response C cfg now t pkt ?tr = (tr', Ok ())" by (simp add: on_response_def assms(4))
  have "timesync_packet_locked C cfg now pkt src tr = (tr', Ok (Some (None, False)))"
    by (simp add: timesync_packet_locked_def Let_def assms(1,2) r)
  moreover have "case tsr_pending_request tr of
       Some p \<Rightarrow>
         if ptr_seq p = seq \<and> ptr_source p = pkt_sender pkt
         then tsr_pending_request tr' = None \<and>
           map_option rts_sample_unix_ms (bt_get (tsr_remote_sources tr') (pkt_sender pkt)) =
             Some (sat_add t3 (sat_sub (sat_sub (in_ms now) (ptr_t1_mono_ms p)) (sat_sub t3 t2) div 2))
         else tr' = ?tr
     | None \<Rightarrow> tr' = ?tr"
    using r
    by (auto simp: on_response_def assms(4) note_remote_sample_def compute_network_time_sample_def Let_def
        bt.get_insert_same [OF wf] split: option.splits if_splits)
  ultimately show ?thesis by blast
qed

definition response_packet :: packet where
  "response_packet =
     \<lparr>pkt_ty = TimeSyncResponse, pkt_data_size = 32, pkt_sender = str ''GPS'', pkt_endpoints = [TimeSync],
      pkt_timestamp = 9, pkt_payload = Inline 32 (map Some (concat (map (to_le_bytes 8) [1, 2000, 5000, 5000 :: u64])) @ replicate 32 None)\<rparr>"

lemma response_decodes: "decode_timesync_response sample_env response_packet = Ok (1, 2000, 5000, 5000)"
proof -
  have "payload response_packet = concat (map (to_le_bytes 8) [1, 2000, 5000, 5000 :: u64])"
    unfolding response_packet_def payload_def by code_simp
  then have "data_as_u64 sample_env response_packet = Ok [1, 2000, 5000, 5000]"
    unfolding data_as_u64_def
    by (rule as_le_bytes_encoded) (simp_all add: response_packet_def get_data_type_def control_meta_def)
  then show ?thesis
    by (simp add: decode_timesync_response_def decode_u64_payload_def response_packet_def)
qed

definition asked_runtime :: time_sync_runtime where
  "asked_runtime = heard_runtime\<lparr>tsr_next_seq := 2,
     tsr_pending_request := Some \<lparr>ptr_seq = 1, ptr_t1_mono_ms = 2000, ptr_source = str ''GPS''\<rparr>\<rparr>"

theorem response_answers_pending_request_witness:
  "\<exists>tr'. timesync_packet_locked sample_env time_sync_config_default (seconds 3) response_packet None asked_runtime =
     (tr', Ok (Some (None, False))) \<and> tsr_pending_request tr' = None \<and>
     map_option rts_sample_unix_ms (bt_get (tsr_remote_sources tr') (str ''GPS'')) = Some 5500"
proof -
  have "bt_wf (tsr_remote_sources asked_runtime)" by (simp add: asked_runtime_def heard_runtime_def bt_wf_def)
  from response_answers_pending_request [where C = sample_env and pkt = response_packet and tr = asked_runtime
      and cfg = time_sync_config_default and now = "seconds 3" and src = None, OF _ _ this response_decodes]
  show ?thesis
    by (simp add: asked_runtime_def heard_runtime_def response_packet_def seconds_def sat_sub_def sat_add_def)
qed

text \<open>
  C37. A request whose answer is lost is never repeated: as long as the router follows the source the
  outstanding request went to, a poll sends no request, however long ago that request was, and leaves
  it outstanding.
\<close>

theorem lost_response_stops_requests:
  assumes "tsr_pending_request tr = Some p" and "follows now tr = Some (ptr_source p)"
    and "poll_locked now tr = (tr', Some (ann, req))"
  shows "req = None \<and> tsr_pending_request tr' = Some p"
proof -
  from assms(3) obtain cfg prio tr1 where
    a: "schedule_announce now cfg prio (steer_to_leader now (current_leader now tr) (settled now tr)) = (tr1, ann)"
    and q: "schedule_request now cfg (current_leader now tr) tr1 = (tr', req)"
    by (rule poll_lockedE)
  have "tsr_pending_request tr1 = Some p"
    using schedule_announce_fields [OF a] assms(1,2) by (simp add: pending_after_settled)
  with schedule_request_pending [OF this] q show ?thesis by auto
qed

lemma gps_fresh:
  "refresh_tracker (seconds 5) (expire_sources 5000 asked_runtime) = asked_runtime"
  "leader (the (tsr_tracker asked_runtime)) 5000 u = Some (Remote gps_remote)"
proof -
  show "leader (the (tsr_tracker asked_runtime)) 5000 u = Some (Remote gps_remote)"
    by (simp add: asked_runtime_def heard_runtime_def leader_def local_candidate_priority_def best_active_source_def
        active_sources_def bt_values_def source_is_active_def gps_remote_def time_sync_config_default_def sat_sub_def)
  show "refresh_tracker (seconds 5) (expire_sources 5000 asked_runtime) = asked_runtime"
    by (simp add: asked_runtime_def heard_runtime_def refresh_tracker_def expire_sources_def prune_expired_def bt_retain_def
        refresh_def reselect_source_def best_active_source_def active_sources_def bt_values_def source_is_active_def
        gps_remote_def time_sync_config_default_def sat_sub_def seconds_def Let_def)
qed

lemma gps_followed: "follows (seconds 5) asked_runtime = Some (str ''GPS'')"
proof -
  obtain t where "tsr_tracker asked_runtime = Some t"
    by (simp add: asked_runtime_def heard_runtime_def)
  then have "leader_now (seconds 5) u asked_runtime = Some (Remote gps_remote)" for u
    using gps_fresh(2) [of u] by (simp add: leader_now_def seconds_def)
  then show ?thesis
    using gps_fresh(1) by (simp add: follows_def current_leader_def remote_of_def gps_remote_def seconds_def)
qed

theorem lost_response_stops_requests_witness:
  "\<exists>tr' ann. poll_locked (seconds 5) asked_runtime = (tr', Some (ann, None)) \<and>
     tsr_pending_request tr' = Some \<lparr>ptr_seq = 1, ptr_t1_mono_ms = 2000, ptr_source = str ''GPS''\<rparr>"
proof -
  obtain tr' ann req where p: "poll_locked (seconds 5) asked_runtime = (tr', Some (ann, req))"
    by (cases "poll_locked (seconds 5) asked_runtime")
      (auto simp: poll_locked_def asked_runtime_def heard_runtime_def Let_def split: prod.splits)
  have "tsr_pending_request asked_runtime = Some \<lparr>ptr_seq = 1, ptr_t1_mono_ms = 2000, ptr_source = str ''GPS''\<rparr>"
    by (simp add: asked_runtime_def)
  from lost_response_stops_requests [OF this _ p] gps_followed p show ?thesis by auto
qed

section \<open>Reading the time\<close>

text \<open>
  Reading the network time steers the clock to the last sample of the leader as if it had just
  been taken: on a clock that has run in step with the source since that sample, a reading schedules
  a correction backwards by all the time that has passed.
\<close>

theorem reading_steers_to_stale_sample:
  assumes "slewed_ok (tsr_disciplined_clock tr)" and "sc_pending_adjust_ns (tsr_disciplined_clock tr) = 0"
    and "follows now tr = Some s" and "bt_get (tsr_remote_sources (expire_sources (in_ms now) tr)) s = Some sample"
    and "sc_anchor_unix_ns (tsr_disciplined_clock tr) = uint (rts_sample_unix_ms sample) * 1000000"
  shows "sc_pending_adjust_ns (tsr_disciplined_clock (fst (router_network_time now tr))) =
    - elapsed_ns (tsr_disciplined_clock tr) (in_ns now)"
proof -
  let ?c = "tsr_disciplined_clock tr"
  obtain r where r: "remote_of (current_leader now tr) = Some r" "tss_sender r = s"
    using assms(3) by (auto simp: follows_def)
  have clip: "clip 0 m = 0" if "0 \<le> m" for m using that by (simp add: clip_def)
  have 0: "0 \<le> slew_limit ?c (elapsed_ns ?c (in_ns now))"
    by (rule slew_limit_bounds(1) [OF assms(1) elapsed_bounds(1)])
  have "tsr_disciplined_clock (fst (router_network_time now tr)) = steer_unix_ms ?c (in_ns now) (rts_sample_unix_ms sample)"
    using r assms(4) by (simp add: router_network_time_def Let_def refresh_timesync_state_eq steer_to_leader_def settled_def)
  then show ?thesis
    using steer_exact [OF assms(1), of "in_ns now" "rts_sample_unix_ms sample"] assms(2,5)
      read_unix_ns_exact [OF assms(1), of "in_ns now"] clip [OF 0]
    by (auto simp: applied_adjust_clip [OF assms(1)])
qed

theorem reading_steers_to_stale_sample_witness:
  "sc_pending_adjust_ns (tsr_disciplined_clock (fst (router_network_time (seconds 5) asked_runtime))) = - 4000000000"
proof -
  have c: "tsr_disciplined_clock asked_runtime = \<lparr>sc_anchor_mono_ns = 1000000000, sc_anchor_unix_ns = 9000000,
    sc_pending_adjust_ns = 0, sc_max_slew_ppm = 50000, sc_initialized = True\<rparr>"
    by (simp add: asked_runtime_def heard_runtime_def)
  have ok: "slewed_ok (tsr_disciplined_clock asked_runtime)" by (simp add: c slewed_ok_def)
  have "expire_sources (in_ms (seconds 5)) asked_runtime = asked_runtime"
    by (simp add: asked_runtime_def heard_runtime_def expire_sources_def prune_expired_def bt_retain_def
        time_sync_config_default_def sat_sub_def seconds_def)
  then have "bt_get (tsr_remote_sources (expire_sources (in_ms (seconds 5)) asked_runtime)) (str ''GPS'') =
    Some \<lparr>rts_priority = 50, rts_last_sample_mono_ms = 1000, rts_sample_unix_ms = 9\<rparr>"
    by (simp add: asked_runtime_def heard_runtime_def bt_get_def)
  from reading_steers_to_stale_sample [OF ok _ gps_followed this] show ?thesis
    by (simp add: c elapsed_ns_def seconds_def sat_sub_def)
qed

section \<open>Sender names\<close>

text \<open>
  The election compares announcements with the device identifier of the build, not with the
  sender name of the router that \<open>with_sender\<close> sets. Two time sources of one build whose names sort
  before the identifier both follow the other at equal priority, and neither serves time.
\<close>

theorem renamed_sources_follow_each_other:
  assumes "tsc_role cfg = Source" and "pkt_sender pa < device_identifier C" and "pkt_sender pb < device_identifier C"
    and "decode_timesync_announce C pa = Ok (tsc_priority cfg, ma)"
    and "decode_timesync_announce C pb = Ok (tsc_priority cfg, mb)"
    and "handle_announce C (tracker_new C cfg) pb now = Ok (ua, ta)"
    and "handle_announce C (tracker_new C cfg) pa now = Ok (ub, tb)"
  shows "\<not> should_serve ta now usable \<and> \<not> should_serve tb now usable"
proof -
  have "\<not> should_serve t now usable"
    if h: "handle_announce C (tracker_new C cfg) pkt now = Ok (u, t)" and l: "pkt_sender pkt < device_identifier C"
      and d: "decode_timesync_announce C pkt = Ok (tsc_priority cfg, m)" for pkt u t m
  proof -
    let ?s = "\<lparr>tss_sender = pkt_sender pkt, tss_priority = tsc_priority cfg, tss_last_announce_ms = now, tss_last_time_ms = m\<rparr>"
    have "tst_sources t = [(pkt_sender pkt, ?s)]" "tst_cfg t = cfg" "tst_local_id t = device_identifier C"
      using h l d by (auto simp: handle_announce_def tracker_new_def reselect_source_def Let_def split: if_splits)
    then have "leader t now usable = Some (Remote ?s)"
      using l assms(1) by (simp add: leader_def local_candidate_priority_def best_active_source_def active_sources_def
          bt_values_def source_is_active_def sat_sub_def)
    then show ?thesis by (simp add: should_serve_def should_announce_def local_announce_priority_def)
  qed
  with assms show ?thesis by blast
qed

lemma gps_handled: "\<exists>u t. handle_announce sample_env (tracker_new sample_env cfg) announce_packet now = Ok (u, t)"
  by (simp add: handle_announce_def announce_decodes Let_def)

theorem renamed_sources_follow_each_other_witness:
  "\<exists>u t. handle_announce sample_env (tracker_new sample_env (time_sync_config_default\<lparr>tsc_role := Source, tsc_priority := 50\<rparr>))
     announce_packet 100 = Ok (u, t) \<and> \<not> should_serve t 100 True"
proof -
  let ?cfg = "time_sync_config_default\<lparr>tsc_role := Source, tsc_priority := 50\<rparr>"
  obtain u t where h: "handle_announce sample_env (tracker_new sample_env ?cfg) announce_packet 100 = Ok (u, t)"
    using gps_handled by blast
  have less: "pkt_sender announce_packet < device_identifier sample_env"
    by (simp add: gps_known str_def)
  have d: "decode_timesync_announce sample_env announce_packet = Ok (tsc_priority ?cfg, 9)"
    by (simp add: announce_decodes)
  from renamed_sources_follow_each_other [where C = sample_env and cfg = ?cfg, OF _ less less d d h h] h
  show ?thesis by auto
qed

end
