(* ===== verification/Router_Discovery.thy ===== *)
theory Router_Discovery
  imports Router_Time Router_Receive
begin

text \<open>
  \<open>src/router.rs\<close>, discovery and end-to-end reliability: what a router learns from the discovery
  packets of its sides, how long it keeps it, what it advertises in turn, and the table of reliable
  packets that still wait for the acknowledgement of the boards that discovery says they are for. The
  clock of an operation is one argument.
\<close>

section \<open>The discovery table\<close>

definition empty_board :: "bytes \<Rightarrow> topology_board_node" where
  "empty_board sender_id =
     \<lparr>tb_sender_id = sender_id, tb_reachable_endpoints = [], tb_reachable_timesync_sources = [], tb_connections = []\<rparr>"

definition sender_state_default :: discovery_sender_state where
  "sender_state_default =
     \<lparr>dss_reachable = [], dss_timesync_sources = [], dss_topology_boards = [], dss_last_seen_ms = 0\<rparr>"

definition side_state_default :: discovery_side_state where
  "side_state_default =
     \<lparr>dsd_reachable = [], dsd_timesync_sources = [], dsd_last_seen_ms = 0, dsd_announcers = []\<rparr>"

fun modify_first :: "('a \<Rightarrow> bool) \<Rightarrow> ('a \<Rightarrow> 'a) \<Rightarrow> 'a list \<Rightarrow> 'a list" where
  "modify_first P f [] = []"
| "modify_first P f (x # xs) = (if P x then f x # xs else x # modify_first P f xs)"

text \<open>
  The reference \<open>sender_topology_board_mut\<close> returns is to the first board of the sender, which is
  appended when there is none: the boards afterwards, and the board itself.
\<close>

definition with_board :: "bytes \<Rightarrow> topology_board_node list \<Rightarrow> topology_board_node list" where
  "with_board sender_id boards =
     (if list_ex (\<lambda>b. tb_sender_id b = sender_id) boards then boards else boards @ [empty_board sender_id])"

definition board_of :: "bytes \<Rightarrow> topology_board_node list \<Rightarrow> topology_board_node" where
  "board_of sender_id boards =
     (case find (\<lambda>b. tb_sender_id b = sender_id) boards of Some b \<Rightarrow> b | None \<Rightarrow> empty_board sender_id)"

definition sender_topology_board_mut ::
  "bytes \<Rightarrow> (topology_board_node \<Rightarrow> topology_board_node) \<Rightarrow> discovery_sender_state \<Rightarrow> discovery_sender_state" where
  "sender_topology_board_mut sender_id f ss =
     ss\<lparr>dss_topology_boards :=
          modify_first (\<lambda>b. tb_sender_id b = sender_id) f (with_board sender_id (dss_topology_boards ss))\<rparr>"

definition refresh_sender_topology_state :: "discovery_sender_state \<Rightarrow> discovery_sender_state" where
  "refresh_sender_topology_state ss =
     (let boards = normalize_topology_boards (dss_topology_boards ss)
      in case summarize_topology_boards boards of
           (reachable, sources) \<Rightarrow>
             ss\<lparr>dss_topology_boards := boards, dss_reachable := reachable, dss_timesync_sources := sources\<rparr>)"

definition recompute_discovery_side_state :: "discovery_side_state \<Rightarrow> discovery_side_state" where
  "recompute_discovery_side_state route =
     (let senders = bt_values (dsd_announcers route)
      in route\<lparr>dsd_reachable := sort_dedup (concat (map dss_reachable senders)),
               dsd_timesync_sources := sort_dedup (concat (map dss_timesync_sources senders)),
               dsd_last_seen_ms := foldl (\<lambda>m s. max m (dss_last_seen_ms s)) 0 senders\<rparr>)"

definition is_fresh :: "u64 \<Rightarrow> u64 \<Rightarrow> bool" where
  "is_fresh now_ms last_seen_ms \<longleftrightarrow> sat_sub now_ms last_seen_ms \<le> DISCOVERY_ROUTE_TTL_MS"

definition prune_side :: "u64 \<Rightarrow> discovery_side_state \<Rightarrow> discovery_side_state" where
  "prune_side now_ms route =
     recompute_discovery_side_state
       (route\<lparr>dsd_announcers := bt_retain (\<lambda>_ s. is_fresh now_ms (dss_last_seen_ms s)) (dsd_announcers route)\<rparr>)"

definition prune_discovery_routes :: "u64 \<Rightarrow> router_inner \<Rightarrow> router_inner \<times> bool" where
  "prune_discovery_routes now_ms st =
     (let routes = filter (\<lambda>(_, route). dsd_announcers route \<noteq> [])
            (map (\<lambda>(side, route). (side, prune_side now_ms route)) (discovery_routes st))
      in (st\<lparr>discovery_routes := routes\<rparr>, routes \<noteq> discovery_routes st))"

section \<open>What a router advertises\<close>

definition local_discovery_endpoints :: "router_node \<Rightarrow> data_endpoint list" where
  "local_discovery_endpoints N =
     sort_dedup (filter (\<lambda>ep. \<not> is_discovery_endpoint ep)
       (map eh_endpoint (rn_handlers N) @ (if rn_timesync N \<noteq> None then [TimeSync] else [])))"

definition local_discovery_timesync_sources :: "router_node \<Rightarrow> time_sync_runtime \<Rightarrow> instant \<Rightarrow> bytes list" where
  "local_discovery_timesync_sources N tr now =
     (case tsr_tracker tr of
        Some t \<Rightarrow> if should_serve t (in_ms now) (timesync_has_usable_time tr (in_ns now)) then [rn_sender N] else []
      | None \<Rightarrow> [])"

text \<open>The announcers on fresh routes that are themselves fresh, in the order of the table.\<close>

definition fresh_announcers :: "u64 \<Rightarrow> router_inner \<Rightarrow> (bytes \<times> discovery_sender_state) list" where
  "fresh_announcers now_ms st =
     concat (map (\<lambda>(_, route).
         if is_fresh now_ms (dsd_last_seen_ms route)
         then filter (\<lambda>(_, s). is_fresh now_ms (dss_last_seen_ms s)) (dsd_announcers route) else [])
       (discovery_routes st))"

definition local_discovery_topology_board ::
  "'z schema_scheme \<Rightarrow> router_node \<Rightarrow> time_sync_runtime \<Rightarrow> instant \<Rightarrow> bool \<Rightarrow> router_inner \<Rightarrow> topology_board_node" where
  "local_discovery_topology_board C N tr now link_local_enabled st =
     \<lparr>tb_sender_id = rn_sender N,
      tb_reachable_endpoints =
        filter (\<lambda>ep. link_local_enabled \<or> \<not> is_link_local_only C ep) (local_discovery_endpoints N),
      tb_reachable_timesync_sources = local_discovery_timesync_sources N tr now,
      tb_connections = sort_dedup (map fst (fresh_announcers (in_ms now) st))\<rparr>"

text \<open>The boards one announcer contributes: its own board is connected to this router.\<close>

definition advertised_boards_of ::
  "'z schema_scheme \<Rightarrow> router_node \<Rightarrow> bool \<Rightarrow> bytes \<times> discovery_sender_state \<Rightarrow> topology_board_node list" where
  "advertised_boards_of C N link_local_enabled a =
     map (\<lambda>b. b\<lparr>tb_reachable_endpoints :=
                 filter (\<lambda>ep. link_local_enabled \<or> \<not> is_link_local_only C ep) (tb_reachable_endpoints b)\<rparr>)
       (if dss_topology_boards (snd a) = []
        then [\<lparr>tb_sender_id = fst a, tb_reachable_endpoints = dss_reachable (snd a),
               tb_reachable_timesync_sources = dss_timesync_sources (snd a), tb_connections = [rn_sender N]\<rparr>]
        else modify_first (\<lambda>b. tb_sender_id b = fst a) (\<lambda>b. b\<lparr>tb_connections := tb_connections b @ [rn_sender N]\<rparr>)
               (dss_topology_boards (snd a)))"

definition advertised_discovery_topology_for_link ::
  "'z schema_scheme \<Rightarrow> router_node \<Rightarrow> time_sync_runtime \<Rightarrow> instant \<Rightarrow> bool \<Rightarrow> router_inner \<Rightarrow> topology_board_node list" where
  "advertised_discovery_topology_for_link C N tr now link_local_enabled st =
     normalize_topology_boards
       (foldl (\<lambda>boards a. merge_topology_boards boards (advertised_boards_of C N link_local_enabled a))
         [local_discovery_topology_board C N tr now link_local_enabled st] (fresh_announcers (in_ms now) st))"

definition advertised_discovery_endpoints_for_link ::
  "'z schema_scheme \<Rightarrow> router_node \<Rightarrow> time_sync_runtime \<Rightarrow> instant \<Rightarrow> bool \<Rightarrow> router_inner \<Rightarrow> data_endpoint list" where
  "advertised_discovery_endpoints_for_link C N tr now link_local_enabled st =
     filter (\<lambda>ep. \<not> is_discovery_endpoint ep \<and> (link_local_enabled \<or> \<not> is_link_local_only C ep))
       (fst (summarize_topology_boards (advertised_discovery_topology_for_link C N tr now link_local_enabled st)))"

definition advertised_discovery_timesync_sources_for_link ::
  "'z schema_scheme \<Rightarrow> router_node \<Rightarrow> time_sync_runtime \<Rightarrow> instant \<Rightarrow> router_inner \<Rightarrow> bytes list" where
  "advertised_discovery_timesync_sources_for_link C N tr now st =
     snd (summarize_topology_boards (advertised_discovery_topology_for_link C N tr now True st))"

section \<open>Packets that wait for end-to-end acknowledgements\<close>

text \<open>The boards behind fresh routes that reach one of the endpoints, with the side to them.\<close>

definition destination_candidates ::
  "'z schema_scheme \<Rightarrow> u64 \<Rightarrow> data_endpoint list \<Rightarrow> data_type \<Rightarrow> router_inner \<Rightarrow> (u64 \<times> nat) list" where
  "destination_candidates C now_ms eps ty st =
     concat (map (\<lambda>(side, route).
         if \<not> is_fresh now_ms (dsd_last_seen_ms route) then []
         else
           (case side_get st side of
              None \<Rightarrow> []
            | Some s \<Rightarrow>
                if endpoints_are_link_local_only C eps \<and> \<not> opt_link_local_enabled (side_opts s) then []
                else if \<not> route_allowed C st None (Some ty) side then []
                else concat (map (\<lambda>ss.
                       if \<not> is_fresh now_ms (dss_last_seen_ms ss) then []
                       else map (\<lambda>b. (sender_hash (tb_sender_id b), side))
                              (filter (\<lambda>b. is_end_to_end_destination_sender (tb_sender_id b) \<and>
                                 list_ex (\<lambda>ep. ep \<in> set (tb_reachable_endpoints b)) eps) (dss_topology_boards ss)))
                     (bt_values (dsd_announcers route)))))
       (discovery_routes st))"

fun collect_destinations :: "nat \<Rightarrow> (u64 \<times> nat) list \<Rightarrow> (u64, nat) btree \<Rightarrow> (u64, nat) btree" where
  "collect_destinations cap [] out = out"
| "collect_destinations cap ((h, side) # cs) out =
     (let out = bt_insert h side out in if length out \<ge> cap then out else collect_destinations cap cs out)"

definition expected_end_to_end_destinations ::
  "env \<Rightarrow> u64 \<Rightarrow> router_item \<Rightarrow> router_inner \<Rightarrow> (u64, nat) btree telemetry_result" where
  "expected_end_to_end_destinations E now_ms it st =
     andthen (item_route_info E it) (\<lambda>(eps, ty).
       Ok (collect_destinations (max (reliable_max_end_to_end_pending E) 1) (destination_candidates E now_ms eps ty st) []))"

definition remember_end_to_end_reliable_tx :: "'z config_scheme \<Rightarrow> u64 \<Rightarrow> router_inner \<Rightarrow> router_inner" where
  "remember_end_to_end_reliable_tx C pid st =
     (let order = filter (\<lambda>i. bt_contains (end_to_end_reliable_tx st) i \<and> i \<noteq> pid) (end_to_end_reliable_tx_order st)
      in case trim_return_routes (max (reliable_max_end_to_end_pending C) 1) order (end_to_end_reliable_tx st) of
           (order, table) \<Rightarrow> st\<lparr>end_to_end_reliable_tx_order := order @ [pid], end_to_end_reliable_tx := table\<rparr>)"

definition register_end_to_end_reliable_tx ::
  "env \<Rightarrow> u64 \<Rightarrow> router_item \<Rightarrow> router_inner \<Rightarrow> router_inner \<times> unit telemetry_result" where
  "register_end_to_end_reliable_tx E now_ms it st =
     sthen (st, get_hash E it) (\<lambda>pid st.
     sthen (st, expected_end_to_end_destinations E now_ms it st) (\<lambda>pending st.
       let st = remember_end_to_end_reliable_tx E pid st
       in (st\<lparr>end_to_end_reliable_tx :=
               bt_insert pid
                 \<lparr>e2e_data = it, e2e_pending_destinations = pending, e2e_tracked_destinations = (pending \<noteq> []),
                  e2e_last_send_ms = now_ms, e2e_retries = 0, e2e_queued = False\<rparr> (end_to_end_reliable_tx st)\<rparr>, Ok ())))"

definition retain_destinations :: "(u64, nat) btree \<Rightarrow> (u64, nat) btree \<Rightarrow> (u64, nat) btree" where
  "retain_destinations expected pending =
     List.map_filter (\<lambda>(h, _). map_option (\<lambda>next_side. (h, next_side)) (bt_get expected h)) pending"

fun reconcile_ids ::
  "env \<Rightarrow> u64 \<Rightarrow> u64 list \<Rightarrow> router_inner \<Rightarrow> router_inner \<times> u64 list telemetry_result" where
  "reconcile_ids E now_ms [] st = (st, Ok [])"
| "reconcile_ids E now_ms (pid # pids) st =
     (case bt_get (end_to_end_reliable_tx st) pid of
        None \<Rightarrow> reconcile_ids E now_ms pids st
      | Some sent \<Rightarrow>
          sthen (st, expected_end_to_end_destinations E now_ms (e2e_data sent) st) (\<lambda>expected st.
            if \<not> e2e_tracked_destinations sent then reconcile_ids E now_ms pids st
            else
              (let pending = retain_destinations expected (e2e_pending_destinations sent);
                   st = st\<lparr>end_to_end_reliable_tx :=
                     bt_modify pid (\<lambda>s. s\<lparr>e2e_pending_destinations := pending\<rparr>) (end_to_end_reliable_tx st)\<rparr>
               in sthen (reconcile_ids E now_ms pids st) (\<lambda>completed st.
                    (st, Ok (if pending = [] then pid # completed else completed))))))"

definition reconcile_end_to_end_reliable_destinations ::
  "env \<Rightarrow> u64 \<Rightarrow> router_inner \<Rightarrow> router_inner \<times> unit telemetry_result" where
  "reconcile_end_to_end_reliable_destinations E now_ms st =
     sthen (reconcile_ids E now_ms (bt_keys (end_to_end_reliable_tx st)) st) (\<lambda>completed st.
       (st\<lparr>end_to_end_reliable_tx := fold bt_remove completed (end_to_end_reliable_tx st)\<rparr>, Ok ()))"

definition side_supports_end_to_end_reliable :: "router_inner \<Rightarrow> nat \<Rightarrow> bool" where
  "side_supports_end_to_end_reliable st side =
     (case side_get st side of
        None \<Rightarrow> False
      | Some s \<Rightarrow> opt_reliable_enabled (side_opts s) \<and> side_tx_handler s = Serialized_Tx)"

definition queue_end_to_end_reliable_ack ::
  "layout \<Rightarrow> env \<Rightarrow> router_node \<Rightarrow> instant \<Rightarrow> packet \<Rightarrow> time_sync_runtime \<times> router_inner \<Rightarrow>
     (time_sync_runtime \<times> router_inner) \<times> unit telemetry_result" where
  "queue_end_to_end_reliable_ack L E N now pkt s =
     (case packet_timestamp_ms now (fst s) of (tr, ts) \<Rightarrow>
        sthen ((tr, snd s), packet_new E ReliableAck (mm_endpoints (get_message_meta E ReliableAck))
            (encode_end_to_end_ack_sender N) ts (encode_end_to_end_reliable_ack (packet_id E pkt)))
          (\<lambda>ack (tr, st).
            (case tx_queue_item_with_flags L E (Broadcast (Item_Packet ack)) True st of (st, r) \<Rightarrow> ((tr, st), r))))"

definition update_end_to_end ::
  "u64 \<Rightarrow> (end_to_end_reliable_sent \<Rightarrow> end_to_end_reliable_sent) \<Rightarrow> router_inner \<Rightarrow> router_inner" where
  "update_end_to_end pid f st = st\<lparr>end_to_end_reliable_tx := bt_modify pid f (end_to_end_reliable_tx st)\<rparr>"

definition queue_end_to_end_reliable_retransmit ::
  "layout \<Rightarrow> 'z config_scheme \<Rightarrow> u64 \<Rightarrow> router_inner \<Rightarrow> router_inner \<times> unit telemetry_result" where
  "queue_end_to_end_reliable_retransmit L C pid st =
     (case bt_get (end_to_end_reliable_tx st) pid of
        None \<Rightarrow> (st, Ok ())
      | Some sent \<Rightarrow>
          if e2e_queued sent then (st, Ok ())
          else tx_queue_item_with_priority L C (EndToEndReplay pid) True (router_item_priority_bumped C ReliableAck)
                 (update_end_to_end pid (\<lambda>s. s\<lparr>e2e_queued := True\<rparr>) st))"

definition end_to_end_retransmit_sides ::
  "u64 \<Rightarrow> u64 \<Rightarrow> router_inner \<Rightarrow> router_inner \<times> (router_item \<times> nat list) option" where
  "end_to_end_retransmit_sides now_ms pid st =
     (case bt_get (end_to_end_reliable_tx st) pid of
        None \<Rightarrow> (st, None)
      | Some sent \<Rightarrow>
          (let st = update_end_to_end pid (\<lambda>s. s\<lparr>e2e_queued := False, e2e_last_send_ms := now_ms\<rparr>) st;
               ss = bt_values (e2e_pending_destinations sent)
           in if e2e_tracked_destinations sent \<and> ss = []
              then (st\<lparr>end_to_end_reliable_tx := bt_remove pid (end_to_end_reliable_tx st)\<rparr>, None)
              else (st, Some (e2e_data sent, sort_dedup ss))))"

text \<open>One entry of the timeout scan: its fate, and whether to queue it again.\<close>

definition end_to_end_timeout_entry :: "'z config_scheme \<Rightarrow> u64 \<Rightarrow> u64 \<Rightarrow> router_inner \<Rightarrow> router_inner \<times> bool" where
  "end_to_end_timeout_entry C now pid st =
     (case bt_get (end_to_end_reliable_tx st) pid of
        None \<Rightarrow> (st, False)
      | Some sent \<Rightarrow>
          if e2e_queued sent \<or> now - e2e_last_send_ms sent < reliable_retransmit_ms C then (st, False)
          else if e2e_retries sent \<ge> reliable_max_retries C
          then (st\<lparr>end_to_end_reliable_tx := bt_remove pid (end_to_end_reliable_tx st)\<rparr>, False)
          else (update_end_to_end pid (\<lambda>s. s\<lparr>e2e_retries := e2e_retries s + 1\<rparr>) st, True))"

fun end_to_end_timeout_scan :: "'z config_scheme \<Rightarrow> u64 \<Rightarrow> u64 list \<Rightarrow> router_inner \<Rightarrow> router_inner \<times> u64 list" where
  "end_to_end_timeout_scan C now [] st = (st, [])"
| "end_to_end_timeout_scan C now (pid # pids) st =
     (case end_to_end_timeout_entry C now pid st of
        (st, again) \<Rightarrow>
          (case end_to_end_timeout_scan C now pids st of (st, q) \<Rightarrow> (st, if again then pid # q else q)))"

fun requeue_end_to_end ::
  "layout \<Rightarrow> 'z config_scheme \<Rightarrow> u64 list \<Rightarrow> router_inner \<Rightarrow> router_inner \<times> unit telemetry_result" where
  "requeue_end_to_end L C [] st = (st, Ok ())"
| "requeue_end_to_end L C (pid # pids) st =
     sthen (queue_end_to_end_reliable_retransmit L C pid st) (\<lambda>_. requeue_end_to_end L C pids)"

definition process_end_to_end_reliable_timeouts ::
  "layout \<Rightarrow> env \<Rightarrow> u64 \<Rightarrow> router_inner \<Rightarrow> router_inner \<times> unit telemetry_result" where
  "process_end_to_end_reliable_timeouts L E now st =
     (case prune_discovery_routes now st of
        (st, changed) \<Rightarrow>
          (let st = (if changed then note_discovery_topology_change now st else st)
           in sthen (reconcile_end_to_end_reliable_destinations E now st) (\<lambda>_ st.
                case end_to_end_timeout_scan E now (bt_keys (end_to_end_reliable_tx st)) st of
                  (st, requeue) \<Rightarrow> requeue_end_to_end L E requeue st)))"

section \<open>Learning\<close>

text \<open>What a packet changes in the state of its sender, and whether that is a change of topology.\<close>

definition learned_sender_state ::
  "'z config_scheme \<Rightarrow> bool \<Rightarrow> packet \<Rightarrow> discovery_sender_state \<Rightarrow> (discovery_sender_state \<times> bool) telemetry_result" where
  "learned_sender_state C side_link_local_enabled pkt ss =
     (let allowed = (\<lambda>ep. side_link_local_enabled \<or> \<not> is_link_local_only C ep);
          sender = pkt_sender pkt;
          board = board_of sender (with_board sender (dss_topology_boards ss))
      in if pkt_ty pkt = DiscoveryAnnounce
         then andthen (decode_discovery_announce C pkt) (\<lambda>reachable.
           let reachable = filter allowed reachable
           in Ok (refresh_sender_topology_state
                    (sender_topology_board_mut sender (\<lambda>b. b\<lparr>tb_reachable_endpoints := reachable\<rparr>) ss),
                  tb_reachable_endpoints board \<noteq> reachable))
         else if pkt_ty pkt = DiscoveryTimeSyncSources
         then andthen (decode_discovery_timesync_sources pkt) (\<lambda>sources.
           Ok (refresh_sender_topology_state
                 (sender_topology_board_mut sender (\<lambda>b. b\<lparr>tb_reachable_timesync_sources := sources\<rparr>) ss),
               tb_reachable_timesync_sources board \<noteq> sources))
         else if pkt_ty pkt = DiscoveryTopology
         then andthen (decode_discovery_topology C pkt) (\<lambda>boards.
           let boards = map (\<lambda>b. b\<lparr>tb_reachable_endpoints := filter allowed (tb_reachable_endpoints b)\<rparr>) boards
           in Ok (refresh_sender_topology_state (ss\<lparr>dss_topology_boards := boards\<rparr>), dss_topology_boards ss \<noteq> boards))
         else Ok (ss, False))"

definition learn_discovery_packet ::
  "layout \<Rightarrow> env \<Rightarrow> router_node \<Rightarrow> u64 \<Rightarrow> packet \<Rightarrow> nat option \<Rightarrow> router_inner \<Rightarrow> router_inner \<times> bool telemetry_result" where
  "learn_discovery_packet L E N now_ms pkt src st =
     (if \<not> is_discovery_type (pkt_ty pkt) then (st, Ok False)
      else
        (case src of
           None \<Rightarrow> (st, Ok True)
         | Some side \<Rightarrow>
             if pkt_sender pkt = rn_sender N then (st, Ok True)
             else
               (let route = (case bt_get (discovery_routes st) side of Some r \<Rightarrow> r | None \<Rightarrow> side_state_default);
                    ss = (case bt_get (dsd_announcers route) (pkt_sender pkt) of Some s \<Rightarrow> s | None \<Rightarrow> sender_state_default)
                in sthen (st, learned_sender_state E (side_is_link_local st side) pkt ss) (\<lambda>(ss, changed) st.
                     let route = recompute_discovery_side_state
                           (route\<lparr>dsd_announcers :=
                              bt_insert (pkt_sender pkt) (ss\<lparr>dss_last_seen_ms := now_ms\<rparr>) (dsd_announcers route)\<rparr>);
                         st = fit_discovery_budget L (max_queue_budget E)
                           (st\<lparr>discovery_routes := bt_insert side route (discovery_routes st)\<rparr>)
                     in sthen (reconcile_end_to_end_reliable_destinations E now_ms st) (\<lambda>_ st.
                          (if changed then note_discovery_topology_change now_ms st else st, Ok True))))))"

section \<open>Announcing\<close>

text \<open>The start of both announce functions: expiry, and its consequences for waiting packets.\<close>

definition expire_and_reconcile ::
  "layout \<Rightarrow> env \<Rightarrow> u64 \<Rightarrow> router_inner \<Rightarrow> router_inner \<times> unit telemetry_result" where
  "expire_and_reconcile L E now_ms st =
     (case prune_discovery_routes now_ms st of
        (st, changed) \<Rightarrow>
          sthen (if changed
                 then sthen (reconcile_end_to_end_reliable_destinations E now_ms st) (\<lambda>_ st.
                   (note_discovery_topology_change now_ms st, Ok ()))
                 else (st, Ok ()))
            (\<lambda>_ st. (fit_discovery_budget L (max_queue_budget E) st, Ok ())))"

definition queue_to_side ::
  "layout \<Rightarrow> env \<Rightarrow> nat \<Rightarrow> packet telemetry_result \<Rightarrow> router_inner \<Rightarrow> router_inner \<times> unit telemetry_result" where
  "queue_to_side L E side built st =
     sthen (st, built) (\<lambda>pkt. tx_queue_item_with_flags L E (ToSide None side (Item_Packet pkt)) True)"

fun queue_advertisements ::
  "layout \<Rightarrow> env \<Rightarrow> router_node \<Rightarrow> u64 \<Rightarrow> (nat \<times> data_endpoint list \<times> bytes list \<times> topology_board_node list) list \<Rightarrow>
     router_inner \<Rightarrow> router_inner \<times> unit telemetry_result" where
  "queue_advertisements L E N now_ms [] st = (st, Ok ())"
| "queue_advertisements L E N now_ms ((side, eps, sources, topology) # rest) st =
     sthen (if eps = [] then (st, Ok ())
            else queue_to_side L E side (build_discovery_announce E (rn_sender N) now_ms eps) st) (\<lambda>_ st.
     sthen (if sources = [] then (st, Ok ())
            else queue_to_side L E side (build_discovery_timesync_sources E (rn_sender N) now_ms sources) st) (\<lambda>_ st.
     sthen (if topology = [] then (st, Ok ())
            else queue_to_side L E side (build_discovery_topology E (rn_sender N) now_ms topology) st) (\<lambda>_.
       queue_advertisements L E N now_ms rest)))"

definition advertisements ::
  "'z schema_scheme \<Rightarrow> router_node \<Rightarrow> time_sync_runtime \<Rightarrow> instant \<Rightarrow> router_inner \<Rightarrow>
     (nat \<times> data_endpoint list \<times> bytes list \<times> topology_board_node list) list" where
  "advertisements C N tr now st =
     List.map_filter (\<lambda>side_id.
       Option.bind (side_get st side_id) (\<lambda>side.
         if \<not> route_allowed C st None (Some DiscoveryAnnounce) side_id then None
         else Some (side_id,
           advertised_discovery_endpoints_for_link C N tr now (opt_link_local_enabled (side_opts side)) st,
           advertised_discovery_timesync_sources_for_link C N tr now st,
           advertised_discovery_topology_for_link C N tr now (opt_link_local_enabled (side_opts side)) st)))
       [0..<length (sides st)]"

definition queue_discovery_announce ::
  "layout \<Rightarrow> env \<Rightarrow> router_node \<Rightarrow> time_sync_runtime \<Rightarrow> instant \<Rightarrow> router_inner \<Rightarrow> router_inner \<times> unit telemetry_result" where
  "queue_discovery_announce L E N tr now st =
     sthen (expire_and_reconcile L E (in_ms now) st) (\<lambda>_ st.
       if list_all (\<lambda>s. s = None) (sides st) then (st, Ok ())
       else
         (let st = st\<lparr>discovery_cadence := on_announce_sent (in_ms now) (discovery_cadence st)\<rparr>
          in queue_advertisements L E N (in_ms now) (advertisements E N tr now st) st))"

definition announce_due :: "'z schema_scheme \<Rightarrow> router_node \<Rightarrow> time_sync_runtime \<Rightarrow> instant \<Rightarrow> router_inner \<Rightarrow> bool" where
  "announce_due C N tr now st =
     (let has_any = list_ex (\<lambda>(_, eps, sources, topology). eps \<noteq> [] \<or> sources \<noteq> [] \<or> topology \<noteq> [])
            (advertisements C N tr now st)
      in if sides st = [] \<or> \<not> has_any then False else due (discovery_cadence st) (in_ms now))"

text \<open>\<open>now'\<close> is the clock when the announcement is built.\<close>

definition poll_discovery_announce ::
  "layout \<Rightarrow> env \<Rightarrow> router_node \<Rightarrow> time_sync_runtime \<Rightarrow> instant \<Rightarrow> instant \<Rightarrow> router_inner \<Rightarrow>
     router_inner \<times> bool telemetry_result" where
  "poll_discovery_announce L E N tr now now' st =
     sthen (expire_and_reconcile L E (in_ms now) st) (\<lambda>_ st.
       if \<not> announce_due E N tr now st then (st, Ok False)
       else sthen (queue_discovery_announce L E N tr now' st) (\<lambda>_ st. (st, Ok True)))"

section \<open>The exported snapshot\<close>

record topology_announcer_route =
  tar_sender_id :: bytes
  tar_reachable_endpoints :: "data_endpoint list"
  tar_timesync_sources :: "bytes list"
  tar_routers :: "topology_board_node list"
  tar_last_seen_ms :: u64
  tar_age_ms :: u64

record topology_side_route =
  tsd_side_id :: nat
  tsd_side_name :: bytes
  tsd_reachable_endpoints :: "data_endpoint list"
  tsd_timesync_sources :: "bytes list"
  tsd_announcers :: "topology_announcer_route list"
  tsd_last_seen_ms :: u64
  tsd_age_ms :: u64

record topology_snapshot =
  snap_advertised_endpoints :: "data_endpoint list"
  snap_advertised_timesync_sources :: "bytes list"
  snap_routers :: "topology_board_node list"
  snap_routes :: "topology_side_route list"
  snap_current_announce_interval_ms :: u64
  snap_next_announce_ms :: u64

definition side_route_of :: "u64 \<Rightarrow> router_inner \<Rightarrow> nat \<times> discovery_side_state \<Rightarrow> topology_side_route option" where
  "side_route_of now_ms st e =
     map_option (\<lambda>side.
       \<lparr>tsd_side_id = fst e, tsd_side_name = side_name side, tsd_reachable_endpoints = dsd_reachable (snd e),
        tsd_timesync_sources = dsd_timesync_sources (snd e),
        tsd_announcers = map (\<lambda>(sender_id, s).
          \<lparr>tar_sender_id = sender_id, tar_reachable_endpoints = dss_reachable s,
           tar_timesync_sources = dss_timesync_sources s, tar_routers = dss_topology_boards s,
           tar_last_seen_ms = dss_last_seen_ms s, tar_age_ms = sat_sub now_ms (dss_last_seen_ms s)\<rparr>) (dsd_announcers (snd e)),
        tsd_last_seen_ms = dsd_last_seen_ms (snd e), tsd_age_ms = sat_sub now_ms (dsd_last_seen_ms (snd e))\<rparr>)
       (side_get st (fst e))"

definition export_topology ::
  "'z schema_scheme \<Rightarrow> router_node \<Rightarrow> time_sync_runtime \<Rightarrow> instant \<Rightarrow> router_inner \<Rightarrow> router_inner \<times> topology_snapshot" where
  "export_topology C N tr now st =
     (case prune_discovery_routes (in_ms now) st of
        (st, changed) \<Rightarrow>
          (let st = (if changed then note_discovery_topology_change (in_ms now) st else st)
           in (st, \<lparr>snap_advertised_endpoints = advertised_discovery_endpoints_for_link C N tr now True st,
                    snap_advertised_timesync_sources = advertised_discovery_timesync_sources_for_link C N tr now st,
                    snap_routers = advertised_discovery_topology_for_link C N tr now True st,
                    snap_routes = List.map_filter (side_route_of (in_ms now) st) (discovery_routes st),
                    snap_current_announce_interval_ms = current_interval_ms (discovery_cadence st),
                    snap_next_announce_ms = next_announce_ms (discovery_cadence st)\<rparr>)))"

end
