(* ===== verification/Router_Discovery_Laws.thy ===== *)
theory Router_Discovery_Laws
  imports Router_Discovery Discovery_Laws Router_Route_Laws Router_Time_Laws
begin

text \<open>
  The discovery table of a router: the invariant that ties the summaries of a side to its announcers,
  exact expiry, and what the advertised topology says in terms of the abstract view of
  \<open>Discovery_Laws\<close>.
\<close>

section \<open>Frames\<close>

lemma bt_wf_fold_remove: "bt_wf m \<Longrightarrow> bt_wf (fold bt_remove ks m)"
  by (induction ks arbitrary: m) (auto intro: wf_intros)

lemma fold_remove_subset: "set (fold bt_remove ks m) \<subseteq> set m"
  by (induction ks arbitrary: m) (fastforce simp: bt_remove_def)+

lemma values_insert: "bt_wf m \<Longrightarrow> set (bt_values (bt_insert k v m)) \<subseteq> insert v (set (bt_values m))"
  by (auto simp: bt_values_def set_bt_insert)

lemma bt_insert_nonempty [simp]: "bt_insert k v m \<noteq> []"
  by (simp add: bt_insert_def)

lemma reconcile_ids_frame: "\<exists>t. fst (reconcile_ids E now pids st) = st\<lparr>end_to_end_reliable_tx := t\<rparr>"
proof (induction pids arbitrary: st)
  case Nil
  have "st = st\<lparr>end_to_end_reliable_tx := end_to_end_reliable_tx st\<rparr>" by simp
  then show ?case by (metis fst_conv reconcile_ids.simps(1))
next
  case (Cons pid pids)
  have refl: "\<exists>t. st = st\<lparr>end_to_end_reliable_tx := t\<rparr>"
    by (rule exI [of _ "end_to_end_reliable_tx st"]) simp
  show ?case
  proof (cases "bt_get (end_to_end_reliable_tx st) pid")
    case None
    then show ?thesis using Cons by simp
  next
    case (Some sent)
    show ?thesis
    proof (cases "expected_end_to_end_destinations E now (e2e_data sent) st")
      case (Ok ex)
      let ?p = "retain_destinations ex (e2e_pending_destinations sent)"
      let ?st = "st\<lparr>end_to_end_reliable_tx := bt_modify pid (\<lambda>s. s\<lparr>e2e_pending_destinations := ?p\<rparr>) (end_to_end_reliable_tx st)\<rparr>"
      obtain t where "fst (reconcile_ids E now pids ?st) = ?st\<lparr>end_to_end_reliable_tx := t\<rparr>"
        using Cons [of ?st] by blast
      then show ?thesis using Some Ok Cons [of st] by (auto simp: fst_sthen_return Let_def)
    qed (use Some refl in auto)
  qed
qed

lemma reconcile_frame:
  "\<exists>t. fst (reconcile_end_to_end_reliable_destinations E now st) = st\<lparr>end_to_end_reliable_tx := t\<rparr>"
  using reconcile_ids_frame [of E now "bt_keys (end_to_end_reliable_tx st)" st]
  by (cases "reconcile_ids E now (bt_keys (end_to_end_reliable_tx st)) st"; cases "snd (reconcile_ids E now (bt_keys (end_to_end_reliable_tx st)) st)")
    (auto simp: reconcile_end_to_end_reliable_destinations_def)

lemma reconcile_routes [simp]:
  "discovery_routes (fst (reconcile_end_to_end_reliable_destinations E now st)) = discovery_routes st"
  "sides (fst (reconcile_end_to_end_reliable_destinations E now st)) = sides st"
  using reconcile_frame [of E now st] by auto

lemma note_change_routes [simp]:
  "discovery_routes (note_discovery_topology_change now st) = discovery_routes st"
  "sides (note_discovery_topology_change now st) = sides st"
  by (simp_all add: note_discovery_topology_change_def)

lemma fit_frame: "\<exists>ks. fit_discovery_budget L b st = st\<lparr>discovery_routes := fold bt_remove ks (discovery_routes st)\<rparr>"
proof (induction L b st rule: fit_discovery_budget.induct)
  case (1 L b st)
  show ?case
  proof (cases "shared_queue_bytes_used L st > b")
    case False
    then show ?thesis by (intro exI [of _ "[]"]) (simp add: fit_discovery_budget.simps [of L b st])
  next
    case True
    show ?thesis
    proof (cases "min_by_key (\<lambda>(_, route). dsd_last_seen_ms route) (discovery_routes st)")
      case None
      with True show ?thesis
        by (intro exI [of _ "[]"]) (simp add: fit_discovery_budget.simps [of L b st] pop_discovery_route_def)
    next
      case (Some e)
      obtain side r where e: "e = (side, r)" by (cases e)
      let ?st = "st\<lparr>discovery_routes := bt_remove side (discovery_routes st)\<rparr>"
      have pop: "pop_discovery_route st = (True, ?st)" using Some e by (simp add: pop_discovery_route_def)
      then obtain ks where "fit_discovery_budget L b ?st = ?st\<lparr>discovery_routes := fold bt_remove ks (discovery_routes ?st)\<rparr>"
        using 1 [OF True] by metis
      then show ?thesis using True pop
        by (intro exI [of _ "side # ks"]) (simp add: fit_discovery_budget.simps [of L b st])
    qed
  qed
qed

section \<open>The invariant of the table\<close>

definition sender_ok :: "discovery_sender_state \<Rightarrow> bool" where
  "sender_ok ss \<longleftrightarrow> boards_normal (dss_topology_boards ss) \<and>
     summarize_topology_boards (dss_topology_boards ss) = (dss_reachable ss, dss_timesync_sources ss)"

definition route_ok :: "discovery_side_state \<Rightarrow> bool" where
  "route_ok r \<longleftrightarrow> bt_wf (dsd_announcers r) \<and> dsd_announcers r \<noteq> [] \<and> recompute_discovery_side_state r = r \<and>
     list_all sender_ok (bt_values (dsd_announcers r))"

definition table_ok :: "(nat, discovery_side_state) btree \<Rightarrow> bool" where
  "table_ok m \<longleftrightarrow> bt_wf m \<and> list_all route_ok (bt_values m)"

lemma table_ok_Nil [simp]: "table_ok []"
  by (simp add: table_ok_def bt_values_def)

lemma table_okD: "table_ok m \<Longrightarrow> (k, r) \<in> set m \<Longrightarrow> route_ok r"
  by (force simp: table_ok_def list_all_iff bt_values_def)

lemma table_ok_remove: "table_ok m \<Longrightarrow> table_ok (bt_remove k m)"
  by (auto simp: table_ok_def list_all_iff bt_values_def bt_remove_def bt_wf_filter)

lemma table_ok_fold_remove: "table_ok m \<Longrightarrow> table_ok (fold bt_remove ks m)"
  by (induction ks arbitrary: m) (auto intro: table_ok_remove)

lemma table_ok_insert: "table_ok m \<Longrightarrow> route_ok r \<Longrightarrow> table_ok (bt_insert k r m)"
  by (auto simp: table_ok_def list_all_iff bt_values_def set_bt_insert bt_wf_insert)

lemma refresh_sender_ok: "sender_ok (refresh_sender_topology_state ss)"
  by (auto simp: sender_ok_def refresh_sender_topology_state_def Let_def normalize_boards_normal split: prod.splits)

lemma sender_ok_seen [simp]: "sender_ok (ss\<lparr>dss_last_seen_ms := n\<rparr>) \<longleftrightarrow> sender_ok ss"
  by (simp add: sender_ok_def)

lemma recompute_fields [simp]:
  "dsd_announcers (recompute_discovery_side_state r) = dsd_announcers r"
  "recompute_discovery_side_state (recompute_discovery_side_state r) = recompute_discovery_side_state r"
  by (simp_all add: recompute_discovery_side_state_def Let_def)

lemma recompute_ok:
  "bt_wf (dsd_announcers r) \<Longrightarrow> dsd_announcers r \<noteq> [] \<Longrightarrow> list_all sender_ok (bt_values (dsd_announcers r)) \<Longrightarrow>
     route_ok (recompute_discovery_side_state r)"
  by (simp add: route_ok_def)

lemma learned_sender_ok:
  assumes "learned_sender_state C ll pkt ss = Ok (ss', ch)" and "is_discovery_type (pkt_ty pkt)"
  shows "sender_ok ss'"
  using assms refresh_sender_ok
  by (auto simp: learned_sender_state_def is_discovery_type_def outcome_simps Let_def split: if_splits)

text \<open>The route a packet from \<open>sender\<close> leaves in the table.\<close>

definition learned_route ::
  "bytes \<Rightarrow> discovery_sender_state \<Rightarrow> nat \<Rightarrow> router_inner \<Rightarrow> discovery_side_state" where
  "learned_route sender ss side st =
     (let route = (case bt_get (discovery_routes st) side of Some r \<Rightarrow> r | None \<Rightarrow> side_state_default)
      in recompute_discovery_side_state (route\<lparr>dsd_announcers := bt_insert sender ss (dsd_announcers route)\<rparr>))"

definition old_sender_state :: "bytes \<Rightarrow> nat \<Rightarrow> router_inner \<Rightarrow> discovery_sender_state" where
  "old_sender_state sender side st =
     (let route = (case bt_get (discovery_routes st) side of Some r \<Rightarrow> r | None \<Rightarrow> side_state_default)
      in case bt_get (dsd_announcers route) sender of Some s \<Rightarrow> s | None \<Rightarrow> sender_state_default)"

lemma learned_route_ok:
  assumes "table_ok (discovery_routes st)" and "sender_ok ss"
  shows "route_ok (learned_route sender ss side st)"
proof -
  define route where "route = (case bt_get (discovery_routes st) side of Some r \<Rightarrow> r | None \<Rightarrow> side_state_default)"
  have "bt_wf (dsd_announcers route) \<and> list_all sender_ok (bt_values (dsd_announcers route))"
  proof (cases "bt_get (discovery_routes st) side")
    case None
    then show ?thesis by (simp add: route_def side_state_default_def bt_values_def)
  next
    case (Some r)
    then have "(side, r) \<in> set (discovery_routes st)" by (simp add: bt_get_def map_of_SomeD)
    then show ?thesis using table_okD [OF assms(1)] Some by (simp add: route_def route_ok_def)
  qed
  then have "route_ok (recompute_discovery_side_state (route\<lparr>dsd_announcers := bt_insert sender ss (dsd_announcers route)\<rparr>))"
    using assms(2) values_insert [of "dsd_announcers route" sender ss]
    by (intro recompute_ok) (auto simp: bt_wf_insert list_all_iff)
  then show ?thesis by (simp add: learned_route_def route_def Let_def)
qed

lemma fit_table: "\<exists>ks. discovery_routes (fit_discovery_budget L b st) = fold bt_remove ks (discovery_routes st)"
  using fit_frame [of L b st] by auto

lemma fit_sides [simp]: "sides (fit_discovery_budget L b st) = sides st"
  using fit_frame [of L b st] by auto

lemma learn_cases:
  assumes "learn_discovery_packet L E N now pkt src st = (st', r)"
  shows "st' = st \<or>
    (\<exists>side ss ch. src = Some side \<and> is_discovery_type (pkt_ty pkt) \<and> pkt_sender pkt \<noteq> rn_sender N \<and>
       learned_sender_state E (side_is_link_local st side) pkt (old_sender_state (pkt_sender pkt) side st) = Ok (ss, ch) \<and>
       discovery_routes st' = discovery_routes (fit_discovery_budget L (max_queue_budget E)
         (st\<lparr>discovery_routes := bt_insert side
            (learned_route (pkt_sender pkt) (ss\<lparr>dss_last_seen_ms := now\<rparr>) side st) (discovery_routes st)\<rparr>)) \<and>
       sides st' = sides st)"
proof (cases "is_discovery_type (pkt_ty pkt) \<and> src \<noteq> None \<and> pkt_sender pkt \<noteq> rn_sender N")
  case False
  then have "st' = st" using assms by (auto simp: learn_discovery_packet_def split: if_splits option.splits)
  then show ?thesis by simp
next
  case True
  then obtain side where side: "src = Some side" by auto
  let ?ls = "learned_sender_state E (side_is_link_local st side) pkt (old_sender_state (pkt_sender pkt) side st)"
  show ?thesis
  proof (cases ?ls)
    case (Ok sc)
    obtain ss ch where sc: "sc = (ss, ch)" by (cases sc)
    define st1 where "st1 = fit_discovery_budget L (max_queue_budget E)
         (st\<lparr>discovery_routes := bt_insert side
            (learned_route (pkt_sender pkt) (ss\<lparr>dss_last_seen_ms := now\<rparr>) side st) (discovery_routes st)\<rparr>)"
    obtain st2 r2 where rec: "reconcile_end_to_end_reliable_destinations E now st1 = (st2, r2)" by (cases "reconcile_end_to_end_reliable_destinations E now st1")
    have "discovery_routes st2 = discovery_routes st1" "sides st2 = sides st1"
      using reconcile_routes [of E now st1] rec by simp_all
    moreover have "sides st1 = sides st"
      by (simp add: st1_def)
    moreover have "discovery_routes st' = discovery_routes st2 \<and> sides st' = sides st2"
      using assms Ok sc True side rec
      by (cases r2) (auto simp: learn_discovery_packet_def old_sender_state_def learned_route_def st1_def Let_def split: if_splits)
    ultimately show ?thesis using Ok sc True side by (auto simp: st1_def)
  qed (use assms True side in \<open>auto simp: learn_discovery_packet_def old_sender_state_def Let_def split: if_splits\<close>)
qed

lemma learn_table_ok:
  assumes "learn_discovery_packet L E N now pkt src st = (st', r)" and "table_ok (discovery_routes st)"
  shows "table_ok (discovery_routes st')"
  using learn_cases [OF assms(1)]
proof
  assume "st' = st"
  then show ?thesis using assms(2) by simp
next
  assume "\<exists>side ss ch. src = Some side \<and> is_discovery_type (pkt_ty pkt) \<and> pkt_sender pkt \<noteq> rn_sender N \<and>
       learned_sender_state E (side_is_link_local st side) pkt (old_sender_state (pkt_sender pkt) side st) = Ok (ss, ch) \<and>
       discovery_routes st' = discovery_routes (fit_discovery_budget L (max_queue_budget E)
         (st\<lparr>discovery_routes := bt_insert side
            (learned_route (pkt_sender pkt) (ss\<lparr>dss_last_seen_ms := now\<rparr>) side st) (discovery_routes st)\<rparr>)) \<and>
       sides st' = sides st"
  then obtain side ss ch where ss: "sender_ok ss" and routes: "discovery_routes st' = discovery_routes (fit_discovery_budget L (max_queue_budget E)
         (st\<lparr>discovery_routes := bt_insert side
            (learned_route (pkt_sender pkt) (ss\<lparr>dss_last_seen_ms := now\<rparr>) side st) (discovery_routes st)\<rparr>))"
    using learned_sender_ok by blast
  have "table_ok (bt_insert side (learned_route (pkt_sender pkt) (ss\<lparr>dss_last_seen_ms := now\<rparr>) side st) (discovery_routes st))"
    using assms(2) ss by (intro table_ok_insert learned_route_ok) simp_all
  from table_ok_fold_remove [OF this] show ?thesis
    using routes fit_table [of L "max_queue_budget E" "st\<lparr>discovery_routes := bt_insert side
            (learned_route (pkt_sender pkt) (ss\<lparr>dss_last_seen_ms := now\<rparr>) side st) (discovery_routes st)\<rparr>"] by auto
qed

section \<open>Expiry\<close>

lemma prune_side_ok:
  assumes "route_ok r" and "dsd_announcers (prune_side now r) \<noteq> []"
  shows "route_ok (prune_side now r)"
  using assms unfolding prune_side_def
  by (intro recompute_ok) (auto simp: route_ok_def bt_wf_retain list_all_iff bt_values_def bt_retain_def bt_wf_filter)

lemma prune_table:
  "discovery_routes (fst (prune_discovery_routes now st)) =
     filter (\<lambda>(_, route). dsd_announcers route \<noteq> []) (map (\<lambda>(side, route). (side, prune_side now route)) (discovery_routes st))"
  by (simp add: prune_discovery_routes_def Let_def)

lemma prune_table_ok:
  assumes "table_ok (discovery_routes st)"
  shows "table_ok (discovery_routes (fst (prune_discovery_routes now st)))"
proof -
  have keys: "map fst (map (\<lambda>(side, route). (side, prune_side now route)) m) = map fst m" for m
    by (induction m) auto
  have "bt_wf (map (\<lambda>(side, route). (side, prune_side now route)) (discovery_routes st))"
    using assms unfolding table_ok_def bt_wf_def keys by simp
  then have "bt_wf (discovery_routes (fst (prune_discovery_routes now st)))"
    unfolding prune_table by (rule bt_wf_filter)
  moreover have "route_ok r" if "(k, r) \<in> set (discovery_routes (fst (prune_discovery_routes now st)))" for k r
    using that table_okD [OF assms] unfolding prune_table by (auto intro: prune_side_ok)
  ultimately show ?thesis by (auto simp: table_ok_def list_all_iff bt_values_def)
qed

text \<open>What the table says of one announcer on one side.\<close>

definition announcer_of :: "(nat, discovery_side_state) btree \<Rightarrow> nat \<Rightarrow> bytes \<Rightarrow> discovery_sender_state option" where
  "announcer_of m side sender = Option.bind (bt_get m side) (\<lambda>r. bt_get (dsd_announcers r) sender)"

lemma bt_get_map_values: "bt_get (map (\<lambda>(k, v). (k, f v)) m) k = map_option f (bt_get m k)"
  by (induction m) (auto simp: bt_get_def)

lemma bt_get_filter_value:
  "bt_wf m \<Longrightarrow> bt_get (filter (\<lambda>(_, v). P v) m) k = (case bt_get m k of Some v \<Rightarrow> if P v then Some v else None | None \<Rightarrow> None)"
  using bt_get_retain [of m "\<lambda>_. P" k] by (auto simp: bt_retain_def split: option.splits)

lemma prune_announcers:
  assumes "table_ok (discovery_routes st)"
  shows "announcer_of (discovery_routes (fst (prune_discovery_routes now st))) side sender =
    (case announcer_of (discovery_routes st) side sender of
       Some s \<Rightarrow> if is_fresh now (dss_last_seen_ms s) then Some s else None
     | None \<Rightarrow> None)"
proof -
  let ?m = "map (\<lambda>(k, r). (k, prune_side now r)) (discovery_routes st)"
  have keys: "map fst ?m = map fst (discovery_routes st)" by (induction "discovery_routes st") auto
  have wf: "bt_wf ?m" using assms unfolding table_ok_def bt_wf_def keys by simp
  show ?thesis
  proof (cases "bt_get (discovery_routes st) side")
    case None
    then show ?thesis
      by (simp add: announcer_of_def prune_table bt_get_filter_value [OF wf] bt_get_map_values)
  next
    case (Some r)
    have "(side, r) \<in> set (discovery_routes st)" using Some by (simp add: bt_get_def map_of_SomeD)
    then have awf: "bt_wf (dsd_announcers r)" using table_okD [OF assms] by (simp add: route_ok_def)
    have ann: "bt_get (dsd_announcers (prune_side now r)) sender =
      (case bt_get (dsd_announcers r) sender of Some s \<Rightarrow> if is_fresh now (dss_last_seen_ms s) then Some s else None | None \<Rightarrow> None)"
      by (simp add: prune_side_def bt_get_retain [OF awf] split: option.splits)
    have "bt_get (dsd_announcers (prune_side now r)) sender = None" if "dsd_announcers (prune_side now r) = []"
      by (simp add: that bt_get_def)
    then show ?thesis
      using ann Some by (auto simp: announcer_of_def prune_table bt_get_filter_value [OF wf] bt_get_map_values split: option.splits)
  qed
qed

lemma prune_side_id:
  assumes "route_ok r" and "list_all (\<lambda>s. is_fresh now (dss_last_seen_ms s)) (bt_values (dsd_announcers r))"
  shows "prune_side now r = r"
proof -
  have "bt_retain (\<lambda>_ s. is_fresh now (dss_last_seen_ms s)) (dsd_announcers r) = dsd_announcers r"
    using assms(2) unfolding bt_retain_def by (intro filter_True) (auto simp: list_all_iff bt_values_def)
  then show ?thesis using assms(1) by (simp add: prune_side_def route_ok_def)
qed

lemma prune_unchanged:
  assumes "table_ok (discovery_routes st)"
  shows "snd (prune_discovery_routes now st) \<longleftrightarrow>
    (\<exists>side sender s. announcer_of (discovery_routes st) side sender = Some s \<and> \<not> is_fresh now (dss_last_seen_ms s))"
    (is "_ \<longleftrightarrow> ?stale")
proof
  assume "snd (prune_discovery_routes now st)"
  then have "discovery_routes (fst (prune_discovery_routes now st)) \<noteq> discovery_routes st"
    by (simp add: prune_discovery_routes_def Let_def)
  then have "\<exists>(k, r) \<in> set (discovery_routes st). prune_side now r \<noteq> r \<or> dsd_announcers r = []"
  proof (rule contrapos_np)
    assume a: "\<not> (\<exists>(k, r) \<in> set (discovery_routes st). prune_side now r \<noteq> r \<or> dsd_announcers r = [])"
    then have "map (\<lambda>(side, route). (side, prune_side now route)) (discovery_routes st) = discovery_routes st"
      by (intro map_idI) auto
    then show "discovery_routes (fst (prune_discovery_routes now st)) = discovery_routes st"
      unfolding prune_table using a by (auto intro!: filter_True)
  qed
  then obtain k r where kr: "(k, r) \<in> set (discovery_routes st)" and ch: "prune_side now r \<noteq> r \<or> dsd_announcers r = []" by auto
  have ok: "route_ok r" using table_okD [OF assms kr] .
  then have "\<not> list_all (\<lambda>s. is_fresh now (dss_last_seen_ms s)) (bt_values (dsd_announcers r))"
    using ch prune_side_id by (auto simp: route_ok_def)
  then obtain sender s where "(sender, s) \<in> set (dsd_announcers r)" "\<not> is_fresh now (dss_last_seen_ms s)"
    by (auto simp: list_all_iff bt_values_def)
  moreover have "bt_get (discovery_routes st) k = Some r"
    using kr assms by (simp add: table_ok_def bt_get_in_set)
  moreover from calculation(1) have "bt_get (dsd_announcers r) sender = Some s"
    using ok by (simp add: route_ok_def bt_get_in_set)
  ultimately have "announcer_of (discovery_routes st) k sender = Some s" by (simp add: announcer_of_def)
  then show ?stale using \<open>\<not> is_fresh now (dss_last_seen_ms s)\<close> by blast
next
  assume ?stale
  then obtain side sender s where a: "announcer_of (discovery_routes st) side sender = Some s"
    and stale: "\<not> is_fresh now (dss_last_seen_ms s)" by blast
  then have "announcer_of (discovery_routes (fst (prune_discovery_routes now st))) side sender = None"
    by (simp add: prune_announcers [OF assms])
  with a have "discovery_routes (fst (prune_discovery_routes now st)) \<noteq> discovery_routes st" by auto
  then show "snd (prune_discovery_routes now st)" by (simp add: prune_discovery_routes_def Let_def)
qed

section \<open>The advertised topology\<close>

lemma view_modify_links:
  "endpoints_at (view (modify_first P (\<lambda>b. b\<lparr>tb_connections := g b\<rparr>) bs)) = endpoints_at (view bs) \<and>
   sources_at (view (modify_first P (\<lambda>b. b\<lparr>tb_connections := g b\<rparr>) bs)) = sources_at (view bs)"
  by (induction bs) (auto simp: view_def gather_def)

text \<open>What one announcer is known to reach: its boards, or its summary when it has sent no board.\<close>

definition known_endpoints :: "bytes \<times> discovery_sender_state \<Rightarrow> (bytes \<times> data_endpoint) set" where
  "known_endpoints a =
     (if dss_topology_boards (snd a) = [] then {fst a} \<times> set (dss_reachable (snd a))
      else endpoints_at (view (dss_topology_boards (snd a))))"

lemma endpoints_filter:
  "endpoints_at (view (map (\<lambda>b. b\<lparr>tb_reachable_endpoints := filter P (tb_reachable_endpoints b)\<rparr>) bs)) =
     {(s, ep) \<in> endpoints_at (view bs). P ep}"
  by (auto simp: view_def gather_def)

lemma advertised_boards_endpoints:
  "endpoints_at (view (advertised_boards_of C N ll a)) = {(s, ep) \<in> known_endpoints a. ll \<or> \<not> is_link_local_only C ep}"
  unfolding advertised_boards_of_def endpoints_filter
  using view_modify_links [of "\<lambda>b. tb_sender_id b = fst a" "\<lambda>b. tb_connections b @ [rn_sender N]" "dss_topology_boards (snd a)"]
  by (auto simp: known_endpoints_def) (auto simp: view_def gather_def)

lemma foldl_merge_endpoints:
  "distinct (map tb_sender_id bs) \<Longrightarrow>
   distinct (map tb_sender_id (foldl (\<lambda>boards a. merge_topology_boards boards (f a)) bs as)) \<and>
   endpoints_at (view (foldl (\<lambda>boards a. merge_topology_boards boards (f a)) bs as)) =
     endpoints_at (view bs) \<union> (\<Union>a \<in> set as. endpoints_at (view (f a)))"
proof (induction as arbitrary: bs)
  case (Cons a as)
  have d: "distinct (map tb_sender_id (merge_topology_boards bs (f a)))" by (rule normal_distinct [OF merge_normal])
  show ?case using Cons.IH [OF d] merge_view [OF Cons.prems, of "f a"] by (auto simp: join_def)
qed simp

definition local_endpoints_shown :: "'z schema_scheme \<Rightarrow> router_node \<Rightarrow> bool \<Rightarrow> data_endpoint set" where
  "local_endpoints_shown C N ll =
     {ep. ((\<exists>h \<in> set (rn_handlers N). eh_endpoint h = ep) \<or> (rn_timesync N \<noteq> None \<and> ep = TimeSync)) \<and>
          \<not> is_discovery_endpoint ep \<and> (ll \<or> \<not> is_link_local_only C ep)}"

lemma local_board_endpoints:
  "endpoints_at (view [local_discovery_topology_board C N tr now ll st]) = {rn_sender N} \<times> local_endpoints_shown C N ll"
  by (auto simp: view_def gather_def local_discovery_topology_board_def local_discovery_endpoints_def local_endpoints_shown_def
      split: if_splits)

lemma advertised_topology_endpoints:
  "endpoints_at (view (advertised_discovery_topology_for_link C N tr now ll st)) =
     ({rn_sender N} \<times> local_endpoints_shown C N ll) \<union>
     {(s, ep). (\<exists>a \<in> set (fresh_announcers (in_ms now) st). (s, ep) \<in> known_endpoints a) \<and> (ll \<or> \<not> is_link_local_only C ep)}"
proof -
  let ?b = "[local_discovery_topology_board C N tr now ll st]"
  have "distinct (map tb_sender_id ?b)" by simp
  from foldl_merge_endpoints [OF this, of "advertised_boards_of C N ll" "fresh_announcers (in_ms now) st"]
  have "endpoints_at (view (advertised_discovery_topology_for_link C N tr now ll st)) =
    endpoints_at (view ?b) \<union> (\<Union>a \<in> set (fresh_announcers (in_ms now) st). endpoints_at (view (advertised_boards_of C N ll a)))"
    by (simp add: advertised_discovery_topology_for_link_def view_normalize)
  then show ?thesis by (auto simp: local_board_endpoints advertised_boards_endpoints)
qed

lemma summarized_endpoints: "set (fst (summarize_topology_boards bs)) = snd ` endpoints_at (view bs)"
  by (force simp: summarize_topology_boards_def view_def gather_def)

lemma advertised_endpoints:
  "ep \<in> set (advertised_discovery_endpoints_for_link C N tr now ll st) \<longleftrightarrow>
     \<not> is_discovery_endpoint ep \<and> (ll \<or> \<not> is_link_local_only C ep) \<and>
     (ep \<in> local_endpoints_shown C N ll \<or>
      (\<exists>a \<in> set (fresh_announcers (in_ms now) st). \<exists>s. (s, ep) \<in> known_endpoints a))"
proof -
  let ?v = "endpoints_at (view (advertised_discovery_topology_for_link C N tr now ll st))"
  have "ep \<in> snd ` ?v \<longleftrightarrow> (\<exists>s. (s, ep) \<in> ?v)" by force
  then show ?thesis
    by (auto simp: advertised_discovery_endpoints_for_link_def summarized_endpoints advertised_topology_endpoints)
qed

end
