(* ===== verification/Router_Wait_Laws.thy ===== *)
theory Router_Wait_Laws
  imports Router_Discovery_Laws Router_State_Laws
begin

text \<open>
  The table of packets that wait for end-to-end acknowledgements: its size, the retries of its entries
  and the acknowledgements that empty it. The queue operations between them touch none of it, which
  the frame \<open>queues_only\<close> states once for all of them.
\<close>

section \<open>The frame of the queue operations\<close>

definition queues_only :: "router_inner \<Rightarrow> router_inner \<Rightarrow> bool" where
  "queues_only st st' \<longleftrightarrow>
     (\<exists>rq tq rc rr ks. st' = st\<lparr>received_queue := rq, transmit_queue := tq, recent_rx := rc, reliable_rx := rr,
        discovery_routes := fold bt_remove ks (discovery_routes st)\<rparr>)"

lemma queues_onlyI:
  "st' = st\<lparr>received_queue := received_queue st', transmit_queue := transmit_queue st', recent_rx := recent_rx st',
     reliable_rx := reliable_rx st', discovery_routes := fold bt_remove ks (discovery_routes st)\<rparr> \<Longrightarrow> queues_only st st'"
  unfolding queues_only_def by blast

lemma queues_only_refl [simp]: "queues_only st st"
  by (rule queues_onlyI [where ks = "[]"]) simp

lemma queues_only_trans:
  assumes "queues_only a b" and "queues_only b c"
  shows "queues_only a c"
proof -
  from assms obtain rq tq rc rr ks rq' tq' rc' rr' ks' where
    "b = a\<lparr>received_queue := rq, transmit_queue := tq, recent_rx := rc, reliable_rx := rr,
        discovery_routes := fold bt_remove ks (discovery_routes a)\<rparr>"
    "c = b\<lparr>received_queue := rq', transmit_queue := tq', recent_rx := rc', reliable_rx := rr',
        discovery_routes := fold bt_remove ks' (discovery_routes b)\<rparr>"
    unfolding queues_only_def by blast
  then show ?thesis by (intro queues_onlyI [where ks = "ks @ ks'"]) simp
qed

lemma queues_only_updates [simp]:
  "queues_only st (st\<lparr>received_queue := rq\<rparr>)" "queues_only st (st\<lparr>transmit_queue := tq\<rparr>)"
  "queues_only st (st\<lparr>recent_rx := rc\<rparr>)" "queues_only st (st\<lparr>reliable_rx := rr\<rparr>)"
  by (rule queues_onlyI [where ks = "[]"], simp)+

lemma queues_only_route [simp]: "queues_only st (st\<lparr>discovery_routes := bt_remove side (discovery_routes st)\<rparr>)"
  by (rule queues_onlyI [where ks = "[side]"]) simp

lemma queues_only_table: "queues_only st st' \<Longrightarrow> table_ok (discovery_routes st) \<Longrightarrow> table_ok (discovery_routes st')"
  by (auto simp: queues_only_def intro: table_ok_fold_remove)

lemma queues_only_fields:
  assumes "queues_only st st'"
  shows "sides st' = sides st" "end_to_end_reliable_tx st' = end_to_end_reliable_tx st"
    "end_to_end_reliable_tx_order st' = end_to_end_reliable_tx_order st" "reliable_tx st' = reliable_tx st"
    "reliable_return_routes st' = reliable_return_routes st" "source_route_modes st' = source_route_modes st"
    "route_overrides st' = route_overrides st" "typed_route_overrides st' = typed_route_overrides st"
  using assms by (auto simp: queues_only_def)

lemma pop_shared_queues: "queues_only st (snd (pop_shared_queue_item L k st))"
  by (cases k) (auto simp: pop_reliable_rx_buffered_def pop_discovery_route_def split: prod.splits option.splits)

text \<open>Making room is a sequence of removals.\<close>

lemma make_room_closed:
  assumes pop: "\<And>st k. Q st (snd (pop_shared_queue_item L k st))"
    and trans: "\<And>a b c. Q a b \<Longrightarrow> Q b c \<Longrightarrow> Q a c" and refl: "\<And>st. Q st st"
  shows "Q st (fst (make_room_loop L budget c preferred st))"
  by (rule budget.loop_closed [where Q = Q]) (fact pop trans refl)+

lemma make_room_queues: "queues_only st (fst (make_room_loop L budget c preferred st))"
  by (rule make_room_closed [where Q = queues_only]) (simp_all add: pop_shared_queues queues_only_trans)

lemma sthen_queues:
  assumes "queues_only st (fst m)" and "\<And>x s. queues_only s (fst (f x s))"
  shows "queues_only st (fst (sthen m f))"
  using assms queues_only_trans by (auto simp: sthen_def split: prod.splits outcome.splits)

lemma push_queues:
  "queues_only st (fst (push_transmit L C q st))" "queues_only st (fst (push_received L C i st))"
  using make_room_queues
  by (auto simp: push_transmit_def push_received_def make_shared_queue_room_def intro!: sthen_queues split: prod.splits)

lemma tx_queue_queues [simp]:
  "queues_only st (fst (tx_queue_item_with_priority L C item il p st))"
  "queues_only st (fst (tx_queue_item_with_flags L E item il st))"
  using push_queues(1)
  by (auto simp: tx_queue_item_with_priority_def tx_queue_item_with_flags_def intro!: sthen_queues)

section \<open>Waiting packets\<close>

definition wait_limit :: "'z config_scheme \<Rightarrow> nat" where
  "wait_limit C = max (reliable_max_end_to_end_pending C) 1"

lemma wait_limit_pos: "0 < wait_limit C"
  by (simp add: wait_limit_def less_max_iff_disj)

definition waiting_ok :: "'z config_scheme \<Rightarrow> router_inner \<Rightarrow> bool" where
  "waiting_ok C st \<longleftrightarrow>
     bt_wf (end_to_end_reliable_tx st) \<and> set (bt_keys (end_to_end_reliable_tx st)) \<subseteq> set (end_to_end_reliable_tx_order st) \<and>
     distinct (end_to_end_reliable_tx_order st) \<and> length (end_to_end_reliable_tx_order st) \<le> wait_limit C \<and>
     (\<forall>(k, s) \<in> set (end_to_end_reliable_tx st). e2e_retries s \<le> reliable_max_retries C)"

lemma waiting_ok_bound:
  assumes "waiting_ok C st"
  shows "length (end_to_end_reliable_tx st) \<le> wait_limit C"
proof -
  have "distinct (bt_keys (end_to_end_reliable_tx st))" using assms by (simp add: waiting_ok_def bt.distinct_keys)
  from distinct_card [OF this] have "length (end_to_end_reliable_tx st) = card (set (bt_keys (end_to_end_reliable_tx st)))"
    by simp
  also have "\<dots> \<le> card (set (end_to_end_reliable_tx_order st))"
    using assms by (intro card_mono) (auto simp: waiting_ok_def)
  also have "\<dots> \<le> wait_limit C" using assms card_length order_trans by (auto simp: waiting_ok_def)
  finally show ?thesis .
qed

lemma waiting_ok_cong:
  "waiting_ok C st \<Longrightarrow> end_to_end_reliable_tx st' = end_to_end_reliable_tx st \<Longrightarrow>
   end_to_end_reliable_tx_order st' = end_to_end_reliable_tx_order st \<Longrightarrow> waiting_ok C st'"
  by (simp add: waiting_ok_def)

lemma waiting_ok_queues: "waiting_ok C st \<Longrightarrow> queues_only st st' \<Longrightarrow> waiting_ok C st'"
  by (erule waiting_ok_cong) (simp_all add: queues_only_fields)

lemma waiting_ok_remove:
  "waiting_ok C st \<Longrightarrow> waiting_ok C (st\<lparr>end_to_end_reliable_tx := bt_remove k (end_to_end_reliable_tx st)\<rparr>)"
  by (auto simp: waiting_ok_def bt_keys_def bt_remove_def bt_wf_filter)

lemma waiting_ok_fold_remove:
  "waiting_ok C st \<Longrightarrow> waiting_ok C (st\<lparr>end_to_end_reliable_tx := fold bt_remove ks (end_to_end_reliable_tx st)\<rparr>)"
proof (induction ks arbitrary: st)
  case (Cons k ks)
  from Cons.IH [OF waiting_ok_remove [OF Cons.prems, of k]] show ?case by simp
qed simp

lemma set_bt_modify: "(k, v) \<in> set (bt_modify pid f m) \<Longrightarrow> (k, v) \<in> set m \<or> (\<exists>u. (k, u) \<in> set m \<and> k = pid \<and> v = f u)"
  by (auto simp: bt_modify_def split: if_splits)

lemma waiting_ok_modify:
  assumes "waiting_ok C st" and "\<And>s. e2e_retries s \<le> reliable_max_retries C \<Longrightarrow> bt_get (end_to_end_reliable_tx st) pid = Some s \<Longrightarrow>
    e2e_retries (f s) \<le> reliable_max_retries C"
  shows "waiting_ok C (st\<lparr>end_to_end_reliable_tx := bt_modify pid f (end_to_end_reliable_tx st)\<rparr>)"
proof -
  have wf: "bt_wf (end_to_end_reliable_tx st)" using assms(1) by (simp add: waiting_ok_def)
  have "e2e_retries v \<le> reliable_max_retries C" if "(k, v) \<in> set (bt_modify pid f (end_to_end_reliable_tx st))" for k v
    using set_bt_modify [OF that] assms by (auto simp: waiting_ok_def bt_get_in_set [OF wf])
  then show ?thesis using assms(1) by (auto simp: waiting_ok_def bt_keys_def bt_wf_modify)
qed

lemma trim_spec:
  "trim_return_routes cap order m = (order', m') \<Longrightarrow> 0 < cap \<Longrightarrow>
     length order' < cap \<and> (\<exists>gone. order = gone @ order' \<and> m' = fold bt_remove gone m)"
proof (induction cap order m rule: trim_return_routes.induct)
  case (2 cap oldest order m)
  show ?case
  proof (cases "cap \<le> length (oldest # order)")
    case True
    then obtain gone where "length order' < cap" "order = gone @ order'" "m' = fold bt_remove gone (bt_remove oldest m)"
      using 2 by auto
    then show ?thesis by (intro conjI exI [of _ "oldest # gone"]) simp_all
  next
    case False
    then show ?thesis using 2 by auto
  qed
qed simp

lemma keys_fold_remove: "set (bt_keys (fold bt_remove ks m)) = set (bt_keys m) - set ks"
  by (induction ks arbitrary: m) (auto simp: bt_keys_def bt_remove_def)

lemma keys_insert: "bt_wf m \<Longrightarrow> set (bt_keys (bt_insert k v m)) = insert k (set (bt_keys m))"
  by (auto simp: bt_keys_def set_bt_insert)

lemma contains_keys: "bt_contains m k \<longleftrightarrow> k \<in> set (bt_keys m)"
  by (simp add: bt_contains_def bt_get_def bt_keys_def map_of_eq_None_iff)

lemma register_waiting_ok:
  assumes ok: "waiting_ok C st" and "e2e_retries v \<le> reliable_max_retries C"
  shows "waiting_ok C (let st = remember_end_to_end_reliable_tx C pid st
     in st\<lparr>end_to_end_reliable_tx := bt_insert pid v (end_to_end_reliable_tx st)\<rparr>)"
proof -
  let ?m = "end_to_end_reliable_tx st"
  let ?o = "filter (\<lambda>i. bt_contains ?m i \<and> i \<noteq> pid) (end_to_end_reliable_tx_order st)"
  have wf: "bt_wf ?m" using ok by (simp add: waiting_ok_def)
  obtain order m where t: "trim_return_routes (wait_limit C) ?o ?m = (order, m)" by force
  obtain gone where o: "?o = gone @ order" and len: "length order < wait_limit C" and m: "m = fold bt_remove gone ?m"
    using trim_spec [OF t wait_limit_pos] by blast
  have d: "distinct (gone @ order)" using ok unfolding o [symmetric] by (simp add: waiting_ok_def)
  have keys: "set (bt_keys m) \<subseteq> insert pid (set order)"
  proof
    fix k assume "k \<in> set (bt_keys m)"
    then have k: "k \<in> set (bt_keys ?m)" "k \<notin> set gone" by (simp_all add: m keys_fold_remove)
    then have "k \<in> set ?o \<or> k = pid" using ok by (auto simp: waiting_ok_def contains_keys)
    then show "k \<in> insert pid (set order)" using k(2) o by (metis Un_iff insert_iff set_append)
  qed
  have "pid \<notin> set ?o" by simp
  then have pid: "pid \<notin> set order" unfolding o by simp
  have ret: "e2e_retries s \<le> reliable_max_retries C" if "(k, s) \<in> set m" for k s
    using that fold_remove_subset [of gone ?m] ok by (auto simp: m waiting_ok_def)
  have "remember_end_to_end_reliable_tx C pid st =
      st\<lparr>end_to_end_reliable_tx_order := order @ [pid], end_to_end_reliable_tx := m\<rparr>"
    using t by (simp add: remember_end_to_end_reliable_tx_def wait_limit_def)
  moreover have "bt_wf m" unfolding m by (rule bt_wf_fold_remove [OF wf])
  ultimately show ?thesis
    using len d keys pid ret assms(2)
    by (auto simp: Let_def waiting_ok_def keys_insert set_bt_insert bt_wf_insert)
qed

lemma register_ok:
  assumes "waiting_ok E st" and "register_end_to_end_reliable_tx E now it st = (st', r)"
  shows "waiting_ok E st'"
proof (cases "\<exists>pid pending. get_hash E it = Ok pid \<and> expected_end_to_end_destinations E now it st = Ok pending")
  case True
  then obtain pid pending where "get_hash E it = Ok pid" "expected_end_to_end_destinations E now it st = Ok pending" by blast
  then show ?thesis
    using assms register_waiting_ok [OF assms(1), of "\<lparr>e2e_data = it, e2e_pending_destinations = pending,
      e2e_tracked_destinations = (pending \<noteq> []), e2e_last_send_ms = now, e2e_retries = 0, e2e_queued = False\<rparr>" pid]
    by (auto simp: register_end_to_end_reliable_tx_def Let_def)
next
  case False
  then have "st' = st" using assms(2)
    by (cases "get_hash E it"; cases "expected_end_to_end_destinations E now it st")
      (auto simp: register_end_to_end_reliable_tx_def)
  then show ?thesis using assms(1) by simp
qed

lemma ack_ok: "waiting_ok C st \<Longrightarrow> waiting_ok C (fst (handle_end_to_end_ack pid sender st))"
  by (auto simp: handle_end_to_end_ack_def Let_def waiting_ok_remove waiting_ok_modify split: option.splits)

lemma reconcile_ids_ok: "waiting_ok C st \<Longrightarrow> waiting_ok C (fst (reconcile_ids E now pids st))"
proof (induction pids arbitrary: st)
  case (Cons pid pids)
  show ?case
  proof (cases "bt_get (end_to_end_reliable_tx st) pid")
    case None
    then show ?thesis using Cons by simp
  next
    case (Some sent)
    show ?thesis
    proof (cases "expected_end_to_end_destinations E now (e2e_data sent) st")
      case (Ok ex)
      let ?p = "retain_destinations ex (e2e_pending_destinations sent)"
      let ?st = "st\<lparr>end_to_end_reliable_tx := bt_modify pid (\<lambda>s. s\<lparr>e2e_pending_destinations := ?p\<rparr>) (end_to_end_reliable_tx st)\<rparr>"
      have "waiting_ok C ?st" using Cons.prems by (intro waiting_ok_modify) simp_all
      then show ?thesis using Some Ok Cons.IH [of ?st] Cons.IH [of st] Cons.prems by (auto simp: fst_sthen_return Let_def)
    qed (use Some Cons.prems in auto)
  qed
qed simp

lemma reconcile_ok:
  assumes "waiting_ok C st"
  shows "waiting_ok C (fst (reconcile_end_to_end_reliable_destinations E now st))"
proof -
  obtain s r where rec: "reconcile_ids E now (bt_keys (end_to_end_reliable_tx st)) st = (s, r)" by force
  then have "waiting_ok C s" using reconcile_ids_ok [OF assms, of E now "bt_keys (end_to_end_reliable_tx st)"] by simp
  then show ?thesis
    by (cases r) (auto simp: reconcile_end_to_end_reliable_destinations_def rec intro: waiting_ok_fold_remove)
qed

lemma timeout_entry_ok:
  assumes "waiting_ok C st"
  shows "waiting_ok C (fst (end_to_end_timeout_entry C now pid st))"
proof -
  have "s + 1 \<le> m" if "\<not> m \<le> s" for s m :: u32
    using that by (simp add: inc_le not_le)
  then show ?thesis using assms
    by (auto simp: end_to_end_timeout_entry_def update_end_to_end_def waiting_ok_remove split: option.splits
        intro!: waiting_ok_modify)
qed

lemma waiting_scan_ok: "waiting_ok C st \<Longrightarrow> waiting_ok C (fst (end_to_end_timeout_scan C now pids st))"
proof (induction pids arbitrary: st)
  case (Cons pid pids)
  then show ?case using timeout_entry_ok [OF Cons.prems, of now pid]
    by (auto split: prod.splits)
      (metis fst_conv)+
qed simp

lemma retransmit_ok:
  assumes "waiting_ok C st"
  shows "waiting_ok C (fst (queue_end_to_end_reliable_retransmit L C pid st))"
proof -
  have "waiting_ok C (update_end_to_end pid (\<lambda>s. s\<lparr>e2e_queued := True\<rparr>) st)"
    unfolding update_end_to_end_def using assms by (intro waiting_ok_modify) simp_all
  from waiting_ok_queues [OF this tx_queue_queues(1) [where C = C]] show ?thesis
    using assms by (simp add: queue_end_to_end_reliable_retransmit_def split: option.splits)
qed

lemma requeue_ok: "waiting_ok C st \<Longrightarrow> waiting_ok C (fst (requeue_end_to_end L C pids st))"
proof (induction pids arbitrary: st)
  case (Cons pid pids)
  obtain s r where q: "queue_end_to_end_reliable_retransmit L C pid st = (s, r)" by force
  then have "waiting_ok C s" using retransmit_ok [OF Cons.prems, of L pid] by simp
  then show ?case using Cons.IH [of s] q by (cases r) simp_all
qed simp

lemma retransmit_sides_ok: "waiting_ok C st \<Longrightarrow> waiting_ok C (fst (end_to_end_retransmit_sides now pid st))"
proof -
  assume ok: "waiting_ok C st"
  let ?st = "update_end_to_end pid (\<lambda>s. s\<lparr>e2e_queued := False, e2e_last_send_ms := now\<rparr>) st"
  have "waiting_ok C ?st" unfolding update_end_to_end_def using ok by (intro waiting_ok_modify) simp_all
  with waiting_ok_remove [OF this, of pid] show ?thesis
    using ok by (simp add: end_to_end_retransmit_sides_def Let_def split: option.splits)
qed

lemma process_timeouts_ok:
  assumes "waiting_ok E st"
  shows "waiting_ok E (fst (process_end_to_end_reliable_timeouts L E now st))"
proof -
  obtain s1 ch where p: "prune_discovery_routes now st = (s1, ch)" by force
  define s2 where "s2 = (if ch then note_discovery_topology_change now s1 else s1)"
  have "waiting_ok E s2"
    using assms p by (auto simp: s2_def prune_discovery_routes_def Let_def note_discovery_topology_change_def intro: waiting_ok_cong)
  then obtain s3 r3 where r: "reconcile_end_to_end_reliable_destinations E now s2 = (s3, r3)" and ok3: "waiting_ok E s3"
    using reconcile_ok [of E s2 E now] by (metis prod.collapse)
  obtain s4 q where sc: "end_to_end_timeout_scan E now (bt_keys (end_to_end_reliable_tx s3)) s3 = (s4, q)" by force
  then have "waiting_ok E s4" using waiting_scan_ok [OF ok3, of now "bt_keys (end_to_end_reliable_tx s3)"] by simp
  from requeue_ok [OF this, of L q] ok3 show ?thesis
    using p r sc by (cases r3) (simp_all add: process_end_to_end_reliable_timeouts_def s2_def [symmetric])
qed

lemma fit_queues: "queues_only st (fit_discovery_budget L b st)"
  using fit_frame [of L b st] by (auto intro: queues_onlyI)

lemma note_change_ok: "waiting_ok C st \<Longrightarrow> waiting_ok C (note_discovery_topology_change now st)"
  by (erule waiting_ok_cong) (simp_all add: note_discovery_topology_change_def)

lemma sthen_waiting:
  assumes "waiting_ok C (fst m)" and "\<And>x s. waiting_ok C s \<Longrightarrow> waiting_ok C (fst (f x s))"
  shows "waiting_ok C (fst (sthen m f))"
  using assms by (cases m; cases "snd m") simp_all

lemma learn_ok:
  assumes "waiting_ok E st"
  shows "waiting_ok E (fst (learn_discovery_packet L E N now pkt src st))"
proof -
  have table: "waiting_ok E s \<Longrightarrow> waiting_ok E (s\<lparr>discovery_routes := dr\<rparr>)" for s dr
    by (erule waiting_ok_cong) simp_all
  have step: "waiting_ok E s \<Longrightarrow> waiting_ok E (fst (sthen (reconcile_end_to_end_reliable_destinations E now
      (fit_discovery_budget L b (s\<lparr>discovery_routes := dr\<rparr>))) (\<lambda>_ st.
        (if changed then note_discovery_topology_change now st else st, Ok True))))" for s b dr changed
    by (intro sthen_waiting reconcile_ok waiting_ok_queues [OF _ fit_queues] table) (simp_all add: note_change_ok)
  show ?thesis
    unfolding learn_discovery_packet_def Let_def
    using assms by (cases src) (auto intro!: sthen_waiting step)
qed

lemma expire_ok:
  assumes "waiting_ok E st"
  shows "waiting_ok E (fst (expire_and_reconcile L E now st))"
proof -
  obtain s1 ch where p: "prune_discovery_routes now st = (s1, ch)" by force
  then have "waiting_ok E s1" using assms by (auto simp: prune_discovery_routes_def Let_def intro: waiting_ok_cong)
  then show ?thesis
    by (auto simp: expire_and_reconcile_def p reconcile_ok note_change_ok waiting_ok_queues [OF _ fit_queues] intro!: sthen_waiting)
qed

section \<open>Runs\<close>

inductive waiting_step :: "layout \<Rightarrow> env \<Rightarrow> router_inner \<Rightarrow> router_inner \<Rightarrow> bool" for L E where
  Register: "waiting_step L E st (fst (register_end_to_end_reliable_tx E now it st))"
| Acknowledge: "waiting_step L E st (fst (handle_end_to_end_ack pid sender st))"
| Reconcile: "waiting_step L E st (fst (reconcile_end_to_end_reliable_destinations E now st))"
| Timeouts: "waiting_step L E st (fst (process_end_to_end_reliable_timeouts L E now st))"
| Expire: "waiting_step L E st (fst (expire_and_reconcile L E now st))"
| Replay: "waiting_step L E st (fst (end_to_end_retransmit_sides now pid st))"
| Send: "waiting_step L E st (fst (tx_queue_item_with_flags L E item il st))"
| Receive: "waiting_step L E st (fst (push_received L E i st))"
| Learn: "waiting_step L E st (fst (learn_discovery_packet L E N now pkt src st))"

inductive waiting_run :: "layout \<Rightarrow> env \<Rightarrow> router_inner \<Rightarrow> router_inner \<Rightarrow> bool" for L E where
  Wait_Nil: "waiting_run L E st st"
| Wait_Step: "waiting_run L E st st' \<Longrightarrow> waiting_step L E st' st'' \<Longrightarrow> waiting_run L E st st''"

lemma waiting_step_ok: "waiting_step L E st st' \<Longrightarrow> waiting_ok E st \<Longrightarrow> waiting_ok E st'"
proof (induction rule: waiting_step.induct)
  case (Register st now it)
  then show ?case using register_ok [OF _ surjective_pairing] by blast
qed (simp_all add: ack_ok reconcile_ok process_timeouts_ok expire_ok retransmit_sides_ok learn_ok
    waiting_ok_queues [OF _ tx_queue_queues(2)] waiting_ok_queues [OF _ push_queues(2)])

lemma waiting_run_ok: "waiting_run L E st st' \<Longrightarrow> waiting_ok E st \<Longrightarrow> waiting_ok E st'"
  by (induction rule: waiting_run.induct) (auto intro: waiting_step_ok)

section \<open>Acknowledgements\<close>

lemma ack_effect:
  assumes "bt_wf (end_to_end_reliable_tx st)" and "bt_get (end_to_end_reliable_tx st) pid = Some sent"
    and "decode_end_to_end_ack_sender_hash sender = Some h"
  shows "bt_get (end_to_end_reliable_tx (fst (handle_end_to_end_ack pid sender st))) pid =
    (let rest = bt_remove h (e2e_pending_destinations sent)
     in if rest = [] then None else Some (sent\<lparr>e2e_pending_destinations := rest\<rparr>))"
    and "bt_wf (end_to_end_reliable_tx (fst (handle_end_to_end_ack pid sender st)))"
  using assms by (simp_all add: handle_end_to_end_ack_def Let_def bt.get_remove bt_get_modify bt.invar_remove bt_wf_modify)

text \<open>The pending destinations after a series of acknowledgements.\<close>

lemma acks_effect:
  assumes "bt_wf (end_to_end_reliable_tx st)" and "bt_get (end_to_end_reliable_tx st) pid = Some sent"
    and "e2e_pending_destinations sent \<noteq> []"
    and "list_all2 (\<lambda>s h. decode_end_to_end_ack_sender_hash s = Some h) senders hs"
  shows "bt_get (end_to_end_reliable_tx (fold (\<lambda>s st. fst (handle_end_to_end_ack pid s st)) senders st)) pid =
    (let rest = fold bt_remove hs (e2e_pending_destinations sent)
     in if rest = [] then None else Some (sent\<lparr>e2e_pending_destinations := rest\<rparr>))"
  using assms
proof (induction senders arbitrary: st sent hs)
  case Nil
  then show ?case by simp
next
  case (Cons s senders)
  obtain h hs' where hs: "hs = h # hs'" "decode_end_to_end_ack_sender_hash s = Some h"
    and rest: "list_all2 (\<lambda>s h. decode_end_to_end_ack_sender_hash s = Some h) senders hs'"
    using Cons.prems(4) by (auto simp: list_all2_Cons1)
  let ?st = "fst (handle_end_to_end_ack pid s st)" and ?r = "bt_remove h (e2e_pending_destinations sent)"
  note e = ack_effect [OF Cons.prems(1,2) hs(2)]
  show ?case
  proof (cases "?r = []")
    case True
    then have gone: "bt_get (end_to_end_reliable_tx ?st) pid = None" using e by simp
    have stays: "bt_get (end_to_end_reliable_tx (fold (\<lambda>s st. fst (handle_end_to_end_ack pid s st)) ss st')) pid = None"
      if "bt_get (end_to_end_reliable_tx st') pid = None" for ss st'
      using that by (induction ss arbitrary: st') (simp_all add: handle_end_to_end_ack_def)
    have "fold bt_remove hs' [] = ([] :: (u64, nat) btree)"
      by (induction hs') (simp_all add: bt_remove_def)
    then show ?thesis using stays [OF gone] hs True by simp
  next
    case False
    then have g: "bt_get (end_to_end_reliable_tx ?st) pid = Some (sent\<lparr>e2e_pending_destinations := ?r\<rparr>)"
      using e(1) by (simp add: Let_def)
    from Cons.IH [OF e(2) g _ rest] False hs show ?thesis by (simp add: Let_def)
  qed
qed

lemma fold_remove_empty: "fold bt_remove hs m = [] \<longleftrightarrow> set (bt_keys m) \<subseteq> set hs"
proof -
  have "fold bt_remove hs m = [] \<longleftrightarrow> set (bt_keys (fold bt_remove hs m)) = {}" by (simp add: bt_keys_def)
  then show ?thesis by (simp only: keys_fold_remove Diff_eq_empty_iff)
qed

end
