(* ===== verification/Router_Gossip_Laws.thy ===== *)
theory Router_Gossip_Laws
  imports Router_Wait_Laws
begin

text \<open>
  Routers that tell each other what they know: what one discovery packet adds to the table of the
  router that hears it, that the plan then uses it, and the exchange of topologies between two
  neighbours as a step relation.
\<close>

section \<open>What a packet adds\<close>

lemma modify_first_ids: "(\<And>b. tb_sender_id (f b) = tb_sender_id b) \<Longrightarrow> map tb_sender_id (modify_first P f bs) = map tb_sender_id bs"
  by (induction bs) auto

lemma with_board_distinct: "distinct (map tb_sender_id bs) \<Longrightarrow> distinct (map tb_sender_id (with_board s bs))"
  by (auto simp: with_board_def empty_board_def list_ex_iff)

lemma with_board_has: "s \<in> tb_sender_id ` set (with_board s bs)"
  by (auto simp: with_board_def empty_board_def list_ex_iff)

lemma modify_first_member: "\<exists>x \<in> set xs. P x \<Longrightarrow> \<exists>x \<in> set xs. P x \<and> f x \<in> set (modify_first P f xs)"
  by (induction xs) auto

lemma old_sender_distinct:
  assumes "table_ok (discovery_routes st)"
  shows "distinct (map tb_sender_id (dss_topology_boards (old_sender_state sender side st)))"
proof (cases "announcer_of (discovery_routes st) side sender")
  case None
  then have "old_sender_state sender side st = sender_state_default"
    by (auto simp: old_sender_state_def announcer_of_def side_state_default_def bt_get_def Let_def split: option.splits bind_splits)
  then show ?thesis by (simp add: sender_state_default_def)
next
  case (Some s)
  then obtain r where r: "bt_get (discovery_routes st) side = Some r" "bt_get (dsd_announcers r) sender = Some s"
    by (auto simp: announcer_of_def split: bind_splits)
  then have "(side, r) \<in> set (discovery_routes st)" "(sender, s) \<in> set (dsd_announcers r)"
    by (simp_all add: bt_get_def map_of_SomeD)
  then have "sender_ok s" using table_okD [OF assms] by (force simp: route_ok_def list_all_iff bt_values_def)
  then show ?thesis using r by (simp add: old_sender_state_def sender_ok_def normal_distinct)
qed

lemma announced_reachable:
  assumes "learned_sender_state C ll pkt ss = Ok (ss', ch)" and "pkt_ty pkt = DiscoveryAnnounce"
    and "decode_discovery_announce C pkt = Ok reach" and "ep \<in> set reach" and "ll \<or> \<not> is_link_local_only C ep"
    and "distinct (map tb_sender_id (dss_topology_boards ss))"
  shows "ep \<in> set (dss_reachable ss')"
proof -
  let ?f = "\<lambda>b. b\<lparr>tb_reachable_endpoints := filter (\<lambda>ep. ll \<or> \<not> is_link_local_only C ep) reach\<rparr>"
  let ?P = "\<lambda>b. tb_sender_id b = pkt_sender pkt"
  let ?bs = "modify_first ?P ?f (with_board (pkt_sender pkt) (dss_topology_boards ss))"
  have ss': "dss_reachable ss' = fst (summarize_topology_boards (normalize_topology_boards ?bs))"
    using assms(1-3) by (auto simp: learned_sender_state_def refresh_sender_topology_state_def sender_topology_board_mut_def
        Let_def split: prod.splits)
  have "\<exists>b \<in> set (with_board (pkt_sender pkt) (dss_topology_boards ss)). ?P b"
    using with_board_has [of "pkt_sender pkt" "dss_topology_boards ss"] by (metis imageE)
  from modify_first_member [OF this, of ?f]
  obtain b where "b \<in> set (with_board (pkt_sender pkt) (dss_topology_boards ss))" "?f b \<in> set ?bs" by blast
  then have "(tb_sender_id b, ep) \<in> endpoints_at (view ?bs)"
    using assms(4,5) by (auto simp: view_def gather_def intro!: bexI [of _ "?f b"])
  moreover have "distinct (map tb_sender_id ?bs)"
    using with_board_distinct [OF assms(6)] by (simp add: modify_first_ids)
  ultimately have "(tb_sender_id b, ep) \<in> endpoints_at (view (normalize_topology_boards ?bs))"
    by (simp add: view_normalize)
  then show ?thesis unfolding ss' summarized_endpoints by force
qed

lemma learned_topology_endpoints:
  assumes "learned_sender_state C ll pkt ss = Ok (ss', ch)" and "pkt_ty pkt = DiscoveryTopology"
    and "decode_discovery_topology C pkt = Ok boards" and "boards_normal boards"
  shows "endpoints_at (view (dss_topology_boards ss')) = {(z, ep) \<in> endpoints_at (view boards). ll \<or> \<not> is_link_local_only C ep}"
proof -
  let ?bs = "map (\<lambda>b. b\<lparr>tb_reachable_endpoints := filter (\<lambda>ep. ll \<or> \<not> is_link_local_only C ep) (tb_reachable_endpoints b)\<rparr>) boards"
  have "dss_topology_boards ss' = normalize_topology_boards ?bs"
    using assms(1-3) by (auto simp: learned_sender_state_def refresh_sender_topology_state_def Let_def split: prod.splits)
  moreover have "distinct (map tb_sender_id ?bs)" using normal_distinct [OF assms(4)] by (simp add: comp_def)
  ultimately show ?thesis by (simp add: view_normalize endpoints_filter)
qed

text \<open>After a packet is learned, its side holds the route built from it, unless the budget evicts it.\<close>

lemma fold_remove_get: "bt_wf m \<Longrightarrow> bt_get (fold bt_remove ks m) k = Some v \<Longrightarrow> bt_get m k = Some v"
  using fold_remove_subset [of ks m] by (auto simp: bt_get_in_set bt_wf_fold_remove)

lemma learn_result:
  assumes "learn_discovery_packet L E N now pkt (Some side) st = (st', Ok True)" and "table_ok (discovery_routes st)"
    and "is_discovery_type (pkt_ty pkt)" and "pkt_sender pkt \<noteq> rn_sender N"
    and "bt_get (discovery_routes st') side = Some r"
  obtains ss ch where
    "learned_sender_state E (side_is_link_local st side) pkt (old_sender_state (pkt_sender pkt) side st) = Ok (ss, ch)"
    "r = learned_route (pkt_sender pkt) (ss\<lparr>dss_last_seen_ms := now\<rparr>) side st"
    "announcer_of (discovery_routes st') side (pkt_sender pkt) = Some (ss\<lparr>dss_last_seen_ms := now\<rparr>)"
proof -
  obtain ss ch where ls: "learned_sender_state E (side_is_link_local st side) pkt (old_sender_state (pkt_sender pkt) side st) = Ok (ss, ch)"
    using assms(1,3,4)
    by (cases "learned_sender_state E (side_is_link_local st side) pkt (old_sender_state (pkt_sender pkt) side st)")
      (auto simp: learn_discovery_packet_def old_sender_state_def Let_def)
  define route where "route = learned_route (pkt_sender pkt) (ss\<lparr>dss_last_seen_ms := now\<rparr>) side st"
  define st1 where "st1 = fit_discovery_budget L (max_queue_budget E)
     (st\<lparr>discovery_routes := bt_insert side route (discovery_routes st)\<rparr>)"
  have "discovery_routes st' = discovery_routes (fst (reconcile_end_to_end_reliable_destinations E now st1))"
    using assms(1,3,4) ls
    by (cases "reconcile_end_to_end_reliable_destinations E now st1"; cases "snd (reconcile_end_to_end_reliable_destinations E now st1)")
      (auto simp: learn_discovery_packet_def old_sender_state_def learned_route_def st1_def route_def Let_def split: if_splits)
  then obtain ks where ks: "discovery_routes st' = fold bt_remove ks (bt_insert side route (discovery_routes st))"
    using fit_table [of L "max_queue_budget E" "st\<lparr>discovery_routes := bt_insert side route (discovery_routes st)\<rparr>"]
    unfolding reconcile_routes st1_def by auto
  have wf: "bt_wf (discovery_routes st)" using assms(2) by (simp add: table_ok_def)
  have "bt_get (bt_insert side route (discovery_routes st)) side = Some r"
    using assms(5) unfolding ks by (rule fold_remove_get [OF bt_wf_insert [OF wf]])
  then have r: "r = route" by (simp add: bt_get_insert_here)
  have "bt_get (dsd_announcers route) (pkt_sender pkt) = Some (ss\<lparr>dss_last_seen_ms := now\<rparr>)"
    by (simp add: route_def learned_route_def Let_def bt_get_insert_here)
  then have "announcer_of (discovery_routes st') side (pkt_sender pkt) = Some (ss\<lparr>dss_last_seen_ms := now\<rparr>)"
    using assms(5) r by (simp add: announcer_of_def)
  then show ?thesis using that ls r by (simp add: route_def)
qed

section \<open>Every operation on the table\<close>

lemma sthen_table:
  assumes "table_ok (discovery_routes (fst m))"
    and "\<And>x s. table_ok (discovery_routes s) \<Longrightarrow> table_ok (discovery_routes (fst (f x s)))"
  shows "table_ok (discovery_routes (fst (sthen m f)))"
  using assms by (cases m; cases "snd m") simp_all

lemma fit_table_ok: "table_ok (discovery_routes st) \<Longrightarrow> table_ok (discovery_routes (fit_discovery_budget L b st))"
  by (rule queues_only_table [OF fit_queues])

lemma expire_table_ok:
  assumes "table_ok (discovery_routes st)"
  shows "table_ok (discovery_routes (fst (expire_and_reconcile L E now st)))"
proof -
  obtain s ch where p: "prune_discovery_routes now st = (s, ch)" by force
  then have "table_ok (discovery_routes s)" using prune_table_ok [OF assms, of now] by simp
  then show ?thesis by (auto simp: expire_and_reconcile_def p fit_table_ok intro!: sthen_table)
qed

lemma advertisements_queues: "queues_only st (fst (queue_advertisements L E N now as st))"
proof (induction as arbitrary: st)
  case (Cons a as)
  have q: "queues_only s (fst (queue_to_side L E side built s))" for s side built
    by (auto simp: queue_to_side_def intro!: sthen_queues)
  obtain side eps sources topology where a: "a = (side, eps, sources, topology)" by (cases a)
  show ?case unfolding a by (auto intro!: sthen_queues q Cons.IH)
qed simp

lemma announce_table_ok:
  assumes "table_ok (discovery_routes st)"
  shows "table_ok (discovery_routes (fst (queue_discovery_announce L E N tr now st)))"
  unfolding queue_discovery_announce_def Let_def
  by (intro sthen_table expire_table_ok [OF assms]) (auto intro!: queues_only_table [OF advertisements_queues])

lemma poll_table_ok:
  assumes "table_ok (discovery_routes st)"
  shows "table_ok (discovery_routes (fst (poll_discovery_announce L E N tr now now' st)))"
  unfolding poll_discovery_announce_def
  by (intro sthen_table expire_table_ok [OF assms]) (auto intro!: sthen_table announce_table_ok)

lemma timeouts_table_ok:
  assumes "table_ok (discovery_routes st)"
  shows "table_ok (discovery_routes (fst (process_end_to_end_reliable_timeouts L E now st)))"
proof -
  have entry: "discovery_routes (fst (end_to_end_timeout_entry E now pid s)) = discovery_routes s" for pid s
    by (simp add: end_to_end_timeout_entry_def update_end_to_end_def split: option.splits)
  have scan: "discovery_routes (fst (end_to_end_timeout_scan E now pids s)) = discovery_routes s" for pids s
  proof (induction pids arbitrary: s)
    case (Cons pid pids)
    then show ?case using entry [of pid s] by (auto split: prod.splits) (metis fst_conv)+
  qed simp
  have again: "table_ok (discovery_routes s) \<Longrightarrow> table_ok (discovery_routes (fst (requeue_end_to_end L E pids s)))" for pids s
  proof (induction pids arbitrary: s)
    case (Cons pid pids)
    have "table_ok (discovery_routes (update_end_to_end pid f s))" for f
      using Cons.prems by (simp add: update_end_to_end_def)
    from queues_only_table [OF tx_queue_queues(1) [where C = E] this]
    have "table_ok (discovery_routes (fst (queue_end_to_end_reliable_retransmit L E pid s)))"
      using Cons.prems by (cases "bt_get (end_to_end_reliable_tx s) pid") (simp_all add: queue_end_to_end_reliable_retransmit_def)
    from sthen_table [OF this, of "\<lambda>_. requeue_end_to_end L E pids", OF Cons.IH] show ?case by simp
  qed simp
  obtain s ch where p: "prune_discovery_routes now st = (s, ch)" by force
  then have "table_ok (discovery_routes s)" using prune_table_ok [OF assms, of now] by simp
  then have ok: "table_ok (discovery_routes (fst (reconcile_end_to_end_reliable_destinations E now
      (if ch then note_discovery_topology_change now s else s))))" by simp
  have last: "table_ok (discovery_routes (fst (case end_to_end_timeout_scan E now (bt_keys (end_to_end_reliable_tx s)) s of
      (s', pids) \<Rightarrow> requeue_end_to_end L E pids s')))" if "table_ok (discovery_routes s)" for s
    using again [of "fst (end_to_end_timeout_scan E now (bt_keys (end_to_end_reliable_tx s)) s)"] that scan
    by (simp add: case_prod_beta)
  show ?thesis unfolding process_end_to_end_reliable_timeouts_def p prod.case Let_def
    by (rule sthen_table [OF ok]) (rule last)
qed

text \<open>The operations of a router that reach its discovery table.\<close>

inductive table_step :: "layout \<Rightarrow> env \<Rightarrow> router_node \<Rightarrow> router_inner \<Rightarrow> router_inner \<Rightarrow> bool" for L E N where
  Learn_Packet: "table_step L E N st (fst (learn_discovery_packet L E N now pkt src st))"
| Announce_Now: "table_step L E N st (fst (queue_discovery_announce L E N tr t st))"
| Announce_Poll: "table_step L E N st (fst (poll_discovery_announce L E N tr t t' st))"
| Export_Snapshot: "table_step L E N st (fst (export_topology E N tr t st))"
| Scan_Timeouts: "table_step L E N st (fst (process_end_to_end_reliable_timeouts L E now st))"
| Queue_Transmit: "table_step L E N st (fst (tx_queue_item_with_flags L E item il st))"
| Queue_Received: "table_step L E N st (fst (push_received L E i st))"

inductive table_run :: "layout \<Rightarrow> env \<Rightarrow> router_node \<Rightarrow> router_inner \<Rightarrow> router_inner \<Rightarrow> bool" for L E N where
  Table_Nil: "table_run L E N st st"
| Table_Step: "table_run L E N st st' \<Longrightarrow> table_step L E N st' st'' \<Longrightarrow> table_run L E N st st''"

lemma export_table_ok:
  assumes "table_ok (discovery_routes st)"
  shows "table_ok (discovery_routes (fst (export_topology E N tr t st)))"
proof -
  obtain s ch where p: "prune_discovery_routes (in_ms t) st = (s, ch)" by force
  then have "table_ok (discovery_routes s)" using prune_table_ok [OF assms, of "in_ms t"] by simp
  then show ?thesis by (simp add: export_topology_def p Let_def)
qed

lemma table_step_ok: "table_step L E N st st' \<Longrightarrow> table_ok (discovery_routes st) \<Longrightarrow> table_ok (discovery_routes st')"
proof (induction rule: table_step.induct)
  case (Learn_Packet st now pkt src)
  then show ?case using learn_table_ok [OF surjective_pairing] by blast
qed (simp_all add: announce_table_ok poll_table_ok export_table_ok timeouts_table_ok
    queues_only_table [OF tx_queue_queues(2)] queues_only_table [OF push_queues(2)])

lemma table_run_ok: "table_run L E N st st' \<Longrightarrow> table_ok (discovery_routes st) \<Longrightarrow> table_ok (discovery_routes st')"
  by (induction rule: table_run.induct) (auto intro: table_step_ok)

text \<open>A side is in the table exactly when some announcer is known there.\<close>

lemma table_member:
  assumes "table_ok m"
  shows "bt_get m side \<noteq> None \<longleftrightarrow> (\<exists>sender. announcer_of m side sender \<noteq> None)"
proof
  assume "bt_get m side \<noteq> None"
  then obtain r where r: "bt_get m side = Some r" by auto
  then have ok: "route_ok r" using table_okD [OF assms] by (auto simp: bt_get_def dest: map_of_SomeD)
  then obtain sender s where "(sender, s) \<in> set (dsd_announcers r)" by (cases "dsd_announcers r") (auto simp: route_ok_def)
  then have "bt_get (dsd_announcers r) sender = Some s" using ok by (simp add: route_ok_def bt_get_in_set)
  then show "\<exists>sender. announcer_of m side sender \<noteq> None" using r by (auto simp: announcer_of_def)
qed (auto simp: announcer_of_def split: bind_splits)

section \<open>Freshness\<close>

lemma is_fresh_mono: "is_fresh now seen \<Longrightarrow> seen \<le> seen' \<Longrightarrow> is_fresh now seen'"
  by (simp add: is_fresh_def word_le_nat_alt)

lemma is_fresh_now [simp]: "now \<le> seen \<Longrightarrow> is_fresh now seen"
  by (simp add: is_fresh_def sat_sub_def)

lemma route_seen_max:
  assumes "route_ok r"
  shows "dsd_last_seen_ms r = Max (dss_last_seen_ms ` set (bt_values (dsd_announcers r)))"
proof -
  let ?ss = "bt_values (dsd_announcers r)"
  have fold: "foldl (\<lambda>m s. max m (dss_last_seen_ms s)) a xs = Max (insert a (dss_last_seen_ms ` set xs))" for a xs
  proof (induction xs arbitrary: a)
    case (Cons x xs)
    then show ?case by (cases "xs = []") (simp_all add: max.assoc)
  qed simp
  have "dsd_last_seen_ms (recompute_discovery_side_state r) = foldl (\<lambda>m s. max m (dss_last_seen_ms s)) 0 ?ss"
    by (simp add: recompute_discovery_side_state_def Let_def)
  then have "dsd_last_seen_ms r = foldl (\<lambda>m s. max m (dss_last_seen_ms s)) 0 ?ss"
    using assms by (simp add: route_ok_def)
  moreover have "set ?ss \<noteq> {}" using assms by (simp add: route_ok_def bt_values_def)
  ultimately show ?thesis by (simp add: fold)
qed

lemma route_seen:
  assumes "route_ok r" and "(sender, s) \<in> set (dsd_announcers r)"
  shows "dss_last_seen_ms s \<le> dsd_last_seen_ms r"
  unfolding route_seen_max [OF assms(1)] using assms(2) by (force simp: bt_values_def intro: Max_ge)

section \<open>The plan uses what was learned\<close>

lemma route_allowed_cong:
  assumes "sides st' = sides st" and "route_overrides st' = route_overrides st"
    and "typed_route_overrides st' = typed_route_overrides st"
  shows "route_allowed C st' src ty d \<longleftrightarrow> route_allowed C st src ty d"
  by (simp only: route_allowed_def side_get_def assms)

lemma learned_reach:
  assumes "learn_discovery_packet L E N now pkt (Some side) st = (st', Ok True)" and "table_ok (discovery_routes st)"
    and "pkt_ty pkt = DiscoveryAnnounce" and "pkt_sender pkt \<noteq> rn_sender N"
    and "decode_discovery_announce E pkt = Ok reach" and "ep \<in> set reach" and "\<not> is_link_local_only E ep"
    and "bt_get (discovery_routes st') side = Some r"
  shows "ep \<in> set (dsd_reachable r)" "now \<le> dsd_last_seen_ms r"
proof -
  have ty: "is_discovery_type (pkt_ty pkt)" using assms(3) by (simp add: is_discovery_type_def)
  obtain ss ch where ls: "learned_sender_state E (side_is_link_local st side) pkt (old_sender_state (pkt_sender pkt) side st) = Ok (ss, ch)"
    and r: "r = learned_route (pkt_sender pkt) (ss\<lparr>dss_last_seen_ms := now\<rparr>) side st"
    by (rule learn_result [OF assms(1,2) ty assms(4,8)])
  have ep: "ep \<in> set (dss_reachable ss)"
    using announced_reachable [OF ls assms(3,5,6) _ old_sender_distinct [OF assms(2)]] assms(7) by simp
  have "bt_get (dsd_announcers r) (pkt_sender pkt) = Some (ss\<lparr>dss_last_seen_ms := now\<rparr>)"
    by (simp add: r learned_route_def Let_def bt_get_insert_here)
  then have mem: "(pkt_sender pkt, ss\<lparr>dss_last_seen_ms := now\<rparr>) \<in> set (dsd_announcers r)"
    by (simp add: bt_get_def map_of_SomeD)
  have ok: "route_ok r"
    using assms(8) table_okD [OF learn_table_ok [OF assms(1,2)]] by (auto simp: bt_get_def dest: map_of_SomeD)
  have "dsd_reachable (recompute_discovery_side_state r) = sort_dedup (concat (map dss_reachable (bt_values (dsd_announcers r))))"
    by (simp add: recompute_discovery_side_state_def Let_def)
  then have "set (dsd_reachable r) = (\<Union>s \<in> set (bt_values (dsd_announcers r)). set (dss_reachable s))"
    using ok by (simp add: route_ok_def)
  then show "ep \<in> set (dsd_reachable r)" using ep mem by (force simp: bt_values_def)
  show "now \<le> dsd_last_seen_ms r" using route_seen [OF ok mem] by simp
qed


lemma fanout_selection:
  assumes "bt_get (source_route_modes st) src = None"
  shows "apply_route_selection st src ss Flood = (st, ss)"
  using assms by (simp add: apply_route_selection_def)

lemma discovered_plan:
  assumes "item_route_info E it = Ok (eps, ty)" and "reliable_control_target_packet_id E it = Ok None"
    and "\<not> is_discovery_type ty" and "\<not> is_timesync_type ty" and "is_reliable_type E ty"
    and "bt_get (source_route_modes st) exclude = None"
    and "targets = map fst (filter (\<lambda>(_, route). list_ex (\<lambda>ep. ep \<in> set (dsd_reachable route)) eps)
      (usable_discovery_routes E st exclude ty (endpoints_are_link_local_only E eps) now_ms))"
    and "targets \<noteq> []"
  shows "remote_side_plan E N tracker now_ms it exclude st = (st, Ok targets)"
proof -
  have "discovery_routes st \<noteq> []" using assms(7,8) by (auto simp: usable_discovery_routes_def)
  moreover have [simp]: "reaches_source None = (\<lambda>_. False)" by (simp add: reaches_source_def fun_eq_iff)
  ultimately show ?thesis
    using assms
    by (simp add: remote_side_plan_def preferred_timesync_route_source_def reaches_source_def fanout_selection Let_def)
qed

section \<open>Neighbours\<close>

text \<open>Router \<open>st\<close> knows, from \<open>sender\<close> at its \<open>side\<close>, that board \<open>z\<close> reaches \<open>ep\<close>.\<close>

definition knows :: "router_inner \<Rightarrow> nat \<Rightarrow> bytes \<Rightarrow> u64 \<Rightarrow> bytes \<Rightarrow> data_endpoint \<Rightarrow> bool" where
  "knows st side sender seen z ep \<longleftrightarrow>
     (\<exists>s. announcer_of (discovery_routes st) side sender = Some s \<and> dss_last_seen_ms s = seen \<and>
        (z, ep) \<in> endpoints_at (view (dss_topology_boards s)))"

lemma knows_fresh:
  assumes "knows st side sender seen z ep" and "table_ok (discovery_routes st)" and "is_fresh now seen"
  shows "\<exists>a \<in> set (fresh_announcers now st). (z, ep) \<in> known_endpoints a"
proof -
  obtain r s where r: "bt_get (discovery_routes st) side = Some r" and s: "bt_get (dsd_announcers r) sender = Some s"
    and seen: "dss_last_seen_ms s = seen" and z: "(z, ep) \<in> endpoints_at (view (dss_topology_boards s))"
    using assms(1) by (auto simp: knows_def announcer_of_def split: bind_splits)
  have mem: "(side, r) \<in> set (discovery_routes st)" "(sender, s) \<in> set (dsd_announcers r)"
    using r s by (simp_all add: bt_get_def map_of_SomeD)
  have "is_fresh now (dsd_last_seen_ms r)"
    using is_fresh_mono [OF assms(3)] route_seen [OF table_okD [OF assms(2) mem(1)] mem(2)] seen by simp
  then have "(sender, s) \<in> set (fresh_announcers now st)"
    using mem assms(3) seen by (force simp: fresh_announcers_def)
  moreover have "(z, ep) \<in> known_endpoints (sender, s)"
    using z by (auto simp: known_endpoints_def view_def gather_def)
  ultimately show ?thesis by blast
qed

text \<open>
  Router \<open>N'\<close> hears on its \<open>side\<close> the topology that \<open>N\<close> advertises at \<open>t\<close>, and its budget
  leaves the route in the table.
\<close>

definition hears ::
  "layout \<Rightarrow> env \<Rightarrow> router_node \<Rightarrow> time_sync_runtime \<Rightarrow> instant \<Rightarrow> bool \<Rightarrow> router_inner \<Rightarrow>
     router_node \<Rightarrow> nat \<Rightarrow> router_inner \<Rightarrow> router_inner \<Rightarrow> bool" where
  "hears L E N tr t ll st N' side st0 st1 \<longleftrightarrow>
     (\<exists>pkt. pkt_ty pkt = DiscoveryTopology \<and> pkt_sender pkt = rn_sender N \<and>
        decode_discovery_topology E pkt = Ok (advertised_discovery_topology_for_link E N tr t ll st) \<and>
        learn_discovery_packet L E N' (in_ms t) pkt (Some side) st0 = (st1, Ok True)) \<and>
     bt_get (discovery_routes st1) side \<noteq> None"

lemma advertised_normal: "boards_normal (advertised_discovery_topology_for_link E N tr t ll st)"
  by (simp add: advertised_discovery_topology_for_link_def normalize_boards_normal)

lemma hears_knows:
  assumes "hears L E N tr t ll st N' side st0 st1" and "table_ok (discovery_routes st0)" and "rn_sender N \<noteq> rn_sender N'"
    and "(z, ep) \<in> endpoints_at (view (advertised_discovery_topology_for_link E N tr t ll st))" and "\<not> is_link_local_only E ep"
  shows "knows st1 side (rn_sender N) (in_ms t) z ep" "table_ok (discovery_routes st1)"
proof -
  obtain pkt r where ty: "pkt_ty pkt = DiscoveryTopology" and snd: "pkt_sender pkt = rn_sender N"
    and dec: "decode_discovery_topology E pkt = Ok (advertised_discovery_topology_for_link E N tr t ll st)"
    and learn: "learn_discovery_packet L E N' (in_ms t) pkt (Some side) st0 = (st1, Ok True)"
    and r: "bt_get (discovery_routes st1) side = Some r"
    using assms(1) by (auto simp: hears_def)
  have d: "is_discovery_type (pkt_ty pkt)" "pkt_sender pkt \<noteq> rn_sender N'" using ty snd assms(3) by (simp_all add: is_discovery_type_def)
  obtain ss ch where ls: "learned_sender_state E (side_is_link_local st0 side) pkt (old_sender_state (pkt_sender pkt) side st0) = Ok (ss, ch)"
    and a: "announcer_of (discovery_routes st1) side (pkt_sender pkt) = Some (ss\<lparr>dss_last_seen_ms := in_ms t\<rparr>)"
    by (rule learn_result [OF learn assms(2) d r])
  from learned_topology_endpoints [OF ls ty dec advertised_normal] a snd assms(4,5)
  show "knows st1 side (rn_sender N) (in_ms t) z ep" by (simp add: knows_def)
  show "table_ok (discovery_routes st1)" by (rule learn_table_ok [OF learn assms(2)])
qed

lemma hears_forwards:
  assumes "hears L E N tr t ll st N' side st0 st1" and "table_ok (discovery_routes st0)" and "table_ok (discovery_routes st)"
    and "rn_sender N \<noteq> rn_sender N'" and "knows st nside sender seen z ep" and "is_fresh (in_ms t) seen"
    and "\<not> is_link_local_only E ep"
  shows "knows st1 side (rn_sender N) (in_ms t) z ep" "table_ok (discovery_routes st1)"
proof -
  have "(z, ep) \<in> endpoints_at (view (advertised_discovery_topology_for_link E N tr t ll st))"
    using knows_fresh [OF assms(5,3,6)] assms(7) by (auto simp: advertised_topology_endpoints)
  from hears_knows [OF assms(1,2,4) this assms(7)]
  show "knows st1 side (rn_sender N) (in_ms t) z ep" "table_ok (discovery_routes st1)" by simp_all
qed

text \<open>
  Two neighbours \<open>A\<close> and \<open>B\<close> exchange topologies at \<open>t\<close>, no later than the lifetime of a route
  after their last exchange. Nobody else announces anything.
\<close>

inductive gossip ::
  "layout \<Rightarrow> env \<Rightarrow> router_node \<Rightarrow> router_node \<Rightarrow> nat \<Rightarrow> nat \<Rightarrow> router_inner \<times> router_inner \<times> u64 \<Rightarrow>
     router_inner \<times> router_inner \<times> u64 \<Rightarrow> bool"
  for L E A B a b where
  Quiet: "gossip L E A B a b s s"
| Exchange: "gossip L E A B a b s (sa, sb, seen) \<Longrightarrow> is_fresh (in_ms t) seen \<Longrightarrow>
     hears L E A tra t lla sa B b sb sb' \<Longrightarrow> hears L E B trb t llb sb' A a sa sa' \<Longrightarrow>
     gossip L E A B a b s (sa', sb', in_ms t)"

lemma gossip_knows:
  assumes "gossip L E A B a b s s'" and "rn_sender A \<noteq> rn_sender B" and "\<not> is_link_local_only E ep"
    and "s = (sa, sb, seen)" and "table_ok (discovery_routes sa)" and "table_ok (discovery_routes sb)"
    and "knows sa a (rn_sender B) seen z ep" and "knows sb b (rn_sender A) seen z ep"
  shows "case s' of (sa', sb', seen') \<Rightarrow>
    knows sa' a (rn_sender B) seen' z ep \<and> knows sb' b (rn_sender A) seen' z ep \<and>
    table_ok (discovery_routes sa') \<and> table_ok (discovery_routes sb')"
  using assms
proof (induction rule: gossip.induct)
  case (Exchange s xa xb old t tra lla xb' trb llb xa')
  then have IH: "knows xa a (rn_sender B) old z ep" "knows xb b (rn_sender A) old z ep"
    "table_ok (discovery_routes xa)" "table_ok (discovery_routes xb)" by simp_all
  note b = hears_forwards [OF Exchange.hyps(3) IH(4,3) Exchange.prems(1) IH(1) Exchange.hyps(2) Exchange.prems(2)]
  have "rn_sender B \<noteq> rn_sender A" using Exchange.prems(1) by simp
  from hears_forwards [OF Exchange.hyps(4) IH(3) b(2) this b(1) _ Exchange.prems(2)] b
  show ?case by simp
qed simp

section \<open>Expected destinations\<close>

lemma collect_mono: "bt_wf out \<Longrightarrow> bt_contains out h \<Longrightarrow> bt_contains (collect_destinations cap cs out) h"
  by (induction cap cs out rule: collect_destinations.induct) (auto simp: Let_def bt_contains_def bt.get_insert bt_wf_insert)

lemma collect_contains:
  assumes "bt_wf out" and "(h, side) \<in> set cs" and "length out + length cs \<le> cap"
  shows "bt_contains (collect_destinations cap cs out) h"
  using assms
proof (induction cap cs out rule: collect_destinations.induct)
  case (2 cap h' side' cs out)
  let ?out = "bt_insert h' side' out"
  have wf: "bt_wf ?out" using "2.prems"(1) by (rule bt_wf_insert)
  have len: "length ?out \<le> Suc (length out)"
    using bt.length_keys_insert [OF "2.prems"(1), of h' side'] by simp
  have here: "bt_contains ?out h'" by (simp add: bt_contains_def bt_get_insert_here)
  show ?case
  proof (cases "cap \<le> length ?out")
    case True
    then have "length cs = 0" using len "2.prems"(3) unfolding list.size by linarith
    then have "cs = []" by simp
    then show ?thesis using "2.prems"(2) True here by (simp add: Let_def)
  next
    case False
    show ?thesis
    proof (cases "(h, side) = (h', side')")
      case True
      then show ?thesis using False collect_mono [OF wf here] by (simp add: Let_def)
    next
      case neq: False
      then have "(h, side) \<in> set cs" using "2.prems"(2) by auto
      then show ?thesis using "2.IH" [OF refl _ wf] False len "2.prems"(3) by (simp add: Let_def)
    qed
  qed
qed simp

lemma knows_candidate:
  assumes "knows st side sender seen z ep" and "table_ok (discovery_routes st)" and "is_fresh now seen"
    and "ep \<in> set eps" and "is_end_to_end_destination_sender z" and "route_allowed C st None (Some ty) side"
    and "endpoints_are_link_local_only C eps \<longrightarrow> side_is_link_local st side"
  shows "(sender_hash z, side) \<in> set (destination_candidates C now eps ty st)"
proof -
  obtain r s where r: "bt_get (discovery_routes st) side = Some r" and s: "bt_get (dsd_announcers r) sender = Some s"
    and seen: "dss_last_seen_ms s = seen" and z: "(z, ep) \<in> endpoints_at (view (dss_topology_boards s))"
    using assms(1) by (auto simp: knows_def announcer_of_def split: bind_splits)
  have mem: "(side, r) \<in> set (discovery_routes st)" "(sender, s) \<in> set (dsd_announcers r)"
    using r s by (simp_all add: bt_get_def map_of_SomeD)
  have fr: "is_fresh now (dsd_last_seen_ms r)"
    using is_fresh_mono [OF assms(3)] route_seen [OF table_okD [OF assms(2) mem(1)] mem(2)] seen by simp
  obtain sd where sd: "side_get st side = Some sd" using route_allowed_facts(1) [OF assms(6)] by auto
  obtain b where b: "b \<in> set (dss_topology_boards s)" "tb_sender_id b = z" "ep \<in> set (tb_reachable_endpoints b)"
    using z by (auto simp: view_def gather_def)
  have "(sender_hash z, side) \<in> set (map (\<lambda>b. (sender_hash (tb_sender_id b), side))
      (filter (\<lambda>b. is_end_to_end_destination_sender (tb_sender_id b) \<and> list_ex (\<lambda>ep. ep \<in> set (tb_reachable_endpoints b)) eps)
        (dss_topology_boards s)))"
    using b assms(4,5) by (auto simp: list_ex_iff)
  moreover have "s \<in> set (bt_values (dsd_announcers r))" using mem(2) by (force simp: bt_values_def)
  ultimately have "(sender_hash z, side) \<in> set (concat (map (\<lambda>ss.
       if \<not> is_fresh now (dss_last_seen_ms ss) then []
       else map (\<lambda>b. (sender_hash (tb_sender_id b), side))
              (filter (\<lambda>b. is_end_to_end_destination_sender (tb_sender_id b) \<and>
                 list_ex (\<lambda>ep. ep \<in> set (tb_reachable_endpoints b)) eps) (dss_topology_boards ss)))
     (bt_values (dsd_announcers r))))" (is "_ \<in> set ?cs")
    using assms(3) seen by (simp only: set_concat set_map) (rule UN_I, erule imageI, simp)
  moreover have "\<not> (endpoints_are_link_local_only C eps \<and> \<not> opt_link_local_enabled (side_opts sd))"
    using assms(7) sd by (simp add: side_is_link_local_def)
  ultimately show ?thesis
    unfolding destination_candidates_def set_concat set_map
    by (intro UN_I [OF imageI [OF mem(1)]]) (simp only: case_prod_conv fr sd assms(6) option.case if_False not_True_eq_False set_concat set_map)
qed

end
