(* ===== verification/Sample_Network.thy ===== *)
theory Sample_Network
  imports Router_Gossip_Laws Router_Properties Route_Properties Discovery_Properties
begin

text \<open>
  Concrete routers for the promises of discovery: a router with the largest budget that has heard an
  announcement, and two neighbours that exchange topologies, evaluated step by step.
\<close>

section \<open>A router with room\<close>

text \<open>With the largest budget no learned route is evicted, since the use of memory saturates there.\<close>

definition roomy_env :: env where
  "roomy_env = sample_env\<lparr>max_queue_budget := usize_limit - 1\<rparr>"

definition quiet :: router_inner where
  "quiet = two_sided\<lparr>source_route_modes := []\<rparr>"

lemma shared_bytes_saturate: "shared_queue_bytes_used L st \<le> usize_limit - 1"
  by (simp add: shared_queue_bytes_used_def usat_add_def)

lemma roomy_fit [simp]: "fit_discovery_budget L (max_queue_budget roomy_env) st = st"
  using shared_bytes_saturate [of L st] by (subst fit_discovery_budget.simps) (simp add: roomy_env_def)

lemma roomy_schema:
  "schema_wf roomy_env" "max_stack_payload roomy_env = 64" "valid_endpoint roomy_env ep = valid_endpoint sample_env ep"
  "is_link_local_only roomy_env ep = is_link_local_only sample_env ep"
  "board_valid roomy_env b = board_valid sample_env b"
proof -
  show "schema_wf roomy_env"
    using sample_schema_wf by (simp add: roomy_env_def schema_wf_def data_type_count_def data_endpoint_count_def valid_endpoint_def all_endpoints_def)
  show v: "valid_endpoint roomy_env ep = valid_endpoint sample_env ep" for ep
    by (simp add: roomy_env_def valid_endpoint_def all_endpoints_def)
  show "board_valid roomy_env b = board_valid sample_env b"
    using \<open>schema_wf roomy_env\<close> sample_schema_wf v by (simp add: board_valid_def endpoint_sendable_def)
  show "is_link_local_only roomy_env ep = is_link_local_only sample_env ep"
    by (cases ep) (simp_all add: roomy_env_def is_link_local_only_def)
qed (simp add: roomy_env_def sample_fields)

text \<open>What a router with room and no waiting packets does with a discovery packet.\<close>

lemma roomy_learn:
  assumes "is_discovery_type (pkt_ty pkt)" and "pkt_sender pkt \<noteq> rn_sender N" and "end_to_end_reliable_tx st = []"
    and "learned_sender_state roomy_env (side_is_link_local st side) pkt (old_sender_state (pkt_sender pkt) side st) = Ok (ss, ch)"
  shows "learn_discovery_packet L roomy_env N now pkt (Some side) st =
    ((if ch then note_discovery_topology_change now else id)
       (st\<lparr>discovery_routes := bt_insert side
          (learned_route (pkt_sender pkt) (ss\<lparr>dss_last_seen_ms := now\<rparr>) side st) (discovery_routes st)\<rparr>), Ok True)"
proof -
  have rec: "end_to_end_reliable_tx s = [] \<Longrightarrow> reconcile_end_to_end_reliable_destinations roomy_env now s = (s, Ok ())" for s
    by (simp add: reconcile_end_to_end_reliable_destinations_def bt_keys_def)
  show ?thesis
    using assms(1,2,4) by (simp add: learn_discovery_packet_def old_sender_state_def learned_route_def Let_def rec assms(3))
qed

text \<open>A quiet router that has heard board \<open>R2\<close> announce an endpoint on side 0.\<close>

lemma heard_announce:
  obtains p st' r where "pkt_ty p = DiscoveryAnnounce" "pkt_sender p = str ''R2''"
    "decode_discovery_announce roomy_env p = Ok [UserEndpoint 1]"
    "learn_discovery_packet sample_layout roomy_env sample_node 1000 p (Some 0) quiet = (st', Ok True)"
    "bt_get (discovery_routes st') 0 = Some r" "sides st' = sides quiet" "source_route_modes st' = []"
    "route_overrides st' = route_overrides quiet" "typed_route_overrides st' = typed_route_overrides quiet"
proof -
  have "sort_dedup [UserEndpoint 1] = [UserEndpoint 1]" by (simp add: sort_dedup_def)
  then obtain p where p: "pkt_ty p = DiscoveryAnnounce" "pkt_sender p = str ''R2''"
    "decode_discovery_announce roomy_env p = Ok [UserEndpoint 1]"
    using announce_packet [OF roomy_schema(1), of "[UserEndpoint 1]" "str ''R2''" 7] by (auto simp: roomy_schema sample_valid)
  have "str ''R2'' \<noteq> str ''TEST''" by code_simp
  then have n: "is_discovery_type (pkt_ty p)" "pkt_sender p \<noteq> rn_sender sample_node"
    by (simp_all add: p is_discovery_type_def sample_node_def)
  obtain ss ch where ls: "learned_sender_state roomy_env (side_is_link_local quiet 0) p (old_sender_state (pkt_sender p) 0 quiet) = Ok (ss, ch)"
    using p by (simp add: learned_sender_state_def Let_def)
  have "end_to_end_reliable_tx quiet = []" by (simp add: quiet_def two_sided_def)
  note learn = roomy_learn [OF n this ls, of sample_layout 1000]
  show thesis
    by (rule that [OF p learn])
      (auto simp: note_discovery_topology_change_def bt_get_insert_here quiet_def)
qed

lemma gps_route_info: "item_route_info roomy_env (Item_Packet gps_packet) = Ok ([UserEndpoint 0, UserEndpoint 1], UserType 0)"
proof -
  have "packet_new roomy_env (UserType 0) [UserEndpoint 1, UserEndpoint 0] (str ''TEST'') 1000 (replicate 12 7) = Ok gps_packet"
    by (simp add: packet_new_def sample_meta gps_packet_def small_payload_new_cases get_data_type_def usize_limit_def
        sample_fields roomy_env_def)
  then have "packet_validate roomy_env gps_packet = Ok ()" by (rule packet_new_validates)
  moreover have "sort_dedup [UserEndpoint 1, UserEndpoint 0] = [UserEndpoint 0, UserEndpoint 1]"
    by (simp add: sort_dedup_def insort_key.simps less_eq_data_endpoint_def)
  ultimately show ?thesis by (simp add: item_route_info_def) (simp add: gps_packet_def)
qed

section \<open>Two neighbours\<close>

text \<open>What a router with room hears from a neighbour.\<close>

lemma roomy_hears:
  assumes "rn_sender N \<noteq> rn_sender N'" and "end_to_end_reliable_tx st0 = []"
    and "list_all (board_valid sample_env) (advertised_discovery_topology_for_link roomy_env N tr t ll st)"
    and "length (advertised_discovery_topology_for_link roomy_env N tr t ll st) < 2 ^ 32"
  obtains st1 where "hears L roomy_env N tr t ll st N' side st0 st1" "end_to_end_reliable_tx st1 = []"
    "sides st1 = sides st0" "route_overrides st1 = route_overrides st0" "typed_route_overrides st1 = typed_route_overrides st0"
    "discovery_routes st1 = bt_insert side (learned_route (rn_sender N)
       ((refresh_sender_topology_state ((old_sender_state (rn_sender N) side st0)\<lparr>dss_topology_boards :=
          map (\<lambda>b. b\<lparr>tb_reachable_endpoints := filter (\<lambda>ep. side_is_link_local st0 side \<or> \<not> is_link_local_only roomy_env ep)
            (tb_reachable_endpoints b)\<rparr>) (advertised_discovery_topology_for_link roomy_env N tr t ll st)\<rparr>))
          \<lparr>dss_last_seen_ms := in_ms t\<rparr>) side st0) (discovery_routes st0)"
proof -
  let ?adv = "advertised_discovery_topology_for_link roomy_env N tr t ll st"
  have "list_all (board_valid roomy_env) ?adv" using assms(3) by (simp add: list_all_iff roomy_schema)
  with assms(4) obtain p where p: "pkt_ty p = DiscoveryTopology" "pkt_sender p = rn_sender N"
    "decode_discovery_topology roomy_env p = Ok (normalize_topology_boards ?adv)"
    using topology_packet [of roomy_env ?adv "rn_sender N" 0] by (auto simp: roomy_schema)
  then have dec: "decode_discovery_topology roomy_env p = Ok ?adv"
    using normalize_boards_id [OF advertised_normal] by simp
  have d: "is_discovery_type (pkt_ty p)" "pkt_sender p \<noteq> rn_sender N'" using p assms(1) by (simp_all add: is_discovery_type_def)
  let ?ss = "refresh_sender_topology_state ((old_sender_state (rn_sender N) side st0)\<lparr>dss_topology_boards :=
          map (\<lambda>b. b\<lparr>tb_reachable_endpoints := filter (\<lambda>ep. side_is_link_local st0 side \<or> \<not> is_link_local_only roomy_env ep)
            (tb_reachable_endpoints b)\<rparr>) ?adv\<rparr>)"
  obtain ch where ls: "learned_sender_state roomy_env (side_is_link_local st0 side) p (old_sender_state (pkt_sender p) side st0) = Ok (?ss, ch)"
    using p dec by (simp add: learned_sender_state_def Let_def)
  note learn = roomy_learn [OF d assms(2) ls, of L "in_ms t", unfolded p(2)]
  define st1 where "st1 = (if ch then note_discovery_topology_change (in_ms t) else id)
    (st0\<lparr>discovery_routes := bt_insert side (learned_route (rn_sender N) (?ss\<lparr>dss_last_seen_ms := in_ms t\<rparr>) side st0) (discovery_routes st0)\<rparr>)"
  have "hears L roomy_env N tr t ll st N' side st0 st1"
    unfolding hears_def using p dec learn by (auto simp: st1_def bt_get_insert_here)
  then show thesis by (rule that) (simp_all add: st1_def note_discovery_topology_change_def assms(2))
qed

text \<open>Two routers \<open>A\<close> and \<open>B\<close>, of which the first serves an endpoint, and boards \<open>A\<close>, \<open>B\<close> and \<open>Z\<close>.\<close>

definition router_a :: router_node where
  "router_a = \<lparr>rn_sender = str ''A'', rn_handlers = [\<lparr>eh_endpoint = UserEndpoint 1, eh_handler = Packet_Handler\<rparr>],
     rn_reliable_enabled = True, rn_timesync = None\<rparr>"

definition router_b :: router_node where
  "router_b = \<lparr>rn_sender = str ''B'', rn_handlers = [], rn_reliable_enabled = True, rn_timesync = None\<rparr>"

definition no_sync :: time_sync_runtime where "no_sync = runtime_new roomy_env None"

definition at_one :: instant where "at_one = \<lparr>in_ms = 1000, in_ns = 1000000000\<rparr>"

definition board_node :: "string \<Rightarrow> data_endpoint list \<Rightarrow> string list \<Rightarrow> topology_board_node" where
  "board_node n eps cs =
     \<lparr>tb_sender_id = str n, tb_reachable_endpoints = eps, tb_reachable_timesync_sources = [], tb_connections = map str cs\<rparr>"

text \<open>A quiet router that knows, from \<open>n\<close> on side 0, boards that reach the endpoint.\<close>

definition told :: "string \<Rightarrow> topology_board_node list \<Rightarrow> discovery_side_state" where
  "told n bs =
     \<lparr>dsd_reachable = [UserEndpoint 1], dsd_timesync_sources = [], dsd_last_seen_ms = 1000,
      dsd_announcers = [(str n, \<lparr>dss_reachable = [UserEndpoint 1], dss_timesync_sources = [], dss_topology_boards = bs,
        dss_last_seen_ms = 1000\<rparr>)]\<rparr>"

lemma open_endpoint: "\<not> is_link_local_only roomy_env (UserEndpoint (Suc 0))"
  by (simp add: is_link_local_only_def roomy_env_def sample_defs)

lemma names: "str ''A'' = [65]" "str ''B'' = [66]" "str ''Z'' = [90]"
  by code_simp+

lemmas board_evals = board_node_def names normalize_topology_boards_def normalize_board_def sort_dedup_def sort_dedup_strings_def
  merge_topology_boards_def bt_collect_def merge_board_def bt_insert_def bt_get_def bt_values_def summarize_topology_boards_def

lemma local_boards:
  assumes "discovery_routes st = (case n of None \<Rightarrow> [] | Some (m, bs) \<Rightarrow> [(0, told m bs)])"
  shows "local_discovery_topology_board roomy_env router_a no_sync at_one True st =
      board_node ''A'' [UserEndpoint 1] (case n of None \<Rightarrow> [] | Some (m, bs) \<Rightarrow> [m])"
    "local_discovery_topology_board roomy_env router_b no_sync at_one True st =
      board_node ''B'' [] (case n of None \<Rightarrow> [] | Some (m, bs) \<Rightarrow> [m])"
    "fresh_announcers (in_ms at_one) st = (case n of None \<Rightarrow> [] | Some (m, bs) \<Rightarrow> dsd_announcers (told m bs))"
  using assms
  by (cases n; simp add: local_discovery_topology_board_def local_discovery_endpoints_def router_a_def router_b_def
     local_discovery_timesync_sources_def no_sync_def runtime_new_def fresh_announcers_def at_one_def board_node_def
     sort_dedup_def is_discovery_endpoint_def told_def is_fresh_def sat_sub_def DISCOVERY_ROUTE_TTL_MS_def split: prod.splits)+

lemmas advertised_evals = advertised_discovery_topology_for_link_def advertised_boards_of_def told_def router_a_def router_b_def
  open_endpoint at_one_def

lemma adv_a_alone:
  assumes "discovery_routes st = []"
  shows "advertised_discovery_topology_for_link roomy_env router_a no_sync at_one True st = [board_node ''A'' [UserEndpoint 1] []]"
  using local_boards [of st None] assms
  by (simp add: advertised_evals) (simp add: board_evals)

lemma adv_b_of_a:
  assumes "discovery_routes st = [(0, told ''A'' [board_node ''A'' [UserEndpoint 1] []])]"
  shows "advertised_discovery_topology_for_link roomy_env router_b no_sync at_one True st =
    [board_node ''A'' [UserEndpoint 1] [''B''], board_node ''B'' [] [''A'']]"
  using local_boards [of st "Some (''A'', [board_node ''A'' [UserEndpoint 1] []])"] assms
  by (simp add: advertised_evals) (simp add: board_evals)

lemma adv_a_of_z:
  assumes "discovery_routes st = [(0, told ''B'' [board_node ''Z'' [UserEndpoint 1] []])]"
  shows "advertised_discovery_topology_for_link roomy_env router_a no_sync at_one True st =
    [board_node ''A'' [UserEndpoint 1] [''B''], board_node ''Z'' [UserEndpoint 1] []]"
  using local_boards [of st "Some (''B'', [board_node ''Z'' [UserEndpoint 1] []])"] assms
  by (simp add: advertised_evals) (simp add: board_evals)

lemma adv_b_of_az:
  assumes "discovery_routes st = [(0, told ''A'' [board_node ''A'' [UserEndpoint 1] [''B''], board_node ''Z'' [UserEndpoint 1] []])]"
  shows "advertised_discovery_topology_for_link roomy_env router_b no_sync at_one True st =
    [board_node ''A'' [UserEndpoint 1] [''B''], board_node ''B'' [] [''A''], board_node ''Z'' [UserEndpoint 1] []]"
  using local_boards [of st "Some (''A'', [board_node ''A'' [UserEndpoint 1] [''B''], board_node ''Z'' [UserEndpoint 1] []])"] assms
  by (simp add: advertised_evals) (simp add: board_evals)

lemma boards_ok:
  "list_all (board_valid sample_env) [board_node ''A'' [UserEndpoint 1] cs, board_node ''B'' [] cs, board_node ''Z'' [UserEndpoint 1] cs]"
  if "set cs \<subseteq> {''A'', ''B''}" "length cs < 2"
proof -
  have "from_utf8 (str ''A'')" "from_utf8 (str ''B'')" "from_utf8 (str ''Z'')" by code_simp+
  then show ?thesis using that
    by (auto simp: board_node_def board_valid_def string_valid_def endpoint_sendable_def sample_valid sample_schema_wf names list_all_iff)
qed

text \<open>After hearing boards that reach the endpoint, a side holds exactly them.\<close>

definition boards_heard :: "string \<Rightarrow> bool \<Rightarrow> topology_board_node list \<Rightarrow> router_inner \<Rightarrow> (nat, discovery_side_state) btree" where
  "boards_heard n ll bs st0 = bt_insert 0 (learned_route (str n)
       ((refresh_sender_topology_state ((old_sender_state (str n) 0 st0)\<lparr>dss_topology_boards :=
          map (\<lambda>b. b\<lparr>tb_reachable_endpoints := filter (\<lambda>ep. ll \<or> \<not> is_link_local_only roomy_env ep)
            (tb_reachable_endpoints b)\<rparr>) bs\<rparr>)) \<lparr>dss_last_seen_ms := in_ms at_one\<rparr>) 0 st0) (discovery_routes st0)"

lemmas heard_evals = boards_heard_def learned_route_def old_sender_state_def refresh_sender_topology_state_def open_endpoint told_def
     recompute_discovery_side_state_def side_state_default_def sender_state_default_def at_one_def Let_def

lemma heard_boards:
  "discovery_routes st0 = [] \<Longrightarrow> boards_heard ''A'' ll [board_node ''A'' [UserEndpoint 1] []] st0 =
     [(0, told ''A'' [board_node ''A'' [UserEndpoint 1] []])]"
  "discovery_routes st0 = [] \<Longrightarrow> boards_heard ''B'' ll [board_node ''A'' [UserEndpoint 1] [''B''], board_node ''B'' [] [''A'']] st0 =
     [(0, told ''B'' [board_node ''A'' [UserEndpoint 1] [''B''], board_node ''B'' [] [''A'']])]"
  "discovery_routes st0 = [(0, told ''A'' [board_node ''Z'' [UserEndpoint 1] []])] \<Longrightarrow>
     boards_heard ''A'' ll [board_node ''A'' [UserEndpoint 1] [''B''], board_node ''Z'' [UserEndpoint 1] []] st0 =
     [(0, told ''A'' [board_node ''A'' [UserEndpoint 1] [''B''], board_node ''Z'' [UserEndpoint 1] []])]"
  by (simp add: heard_evals, simp add: board_evals)+

lemma board_names: "rn_sender router_a = str ''A''" "rn_sender router_b = str ''B''" "str ''A'' \<noteq> str ''B''" "str ''B'' \<noteq> str ''A''"
  by (simp_all add: router_a_def router_b_def names)

lemma a_tells_b:
  assumes "end_to_end_reliable_tx sb = []"
    and "list_all (board_valid sample_env) bs" and "length bs < 4"
    and "advertised_discovery_topology_for_link roomy_env router_a no_sync at_one True sa = bs"
  obtains sb' where "hears sample_layout roomy_env router_a no_sync at_one True sa router_b 0 sb sb'"
    "discovery_routes sb' = boards_heard ''A'' (side_is_link_local sb 0) bs sb" "end_to_end_reliable_tx sb' = []"
  by (rule roomy_hears [of router_a router_b sb no_sync at_one True sa sample_layout 0])
    (use assms in \<open>simp_all add: board_names boards_heard_def\<close>)

lemma b_tells_a:
  assumes "end_to_end_reliable_tx sa = []"
    and "list_all (board_valid sample_env) bs" and "length bs < 4"
    and "advertised_discovery_topology_for_link roomy_env router_b no_sync at_one True sb = bs"
  obtains sa' where "hears sample_layout roomy_env router_b no_sync at_one True sb router_a 0 sa sa'"
    "discovery_routes sa' = boards_heard ''B'' (side_is_link_local sa 0) bs sa" "sides sa' = sides sa"
    "route_overrides sa' = route_overrides sa" "typed_route_overrides sa' = typed_route_overrides sa"
  by (rule roomy_hears [of router_b router_a sa no_sync at_one True sb sample_layout 0])
    (use assms in \<open>simp_all add: board_names boards_heard_def\<close>)

end
