(* ===== verification/Router_Leave_Laws.thy ===== *)
theory Router_Leave_Laws
  imports Router_Gossip_Laws
begin

text \<open>
  Why a packet that waits for end-to-end acknowledgements leaves its table. Each operation that can
  remove an entry has a lemma with the condition under which it does.
\<close>

section \<open>What the expected destinations depend on\<close>

lemma expected_cong:
  assumes "sides b = sides a" "route_overrides b = route_overrides a" "typed_route_overrides b = typed_route_overrides a"
    "discovery_routes b = discovery_routes a"
  shows "expected_end_to_end_destinations E now it b = expected_end_to_end_destinations E now it a"
proof -
  have "side_get b = side_get a" by (simp add: fun_eq_iff side_get_def assms(1))
  moreover have "route_allowed E b = route_allowed E a" by (intro ext route_allowed_cong [OF assms(1-3)])
  ultimately show ?thesis
    unfolding expected_end_to_end_destinations_def destination_candidates_def assms(4) by (simp only:)
qed

text \<open>None of the boards a tracked packet still waits for is expected to acknowledge it any more.\<close>

definition holders_gone :: "env \<Rightarrow> u64 \<Rightarrow> router_inner \<Rightarrow> end_to_end_reliable_sent \<Rightarrow> bool" where
  "holders_gone E now st sent \<longleftrightarrow> e2e_tracked_destinations sent \<and>
     (\<exists>expected. expected_end_to_end_destinations E now (e2e_data sent) st = Ok expected \<and>
        set (bt_keys (e2e_pending_destinations sent)) \<inter> set (bt_keys expected) = {})"

lemma retain_empty: "retain_destinations expected pending = [] \<longleftrightarrow> set (bt_keys pending) \<inter> set (bt_keys expected) = {}"
proof (induction pending)
  case (Cons e pending)
  have "bt_get expected (fst e) = None \<longleftrightarrow> fst e \<notin> set (bt_keys expected)"
    by (simp add: bt_get_def bt_keys_def map_of_eq_None_iff)
  then show ?case using Cons
    by (cases e) (auto simp: retain_destinations_def map_filter_simps bt_keys_def split: option.splits)
qed (simp add: retain_destinations_def map_filter_simps bt_keys_def)

lemma holders_gone_cong:
  assumes "sides b = sides a" "route_overrides b = route_overrides a" "typed_route_overrides b = typed_route_overrides a"
    "discovery_routes b = discovery_routes a"
  shows "holders_gone E now b sent = holders_gone E now a sent"
  by (simp add: holders_gone_def expected_cong [OF assms])

section \<open>Reconciliation\<close>

text \<open>An entry that has changed at most in the destinations it waits for.\<close>

definition same_entry :: "end_to_end_reliable_sent option \<Rightarrow> end_to_end_reliable_sent option \<Rightarrow> bool" where
  "same_entry = rel_option (\<lambda>s s'. \<exists>p. s' = s\<lparr>e2e_pending_destinations := p\<rparr>)"

lemma same_entry_refl [simp]: "same_entry x x"
  unfolding same_entry_def by (rule option.rel_refl) (metis end_to_end_reliable_sent.surjective end_to_end_reliable_sent.update_convs(2))

lemma same_entry_trans: "same_entry x y \<Longrightarrow> same_entry y z \<Longrightarrow> same_entry x z"
  by (cases x; cases y; cases z) (auto simp: same_entry_def)

lemma reconcile_ids_effect:
  assumes "reconcile_ids E now pids st = (st', r)"
  shows "same_entry (bt_get (end_to_end_reliable_tx st) pid) (bt_get (end_to_end_reliable_tx st') pid) \<and>
    (\<exists>t. st' = st\<lparr>end_to_end_reliable_tx := t\<rparr>) \<and> (bt_wf (end_to_end_reliable_tx st) \<longrightarrow> bt_wf (end_to_end_reliable_tx st'))"
  using assms
proof (induction pids arbitrary: st st' r)
  case Nil
  then show ?case by (auto intro!: exI [of _ "end_to_end_reliable_tx st'"])
next
  case (Cons q pids)
  show ?case
  proof (cases "bt_get (end_to_end_reliable_tx st) q")
    case None
    then show ?thesis using Cons by simp
  next
    case (Some sent)
    show ?thesis
    proof (cases "expected_end_to_end_destinations E now (e2e_data sent) st")
      case (Ok ex)
      let ?p = "retain_destinations ex (e2e_pending_destinations sent)"
      let ?st = "st\<lparr>end_to_end_reliable_tx := bt_modify q (\<lambda>s. s\<lparr>e2e_pending_destinations := ?p\<rparr>) (end_to_end_reliable_tx st)\<rparr>"
      show ?thesis
      proof (cases "e2e_tracked_destinations sent")
        case True
        obtain s1 r1 where rec: "reconcile_ids E now pids ?st = (s1, r1)" by force
        then have "st' = s1" using Cons.prems Some Ok True by (cases r1) (simp_all add: Let_def)
        moreover have "same_entry (bt_get (end_to_end_reliable_tx st) pid) (bt_get (end_to_end_reliable_tx ?st) pid)"
          using Some by (cases "pid = q") (auto simp: bt_get_modify, auto simp: same_entry_def)
        ultimately show ?thesis using Cons.IH [OF rec] by (auto simp: bt_wf_modify intro: same_entry_trans)
      qed (use Cons Some Ok in simp)
    qed (use Cons.prems Some in \<open>auto intro!: exI [of _ "end_to_end_reliable_tx st'"]\<close>)
  qed
qed

lemma reconcile_ids_completed:
  assumes "reconcile_ids E now pids st = (st', Ok completed)" and "distinct pids"
  shows "set completed \<subseteq> {pid \<in> set pids. \<exists>sent. bt_get (end_to_end_reliable_tx st) pid = Some sent \<and> holders_gone E now st sent}"
  using assms
proof (induction pids arbitrary: st st' completed)
  case (Cons q pids)
  show ?case
  proof (cases "bt_get (end_to_end_reliable_tx st) q")
    case None
    then show ?thesis using Cons.IH [of st st' completed] Cons.prems by auto
  next
    case (Some sent)
    show ?thesis
    proof (cases "expected_end_to_end_destinations E now (e2e_data sent) st")
      case (Ok ex)
      let ?p = "retain_destinations ex (e2e_pending_destinations sent)"
      let ?st = "st\<lparr>end_to_end_reliable_tx := bt_modify q (\<lambda>s. s\<lparr>e2e_pending_destinations := ?p\<rparr>) (end_to_end_reliable_tx st)\<rparr>"
      show ?thesis
      proof (cases "e2e_tracked_destinations sent")
        case True
        obtain s1 r1 where rec: "reconcile_ids E now pids ?st = (s1, r1)" by force
        with Cons.prems Some Ok True obtain c where c: "r1 = Ok c" "completed = (if ?p = [] then q # c else c)"
          by (cases r1) (auto simp: Let_def)
        have gone: "holders_gone E now ?st s = holders_gone E now st s" for s by (rule holders_gone_cong) simp_all
        have "set c \<subseteq> {pid \<in> set pids. \<exists>sent. bt_get (end_to_end_reliable_tx st) pid = Some sent \<and> holders_gone E now st sent}"
          using Cons.IH [OF rec [unfolded c(1)]] Cons.prems(2) gone by (auto simp: bt_get_modify split: if_splits)
        moreover have "holders_gone E now st sent" if "?p = []"
          using that True Ok by (simp add: holders_gone_def retain_empty)
        ultimately show ?thesis using c(2) Some by (auto split: if_splits)
      next
        case False
        then show ?thesis using Cons.IH [of st st' completed] Cons.prems Some Ok by auto
      qed
    qed (use Cons.prems Some in simp_all)
  qed
qed simp

lemma get_fold_remove: "bt_get (fold bt_remove ks m) k = (if k \<in> set ks then None else bt_get m k)"
proof (induction ks arbitrary: m)
  case (Cons j ks)
  have "bt_get (bt_remove j m) i = (if i = j then None else bt_get m i)" for i
    by (induction m) (auto simp: bt_get_def bt_remove_def)
  then show ?case using Cons.IH [of "bt_remove j m"] by simp
qed simp

lemma reconcile_leaves:
  assumes "bt_wf (end_to_end_reliable_tx st)" and "bt_get (end_to_end_reliable_tx st) pid = Some sent"
    and "reconcile_end_to_end_reliable_destinations E now st = (st', r)"
  shows "same_entry (Some sent) (bt_get (end_to_end_reliable_tx st') pid) \<or>
      bt_get (end_to_end_reliable_tx st') pid = None \<and> holders_gone E now st sent"
    and "\<exists>t. st' = st\<lparr>end_to_end_reliable_tx := t\<rparr>" "bt_wf (end_to_end_reliable_tx st')"
proof -
  let ?ids = "bt_keys (end_to_end_reliable_tx st)"
  obtain s1 r1 where rec: "reconcile_ids E now ?ids st = (s1, r1)" by force
  note e = reconcile_ids_effect [OF rec, of pid]
  from e obtain t where t: "s1 = st\<lparr>end_to_end_reliable_tx := t\<rparr>" by blast
  consider (ok) c where "r1 = Ok c" "st' = s1\<lparr>end_to_end_reliable_tx := fold bt_remove c (end_to_end_reliable_tx s1)\<rparr>"
    | (failed) "st' = s1"
    using assms(3) rec by (cases r1) (auto simp: reconcile_end_to_end_reliable_destinations_def)
  then have "(same_entry (Some sent) (bt_get (end_to_end_reliable_tx st') pid) \<or>
      bt_get (end_to_end_reliable_tx st') pid = None \<and> holders_gone E now st sent) \<and>
      (\<exists>t. st' = st\<lparr>end_to_end_reliable_tx := t\<rparr>) \<and> bt_wf (end_to_end_reliable_tx st')"
  proof cases
    case ok
    have "holders_gone E now st sent" if "pid \<in> set c"
      using reconcile_ids_completed [OF rec [unfolded ok(1)]] bt.distinct_keys [OF assms(1)] assms(2) that by auto
    then show ?thesis using e assms(1,2) ok(2) t by (auto simp: get_fold_remove bt_wf_fold_remove)
  next
    case failed
    then show ?thesis using e assms(1,2) t by auto
  qed
  then show "same_entry (Some sent) (bt_get (end_to_end_reliable_tx st') pid) \<or>
      bt_get (end_to_end_reliable_tx st') pid = None \<and> holders_gone E now st sent"
    "\<exists>t. st' = st\<lparr>end_to_end_reliable_tx := t\<rparr>" "bt_wf (end_to_end_reliable_tx st')" by blast+
qed

section \<open>Timeouts and expiry\<close>

text \<open>The last retry of a packet has passed without an answer.\<close>

definition retries_exhausted :: "'z config_scheme \<Rightarrow> u64 \<Rightarrow> end_to_end_reliable_sent \<Rightarrow> bool" where
  "retries_exhausted C now sent \<longleftrightarrow> \<not> e2e_queued sent \<and> \<not> now - e2e_last_send_ms sent < reliable_retransmit_ms C \<and>
     e2e_retries sent \<ge> reliable_max_retries C"

lemma timeout_entry_get:
  assumes "bt_wf (end_to_end_reliable_tx st)"
  shows "bt_wf (end_to_end_reliable_tx (fst (end_to_end_timeout_entry C now q st)))"
    and "pid \<noteq> q \<Longrightarrow> bt_get (end_to_end_reliable_tx (fst (end_to_end_timeout_entry C now q st))) pid =
      bt_get (end_to_end_reliable_tx st) pid"
    and "bt_get (end_to_end_reliable_tx st) q = Some sent \<Longrightarrow> \<not> retries_exhausted C now sent \<Longrightarrow>
      bt_get (end_to_end_reliable_tx (fst (end_to_end_timeout_entry C now q st))) q \<noteq> None"
  using assms
  by (auto simp: end_to_end_timeout_entry_def update_end_to_end_def bt_wf_modify bt.invar_remove bt.get_remove bt_get_modify
      retries_exhausted_def split: option.splits)

lemma timeout_scan_other:
  "bt_wf (end_to_end_reliable_tx st) \<Longrightarrow> pid \<notin> set pids \<Longrightarrow>
   bt_get (end_to_end_reliable_tx (fst (end_to_end_timeout_scan C now pids st))) pid = bt_get (end_to_end_reliable_tx st) pid"
proof (induction pids arbitrary: st)
  case (Cons q pids)
  let ?s = "fst (end_to_end_timeout_entry C now q st)"
  from Cons.IH [of ?s] Cons.prems timeout_entry_get(1,2) [OF Cons.prems(1), where C = C and now = now and q = q] show ?case by (simp add: case_prod_beta)
qed simp

lemma timeout_scan_leaves:
  assumes "bt_wf (end_to_end_reliable_tx st)" and "distinct pids" and "bt_get (end_to_end_reliable_tx st) pid = Some sent"
    and "bt_get (end_to_end_reliable_tx (fst (end_to_end_timeout_scan C now pids st))) pid = None"
  shows "retries_exhausted C now sent"
  using assms
proof (induction pids arbitrary: st)
  case (Cons q pids)
  let ?s = "fst (end_to_end_timeout_entry C now q st)"
  note e = timeout_entry_get [OF Cons.prems(1), where C = C and now = now and q = q]
  have gone: "bt_get (end_to_end_reliable_tx (fst (end_to_end_timeout_scan C now pids ?s))) pid = None"
    using Cons.prems(4) by (simp add: case_prod_beta)
  show ?case
  proof (cases "pid = q")
    case True
    then have "bt_get (end_to_end_reliable_tx ?s) pid = None"
      using gone timeout_scan_other [OF e(1), where pid = pid and pids = pids and C = C and now = now] Cons.prems(2) by simp
    then show ?thesis using e(3) Cons.prems(3) True by blast
  next
    case False
    then show ?thesis using Cons.IH [OF e(1) _ _ gone] Cons.prems e(2) by simp
  qed
qed simp

lemma retransmit_contains:
  "bt_contains (end_to_end_reliable_tx (fst (queue_end_to_end_reliable_retransmit L C q st))) pid =
   bt_contains (end_to_end_reliable_tx st) pid"
  by (auto simp: queue_end_to_end_reliable_retransmit_def update_end_to_end_def bt_contains_def bt_get_modify
      queues_only_fields(2) [OF tx_queue_queues(1)] split: option.splits)

lemma requeue_contains:
  "bt_contains (end_to_end_reliable_tx (fst (requeue_end_to_end L C pids st))) pid = bt_contains (end_to_end_reliable_tx st) pid"
proof (induction pids arbitrary: st)
  case (Cons q pids)
  obtain s r where q: "queue_end_to_end_reliable_retransmit L C q st = (s, r)" by force
  with retransmit_contains [of L C q st pid] Cons.IH [of s] show ?case by (cases r) simp_all
qed simp

lemma prune_frame:
  assumes "prune_discovery_routes now st = (st', changed)"
  shows "sides st' = sides st" "route_overrides st' = route_overrides st" "typed_route_overrides st' = typed_route_overrides st"
    "end_to_end_reliable_tx st' = end_to_end_reliable_tx st"
  using assms by (auto simp: prune_discovery_routes_def Let_def)

lemma note_frame:
  "sides (note_discovery_topology_change now st) = sides st"
  "route_overrides (note_discovery_topology_change now st) = route_overrides st"
  "typed_route_overrides (note_discovery_topology_change now st) = typed_route_overrides st"
  "end_to_end_reliable_tx (note_discovery_topology_change now st) = end_to_end_reliable_tx st"
  "discovery_routes (note_discovery_topology_change now st) = discovery_routes st"
  by (simp_all add: note_discovery_topology_change_def)

lemma same_entry_exhausted: "same_entry (Some sent) (Some s) \<Longrightarrow> retries_exhausted C now s = retries_exhausted C now sent"
  by (auto simp: same_entry_def retries_exhausted_def)

lemma timeouts_leave:
  assumes "bt_wf (end_to_end_reliable_tx st)" and "bt_get (end_to_end_reliable_tx st) pid = Some sent"
    and "\<not> bt_contains (end_to_end_reliable_tx (fst (process_end_to_end_reliable_timeouts L E now st))) pid"
  shows "holders_gone E now (st\<lparr>discovery_routes := discovery_routes (fst (prune_discovery_routes now st))\<rparr>) sent \<or>
    retries_exhausted E now sent"
proof -
  obtain s1 ch where p: "prune_discovery_routes now st = (s1, ch)" by force
  define s2 where "s2 = (if ch then note_discovery_topology_change now s1 else s1)"
  obtain s3 r3 where rec: "reconcile_end_to_end_reliable_destinations E now s2 = (s3, r3)" by force
  have s2: "end_to_end_reliable_tx s2 = end_to_end_reliable_tx st"
    "holders_gone E now s2 sent = holders_gone E now (st\<lparr>discovery_routes := discovery_routes s1\<rparr>) sent"
    by (simp add: s2_def note_frame prune_frame [OF p])
      (rule holders_gone_cong, simp_all add: s2_def note_frame prune_frame [OF p])
  note r = reconcile_leaves [OF _ _ rec, unfolded s2(1), OF assms(1,2)]
  obtain s4 q where sc: "end_to_end_timeout_scan E now (bt_keys (end_to_end_reliable_tx s3)) s3 = (s4, q)" by force
  have body: "fst (process_end_to_end_reliable_timeouts L E now st) =
      (case r3 of Ok _ \<Rightarrow> fst (requeue_end_to_end L E q s4) | _ \<Rightarrow> s3)"
    using p rec sc by (cases r3) (simp_all add: process_end_to_end_reliable_timeouts_def s2_def [symmetric])
  show ?thesis
  proof (cases "bt_get (end_to_end_reliable_tx s3) pid")
    case None
    then show ?thesis using r(1) s2(2) p by (simp add: same_entry_def)
  next
    case (Some s)
    then have same: "same_entry (Some sent) (Some s)" using r(1) by simp
    have "bt_get (end_to_end_reliable_tx s4) pid = None"
      using assms(3) Some body requeue_contains [of L E q s4 pid] by (cases r3) (auto simp: bt_contains_def)
    then have "retries_exhausted E now s"
      using timeout_scan_leaves [OF r(3) bt.distinct_keys [OF r(3)] Some, where C = E and now = now] sc by simp
    then show ?thesis using same_entry_exhausted [OF same, where C = E and now = now] by blast
  qed
qed

lemma expire_leaves:
  assumes "bt_wf (end_to_end_reliable_tx st)" and "bt_get (end_to_end_reliable_tx st) pid = Some sent"
    and "\<not> bt_contains (end_to_end_reliable_tx (fst (expire_and_reconcile L E now st))) pid"
  shows "holders_gone E now (st\<lparr>discovery_routes := discovery_routes (fst (prune_discovery_routes now st))\<rparr>) sent"
proof -
  obtain s1 ch where p: "prune_discovery_routes now st = (s1, ch)" by force
  obtain s3 r3 where rec: "reconcile_end_to_end_reliable_destinations E now s1 = (s3, r3)" by force
  have s1: "holders_gone E now s1 sent = holders_gone E now (st\<lparr>discovery_routes := discovery_routes s1\<rparr>) sent"
    by (rule holders_gone_cong) (simp_all add: prune_frame [OF p])
  note r = reconcile_leaves [OF _ _ rec, unfolded prune_frame(4) [OF p], OF assms(1,2)]
  have "bt_get (end_to_end_reliable_tx s3) pid = None"
    using assms(2,3) p rec queues_only_fields(2) [OF fit_queues]
    by (cases r3; cases ch) (auto simp: expire_and_reconcile_def note_frame prune_frame [OF p] bt_contains_def)
  then show ?thesis using r(1) s1 p by (simp add: same_entry_def)
qed

section \<open>Learning, registering and acknowledging\<close>

lemma learn_leaves:
  assumes "bt_wf (end_to_end_reliable_tx st)" and "bt_get (end_to_end_reliable_tx st) pid = Some sent"
    and "learn_discovery_packet L E N now pkt src st = (st', r)" and "\<not> bt_contains (end_to_end_reliable_tx st') pid"
  shows "holders_gone E now (st\<lparr>discovery_routes := discovery_routes st'\<rparr>) sent"
proof -
  have unchanged: False if "end_to_end_reliable_tx st' = end_to_end_reliable_tx st"
    using that assms(2,4) by (simp add: bt_contains_def)
  then obtain side ss changed where "src = Some side" and
    learnt: "\<exists>route. sthen (reconcile_end_to_end_reliable_destinations E now
      (fit_discovery_budget L (max_queue_budget E) (st\<lparr>discovery_routes := bt_insert side route (discovery_routes st)\<rparr>)))
      (\<lambda>_ st. (if changed then note_discovery_topology_change now st else st, Ok True)) = (st', r)"
    using assms(3)
    by (cases src; cases "learned_sender_state E (side_is_link_local st (the src)) pkt
          (case bt_get (dsd_announcers (case bt_get (discovery_routes st) (the src) of Some r \<Rightarrow> r | None \<Rightarrow> side_state_default))
            (pkt_sender pkt) of Some s \<Rightarrow> s | None \<Rightarrow> sender_state_default)")
      (auto simp: learn_discovery_packet_def Let_def split: if_splits)
  then obtain route where
    run: "sthen (reconcile_end_to_end_reliable_destinations E now
      (fit_discovery_budget L (max_queue_budget E) (st\<lparr>discovery_routes := bt_insert side route (discovery_routes st)\<rparr>)))
      (\<lambda>_ st. (if changed then note_discovery_topology_change now st else st, Ok True)) = (st', r)" by blast
  define s2 where "s2 = fit_discovery_budget L (max_queue_budget E) (st\<lparr>discovery_routes := bt_insert side route (discovery_routes st)\<rparr>)"
  have q: "queues_only (st\<lparr>discovery_routes := bt_insert side route (discovery_routes st)\<rparr>) s2" unfolding s2_def by (rule fit_queues)
  note f = queues_only_fields [OF q, simplified]
  obtain s3 r3 where rec: "reconcile_end_to_end_reliable_destinations E now s2 = (s3, r3)" by force
  note rl = reconcile_leaves [OF _ _ rec, unfolded f(2), OF assms(1,2)]
  have st': "end_to_end_reliable_tx st' = end_to_end_reliable_tx s3" "discovery_routes st' = discovery_routes s2"
    using run rl(2) rec by (cases r3; auto simp: s2_def [symmetric] note_frame)+
  have "holders_gone E now s2 sent = holders_gone E now (st\<lparr>discovery_routes := discovery_routes st'\<rparr>) sent"
    by (rule holders_gone_cong) (simp_all add: f st')
  moreover have "bt_get (end_to_end_reliable_tx s3) pid = None" using assms(4) st' by (simp add: bt_contains_def)
  ultimately show ?thesis using rl(1) by (simp add: same_entry_def)
qed

lemma trim_exact:
  "length order \<le> cap \<Longrightarrow> trim_return_routes cap order m =
     (if length order = cap \<and> order \<noteq> [] then (tl order, bt_remove (hd order) m) else (order, m))"
proof (cases order)
  case (Cons k ks)
  assume "length order \<le> cap"
  then show ?thesis using Cons by (cases ks) auto
qed simp

lemma register_leaves:
  assumes ok: "waiting_ok E st" and present: "bt_contains (end_to_end_reliable_tx st) pid"
    and reg: "register_end_to_end_reliable_tx E now it st = (st', r)" and gone: "\<not> bt_contains (end_to_end_reliable_tx st') pid"
  shows "length (filter (bt_contains (end_to_end_reliable_tx st)) (end_to_end_reliable_tx_order st)) = wait_limit E \<and>
    hd (filter (bt_contains (end_to_end_reliable_tx st)) (end_to_end_reliable_tx_order st)) = pid"
proof -
  let ?m = "end_to_end_reliable_tx st" and ?order = "end_to_end_reliable_tx_order st"
  have wf: "bt_wf ?m" and len: "length ?order \<le> wait_limit E" using ok by (simp_all add: waiting_ok_def)
  from reg gone present obtain n where n: "get_hash E it = Ok n"
    by (cases "get_hash E it") (auto simp: register_end_to_end_reliable_tx_def)
  let ?o = "filter (\<lambda>i. bt_contains ?m i \<and> i \<noteq> n) ?order"
  have short: "length ?o \<le> wait_limit E" using len length_filter_le [of "\<lambda>i. bt_contains ?m i \<and> i \<noteq> n" ?order] by linarith
  have t: "remember_end_to_end_reliable_tx E n st = (if length ?o = wait_limit E \<and> ?o \<noteq> []
      then st\<lparr>end_to_end_reliable_tx_order := tl ?o @ [n], end_to_end_reliable_tx := bt_remove (hd ?o) ?m\<rparr>
      else st\<lparr>end_to_end_reliable_tx_order := ?o @ [n]\<rparr>)"
    unfolding remember_end_to_end_reliable_tx_def wait_limit_def [symmetric] Let_def trim_exact [OF short] by simp
  obtain v where v: "st' = (let s = remember_end_to_end_reliable_tx E n st
      in s\<lparr>end_to_end_reliable_tx := bt_insert n v (end_to_end_reliable_tx s)\<rparr>)"
    using reg gone present n
    by (cases "expected_end_to_end_destinations E now it st") (auto simp: register_end_to_end_reliable_tx_def Let_def)
  have full: "length ?o = wait_limit E" "hd ?o = pid"
    using gone present wf unfolding v t Let_def bt_contains_def
    by (auto simp: bt.get_insert bt.get_remove bt_wf_insert bt.invar_remove split: if_splits)
  have "i \<noteq> n" if "i \<in> set ?order" "bt_contains ?m i" for i
  proof
    assume "i = n"
    with that have "length ?o < length ?order" by (intro length_filter_less) auto
    then show False using full(1) len by simp
  qed
  then have "?o = filter (bt_contains ?m) ?order" by (intro filter_cong) auto
  then show ?thesis using full by simp
qed

lemma ack_leaves:
  assumes "bt_wf (end_to_end_reliable_tx st)" and "bt_get (end_to_end_reliable_tx st) pid = Some sent"
    and "\<not> bt_contains (end_to_end_reliable_tx (fst (handle_end_to_end_ack q sender st))) pid"
  shows "q = pid \<and> (\<forall>h. decode_end_to_end_ack_sender_hash sender = Some h \<longrightarrow>
    set (bt_keys (e2e_pending_destinations sent)) \<subseteq> {h})"
proof -
  have q: "q = pid"
    using assms by (auto simp: handle_end_to_end_ack_def Let_def bt_contains_def bt.get_remove bt_get_modify split: option.splits if_splits)
  have "set (bt_keys (e2e_pending_destinations sent)) \<subseteq> {h}" if "decode_end_to_end_ack_sender_hash sender = Some h" for h
  proof -
    have "bt_remove h (e2e_pending_destinations sent) = []"
      using ack_effect(1) [OF assms(1,2) that] assms(3) q by (auto simp: bt_contains_def Let_def split: if_splits)
    then show ?thesis using fold_remove_empty [of "[h]" "e2e_pending_destinations sent"] by simp
  qed
  then show ?thesis using q by blast
qed

section \<open>Any step\<close>

lemma waiting_packet_leaves_why:
  assumes "waiting_step L E st st'" and "waiting_ok E st" and "bt_get (end_to_end_reliable_tx st) pid = Some sent"
    and "e2e_pending_destinations sent \<noteq> []" and "\<not> bt_contains (end_to_end_reliable_tx st') pid"
  shows "(\<exists>sender. st' = fst (handle_end_to_end_ack pid sender st) \<and>
      (\<forall>h. decode_end_to_end_ack_sender_hash sender = Some h \<longrightarrow> set (bt_keys (e2e_pending_destinations sent)) \<subseteq> {h})) \<or>
    (\<exists>now routes. routes \<in> {discovery_routes st, discovery_routes (fst (prune_discovery_routes now st)), discovery_routes st'} \<and>
      holders_gone E now (st\<lparr>discovery_routes := routes\<rparr>) sent) \<or>
    (\<exists>now. st' = fst (process_end_to_end_reliable_timeouts L E now st) \<and> retries_exhausted E now sent) \<or>
    length (filter (bt_contains (end_to_end_reliable_tx st)) (end_to_end_reliable_tx_order st)) = wait_limit E \<and>
      hd (filter (bt_contains (end_to_end_reliable_tx st)) (end_to_end_reliable_tx_order st)) = pid"
  using assms
proof (induction rule: waiting_step.induct)
  case (Register st now it)
  then have "bt_contains (end_to_end_reliable_tx st) pid" by (simp add: bt_contains_def)
  from register_leaves [OF Register.prems(1) this surjective_pairing Register.prems(4)] show ?case by blast
next
  case (Acknowledge st q sender)
  then show ?case using ack_leaves [of st pid sent q sender] by (auto simp: waiting_ok_def)
next
  case (Reconcile st now)
  then have "holders_gone E now st sent"
    using reconcile_leaves(1) [OF _ _ surjective_pairing, of st pid sent E now]
    by (auto simp: waiting_ok_def bt_contains_def same_entry_def)
  then have "holders_gone E now (st\<lparr>discovery_routes := discovery_routes st\<rparr>) sent" by simp
  then show ?case by blast
next
  case (Timeouts st now)
  then show ?case using timeouts_leave [of st pid sent L E now] by (auto simp: waiting_ok_def)
next
  case (Expire st now)
  then show ?case using expire_leaves [of st pid sent L E now] by (auto simp: waiting_ok_def)
next
  case (Replay st now q)
  then have False
    by (cases "q = pid") (auto simp: end_to_end_retransmit_sides_def update_end_to_end_def Let_def waiting_ok_def bt_contains_def
        bt_get_modify bt.get_remove bt_wf_modify bt_values_def split: option.splits if_splits)
  then show ?case ..
next
  case (Send st item il)
  then show ?case by (simp add: bt_contains_def queues_only_fields(2) [OF tx_queue_queues(2)])
next
  case (Receive st i)
  then show ?case by (simp add: bt_contains_def queues_only_fields(2) [OF push_queues(2)])
next
  case (Learn st N now pkt src)
  then show ?case using learn_leaves [OF _ _ surjective_pairing, of st pid sent L E N now pkt src] by (auto simp: waiting_ok_def)
qed

end
