(* ===== verification/Network_Properties.thy ===== *)
theory Network_Properties
  imports Sample_Network Router_Leave_Laws
begin

text \<open>
  The promises of a router to its neighbours: the discovery table, its expiry and its advertisements,
  the plan that follows from them, the exchange of topologies between neighbours, and the packets that
  wait for end-to-end acknowledgements.
\<close>

section \<open>The discovery table\<close>

text \<open>
  C11. Whatever packets arrive, announcements are sent, queues are filled and time passes, starting from an
  empty table: every route in it has an announcer, its endpoints are exactly those that some board of
  some announcer reports, as a sorted set, and its age is that of its youngest announcer.
\<close>

theorem discovery_table_summarises_announcers:
  assumes "table_run L E N st st'" and "discovery_routes st = []" and "bt_get (discovery_routes st') side = Some r"
  shows "dsd_announcers r \<noteq> [] \<and> sorted (dsd_reachable r) \<and> distinct (dsd_reachable r) \<and>
    (ep \<in> set (dsd_reachable r) \<longleftrightarrow>
       (\<exists>s \<in> set (bt_values (dsd_announcers r)). \<exists>b \<in> set (dss_topology_boards s). ep \<in> set (tb_reachable_endpoints b))) \<and>
    dsd_last_seen_ms r = Max (dss_last_seen_ms ` set (bt_values (dsd_announcers r)))"
proof -
  have ok: "route_ok r"
    using table_run_ok [OF assms(1)] table_okD assms(2,3) by (auto simp: bt_get_def dest: map_of_SomeD)
  have "dsd_reachable (recompute_discovery_side_state r) = sort_dedup (concat (map dss_reachable (bt_values (dsd_announcers r))))"
    by (simp add: recompute_discovery_side_state_def Let_def)
  then have reach: "dsd_reachable r = sort_dedup (concat (map dss_reachable (bt_values (dsd_announcers r))))"
    using ok by (simp add: route_ok_def)
  have "set (dss_reachable s) = snd ` endpoints_at (view (dss_topology_boards s))" if "s \<in> set (bt_values (dsd_announcers r))" for s
    using ok that summarized_endpoints [of "dss_topology_boards s"] by (auto simp: route_ok_def sender_ok_def list_all_iff)
  then have "ep \<in> set (dsd_reachable r) \<longleftrightarrow>
       (\<exists>s \<in> set (bt_values (dsd_announcers r)). ep \<in> snd ` endpoints_at (view (dss_topology_boards s)))"
    by (auto simp: reach)
  moreover have "ep \<in> snd ` endpoints_at (view bs) \<longleftrightarrow> (\<exists>b \<in> set bs. ep \<in> set (tb_reachable_endpoints b))" for bs
    by (force simp: view_def gather_def)
  moreover have "dsd_announcers r \<noteq> []" using ok by (simp add: route_ok_def)
  moreover have "sorted (dsd_reachable r)" "distinct (dsd_reachable r)" unfolding reach by simp_all
  ultimately show ?thesis using route_seen_max [OF ok] by simp
qed

theorem discovery_table_summarises_announcers_witness:
  "\<exists>st' r. table_run sample_layout roomy_env sample_node quiet st' \<and> bt_get (discovery_routes st') 0 = Some r \<and>
     dsd_announcers r \<noteq> [] \<and> sorted (dsd_reachable r)"
proof -
  obtain p st' r where learn: "learn_discovery_packet sample_layout roomy_env sample_node 1000 p (Some 0) quiet = (st', Ok True)"
    and r: "bt_get (discovery_routes st') 0 = Some r" by (rule heard_announce)
  have run: "table_run sample_layout roomy_env sample_node quiet st'"
    using Table_Step [OF Table_Nil Learn_Packet [of sample_layout roomy_env sample_node quiet 1000 p "Some 0"]] learn by simp
  moreover have "discovery_routes quiet = []" by (simp add: quiet_def two_sided_def)
  ultimately show ?thesis using discovery_table_summarises_announcers [OF run _ r] r by blast
qed

text \<open>
  C24. Expiry is exact: an announcer leaves the table when and only when more time has passed since its last
  packet than a route may live, a side leaves it with its last announcer, and the change that makes
  the next announcement due is reported exactly when something expired.
\<close>

theorem expiry_is_exact:
  assumes "table_run L E N st st'" and "discovery_routes st = []" and "prune_discovery_routes now st' = (st'', changed)"
  shows "announcer_of (discovery_routes st'') side sender =
      (case announcer_of (discovery_routes st') side sender of
         Some s \<Rightarrow> if sat_sub now (dss_last_seen_ms s) \<le> DISCOVERY_ROUTE_TTL_MS then Some s else None
       | None \<Rightarrow> None) \<and>
    (bt_get (discovery_routes st'') side \<noteq> None \<longleftrightarrow>
       (\<exists>sender s. announcer_of (discovery_routes st') side sender = Some s \<and>
          sat_sub now (dss_last_seen_ms s) \<le> DISCOVERY_ROUTE_TTL_MS)) \<and>
    (changed \<longleftrightarrow>
       (\<exists>side sender s. announcer_of (discovery_routes st') side sender = Some s \<and>
          DISCOVERY_ROUTE_TTL_MS < sat_sub now (dss_last_seen_ms s)))"
proof -
  have ok: "table_ok (discovery_routes st')" using table_run_ok [OF assms(1)] assms(2) by simp
  note kept = prune_announcers [OF ok, of now, unfolded assms(3) fst_conv]
  have "(bt_get (discovery_routes st'') side \<noteq> None) \<longleftrightarrow> (\<exists>sender. announcer_of (discovery_routes st'') side sender \<noteq> None)"
    using table_member [of "discovery_routes st''" side] prune_table_ok [OF ok, of now] assms(3) by simp
  also have "\<dots> \<longleftrightarrow> (\<exists>sender s. announcer_of (discovery_routes st') side sender = Some s \<and> is_fresh now (dss_last_seen_ms s))"
    unfolding kept by (auto split: option.splits if_splits)
  finally show ?thesis
    using kept [of side sender, unfolded is_fresh_def] prune_unchanged [OF ok, of now, unfolded assms(3) snd_conv]
    by (simp add: is_fresh_def not_le)
qed

theorem expiry_is_exact_witness:
  "\<exists>st' st''. table_run sample_layout roomy_env sample_node quiet st' \<and> prune_discovery_routes 31001 st' = (st'', True) \<and>
     announcer_of (discovery_routes st'') 0 (str ''R2'') = None"
proof -
  obtain p st' r where p: "pkt_ty p = DiscoveryAnnounce" "pkt_sender p = str ''R2''"
    and learn: "learn_discovery_packet sample_layout roomy_env sample_node 1000 p (Some 0) quiet = (st', Ok True)"
    and r: "bt_get (discovery_routes st') 0 = Some r" by (rule heard_announce)
  have run: "table_run sample_layout roomy_env sample_node quiet st'"
    using Table_Step [OF Table_Nil Learn_Packet [of sample_layout roomy_env sample_node quiet 1000 p "Some 0"]] learn by simp
  have q: "discovery_routes quiet = []" by (simp add: quiet_def two_sided_def)
  have "str ''R2'' \<noteq> str ''TEST''" by code_simp
  then have d: "is_discovery_type (pkt_ty p)" "pkt_sender p \<noteq> rn_sender sample_node"
    by (simp_all add: p is_discovery_type_def sample_node_def)
  obtain s where s: "announcer_of (discovery_routes st') 0 (str ''R2'') = Some s" "dss_last_seen_ms s = 1000"
    by (rule learn_result [OF learn _ d r]) (use q p(2) in auto)
  obtain st'' ch where prune: "prune_discovery_routes 31001 st' = (st'', ch)" by force
  have "\<not> sat_sub 31001 (dss_last_seen_ms s) \<le> DISCOVERY_ROUTE_TTL_MS"
    by (simp add: s sat_sub_def DISCOVERY_ROUTE_TTL_MS_def)
  then have "announcer_of (discovery_routes st'') 0 (str ''R2'') = None" ch
    using expiry_is_exact [OF run q prune, of 0 "str ''R2''"] s(1) by (simp, meson not_le)
  with run prune show ?thesis by auto
qed

text \<open>
  C23. What a router advertises on a link is exact: an endpoint is advertised when and only when it is
  served locally or reported by a board of an announcer that has not expired, it is not the discovery endpoint
  itself, and it is not confined to links of another kind.
\<close>

theorem advertisement_exact:
  "ep \<in> set (advertised_discovery_endpoints_for_link C N tr now ll st) \<longleftrightarrow>
     ep \<noteq> Discovery \<and> (ll \<or> \<not> is_link_local_only C ep) \<and>
     ((\<exists>h \<in> set (rn_handlers N). eh_endpoint h = ep) \<or> rn_timesync N \<noteq> None \<and> ep = TimeSync \<or>
      (\<exists>(sender, s) \<in> set (fresh_announcers (in_ms now) st).
         if dss_topology_boards s = [] then ep \<in> set (dss_reachable s)
         else \<exists>b \<in> set (dss_topology_boards s). ep \<in> set (tb_reachable_endpoints b)))"
proof -
  have known: "(\<exists>z. (z, ep) \<in> known_endpoints (sender, s)) \<longleftrightarrow>
      (if dss_topology_boards s = [] then ep \<in> set (dss_reachable s)
       else \<exists>b \<in> set (dss_topology_boards s). ep \<in> set (tb_reachable_endpoints b))" for sender s
    by (auto simp: known_endpoints_def view_def gather_def)
  have "(\<exists>a \<in> set F. \<exists>z. (z, ep) \<in> known_endpoints a) \<longleftrightarrow> (\<exists>(sender, s) \<in> set F. \<exists>z. (z, ep) \<in> known_endpoints (sender, s))" for F
    by auto
  then show ?thesis
    unfolding advertised_endpoints local_endpoints_shown_def is_discovery_endpoint_def known by blast
qed

theorem advertisement_exact_witness:
  "UserEndpoint 1 \<in> set (advertised_discovery_endpoints_for_link roomy_env router_a no_sync at_one False quiet) \<and>
   UserEndpoint 0 \<notin> set (advertised_discovery_endpoints_for_link roomy_env router_a no_sync at_one False quiet)"
proof -
  have "fresh_announcers (in_ms at_one) quiet = []" by (simp add: fresh_announcers_def quiet_def two_sided_def)
  then show ?thesis
    using open_endpoint by (simp add: advertisement_exact) (simp add: router_a_def)
qed

text \<open>
  C12. What is learned is used: once a router has learned from an announcement that an endpoint is behind a side,
  a reliable packet for that endpoint is planned to that side, and only to sides with a fresh route
  to one of its endpoints.
\<close>

theorem learned_endpoint_is_routed:
  assumes "table_run L E N st0 st" and "discovery_routes st0 = []"
    and "learn_discovery_packet L E N now pkt (Some side) st = (st', Ok True)" and "pkt_ty pkt = DiscoveryAnnounce"
    and "pkt_sender pkt \<noteq> rn_sender N" and "decode_discovery_announce E pkt = Ok reach" and "ep \<in> set reach"
    and "\<not> is_link_local_only E ep" and "bt_get (discovery_routes st') side \<noteq> None"
    and "item_route_info E it = Ok (eps, ty)" and "ep \<in> set eps" and "reliable_control_target_packet_id E it = Ok None"
    and "\<not> is_discovery_type ty" and "\<not> is_timesync_type ty" and "is_reliable_type E ty"
    and "bt_get (source_route_modes st') None = None" and "route_allowed E st' None (Some ty) side"
  shows "\<exists>ss. remote_side_plan E N tracker now it None st' = (st', Ok ss) \<and> side \<in> set ss \<and>
    (\<forall>d \<in> set ss. \<exists>r. bt_get (discovery_routes st') d = Some r \<and>
       sat_sub now (dsd_last_seen_ms r) \<le> DISCOVERY_ROUTE_TTL_MS \<and> (\<exists>ep \<in> set eps. ep \<in> set (dsd_reachable r)))"
proof -
  have ok: "table_ok (discovery_routes st)" using table_run_ok [OF assms(1)] assms(2) by simp
  have ok': "table_ok (discovery_routes st')" by (rule learn_table_ok [OF assms(3) ok])
  then have wf: "bt_wf (discovery_routes st')" by (simp add: table_ok_def)
  obtain r where r: "bt_get (discovery_routes st') side = Some r" using assms(9) by auto
  then have mem: "(side, r) \<in> set (discovery_routes st')" by (simp add: bt_get_in_set [OF wf])
  from learned_reach [OF assms(3) ok assms(4-8) r] have reach: "ep \<in> set (dsd_reachable r)" "now \<le> dsd_last_seen_ms r" by simp_all
  let ?routes = "usable_discovery_routes E st' None ty (endpoints_are_link_local_only E eps) now"
  let ?ss = "map fst (filter (\<lambda>(_, route). list_ex (\<lambda>ep. ep \<in> set (dsd_reachable route)) eps) ?routes)"
  have "\<not> endpoints_are_link_local_only E eps" using assms(8,11) by (auto simp: endpoints_are_link_local_only_def list_all_iff)
  then have "(side, r) \<in> set ?routes"
    using mem assms(17) reach(2) by (simp add: usable_discovery_routes_def route_is_fresh_def sat_sub_def)
  then have side: "side \<in> set ?ss" using reach(1) assms(11) by (force simp: list_ex_iff)
  then have "?ss \<noteq> []" by (metis empty_iff list.set(1))
  then have "remote_side_plan E N tracker now it None st' = (st', Ok ?ss)"
    by (rule discovered_plan [OF assms(10,12-16) refl])
  moreover have "\<exists>r. bt_get (discovery_routes st') d = Some r \<and> sat_sub now (dsd_last_seen_ms r) \<le> DISCOVERY_ROUTE_TTL_MS \<and>
      (\<exists>ep \<in> set eps. ep \<in> set (dsd_reachable r))" if "d \<in> set ?ss" for d
    using that by (auto simp: usable_discovery_routes_def route_is_fresh_def list_ex_iff bt_get_in_set [OF wf] not_less)
  ultimately show ?thesis using side by blast
qed

theorem learned_endpoint_is_routed_witness:
  "\<exists>p st' ss. learn_discovery_packet sample_layout roomy_env sample_node 1000 p (Some 0) quiet = (st', Ok True) \<and>
     remote_side_plan roomy_env sample_node None 1000 (Item_Packet gps_packet) None st' = (st', Ok ss) \<and> 0 \<in> set ss"
proof -
  obtain p st' r where p: "pkt_ty p = DiscoveryAnnounce" "pkt_sender p = str ''R2''"
    "decode_discovery_announce roomy_env p = Ok [UserEndpoint 1]"
    and learn: "learn_discovery_packet sample_layout roomy_env sample_node 1000 p (Some 0) quiet = (st', Ok True)"
    and r: "bt_get (discovery_routes st') 0 = Some r"
    and same: "sides st' = sides quiet" "source_route_modes st' = []"
      "route_overrides st' = route_overrides quiet" "typed_route_overrides st' = typed_route_overrides quiet"
    by (rule heard_announce)
  have "str ''R2'' \<noteq> str ''TEST''" by code_simp
  then have d: "pkt_sender p \<noteq> rn_sender sample_node" by (simp add: p sample_node_def)
  have "route_allowed roomy_env st' None (Some (UserType 0)) 0"
    using two_sided_allowed(1) [of roomy_env "Some (UserType 0)"] route_allowed_cong [of st' two_sided roomy_env] same
    by (simp add: quiet_def)
  moreover have "reliable_control_target_packet_id roomy_env (Item_Packet gps_packet) = Ok None"
    by (simp add: reliable_control_target_packet_id_def control_target_of_packet_def gps_packet_def)
  moreover have "\<not> is_link_local_only roomy_env (UserEndpoint 1)" "is_reliable_type roomy_env (UserType 0)"
    by (simp_all add: roomy_schema is_link_local_only_def sample_defs is_reliable_type_def roomy_env_def user_type_meta_def)
  moreover have "discovery_routes quiet = []" by (simp add: quiet_def two_sided_def)
  ultimately have "\<exists>ss. remote_side_plan roomy_env sample_node None 1000 (Item_Packet gps_packet) None st' = (st', Ok ss) \<and> 0 \<in> set ss"
    using learned_endpoint_is_routed [OF Table_Nil _ learn p(1) d p(3), of "UserEndpoint 1", OF _ _ _ _ gps_route_info, of None]
      r same(2) by (auto simp: is_discovery_type_def is_timesync_type_def bt_get_def)
  with learn show ?thesis by blast
qed

section \<open>Neighbours\<close>

text \<open>
  C38. A board that has gone is not forgotten as long as two neighbours talk to each other: each repeats what the
  other told it, which counts as fresh news. However long the exchange goes on, both still believe
  that the board reaches its endpoints.
\<close>

theorem withdrawn_board_lives_on:
  assumes "gossip L E A B a b (sa, sb, seen) (sa', sb', seen')" and "rn_sender A \<noteq> rn_sender B"
    and "\<not> is_link_local_only E ep" and "table_ok (discovery_routes sa)" and "table_ok (discovery_routes sb)"
    and "knows sa a (rn_sender B) seen z ep" and "knows sb b (rn_sender A) seen z ep"
  shows "knows sa' a (rn_sender B) seen' z ep \<and> knows sb' b (rn_sender A) seen' z ep"
  using gossip_knows [OF assms(1-3) refl assms(4-7)] by simp

theorem withdrawn_board_lives_on_witness:
  "\<exists>sa sb sa' sb'. gossip sample_layout roomy_env router_a router_b 0 0 (sa, sb, 1000) (sa', sb', 1000) \<and>
     knows sa' 0 (str ''B'') 1000 (str ''Z'') (UserEndpoint 1) \<and> knows sb' 0 (str ''A'') 1000 (str ''Z'') (UserEndpoint 1)"
proof -
  let ?sa = "quiet\<lparr>discovery_routes := [(0, told ''B'' [board_node ''Z'' [UserEndpoint 1] []])]\<rparr>"
  let ?sb = "quiet\<lparr>discovery_routes := [(0, told ''A'' [board_node ''Z'' [UserEndpoint 1] []])]\<rparr>"
  have r: "discovery_routes ?sa = [(0, told ''B'' [board_node ''Z'' [UserEndpoint 1] []])]"
    "discovery_routes ?sb = [(0, told ''A'' [board_node ''Z'' [UserEndpoint 1] []])]"
    "end_to_end_reliable_tx ?sa = []" "end_to_end_reliable_tx ?sb = []" by (simp_all add: quiet_def two_sided_def)
  note ok = boards_ok [of "[]"] boards_ok [of "[''A'']"] boards_ok [of "[''B'']"]
  obtain sb' where sb': "hears sample_layout roomy_env router_a no_sync at_one True ?sa router_b 0 ?sb sb'"
    and rb: "discovery_routes sb' = [(0, told ''A'' [board_node ''A'' [UserEndpoint 1] [''B''], board_node ''Z'' [UserEndpoint 1] []])]"
    by (rule a_tells_b [OF r(4) _ _ adv_a_of_z [OF r(1)]]) (use ok heard_boards(3) [OF r(2)] in auto)
  obtain sa' where sa': "hears sample_layout roomy_env router_b no_sync at_one True sb' router_a 0 ?sa sa'"
    by (rule b_tells_a [OF r(3) _ _ adv_b_of_az [OF rb]]) (use ok in auto)
  have run: "gossip sample_layout roomy_env router_a router_b 0 0 (?sa, ?sb, 1000) (sa', sb', in_ms at_one)"
    by (rule gossip.Exchange [OF gossip.Quiet _ sb' sa']) (simp add: at_one_def)
  have tables: "table_ok (discovery_routes ?sa)" "table_ok (discovery_routes ?sb)"
    by (simp_all add: table_ok_def bt_wf_def route_ok_def sender_ok_def told_def bt_values_def recompute_discovery_side_state_def
        boards_normal_def board_normal_def board_evals)
  have known: "knows ?sa 0 (str ''B'') 1000 (str ''Z'') (UserEndpoint 1)" "knows ?sb 0 (str ''A'') 1000 (str ''Z'') (UserEndpoint 1)"
    by (simp_all add: knows_def announcer_of_def told_def bt_get_def view_def gather_def board_node_def)
  from withdrawn_board_lives_on [OF run _ _ tables, unfolded board_names, OF board_names(3) _ known] run open_endpoint
  show ?thesis by (auto simp: at_one_def)
qed

text \<open>
  A router's own announcement comes back: after one exchange with a neighbour, a router that serves an endpoint
  itself counts itself among the boards whose acknowledgement a packet for that endpoint needs,
  behind the neighbour's side.
\<close>

theorem own_announcement_comes_back:
  assumes "hears L E A tra t lla sa B b sb sb'" and "hears L E B trb t llb sb' A a sa sa'"
    and "table_ok (discovery_routes sa)" and "table_ok (discovery_routes sb)" and "rn_sender A \<noteq> rn_sender B"
    and "h \<in> set (rn_handlers A)" and "eh_endpoint h = ep" and "ep \<noteq> Discovery" and "\<not> is_link_local_only E ep"
    and "item_route_info E it = Ok (eps, ty)" and "ep \<in> set eps" and "route_allowed E sa' None (Some ty) a"
    and "is_end_to_end_destination_sender (rn_sender A)"
    and "length (destination_candidates E (in_ms t) eps ty sa') \<le> max (reliable_max_end_to_end_pending E) 1"
  shows "\<exists>m. expected_end_to_end_destinations E (in_ms t) it sa' = Ok m \<and> bt_contains m (sender_hash (rn_sender A))"
proof -
  have "ep \<in> local_endpoints_shown E A lla"
    using assms(6-9) by (auto simp: local_endpoints_shown_def is_discovery_endpoint_def)
  then have "(rn_sender A, ep) \<in> endpoints_at (view (advertised_discovery_topology_for_link E A tra t lla sa))"
    by (simp add: advertised_topology_endpoints)
  note b = hears_knows [OF assms(1,4,5) this assms(9)]
  note k = hears_forwards [OF assms(2,3) b(2) assms(5) [symmetric] b(1) _ assms(9)]
  have "\<not> endpoints_are_link_local_only E eps" using assms(9,11) by (auto simp: endpoints_are_link_local_only_def list_all_iff)
  then have "(sender_hash (rn_sender A), a) \<in> set (destination_candidates E (in_ms t) eps ty sa')"
    using knows_candidate [of sa' a "rn_sender B" "in_ms t" "rn_sender A" ep "in_ms t" eps E ty] k assms(11-13) by simp
  from collect_contains [OF _ this, of "[]" "max (reliable_max_end_to_end_pending E) 1"] show ?thesis
    using assms(10,14) by (simp add: expected_end_to_end_destinations_def)
qed

theorem own_announcement_comes_back_witness:
  "\<exists>sb sa m. hears sample_layout roomy_env router_a no_sync at_one True quiet router_b 0 quiet sb \<and>
     hears sample_layout roomy_env router_b no_sync at_one True sb router_a 0 quiet sa \<and>
     expected_end_to_end_destinations roomy_env 1000 (Item_Packet gps_packet) sa = Ok m \<and>
     bt_contains m (sender_hash (str ''A''))"
proof -
  have q: "discovery_routes quiet = []" "end_to_end_reliable_tx quiet = []" by (simp_all add: quiet_def two_sided_def)
  note ok = boards_ok [of "[]"] boards_ok [of "[''A'']"] boards_ok [of "[''B'']"]
  obtain sb where sb: "hears sample_layout roomy_env router_a no_sync at_one True quiet router_b 0 quiet sb"
    and rb: "discovery_routes sb = [(0, told ''A'' [board_node ''A'' [UserEndpoint 1] []])]"
    by (rule a_tells_b [OF q(2) _ _ adv_a_alone [OF q(1)]]) (use ok heard_boards(1) [OF q(1)] in auto)
  obtain sa where sa: "hears sample_layout roomy_env router_b no_sync at_one True sb router_a 0 quiet sa"
    and ra: "discovery_routes sa = [(0, told ''B'' [board_node ''A'' [UserEndpoint 1] [''B''], board_node ''B'' [] [''A'']])]"
    and same: "sides sa = sides quiet" "route_overrides sa = route_overrides quiet" "typed_route_overrides sa = typed_route_overrides quiet"
    by (rule b_tells_a [OF q(2) _ _ adv_b_of_a [OF rb]]) (use ok heard_boards(2) [OF q(1)] in auto)
  have allowed: "route_allowed roomy_env sa None (Some (UserType 0)) 0"
    using two_sided_allowed(1) [of roomy_env "Some (UserType 0)"] route_allowed_cong [of sa two_sided roomy_env] same
    by (simp add: quiet_def)
  have "\<not> is_end_to_end_ack_sender (str ''A'')" "str ''A'' \<noteq> str ''RELAY''" by code_simp+
  then have dest: "is_end_to_end_destination_sender (rn_sender router_a)"
    by (simp add: is_end_to_end_destination_sender_def board_names)
  have few: "length (destination_candidates roomy_env (in_ms at_one) [UserEndpoint 0, UserEndpoint 1] (UserType 0) sa) \<le> 16"
    by (auto simp: destination_candidates_def ra told_def bt_values_def board_node_def split: option.splits)
  have max: "max (reliable_max_end_to_end_pending roomy_env) 1 = 16" by (simp add: roomy_env_def sample_env_def)
  have "\<exists>m. expected_end_to_end_destinations roomy_env (in_ms at_one) (Item_Packet gps_packet) sa = Ok m \<and>
      bt_contains m (sender_hash (rn_sender router_a))"
    by (rule own_announcement_comes_back [OF sb sa, where h = "\<lparr>eh_endpoint = UserEndpoint 1, eh_handler = Packet_Handler\<rparr>" and ep = "UserEndpoint 1",
          OF _ _ _ _ _ _ _ gps_route_info _ allowed dest, unfolded max, OF _ _ _ _ _ _ _ _ few])
      (use q board_names open_endpoint in \<open>simp_all add: router_a_def\<close>)
  with sb sa show ?thesis by (auto simp: at_one_def board_names)
qed

section \<open>Waiting packets\<close>

text \<open>
  C25. The packets that wait for end-to-end acknowledgements stay bounded: from an empty table, in every history of
  sends, acknowledgements, learned topologies and timeouts, there are never more of them than the
  configured number, and none is sent again more often than configured.
\<close>

theorem waiting_packets_bounded:
  assumes "waiting_run L E st st'" and "end_to_end_reliable_tx st = []" and "end_to_end_reliable_tx_order st = []"
  shows "length (end_to_end_reliable_tx st') \<le> max (reliable_max_end_to_end_pending E) 1 \<and>
    list_all (\<lambda>s. e2e_retries s \<le> reliable_max_retries E) (bt_values (end_to_end_reliable_tx st'))"
proof -
  have "waiting_ok E st" using assms(2,3) by (simp add: waiting_ok_def bt_keys_def)
  then have ok: "waiting_ok E st'" by (rule waiting_run_ok [OF assms(1)])
  from waiting_ok_bound [OF ok] ok show ?thesis
    by (auto simp: waiting_ok_def wait_limit_def list_all_iff bt_values_def)
qed

theorem waiting_packets_bounded_witness:
  "length (end_to_end_reliable_tx (fst (register_end_to_end_reliable_tx roomy_env 5 (Item_Packet gps_packet) quiet))) \<le> 16"
proof -
  have "waiting_run sample_layout roomy_env quiet (fst (register_end_to_end_reliable_tx roomy_env 5 (Item_Packet gps_packet) quiet))"
    by (rule Wait_Step [OF Wait_Nil waiting_step.Register])
  from waiting_packets_bounded [OF this] show ?thesis
    by (simp add: quiet_def two_sided_def roomy_env_def sample_env_def)
qed




end
