(* ===== verification/Actions.thy ===== *)
theory Actions
  imports Telemetry_Types
begin

text \<open>
  Operations on a state that may fail, panic, or not return: they give the state they leave and a
  result, or \<open>None\<close> when a loop does not end. The router and the relay are written with them. The
  operators are monotone, so that recursion through them has a least fixed point.
\<close>

type_synonym ('s, 'a) stateful = "'s \<Rightarrow> ('s \<times> 'a telemetry_result) option"

section \<open>Actions\<close>

definition give :: "'a telemetry_result \<Rightarrow> ('s, 'a) stateful" where
  "give r w = Some (w, r)"

definition wthen :: "('s, 'a) stateful \<Rightarrow> ('a \<Rightarrow> ('s, 'b) stateful) \<Rightarrow> ('s, 'b) stateful" where
  "wthen m f w =
     Option.bind (m w) (\<lambda>(w, r). case r of Ok x \<Rightarrow> f x w | Err e \<Rightarrow> Some (w, Err e) | Panic p \<Rightarrow> Some (w, Panic p))"

text \<open>\<open>let _ = \<dots>\<close>, which drops an error but not a panic, and \<open>if let Err(e) = \<dots>\<close>.\<close>

definition catching :: "('s, 'a) stateful \<Rightarrow> (telemetry_error \<Rightarrow> ('s, 'a) stateful) \<Rightarrow> ('s, 'a) stateful" where
  "catching m h w =
     Option.bind (m w) (\<lambda>(w, r). case r of Ok x \<Rightarrow> Some (w, Ok x) | Err e \<Rightarrow> h e w | Panic p \<Rightarrow> Some (w, Panic p))"

definition ignoring :: "('s, unit) stateful \<Rightarrow> ('s, unit) stateful" where
  "ignoring m = catching m (\<lambda>_. give (Ok ()))"

fun each :: "('a \<Rightarrow> ('s, unit) stateful) \<Rightarrow> 'a list \<Rightarrow> ('s, unit) stateful" where
  "each f [] = give (Ok ())"
| "each f (x # xs) = wthen (f x) (\<lambda>_. each f xs)"

definition reading :: "('s \<Rightarrow> ('s, 'a) stateful) \<Rightarrow> ('s, 'a) stateful" where
  "reading f w = f w w"

text \<open>A loop whose body says whether to go on.\<close>

partial_function (option) repeating :: "('s, bool) stateful \<Rightarrow> ('s, unit) stateful" where
  "repeating m w =
     Option.bind (m w) (\<lambda>(w, r). case r of
       Ok go_on \<Rightarrow> if go_on then repeating m w else Some (w, Ok ())
     | Err e \<Rightarrow> Some (w, Err e)
     | Panic p \<Rightarrow> Some (w, Panic p))"

named_theorems action_mono \<open>monotonicity of actions in the action they call\<close>

text \<open>Recursion through these operators is monotone, so that it has a least fixed point.\<close>

lemma mono_outcome [action_mono]:
  assumes "\<And>x. mono_option (\<lambda>f. A f x)" and "\<And>e. mono_option (\<lambda>f. B f e)" and "\<And>p. mono_option (\<lambda>f. C f p)"
  shows "mono_option (\<lambda>f. case r of Ok x \<Rightarrow> A f x | Err e \<Rightarrow> B f e | Panic p \<Rightarrow> C f p)"
  by (cases r) (simp_all add: assms)

lemma mono_wthen [action_mono]:
  assumes "\<And>w. mono_option (\<lambda>f. A f w)" and "\<And>x w. mono_option (\<lambda>f. B f x w)"
  shows "mono_option (\<lambda>f. wthen (A f) (B f) w)"
  unfolding wthen_def case_prod_unfold by (intro bind_mono mono_outcome assms option.const_mono)

lemma mono_catching [action_mono]:
  assumes "\<And>w. mono_option (\<lambda>f. A f w)" and "\<And>e w. mono_option (\<lambda>f. B f e w)"
  shows "mono_option (\<lambda>f. catching (A f) (B f) w)"
  unfolding catching_def case_prod_unfold by (intro bind_mono mono_outcome assms option.const_mono)

lemma mono_ignoring [action_mono]:
  assumes "\<And>w. mono_option (\<lambda>f. A f w)"
  shows "mono_option (\<lambda>f. ignoring (A f) w)"
  unfolding ignoring_def by (intro mono_catching assms option.const_mono)

lemma mono_each [action_mono]:
  assumes "\<And>x w. mono_option (\<lambda>f. A f x w)"
  shows "mono_option (\<lambda>f. each (A f) xs w)"
  by (induction xs arbitrary: w) (auto intro: mono_wthen assms option.const_mono)

lemma mono_reading [action_mono]:
  assumes "\<And>x w. mono_option (\<lambda>f. A f x w)"
  shows "mono_option (\<lambda>f. reading (A f) w)"
  unfolding reading_def by (rule assms)

lemma mono_if [action_mono]:
  assumes "\<And>w. mono_option (\<lambda>f. A f w)" and "\<And>w. mono_option (\<lambda>f. B f w)"
  shows "mono_option (\<lambda>f. (if b then A f else B f) w)"
  by (cases b) (simp_all add: assms)

lemma mono_case_option [action_mono]:
  assumes "\<And>w. mono_option (\<lambda>f. A f w)" and "\<And>x w. mono_option (\<lambda>f. B f x w)"
  shows "mono_option (\<lambda>f. (case v of None \<Rightarrow> A f | Some x \<Rightarrow> B f x) w)"
  by (cases v) (simp_all add: assms)

lemma mono_case_prod [action_mono]:
  assumes "\<And>x y w. mono_option (\<lambda>f. A f x y w)"
  shows "mono_option (\<lambda>f. (case v of (x, y) \<Rightarrow> A f x y) w)"
  by (cases v) (simp add: assms)

lemma mono_case_outcome [action_mono]:
  assumes "\<And>x w. mono_option (\<lambda>f. A f x w)" and "\<And>e w. mono_option (\<lambda>f. B f e w)" and "\<And>p w. mono_option (\<lambda>f. C f p w)"
  shows "mono_option (\<lambda>f. (case r of Ok x \<Rightarrow> A f x | Err e \<Rightarrow> B f e | Panic p \<Rightarrow> C f p) w)"
  by (cases r) (simp_all add: assms)

end
