(* ===== verification/Router_World.thy ===== *)
theory Router_World
  imports Router_Discovery Actions
begin

text \<open>
  A router as a whole: the state behind its two locks, its interrupt queue, and the foreign code
  around it. The clock, the callbacks of sides and endpoints, the transmit gate and the try-lock of the
  interrupt queue answer one question after the other; \<open>wd_tick\<close> counts the questions, and a record
  \<open>foreign\<close> holds the answers, so a theorem for every \<open>foreign\<close> is a theorem for everything
  foreign code may do. Callbacks that call the router again are queued by the gate and are not
  modelled further. The trace \<open>wd_events\<close> lists the handler calls, the items handed to the send routine of a
  side, and what was printed.

  An action may fail, panic, or not return (\<open>None\<close>), because a loop does not end or because error
  packets about error packets never stop.
\<close>

section \<open>The world\<close>

datatype event =
    Handler_Called endpoint_handler router_item
  | Handed_To_Side nat router_item
  | Printed bytes

record world =
  wd_inner :: router_inner
  wd_time :: time_sync_runtime
  wd_isr :: "router_rx_item bounded_deque"
  wd_tick :: nat
  wd_events :: "event list"

record foreign =
  fo_clock :: "nat \<Rightarrow> instant"
  fo_side :: "nat \<Rightarrow> tx_call"
  fo_handler :: "nat \<Rightarrow> unit telemetry_result"
  fo_gate :: "nat \<Rightarrow> bool"
  fo_isr_busy :: "nat \<Rightarrow> bool"
  fo_error_text :: "data_endpoint option \<Rightarrow> telemetry_error \<Rightarrow> bytes"
  fo_env_error_text :: "data_endpoint option \<Rightarrow> telemetry_error \<Rightarrow> bytes"

record router_machine =
  rm_layout :: layout
  rm_env :: env
  rm_node :: router_node
  rm_foreign :: foreign

type_synonym 'a action = "(world, 'a) stateful"

section \<open>Locks and questions\<close>

text \<open>The state behind one lock, both, and a question to foreign code.\<close>

definition on_inner :: "(router_inner \<Rightarrow> router_inner \<times> 'a telemetry_result) \<Rightarrow> 'a action" where
  "on_inner f w = (case f (wd_inner w) of (st, r) \<Rightarrow> Some (w\<lparr>wd_inner := st\<rparr>, r))"

definition on_time :: "(time_sync_runtime \<Rightarrow> time_sync_runtime \<times> 'a telemetry_result) \<Rightarrow> 'a action" where
  "on_time f w = (case f (wd_time w) of (tr, r) \<Rightarrow> Some (w\<lparr>wd_time := tr\<rparr>, r))"

definition on_both ::
  "(time_sync_runtime \<times> router_inner \<Rightarrow> (time_sync_runtime \<times> router_inner) \<times> 'a telemetry_result) \<Rightarrow> 'a action" where
  "on_both f w = (case f (wd_time w, wd_inner w) of ((tr, st), r) \<Rightarrow> Some (w\<lparr>wd_time := tr, wd_inner := st\<rparr>, r))"

definition asking :: "(nat \<Rightarrow> 'q) \<Rightarrow> ('q \<Rightarrow> 'a action) \<Rightarrow> 'a action" where
  "asking q f w = f (q (wd_tick w)) (w\<lparr>wd_tick := Suc (wd_tick w)\<rparr>)"

definition noting :: "event \<Rightarrow> unit action" where
  "noting ev w = Some (w\<lparr>wd_events := wd_events w @ [ev]\<rparr>, Ok ())"

abbreviation at_now :: "router_machine \<Rightarrow> (instant \<Rightarrow> 'a action) \<Rightarrow> 'a action" where
  "at_now M \<equiv> asking (fo_clock (rm_foreign M))"

definition stamp :: "router_machine \<Rightarrow> u64 action" where
  "stamp M = at_now M (\<lambda>now. on_time (\<lambda>tr. case packet_timestamp_ms now tr of (tr, ts) \<Rightarrow> (tr, Ok ts)))"

lemma mono_asking [action_mono]:
  assumes "\<And>x w. mono_option (\<lambda>f. A f x w)"
  shows "mono_option (\<lambda>f. asking q (A f) w)"
  unfolding asking_def by (rule assms)

lemma mono_case_item [action_mono]:
  assumes "\<And>x w. mono_option (\<lambda>f. A f x w)" and "\<And>x w. mono_option (\<lambda>f. B f x w)"
  shows "mono_option (\<lambda>f. (case it of Item_Packet x \<Rightarrow> A f x | Item_Serialized x \<Rightarrow> B f x) w)"
  by (cases it) (simp_all add: assms)

lemma mono_case_handler [action_mono]:
  assumes "\<And>w. mono_option (\<lambda>f. A f w)" and "\<And>w. mono_option (\<lambda>f. B f w)"
  shows "mono_option (\<lambda>f. (case k of Packet_Handler \<Rightarrow> A f | Serialized_Handler \<Rightarrow> B f) w)"
  by (cases k) (simp_all add: assms)

section \<open>Planning and queueing with the clock\<close>

definition is_duplicate :: "router_machine \<Rightarrow> router_item \<Rightarrow> bool action" where
  "is_duplicate M it w =
     map_option (\<lambda>(st, r). (w\<lparr>wd_inner := st\<rparr>, r)) (is_duplicate_pkt (rm_layout M) (rm_env M) it (wd_inner w))"

definition plan_sides :: "router_machine \<Rightarrow> router_item \<Rightarrow> nat option \<Rightarrow> nat list action" where
  "plan_sides M it src = at_now M (\<lambda>now. reading (\<lambda>w.
     on_inner (remote_side_plan (rm_env M) (rm_node M) (tsr_tracker (wd_time w)) (in_ms now) it src)))"

definition routes_remote :: "router_machine \<Rightarrow> router_item \<Rightarrow> nat option \<Rightarrow> bool action" where
  "routes_remote M it src = at_now M (\<lambda>now. reading (\<lambda>w.
     on_inner (should_route_remote (rm_env M) (rm_node M) (tsr_tracker (wd_time w)) (in_ms now) it src)))"

definition queue_item :: "router_machine \<Rightarrow> router_tx_item \<Rightarrow> bool \<Rightarrow> unit action" where
  "queue_item M item ignore_local = on_inner (tx_queue_item_with_flags (rm_layout M) (rm_env M) item ignore_local)"

definition queue_ack :: "router_machine \<Rightarrow> packet \<Rightarrow> unit action" where
  "queue_ack M pkt = at_now M (\<lambda>now. on_both (queue_end_to_end_reliable_ack (rm_layout M) (rm_env M) (rm_node M) now pkt))"

definition poll_time :: "router_machine \<Rightarrow> bool action" where
  "poll_time M = at_now M (\<lambda>now. at_now M (\<lambda>t_ann. at_now M (\<lambda>t_req.
     on_both (poll_timesync (rm_layout M) (rm_env M) (rm_node M) now t_ann t_req))))"

definition poll_discovery :: "router_machine \<Rightarrow> bool action" where
  "poll_discovery M = at_now M (\<lambda>now. at_now M (\<lambda>now'. reading (\<lambda>w.
     on_inner (poll_discovery_announce (rm_layout M) (rm_env M) (rm_node M) (wd_time w) now now'))))"

definition announce_discovery :: "router_machine \<Rightarrow> unit action" where
  "announce_discovery M = at_now M (\<lambda>now. reading (\<lambda>w.
     on_inner (queue_discovery_announce (rm_layout M) (rm_env M) (rm_node M) (wd_time w) now)))"

section \<open>The interrupt queue\<close>

definition isr_locked :: "router_machine \<Rightarrow> 'a action \<Rightarrow> 'a action" where
  "isr_locked M f = asking (fo_isr_busy (rm_foreign M)) (\<lambda>busy. if busy then give (Err (Io ''rx queue busy'')) else f)"

definition isr_push_back_prioritized :: "router_machine \<Rightarrow> router_rx_item \<Rightarrow> unit action" where
  "isr_push_back_prioritized M it = isr_locked M (\<lambda>w.
     case push_back_prioritized (rx_item_byte_cost (rm_layout M)) (size_rx_item (rm_layout M)) rx_priority it (wd_isr w) of
       (q, r) \<Rightarrow> Some (w\<lparr>wd_isr := q\<rparr>, r))"

definition isr_pop_front :: "router_machine \<Rightarrow> router_rx_item option action" where
  "isr_pop_front M = isr_locked M (\<lambda>w.
     case pop_front (rx_item_byte_cost (rm_layout M)) (wd_isr w) of (v, q) \<Rightarrow> Some (w\<lparr>wd_isr := q\<rparr>, Ok v))"

definition isr_clear :: "router_machine \<Rightarrow> unit action" where
  "isr_clear M = isr_locked M (\<lambda>w. Some (w\<lparr>wd_isr := bd_clear (wd_isr w)\<rparr>, Ok ()))"

text \<open>\<open>Router::new_with_clock\<close>.\<close>

definition router_new_with_clock :: "layout \<Rightarrow> 'z config_scheme \<Rightarrow> router_node \<Rightarrow> (telemetry_error, world) outcome" where
  "router_new_with_clock L C N =
     andthen (router_inner_new L C) (\<lambda>st.
     andthen (bd_new (size_rx_item L) (max_queue_budget C) (starting_queue_size C) (queue_grow_step C)) (\<lambda>isr.
       Ok \<lparr>wd_inner = st, wd_time = runtime_new C (rn_timesync N), wd_isr = isr, wd_tick = 0, wd_events = []\<rparr>))"

end
