(* ===== verification/Router_Dispatch.thy ===== *)
theory Router_Dispatch
  imports Router_World
begin

text \<open>
  \<open>src/router.rs\<close>, how an item goes through a router: local handlers with their retries and error
  reports, transmission to the planned sides, and the receive path from a side's frame to handlers,
  acknowledgement and relay. A failed handler or side makes the router transmit an error packet, which
  may fail in turn: \<open>tx_item_impl\<close> is recursive, and \<open>tx\<close> stands for \<open>tx_item\<close> below it. The texts
  of the error reports come from \<open>format!\<close> and are answers of \<open>foreign\<close>.
\<close>

section \<open>Error reports\<close>

definition make_error_payload :: "'z config_scheme \<Rightarrow> bytes \<Rightarrow> bytes" where
  "make_error_payload C msg =
     (case mm_element (get_message_meta C TelemetryErrorType) of
        Static _ _ _ \<Rightarrow>
          (let n = get_needed_message_size C TelemetryErrorType in take n msg @ replicate (n - length msg) 0)
      | Dynamic _ _ \<Rightarrow> msg)"

definition without_failed :: "data_endpoint option \<Rightarrow> data_endpoint list \<Rightarrow> data_endpoint list" where
  "without_failed dest eps = (case dest of Some failed \<Rightarrow> filter (\<lambda>ep. ep \<noteq> failed) eps | None \<Rightarrow> eps)"

definition error_recipients :: "router_node \<Rightarrow> data_endpoint option \<Rightarrow> data_endpoint list \<Rightarrow> data_endpoint list" where
  "error_recipients N dest eps =
     (let recipients = without_failed dest (sort_dedup (filter (is_local_endpoint N) eps))
      in if recipients = [] then without_failed dest (sort_dedup eps) else recipients)"

definition handle_callback_error ::
  "router_machine \<Rightarrow> (router_tx_item \<Rightarrow> unit action) \<Rightarrow> packet \<Rightarrow> data_endpoint option \<Rightarrow> telemetry_error \<Rightarrow> unit action" where
  "handle_callback_error M tx pkt dest e =
     (let error_msg = fo_error_text (rm_foreign M) dest e;
          recipients = error_recipients (rm_node M) dest (pkt_endpoints pkt)
      in if recipients = [] then noting (Printed error_msg)
         else
           wthen (stamp M) (\<lambda>ts.
           wthen (give (packet_new (rm_env M) TelemetryErrorType recipients (rn_sender (rm_node M)) ts
                          (make_error_payload (rm_env M) error_msg))) (\<lambda>error_pkt.
             tx (Broadcast (Item_Packet error_pkt)))))"

definition handle_callback_error_from_env ::
  "router_machine \<Rightarrow> (router_tx_item \<Rightarrow> unit action) \<Rightarrow> telemetry_envelope \<Rightarrow> data_endpoint option \<Rightarrow> telemetry_error \<Rightarrow>
     unit action" where
  "handle_callback_error_from_env M tx env dest e =
     (let recipients = error_recipients (rm_node M) dest (te_endpoints env);
          error_msg = fo_env_error_text (rm_foreign M) dest e
      in if recipients = [] then noting (Printed error_msg)
         else
           wthen (give (packet_new (rm_env M) TelemetryErrorType recipients (te_sender env) (te_timestamp_ms env)
                          (make_error_payload (rm_env M) error_msg))) (\<lambda>error_pkt.
             tx (Broadcast (Item_Packet error_pkt))))"

section \<open>Local handlers\<close>

fun retrying :: "nat \<Rightarrow> unit action \<Rightarrow> telemetry_error option \<Rightarrow> unit action" where
  "retrying 0 run last_err = give (case last_err of Some e \<Rightarrow> Err e | None \<Rightarrow> Panic ''times > 0'')"
| "retrying (Suc n) run last_err = catching run (\<lambda>e. retrying n run (Some e))"

definition call_handler :: "router_machine \<Rightarrow> endpoint_handler \<Rightarrow> router_item \<Rightarrow> unit action" where
  "call_handler M h it = asking (fo_handler (rm_foreign M)) (\<lambda>r. wthen (noting (Handler_Called h it)) (\<lambda>_. give r))"

definition with_retries ::
  "router_machine \<Rightarrow> (router_tx_item \<Rightarrow> unit action) \<Rightarrow> data_endpoint \<Rightarrow> router_item \<Rightarrow> packet option \<Rightarrow>
     telemetry_envelope option \<Rightarrow> unit action \<Rightarrow> unit action" where
  "with_retries M tx dest it pkt env run =
     catching (retrying (max_handler_retries (rm_env M)) run None) (\<lambda>e.
       wthen (on_inner (remove_pkt_id (rm_env M) it)) (\<lambda>_.
       wthen (ignoring
           (case pkt of
              Some pkt \<Rightarrow> handle_callback_error M tx pkt (Some dest) e
            | None \<Rightarrow>
                (case env of
                   Some env \<Rightarrow> handle_callback_error_from_env M tx env (Some dest) e
                 | None \<Rightarrow> give (Ok ())))) (\<lambda>_.
         give (Err (HandlerError ''local handler failed'')))))"

text \<open>Called with neither bytes nor a packet it would do nothing but assert in debug builds; no caller does.\<close>

definition call_handler_with_retries ::
  "router_machine \<Rightarrow> (router_tx_item \<Rightarrow> unit action) \<Rightarrow> endpoint_handler \<Rightarrow> bytes option \<Rightarrow> packet option \<Rightarrow>
     telemetry_envelope option \<Rightarrow> unit action" where
  "call_handler_with_retries M tx h data pkt env =
     (case (eh_handler h, data, pkt) of
        (_, None, None) \<Rightarrow> give (Ok ())
      | (Packet_Handler, Some _, None) \<Rightarrow> give (Panic ''Packet handler requires Packet context'')
      | (Packet_Handler, Some d, Some p) \<Rightarrow>
          with_retries M tx (eh_endpoint h) (Item_Serialized d) pkt env (call_handler M h (Item_Packet p))
      | (Packet_Handler, None, Some p) \<Rightarrow>
          with_retries M tx (eh_endpoint h) (Item_Packet p) pkt env (call_handler M h (Item_Packet p))
      | (Serialized_Handler, Some d, _) \<Rightarrow>
          with_retries M tx (eh_endpoint h) (Item_Serialized d) pkt env (call_handler M h (Item_Serialized d))
      | (Serialized_Handler, None, Some _) \<Rightarrow> give (Ok ()))"

definition endpoint_has_packet_handler :: "router_node \<Rightarrow> data_endpoint \<Rightarrow> bool" where
  "endpoint_has_packet_handler N ep \<longleftrightarrow>
     list_ex (\<lambda>h. eh_endpoint h = ep \<and> eh_handler h = Packet_Handler) (rn_handlers N)"

definition endpoint_has_serialized_handler :: "router_node \<Rightarrow> data_endpoint \<Rightarrow> bool" where
  "endpoint_has_serialized_handler N ep \<longleftrightarrow>
     list_ex (\<lambda>h. eh_endpoint h = ep \<and> eh_handler h = Serialized_Handler) (rn_handlers N)"

definition has_local_handler :: "router_node \<Rightarrow> data_endpoint list \<Rightarrow> bool" where
  "has_local_handler N eps \<longleftrightarrow>
     list_ex (\<lambda>ep. endpoint_has_packet_handler N ep \<or> endpoint_has_serialized_handler N ep) eps"

definition packet_has_local_handler :: "router_node \<Rightarrow> packet \<Rightarrow> bool" where
  "packet_has_local_handler N pkt \<longleftrightarrow> has_local_handler N (pkt_endpoints pkt)"

text \<open>The handlers of the endpoints, in the order of the two nested loops.\<close>

definition local_targets :: "router_node \<Rightarrow> data_endpoint list \<Rightarrow> endpoint_handler list" where
  "local_targets N eps = concat (map (\<lambda>dest. filter (\<lambda>h. eh_endpoint h = dest) (rn_handlers N)) eps)"

text \<open>\<open>guard\<close> is what a caller does with the failure of one handler: pass it on, or drop it.\<close>

definition deliver_packet_to ::
  "router_machine \<Rightarrow> (router_tx_item \<Rightarrow> unit action) \<Rightarrow> (unit action \<Rightarrow> unit action) \<Rightarrow> packet \<Rightarrow> bytes option \<Rightarrow>
     endpoint_handler \<Rightarrow> unit action" where
  "deliver_packet_to M tx guard pkt bytes_opt h =
     (case (eh_handler h, bytes_opt) of
        (Serialized_Handler, Some bs) \<Rightarrow> guard (call_handler_with_retries M tx h (Some bs) (Some pkt) None)
      | (Serialized_Handler, None) \<Rightarrow>
          wthen (give (serialize_packet (rm_env M) pkt)) (\<lambda>bs.
            guard (call_handler_with_retries M tx h (Some bs) (Some pkt) None))
      | (Packet_Handler, _) \<Rightarrow> guard (call_handler_with_retries M tx h None (Some pkt) None))"

definition local_bytes :: "router_machine \<Rightarrow> data_endpoint list \<Rightarrow> packet \<Rightarrow> bytes option telemetry_result" where
  "local_bytes M eps pkt =
     (if list_ex (endpoint_has_serialized_handler (rm_node M)) eps
      then andthen (serialize_packet (rm_env M) pkt) (\<lambda>bs. Ok (Some bs)) else Ok None)"

definition deliver_packet ::
  "router_machine \<Rightarrow> (router_tx_item \<Rightarrow> unit action) \<Rightarrow> (unit action \<Rightarrow> unit action) \<Rightarrow> packet \<Rightarrow> unit action" where
  "deliver_packet M tx guard pkt =
     (let eps = sort_dedup (pkt_endpoints pkt)
      in wthen (give (local_bytes M eps pkt)) (\<lambda>bytes_opt.
           each (deliver_packet_to M tx guard pkt bytes_opt) (local_targets (rm_node M) eps)))"

definition deserialize_valid :: "env \<Rightarrow> bytes \<Rightarrow> packet telemetry_result" where
  "deserialize_valid E bs = andthen (deserialize_packet E bs) (\<lambda>pkt. andthen (packet_validate E pkt) (\<lambda>_. Ok pkt))"

text \<open>The packet is decoded when a handler first needs it; the result is the packet at the end of the loop.\<close>

fun deliver_serialized_to ::
  "router_machine \<Rightarrow> (router_tx_item \<Rightarrow> unit action) \<Rightarrow> (unit action \<Rightarrow> unit action) \<Rightarrow> telemetry_envelope \<Rightarrow> bytes \<Rightarrow>
     packet option \<Rightarrow> endpoint_handler list \<Rightarrow> packet option action" where
  "deliver_serialized_to M tx guard env bs pkt_opt [] = give (Ok pkt_opt)"
| "deliver_serialized_to M tx guard env bs pkt_opt (h # hs) =
     (case eh_handler h of
        Serialized_Handler \<Rightarrow>
          wthen (guard (call_handler_with_retries M tx h (Some bs) pkt_opt (Some env))) (\<lambda>_.
            deliver_serialized_to M tx guard env bs pkt_opt hs)
      | Packet_Handler \<Rightarrow>
          wthen (give (case pkt_opt of Some pkt \<Rightarrow> Ok pkt | None \<Rightarrow> deserialize_valid (rm_env M) bs)) (\<lambda>pkt.
          wthen (guard (call_handler_with_retries M tx h None (Some pkt) (Some env))) (\<lambda>_.
            deliver_serialized_to M tx guard env bs (Some pkt) hs)))"

definition packet_if_needed :: "router_machine \<Rightarrow> telemetry_envelope \<Rightarrow> bytes \<Rightarrow> packet option telemetry_result" where
  "packet_if_needed M env bs =
     (if list_ex (endpoint_has_packet_handler (rm_node M)) (te_endpoints env)
      then andthen (deserialize_valid (rm_env M) bs) (\<lambda>pkt. Ok (Some pkt)) else Ok None)"

definition dispatch_local_for_item ::
  "router_machine \<Rightarrow> (router_tx_item \<Rightarrow> unit action) \<Rightarrow> router_item \<Rightarrow> unit action" where
  "dispatch_local_for_item M tx it =
     (case it of
        Item_Packet pkt \<Rightarrow>
          wthen (give (packet_validate (rm_env M) pkt)) (\<lambda>_.
            if is_internal_control_type (pkt_ty pkt) then give (Ok ()) else deliver_packet M tx id pkt)
      | Item_Serialized bs \<Rightarrow>
          wthen (give (peek_envelope (rm_env M) bs)) (\<lambda>env.
            if is_internal_control_type (te_ty env) then give (Ok ())
            else
              wthen (give (packet_if_needed M env bs)) (\<lambda>pkt_opt.
              wthen (deliver_serialized_to M tx id env bs pkt_opt
                       (local_targets (rm_node M) (sort_dedup (te_endpoints env)))) (\<lambda>_. give (Ok ())))))"

section \<open>Transmission\<close>

text \<open>\<open>matches!\<close> on the type of an item, where unreadable bytes match nothing, and the type itself.\<close>

definition item_matches :: "env \<Rightarrow> (data_type \<Rightarrow> bool) \<Rightarrow> router_item \<Rightarrow> bool telemetry_result" where
  "item_matches E P it =
     (case it of
        Item_Packet pkt \<Rightarrow> Ok (P (pkt_ty pkt))
      | Item_Serialized bs \<Rightarrow>
          (case peek_envelope E bs of Ok env \<Rightarrow> Ok (P (te_ty env)) | Err _ \<Rightarrow> Ok False | Panic m \<Rightarrow> Panic m))"

definition item_type :: "env \<Rightarrow> router_item \<Rightarrow> data_type telemetry_result" where
  "item_type E it =
     (case it of
        Item_Packet pkt \<Rightarrow> Ok (pkt_ty pkt)
      | Item_Serialized bs \<Rightarrow> andthen (peek_envelope E bs) (\<lambda>env. Ok (te_ty env)))"

definition check_item :: "env \<Rightarrow> router_item \<Rightarrow> unit telemetry_result" where
  "check_item E it =
     (case it of
        Item_Packet pkt \<Rightarrow> packet_validate E pkt
      | Item_Serialized bs \<Rightarrow> andthen (peek_envelope E bs) (\<lambda>_. Ok ()))"

definition send_to_side :: "router_machine \<Rightarrow> nat \<Rightarrow> router_item \<Rightarrow> unit action" where
  "send_to_side M side it =
     asking (fo_side (rm_foreign M)) (\<lambda>call.
     wthen (noting (Handed_To_Side side it)) (\<lambda>_.
       on_inner (send_reliable_to_side (rm_env M) (rm_node M) call side it)))"

definition report_tx_failure ::
  "router_machine \<Rightarrow> (router_tx_item \<Rightarrow> unit action) \<Rightarrow> router_item \<Rightarrow> telemetry_error \<Rightarrow> 'a action" where
  "report_tx_failure M tx it e =
     wthen
       (case it of
          Item_Packet pkt \<Rightarrow> ignoring (handle_callback_error M tx pkt None e)
        | Item_Serialized bs \<Rightarrow>
            (case peek_envelope (rm_env M) bs of
               Ok env \<Rightarrow> ignoring (handle_callback_error_from_env M tx env None e)
             | Err _ \<Rightarrow> give (Ok ())
             | Panic m \<Rightarrow> give (Panic m)))
       (\<lambda>_. give (Err (HandlerError ''tx handler failed'')))"

text \<open>
  The loop over the planned sides: a busy gate queues the item for this side and the sides after it,
  any other failure is reported and ends the loop.
\<close>

fun send_to_sides ::
  "router_machine \<Rightarrow> (router_tx_item \<Rightarrow> unit action) \<Rightarrow> router_item \<Rightarrow> nat list \<Rightarrow> unit action" where
  "send_to_sides M tx it [] = give (Ok ())"
| "send_to_sides M tx it (side # ss) =
     wthen
       (catching (wthen (send_to_side M side it) (\<lambda>_. give (Ok True))) (\<lambda>e.
          if is_side_tx_busy e
          then wthen (each (\<lambda>retry_side. queue_item M (ToSide None retry_side it) True) (side # ss)) (\<lambda>_. give (Ok False))
          else report_tx_failure M tx it e))
       (\<lambda>sent. if sent then send_to_sides M tx it ss else give (Ok ()))"

definition local_first ::
  "router_machine \<Rightarrow> (router_tx_item \<Rightarrow> unit action) \<Rightarrow> router_item \<Rightarrow> bool \<Rightarrow> bool \<Rightarrow> bool action" where
  "local_first M tx it ignore_local no_local =
     (if ignore_local then give (Ok True)
      else
        wthen (is_duplicate M it) (\<lambda>dup.
          if dup then give (Ok False)
          else
            wthen (give (item_matches (rm_env M) is_internal_control_type it)) (\<lambda>internal.
            wthen (if no_local \<or> internal then give (Ok ()) else dispatch_local_for_item M tx it) (\<lambda>_.
              give (Ok True)))))"

definition track_end_to_end :: "router_machine \<Rightarrow> router_item \<Rightarrow> data_type \<Rightarrow> nat list \<Rightarrow> bool \<Rightarrow> unit action" where
  "track_end_to_end M it ty ss ignore_local =
     (if \<not> ignore_local \<and> is_reliable_type (rm_env M) ty \<and> \<not> is_internal_control_type ty
      then reading (\<lambda>w.
        if list_ex (side_supports_end_to_end_reliable (wd_inner w)) ss
        then at_now M (\<lambda>now. on_inner (register_end_to_end_reliable_tx (rm_env M) (in_ms now) it))
        else give (Ok ()))
      else give (Ok ()))"

definition tx_broadcast ::
  "router_machine \<Rightarrow> (router_tx_item \<Rightarrow> unit action) \<Rightarrow> router_item \<Rightarrow> bool \<Rightarrow> unit action" where
  "tx_broadcast M tx it ignore_local =
     wthen (give (item_matches (rm_env M) is_discovery_type it)) (\<lambda>is_discovery.
     wthen (local_first M tx it ignore_local is_discovery) (\<lambda>fresh.
       if \<not> fresh then give (Ok ())
       else
         wthen (give (check_item (rm_env M) it)) (\<lambda>_.
         wthen (routes_remote M it None) (\<lambda>send_remote.
           if \<not> send_remote then give (Ok ())
           else
             wthen (give (item_type (rm_env M) it)) (\<lambda>ty.
             wthen (plan_sides M it None) (\<lambda>ss.
             wthen (track_end_to_end M it ty ss ignore_local) (\<lambda>_. send_to_sides M tx it ss)))))))"

definition tx_to_side ::
  "router_machine \<Rightarrow> (router_tx_item \<Rightarrow> unit action) \<Rightarrow> nat option \<Rightarrow> nat \<Rightarrow> router_item \<Rightarrow> bool \<Rightarrow> unit action" where
  "tx_to_side M tx src dst it ignore_local =
     wthen (local_first M tx it ignore_local False) (\<lambda>fresh.
       if \<not> fresh then give (Ok ())
       else
         wthen (give (item_type (rm_env M) it)) (\<lambda>ty.
         reading (\<lambda>w.
           if \<not> route_allowed (rm_env M) (wd_inner w) src (Some ty) dst then give (Ok ())
           else catching (send_to_side M dst it) (\<lambda>e.
             if is_side_tx_busy e then queue_item M (ToSide src dst it) True
             else report_tx_failure M tx it e))))"

definition tx_end_to_end_replay ::
  "router_machine \<Rightarrow> (router_tx_item \<Rightarrow> unit action) \<Rightarrow> u64 \<Rightarrow> unit action" where
  "tx_end_to_end_replay M tx pid =
     at_now M (\<lambda>now.
     wthen (on_inner (\<lambda>st. case end_to_end_retransmit_sides (in_ms now) pid st of (st, found) \<Rightarrow> (st, Ok found))) (\<lambda>found.
       case found of
         None \<Rightarrow> give (Ok ())
       | Some (it, ss) \<Rightarrow>
           wthen (if ss = [] then plan_sides M it None else give (Ok ss)) (send_to_sides M tx it)))"

definition tx_item_body ::
  "router_machine \<Rightarrow> (router_tx_item \<Rightarrow> unit action) \<Rightarrow> router_tx_item \<Rightarrow> bool \<Rightarrow> unit action" where
  "tx_item_body M tx item ignore_local =
     (case item of
        Broadcast it \<Rightarrow> tx_broadcast M tx it ignore_local
      | ToSide src dst it \<Rightarrow> tx_to_side M tx src dst it ignore_local
      | EndToEndReplay pid \<Rightarrow> tx_end_to_end_replay M tx pid
      | ReliableReplay dst bs \<Rightarrow>
          asking (fo_side (rm_foreign M)) (\<lambda>call. on_inner (tx_reliable_replay (rm_layout M) (rm_env M) call dst bs)))"

text \<open>The recursion through error reports is the least fixed point of the body.\<close>

lemma mono_handle_callback_error [action_mono]:
  assumes "\<And>item w. mono_option (\<lambda>f. tx f item w)"
  shows "mono_option (\<lambda>f. handle_callback_error M (tx f) pkt dest e w)"
  unfolding handle_callback_error_def Let_def by (intro action_mono option.const_mono assms)

lemma mono_handle_callback_error_from_env [action_mono]:
  assumes "\<And>item w. mono_option (\<lambda>f. tx f item w)"
  shows "mono_option (\<lambda>f. handle_callback_error_from_env M (tx f) env dest e w)"
  unfolding handle_callback_error_from_env_def Let_def by (intro action_mono option.const_mono assms)

lemma mono_with_retries [action_mono]:
  assumes "\<And>item w. mono_option (\<lambda>f. tx f item w)"
  shows "mono_option (\<lambda>f. with_retries M (tx f) dest it pkt env run w)"
  unfolding with_retries_def by (intro action_mono option.const_mono assms)

lemma mono_call_handler_with_retries [action_mono]:
  assumes "\<And>item w. mono_option (\<lambda>f. tx f item w)"
  shows "mono_option (\<lambda>f. call_handler_with_retries M (tx f) h data pkt env w)"
  unfolding call_handler_with_retries_def prod.case by (intro action_mono option.const_mono assms)

lemma mono_deliver_packet_to_id [action_mono]:
  assumes "\<And>item w. mono_option (\<lambda>f. tx f item w)"
  shows "mono_option (\<lambda>f. deliver_packet_to M (tx f) id pkt bytes_opt h w)"
  unfolding deliver_packet_to_def prod.case id_apply by (intro action_mono option.const_mono assms)

lemma mono_deliver_packet_id [action_mono]:
  assumes "\<And>item w. mono_option (\<lambda>f. tx f item w)"
  shows "mono_option (\<lambda>f. deliver_packet M (tx f) id pkt w)"
  unfolding deliver_packet_def Let_def by (intro action_mono option.const_mono assms)

lemma mono_deliver_serialized_to_id [action_mono]:
  assumes "\<And>item w. mono_option (\<lambda>f. tx f item w)"
  shows "mono_option (\<lambda>f. deliver_serialized_to M (tx f) id env bs pkt_opt hs w)"
proof (induction hs arbitrary: pkt_opt w)
  case (Cons h hs)
  have id: "mono_option (\<lambda>f. id (A f) w)" if "mono_option (\<lambda>f. A f w)" for A w using that by simp
  show ?case unfolding deliver_serialized_to.simps by (intro action_mono option.const_mono assms id Cons)
qed (simp add: option.const_mono)

lemma mono_dispatch_local_for_item [action_mono]:
  assumes "\<And>item w. mono_option (\<lambda>f. tx f item w)"
  shows "mono_option (\<lambda>f. dispatch_local_for_item M (tx f) it w)"
  unfolding dispatch_local_for_item_def by (intro action_mono option.const_mono assms)

lemma mono_report_tx_failure [action_mono]:
  assumes "\<And>item w. mono_option (\<lambda>f. tx f item w)"
  shows "mono_option (\<lambda>f. report_tx_failure M (tx f) it e w)"
  unfolding report_tx_failure_def by (intro action_mono option.const_mono assms)

lemma mono_send_to_sides [action_mono]:
  assumes "\<And>item w. mono_option (\<lambda>f. tx f item w)"
  shows "mono_option (\<lambda>f. send_to_sides M (tx f) it ss w)"
proof (induction ss arbitrary: w)
  case (Cons side ss)
  show ?case unfolding send_to_sides.simps by (intro action_mono option.const_mono assms Cons)
qed (simp add: option.const_mono)

lemma mono_local_first [action_mono]:
  assumes "\<And>item w. mono_option (\<lambda>f. tx f item w)"
  shows "mono_option (\<lambda>f. local_first M (tx f) it ignore_local no_local w)"
  unfolding local_first_def by (intro action_mono option.const_mono assms)

lemma mono_tx_broadcast [action_mono]:
  assumes "\<And>item w. mono_option (\<lambda>f. tx f item w)"
  shows "mono_option (\<lambda>f. tx_broadcast M (tx f) it ignore_local w)"
  unfolding tx_broadcast_def by (intro action_mono option.const_mono assms)

lemma mono_tx_to_side [action_mono]:
  assumes "\<And>item w. mono_option (\<lambda>f. tx f item w)"
  shows "mono_option (\<lambda>f. tx_to_side M (tx f) src dst it ignore_local w)"
  unfolding tx_to_side_def by (intro action_mono option.const_mono assms)

lemma mono_tx_end_to_end_replay [action_mono]:
  assumes "\<And>item w. mono_option (\<lambda>f. tx f item w)"
  shows "mono_option (\<lambda>f. tx_end_to_end_replay M (tx f) pid w)"
  unfolding tx_end_to_end_replay_def by (intro action_mono option.const_mono assms)

lemma mono_tx_item_body [partial_function_mono]:
  assumes "\<And>item w. mono_option (\<lambda>f. tx f item w)"
  shows "mono_option (\<lambda>f. tx_item_body M (tx f) item ignore_local w)"
  by (cases item) (simp_all add: tx_item_body_def action_mono option.const_mono assms)

partial_function (option) tx_item_impl :: "router_machine \<Rightarrow> router_tx_item \<Rightarrow> bool \<Rightarrow> unit action" where
  "tx_item_impl M item ignore_local w = tx_item_body M (\<lambda>item. tx_item_impl M item False) item ignore_local w"

definition tx_item :: "router_machine \<Rightarrow> router_tx_item \<Rightarrow> unit action" where
  "tx_item M item = tx_item_impl M item False"

end
