(* ===== verification/Router_Ingress.thy ===== *)
theory Router_Ingress
  imports Router_Dispatch
begin

text \<open>
  \<open>src/router.rs\<close>, the receive path: what \<open>rx_item\<close> does with a frame of a side before duplicate
  suppression, the replies of the ordered receiver, and \<open>dispatch_rx_data\<close>, which hands an item to
  control handling or to the local handlers, acknowledges it and relays it.
\<close>

section \<open>Relaying\<close>

definition enqueue_relay :: "router_machine \<Rightarrow> router_item \<Rightarrow> nat option \<Rightarrow> unit action" where
  "enqueue_relay M it src = at_now M (\<lambda>now. reading (\<lambda>w.
     on_inner (enqueue_to_sides (rm_layout M) (rm_env M) (rm_node M) (tsr_tracker (wd_time w)) (in_ms now) it src True)))"

definition relay_send :: "router_machine \<Rightarrow> router_item \<Rightarrow> nat option \<Rightarrow> bool \<Rightarrow> unit action" where
  "relay_send M it src called_from_queue =
     (if called_from_queue then enqueue_relay M it src
      else
        wthen (plan_sides M it src) (each (\<lambda>side. tx_item_impl M (ToSide src side it) True)))"

definition relay_if_remote :: "router_machine \<Rightarrow> router_item \<Rightarrow> router_item \<Rightarrow> nat option \<Rightarrow> bool \<Rightarrow> unit action" where
  "relay_if_remote M planned it src called_from_queue =
     wthen (routes_remote M planned src) (\<lambda>has_remote.
       if has_remote then relay_send M it src called_from_queue else give (Ok ()))"

section \<open>Time synchronisation\<close>

definition handle_internal_timesync_packet ::
  "router_machine \<Rightarrow> packet \<Rightarrow> nat option \<Rightarrow> bool \<Rightarrow> unit action" where
  "handle_internal_timesync_packet M pkt src called_from_queue =
     (let relay = relay_if_remote M (Item_Packet pkt) (Item_Packet pkt) src called_from_queue
      in case rn_timesync (rm_node M) of
           None \<Rightarrow> relay
         | Some cfg \<Rightarrow>
             at_now M (\<lambda>now.
             wthen (on_time (timesync_packet_locked (rm_env M) cfg now pkt src)) (\<lambda>outcome.
               case outcome of
                 None \<Rightarrow> give (Ok ())
               | Some (response, poll_after) \<Rightarrow>
                   wthen (case response of
                            Some resp \<Rightarrow> at_now M (\<lambda>now.
                              on_both (queue_internal_timesync_response (rm_layout M) (rm_env M) (rm_node M) now resp))
                          | None \<Rightarrow> give (Ok ())) (\<lambda>_.
                   wthen (if poll_after then wthen (poll_time M) (\<lambda>_. give (Ok ())) else give (Ok ())) (\<lambda>_. relay)))))"

section \<open>A frame of a side\<close>

text \<open>A control packet carries the time it is built at.\<close>

definition reply ::
  "router_machine \<Rightarrow> (layout \<Rightarrow> env \<Rightarrow> router_node \<Rightarrow> u64 \<Rightarrow> nat \<Rightarrow> data_type \<Rightarrow> u32 \<Rightarrow> router_inner \<Rightarrow>
     router_inner \<times> unit telemetry_result) \<Rightarrow> nat \<Rightarrow> data_type \<Rightarrow> u32 \<Rightarrow> unit action" where
  "reply M queue_control src ty seq =
     wthen (stamp M) (\<lambda>ts. on_inner (queue_control (rm_layout M) (rm_env M) (rm_node M) ts src ty seq))"

text \<open>The acknowledgements and requests of the ordered receiver; \<open>None\<close> when the frame goes no further.\<close>

definition ordered_reply :: "router_machine \<Rightarrow> nat \<Rightarrow> data_type \<Rightarrow> ordered_action \<Rightarrow> bytes list option action" where
  "ordered_reply M src ty action =
     (case action of
        AckOld ack \<Rightarrow> wthen (reply M queue_reliable_ack src ty ack) (\<lambda>_. give (Ok None))
      | RequestMissing expected seq \<Rightarrow>
          wthen (reply M queue_reliable_partial_ack src ty seq) (\<lambda>_.
          wthen (reply M queue_reliable_packet_request src ty expected) (\<lambda>_. give (Ok None)))
      | Deliver ack frames \<Rightarrow>
          wthen (reply M queue_reliable_ack src ty ack) (\<lambda>_. give (Ok (Some (tl frames)))))"

definition rx_corrupt_frame :: "router_machine \<Rightarrow> nat \<Rightarrow> bytes \<Rightarrow> unit action" where
  "rx_corrupt_frame M src bs =
     (case peek_frame_info_unchecked (rm_env M) bs of
        Panic m \<Rightarrow> give (Panic m)
      | Err _ \<Rightarrow> give (Ok ())
      | Ok frame \<Rightarrow>
          (let ty = te_ty (fi_envelope frame) in
           case (if is_reliable_type (rm_env M) ty then fi_reliable frame else None) of
             None \<Rightarrow> give (Ok ())
           | Some hdr \<Rightarrow>
               if rh_flags hdr AND RELIABLE_FLAG_UNSEQUENCED \<noteq> 0 then give (Ok ())
               else
                 wthen
                   (if rh_flags hdr AND RELIABLE_FLAG_UNORDERED \<noteq> 0 then give (Ok (rh_seq hdr))
                    else on_inner (\<lambda>st.
                      let key = reliable_key (rm_env M) src ty;
                          st = reliable_rx_state_mut key st
                      in (st, Ok (min (rrx_expected_seq (rx_state_of key st)) (rh_seq hdr)))))
                   (reply M queue_reliable_packet_request src ty)))"

text \<open>
  The body of \<open>rx_item\<close> for serialized bytes from a side, up to duplicate suppression: \<open>None\<close>
  is its early return, \<open>Some rel\<close> goes on with the item and then with the released frames.
\<close>

definition rx_side_frame :: "router_machine \<Rightarrow> nat \<Rightarrow> bytes \<Rightarrow> bytes list option action" where
  "rx_side_frame M src bs =
     at_now M (\<lambda>now. reading (\<lambda>w.
     wthen (give (side_ref (wd_inner w) src)) (\<lambda>s.
       let hop_reliable_enabled = opt_reliable_enabled (side_opts s) \<and> rn_reliable_enabled (rm_node M) \<and>
             \<not> side_has_multiple_announcers (wd_inner w) src (in_ms now)
       in if hop_reliable_enabled \<and> side_tx_handler s = Serialized_Tx
          then
            (case peek_frame_info (rm_env M) bs of
               Panic m \<Rightarrow> give (Panic m)
             | Err e \<Rightarrow>
                 if e = Deserialize ''crc32 mismatch''
                 then wthen (rx_corrupt_frame M src bs) (\<lambda>_. give (Ok None))
                 else give (Err e)
             | Ok frame \<Rightarrow>
                 (let ty = te_ty (fi_envelope frame) in
                  case (if is_reliable_type (rm_env M) ty then fi_reliable frame else None) of
                    None \<Rightarrow> give (Ok (Some []))
                  | Some hdr \<Rightarrow>
                      if rh_flags hdr AND RELIABLE_FLAG_UNSEQUENCED \<noteq> 0 then give (Ok (Some []))
                      else if rh_flags hdr AND RELIABLE_FLAG_UNORDERED \<noteq> 0
                      then wthen (reply M queue_reliable_ack src ty (rh_seq hdr)) (\<lambda>_. give (Ok (Some [])))
                      else
                        wthen (on_inner (ordered_rx (rm_layout M) (rm_env M) src ty (rh_seq hdr) bs))
                          (ordered_reply M src ty)))
          else
            (case peek_frame_info (rm_env M) bs of
               Panic m \<Rightarrow> give (Panic m)
             | Err e \<Rightarrow> if e = Deserialize ''crc32 mismatch'' then give (Ok None) else give (Err e)
             | Ok frame \<Rightarrow> if ack_only frame then give (Ok None) else give (Ok (Some []))))))"

section \<open>Dispatch\<close>

definition learn :: "router_machine \<Rightarrow> packet \<Rightarrow> nat option \<Rightarrow> bool action" where
  "learn M pkt src = at_now M (\<lambda>now.
     on_inner (learn_discovery_packet (rm_layout M) (rm_env M) (rm_node M) (in_ms now) pkt src))"

definition handle_control :: "router_machine \<Rightarrow> packet \<Rightarrow> nat option \<Rightarrow> bool action" where
  "handle_control M pkt src = on_inner (handle_internal_reliable_packet (rm_layout M) (rm_env M) pkt src)"

definition acknowledge_end_to_end :: "router_machine \<Rightarrow> nat option \<Rightarrow> data_endpoint list \<Rightarrow> data_type \<Rightarrow> packet option \<Rightarrow> unit action" where
  "acknowledge_end_to_end M src eps ty pkt_opt =
     (case pkt_opt of
        Some pkt \<Rightarrow>
          if src \<noteq> None \<and> has_local_handler (rm_node M) eps \<and> is_reliable_type (rm_env M) ty
          then queue_ack M pkt else give (Ok ())
      | None \<Rightarrow> give (Ok ()))"

definition dispatch_packet :: "router_machine \<Rightarrow> nat option \<Rightarrow> packet \<Rightarrow> bool \<Rightarrow> unit action" where
  "dispatch_packet M src pkt called_from_queue =
     wthen (routes_remote M (Item_Packet pkt) src) (\<lambda>has_remote.
     wthen (deliver_packet M (tx_item M) ignoring pkt) (\<lambda>_.
     wthen (acknowledge_end_to_end M src (pkt_endpoints pkt) (pkt_ty pkt) (Some pkt)) (\<lambda>_.
       if has_remote then relay_send M (Item_Packet pkt) src called_from_queue else give (Ok ()))))"

definition dispatch_serialized ::
  "router_machine \<Rightarrow> nat option \<Rightarrow> telemetry_envelope \<Rightarrow> bytes \<Rightarrow> bool \<Rightarrow> unit action" where
  "dispatch_serialized M src env bs called_from_queue =
     wthen (give (packet_if_needed M env bs)) (\<lambda>pkt_opt.
     wthen (routes_remote M (Item_Serialized bs) src) (\<lambda>has_remote.
     wthen (deliver_serialized_to M (tx_item M) ignoring env bs pkt_opt
              (local_targets (rm_node M) (sort_dedup (te_endpoints env)))) (\<lambda>pkt_opt.
     wthen (acknowledge_end_to_end M src (te_endpoints env) (te_ty env) pkt_opt) (\<lambda>_.
       if has_remote
       then relay_send M (case pkt_opt of Some pkt \<Rightarrow> Item_Packet pkt | None \<Rightarrow> Item_Serialized bs) src called_from_queue
       else give (Ok ())))))"

definition dispatch_rx_data :: "router_machine \<Rightarrow> nat option \<Rightarrow> router_item \<Rightarrow> bool \<Rightarrow> unit action" where
  "dispatch_rx_data M src it called_from_queue =
     (case it of
        Item_Packet pkt \<Rightarrow>
          wthen (give (packet_validate (rm_env M) pkt)) (\<lambda>_.
          wthen (handle_control M pkt src) (\<lambda>control.
            if control then give (Ok ())
            else if is_timesync_type (pkt_ty pkt) then handle_internal_timesync_packet M pkt src called_from_queue
            else
              wthen (learn M pkt src) (\<lambda>learned.
                if learned then relay_if_remote M it (Item_Packet pkt) src called_from_queue
                else dispatch_packet M src pkt called_from_queue)))
      | Item_Serialized bs \<Rightarrow>
          wthen (give (peek_envelope (rm_env M) bs)) (\<lambda>env.
            if te_ty env \<in> {ReliableAck, ReliablePartialAck, ReliablePacketRequest}
            then
              wthen (give (deserialize_valid (rm_env M) bs)) (\<lambda>pkt.
              wthen (handle_control M pkt src) (\<lambda>_. give (Ok ())))
            else if is_timesync_type (te_ty env)
            then
              wthen (give (deserialize_valid (rm_env M) bs)) (\<lambda>pkt.
                handle_internal_timesync_packet M pkt src called_from_queue)
            else if is_discovery_type (te_ty env)
            then
              wthen (give (deserialize_valid (rm_env M) bs)) (\<lambda>pkt.
              wthen (learn M pkt src) (\<lambda>_. relay_if_remote M it (Item_Packet pkt) src called_from_queue))
            else dispatch_serialized M src env bs called_from_queue))"

section \<open>Receiving an item\<close>

definition acknowledge_again :: "router_machine \<Rightarrow> packet \<Rightarrow> unit action" where
  "acknowledge_again M pkt =
     (if is_reliable_type (rm_env M) (pkt_ty pkt) \<and> pkt_sender pkt \<noteq> rn_sender (rm_node M) \<and>
         packet_has_local_handler (rm_node M) pkt
      then queue_ack M pkt else give (Ok ()))"

definition rx_duplicate :: "router_machine \<Rightarrow> nat option \<Rightarrow> router_item \<Rightarrow> unit action" where
  "rx_duplicate M src it =
     (if src = None then give (Ok ())
      else
        (case it of
           Item_Packet pkt \<Rightarrow> acknowledge_again M pkt
         | Item_Serialized bs \<Rightarrow>
             (case deserialize_packet (rm_env M) bs of
                Ok pkt \<Rightarrow> acknowledge_again M pkt
              | Err _ \<Rightarrow> give (Ok ())
              | Panic m \<Rightarrow> give (Panic m))))"

definition dispatch_released :: "router_machine \<Rightarrow> nat option \<Rightarrow> bool \<Rightarrow> bytes \<Rightarrow> unit action" where
  "dispatch_released M src called_from_queue bs =
     wthen (is_duplicate M (Item_Serialized bs)) (\<lambda>dup.
       if dup then give (Ok ())
       else
         wthen (give (router_item_priority (rm_env M) (Item_Serialized bs))) (\<lambda>_.
           dispatch_rx_data M src (Item_Serialized bs) called_from_queue))"

definition rx_ingress :: "router_machine \<Rightarrow> router_rx_item \<Rightarrow> bytes list option action" where
  "rx_ingress M item =
     (case rx_src item of
        None \<Rightarrow> give (Ok (Some []))
      | Some src \<Rightarrow>
          reading (\<lambda>w.
          wthen (give (ensure_side_ingress_enabled (wd_inner w) src)) (\<lambda>_.
          wthen (on_inner (note_return_route_for (rm_env M) src (rx_data item))) (\<lambda>_.
            case rx_data item of
              Item_Packet _ \<Rightarrow> give (Ok (Some []))
            | Item_Serialized bs \<Rightarrow> rx_side_frame M src bs))))"

definition rx_item :: "router_machine \<Rightarrow> router_rx_item \<Rightarrow> bool \<Rightarrow> unit action" where
  "rx_item M item called_from_queue =
     wthen (rx_ingress M item) (\<lambda>go_on.
       case go_on of
         None \<Rightarrow> give (Ok ())
       | Some released \<Rightarrow>
           wthen (is_duplicate M (rx_data item)) (\<lambda>dup.
             if dup then rx_duplicate M (rx_src item) (rx_data item)
             else
               wthen (dispatch_rx_data M (rx_src item) (rx_data item) called_from_queue) (\<lambda>_.
                 each (dispatch_released M (rx_src item) called_from_queue) released)))"

end
