(* ===== verification/Router_Api.thy ===== *)
theory Router_Api
  imports Router_Ingress
begin

text \<open>
  \<open>src/router.rs\<close>, the operations an application calls: queueing received and outgoing items, also
  from an interrupt, the loops that work the queues off, and the immediate forms, which queue instead
  when a side callback is running. A loop without a time limit runs until its queue is empty and may
  not end.
\<close>

section \<open>Queueing received items\<close>

definition rx_item_of :: "env \<Rightarrow> nat option \<Rightarrow> router_item \<Rightarrow> router_rx_item telemetry_result" where
  "rx_item_of E src it =
     andthen (router_item_priority E it) (\<lambda>priority. Ok \<lparr>rx_src = src, rx_data = it, rx_priority = priority\<rparr>)"

definition push_rx :: "router_machine \<Rightarrow> router_rx_item \<Rightarrow> unit action" where
  "push_rx M item = on_inner (push_received (rm_layout M) (rm_env M) item)"

definition ensure_ingress :: "nat \<Rightarrow> unit action" where
  "ensure_ingress side = reading (\<lambda>w. give (ensure_side_ingress_enabled (wd_inner w) side))"

definition rx_serialized_queue :: "router_machine \<Rightarrow> bytes \<Rightarrow> unit action" where
  "rx_serialized_queue M bs = wthen (give (rx_item_of (rm_env M) None (Item_Serialized bs))) (push_rx M)"

definition rx_serialized_queue_isr :: "router_machine \<Rightarrow> bytes \<Rightarrow> unit action" where
  "rx_serialized_queue_isr M bs =
     wthen (give (rx_item_of (rm_env M) None (Item_Serialized bs))) (isr_push_back_prioritized M)"

definition rx_queue :: "router_machine \<Rightarrow> packet \<Rightarrow> unit action" where
  "rx_queue M pkt =
     wthen (give (packet_validate (rm_env M) pkt)) (\<lambda>_.
     wthen (give (rx_item_of (rm_env M) None (Item_Packet pkt))) (push_rx M))"

definition rx_queue_isr :: "router_machine \<Rightarrow> packet \<Rightarrow> unit action" where
  "rx_queue_isr M pkt =
     wthen (give (packet_validate (rm_env M) pkt)) (\<lambda>_.
     wthen (give (rx_item_of (rm_env M) None (Item_Packet pkt))) (isr_push_back_prioritized M))"

definition rx_queue_from_side :: "router_machine \<Rightarrow> packet \<Rightarrow> nat \<Rightarrow> unit action" where
  "rx_queue_from_side M pkt side =
     wthen (ensure_ingress side) (\<lambda>_.
     wthen (give (packet_validate (rm_env M) pkt)) (\<lambda>_.
     wthen (give (rx_item_of (rm_env M) (Some side) (Item_Packet pkt))) (push_rx M)))"

definition rx_queue_from_side_isr :: "router_machine \<Rightarrow> packet \<Rightarrow> nat \<Rightarrow> unit action" where
  "rx_queue_from_side_isr M pkt side =
     wthen (ensure_ingress side) (\<lambda>_.
     wthen (give (packet_validate (rm_env M) pkt)) (\<lambda>_.
     wthen (give (rx_item_of (rm_env M) (Some side) (Item_Packet pkt))) (isr_push_back_prioritized M)))"

definition rx_serialized_queue_from_side :: "router_machine \<Rightarrow> bytes \<Rightarrow> nat \<Rightarrow> unit action" where
  "rx_serialized_queue_from_side M bs side =
     wthen (ensure_ingress side) (\<lambda>_.
     wthen (give (rx_item_of (rm_env M) (Some side) (Item_Serialized bs))) (push_rx M))"

definition rx_serialized_queue_from_side_isr :: "router_machine \<Rightarrow> bytes \<Rightarrow> nat \<Rightarrow> unit action" where
  "rx_serialized_queue_from_side_isr M bs side =
     wthen (ensure_ingress side) (\<lambda>_.
     wthen (give (rx_item_of (rm_env M) (Some side) (Item_Serialized bs))) (isr_push_back_prioritized M))"

section \<open>Clearing the queues\<close>

definition clear_tx_queue :: "unit action" where
  "clear_tx_queue = on_inner (\<lambda>st. (st\<lparr>transmit_queue := bd_clear (transmit_queue st)\<rparr>, Ok ()))"

definition clear_rx_queue :: "router_machine \<Rightarrow> unit action" where
  "clear_rx_queue M =
     wthen (on_inner (\<lambda>st. (st\<lparr>received_queue := bd_clear (received_queue st)\<rparr>, Ok ()))) (\<lambda>_. ignoring (isr_clear M))"

definition clear_queues :: "router_machine \<Rightarrow> unit action" where
  "clear_queues M =
     wthen (on_inner (\<lambda>st. (st\<lparr>transmit_queue := bd_clear (transmit_queue st),
                                received_queue := bd_clear (received_queue st)\<rparr>, Ok ()))) (\<lambda>_. ignoring (isr_clear M))"

section \<open>Working the queues off\<close>

definition pop_transmit :: "router_machine \<Rightarrow> tx_queued option action" where
  "pop_transmit M = on_inner (\<lambda>st.
     case pop_front (tx_queued_byte_cost (rm_layout M)) (transmit_queue st) of
       (v, q) \<Rightarrow> (st\<lparr>transmit_queue := q\<rparr>, Ok v))"

text \<open>The interrupt queue comes first; a busy one counts as empty.\<close>

definition pop_received :: "router_machine \<Rightarrow> router_rx_item option action" where
  "pop_received M =
     wthen (catching (isr_pop_front M) (\<lambda>_. give (Ok None))) (\<lambda>v.
       case v of
         Some item \<Rightarrow> give (Ok (Some item))
       | None \<Rightarrow> on_inner (\<lambda>st.
           case pop_front (rx_item_byte_cost (rm_layout M)) (received_queue st) of
             (v, q) \<Rightarrow> (st\<lparr>received_queue := q\<rparr>, Ok v)))"

definition process_timeouts :: "router_machine \<Rightarrow> unit action" where
  "process_timeouts M =
     at_now M (\<lambda>now.
     wthen (on_inner (process_reliable_timeouts (rm_layout M) (rm_env M) (in_ms now))) (\<lambda>_.
     at_now M (\<lambda>now. on_inner (process_end_to_end_reliable_timeouts (rm_layout M) (rm_env M) (in_ms now)))))"

text \<open>One turn of each loop: whether there was an item to work on.\<close>

definition tx_turn :: "router_machine \<Rightarrow> bool action" where
  "tx_turn M =
     wthen (process_timeouts M) (\<lambda>_.
     wthen (pop_transmit M) (\<lambda>v.
       case v of
         None \<Rightarrow> give (Ok False)
       | Some q \<Rightarrow> wthen (tx_item_impl M (txq_item q) (txq_ignore_local q)) (\<lambda>_. give (Ok True))))"

definition rx_turn :: "router_machine \<Rightarrow> bool action" where
  "rx_turn M =
     wthen (pop_received M) (\<lambda>v.
       case v of
         None \<Rightarrow> give (Ok False)
       | Some item \<Rightarrow> wthen (rx_item M item True) (\<lambda>_. give (Ok True)))"

text \<open>A turn, and then whether the time since \<open>start\<close> allows another.\<close>

definition in_budget :: "router_machine \<Rightarrow> u64 \<Rightarrow> u64 \<Rightarrow> bool action \<Rightarrow> bool action" where
  "in_budget M start budget turn =
     wthen turn (\<lambda>worked.
       if \<not> worked then give (Ok False)
       else at_now M (\<lambda>now. give (Ok (\<not> in_ms now - start \<ge> budget))))"

definition process_queue_with_timeout_impl :: "router_machine \<Rightarrow> bool action \<Rightarrow> u32 \<Rightarrow> unit action" where
  "process_queue_with_timeout_impl M turn timeout_ms =
     at_now M (\<lambda>start.
       repeating (if timeout_ms = 0 then turn else in_budget M (in_ms start) (ucast timeout_ms) turn))"

definition process_tx_queue_with_timeout_impl :: "router_machine \<Rightarrow> u32 \<Rightarrow> unit action" where
  "process_tx_queue_with_timeout_impl M = process_queue_with_timeout_impl M (tx_turn M)"

definition process_rx_queue_with_timeout_impl :: "router_machine \<Rightarrow> u32 \<Rightarrow> unit action" where
  "process_rx_queue_with_timeout_impl M = process_queue_with_timeout_impl M (rx_turn M)"

definition all_turn :: "router_machine \<Rightarrow> bool action" where
  "all_turn M =
     wthen (tx_turn M) (\<lambda>did_tx.
     wthen (rx_turn M) (\<lambda>did_rx. give (Ok (did_tx \<or> did_rx))))"

definition process_all_queues_with_timeout_impl :: "router_machine \<Rightarrow> u32 \<Rightarrow> unit action" where
  "process_all_queues_with_timeout_impl M timeout_ms =
     (if timeout_ms = 0 then repeating (all_turn M)
      else
        (let tx_budget_ms = ucast (timeout_ms div 2);
             rx_budget_ms = ucast timeout_ms - tx_budget_ms
         in at_now M (\<lambda>tx_start.
            wthen (repeating (in_budget M (in_ms tx_start) tx_budget_ms (tx_turn M))) (\<lambda>_.
            at_now M (\<lambda>rx_start. repeating (in_budget M (in_ms rx_start) rx_budget_ms (rx_turn M)))))))"

definition poll_then :: "bool action \<Rightarrow> unit action \<Rightarrow> unit action" where
  "poll_then poll work = wthen poll (\<lambda>_. work)"

definition process_tx_queue_with_timeout :: "router_machine \<Rightarrow> u32 \<Rightarrow> unit action" where
  "process_tx_queue_with_timeout M timeout_ms = poll_then (poll_time M) (process_tx_queue_with_timeout_impl M timeout_ms)"

definition process_rx_queue_with_timeout :: "router_machine \<Rightarrow> u32 \<Rightarrow> unit action" where
  "process_rx_queue_with_timeout M timeout_ms = poll_then (poll_time M) (process_rx_queue_with_timeout_impl M timeout_ms)"

definition process_all_queues_with_timeout :: "router_machine \<Rightarrow> u32 \<Rightarrow> unit action" where
  "process_all_queues_with_timeout M timeout_ms =
     poll_then (poll_time M) (process_all_queues_with_timeout_impl M timeout_ms)"

definition process_tx_queue :: "router_machine \<Rightarrow> unit action" where
  "process_tx_queue M = process_tx_queue_with_timeout M 0"

definition process_rx_queue :: "router_machine \<Rightarrow> unit action" where
  "process_rx_queue M = process_rx_queue_with_timeout M 0"

definition process_all_queues :: "router_machine \<Rightarrow> unit action" where
  "process_all_queues M = process_all_queues_with_timeout M 0"

definition periodic :: "router_machine \<Rightarrow> u32 \<Rightarrow> unit action" where
  "periodic M timeout_ms =
     poll_then (poll_time M) (poll_then (poll_discovery M) (process_all_queues_with_timeout_impl M timeout_ms))"

definition periodic_no_timesync :: "router_machine \<Rightarrow> u32 \<Rightarrow> unit action" where
  "periodic_no_timesync M timeout_ms = poll_then (poll_discovery M) (process_all_queues_with_timeout_impl M timeout_ms)"

section \<open>The immediate operations\<close>

text \<open>Inside a side callback the operation is queued instead.\<close>

definition unless_sending :: "router_machine \<Rightarrow> 'a action \<Rightarrow> 'a action \<Rightarrow> 'a action" where
  "unless_sending M queued direct = asking (fo_gate (rm_foreign M)) (\<lambda>active. if active then queued else direct)"

definition rx_now :: "router_machine \<Rightarrow> nat option \<Rightarrow> router_item \<Rightarrow> unit action" where
  "rx_now M src it = wthen (give (rx_item_of (rm_env M) src it)) (\<lambda>item. rx_item M item False)"

definition rx_serialized :: "router_machine \<Rightarrow> bytes \<Rightarrow> unit action" where
  "rx_serialized M bs = unless_sending M (rx_serialized_queue M bs) (rx_now M None (Item_Serialized bs))"

definition rx_packet :: "router_machine \<Rightarrow> packet \<Rightarrow> unit action" where
  "rx_packet M pkt = unless_sending M (rx_queue M pkt) (rx_now M None (Item_Packet pkt))"

definition rx_from_side :: "router_machine \<Rightarrow> packet \<Rightarrow> nat \<Rightarrow> unit action" where
  "rx_from_side M pkt side =
     unless_sending M (rx_queue_from_side M pkt side)
       (wthen (ensure_ingress side) (\<lambda>_. rx_now M (Some side) (Item_Packet pkt)))"

definition rx_serialized_from_side :: "router_machine \<Rightarrow> bytes \<Rightarrow> nat \<Rightarrow> unit action" where
  "rx_serialized_from_side M bs side =
     unless_sending M (rx_serialized_queue_from_side M bs side)
       (wthen (ensure_ingress side) (\<lambda>_. rx_now M (Some side) (Item_Serialized bs)))"

definition tx_queue :: "router_machine \<Rightarrow> packet \<Rightarrow> unit action" where
  "tx_queue M pkt = queue_item M (Broadcast (Item_Packet pkt)) False"

definition tx_serialized_queue :: "router_machine \<Rightarrow> bytes \<Rightarrow> unit action" where
  "tx_serialized_queue M bs = queue_item M (Broadcast (Item_Serialized bs)) False"

definition tx_packet :: "router_machine \<Rightarrow> packet \<Rightarrow> unit action" where
  "tx_packet M pkt = unless_sending M (tx_queue M pkt) (tx_item M (Broadcast (Item_Packet pkt)))"

definition tx_serialized :: "router_machine \<Rightarrow> bytes \<Rightarrow> unit action" where
  "tx_serialized M bs = unless_sending M (tx_serialized_queue M bs) (tx_item M (Broadcast (Item_Serialized bs)))"

section \<open>Logging\<close>

definition log_with ::
  "router_machine \<Rightarrow> data_type \<Rightarrow> nat \<Rightarrow> 'a::len word list \<Rightarrow> (packet \<Rightarrow> unit action) \<Rightarrow> u64 \<Rightarrow> unit action" where
  "log_with M ty width data send timestamp =
     wthen (give (log_raw (rm_env M) (rn_sender (rm_node M)) ty width data timestamp)) send"

definition log_queue_at :: "router_machine \<Rightarrow> data_type \<Rightarrow> u64 \<Rightarrow> nat \<Rightarrow> 'a::len word list \<Rightarrow> unit action" where
  "log_queue_at M ty timestamp width data = log_with M ty width data (tx_queue M) timestamp"

definition log_queue :: "router_machine \<Rightarrow> data_type \<Rightarrow> nat \<Rightarrow> 'a::len word list \<Rightarrow> unit action" where
  "log_queue M ty width data = wthen (stamp M) (log_with M ty width data (tx_queue M))"

definition log_now :: "router_machine \<Rightarrow> data_type \<Rightarrow> nat \<Rightarrow> 'a::len word list \<Rightarrow> unit action" where
  "log_now M ty width data =
     unless_sending M (log_queue M ty width data)
       (wthen (stamp M) (log_with M ty width data (\<lambda>pkt. tx_item M (Broadcast (Item_Packet pkt)))))"

definition log_ts :: "router_machine \<Rightarrow> data_type \<Rightarrow> u64 \<Rightarrow> nat \<Rightarrow> 'a::len word list \<Rightarrow> unit action" where
  "log_ts M ty timestamp width data =
     unless_sending M (log_queue_at M ty timestamp width data)
       (log_with M ty width data (\<lambda>pkt. tx_item M (Broadcast (Item_Packet pkt))) timestamp)"

end
