(* ===== verification/Action_Laws.thy ===== *)
theory Action_Laws
  imports Actions Router_State
begin

text \<open>
  Laws of stateful operations: operations that return from every state within a relation between the
  state before and the state after (\<open>runs\<close>), the contract of such a relation (locale
  \<open>action_frame\<close>), and loops.
\<close>

section \<open>Actions that return\<close>

text \<open>An action that returns from every state, and relates the state before to the state after.\<close>

definition runs :: "('s \<Rightarrow> 's \<Rightarrow> bool) \<Rightarrow> ('s, 'a) stateful \<Rightarrow> bool" where
  "runs R m \<longleftrightarrow> (\<forall>w. \<exists>w' r. m w = Some (w', r) \<and> R w w')"

lemma runsI: "(\<And>w. \<exists>w' r. m w = Some (w', r) \<and> R w w') \<Longrightarrow> runs R m"
  by (simp add: runs_def)

lemma runsE:
  assumes "runs R m"
  obtains w' r where "m w = Some (w', r)" "R w w'"
  using assms unfolding runs_def by blast

named_theorems runs_rules \<open>actions that return within a frame\<close>

locale action_frame =
  fixes R :: "'s \<Rightarrow> 's \<Rightarrow> bool"
  assumes refl: "R w w"
    and trans: "R a b \<Longrightarrow> R b c \<Longrightarrow> R a c"
begin

lemma runs_give [runs_rules]: "runs R (give r)"
  by (rule runsI) (simp add: give_def refl)

lemma runs_wthen [runs_rules]:
  assumes "runs R m" and "\<And>x. runs R (f x)"
  shows "runs R (wthen m f)"
proof (rule runsI)
  fix w
  obtain w1 r1 where m: "m w = Some (w1, r1)" "R w w1" using assms(1) by (rule runsE)
  show "\<exists>w' r. wthen m f w = Some (w', r) \<and> R w w'"
  proof (cases r1)
    case (Ok x)
    obtain w2 r2 where "f x w1 = Some (w2, r2)" "R w1 w2" using assms(2) by (rule runsE)
    then show ?thesis using m Ok trans by (fastforce simp: wthen_def)
  qed (use m in \<open>simp_all add: wthen_def\<close>)
qed

lemma runs_catching [runs_rules]:
  assumes "runs R m" and "\<And>e. runs R (h e)"
  shows "runs R (catching m h)"
proof (rule runsI)
  fix w
  obtain w1 r1 where m: "m w = Some (w1, r1)" "R w w1" using assms(1) by (rule runsE)
  show "\<exists>w' r. catching m h w = Some (w', r) \<and> R w w'"
  proof (cases r1)
    case (Err e)
    obtain w2 r2 where "h e w1 = Some (w2, r2)" "R w1 w2" using assms(2) by (rule runsE)
    then show ?thesis using m Err trans by (fastforce simp: catching_def)
  qed (use m in \<open>simp_all add: catching_def\<close>)
qed

lemma runs_ignoring [runs_rules]: "runs R m \<Longrightarrow> runs R (ignoring m)"
  unfolding ignoring_def by (intro runs_catching runs_give)

lemma runs_each [runs_rules]: "(\<And>x. x \<in> set xs \<Longrightarrow> runs R (f x)) \<Longrightarrow> runs R (each f xs)"
  by (induction xs) (auto intro!: runs_wthen runs_give)

lemma runs_reading [runs_rules]: "(\<And>w. runs R (f w)) \<Longrightarrow> runs R (reading f)"
  by (simp add: runs_def reading_def)

lemma runs_cases [runs_rules]:
  "\<lbrakk>b \<Longrightarrow> runs R m; \<not> b \<Longrightarrow> runs R m'\<rbrakk> \<Longrightarrow> runs R (if b then m else m')"
  "\<lbrakk>v = None \<Longrightarrow> runs R m; \<And>x. v = Some x \<Longrightarrow> runs R (f x)\<rbrakk> \<Longrightarrow> runs R (case v of None \<Rightarrow> m | Some x \<Rightarrow> f x)"
  "(\<And>x y. runs R (g x y)) \<Longrightarrow> runs R (case p of (x, y) \<Rightarrow> g x y)"
  "\<lbrakk>\<And>x. runs R (a x); \<And>e. runs R (b' e); \<And>s. runs R (c s)\<rbrakk> \<Longrightarrow> runs R (case r of Ok x \<Rightarrow> a x | Err e \<Rightarrow> b' e | Panic s \<Rightarrow> c s)"
  "\<lbrakk>\<And>x. it = Item_Packet x \<Longrightarrow> runs R (i x); \<And>x. it = Item_Serialized x \<Longrightarrow> runs R (j x)\<rbrakk> \<Longrightarrow>
     runs R (case it of Item_Packet x \<Rightarrow> i x | Item_Serialized x \<Rightarrow> j x)"
  by (simp_all split: option.splits prod.splits outcome.splits router_item.splits)

end

section \<open>Results of actions\<close>

text \<open>An action returns, and what it leaves satisfies \<open>Q\<close> unless it fails.\<close>

definition yields :: "('s, 'a) stateful \<Rightarrow> 's \<Rightarrow> ('s \<Rightarrow> 'a \<Rightarrow> bool) \<Rightarrow> bool" where
  "yields m w Q \<longleftrightarrow> (\<exists>w' r. m w = Some (w', r) \<and> (\<forall>x. r = Ok x \<longrightarrow> Q w' x))"

lemma yields_mono: "yields m w P \<Longrightarrow> (\<And>w' x. P w' x \<Longrightarrow> Q w' x) \<Longrightarrow> yields m w Q"
  unfolding yields_def by blast

lemma yields_give: "(\<And>x. r = Ok x \<Longrightarrow> Q w x) \<Longrightarrow> yields (give r) w Q"
  by (simp add: yields_def give_def)

lemma yields_runs: "runs R m \<Longrightarrow> yields m w (\<lambda>w' _. R w w')"
  unfolding yields_def runs_def by blast

lemma yields_wthen:
  assumes "yields m w P" and "\<And>w' x. P w' x \<Longrightarrow> yields (f x) w' Q"
  shows "yields (wthen m f) w Q"
proof -
  obtain w1 r where m: "m w = Some (w1, r)" "\<forall>x. r = Ok x \<longrightarrow> P w1 x" using assms(1) by (auto simp: yields_def)
  show ?thesis
  proof (cases r)
    case (Ok x)
    then show ?thesis using assms(2) m by (simp add: yields_def wthen_def)
  qed (use m in \<open>simp_all add: yields_def wthen_def\<close>)
qed

lemma yields_catching:
  assumes "yields m w Q" and "runs R m" and "\<And>w' e. R w w' \<Longrightarrow> yields (h e) w' Q"
  shows "yields (catching m h) w Q"
proof -
  obtain w1 r where m: "m w = Some (w1, r)" "\<forall>x. r = Ok x \<longrightarrow> Q w1 x" using assms(1) by (auto simp: yields_def)
  have "R w w1" using assms(2) m by (auto elim!: runsE [of R m w])
  then show ?thesis using assms(3) m by (cases r) (simp_all add: yields_def catching_def)
qed

lemma yields_cases:
  "\<lbrakk>b \<Longrightarrow> yields m w Q; \<not> b \<Longrightarrow> yields m' w Q\<rbrakk> \<Longrightarrow> yields (if b then m else m') w Q"
  "\<lbrakk>v = None \<Longrightarrow> yields m w Q; \<And>x. v = Some x \<Longrightarrow> yields (k x) w Q\<rbrakk> \<Longrightarrow> yields (case v of None \<Rightarrow> m | Some x \<Rightarrow> k x) w Q"
  by (simp_all split: option.splits)

lemma wthen_give: "wthen (give (Ok x)) f = f x"
  by (rule ext) (simp add: wthen_def give_def)

section \<open>Loops\<close>

lemma repeating_step:
  "m w = Some (w', Ok True) \<Longrightarrow> repeating m w = repeating m w'"
  "m w = Some (w', Ok False) \<Longrightarrow> repeating m w = Some (w', Ok ())"
  "m w = Some (w', Err e) \<Longrightarrow> repeating m w = Some (w', Err e)"
  "m w = Some (w', Panic p) \<Longrightarrow> repeating m w = Some (w', Panic p)"
  by (simp_all add: repeating.simps [of m w])

text \<open>A loop whose turns return and use up a measure ends; a set of states it cannot leave keeps it going.\<close>

lemma repeating_yields:
  assumes "wf r" and "\<And>w. yields m w (\<lambda>w' go_on. if go_on then (w', w) \<in> r else P w')"
  shows "yields (repeating m) w (\<lambda>w' _. P w')"
  using assms(1)
proof (induction w rule: wf_induct_rule)
  case (less w)
  obtain w' x where m: "m w = Some (w', x)" "\<forall>go_on. x = Ok go_on \<longrightarrow> (if go_on then (w', w) \<in> r else P w')"
    using assms(2) [of w] unfolding yields_def by blast
  show ?case
  proof (cases x)
    case (Ok go_on)
    then show ?thesis using m less [of w'] by (cases go_on) (auto simp: yields_def repeating_step)
  qed (use m in \<open>auto simp: yields_def repeating_step\<close>)
qed

lemma repeating_returns:
  fixes f :: "'s \<Rightarrow> nat"
  assumes "\<And>w. \<exists>w' r. m w = Some (w', r) \<and> (r = Ok True \<longrightarrow> f w' < f w) \<and> (r = Ok False \<longrightarrow> P w')"
  shows "\<exists>w' r. repeating m w = Some (w', r) \<and> (r = Ok () \<longrightarrow> P w')"
proof -
  have "yields m w (\<lambda>w' go_on. if go_on then (w', w) \<in> measure f else P w')" for w
    unfolding yields_def using assms [of w] by (metis in_measure)
  from repeating_yields [OF wf_measure this, of w] show ?thesis by (auto simp: yields_def)
qed

lemma repeating_diverges:
  assumes "\<And>w. B w \<Longrightarrow> \<exists>w'. m w = Some (w', Ok True) \<and> B w'" and "B w"
  shows "repeating m w = None"
proof -
  have "\<not> B w" if "repeating m w = Some y" for y
    using that
  proof (rule repeating.raw_induct [where P = "\<lambda>m' w y. m' = m \<longrightarrow> \<not> B w", rule_format, rotated])
    fix rec m' w y
    assume IH: "\<And>m' w y. rec m' w = Some y \<Longrightarrow> m' = m \<Longrightarrow> \<not> B w" and "m' = m"
      and ret: "Option.bind (m' w) (\<lambda>(w, r). case r of Ok go_on \<Rightarrow> if go_on then rec m' w else Some (w, Ok ())
        | Err e \<Rightarrow> Some (w, Err e) | Panic p \<Rightarrow> Some (w, Panic p)) = Some y"
    show "\<not> B w"
    proof
      assume "B w"
      then obtain w' where "m w = Some (w', Ok True)" "B w'" using assms(1) by blast
      then show False using ret IH [of m w' y] \<open>m' = m\<close> by simp
    qed
  qed simp
  then show ?thesis using assms(2) by (cases "repeating m w") auto
qed

lemma repeating_keeps:
  assumes "\<And>w w' r. m w = Some (w', r) \<Longrightarrow> R w w'" and "\<And>a b c. R a b \<Longrightarrow> R b c \<Longrightarrow> R a c"
    and "repeating m w = Some (w', r)"
  shows "R w w'"
proof -
  have "R w (fst y)" if "repeating m w = Some y" for w y
    using that
  proof (rule repeating.raw_induct [where P = "\<lambda>m' w y. m' = m \<longrightarrow> R w (fst y)", rule_format, rotated])
    fix rec m' w y
    assume IH: "\<And>m' w y. rec m' w = Some y \<Longrightarrow> m' = m \<Longrightarrow> R w (fst y)" and "m' = m"
      and ret: "Option.bind (m' w) (\<lambda>(w, r). case r of Ok go_on \<Rightarrow> if go_on then rec m' w else Some (w, Ok ())
        | Err e \<Rightarrow> Some (w, Err e) | Panic p \<Rightarrow> Some (w, Panic p)) = Some y"
    then obtain w1 r1 where m: "m w = Some (w1, r1)" by (cases "m w") auto
    note step = assms(1) [OF m]
    show "R w (fst y)"
    proof (cases "r1 = Ok True")
      case True
      then have "rec m w1 = Some y" using ret m \<open>m' = m\<close> by simp
      from assms(2) [OF step IH [OF this]] show ?thesis by simp
    next
      case False
      then have "fst y = w1" using ret m \<open>m' = m\<close> by (cases r1) auto
      then show ?thesis using step by simp
    qed
  qed simp
  from this [OF assms(3)] show ?thesis by simp
qed

section \<open>The recent-id cache\<close>

lemma trim_recent_returns:
  assumes "0 < cap"
  shows "\<exists>d'. trim_recent cap d = Some d'"
proof (induction "length (bd_q d)" arbitrary: d rule: less_induct)
  case less
  show ?case
  proof (cases "cap \<le> length (bd_q d)")
    case True
    then have "length (bd_q (snd (pop_front id_byte_cost d))) < length (bd_q d)"
      using assms by (cases "bd_q d") (auto simp: pop_front_def)
    from less [OF this] show ?thesis using True by (simp add: trim_recent.simps [of cap d])
  qed (simp add: trim_recent.simps [of cap d])
qed

end
