(* ===== verification/Router_Flow_Laws.thy ===== *)
theory Router_Flow_Laws
  imports Router_Api Router_Wait_Laws Action_Laws
begin

text \<open>
  What the actions of a router do to the parts of its world that matter for termination and
  delivery: a frame on the received queue that every operation of the receive path keeps, lifted from
  the state behind the lock to actions, and the handler calls an action adds to the trace.
\<close>

section \<open>Frames of the state behind the lock\<close>

text \<open>
  A relation between states that looks at the received queue only and allows evictions. Every
  operation of the receive path keeps it.
\<close>

locale queue_frame =
  fixes Q :: "router_inner \<Rightarrow> router_inner \<Rightarrow> bool"
  assumes same: "received_queue b = received_queue a \<Longrightarrow> Q a b"
    and trans: "Q a b \<Longrightarrow> Q b c \<Longrightarrow> Q a c"
    and room: "Q a (fst (make_room_loop L budget cost preferred a))"
begin

lemma refl [simp]: "Q st st"
  by (rule same) simp

lemma then_same: "Q st st' \<Longrightarrow> received_queue st'' = received_queue st' \<Longrightarrow> Q st st''"
  using same trans by blast

lemma same_then: "received_queue st' = received_queue st \<Longrightarrow> Q st' st'' \<Longrightarrow> Q st st''"
  using same trans by blast

lemma sthen_frame: "Q st (fst m) \<Longrightarrow> (\<And>x s. Q s (fst (f x s))) \<Longrightarrow> Q st (fst (sthen m f))"
  using trans by (auto simp: sthen_def split: prod.splits outcome.splits)

lemma make_room: "Q st (fst (make_shared_queue_room L C c preferred st))"
  using room by (simp add: make_shared_queue_room_def refl)

lemma transmit: "Q st (fst (push_transmit L C q st))"
  unfolding push_transmit_def by (intro sthen_frame make_room) (auto intro: same split: prod.splits)

lemma queued:
  "Q st (fst (tx_queue_item_with_priority L C item il p st))"
  "Q st (fst (tx_queue_item_with_flags L E item il st))"
  "Q st (fst (tx_queue_item L E item st))"
  by (auto simp: tx_queue_item_def tx_queue_item_with_flags_def tx_queue_item_with_priority_def transmit intro!: sthen_frame)

lemma controls:
  "Q st (fst (queue_reliable_control L E N ts cty side ty seq st))"
  unfolding queue_reliable_control_def by (intro sthen_frame queued) (simp add: refl)

lemma retransmit: "Q st (fst (queue_reliable_retransmit L E side ty seq st))"
  unfolding queue_reliable_retransmit_def Let_def
  by (auto simp: update_tx_state_def reliable_tx_state_mut_def Let_def split: option.splits
      intro!: same_then [OF _ queued(1)] intro: same)

lemma buffering: "Q st (fst (buffer_reliable_rx L C side ty seq bs st))"
  unfolding buffer_reliable_rx_def Let_def
  by (auto intro!: sthen_frame make_room intro: same refl simp: reliable_rx_state_mut_def split: option.splits)

lemma ordered: "Q st (fst (ordered_rx L C src ty seq bs st))"
proof -
  let ?st = "reliable_rx_state_mut (reliable_key C src ty) st"
  have rx: "received_queue ?st = received_queue st" by (simp add: reliable_rx_state_mut_def split: option.splits)
  show ?thesis
    unfolding ordered_rx_def Let_def using buffering [of ?st]
    by (auto intro!: same_then [OF rx] sthen_frame intro: same refl split: prod.splits)
qed

lemma return_route: "Q st (fst (note_return_route_for E src it st))"
proof -
  have "received_queue (note_reliable_return_route C side pid s) = received_queue s" for C :: env and side pid s
    by (simp add: note_reliable_return_route_def Let_def split: prod.splits)
  then show ?thesis
    by (auto simp: note_return_route_for_def intro!: same split: router_item.splits outcome.splits)
qed

lemma acks:
  "Q st (fst (handle_end_to_end_ack pid sender st))"
  "Q st (handle_reliable_ack C side ty ack st)"
  "Q st (handle_reliable_partial_ack C side ty ack st)"
  by (auto simp: handle_end_to_end_ack_def handle_reliable_ack_def handle_reliable_partial_ack_def update_tx_state_def
      reliable_tx_state_mut_def Let_def split: option.splits intro!: same)

lemma control_packet: "Q st (fst (handle_internal_reliable_packet L E pkt src st))"
proof -
  have vals: "Q st (fst (sthen (st, data_as_u32 E pkt) (\<lambda>vals st.
      if length vals \<noteq> 2 then (st, Err (Deserialize ''bad reliable control payload''))
      else
        sthen (st, ok_or InvalidType (data_type_try_from_u32 E (vals ! 0))) (\<lambda>ty st.
          if pkt_ty pkt = ReliableAck then (handle_reliable_ack E side ty (vals ! 1) st, Ok True)
          else if pkt_ty pkt = ReliablePartialAck then (handle_reliable_partial_ack E side ty (vals ! 1) st, Ok True)
          else sthen (queue_reliable_retransmit L E side ty (vals ! 1) st) (\<lambda>_ st. (st, Ok True))))))" for side
    by (intro sthen_frame) (auto simp: acks retransmit intro!: sthen_frame)
  show ?thesis
    unfolding handle_internal_reliable_packet_def
    by (auto simp: vals acks(1) case_prod_beta split: outcome.splits option.splits simp del: One_nat_def)
qed

lemma selection: "Q st (fst (apply_route_selection st src ss origin))"
  by (auto simp: apply_route_selection_def apply_adaptive_discovery_selection_def advance_cursor_def Let_def
      split: option.splits route_selection_mode.splits intro: same)

lemma pure_frame: "(\<And>x. Q st (fst (f x s))) \<Longrightarrow> Q st s \<Longrightarrow> Q st (fst (sthen (s, r) f))"
  by (cases r) simp_all

lemma cases_frame:
  "Q a (fst x) \<Longrightarrow> Q a (fst y) \<Longrightarrow> Q a (fst (if b then x else y))"
  "(v = None \<Longrightarrow> Q a (fst x)) \<Longrightarrow> (\<And>u. v = Some u \<Longrightarrow> Q a (fst (f u))) \<Longrightarrow> Q a (fst (case v of None \<Rightarrow> x | Some u \<Rightarrow> f u))"
  "(\<And>u u'. Q a (fst (g u u'))) \<Longrightarrow> Q a (fst (case p of (u, u') \<Rightarrow> g u u'))"
  by (simp_all split: option.splits prod.splits)

lemma plan: "Q st (fst (remote_side_plan E N tracker now it src st))"
proof -
  have sel: "Q s (fst (case apply_route_selection s src ss origin of (s, ss) \<Rightarrow> (s, Ok ss)))" for s ss origin
    using selection [of s src ss origin] by (simp add: case_prod_beta)
  have split: "Q a (fst ((case p of (x, y) \<Rightarrow> f x y) a))" if "\<And>x y. Q a (fst (f x y a))" for a p
    and f :: "data_endpoint list \<Rightarrow> data_type \<Rightarrow> router_inner \<Rightarrow> router_inner \<times> nat list telemetry_result"
    using that by (simp split: prod.splits)
  have ok: "Q a (fst (a, r))" for a and r :: "'x" by simp
  show ?thesis unfolding remote_side_plan_def Let_def
    by (intro pure_frame split cases_frame(1,2) sel ok refl)
qed

lemma remote: "Q st (fst (should_route_remote E N tracker now it src st))"
  unfolding should_route_remote_def by (intro sthen_frame plan) simp

lemma push_all: "Q st (fst (push_all_transmit L C qs st))"
  by (induction qs arbitrary: st) (auto intro!: sthen_frame transmit)

lemma enqueue: "Q st (fst (enqueue_to_sides L E N tracker now it src il st))"
  unfolding enqueue_to_sides_def by (intro sthen_frame plan push_all) simp

lemma topology_note: "received_queue (note_discovery_topology_change now st) = received_queue st"
  by (simp add: note_discovery_topology_change_def)

lemma fit: "received_queue (fit_discovery_budget L b st) = received_queue st"
  using fit_frame [of L b st] by auto

lemma reconciled: "Q st (fst (reconcile_end_to_end_reliable_destinations E now st))"
proof -
  have "Q s (fst (reconcile_ids E now pids s))" for pids s
  proof (induction pids arbitrary: s)
    case (Cons pid pids)
    have upd: "Q a (fst (reconcile_ids E now pids (a\<lparr>end_to_end_reliable_tx := t\<rparr>)))" for a t
      by (rule same_then [OF _ Cons]) simp
    show ?case
      by (auto simp: Let_def Cons upd intro!: sthen_frame split: option.splits)
  qed simp
  then show ?thesis unfolding reconcile_end_to_end_reliable_destinations_def by (intro sthen_frame) (auto intro: same)
qed

lemma learning: "Q st (fst (learn_discovery_packet L E N now pkt src st))"
proof -
  have noted: "Q s (if changed then note_discovery_topology_change now s else s)" for s changed
    by (auto simp: topology_note intro: same)
  have rec: "Q s (fst (reconcile_end_to_end_reliable_destinations E now (fit_discovery_budget L b (s\<lparr>discovery_routes := t\<rparr>))))"
    for s b t
    by (rule same_then [OF _ reconciled]) (simp add: fit)
  show ?thesis unfolding learn_discovery_packet_def Let_def
    by (auto split: option.splits intro!: sthen_frame simp: rec noted)
qed

lemma recent: "push_recent_rx L C i st = Some (st', r) \<Longrightarrow> Q st st'"
proof -
  assume p: "push_recent_rx L C i st = Some (st', r)"
  then obtain d where d: "trim_recent (max_recent_rx_ids C) (recent_rx st) = Some d"
    by (auto simp: push_recent_rx_def split: option.splits)
  have "Q (st\<lparr>recent_rx := d\<rparr>) (fst (sthen (make_shared_queue_room L C 0 Recent (st\<lparr>recent_rx := d\<rparr>)) (\<lambda>_ st.
      case push_back id_byte_cost 8 i (recent_rx st) of (q, r) \<Rightarrow> (st\<lparr>recent_rx := q\<rparr>, r))))"
    by (intro sthen_frame make_room) (auto intro: same split: prod.splits)
  then have "Q (st\<lparr>recent_rx := d\<rparr>) st'" using p by (simp add: push_recent_rx_def d)
  then show ?thesis by (rule same_then [rotated]) simp
qed

lemma duplicate:
  assumes "is_duplicate_pkt L E it st = Some (st', r)"
  shows "Q st st'"
proof (cases "\<exists>i. get_hash E it = Ok i \<and> \<not> bd_contains (recent_rx st) i")
  case True
  then obtain i s x where "get_hash E it = Ok i" "push_recent_rx L E i st = Some (s, x)" "(st', r) = sthen (s, x) (\<lambda>_ st. (st, Ok False))"
    using assms by (auto simp: is_duplicate_pkt_def)
  then show ?thesis using recent by (cases x) auto
next
  case False
  then show ?thesis using assms by (cases "get_hash E it") (auto simp: is_duplicate_pkt_def)
qed

text \<open>Operations on both locks.\<close>

lemma sthen_frame2: "Q st (snd (fst m)) \<Longrightarrow> (\<And>x s. Q (snd s) (snd (fst (f x s)))) \<Longrightarrow> Q st (snd (fst (sthen m f)))"
  using trans by (fastforce simp: sthen_def split: prod.splits outcome.splits)

lemma end_to_end_ack: "Q (snd s) (snd (fst (queue_end_to_end_reliable_ack L E N now pkt s)))"
  unfolding queue_end_to_end_reliable_ack_def case_prod_beta
  by (intro sthen_frame2) (simp_all add: queued)

lemma response: "Q (snd s) (snd (fst (queue_internal_timesync_response L E N now resp s)))"
  unfolding queue_internal_timesync_response_def case_prod_beta
  by (intro sthen_frame2) (simp_all add: queued)

lemma log_frame: "Q st (fst (log_queue_ts L E N ty ts width data st))"
  unfolding log_queue_ts_def by (intro sthen_frame queued) simp

lemma polling: "Q (snd s) (snd (fst (poll_timesync L E N now t_ann t_req s)))"
  unfolding poll_timesync_def case_prod_beta
  by (auto intro!: sthen_frame2 simp: log_frame split: option.splits)

end

section \<open>Actions on the world\<close>

lemma is_duplicate_returns:
  assumes "0 < max_recent_rx_ids E"
  shows "\<exists>st' r. is_duplicate_pkt L E it st = Some (st', r)"
proof (cases "get_hash E it")
  case (Ok i)
  obtain d where "trim_recent (max_recent_rx_ids E) (recent_rx st) = Some d" using trim_recent_returns [OF assms] by blast
  then obtain p where "push_recent_rx L E i st = Some p" by (simp add: push_recent_rx_def)
  then show ?thesis using Ok by (cases "sthen p (\<lambda>_ st. (st, Ok False))") (simp add: is_duplicate_pkt_def)
qed (simp_all add: is_duplicate_pkt_def)

locale world_frame = queue_frame Q for Q :: "router_inner \<Rightarrow> router_inner \<Rightarrow> bool" +
  fixes R :: "world \<Rightarrow> world \<Rightarrow> bool"
  assumes inner: "Q (wd_inner w) st \<Longrightarrow> R w (w\<lparr>wd_inner := st\<rparr>)"
    and time: "R w (w\<lparr>wd_time := tr\<rparr>)"
    and tick: "R w (w\<lparr>wd_tick := n\<rparr>)"
    and wtrans: "R a b \<Longrightarrow> R b c \<Longrightarrow> R a c"
begin

lemma wrefl: "R w w"
  using tick [of w "wd_tick w"] by simp

end

sublocale world_frame \<subseteq> acts: action_frame R
  by unfold_locales (rule wrefl, rule wtrans)

context world_frame
begin

lemma runs_asking [runs_rules]:
  assumes "\<And>x. runs R (f x)"
  shows "runs R (asking q f)"
proof (rule runsI)
  fix w :: world
  let ?w = "w\<lparr>wd_tick := Suc (wd_tick w)\<rparr>"
  obtain w' r where "f (q (wd_tick w)) ?w = Some (w', r)" "R ?w w'" using assms by (rule runsE)
  then show "\<exists>w' r. asking q f w = Some (w', r) \<and> R w w'"
    using tick wtrans by (force simp: asking_def)
qed

lemma runs_on_inner: "(\<And>st. Q st (fst (f st))) \<Longrightarrow> runs R (on_inner f)"
  by (rule runsI) (simp add: on_inner_def inner case_prod_beta)

lemma runs_on_time [runs_rules]: "runs R (on_time f)"
  by (rule runsI) (simp add: on_time_def time case_prod_beta)

lemma runs_on_both:
  assumes "\<And>s. Q (snd s) (snd (fst (f s)))"
  shows "runs R (on_both f)"
proof (rule runsI)
  fix w :: world
  let ?s = "f (wd_time w, wd_inner w)"
  have "R (w\<lparr>wd_time := fst (fst ?s)\<rparr>) (w\<lparr>wd_time := fst (fst ?s), wd_inner := snd (fst ?s)\<rparr>)"
    using inner [of "w\<lparr>wd_time := fst (fst ?s)\<rparr>"] assms [of "(wd_time w, wd_inner w)"] by simp
  with time [of w] wtrans show "\<exists>w' r. on_both f w = Some (w', r) \<and> R w w'"
    by (auto simp: on_both_def case_prod_beta)
qed

text \<open>The steps of the receive path that call no handler.\<close>

lemma runs_is_duplicate [runs_rules]:
  assumes "0 < max_recent_rx_ids (rm_env M)"
  shows "runs R (is_duplicate M it)"
proof (rule runsI)
  fix w :: world
  obtain st' r where "is_duplicate_pkt (rm_layout M) (rm_env M) it (wd_inner w) = Some (st', r)"
    using is_duplicate_returns [OF assms] by blast
  with inner duplicate show "\<exists>w' r. is_duplicate M it w = Some (w', r) \<and> R w w'"
    by (fastforce simp: is_duplicate_def)
qed

lemma runs_steps [runs_rules]:
  "runs R (plan_sides M it src)" "runs R (routes_remote M it src)" "runs R (queue_item M item il)"
  "runs R (queue_ack M pkt)" "runs R (poll_time M)" "runs R (enqueue_relay M it src)" "runs R (learn M pkt src)"
  "runs R (handle_control M pkt src)" "runs R (stamp M)"
  unfolding plan_sides_def routes_remote_def queue_item_def queue_ack_def poll_time_def enqueue_relay_def learn_def
    handle_control_def stamp_def
  by (intro runs_asking acts.runs_reading runs_on_inner runs_on_time runs_on_both plan remote queued end_to_end_ack polling
      enqueue learning control_packet)+

lemma runs_relay [runs_rules]: "runs R (relay_send M it src True)"
  by (simp add: relay_send_def runs_steps)

lemma runs_relay_if [runs_rules]: "runs R (relay_if_remote M planned it src True)"
  unfolding relay_if_remote_def by (intro runs_rules)

lemma runs_response [runs_rules]:
  "runs R (on_both (queue_internal_timesync_response L E N now resp))"
  by (intro runs_on_both response)

lemma runs_timesync [runs_rules]: "runs R (handle_internal_timesync_packet M pkt src True)"
  unfolding handle_internal_timesync_packet_def Let_def by (intro runs_rules)

lemma runs_replies [runs_rules]:
  "runs R (reply M queue_reliable_ack src ty seq)" "runs R (reply M queue_reliable_partial_ack src ty seq)"
  "runs R (reply M queue_reliable_packet_request src ty seq)"
  unfolding reply_def queue_reliable_ack_def queue_reliable_partial_ack_def queue_reliable_packet_request_def
  by (intro runs_rules runs_on_inner controls)+

lemma runs_ordered_reply [runs_rules]: "runs R (ordered_reply M src ty action)"
  by (cases action) (auto simp: ordered_reply_def intro!: runs_rules)

lemma runs_corrupt [runs_rules]: "runs R (rx_corrupt_frame M src bs)"
proof -
  have expected: "runs R (on_inner (\<lambda>st. (reliable_rx_state_mut key st,
      Ok (min (rrx_expected_seq (rx_state_of key (reliable_rx_state_mut key st))) seq))))" for key seq
    by (rule runs_on_inner) (auto simp: reliable_rx_state_mut_def split: option.splits intro: same)
  show ?thesis unfolding rx_corrupt_frame_def Let_def by (intro runs_rules expected)
qed

lemma runs_side_frame [runs_rules]: "runs R (rx_side_frame M src bs)"
proof -
  have ord: "runs R (on_inner (ordered_rx L E src ty seq bs))" for L and E :: env and ty seq
    by (intro runs_on_inner ordered)
  show ?thesis unfolding rx_side_frame_def Let_def by (intro runs_rules ord)
qed

lemma runs_acknowledge [runs_rules]:
  "runs R (acknowledge_end_to_end M src eps ty pkt_opt)" "runs R (acknowledge_again M pkt)" "runs R (rx_duplicate M src it)"
  unfolding acknowledge_end_to_end_def rx_duplicate_def acknowledge_again_def by (intro runs_rules)+

lemma runs_ingress [runs_rules]: "runs R (rx_ingress M item)"
proof -
  have "runs R (on_inner (note_return_route_for E src it))" for E src it
    by (intro runs_on_inner return_route)
  then show ?thesis unfolding rx_ingress_def by (intro runs_rules)
qed

end

section \<open>Delivery to handlers that succeed\<close>

definition handlers_succeed :: "router_machine \<Rightarrow> bool" where
  "handlers_succeed M \<longleftrightarrow> (\<forall>n. fo_handler (rm_foreign M) n = Ok ())"

definition after_calls :: "(endpoint_handler \<times> router_item) list \<Rightarrow> world \<Rightarrow> world" where
  "after_calls cs w =
     w\<lparr>wd_tick := wd_tick w + length cs, wd_events := wd_events w @ map (\<lambda>(h, it). Handler_Called h it) cs\<rparr>"

lemma after_calls_simps:
  "after_calls [] w = w" "after_calls ds (after_calls cs w) = after_calls (cs @ ds) w"
  by (simp_all add: after_calls_def)

lemma call_handler_succeeds:
  assumes "handlers_succeed M"
  shows "call_handler M h it w = Some (after_calls [(h, it)] w, Ok ())"
  using assms by (simp add: call_handler_def asking_def wthen_def noting_def give_def handlers_succeed_def after_calls_def)

lemma with_retries_succeeds:
  assumes "handlers_succeed M" and "0 < max_handler_retries (rm_env M)"
  shows "with_retries M tx dest it pkt env (call_handler M h sent) w = Some (after_calls [(h, sent)] w, Ok ())"
proof -
  obtain n where "max_handler_retries (rm_env M) = Suc n" using assms(2) gr0_conv_Suc by blast
  then show ?thesis by (simp add: with_retries_def catching_def call_handler_succeeds [OF assms(1)])
qed

definition call_of :: "packet \<Rightarrow> bytes \<Rightarrow> endpoint_handler \<Rightarrow> endpoint_handler \<times> router_item" where
  "call_of pkt bs h = (h, case eh_handler h of Packet_Handler \<Rightarrow> Item_Packet pkt | Serialized_Handler \<Rightarrow> Item_Serialized bs)"

lemma deliver_each_succeeds:
  assumes "handlers_succeed M" "0 < max_handler_retries (rm_env M)"
    and "\<And>h. h \<in> set hs \<Longrightarrow> eh_handler h = Serialized_Handler \<Longrightarrow> bytes_opt = Some bs"
  shows "each (deliver_packet_to M tx ignoring pkt bytes_opt) hs w = Some (after_calls (map (call_of pkt bs) hs) w, Ok ())"
  using assms(3)
proof (induction hs arbitrary: w)
  case (Cons h hs)
  have "deliver_packet_to M tx ignoring pkt bytes_opt h w = Some (after_calls [call_of pkt bs h] w, Ok ())"
    using Cons.prems [of h]
    by (cases "eh_handler h")
      (simp_all add: deliver_packet_to_def call_handler_with_retries_def ignoring_def catching_def call_of_def
        with_retries_succeeds [OF assms(1,2)])
  moreover have "each (deliver_packet_to M tx ignoring pkt bytes_opt) hs (after_calls [call_of pkt bs h] w) =
      Some (after_calls (map (call_of pkt bs) hs) (after_calls [call_of pkt bs h] w), Ok ())"
    by (rule Cons.IH) (rule Cons.prems, simp_all)
  ultimately show ?case by (simp add: wthen_def after_calls_simps)
qed (simp add: give_def after_calls_simps)

lemma targets_serialized:
  "h \<in> set (local_targets N eps) \<Longrightarrow> eh_handler h = Serialized_Handler \<Longrightarrow> list_ex (endpoint_has_serialized_handler N) eps"
  by (auto simp: local_targets_def list_ex_iff endpoint_has_serialized_handler_def)

text \<open>The handler calls in the trace, and actions that add a known list of them when they succeed.\<close>

definition handler_calls :: "world \<Rightarrow> (endpoint_handler \<times> router_item) list" where
  "handler_calls w = List.map_filter (\<lambda>ev. case ev of Handler_Called h it \<Rightarrow> Some (h, it) | _ \<Rightarrow> None) (wd_events w)"

definition adds_calls :: "(endpoint_handler \<times> router_item) list \<Rightarrow> 'a action \<Rightarrow> bool" where
  "adds_calls cs m \<longleftrightarrow> (\<forall>w. \<exists>w' r. m w = Some (w', r) \<and> (is_ok r \<longrightarrow> handler_calls w' = handler_calls w @ cs))"

definition same_calls :: "world \<Rightarrow> world \<Rightarrow> bool" where
  "same_calls w w' \<longleftrightarrow> wd_events w' = wd_events w"

interpretation calls: world_frame "\<lambda>_ _. True" same_calls
  by unfold_locales (simp_all add: same_calls_def)

lemma handler_calls_after [simp]: "handler_calls (after_calls cs w) = handler_calls w @ cs"
  by (induction cs) (auto simp: handler_calls_def after_calls_def map_filter_simps List.map_filter_def)

lemma adds_no_calls: "runs same_calls m \<Longrightarrow> adds_calls [] m"
  by (auto simp: runs_def adds_calls_def same_calls_def handler_calls_def) metis

lemma adds_wthen:
  assumes "adds_calls cs m" and "\<And>x. adds_calls ds (f x)"
  shows "adds_calls (cs @ ds) (wthen m f)"
  unfolding adds_calls_def
proof
  fix w
  obtain w1 r1 where m: "m w = Some (w1, r1)" "is_ok r1 \<longrightarrow> handler_calls w1 = handler_calls w @ cs"
    using assms(1) unfolding adds_calls_def by blast
  show "\<exists>w' r. wthen m f w = Some (w', r) \<and> (is_ok r \<longrightarrow> handler_calls w' = handler_calls w @ cs @ ds)"
  proof (cases r1)
    case (Ok x)
    obtain w2 r2 where "f x w1 = Some (w2, r2)" "is_ok r2 \<longrightarrow> handler_calls w2 = handler_calls w1 @ ds"
      using assms(2) unfolding adds_calls_def by blast
    then show ?thesis using m Ok by (simp add: wthen_def)
  qed (use m in \<open>simp_all add: wthen_def\<close>)
qed

definition wire_bytes :: "env \<Rightarrow> packet \<Rightarrow> bytes" where
  "wire_bytes E pkt = (case serialize_packet E pkt of Ok bs \<Rightarrow> bs | _ \<Rightarrow> [])"

definition packet_calls :: "router_machine \<Rightarrow> packet \<Rightarrow> (endpoint_handler \<times> router_item) list" where
  "packet_calls M pkt =
     map (call_of pkt (wire_bytes (rm_env M) pkt)) (local_targets (rm_node M) (sort_dedup (pkt_endpoints pkt)))"

lemma deliver_packet_calls:
  assumes "handlers_succeed M" and "0 < max_handler_retries (rm_env M)"
  shows "adds_calls (packet_calls M pkt) (deliver_packet M tx ignoring pkt)"
  unfolding adds_calls_def
proof
  fix w
  let ?eps = "sort_dedup (pkt_endpoints pkt)"
  show "\<exists>w' r. deliver_packet M tx ignoring pkt w = Some (w', r) \<and>
      (is_ok r \<longrightarrow> handler_calls w' = handler_calls w @ packet_calls M pkt)"
  proof (cases "local_bytes M ?eps pkt")
    case (Ok bytes_opt)
    have "bytes_opt = Some (wire_bytes (rm_env M) pkt)"
      if "h \<in> set (local_targets (rm_node M) ?eps)" "eh_handler h = Serialized_Handler" for h
      using Ok targets_serialized [OF that] by (auto simp: local_bytes_def wire_bytes_def andthen_eq_Ok)
    from deliver_each_succeeds [OF assms this] Ok show ?thesis
      by (simp add: deliver_packet_def wthen_def give_def packet_calls_def)
  qed (simp_all add: deliver_packet_def wthen_def give_def)
qed

lemma dispatch_packet_calls:
  assumes "handlers_succeed M" and "0 < max_handler_retries (rm_env M)"
  shows "adds_calls (packet_calls M pkt) (dispatch_packet M src pkt True)"
proof -
  have "adds_calls ([] @ packet_calls M pkt @ [] @ []) (dispatch_packet M src pkt True)"
    unfolding dispatch_packet_def
    by (intro adds_wthen deliver_packet_calls assms adds_no_calls runs_rules)
  then show ?thesis by simp
qed

section \<open>Receiving within a frame\<close>

lemma call_succeeds:
  assumes "handlers_succeed M" and "0 < max_handler_retries (rm_env M)"
  shows "\<exists>cs r. call_handler_with_retries M tx h data pkt env w = Some (after_calls cs w, r)"
proof -
  have "\<exists>cs r. give r' w = Some (after_calls cs w, r)" for r' :: "unit telemetry_result"
    by (rule exI [of _ "[]"]) (simp add: give_def after_calls_simps)
  then show ?thesis
    by (auto simp: call_handler_with_retries_def with_retries_succeeds [OF assms] split: endpoint_handler_fn.splits option.splits)
qed

locale receive_frame = world_frame +
  assumes events: "R w (w\<lparr>wd_events := evs\<rparr>)"
begin

lemma runs_after_calls: "R w (after_calls cs w)"
  unfolding after_calls_def
  using wtrans [OF tick [of w "wd_tick w + length cs"] events] by simp

lemma runs_call:
  assumes "handlers_succeed M" and "0 < max_handler_retries (rm_env M)"
  shows "runs R (call_handler_with_retries M tx h data pkt env)"
  using call_succeeds [OF assms] runs_after_calls by (fastforce intro: runsI)

lemma runs_deliver_serialized:
  assumes "handlers_succeed M" and "0 < max_handler_retries (rm_env M)"
  shows "runs R (deliver_serialized_to M tx ignoring env bs pkt_opt hs)"
proof (induction hs arbitrary: pkt_opt)
  case (Cons h hs)
  then show ?case by (cases "eh_handler h") (auto intro!: runs_rules runs_call assms)
qed (simp add: acts.runs_give)

lemma runs_deliver_packet:
  assumes "handlers_succeed M" and "0 < max_handler_retries (rm_env M)"
  shows "runs R (deliver_packet M tx ignoring pkt)"
proof -
  have "runs R (deliver_packet_to M tx ignoring pkt bytes_opt h)" for bytes_opt h
    by (cases "eh_handler h"; cases bytes_opt) (auto simp: deliver_packet_to_def intro!: runs_rules runs_call assms)
  then show ?thesis unfolding deliver_packet_def Let_def by (intro runs_rules)
qed

lemma runs_rx_item:
  assumes "handlers_succeed M" and "0 < max_handler_retries (rm_env M)" and "0 < max_recent_rx_ids (rm_env M)"
  shows "runs R (rx_item M item True)"
proof -
  note rules = runs_rules runs_is_duplicate [OF assms(3)] runs_deliver_serialized [OF assms(1,2)] runs_deliver_packet [OF assms(1,2)]
  have "runs R (dispatch_packet M src pkt True)" for src pkt
    unfolding dispatch_packet_def by (intro rules)
  moreover have "runs R (dispatch_serialized M src env bs True)" for src env bs
    unfolding dispatch_serialized_def by (intro rules)
  ultimately have data: "runs R (dispatch_rx_data M src it True)" for src it
    unfolding dispatch_rx_data_def by (intro rules)
  then have "runs R (dispatch_released M src True bs)" for src bs
    unfolding dispatch_released_def by (intro rules)
  then show ?thesis unfolding rx_item_def by (intro rules data)
qed

end

definition rx_le :: "router_inner \<Rightarrow> router_inner \<Rightarrow> bool" where
  "rx_le a b \<longleftrightarrow> length (bd_q (received_queue b)) \<le> length (bd_q (received_queue a))"

definition backlog_le :: "world \<Rightarrow> world \<Rightarrow> bool" where
  "backlog_le w w' \<longleftrightarrow> rx_le (wd_inner w) (wd_inner w') \<and> length (bd_q (wd_isr w')) \<le> length (bd_q (wd_isr w))"

lemma pop_shared_rx_le: "rx_le st (snd (pop_shared_queue_item L k st))"
  by (cases k) (auto simp: rx_le_def pop_reliable_rx_buffered_def pop_discovery_route_def pop_front_def
      split: prod.splits option.splits list.splits)

interpretation backlog: receive_frame rx_le backlog_le
proof unfold_locales
  show "rx_le a (fst (make_room_loop L budget cost preferred a))" for L budget cost preferred a
    by (rule make_room_closed [where Q = rx_le]) (rule pop_shared_rx_le, auto simp: rx_le_def)
qed (auto simp: rx_le_def backlog_le_def)

section \<open>The receive loop\<close>

definition backlog :: "world \<Rightarrow> nat" where
  "backlog w = length (bd_q (wd_isr w)) + length (bd_q (received_queue (wd_inner w)))"

lemma pop_received_backlog:
  "\<exists>w' v. pop_received M w = Some (w', Ok v) \<and>
     (if v = None then bd_q (received_queue (wd_inner w')) = [] else backlog w' < backlog w)"
proof -
  have pop: "(case pop_front cost d of (v, q) \<Rightarrow> F v q) =
      (case bd_q d of [] \<Rightarrow> F None d | x # xs \<Rightarrow> F (Some x) (snd (pop_front cost d)))" for cost and d :: "'q bounded_deque" and F
    by (simp add: pop_front_def split: list.splits)
  have len: "bd_q d = x # xs \<Longrightarrow> bd_q (snd (pop_front cost d)) = xs" for cost x xs and d :: "'q bounded_deque"
    by (simp add: pop_front_def)
  show ?thesis
    by (cases "fo_isr_busy (rm_foreign M) (wd_tick w)"; cases "bd_q (wd_isr w)"; cases "bd_q (received_queue (wd_inner w))")
      (simp_all add: pop_received_def isr_pop_front_def isr_locked_def asking_def catching_def wthen_def give_def on_inner_def
        pop len backlog_def)
qed

lemma rx_turn_returns:
  assumes "handlers_succeed M" and "0 < max_handler_retries (rm_env M)" and "0 < max_recent_rx_ids (rm_env M)"
  shows "\<exists>w' r. rx_turn M w = Some (w', r) \<and> (r = Ok True \<longrightarrow> backlog w' < backlog w) \<and>
    (r = Ok False \<longrightarrow> bd_q (received_queue (wd_inner w')) = [])"
proof -
  obtain w1 v where p: "pop_received M w = Some (w1, Ok v)"
    and v: "if v = None then bd_q (received_queue (wd_inner w1)) = [] else backlog w1 < backlog w"
    using pop_received_backlog by blast
  show ?thesis
  proof (cases v)
    case None
    then show ?thesis using p v by (simp add: rx_turn_def wthen_def give_def)
  next
    case (Some item)
    obtain w2 r2 where "rx_item M item True w1 = Some (w2, r2)" "backlog_le w1 w2"
      using backlog.runs_rx_item [OF assms] by (rule runsE)
    then show ?thesis using p v Some
      by (cases r2) (auto simp: rx_turn_def wthen_def give_def backlog_def backlog_le_def rx_le_def)
  qed
qed

section \<open>Receiving a packet\<close>

lemma not_internal:
  assumes "\<not> is_internal_control_type (pkt_ty pkt)"
  shows "handle_control M pkt src = give (Ok False)" "learn M pkt src = at_now M (\<lambda>_. give (Ok False))"
    "\<not> is_timesync_type (pkt_ty pkt)"
proof -
  show "handle_control M pkt src = give (Ok False)" "learn M pkt src = at_now M (\<lambda>_. give (Ok False))"
    using assms
    by (auto simp: handle_control_def learn_def handle_internal_reliable_packet_def learn_discovery_packet_def
        is_internal_control_type_def on_inner_def give_def asking_def fun_eq_iff)
  show "\<not> is_timesync_type (pkt_ty pkt)" using assms by (auto simp: is_internal_control_type_def is_timesync_type_def)
qed

lemma wthen_pure:
  "wthen (give (Ok x)) f = f x" "wthen (asking q (\<lambda>_. give (Ok x))) f = asking q (\<lambda>_. f x)"
  by (auto simp: fun_eq_iff wthen_def give_def asking_def)

lemma adds_asking: "(\<And>x. adds_calls cs (f x)) \<Longrightarrow> adds_calls cs (asking q f)"
proof -
  assume "\<And>x. adds_calls cs (f x)"
  then have "\<exists>w' r. f x w = Some (w', r) \<and> (is_ok r \<longrightarrow> handler_calls w' = handler_calls w @ cs)" for x w
    by (simp add: adds_calls_def)
  from this [of _ "w\<lparr>wd_tick := Suc (wd_tick w)\<rparr>" for w] show ?thesis
    by (simp add: adds_calls_def asking_def handler_calls_def)
qed

lemma dispatch_rx_packet_calls:
  assumes "handlers_succeed M" "0 < max_handler_retries (rm_env M)" "\<not> is_internal_control_type (pkt_ty pkt)"
  shows "adds_calls (packet_calls M pkt) (dispatch_rx_data M src (Item_Packet pkt) True)"
proof -
  have "adds_calls ([] @ packet_calls M pkt)
      (wthen (give (packet_validate (rm_env M) pkt)) (\<lambda>_. at_now M (\<lambda>_. dispatch_packet M src pkt True)))"
    by (intro adds_wthen adds_asking dispatch_packet_calls assms adds_no_calls runs_rules)
  then show ?thesis by (simp add: dispatch_rx_data_def not_internal [OF assms(3)] wthen_pure)
qed

lemma ingress_packet:
  assumes "rx_data item = Item_Packet pkt"
  shows "\<exists>w' r. rx_ingress M item w = Some (w', r) \<and> (\<forall>rel. r = Ok rel \<longrightarrow> rel = Some []) \<and>
    recent_rx (wd_inner w') = recent_rx (wd_inner w) \<and> wd_events w' = wd_events w"
proof (cases "rx_src item")
  case None
  then show ?thesis by (simp add: rx_ingress_def give_def)
next
  case (Some src)
  have "recent_rx (note_reliable_return_route C side pid st) = recent_rx st" for C :: env and side pid st
    by (simp add: note_reliable_return_route_def Let_def split: prod.splits)
  then show ?thesis using Some assms
    by (cases "ensure_side_ingress_enabled (wd_inner w) src")
      (simp_all add: rx_ingress_def reading_def wthen_def give_def on_inner_def note_return_route_for_def)
qed

end
