(* ===== verification/Router_Fault_Laws.thy ===== *)
theory Router_Fault_Laws
  imports Router_Flow_Laws Router_Gossip_Laws
begin

text \<open>
  Two situations worked out step by step: the transmit loop while the gate of the sides is taken, and a
  packet whose only handler fails.
\<close>

section \<open>The transmit loop inside a side callback\<close>

text \<open>
  One item waits for a side that takes packets, nothing waits for acknowledgement and nothing is
  discovered.
\<close>

definition jammed :: "router_machine \<Rightarrow> nat option \<Rightarrow> nat \<Rightarrow> router_item \<Rightarrow> world \<Rightarrow> bool" where
  "jammed M src dst it w \<longleftrightarrow>
     (let st = wd_inner w
      in queues_wf (rm_layout M) st \<and> shared_queue_bytes_used (rm_layout M) st \<le> max_queue_budget (rm_env M) \<and>
         reliable_tx st = [] \<and> end_to_end_reliable_tx st = [] \<and> discovery_routes st = [] \<and>
         (\<exists>p. bd_q (transmit_queue st) = [\<lparr>txq_item = ToSide src dst it, txq_ignore_local = True, txq_priority = p\<rparr>]) \<and>
         (\<exists>s. side_get st dst = Some s \<and> side_tx_handler s = Packet_Tx) \<and>
         (\<exists>ty. item_type (rm_env M) it = Ok ty \<and> route_allowed (rm_env M) st src (Some ty) dst))"

lemma timeouts_idle:
  assumes "reliable_tx (wd_inner w) = []" "end_to_end_reliable_tx (wd_inner w) = []" "discovery_routes (wd_inner w) = []"
  shows "process_timeouts M w = Some (w\<lparr>wd_tick := Suc (Suc (wd_tick w))\<rparr>, Ok ())"
  using assms
  by (simp add: process_timeouts_def asking_def wthen_def on_inner_def process_reliable_timeouts_def
      process_end_to_end_reliable_timeouts_def prune_discovery_routes_def reconcile_end_to_end_reliable_destinations_def
      bt_keys_def Let_def)

text \<open>A popped item fits again.\<close>

lemma requeue_popped:
  assumes wf: "queues_wf L st" and used: "shared_queue_bytes_used L st \<le> max_queue_budget C"
    and budget: "max_queue_budget C < usize_limit - 1"
    and q: "bd_q (transmit_queue st) = [a]" and cost: "tx_queued_byte_cost L b = tx_queued_byte_cost L a"
    and pop: "pop_front (tx_queued_byte_cost L) (transmit_queue st) = (Some a, d)"
  shows "\<exists>d'. push_transmit L C b (st\<lparr>transmit_queue := d\<rparr>) = (st\<lparr>transmit_queue := d'\<rparr>, Ok ()) \<and> bd_q d' = [b] \<and>
    queues_wf L (st\<lparr>transmit_queue := d'\<rparr>) \<and> shared_queue_bytes_used L (st\<lparr>transmit_queue := d'\<rparr>) \<le> max_queue_budget C"
proof -
  let ?cost = "tx_queued_byte_cost L" and ?tq = "transmit_queue st"
  note wft = queues_wfD(2) [OF wf]
  have d: "d = bd_set ?cost [] ?tq" using pop_front_set [OF wft] pop q by simp
  have wfd: "bd_wf ?cost (size_tx_queued L) d" unfolding d using bd_wf_drop [OF wft, of 1] q by simp
  have wfs: "queues_wf L (st\<lparr>transmit_queue := d\<rparr>)" using wf wfd by (simp add: queues_wf_def)
  have fits: "?cost a \<le> bd_max_bytes ?tq" "1 \<le> bd_max_elems ?tq" using bd_wfD [OF wft] q by simp_all
  have cur: "bd_cur_bytes ?tq = ?cost a" using bd_wfD [OF wft] q by simp
  have "shared_queue_bytes_used L (st\<lparr>transmit_queue := d\<rparr>) + ?cost b \<le> max_queue_budget C"
    using used budget cur cost
    by (simp add: shared_used_eq d reliable_rx_buffered_bytes_def discovery_bytes_used_def min_def split: if_splits)
  note room = make_room_idle [OF this]
  obtain d' where push: "push_back_prioritized ?cost (size_tx_queued L) txq_priority b d = (d', Ok ())" "bd_q d' = [b]"
    "bd_cur_bytes d' = ?cost b"
  proof (rule push_prioritized_cases [OF wfd, of txq_priority b])
    fix n cap assume "push_back_prioritized ?cost (size_tx_queued L) txq_priority b d =
      ((bd_set ?cost (insert_prio txq_priority b (take n (bd_q d))) d)\<lparr>bd_cap := cap\<rparr>, Ok ())"
    moreover have "insert_prio txq_priority b (take n (bd_q d)) = [b]" by (simp add: d insert_prio_def)
    ultimately show thesis by (intro that [of "(bd_set ?cost [b] d)\<lparr>bd_cap := cap\<rparr>"]) simp_all
  qed (use fits cost in \<open>auto simp: d refused_def\<close>)
  then have st': "push_transmit L C b (st\<lparr>transmit_queue := d\<rparr>) = (st\<lparr>transmit_queue := d'\<rparr>, Ok ())"
    by (simp add: push_transmit_def room)
  have "bd_wf ?cost (size_tx_queued L) d'" using prioritized.push_inv [OF wfd, of txq_priority b] push(1) by simp
  then have "queues_wf L (st\<lparr>transmit_queue := d'\<rparr>)" using wf by (simp add: queues_wf_def)
  moreover have "shared_queue_bytes_used L (st\<lparr>transmit_queue := d'\<rparr>) = shared_queue_bytes_used L st"
    using push(3) cost cur by (simp add: shared_used_eq reliable_rx_buffered_bytes_def discovery_bytes_used_def)
  ultimately show ?thesis using st' push(2) used by auto
qed

lemma jammed_turn:
  assumes busy: "\<And>n. call_busy (fo_side (rm_foreign M) n)" and budget: "max_queue_budget (rm_env M) < usize_limit - 1"
    and jam: "jammed M src dst it w"
  shows "\<exists>w'. tx_turn M w = Some (w', Ok True) \<and> jammed M src dst it w'"
proof -
  let ?st = "wd_inner w" and ?L = "rm_layout M" and ?E = "rm_env M"
  let ?q = "\<lambda>p. \<lparr>txq_item = ToSide src dst it, txq_ignore_local = True, txq_priority = p\<rparr>"
  from jam obtain p s ty where st: "queues_wf ?L ?st" "shared_queue_bytes_used ?L ?st \<le> max_queue_budget ?E"
    "reliable_tx ?st = []" "end_to_end_reliable_tx ?st = []" "discovery_routes ?st = []"
    and q: "bd_q (transmit_queue ?st) = [?q p]"
    and s: "side_get ?st dst = Some s" "side_tx_handler s = Packet_Tx"
    and ty: "item_type ?E it = Ok ty" "route_allowed ?E ?st src (Some ty) dst"
    unfolding jammed_def Let_def by blast
  obtain d where pop: "pop_front (tx_queued_byte_cost ?L) (transmit_queue ?st) = (Some (?q p), d)"
    using q by (simp add: pop_front_def)
  obtain pr where pr: "router_item_priority ?E it = Ok pr"
    using ty(1) by (cases it) (auto simp: item_type_def router_item_priority_def andthen_eq_Ok)
  have "tx_queued_byte_cost ?L (?q pr) = tx_queued_byte_cost ?L (?q p)" by (simp add: tx_queued_byte_cost_def)
  from requeue_popped [OF st(1,2) budget q this pop] obtain d' where
    push: "push_transmit ?L ?E (?q pr) (?st\<lparr>transmit_queue := d\<rparr>) = (?st\<lparr>transmit_queue := d'\<rparr>, Ok ())" "bd_q d' = [?q pr]"
    and ok: "queues_wf ?L (?st\<lparr>transmit_queue := d'\<rparr>)"
      "shared_queue_bytes_used ?L (?st\<lparr>transmit_queue := d'\<rparr>) \<le> max_queue_budget ?E" by blast
  have same: "side_get (?st\<lparr>transmit_queue := x\<rparr>) dst = Some s" "route_allowed ?E (?st\<lparr>transmit_queue := x\<rparr>) src (Some ty) dst" for x
    using s ty(2) route_allowed_cong [of "?st\<lparr>transmit_queue := x\<rparr>" ?st ?E src "Some ty" dst]
    by (simp_all add: side_get_def split: if_splits)
  let ?w = "w\<lparr>wd_tick := Suc (Suc (wd_tick w))\<rparr>"
  have pt: "pop_transmit M ?w = Some (?w\<lparr>wd_inner := ?st\<lparr>transmit_queue := d\<rparr>\<rparr>, Ok (Some (?q p)))"
    by (simp add: pop_transmit_def on_inner_def pop)
  let ?w' = "?w\<lparr>wd_inner := ?st\<lparr>transmit_queue := d'\<rparr>, wd_tick := Suc (Suc (Suc (wd_tick w))),
    wd_events := wd_events w @ [Handed_To_Side dst it]\<rparr>"
  have tx: "tx_item_impl M (ToSide src dst it) True (?w\<lparr>wd_inner := ?st\<lparr>transmit_queue := d\<rparr>\<rparr>) = Some (?w', Ok ())"
    using push(1) same
    by (subst tx_item_impl.simps) (simp add: tx_item_body_def tx_to_side_def local_first_def give_def ty(1) reading_def
        catching_def send_to_side_def asking_def noting_def wthen_def on_inner_def send_reliable_to_side_def side_ref_def
        s(2) call_side_tx_handler_def busy is_side_tx_busy_def queue_item_def tx_queue_item_with_flags_def tx_item_priority_def pr
        tx_queue_item_with_priority_def Let_def)
  have "tx_turn M w = Some (?w', Ok True)"
    using st tx by (simp add: tx_turn_def wthen_def timeouts_idle pt give_def)
  moreover have "jammed M src dst it ?w'"
    unfolding jammed_def Let_def using ok st push(2) same s(2) ty(1) by auto
  ultimately show ?thesis by blast
qed

section \<open>A packet whose only handler fails\<close>

lemma retrying_fails:
  assumes "\<And>n. fo_handler (rm_foreign M) n = Err e"
  shows "retrying n (call_handler M h it) last_err w =
    Some (after_calls (replicate n (h, it)) w, if n = 0 then (case last_err of Some e \<Rightarrow> Err e | None \<Rightarrow> Panic ''times > 0'') else Err e)"
proof (induction n arbitrary: last_err w)
  case (Suc n)
  have "call_handler M h it w = Some (after_calls [(h, it)] w, Err e)"
    using assms by (simp add: call_handler_def asking_def wthen_def noting_def give_def after_calls_def)
  then show ?case using Suc by (simp add: catching_def after_calls_simps)
qed (simp add: give_def after_calls_simps)

lemma no_sides_local:
  assumes "sides st = []" "discovery_routes st = []" "packet_validate E pkt = Ok ()" "\<not> is_internal_control_type (pkt_ty pkt)"
  shows "should_route_remote E N tracker now (Item_Packet pkt) src st = (st, Ok False)"
proof -
  have "eligible_side_ids E st src ty restrict = []" for ty restrict
    using assms(1) by (simp add: eligible_side_ids_def)
  moreover have "pkt_ty pkt \<noteq> ReliableAck" "\<not> is_discovery_type (pkt_ty pkt)" "\<not> is_timesync_type (pkt_ty pkt)"
    using assms(4) by (auto simp: is_internal_control_type_def is_timesync_type_def)
  ultimately show ?thesis using assms(2,3)
    by (simp add: should_route_remote_def remote_side_plan_def item_route_info_def reliable_control_target_packet_id_def
        control_target_of_packet_def preferred_timesync_route_source_def apply_route_selection_def Let_def)
qed

lemma handler_failure:
  assumes fail: "\<And>n. fo_handler (rm_foreign M) n = Err e" and retries: "0 < max_handler_retries (rm_env M)"
    and h: "eh_handler h = Packet_Handler" "pkt_endpoints pkt = [eh_endpoint h]"
    and w: "wd_inner w = st\<lparr>recent_rx := d\<rparr>" "bd_wf id_byte_cost 8 d" "bd_q d = q @ [packet_id (rm_env M) pkt]"
      "packet_id (rm_env M) pkt \<notin> set q"
  shows "\<exists>w'. ignoring (call_handler_with_retries M tx h None (Some pkt) None) w = Some (w', Ok ()) \<and>
    handler_calls w' = handler_calls w @ replicate (max_handler_retries (rm_env M)) (h, Item_Packet pkt) \<and>
    bd_q (recent_rx (wd_inner w')) = q"
proof -
  let ?N = "max_handler_retries (rm_env M)" and ?i = "packet_id (rm_env M) pkt"
  let ?w = "after_calls (replicate ?N (h, Item_Packet pkt)) w"
  have run: "retrying ?N (call_handler M h (Item_Packet pkt)) None w = Some (?w, Err e)"
    using retrying_fails [OF fail, of ?N h "Item_Packet pkt" None w] retries by simp
  have inner: "wd_inner ?w = wd_inner w" by (simp add: after_calls_def)
  have "bd_q (remove_value id_byte_cost ?i d) = q"
    using remove_value_set [OF w(2), of ?i] w(3,4) by (simp add: remove1_append)
  then have rem: "remove_pkt_id (rm_env M) (Item_Packet pkt) (wd_inner w) =
      (st\<lparr>recent_rx := remove_value id_byte_cost ?i d\<rparr>, Ok ())" "bd_q (remove_value id_byte_cost ?i d) = q"
    using w(1) by (simp_all add: remove_pkt_id_def get_hash_def)
  have "error_recipients (rm_node M) (Some (eh_endpoint h)) [eh_endpoint h] = []"
    by (simp add: error_recipients_def without_failed_def sort_dedup_def)
  then have "call_handler_with_retries M tx h None (Some pkt) None w =
      Some (?w\<lparr>wd_inner := st\<lparr>recent_rx := remove_value id_byte_cost ?i d\<rparr>,
        wd_events := wd_events ?w @ [Printed (fo_error_text (rm_foreign M) (Some (eh_endpoint h)) e)]\<rparr>,
        Err (HandlerError ''local handler failed''))"
    using h by (simp add: call_handler_with_retries_def with_retries_def catching_def run wthen_def on_inner_def inner rem(1)
        ignoring_def handle_callback_error_def noting_def give_def)
  moreover have "handler_calls (?w\<lparr>wd_inner := a, wd_events := wd_events ?w @ [Printed t]\<rparr>) = handler_calls ?w" for a t
    by (simp add: handler_calls_def List.map_filter_def)
  ultimately show ?thesis using rem(2) by (simp add: ignoring_def catching_def give_def)
qed

end
