(* ===== verification/Flow_Properties.thy ===== *)
theory Flow_Properties
  imports Router_Fault_Laws Sample_Network
begin

text \<open>
  The promises of dispatch and of the processing loops: what reaches the handlers, when the loops end,
  and two ways in which they go wrong. The examples are a router with one handler and a router whose
  side is being called.
\<close>

section \<open>Example machines\<close>

definition calm :: foreign where
  "calm = \<lparr>fo_clock = (\<lambda>_. at_one),
     fo_side = (\<lambda>_. \<lparr>call_busy = True, call_serialized = (\<lambda>_ _. Ok ()), call_packet = (\<lambda>_ _. Ok ()),
       call_started_ms = 0, call_ended_ms = 0\<rparr>),
     fo_handler = (\<lambda>_. Ok ()), fo_gate = (\<lambda>_. False), fo_isr_busy = (\<lambda>_. False),
     fo_error_text = (\<lambda>_ _. str ''failed''), fo_env_error_text = (\<lambda>_ _. str ''failed'')\<rparr>"

definition calm_machine :: router_machine where
  "calm_machine = \<lparr>rm_layout = sample_layout, rm_env = sample_env, rm_node = router_a, rm_foreign = calm\<rparr>"

definition world_of :: "router_inner \<Rightarrow> world" where
  "world_of st = \<lparr>wd_inner = st, wd_time = no_sync, wd_isr = received_queue two_sided, wd_tick = 0, wd_events = []\<rparr>"

lemma calm_fields:
  "handlers_succeed calm_machine" "0 < max_handler_retries (rm_env calm_machine)" "0 < max_recent_rx_ids (rm_env calm_machine)"
  by (simp_all add: handlers_succeed_def calm_machine_def calm_def sample_env_def)

text \<open>A router without room to breathe: one packet waits for a side that is being called.\<close>

definition stuck_item :: tx_queued where
  "stuck_item = \<lparr>txq_item = ToSide None 0 (Item_Packet battery_packet), txq_ignore_local = True, txq_priority = 100\<rparr>"

definition stuck :: router_inner where
  "stuck = quiet\<lparr>sides := [Some \<lparr>side_name = str ''A'', side_tx_handler = Packet_Tx, side_opts = side_options_default\<rparr>],
     transmit_queue := (transmit_queue quiet)\<lparr>bd_q := [stuck_item], bd_cur_bytes := tx_queued_byte_cost sample_layout stuck_item\<rparr>\<rparr>"

lemma stuck_cost: "tx_queued_byte_cost sample_layout stuck_item \<le> 300"
proof -
  have "length (str ''TEST'') = 4" by code_simp
  then show ?thesis
    by (simp add: tx_queued_byte_cost_def stuck_item_def packet_byte_cost_def sample_layout_def battery_packet_def)
qed

lemma stuck_jammed: "jammed calm_machine None 0 (Item_Packet battery_packet) (world_of stuck)"
proof -
  have "queues_wf sample_layout stuck"
    using stuck_cost by (simp add: queues_wf_def stuck_def quiet_def two_sided_def bd_wf_def sample_layout_def isize_max_def)
  moreover have "shared_queue_bytes_used sample_layout stuck \<le> 102400"
    using stuck_cost
    by (simp add: shared_used_eq stuck_def quiet_def two_sided_def reliable_rx_buffered_bytes_def discovery_bytes_used_def bt_values_def)
  moreover have "route_allowed sample_env stuck None ty 0" for ty
    by (simp add: route_allowed_def side_get_def stuck_def quiet_def two_sided_def side_options_default_def bt_get_def bt_keys_def
        default_route_enabled_def split: option.splits)
  moreover have "side_get stuck 0 = Some \<lparr>side_name = str ''A'', side_tx_handler = Packet_Tx, side_opts = side_options_default\<rparr>"
    by (simp add: side_get_def stuck_def)
  ultimately show ?thesis
    by (simp add: jammed_def calm_machine_def world_of_def sample_env_def item_type_def)
      (simp add: stuck_def quiet_def two_sided_def stuck_item_def)
qed

text \<open>A router without sides whose handler always fails.\<close>

definition failing_machine :: router_machine where
  "failing_machine = calm_machine\<lparr>rm_foreign := calm\<lparr>fo_handler := \<lambda>_. Err (Io ''card full'')\<rparr>\<rparr>"

definition radio_packet :: packet where
  "radio_packet = gps_packet\<lparr>pkt_endpoints := [UserEndpoint 1]\<rparr>"

section \<open>Properties\<close>

text \<open>
  C3. A packet taken from the receive queue, when no handler fails: the call returns, and if it succeeds,
  every handler of the packet's endpoints has been called exactly once, in the order of the endpoints
  and of the registration, with the packet or with its serialized bytes; nobody is called for a packet
  whose id is in the recent-id cache.
\<close>

theorem packet_delivered_exactly_once:
  assumes "handlers_succeed M" and "0 < max_handler_retries (rm_env M)" and "0 < max_recent_rx_ids (rm_env M)"
    and pkt: "rx_data item = Item_Packet pkt" and ext: "\<not> is_internal_control_type (pkt_ty pkt)"
  shows "\<exists>w' r. rx_item M item True w = Some (w', r) \<and>
    (r = Ok () \<longrightarrow> handler_calls w' = handler_calls w @
       (if bd_contains (recent_rx (wd_inner w)) (packet_id (rm_env M) pkt) then [] else packet_calls M pkt))"
proof -
  obtain w1 r1 where i: "rx_ingress M item w = Some (w1, r1)" "\<forall>rel. r1 = Ok rel \<longrightarrow> rel = Some []"
    "recent_rx (wd_inner w1) = recent_rx (wd_inner w)" "wd_events w1 = wd_events w"
    using ingress_packet [OF pkt] by blast
  have calls1: "handler_calls w1 = handler_calls w" using i(4) by (simp add: handler_calls_def)
  show ?thesis
  proof (cases "r1 = Ok (Some [])")
    case False
    then show ?thesis using i(1,2) by (cases r1) (auto simp: rx_item_def wthen_def)
  next
    case True
    obtain w2 r2 where d: "is_duplicate M (Item_Packet pkt) w1 = Some (w2, r2)" "same_calls w1 w2"
      using calls.runs_is_duplicate [OF assms(3)] by (rule runsE)
    have r2: "b \<longleftrightarrow> bd_contains (recent_rx (wd_inner w)) (packet_id (rm_env M) pkt)" if "r2 = Ok b" for b
      using d(1) that i(3)
      by (auto simp: is_duplicate_def is_duplicate_pkt_def get_hash_def sthen_def split: if_splits outcome.splits prod.splits)
        (metis (full_types) outcome.exhaust old.unit.exhaust)
    have calls2: "handler_calls w2 = handler_calls w" using d(2) calls1 by (simp add: same_calls_def handler_calls_def)
    obtain w3 r3 where dup: "rx_duplicate M (rx_src item) (Item_Packet pkt) w2 = Some (w3, r3)" "same_calls w2 w3"
      using calls.runs_acknowledge(3) by (rule runsE)
    obtain w4 r4 where new: "dispatch_rx_data M (rx_src item) (Item_Packet pkt) True w2 = Some (w4, r4)"
      "is_ok r4 \<longrightarrow> handler_calls w4 = handler_calls w2 @ packet_calls M pkt"
      using dispatch_rx_packet_calls [OF assms(1,2) ext] unfolding adds_calls_def by blast
    have "handler_calls w3 = handler_calls w" using dup(2) calls2 by (simp add: same_calls_def handler_calls_def)
    then show ?thesis
      using i(1) True d(1) r2 dup(1) new calls2
      by (cases r2; cases r4) (auto simp: rx_item_def wthen_def pkt give_def)
  qed
qed

theorem packet_delivered_exactly_once_witness:
  "\<exists>w' r. rx_item calm_machine \<lparr>rx_src = None, rx_data = Item_Packet gps_packet, rx_priority = 0\<rparr> True (world_of quiet) = Some (w', r) \<and>
    (r = Ok () \<longrightarrow> handler_calls w' = [(\<lparr>eh_endpoint = UserEndpoint 1, eh_handler = Packet_Handler\<rparr>, Item_Packet gps_packet)])"
proof -
  have "\<not> is_internal_control_type (pkt_ty gps_packet)"
    by (simp add: gps_packet_def is_internal_control_type_def is_discovery_type_def)
  moreover have "packet_calls calm_machine gps_packet =
      [(\<lparr>eh_endpoint = UserEndpoint 1, eh_handler = Packet_Handler\<rparr>, Item_Packet gps_packet)]"
    by (simp add: packet_calls_def local_targets_def calm_machine_def router_a_def gps_packet_def call_of_def sort_dedup_def
        less_eq_data_endpoint_def)
  moreover have "handler_calls (world_of quiet) = []" "\<not> bd_contains (recent_rx (wd_inner (world_of quiet))) i" for i
    by (simp_all add: handler_calls_def world_of_def List.map_filter_def bd_contains_def quiet_def two_sided_def)
  ultimately show ?thesis
    using packet_delivered_exactly_once [OF calm_fields,
        of "\<lparr>rx_src = None, rx_data = Item_Packet gps_packet, rx_priority = 0\<rparr>" gps_packet "world_of quiet"] by simp
qed

text \<open>
  C13. The receive loop ends when no handler fails, whatever the sides send and the clock and the interrupt
  lock say: processing an item never adds to the received items. If it reports success, no received
  item is left.
\<close>

theorem receive_loop_drains:
  assumes "handlers_succeed M" and "0 < max_handler_retries (rm_env M)" and "0 < max_recent_rx_ids (rm_env M)"
  shows "\<exists>w' r. process_rx_queue M w = Some (w', r) \<and> (r = Ok () \<longrightarrow> bd_q (received_queue (wd_inner w')) = [])"
proof -
  obtain w1 r1 where p: "poll_time M w = Some (w1, r1)" using calls.runs_steps(5) by (rule runsE)
  have "\<exists>w' r. repeating (rx_turn M) w2 = Some (w', r) \<and> (r = Ok () \<longrightarrow> bd_q (received_queue (wd_inner w')) = [])" for w2
    by (rule repeating_returns [where f = backlog]) (rule rx_turn_returns [OF assms])
  then show ?thesis using p
    by (cases r1) (auto simp: process_rx_queue_def process_rx_queue_with_timeout_def poll_then_def wthen_def
        process_rx_queue_with_timeout_impl_def process_queue_with_timeout_impl_def asking_def)
qed

theorem receive_loop_drains_witness:
  "\<exists>w' r. process_rx_queue calm_machine (world_of quiet) = Some (w', r) \<and> (r = Ok () \<longrightarrow> bd_q (received_queue (wd_inner w')) = [])"
  using receive_loop_drains [OF calm_fields] .

text \<open>
  C20. \<open>process_tx_queue\<close> never returns while the gate of the sides is taken, as it is in a side's own
  transmit callback: the item it takes from the queue is refused by the gate, put back at once and taken
  again. Here one item waits for a side that takes packets.
\<close>

theorem transmit_loop_inside_callback_diverges:
  assumes "\<And>n. call_busy (fo_side (rm_foreign M) n)" and "max_queue_budget (rm_env M) < usize_limit - 1"
    and "tsr_cfg (wd_time w) = None" and "jammed M src dst it w"
  shows "process_tx_queue M w = None"
proof -
  have none: "repeating (tx_turn M) w' = None" if "jammed M src dst it w'" for w'
    using jammed_turn [OF assms(1,2)] that by (rule repeating_diverges)
  obtain tr where poll: "poll_time M w = Some (w\<lparr>wd_tick := Suc (Suc (Suc (wd_tick w))), wd_time := tr\<rparr>, Ok False)"
    using assms(3) by (simp add: poll_time_def asking_def on_both_def poll_timesync_def poll_locked_def expire_sources_def Let_def)
  have "jammed M src dst it (w\<lparr>wd_time := tr, wd_tick := n\<rparr>)" for n using assms(4) by (simp add: jammed_def)
  from none [OF this] show ?thesis
    by (simp add: process_tx_queue_def process_tx_queue_with_timeout_def poll_then_def wthen_def poll
        process_tx_queue_with_timeout_impl_def process_queue_with_timeout_impl_def asking_def)
qed

theorem transmit_loop_inside_callback_diverges_witness:
  "process_tx_queue calm_machine (world_of stuck) = None"
proof (rule transmit_loop_inside_callback_diverges [OF _ _ _ stuck_jammed])
  show "tsr_cfg (wd_time (world_of stuck)) = None" by (simp add: world_of_def no_sync_def runtime_new_def)
qed (simp_all add: calm_machine_def calm_def sample_env_def usize_limit_def)

text \<open>
  C14. A packet for one endpoint whose only handler fails every time, in a router without sides: the handler
  is called exactly \<open>MAX_HANDLER_RETRIES\<close> times, the failure is not reported to the caller, and the
  packet's id is forgotten, so that the same packet is delivered again when it is sent again.
\<close>

theorem failed_packet_can_be_resent:
  assumes fail: "\<And>n. fo_handler (rm_foreign M) n = Err e" and retries: "0 < max_handler_retries (rm_env M)"
    and h: "rn_handlers (rm_node M) = [h]" "eh_handler h = Packet_Handler" "pkt_endpoints pkt = [eh_endpoint h]"
    and pkt: "packet_validate (rm_env M) pkt = Ok ()" "\<not> is_internal_control_type (pkt_ty pkt)"
    and item: "rx_src item = None" "rx_data item = Item_Packet pkt"
    and st: "sides (wd_inner w) = []" "discovery_routes (wd_inner w) = []" "queues_wf (rm_layout M) (wd_inner w)"
      "0 < max_recent_rx_ids (rm_env M)" "8 \<le> bd_max_bytes (recent_rx (wd_inner w))"
      "shared_queue_bytes_used (rm_layout M) (wd_inner w) \<le> max_queue_budget (rm_env M)"
      "\<not> bd_contains (recent_rx (wd_inner w)) (packet_id (rm_env M) pkt)"
  shows "\<exists>w'. rx_item M item True w = Some (w', Ok ()) \<and>
    handler_calls w' = handler_calls w @ replicate (max_handler_retries (rm_env M)) (h, Item_Packet pkt) \<and>
    \<not> bd_contains (recent_rx (wd_inner w')) (packet_id (rm_env M) pkt)"
proof -
  let ?st = "wd_inner w" and ?i = "packet_id (rm_env M) pkt" and ?it = "Item_Packet pkt"
  obtain n cap where cap: "push_recent_rx (rm_layout M) (rm_env M) ?i ?st =
      Some (?st\<lparr>recent_rx := (bd_set id_byte_cost (drop n (bd_q (recent_rx ?st)) @ [?i]) (recent_rx ?st))\<lparr>bd_cap := cap\<rparr>\<rparr>, Ok ())"
    "bd_wf id_byte_cost 8 ((bd_set id_byte_cost (drop n (bd_q (recent_rx ?st)) @ [?i]) (recent_rx ?st))\<lparr>bd_cap := cap\<rparr>)"
    using push_recent_result [OF st(3,4,5,6), of ?i] by blast
  define d where "d = (bd_set id_byte_cost (drop n (bd_q (recent_rx ?st)) @ [?i]) (recent_rx ?st))\<lparr>bd_cap := cap\<rparr>"
  have d: "push_recent_rx (rm_layout M) (rm_env M) ?i ?st = Some (?st\<lparr>recent_rx := d\<rparr>, Ok ())"
    "bd_wf id_byte_cost 8 d" "bd_q d = drop n (bd_q (recent_rx ?st)) @ [?i]"
    using cap by (simp_all add: d_def)
  have notin: "?i \<notin> set (drop n (bd_q (recent_rx ?st)))" using st(7) by (auto simp: bd_contains_def dest: in_set_dropD)
  have dup: "is_duplicate M ?it w = Some (w\<lparr>wd_inner := ?st\<lparr>recent_rx := d\<rparr>\<rparr>, Ok False)"
    using st(7) by (simp add: is_duplicate_def is_duplicate_pkt_def get_hash_def d(1))
  let ?w = "w\<lparr>wd_inner := ?st\<lparr>recent_rx := d\<rparr>, wd_tick := Suc (Suc (wd_tick w))\<rparr>"
  have remote: "routes_remote M ?it None (w\<lparr>wd_inner := ?st\<lparr>recent_rx := d\<rparr>, wd_tick := Suc (wd_tick w)\<rparr>) = Some (?w, Ok False)"
    using no_sides_local [OF _ _ pkt, of "?st\<lparr>recent_rx := d\<rparr>"] st(1,2)
    by (simp add: routes_remote_def asking_def reading_def on_inner_def)
  obtain w' where call: "ignoring (call_handler_with_retries M (tx_item M) h None (Some pkt) None) ?w = Some (w', Ok ())"
    "handler_calls w' = handler_calls ?w @ replicate (max_handler_retries (rm_env M)) (h, ?it)"
    "bd_q (recent_rx (wd_inner w')) = drop n (bd_q (recent_rx ?st))"
    using handler_failure [OF fail retries h(2,3) _ d(2,3) notin, of ?w ?st "tx_item M"] by auto
  have "local_bytes M [eh_endpoint h] pkt = Ok None" "local_targets (rm_node M) [eh_endpoint h] = [h]"
    using h by (simp_all add: local_bytes_def endpoint_has_serialized_handler_def local_targets_def)
  then have deliver: "deliver_packet M (tx_item M) ignoring pkt ?w = Some (w', Ok ())"
    using h call(1) by (simp add: deliver_packet_def sort_dedup_def wthen_def give_def deliver_packet_to_def)
  have "dispatch_rx_data M None ?it True (w\<lparr>wd_inner := ?st\<lparr>recent_rx := d\<rparr>\<rparr>) = Some (w', Ok ())"
    using deliver remote
    by (simp add: dispatch_rx_data_def pkt(1) not_internal [OF pkt(2)] wthen_pure asking_def dispatch_packet_def wthen_def
        acknowledge_end_to_end_def give_def)
  then have "rx_item M item True w = Some (w', Ok ())"
    using dup item by (simp add: rx_item_def rx_ingress_def wthen_def give_def)
  moreover have "handler_calls ?w = handler_calls w" by (simp add: handler_calls_def)
  ultimately show ?thesis using call notin by (simp add: bd_contains_def)
qed

theorem failed_packet_can_be_resent_witness:
  "\<exists>w'. rx_item failing_machine \<lparr>rx_src = None, rx_data = Item_Packet radio_packet, rx_priority = 0\<rparr> True
      (world_of (quiet\<lparr>sides := []\<rparr>)) = Some (w', Ok ()) \<and>
    handler_calls w' = replicate 3 (\<lparr>eh_endpoint = UserEndpoint 1, eh_handler = Packet_Handler\<rparr>, Item_Packet radio_packet) \<and>
    \<not> bd_contains (recent_rx (wd_inner w')) (packet_id sample_env radio_packet)"
proof -
  let ?M = failing_machine and ?w = "world_of (quiet\<lparr>sides := []\<rparr>)"
  let ?item = "\<lparr>rx_src = None, rx_data = Item_Packet radio_packet, rx_priority = 0\<rparr>"
  have m: "rm_env ?M = sample_env" "rm_layout ?M = sample_layout" "rm_node ?M = router_a"
    "fo_handler (rm_foreign ?M) n = Err (Io ''card full'')" for n
    by (simp_all add: failing_machine_def calm_machine_def)
  have "packet_new sample_env (UserType 0) [UserEndpoint 1] (str ''TEST'') 1000 (replicate 12 7) = Ok radio_packet"
    by (simp add: packet_new_def sample_meta radio_packet_def gps_packet_def small_payload_new_cases get_data_type_def usize_limit_def
        sample_fields)
  then have pkt: "packet_validate sample_env radio_packet = Ok ()" by (rule packet_new_validates)
  have ext: "\<not> is_internal_control_type (pkt_ty radio_packet)"
    by (simp add: radio_packet_def gps_packet_def is_internal_control_type_def is_discovery_type_def)
  have wf: "queues_wf sample_layout (quiet\<lparr>sides := []\<rparr>)" "shared_queue_bytes_used sample_layout (quiet\<lparr>sides := []\<rparr>) \<le> 102400"
    by (simp_all add: queues_wf_def quiet_def two_sided_def bd_wf_def sample_layout_def isize_max_def shared_used_eq
        reliable_rx_buffered_bytes_def discovery_bytes_used_def bt_values_def)
  have st: "wd_inner ?w = quiet\<lparr>sides := []\<rparr>" "handler_calls ?w = []"
    by (simp_all add: world_of_def handler_calls_def List.map_filter_def)
  have "\<exists>w'. rx_item ?M ?item True ?w = Some (w', Ok ()) \<and>
      handler_calls w' = handler_calls ?w @ replicate (max_handler_retries (rm_env ?M))
        (\<lparr>eh_endpoint = UserEndpoint 1, eh_handler = Packet_Handler\<rparr>, Item_Packet radio_packet) \<and>
      \<not> bd_contains (recent_rx (wd_inner w')) (packet_id (rm_env ?M) radio_packet)"
    by (rule failed_packet_can_be_resent [OF m(4)])
      (use pkt ext wf in \<open>simp_all add: m st router_a_def radio_packet_def sample_env_def\<close>,
       simp_all add: quiet_def two_sided_def bd_contains_def)
  then show ?thesis by (simp add: m st sample_env_def)
qed

end
