(* ===== verification/Relay_State.thy ===== *)
theory Relay_State
  imports Router_Receive
begin

text \<open>
  \<open>src/relay.rs\<close>, the data of a relay: its items and their byte costs, the mutable state
  \<open>RelayInner\<close>, and the operations that share one byte budget between its queues. A relay has no
  local endpoints; it keeps retransmissions in a queue of their own, and it remembers which boards have
  acknowledged a packet. The item, side, route-statistics, reliable and discovery types that the source
  declares a second time with the same fields are those of the router.
\<close>

section \<open>Items\<close>

record relay_layout =
  rl_size_packet :: nat
  rl_size_rx_item :: nat
  rl_size_tx_item :: nat
  rl_size_replay_item :: nat
  rl_size_sender_state :: nat
  rl_size_side_state :: nat

type_synonym relay_item = router_item

record relay_rx_item =
  rri_src :: nat
  rri_data :: relay_item
  rri_priority :: u8

record relay_tx_item =
  rti_src :: "nat option"
  rti_dst :: nat
  rti_data :: relay_item
  rti_priority :: u8

record relay_replay_item =
  rpl_dst :: nat
  rpl_bytes :: bytes
  rpl_priority :: u8

fun relay_item_byte_cost :: "relay_layout \<Rightarrow> relay_item \<Rightarrow> nat" where
  "relay_item_byte_cost L (Item_Serialized bs) = length bs"
| "relay_item_byte_cost L (Item_Packet pkt) = packet_byte_cost (rl_size_packet L) pkt"

definition relay_rx_byte_cost :: "relay_layout \<Rightarrow> relay_rx_item \<Rightarrow> nat" where
  "relay_rx_byte_cost L it = relay_item_byte_cost L (rri_data it)"

definition relay_tx_byte_cost :: "relay_layout \<Rightarrow> relay_tx_item \<Rightarrow> nat" where
  "relay_tx_byte_cost L it = relay_item_byte_cost L (rti_data it)"

definition replay_byte_cost :: "relay_replay_item \<Rightarrow> nat" where
  "replay_byte_cost it = length (rpl_bytes it)"

section \<open>The state\<close>

record relay_inner =
  ry_sides :: "router_side option list"
  ry_route_overrides :: "(nat option \<times> nat, bool) btree"
  ry_typed_route_overrides :: "(nat option \<times> u32 \<times> nat, bool) btree"
  ry_route_weights :: "(nat option \<times> nat, u32) btree"
  ry_route_priorities :: "(nat option \<times> nat, u32) btree"
  ry_source_route_modes :: "(nat option, route_selection_mode) btree"
  ry_route_selection_cursors :: "(nat option, u64) btree"
  ry_route_stats :: "(nat, adaptive_route_stats) btree"
  ry_rx_queue :: "relay_rx_item bounded_deque"
  ry_tx_queue :: "relay_tx_item bounded_deque"
  ry_replay_queue :: "relay_replay_item bounded_deque"
  ry_recent_rx :: "u64 bounded_deque"
  ry_reliable_tx :: "(nat \<times> u32, reliable_tx_state) btree"
  ry_reliable_rx :: "(nat \<times> u32, reliable_rx_state) btree"
  ry_return_routes :: "(u64, nat) btree"
  ry_return_route_order :: "u64 list"
  ry_acked_destinations :: "(u64, (u64, unit) btree) btree"
  ry_acked_destination_order :: "u64 list"
  ry_discovery_routes :: "(nat, discovery_side_state) btree"
  ry_discovery_cadence :: discovery_cadence_state

text \<open>\<open>Relay::new\<close>; the four queues are allocated in this order.\<close>

definition relay_inner_new :: "relay_layout \<Rightarrow> 'z config_scheme \<Rightarrow> (telemetry_error, relay_inner) outcome" where
  "relay_inner_new L C =
     andthen (bd_new (rl_size_rx_item L) (max_queue_budget C) (starting_queue_size C) (queue_grow_step C)) (\<lambda>rx.
     andthen (bd_new (rl_size_tx_item L) (max_queue_budget C) (starting_queue_size C) (queue_grow_step C)) (\<lambda>tx.
     andthen (bd_new (rl_size_replay_item L) (max_queue_budget C) (starting_queue_size C) (queue_grow_step C)) (\<lambda>replay.
     andthen (bd_new 8 (max (recent_rx_queue_bytes C) 1) (max (recent_rx_queue_bytes C) 1) (queue_grow_step C)) (\<lambda>recent.
       Ok \<lparr>ry_sides = [], ry_route_overrides = [], ry_typed_route_overrides = [], ry_route_weights = [],
           ry_route_priorities = [], ry_source_route_modes = [], ry_route_selection_cursors = [], ry_route_stats = [],
           ry_rx_queue = rx, ry_tx_queue = tx, ry_replay_queue = replay, ry_recent_rx = recent,
           ry_reliable_tx = [], ry_reliable_rx = [], ry_return_routes = [], ry_return_route_order = [],
           ry_acked_destinations = [], ry_acked_destination_order = [], ry_discovery_routes = [],
           ry_discovery_cadence = cadence_default\<rparr>))))"

section \<open>The shared budget\<close>

datatype relay_queue_kind = Relay_Rx | Relay_Tx | Relay_Replay | Relay_Recent | Relay_Rx_Buffer | Relay_Discovery

definition relay_topology_board_byte_cost :: "topology_board_node \<Rightarrow> nat" where
  "relay_topology_board_byte_cost b =
     usat_add (usat_add (usat_add (length (tb_sender_id b)) (length (tb_reachable_endpoints b) * 4))
       (sum_list (map length (tb_reachable_timesync_sources b)))) (sum_list (map length (tb_connections b)))"

definition relay_discovery_sender_byte_cost :: "relay_layout \<Rightarrow> bytes \<Rightarrow> discovery_sender_state \<Rightarrow> nat" where
  "relay_discovery_sender_byte_cost L sender st =
     usat_add (usat_add (usat_add (usat_add (length sender) (length (dss_reachable st) * 4))
       (sum_list (map length (dss_timesync_sources st))))
       (sum_list (map relay_topology_board_byte_cost (dss_topology_boards st)))) (rl_size_sender_state L)"

definition relay_discovery_route_byte_cost :: "relay_layout \<Rightarrow> discovery_side_state \<Rightarrow> nat" where
  "relay_discovery_route_byte_cost L route =
     usat_add (usat_add (usat_add (rl_size_side_state L) (length (dsd_reachable route) * 4))
       (sum_list (map length (dsd_timesync_sources route))))
       (sum_list (map (\<lambda>(sender, st). relay_discovery_sender_byte_cost L sender st) (dsd_announcers route)))"

definition relay_discovery_bytes_used :: "relay_layout \<Rightarrow> relay_inner \<Rightarrow> nat" where
  "relay_discovery_bytes_used L st =
     sum_list (map (relay_discovery_route_byte_cost L) (bt_values (ry_discovery_routes st)))"

definition relay_rx_buffered_bytes :: "relay_inner \<Rightarrow> nat" where
  "relay_rx_buffered_bytes st = sum_list (map buffered_bytes (bt_values (ry_reliable_rx st)))"

definition relay_shared_queue_bytes_used :: "relay_layout \<Rightarrow> relay_inner \<Rightarrow> nat" where
  "relay_shared_queue_bytes_used L st =
     usat_add (usat_add (usat_add (usat_add (usat_add (bd_cur_bytes (ry_rx_queue st)) (bd_cur_bytes (ry_tx_queue st)))
       (bd_cur_bytes (ry_replay_queue st))) (bd_max_bytes (ry_recent_rx st)))
       (relay_rx_buffered_bytes st)) (relay_discovery_bytes_used L st)"

definition relay_rx_buffer_len :: "relay_inner \<Rightarrow> nat" where
  "relay_rx_buffer_len st = sum_list (map (\<lambda>rx. length (rrx_buffered rx)) (bt_values (ry_reliable_rx st)))"

definition relay_pop_reliable_rx_buffered :: "relay_inner \<Rightarrow> bytes option \<times> relay_inner" where
  "relay_pop_reliable_rx_buffered st =
     (case find (\<lambda>(_, rx). rrx_buffered rx \<noteq> []) (ry_reliable_rx st) of
        None \<Rightarrow> (None, st)
      | Some (key, rx) \<Rightarrow>
          (map_option snd (fst (bt_pop_first (rrx_buffered rx))),
           st\<lparr>ry_reliable_rx := bt_modify key pop_buffered (ry_reliable_rx st)\<rparr>))"

definition relay_pop_discovery_route :: "relay_inner \<Rightarrow> bool \<times> relay_inner" where
  "relay_pop_discovery_route st =
     (case min_by_key (\<lambda>(_, route). dsd_last_seen_ms route) (ry_discovery_routes st) of
        None \<Rightarrow> (False, st)
      | Some (side, _) \<Rightarrow> (True, st\<lparr>ry_discovery_routes := bt_remove side (ry_discovery_routes st)\<rparr>))"

fun relay_pop_shared_queue_item :: "relay_layout \<Rightarrow> relay_queue_kind \<Rightarrow> relay_inner \<Rightarrow> bool \<times> relay_inner" where
  "relay_pop_shared_queue_item L Relay_Rx st =
     (case pop_front (relay_rx_byte_cost L) (ry_rx_queue st) of (it, q) \<Rightarrow> (it \<noteq> None, st\<lparr>ry_rx_queue := q\<rparr>))"
| "relay_pop_shared_queue_item L Relay_Tx st =
     (case pop_front (relay_tx_byte_cost L) (ry_tx_queue st) of (it, q) \<Rightarrow> (it \<noteq> None, st\<lparr>ry_tx_queue := q\<rparr>))"
| "relay_pop_shared_queue_item L Relay_Replay st =
     (case pop_front replay_byte_cost (ry_replay_queue st) of (it, q) \<Rightarrow> (it \<noteq> None, st\<lparr>ry_replay_queue := q\<rparr>))"
| "relay_pop_shared_queue_item L Relay_Recent st =
     (case pop_front id_byte_cost (ry_recent_rx st) of (it, q) \<Rightarrow> (it \<noteq> None, st\<lparr>ry_recent_rx := q\<rparr>))"
| "relay_pop_shared_queue_item L Relay_Rx_Buffer st =
     (case relay_pop_reliable_rx_buffered st of (it, st) \<Rightarrow> (it \<noteq> None, st))"
| "relay_pop_shared_queue_item L Relay_Discovery st = relay_pop_discovery_route st"

definition relay_largest_shared_queue :: "relay_layout \<Rightarrow> relay_inner \<Rightarrow> relay_queue_kind option" where
  "relay_largest_shared_queue L st =
     (let candidates =
        [(Relay_Rx, bd_cur_bytes (ry_rx_queue st), length (bd_q (ry_rx_queue st))),
         (Relay_Tx, bd_cur_bytes (ry_tx_queue st), length (bd_q (ry_tx_queue st))),
         (Relay_Replay, bd_cur_bytes (ry_replay_queue st), length (bd_q (ry_replay_queue st))),
         (Relay_Recent, 0, 0),
         (Relay_Rx_Buffer, relay_rx_buffered_bytes st, relay_rx_buffer_len st),
         (Relay_Discovery, relay_discovery_bytes_used L st, length (ry_discovery_routes st))]
      in map_option fst
           (max_by_key (\<lambda>(kind, n, _). (n, if kind = Relay_Rx_Buffer then 0 else 1 :: nat))
              (filter (\<lambda>(_, n, len). n > 0 \<and> len > 0) candidates)))"

text \<open>What is left to evict; every successful removal makes it smaller.\<close>

definition relay_evictable :: "relay_inner \<Rightarrow> nat" where
  "relay_evictable st =
     length (bd_q (ry_rx_queue st)) + length (bd_q (ry_tx_queue st)) + length (bd_q (ry_replay_queue st)) +
     length (bd_q (ry_recent_rx st)) + relay_rx_buffer_len st + length (ry_discovery_routes st)"

lemma relay_pop_buffer_shrinks:
  assumes "relay_pop_reliable_rx_buffered st = (v, st')"
  shows "if v = None then st' = st else relay_evictable st' < relay_evictable st"
proof (cases "find (\<lambda>(_, rx). rrx_buffered rx \<noteq> []) (ry_reliable_rx st)")
  case None
  then show ?thesis using assms by (auto simp: relay_pop_reliable_rx_buffered_def)
next
  case (Some e)
  obtain key rx where e: "e = (key, rx)" by (cases e)
  have *: "(key, rx) \<in> set (ry_reliable_rx st)" "rrx_buffered rx \<noteq> []"
    using Some e by (auto simp: find_Some_iff in_set_conv_nth)
  from *(2) have "fst (bt_pop_first (rrx_buffered rx)) \<noteq> None" by (cases "rrx_buffered rx") auto
  with * show ?thesis
    using assms Some e pop_buffered_shrinks
      sum_modify_less [of "\<lambda>rx. length (rrx_buffered rx)" pop_buffered rx key "ry_reliable_rx st"]
    by (auto simp: relay_pop_reliable_rx_buffered_def relay_evictable_def relay_rx_buffer_len_def)
qed

lemma relay_pop_route_shrinks:
  assumes "relay_pop_discovery_route st = (b, st')"
  shows "if b then relay_evictable st' < relay_evictable st else st' = st"
proof (cases "min_by_key (\<lambda>(_, route). dsd_last_seen_ms route) (ry_discovery_routes st)")
  case None
  then show ?thesis using assms by (auto simp: relay_pop_discovery_route_def)
next
  case (Some e)
  then have "e \<in> set (ry_discovery_routes st)" by (rule min_by_key_in)
  then have "length (bt_remove (fst e) (ry_discovery_routes st)) < length (ry_discovery_routes st)"
    unfolding bt_remove_def by (intro length_filter_less) auto
  then show ?thesis using assms Some
    by (cases e) (auto simp: relay_pop_discovery_route_def relay_evictable_def relay_rx_buffer_len_def)
qed

lemma relay_pop_shrinks:
  assumes "relay_pop_shared_queue_item L k st = (b, st')"
  shows "if b then relay_evictable st' < relay_evictable st else st' = st"
proof (cases k)
  case Relay_Rx_Buffer
  then show ?thesis using assms by (auto dest: relay_pop_buffer_shrinks split: prod.splits if_splits)
next
  case Relay_Discovery
  then show ?thesis using assms relay_pop_route_shrinks by simp
qed (use assms in \<open>auto simp: relay_evictable_def relay_rx_buffer_len_def split: prod.splits dest!: pop_front_shrinks\<close>)

function relay_make_room_loop ::
  "relay_layout \<Rightarrow> nat \<Rightarrow> nat \<Rightarrow> relay_queue_kind \<Rightarrow> relay_inner \<Rightarrow> relay_inner \<times> unit telemetry_result" where
  "relay_make_room_loop L budget incoming_cost preferred st =
     (if usat_add (relay_shared_queue_bytes_used L st) incoming_cost > budget then
        (let victim = (case relay_largest_shared_queue L st of Some v \<Rightarrow> v | None \<Rightarrow> preferred) in
         case relay_pop_shared_queue_item L victim st of
           (True, st') \<Rightarrow> relay_make_room_loop L budget incoming_cost preferred st'
         | (False, st') \<Rightarrow>
             (case relay_pop_shared_queue_item L preferred st' of
                (True, st'') \<Rightarrow> relay_make_room_loop L budget incoming_cost preferred st''
              | (False, st'') \<Rightarrow> (st'', Err (PacketTooLarge ''Item exceeds maximum shared queue budget''))))
      else (st, Ok ()))"
  by pat_completeness auto
termination
  by (relation "measure (\<lambda>(L, b, c, p, st). relay_evictable st)")
    (auto dest!: relay_pop_shrinks [OF sym] split: if_splits)

declare relay_make_room_loop.simps [simp del]

definition relay_make_shared_queue_room ::
  "relay_layout \<Rightarrow> 'z config_scheme \<Rightarrow> nat \<Rightarrow> relay_queue_kind \<Rightarrow> relay_inner \<Rightarrow> relay_inner \<times> unit telemetry_result" where
  "relay_make_shared_queue_room L C incoming_cost preferred st =
     (if incoming_cost > max_queue_budget C
      then (st, Err (PacketTooLarge ''Item exceeds maximum shared queue budget''))
      else relay_make_room_loop L (max_queue_budget C) incoming_cost preferred st)"

function relay_fit_discovery_budget :: "relay_layout \<Rightarrow> nat \<Rightarrow> relay_inner \<Rightarrow> relay_inner" where
  "relay_fit_discovery_budget L budget st =
     (if relay_shared_queue_bytes_used L st > budget then
        (case relay_pop_discovery_route st of
           (True, st') \<Rightarrow> relay_fit_discovery_budget L budget st'
         | (False, st') \<Rightarrow> st')
      else st)"
  by pat_completeness auto
termination
  by (relation "measure (\<lambda>(L, b, st). relay_evictable st)")
    (auto dest!: relay_pop_route_shrinks [OF sym] split: if_splits)

declare relay_fit_discovery_budget.simps [simp del]

section \<open>Pushes\<close>

definition relay_push_rx ::
  "relay_layout \<Rightarrow> 'z config_scheme \<Rightarrow> relay_rx_item \<Rightarrow> relay_inner \<Rightarrow> relay_inner \<times> unit telemetry_result" where
  "relay_push_rx L C it st =
     sthen (relay_make_shared_queue_room L C (relay_rx_byte_cost L it) Relay_Rx st) (\<lambda>_ st.
       case push_back_prioritized (relay_rx_byte_cost L) (rl_size_rx_item L) rri_priority it (ry_rx_queue st) of
         (q, r) \<Rightarrow> (st\<lparr>ry_rx_queue := q\<rparr>, r))"

definition relay_push_tx ::
  "relay_layout \<Rightarrow> 'z config_scheme \<Rightarrow> relay_tx_item \<Rightarrow> relay_inner \<Rightarrow> relay_inner \<times> unit telemetry_result" where
  "relay_push_tx L C it st =
     sthen (relay_make_shared_queue_room L C (relay_tx_byte_cost L it) Relay_Tx st) (\<lambda>_ st.
       case push_back_prioritized (relay_tx_byte_cost L) (rl_size_tx_item L) rti_priority it (ry_tx_queue st) of
         (q, r) \<Rightarrow> (st\<lparr>ry_tx_queue := q\<rparr>, r))"

definition relay_push_replay ::
  "relay_layout \<Rightarrow> 'z config_scheme \<Rightarrow> relay_replay_item \<Rightarrow> relay_inner \<Rightarrow> relay_inner \<times> unit telemetry_result" where
  "relay_push_replay L C it st =
     sthen (relay_make_shared_queue_room L C (replay_byte_cost it) Relay_Replay st) (\<lambda>_ st.
       case push_back_prioritized replay_byte_cost (rl_size_replay_item L) rpl_priority it (ry_replay_queue st) of
         (q, r) \<Rightarrow> (st\<lparr>ry_replay_queue := q\<rparr>, r))"

definition relay_push_recent_rx ::
  "relay_layout \<Rightarrow> 'z config_scheme \<Rightarrow> u64 \<Rightarrow> relay_inner \<Rightarrow> (relay_inner \<times> unit telemetry_result) option" where
  "relay_push_recent_rx L C i st =
     (case trim_recent (max_recent_rx_ids C) (ry_recent_rx st) of
        None \<Rightarrow> None
      | Some d \<Rightarrow>
          Some (sthen (relay_make_shared_queue_room L C 0 Relay_Recent (st\<lparr>ry_recent_rx := d\<rparr>)) (\<lambda>_ st.
            case push_back id_byte_cost 8 i (ry_recent_rx st) of
              (q, r) \<Rightarrow> (st\<lparr>ry_recent_rx := q\<rparr>, r))))"

section \<open>Reliable receive buffers\<close>

definition relay_rx_state_mut :: "nat \<times> u32 \<Rightarrow> relay_inner \<Rightarrow> relay_inner" where
  "relay_rx_state_mut key st =
     (case bt_get (ry_reliable_rx st) key of
        Some _ \<Rightarrow> st
      | None \<Rightarrow> st\<lparr>ry_reliable_rx := bt_insert key rx_state_new (ry_reliable_rx st)\<rparr>)"

definition relay_buffer_reliable_rx ::
  "relay_layout \<Rightarrow> 'z config_scheme \<Rightarrow> nat \<Rightarrow> data_type \<Rightarrow> u32 \<Rightarrow> bytes \<Rightarrow> relay_inner \<Rightarrow>
     relay_inner \<times> unit telemetry_result" where
  "relay_buffer_reliable_rx L C side ty seq bs st =
     (let key = reliable_key C side ty in
      if (case bt_get (ry_reliable_rx st) key of Some rx \<Rightarrow> bt_contains (rrx_buffered rx) seq | None \<Rightarrow> False)
      then (st, Ok ())
      else
        sthen (relay_make_shared_queue_room L C (arc_slice_size + length bs) Relay_Rx_Buffer st) (\<lambda>_ st.
          (let st = relay_rx_state_mut key st
           in (st\<lparr>ry_reliable_rx := bt_modify key (store_buffered C seq bs) (ry_reliable_rx st)\<rparr>, Ok ()))))"

end
