(* ===== verification/Relay_Routes.thy ===== *)
theory Relay_Routes
  imports Relay_State
begin

text \<open>
  \<open>src/relay.rs\<close>, sides and routes: registering and removing sides, the route policy, which sides
  an item may leave through, and which of them are chosen. A relay never sends an item back to the side
  it came from, whatever the overrides say.
\<close>

section \<open>Sides\<close>

definition relay_side_get :: "relay_inner \<Rightarrow> nat \<Rightarrow> router_side option" where
  "relay_side_get st side = (if side < length (ry_sides st) then ry_sides st ! side else None)"

definition relay_side_ref :: "relay_inner \<Rightarrow> nat \<Rightarrow> router_side telemetry_result" where
  "relay_side_ref st side = ok_or (HandlerError ''relay: invalid side id'') (relay_side_get st side)"

definition relay_ensure_side_ingress_enabled :: "relay_inner \<Rightarrow> nat \<Rightarrow> unit telemetry_result" where
  "relay_ensure_side_ingress_enabled st side =
     andthen (relay_side_ref st side) (\<lambda>s.
       if opt_ingress_enabled (side_opts s) then Ok ()
       else Err (HandlerError ''relay: ingress disabled for side id''))"

definition relay_note_topology_change :: "u64 \<Rightarrow> relay_inner \<Rightarrow> relay_inner" where
  "relay_note_topology_change now_ms st =
     st\<lparr>ry_discovery_cadence := on_topology_change now_ms (ry_discovery_cadence st)\<rparr>"

definition relay_side_options_default :: router_side_options where
  "relay_side_options_default =
     \<lparr>opt_reliable_enabled = False, opt_link_local_enabled = False, opt_ingress_enabled = True,
      opt_egress_enabled = True\<rparr>"

definition relay_add_side ::
  "tx_handler_kind \<Rightarrow> bytes \<Rightarrow> router_side_options \<Rightarrow> u64 \<Rightarrow> relay_inner \<Rightarrow> nat \<times> relay_inner" where
  "relay_add_side handler name opts now_ms st =
     (length (ry_sides st),
      relay_note_topology_change now_ms
        (st\<lparr>ry_sides := ry_sides st @ [Some \<lparr>side_name = name, side_tx_handler = handler, side_opts = opts\<rparr>]\<rparr>))"

definition relay_add_side_serialized_with_options ::
  "bytes \<Rightarrow> router_side_options \<Rightarrow> u64 \<Rightarrow> relay_inner \<Rightarrow> nat \<times> relay_inner" where
  "relay_add_side_serialized_with_options name opts = relay_add_side Serialized_Tx name opts"

definition relay_add_side_serialized :: "bytes \<Rightarrow> u64 \<Rightarrow> relay_inner \<Rightarrow> nat \<times> relay_inner" where
  "relay_add_side_serialized name = relay_add_side_serialized_with_options name relay_side_options_default"

definition relay_add_side_packet_with_options ::
  "bytes \<Rightarrow> router_side_options \<Rightarrow> u64 \<Rightarrow> relay_inner \<Rightarrow> nat \<times> relay_inner" where
  "relay_add_side_packet_with_options name opts = relay_add_side Packet_Tx name opts"

definition relay_add_side_packet :: "bytes \<Rightarrow> u64 \<Rightarrow> relay_inner \<Rightarrow> nat \<times> relay_inner" where
  "relay_add_side_packet name = relay_add_side_packet_with_options name relay_side_options_default"

definition relay_remove_side :: "relay_layout \<Rightarrow> nat \<Rightarrow> u64 \<Rightarrow> relay_inner \<Rightarrow> relay_inner \<times> unit telemetry_result" where
  "relay_remove_side L side now_ms st =
     (if relay_side_get st side = None then (st, Err BadArg)
      else
        (relay_note_topology_change now_ms
           (st\<lparr>ry_sides := (ry_sides st)[side := None],
               ry_route_overrides := bt_retain (\<lambda>(s, d) _. s \<noteq> Some side \<and> d \<noteq> side) (ry_route_overrides st),
               ry_typed_route_overrides :=
                 bt_retain (\<lambda>(s, _, d) _. s \<noteq> Some side \<and> d \<noteq> side) (ry_typed_route_overrides st),
               ry_route_weights := bt_retain (\<lambda>(s, d) _. s \<noteq> Some side \<and> d \<noteq> side) (ry_route_weights st),
               ry_route_priorities := bt_retain (\<lambda>(s, d) _. s \<noteq> Some side \<and> d \<noteq> side) (ry_route_priorities st),
               ry_source_route_modes := bt_remove (Some side) (ry_source_route_modes st),
               ry_route_selection_cursors := bt_remove (Some side) (ry_route_selection_cursors st),
               ry_route_stats := bt_remove side (ry_route_stats st),
               ry_return_routes := bt_retain (\<lambda>_ s. s \<noteq> side) (ry_return_routes st),
               ry_rx_queue := bd_retain (relay_rx_byte_cost L) (\<lambda>q. rri_src q \<noteq> side) (ry_rx_queue st),
               ry_tx_queue := bd_retain (relay_tx_byte_cost L)
                 (\<lambda>q. rti_dst q \<noteq> side \<and> rti_src q \<noteq> Some side) (ry_tx_queue st),
               ry_replay_queue := bd_retain replay_byte_cost (\<lambda>q. rpl_dst q \<noteq> side) (ry_replay_queue st),
               ry_reliable_tx := bt_retain (\<lambda>(s, _) _. s \<noteq> side) (ry_reliable_tx st),
               ry_reliable_rx := bt_retain (\<lambda>(s, _) _. s \<noteq> side) (ry_reliable_rx st),
               ry_discovery_routes := bt_remove side (ry_discovery_routes st)\<rparr>), Ok ()))"

definition relay_update_side_opts ::
  "nat \<Rightarrow> (router_side_options \<Rightarrow> router_side_options) \<Rightarrow> relay_inner \<Rightarrow> relay_inner option" where
  "relay_update_side_opts side f st =
     map_option (\<lambda>s. st\<lparr>ry_sides := (ry_sides st)[side := Some (s\<lparr>side_opts := f (side_opts s)\<rparr>)]\<rparr>)
       (relay_side_get st side)"

definition relay_set_side_ingress_enabled ::
  "nat \<Rightarrow> bool \<Rightarrow> u64 \<Rightarrow> relay_inner \<Rightarrow> relay_inner \<times> unit telemetry_result" where
  "relay_set_side_ingress_enabled side enabled now_ms st =
     (case relay_update_side_opts side (\<lambda>opts. opts\<lparr>opt_ingress_enabled := enabled\<rparr>) st of
        None \<Rightarrow> (st, Err BadArg)
      | Some st \<Rightarrow> (relay_note_topology_change now_ms st, Ok ()))"

definition relay_drop_queued_to :: "relay_layout \<Rightarrow> nat \<Rightarrow> relay_inner \<Rightarrow> relay_inner" where
  "relay_drop_queued_to L side st =
     st\<lparr>ry_tx_queue := bd_retain (relay_tx_byte_cost L) (\<lambda>q. rti_dst q \<noteq> side) (ry_tx_queue st),
        ry_replay_queue := bd_retain replay_byte_cost (\<lambda>q. rpl_dst q \<noteq> side) (ry_replay_queue st)\<rparr>"

definition relay_set_side_egress_enabled ::
  "relay_layout \<Rightarrow> nat \<Rightarrow> bool \<Rightarrow> u64 \<Rightarrow> relay_inner \<Rightarrow> relay_inner \<times> unit telemetry_result" where
  "relay_set_side_egress_enabled L side enabled now_ms st =
     (case relay_update_side_opts side (\<lambda>opts. opts\<lparr>opt_egress_enabled := enabled\<rparr>) st of
        None \<Rightarrow> (st, Err BadArg)
      | Some st \<Rightarrow>
          (relay_note_topology_change now_ms (if enabled then st else relay_drop_queued_to L side st), Ok ()))"

section \<open>Route policy\<close>

definition relay_check_source :: "nat option \<Rightarrow> relay_inner \<Rightarrow> unit telemetry_result" where
  "relay_check_source src st =
     (case src of
        None \<Rightarrow> Ok ()
      | Some s \<Rightarrow> andthen (map_err (\<lambda>_. BadArg) (relay_side_ref st s)) (\<lambda>_. Ok ()))"

text \<open>The checks and the last statement that the policy setters have in common.\<close>

definition relay_change_route ::
  "nat option \<Rightarrow> nat \<Rightarrow> (relay_inner \<Rightarrow> relay_inner) \<Rightarrow> u64 \<Rightarrow> relay_inner \<Rightarrow> relay_inner \<times> unit telemetry_result" where
  "relay_change_route src dst f now_ms st =
     sthen (st, map_err (\<lambda>_. BadArg) (relay_side_ref st dst)) (\<lambda>_ st.
     sthen (st, relay_check_source src st) (\<lambda>_ st. (relay_note_topology_change now_ms (f st), Ok ())))"

definition relay_set_source_route_mode ::
  "nat option \<Rightarrow> route_selection_mode \<Rightarrow> u64 \<Rightarrow> relay_inner \<Rightarrow> relay_inner \<times> unit telemetry_result" where
  "relay_set_source_route_mode src mode now_ms st =
     sthen (st, relay_check_source src st) (\<lambda>_ st.
       (relay_note_topology_change now_ms
          (st\<lparr>ry_source_route_modes :=
                (if mode = Fanout then bt_remove src (ry_source_route_modes st)
                 else bt_insert src mode (ry_source_route_modes st)),
              ry_route_selection_cursors := bt_remove src (ry_route_selection_cursors st)\<rparr>), Ok ()))"

definition relay_clear_source_route_mode :: "nat option \<Rightarrow> u64 \<Rightarrow> relay_inner \<Rightarrow> relay_inner \<times> unit telemetry_result" where
  "relay_clear_source_route_mode src = relay_set_source_route_mode src Fanout"

definition relay_set_route_weight ::
  "nat option \<Rightarrow> nat \<Rightarrow> u32 \<Rightarrow> u64 \<Rightarrow> relay_inner \<Rightarrow> relay_inner \<times> unit telemetry_result" where
  "relay_set_route_weight src dst weight =
     relay_change_route src dst (\<lambda>st. st\<lparr>ry_route_weights := bt_insert (src, dst) weight (ry_route_weights st),
       ry_route_selection_cursors := bt_remove src (ry_route_selection_cursors st)\<rparr>)"

definition relay_clear_route_weight ::
  "nat option \<Rightarrow> nat \<Rightarrow> u64 \<Rightarrow> relay_inner \<Rightarrow> relay_inner \<times> unit telemetry_result" where
  "relay_clear_route_weight src dst =
     relay_change_route src dst (\<lambda>st. st\<lparr>ry_route_weights := bt_remove (src, dst) (ry_route_weights st),
       ry_route_selection_cursors := bt_remove src (ry_route_selection_cursors st)\<rparr>)"

definition relay_set_route_priority ::
  "nat option \<Rightarrow> nat \<Rightarrow> u32 \<Rightarrow> u64 \<Rightarrow> relay_inner \<Rightarrow> relay_inner \<times> unit telemetry_result" where
  "relay_set_route_priority src dst priority =
     relay_change_route src dst (\<lambda>st. st\<lparr>ry_route_priorities := bt_insert (src, dst) priority (ry_route_priorities st)\<rparr>)"

definition relay_clear_route_priority ::
  "nat option \<Rightarrow> nat \<Rightarrow> u64 \<Rightarrow> relay_inner \<Rightarrow> relay_inner \<times> unit telemetry_result" where
  "relay_clear_route_priority src dst =
     relay_change_route src dst (\<lambda>st. st\<lparr>ry_route_priorities := bt_remove (src, dst) (ry_route_priorities st)\<rparr>)"

definition relay_set_route ::
  "nat option \<Rightarrow> nat \<Rightarrow> bool \<Rightarrow> u64 \<Rightarrow> relay_inner \<Rightarrow> relay_inner \<times> unit telemetry_result" where
  "relay_set_route src dst enabled =
     relay_change_route src dst (\<lambda>st. st\<lparr>ry_route_overrides := bt_insert (src, dst) enabled (ry_route_overrides st)\<rparr>)"

definition relay_clear_route :: "nat option \<Rightarrow> nat \<Rightarrow> u64 \<Rightarrow> relay_inner \<Rightarrow> relay_inner \<times> unit telemetry_result" where
  "relay_clear_route src dst =
     relay_change_route src dst (\<lambda>st. st\<lparr>ry_route_overrides := bt_remove (src, dst) (ry_route_overrides st)\<rparr>)"

definition relay_set_typed_route ::
  "'z schema_scheme \<Rightarrow> nat option \<Rightarrow> data_type \<Rightarrow> nat \<Rightarrow> bool \<Rightarrow> u64 \<Rightarrow> relay_inner \<Rightarrow>
     relay_inner \<times> unit telemetry_result" where
  "relay_set_typed_route C src ty dst enabled =
     relay_change_route src dst (\<lambda>st. st\<lparr>ry_typed_route_overrides :=
       bt_insert (src, ty_u32 C ty, dst) enabled (ry_typed_route_overrides st)\<rparr>)"

definition relay_clear_typed_route ::
  "'z schema_scheme \<Rightarrow> nat option \<Rightarrow> data_type \<Rightarrow> nat \<Rightarrow> u64 \<Rightarrow> relay_inner \<Rightarrow> relay_inner \<times> unit telemetry_result" where
  "relay_clear_typed_route C src ty dst =
     relay_change_route src dst (\<lambda>st. st\<lparr>ry_typed_route_overrides :=
       bt_remove (src, ty_u32 C ty, dst) (ry_typed_route_overrides st)\<rparr>)"

definition relay_route_allowed ::
  "'z schema_scheme \<Rightarrow> relay_inner \<Rightarrow> nat option \<Rightarrow> data_type option \<Rightarrow> nat \<Rightarrow> bool" where
  "relay_route_allowed C st src ty dst =
     (case relay_side_get st dst of
        None \<Rightarrow> False
      | Some dst_side \<Rightarrow>
          if \<not> opt_egress_enabled (side_opts dst_side) then False
          else if (case src of
                     None \<Rightarrow> False
                   | Some src_id \<Rightarrow>
                       (case relay_side_get st src_id of
                          None \<Rightarrow> True
                        | Some src_side \<Rightarrow> \<not> opt_ingress_enabled (side_opts src_side) \<or> src_id = dst)) then False
          else if \<not> (case bt_get (ry_route_overrides st) (src, dst) of Some b \<Rightarrow> b | None \<Rightarrow> True) then False
          else
            (case ty of
               None \<Rightarrow> True
             | Some ty \<Rightarrow>
                 if list_ex (\<lambda>(s, t, _). s = src \<and> t = ty_u32 C ty) (bt_keys (ry_typed_route_overrides st))
                 then (case bt_get (ry_typed_route_overrides st) (src, ty_u32 C ty, dst) of
                         Some b \<Rightarrow> b
                       | None \<Rightarrow> False)
                 else True))"

definition relay_eligible_side_ids ::
  "'z schema_scheme \<Rightarrow> relay_inner \<Rightarrow> nat option \<Rightarrow> data_type option \<Rightarrow> bool \<Rightarrow> nat list" where
  "relay_eligible_side_ids C st src ty restrict_link_local =
     filter (\<lambda>side_id.
       case relay_side_get st side_id of
         None \<Rightarrow> False
       | Some side \<Rightarrow>
           \<not> (restrict_link_local \<and> \<not> opt_link_local_enabled (side_opts side)) \<and>
           relay_route_allowed C st src ty side_id) [0..<length (ry_sides st)]"

section \<open>Selection\<close>

definition relay_route_weight :: "relay_inner \<Rightarrow> nat option \<Rightarrow> nat \<Rightarrow> u64" where
  "relay_route_weight st src side =
     ucast (case bt_get (ry_route_weights st) (src, side) of Some w \<Rightarrow> w | None \<Rightarrow> 1)"

definition relay_route_priority :: "relay_inner \<Rightarrow> nat option \<Rightarrow> nat \<Rightarrow> u32" where
  "relay_route_priority st src side =
     (case bt_get (ry_route_priorities st) (src, side) of Some p \<Rightarrow> p | None \<Rightarrow> 0)"

definition relay_adaptive_weight :: "relay_inner \<Rightarrow> nat \<Rightarrow> u64" where
  "relay_adaptive_weight st side =
     (case bt_get (ry_route_stats st) side of Some s \<Rightarrow> stats_weight s | None \<Rightarrow> 1)"

definition relay_cursor_of :: "relay_inner \<Rightarrow> nat option \<Rightarrow> u64" where
  "relay_cursor_of st src = (case bt_get (ry_route_selection_cursors st) src of Some c \<Rightarrow> c | None \<Rightarrow> 0)"

definition relay_advance_cursor :: "nat option \<Rightarrow> relay_inner \<Rightarrow> relay_inner" where
  "relay_advance_cursor src st =
     st\<lparr>ry_route_selection_cursors := bt_insert src (relay_cursor_of st src + 1) (ry_route_selection_cursors st)\<rparr>"

definition relay_apply_adaptive_discovery_selection ::
  "relay_inner \<Rightarrow> nat option \<Rightarrow> nat list \<Rightarrow> relay_inner \<times> nat list" where
  "relay_apply_adaptive_discovery_selection st src ss =
     (let ss = sort ss;
          unmeasured = filter (\<lambda>side. \<not> bt_contains (ry_route_stats st) side) ss
      in if unmeasured \<noteq> []
         then (relay_advance_cursor src st, [unmeasured ! (unat (relay_cursor_of st src) mod length unmeasured)])
         else
           (let total = total_weight (relay_adaptive_weight st) ss
            in if total = 0 then (st, take 1 ss)
               else (relay_advance_cursor src st,
                     pick_weighted (relay_adaptive_weight st) ss (relay_cursor_of st src mod total))))"

definition relay_apply_route_selection ::
  "relay_inner \<Rightarrow> nat option \<Rightarrow> nat list \<Rightarrow> route_selection_origin \<Rightarrow> relay_inner \<times> nat list" where
  "relay_apply_route_selection st src ss origin =
     (if length ss \<le> 1 then (st, ss)
      else
        (let selection_mode = bt_get (ry_source_route_modes st) src
         in if selection_mode = None \<and> origin = Discovered
            then relay_apply_adaptive_discovery_selection st src ss
            else
              (case (case selection_mode of Some md \<Rightarrow> md | None \<Rightarrow> Fanout) of
                 Fanout \<Rightarrow> (st, ss)
               | Weighted \<Rightarrow>
                   (let ss = sort ss;
                        total = total_weight (relay_route_weight st src) ss
                    in if total = 0 then (st, [])
                       else (relay_advance_cursor src st,
                             pick_weighted (relay_route_weight st src) ss (relay_cursor_of st src mod total)))
               | Failover \<Rightarrow> (st, take 1 (sort_key (\<lambda>side. (relay_route_priority st src side, side)) ss)))))"

definition relay_record_side_tx_sample :: "nat \<Rightarrow> nat \<Rightarrow> u64 \<Rightarrow> u64 \<Rightarrow> relay_inner \<Rightarrow> relay_inner" where
  "relay_record_side_tx_sample side nbytes started_ms ended_ms st =
     (let sample_ms = max (sat_sub ended_ms started_ms) 1;
          sample_bps = of_nat (min (nbytes * 1000 div unat sample_ms) (2 ^ 64 - 1));
          stats = (case bt_get (ry_route_stats st) side of Some s \<Rightarrow> s | None \<Rightarrow> stats_default)
      in st\<lparr>ry_route_stats := bt_insert side (observe sample_bps ended_ms stats) (ry_route_stats st)\<rparr>)"

end
