(* ===== verification/Relay_Reliable.thy ===== *)
theory Relay_Reliable
  imports Relay_Routes Router_Discovery
begin

text \<open>
  \<open>src/relay.rs\<close>, reliable delivery as operations on the state: the identity of an item, the
  history of sent frames, acknowledgements and retransmission, the routes acknowledgements return on, the
  boards that have acknowledged a packet, and the ordered receiver. An operation that reads the clock
  takes the reading as an argument.
\<close>

section \<open>Items\<close>

definition relay_item_priority :: "env \<Rightarrow> relay_item \<Rightarrow> u8 telemetry_result" where
  "relay_item_priority E it =
     (case it of
        Item_Packet pkt \<Rightarrow> Ok (message_priority E (pkt_ty pkt))
      | Item_Serialized bs \<Rightarrow> andthen (peek_envelope E bs) (\<lambda>e. Ok (message_priority E (te_ty e))))"

definition relay_item_wire_len :: "env \<Rightarrow> relay_item \<Rightarrow> nat telemetry_result" where
  "relay_item_wire_len E it =
     (case it of
        Item_Packet pkt \<Rightarrow> andthen (serialize_packet E pkt) (\<lambda>bs. Ok (length bs))
      | Item_Serialized bs \<Rightarrow> Ok (length bs))"

definition relay_item_route_info :: "env \<Rightarrow> relay_item \<Rightarrow> (data_endpoint list \<times> data_type) telemetry_result" where
  "relay_item_route_info E it =
     (case it of
        Item_Packet pkt \<Rightarrow> Ok (sort_dedup (pkt_endpoints pkt), pkt_ty pkt)
      | Item_Serialized bs \<Rightarrow> andthen (peek_envelope E bs) (\<lambda>e. Ok (sort_dedup (te_endpoints e), te_ty e)))"

definition relay_adjust_reliable_for_side ::
  "env \<Rightarrow> router_side_options \<Rightarrow> relay_item \<Rightarrow> relay_item option telemetry_result" where
  "relay_adjust_reliable_for_side E opts it =
     (if opt_reliable_enabled opts then Ok (Some it)
      else
        (case it of
           Item_Serialized bs \<Rightarrow>
             (case peek_frame_info E bs of
                Panic m \<Rightarrow> Panic m
              | Err _ \<Rightarrow> Ok (Some (Item_Serialized bs))
              | Ok frame \<Rightarrow>
                  (case (if is_reliable_type E (te_ty (fi_envelope frame)) then fi_reliable frame else None) of
                     None \<Rightarrow> Ok (Some (Item_Serialized bs))
                   | Some hdr \<Rightarrow>
                       if rh_flags hdr AND RELIABLE_FLAG_ACK_ONLY \<noteq> 0 then Ok None
                       else if rh_flags hdr AND RELIABLE_FLAG_UNSEQUENCED = 0
                       then andthen (rewrite_reliable_header E bs RELIABLE_FLAG_UNSEQUENCED (rh_seq hdr) 0)
                              (\<lambda>(_, v). Ok (Some (Item_Serialized v)))
                       else Ok (Some (Item_Serialized bs))))
         | Item_Packet pkt \<Rightarrow>
             if pkt_ty pkt \<in> {ReliableAck, ReliablePartialAck, ReliablePacketRequest} then Ok None
             else Ok (Some (Item_Packet pkt))))"

definition relay_get_hash :: "env \<Rightarrow> relay_item \<Rightarrow> (telemetry_error, u64) outcome" where
  "relay_get_hash E it =
     (case it of
        Item_Packet pkt \<Rightarrow> Ok (packet_id E pkt)
      | Item_Serialized bs \<Rightarrow>
          andthen
            (case peek_frame_info E bs of
               Panic m \<Rightarrow> Panic m
             | Err _ \<Rightarrow> Ok None
             | Ok frame \<Rightarrow>
                 Ok (case fi_reliable frame of
                       None \<Rightarrow> None
                     | Some hdr \<Rightarrow> if rh_flags hdr AND RELIABLE_FLAG_ACK_ONLY \<noteq> 0 then None else Some (rh_seq hdr)))
            (\<lambda>reliable_seq.
              case packet_id_from_wire E bs of
                Panic m \<Rightarrow> Panic m
              | Ok i \<Rightarrow>
                  Ok (case reliable_seq of Some seq \<Rightarrow> hash_bytes_u64 i (to_le_bytes 4 seq) | None \<Rightarrow> i)
              | Err _ \<Rightarrow> Ok (hash_bytes_u64 0x9E3779B97F4A7C15 bs)))"

definition relay_is_duplicate_pkt ::
  "relay_layout \<Rightarrow> env \<Rightarrow> relay_item \<Rightarrow> relay_inner \<Rightarrow> (relay_inner \<times> bool telemetry_result) option" where
  "relay_is_duplicate_pkt L E it st =
     (case relay_get_hash E it of
        Err e \<Rightarrow> Some (st, Err e)
      | Panic m \<Rightarrow> Some (st, Panic m)
      | Ok i \<Rightarrow>
          if bd_contains (ry_recent_rx st) i then Some (st, Ok True)
          else map_option (\<lambda>r. sthen r (\<lambda>_ st. (st, Ok False))) (relay_push_recent_rx L E i st))"

section \<open>Return routes and acknowledged boards\<close>

definition relay_note_return_route :: "'z config_scheme \<Rightarrow> nat \<Rightarrow> u64 \<Rightarrow> relay_inner \<Rightarrow> relay_inner" where
  "relay_note_return_route C side pid st =
     (let order = filter (\<lambda>i. bt_contains (ry_return_routes st) i \<and> i \<noteq> pid) (ry_return_route_order st)
      in case trim_return_routes (max (reliable_max_return_routes C) 1) order (ry_return_routes st) of
           (order, routes) \<Rightarrow>
             st\<lparr>ry_return_route_order := order @ [pid], ry_return_routes := bt_insert pid side routes\<rparr>)"

definition relay_note_return_route_for ::
  "env \<Rightarrow> nat \<Rightarrow> relay_item \<Rightarrow> relay_inner \<Rightarrow> relay_inner \<times> unit telemetry_result" where
  "relay_note_return_route_for E src it st =
     (case it of
        Item_Packet pkt \<Rightarrow>
          (if is_reliable_type E (pkt_ty pkt) \<and> \<not> is_internal_control_type (pkt_ty pkt)
           then relay_note_return_route E src (packet_id E pkt) st else st, Ok ())
      | Item_Serialized bs \<Rightarrow>
          (case peek_envelope E bs of
             Panic m \<Rightarrow> (st, Panic m)
           | Err _ \<Rightarrow> (st, Ok ())
           | Ok e \<Rightarrow>
               if is_reliable_type E (te_ty e) \<and> \<not> is_internal_control_type (te_ty e)
               then (case packet_id_from_wire E bs of
                       Ok i \<Rightarrow> (relay_note_return_route E src i st, Ok ())
                     | Err _ \<Rightarrow> (st, Ok ())
                     | Panic m \<Rightarrow> (st, Panic m))
               else (st, Ok ())))"

definition relay_note_acked_destination :: "'z config_scheme \<Rightarrow> u64 \<Rightarrow> u64 \<Rightarrow> relay_inner \<Rightarrow> relay_inner" where
  "relay_note_acked_destination C pid h st =
     (let order = filter (\<lambda>i. bt_contains (ry_acked_destinations st) i \<and> i \<noteq> pid) (ry_acked_destination_order st)
      in case trim_return_routes (max (reliable_max_end_to_end_ack_cache C) 1) order (ry_acked_destinations st) of
           (order, table) \<Rightarrow>
             (let acked = (case bt_get table pid of Some a \<Rightarrow> a | None \<Rightarrow> []);
                  acked = (if length acked < max (reliable_max_end_to_end_pending C) 1 \<or> bt_contains acked h
                           then bt_insert h () acked else acked)
              in st\<lparr>ry_acked_destination_order := order @ [pid], ry_acked_destinations := bt_insert pid acked table\<rparr>))"

section \<open>The history of a side\<close>

definition relay_tx_state_mut :: "nat \<times> u32 \<Rightarrow> relay_inner \<Rightarrow> relay_inner" where
  "relay_tx_state_mut key st =
     (case bt_get (ry_reliable_tx st) key of
        Some _ \<Rightarrow> st
      | None \<Rightarrow> st\<lparr>ry_reliable_tx := bt_insert key tx_state_new (ry_reliable_tx st)\<rparr>)"

definition relay_tx_state_of :: "nat \<times> u32 \<Rightarrow> relay_inner \<Rightarrow> reliable_tx_state" where
  "relay_tx_state_of key st = (case bt_get (ry_reliable_tx st) key of Some tx \<Rightarrow> tx | None \<Rightarrow> tx_state_new)"

definition relay_update_tx_state ::
  "nat \<times> u32 \<Rightarrow> (reliable_tx_state \<Rightarrow> reliable_tx_state) \<Rightarrow> relay_inner \<Rightarrow> relay_inner" where
  "relay_update_tx_state key f st =
     (let st = relay_tx_state_mut key st
      in st\<lparr>ry_reliable_tx := bt_modify key f (ry_reliable_tx st)\<rparr>)"

definition relay_handle_reliable_ack :: "'z schema_scheme \<Rightarrow> nat \<Rightarrow> data_type \<Rightarrow> u32 \<Rightarrow> relay_inner \<Rightarrow> relay_inner" where
  "relay_handle_reliable_ack C side ty ack =
     relay_update_tx_state (reliable_key C side ty) (\<lambda>tx.
       if reliable_mode_of C ty = Unordered
       then tx\<lparr>rtx_sent := bt_remove ack (rtx_sent tx), rtx_sent_order := filter (\<lambda>seq. seq \<noteq> ack) (rtx_sent_order tx)\<rparr>
       else (case ack_prefix ack (rtx_sent_order tx) (rtx_sent tx) of
               (order, sent) \<Rightarrow> tx\<lparr>rtx_sent_order := order, rtx_sent := sent\<rparr>))"

definition relay_handle_reliable_partial_ack ::
  "'z schema_scheme \<Rightarrow> nat \<Rightarrow> data_type \<Rightarrow> u32 \<Rightarrow> relay_inner \<Rightarrow> relay_inner" where
  "relay_handle_reliable_partial_ack C side ty seq =
     relay_update_tx_state (reliable_key C side ty) (\<lambda>tx.
       tx\<lparr>rtx_sent := bt_modify seq (\<lambda>sent. sent\<lparr>sent_partial_acked := True\<rparr>) (rtx_sent tx)\<rparr>)"

definition relay_queue_reliable_retransmit ::
  "relay_layout \<Rightarrow> env \<Rightarrow> nat \<Rightarrow> data_type \<Rightarrow> u32 \<Rightarrow> relay_inner \<Rightarrow> relay_inner \<times> unit telemetry_result" where
  "relay_queue_reliable_retransmit L E side ty seq st =
     (let key = reliable_key E side ty;
          st = relay_tx_state_mut key st
      in case bt_get (rtx_sent (relay_tx_state_of key st)) seq of
           None \<Rightarrow> (st, Ok ())
         | Some sent \<Rightarrow>
             if sent_queued sent then (st, Ok ())
             else
               (let st = relay_update_tx_state key (\<lambda>tx.
                      tx\<lparr>rtx_sent := bt_modify seq (\<lambda>s. s\<lparr>sent_queued := True, sent_partial_acked := False\<rparr>) (rtx_sent tx)\<rparr>) st
                in relay_push_replay L E
                     \<lparr>rpl_dst = side, rpl_bytes = sent_bytes sent, rpl_priority = sat_add (message_priority E ty) 16\<rparr> st))"

fun relay_requeue_all ::
  "relay_layout \<Rightarrow> env \<Rightarrow> (nat \<times> data_type \<times> u32) list \<Rightarrow> relay_inner \<Rightarrow> relay_inner \<times> unit telemetry_result" where
  "relay_requeue_all L E [] st = (st, Ok ())"
| "relay_requeue_all L E ((side, ty, seq) # rest) st =
     sthen (relay_queue_reliable_retransmit L E side ty seq st) (\<lambda>_. relay_requeue_all L E rest)"

definition relay_process_reliable_timeouts ::
  "relay_layout \<Rightarrow> env \<Rightarrow> u64 \<Rightarrow> relay_inner \<Rightarrow> relay_inner \<times> unit telemetry_result" where
  "relay_process_reliable_timeouts L E now st =
     (if ry_reliable_tx st = [] then (st, Ok ())
      else
        (case timeout_streams E now (ry_reliable_tx st) of
           (m, requeue) \<Rightarrow> relay_requeue_all L E requeue (st\<lparr>ry_reliable_tx := m\<rparr>)))"

definition relay_alloc_seq :: "env \<Rightarrow> nat \<times> u32 \<Rightarrow> relay_inner \<Rightarrow> relay_inner \<times> u32 telemetry_result" where
  "relay_alloc_seq E key st =
     (let st = relay_tx_state_mut key st;
          tx = relay_tx_state_of key st
      in if length (rtx_sent tx) \<ge> reliable_max_pending E
         then (st, Err (PacketTooLarge ''relay reliable history full''))
         else (relay_update_tx_state key (\<lambda>tx. tx\<lparr>rtx_next_seq := next_seq (rtx_next_seq tx)\<rparr>) st, Ok (rtx_next_seq tx)))"

definition relay_remember_sent :: "nat \<times> u32 \<Rightarrow> u32 \<Rightarrow> bytes \<Rightarrow> u64 \<Rightarrow> relay_inner \<Rightarrow> relay_inner" where
  "relay_remember_sent key seq bs now_ms =
     relay_update_tx_state key (\<lambda>tx.
       tx\<lparr>rtx_sent_order := rtx_sent_order tx @ [seq],
          rtx_sent := bt_insert seq
            \<lparr>sent_bytes = bs, sent_last_send_ms = now_ms, sent_retries = 0, sent_queued = False,
             sent_partial_acked = False\<rparr> (rtx_sent tx)\<rparr>)"

definition relay_control_packet ::
  "env \<Rightarrow> u64 \<Rightarrow> data_type \<Rightarrow> data_type \<Rightarrow> u32 \<Rightarrow> packet telemetry_result" where
  "relay_control_packet E now_ms control_ty ty seq =
     packet_new E control_ty (mm_endpoints (get_message_meta E control_ty)) (str ''RELAY'') now_ms
       (encode_slice_le 4 [ty_u32 E ty, seq])"

text \<open>The three functions that queue a control packet differ in its type only.\<close>

definition relay_queue_control ::
  "relay_layout \<Rightarrow> env \<Rightarrow> data_type \<Rightarrow> u64 \<Rightarrow> nat \<Rightarrow> data_type \<Rightarrow> u32 \<Rightarrow> relay_inner \<Rightarrow>
     relay_inner \<times> unit telemetry_result" where
  "relay_queue_control L E control_ty now_ms side ty seq st =
     sthen (st, relay_control_packet E now_ms control_ty ty seq) (\<lambda>pkt st.
     sthen (st, relay_item_priority E (Item_Packet pkt)) (\<lambda>priority.
       relay_push_tx L E \<lparr>rti_src = None, rti_dst = side, rti_data = Item_Packet pkt, rti_priority = priority\<rparr>))"

definition relay_queue_reliable_ack ::
  "relay_layout \<Rightarrow> env \<Rightarrow> u64 \<Rightarrow> nat \<Rightarrow> data_type \<Rightarrow> u32 \<Rightarrow> relay_inner \<Rightarrow> relay_inner \<times> unit telemetry_result" where
  "relay_queue_reliable_ack L E = relay_queue_control L E ReliableAck"

definition relay_queue_reliable_packet_request ::
  "relay_layout \<Rightarrow> env \<Rightarrow> u64 \<Rightarrow> nat \<Rightarrow> data_type \<Rightarrow> u32 \<Rightarrow> relay_inner \<Rightarrow> relay_inner \<times> unit telemetry_result" where
  "relay_queue_reliable_packet_request L E = relay_queue_control L E ReliablePacketRequest"

definition relay_queue_reliable_partial_ack ::
  "relay_layout \<Rightarrow> env \<Rightarrow> u64 \<Rightarrow> nat \<Rightarrow> data_type \<Rightarrow> u32 \<Rightarrow> relay_inner \<Rightarrow> relay_inner \<times> unit telemetry_result" where
  "relay_queue_reliable_partial_ack L E = relay_queue_control L E ReliablePartialAck"

section \<open>The ordered receiver\<close>

definition relay_rx_state_of :: "nat \<times> u32 \<Rightarrow> relay_inner \<Rightarrow> reliable_rx_state" where
  "relay_rx_state_of key st = (case bt_get (ry_reliable_rx st) key of Some rx \<Rightarrow> rx | None \<Rightarrow> rx_state_new)"

definition relay_ordered_rx ::
  "relay_layout \<Rightarrow> 'z config_scheme \<Rightarrow> nat \<Rightarrow> data_type \<Rightarrow> u32 \<Rightarrow> bytes \<Rightarrow> relay_inner \<Rightarrow>
     relay_inner \<times> ordered_action telemetry_result" where
  "relay_ordered_rx L C src ty seq bs st =
     (let key = reliable_key C src ty;
          st = relay_rx_state_mut key st;
          rx = relay_rx_state_of key st;
          expected = rrx_expected_seq rx
      in if seq < expected then (st, Ok (AckOld (sat_sub expected 1)))
         else if seq > expected
         then sthen (relay_buffer_reliable_rx L C src ty seq bs st) (\<lambda>_ st. (st, Ok (RequestMissing expected seq)))
         else
           (case release_run (seq + 1) seq (rrx_buffered rx) of
              (rel, delivered, nxt, rest) \<Rightarrow>
                (st\<lparr>ry_reliable_rx := bt_modify key (\<lambda>rx. rx\<lparr>rrx_buffered := rest, rrx_expected_seq := nxt\<rparr>) (ry_reliable_rx st)\<rparr>,
                 Ok (Deliver delivered (bs # rel)))))"

end
