(* ===== verification/Relay_Plan.thy ===== *)
theory Relay_Plan
  imports Relay_Reliable
begin

text \<open>
  \<open>src/relay.rs\<close>, discovery and planning: what a relay learns from the discovery packets of its
  sides, how long it keeps it, what it advertises under the name \<open>RELAY\<close>, and \<open>remote_side_plan\<close>,
  which leaves out the sides whose boards have all acknowledged the packet end to end.
\<close>

section \<open>The discovery table\<close>

definition relay_side_has_multiple_announcers :: "relay_inner \<Rightarrow> nat \<Rightarrow> u64 \<Rightarrow> bool" where
  "relay_side_has_multiple_announcers st side now_ms =
     (case bt_get (ry_discovery_routes st) side of
        None \<Rightarrow> False
      | Some route \<Rightarrow>
          length (take 2 (filter (\<lambda>s. sat_sub now_ms (dss_last_seen_ms s) \<le> DISCOVERY_ROUTE_TTL_MS)
            (bt_values (dsd_announcers route)))) > 1)"

definition relay_prune_discovery_routes :: "u64 \<Rightarrow> relay_inner \<Rightarrow> relay_inner \<times> bool" where
  "relay_prune_discovery_routes now_ms st =
     (let routes = filter (\<lambda>(_, route). dsd_announcers route \<noteq> [])
            (map (\<lambda>(side, route). (side, prune_side now_ms route)) (ry_discovery_routes st))
      in (st\<lparr>ry_discovery_routes := routes\<rparr>, routes \<noteq> ry_discovery_routes st))"

text \<open>The hashes of the boards that discovery still knows.\<close>

definition active_senders :: "relay_inner \<Rightarrow> u64 list" where
  "active_senders st =
     map (\<lambda>b. sender_hash (tb_sender_id b))
       (filter (\<lambda>b. is_end_to_end_destination_sender (tb_sender_id b))
         (concat (map dss_topology_boards (concat (map (\<lambda>route. bt_values (dsd_announcers route))
           (bt_values (ry_discovery_routes st)))))))"

definition relay_reconcile_acked_destinations :: "relay_inner \<Rightarrow> relay_inner" where
  "relay_reconcile_acked_destinations st =
     st\<lparr>ry_acked_destinations :=
          filter (\<lambda>(_, acked). acked \<noteq> [])
            (map (\<lambda>(pid, acked). (pid, bt_retain (\<lambda>h _. h \<in> set (active_senders st)) acked))
              (ry_acked_destinations st))\<rparr>"

definition relay_fresh_announcers :: "u64 \<Rightarrow> relay_inner \<Rightarrow> (bytes \<times> discovery_sender_state) list" where
  "relay_fresh_announcers now_ms st =
     concat (map (\<lambda>(_, route).
         if is_fresh now_ms (dsd_last_seen_ms route)
         then filter (\<lambda>(_, s). is_fresh now_ms (dss_last_seen_ms s)) (dsd_announcers route) else [])
       (ry_discovery_routes st))"

section \<open>What a relay advertises\<close>

definition relay_local_topology_board :: "u64 \<Rightarrow> relay_inner \<Rightarrow> topology_board_node" where
  "relay_local_topology_board now_ms st =
     \<lparr>tb_sender_id = str ''RELAY'', tb_reachable_endpoints = [], tb_reachable_timesync_sources = [],
      tb_connections = sort_dedup (map fst (relay_fresh_announcers now_ms st))\<rparr>"

definition relay_advertised_boards_of ::
  "'z schema_scheme \<Rightarrow> bool \<Rightarrow> bytes \<times> discovery_sender_state \<Rightarrow> topology_board_node list" where
  "relay_advertised_boards_of C link_local_enabled a =
     map (\<lambda>b. b\<lparr>tb_reachable_endpoints :=
                 filter (\<lambda>ep. link_local_enabled \<or> \<not> is_link_local_only C ep) (tb_reachable_endpoints b)\<rparr>)
       (if dss_topology_boards (snd a) = []
        then [\<lparr>tb_sender_id = fst a, tb_reachable_endpoints = dss_reachable (snd a),
               tb_reachable_timesync_sources = dss_timesync_sources (snd a), tb_connections = [str ''RELAY'']\<rparr>]
        else modify_first (\<lambda>b. tb_sender_id b = fst a) (\<lambda>b. b\<lparr>tb_connections := tb_connections b @ [str ''RELAY'']\<rparr>)
               (dss_topology_boards (snd a)))"

definition relay_advertised_topology_for_link ::
  "'z schema_scheme \<Rightarrow> u64 \<Rightarrow> bool \<Rightarrow> relay_inner \<Rightarrow> topology_board_node list" where
  "relay_advertised_topology_for_link C now_ms link_local_enabled st =
     normalize_topology_boards
       (foldl (\<lambda>boards a. merge_topology_boards boards (relay_advertised_boards_of C link_local_enabled a))
         [relay_local_topology_board now_ms st] (relay_fresh_announcers now_ms st))"

definition relay_advertised_endpoints_for_link ::
  "'z schema_scheme \<Rightarrow> u64 \<Rightarrow> bool \<Rightarrow> relay_inner \<Rightarrow> data_endpoint list" where
  "relay_advertised_endpoints_for_link C now_ms link_local_enabled st =
     filter (\<lambda>ep. \<not> is_discovery_endpoint ep \<and> (link_local_enabled \<or> \<not> is_link_local_only C ep))
       (fst (summarize_topology_boards (relay_advertised_topology_for_link C now_ms link_local_enabled st)))"

definition relay_advertised_timesync_sources_for_link :: "'z schema_scheme \<Rightarrow> u64 \<Rightarrow> relay_inner \<Rightarrow> bytes list" where
  "relay_advertised_timesync_sources_for_link C now_ms st =
     snd (summarize_topology_boards (relay_advertised_topology_for_link C now_ms True st))"

definition relay_advertisements ::
  "'z schema_scheme \<Rightarrow> u64 \<Rightarrow> relay_inner \<Rightarrow>
     (nat \<times> data_endpoint list \<times> bytes list \<times> topology_board_node list) list" where
  "relay_advertisements C now_ms st =
     List.map_filter (\<lambda>side_id.
       case relay_side_get st side_id of
         None \<Rightarrow> None
       | Some side \<Rightarrow>
           if \<not> relay_route_allowed C st None (Some DiscoveryAnnounce) side_id then None
           else Some (side_id,
             relay_advertised_endpoints_for_link C now_ms (opt_link_local_enabled (side_opts side)) st,
             relay_advertised_timesync_sources_for_link C now_ms st,
             relay_advertised_topology_for_link C now_ms (opt_link_local_enabled (side_opts side)) st))
       [0..<length (ry_sides st)]"

definition relay_queue_local_packet ::
  "relay_layout \<Rightarrow> env \<Rightarrow> nat \<Rightarrow> packet telemetry_result \<Rightarrow> relay_inner \<Rightarrow> relay_inner \<times> unit telemetry_result" where
  "relay_queue_local_packet L E dst built st =
     sthen (st, built) (\<lambda>pkt st.
     sthen (st, relay_item_priority E (Item_Packet pkt)) (\<lambda>priority.
       relay_push_tx L E \<lparr>rti_src = None, rti_dst = dst, rti_data = Item_Packet pkt, rti_priority = priority\<rparr>))"

fun relay_push_advertisements ::
  "relay_layout \<Rightarrow> env \<Rightarrow> u64 \<Rightarrow> (nat \<times> data_endpoint list \<times> bytes list \<times> topology_board_node list) list \<Rightarrow>
     relay_inner \<Rightarrow> relay_inner \<times> unit telemetry_result" where
  "relay_push_advertisements L E now_ms [] st = (st, Ok ())"
| "relay_push_advertisements L E now_ms ((dst, eps, sources, topology) # ads) st =
     sthen (if eps = [] then (st, Ok ())
            else relay_queue_local_packet L E dst (build_discovery_announce E (str ''RELAY'') now_ms eps) st) (\<lambda>_ st.
     sthen (if sources = [] then (st, Ok ())
            else relay_queue_local_packet L E dst (build_discovery_timesync_sources E (str ''RELAY'') now_ms sources) st) (\<lambda>_ st.
     sthen (if topology = [] then (st, Ok ())
            else relay_queue_local_packet L E dst (build_discovery_topology E (str ''RELAY'') now_ms topology) st) (\<lambda>_.
       relay_push_advertisements L E now_ms ads)))"

text \<open>The beginning of an announcement and of a poll.\<close>

definition relay_expire :: "relay_layout \<Rightarrow> 'z config_scheme \<Rightarrow> u64 \<Rightarrow> relay_inner \<Rightarrow> relay_inner" where
  "relay_expire L C now_ms st =
     (case relay_prune_discovery_routes now_ms st of
        (st, removed) \<Rightarrow>
          relay_fit_discovery_budget L (max_queue_budget C)
            (if removed then relay_note_topology_change now_ms (relay_reconcile_acked_destinations st) else st))"

definition relay_queue_discovery_announce ::
  "relay_layout \<Rightarrow> env \<Rightarrow> u64 \<Rightarrow> relay_inner \<Rightarrow> relay_inner \<times> unit telemetry_result" where
  "relay_queue_discovery_announce L E now_ms st =
     (let st = relay_expire L E now_ms st
      in if \<not> list_ex (\<lambda>s. s \<noteq> None) (ry_sides st) then (st, Ok ())
         else
           (let st = st\<lparr>ry_discovery_cadence := on_announce_sent now_ms (ry_discovery_cadence st)\<rparr>
            in relay_push_advertisements L E now_ms (relay_advertisements E now_ms st) st))"

definition relay_announce_due :: "'z schema_scheme \<Rightarrow> u64 \<Rightarrow> relay_inner \<Rightarrow> bool" where
  "relay_announce_due C now_ms st =
     (let has_any = list_ex (\<lambda>(_, eps, sources, topology). eps \<noteq> [] \<or> sources \<noteq> [] \<or> topology \<noteq> [])
            (relay_advertisements C now_ms st)
      in if \<not> list_ex (\<lambda>s. s \<noteq> None) (ry_sides st) \<or> \<not> has_any then False
         else due (ry_discovery_cadence st) now_ms)"

text \<open>\<open>now'\<close> is the clock when the announcement is built.\<close>

definition relay_poll_discovery_announce ::
  "relay_layout \<Rightarrow> env \<Rightarrow> u64 \<Rightarrow> u64 \<Rightarrow> relay_inner \<Rightarrow> relay_inner \<times> bool telemetry_result" where
  "relay_poll_discovery_announce L E now_ms now' st =
     (let st = relay_expire L E now_ms st
      in if \<not> relay_announce_due E now_ms st then (st, Ok False)
         else sthen (relay_queue_discovery_announce L E now' st) (\<lambda>_ st. (st, Ok True)))"

section \<open>Learning\<close>

definition relay_discovery_packet :: "env \<Rightarrow> relay_item \<Rightarrow> packet option telemetry_result" where
  "relay_discovery_packet E it =
     (case it of
        Item_Packet pkt \<Rightarrow> Ok (if is_discovery_type (pkt_ty pkt) then Some pkt else None)
      | Item_Serialized bs \<Rightarrow>
          andthen (peek_envelope E bs) (\<lambda>e.
            if \<not> is_discovery_type (te_ty e) then Ok None
            else andthen (deserialize_packet E bs) (\<lambda>pkt. Ok (Some pkt))))"

definition relay_learned_sender_state ::
  "'z config_scheme \<Rightarrow> bool \<Rightarrow> packet \<Rightarrow> discovery_sender_state \<Rightarrow> (discovery_sender_state \<times> bool) telemetry_result" where
  "relay_learned_sender_state C side_link_local_enabled pkt ss =
     (let allowed = (\<lambda>ep. side_link_local_enabled \<or> \<not> is_link_local_only C ep);
          sender = pkt_sender pkt;
          board = board_of sender (with_board sender (dss_topology_boards ss))
      in if pkt_ty pkt = DiscoveryAnnounce
         then andthen (decode_discovery_announce C pkt) (\<lambda>reachable.
           let reachable = filter allowed reachable
           in Ok (refresh_sender_topology_state
                    (sender_topology_board_mut sender (\<lambda>b. b\<lparr>tb_reachable_endpoints := reachable\<rparr>) ss),
                  tb_reachable_endpoints board \<noteq> reachable))
         else if pkt_ty pkt = DiscoveryTimeSyncSources
         then andthen (decode_discovery_timesync_sources pkt) (\<lambda>sources.
           Ok (refresh_sender_topology_state
                 (sender_topology_board_mut sender (\<lambda>b. b\<lparr>tb_reachable_timesync_sources := sources\<rparr>) ss),
               tb_reachable_timesync_sources board \<noteq> sources))
         else if pkt_ty pkt = DiscoveryTopology
         then andthen (decode_discovery_topology C pkt) (\<lambda>boards.
           let boards = map (\<lambda>b. b\<lparr>tb_reachable_endpoints := filter allowed (tb_reachable_endpoints b)\<rparr>) boards
           in Ok (refresh_sender_topology_state (ss\<lparr>dss_topology_boards := boards\<rparr>), dss_topology_boards ss \<noteq> boards))
         else Ok (ss, False))"

definition relay_learn_discovery_item ::
  "relay_layout \<Rightarrow> env \<Rightarrow> u64 \<Rightarrow> nat \<Rightarrow> relay_item \<Rightarrow> relay_inner \<Rightarrow> relay_inner \<times> unit telemetry_result" where
  "relay_learn_discovery_item L E now_ms src it st =
     sthen (st, relay_discovery_packet E it) (\<lambda>found st.
       case found of
         None \<Rightarrow> (st, Ok ())
       | Some pkt \<Rightarrow>
           (let route = (case bt_get (ry_discovery_routes st) src of Some r \<Rightarrow> r | None \<Rightarrow> side_state_default);
                link_local = (case relay_side_get st src of Some s \<Rightarrow> opt_link_local_enabled (side_opts s) | None \<Rightarrow> False);
                ss = (case bt_get (dsd_announcers route) (pkt_sender pkt) of Some s \<Rightarrow> s | None \<Rightarrow> sender_state_default)
            in sthen (st, relay_learned_sender_state E link_local pkt ss) (\<lambda>(ss, changed) st.
                 let route = recompute_discovery_side_state
                       (route\<lparr>dsd_announcers := bt_insert (pkt_sender pkt) (ss\<lparr>dss_last_seen_ms := now_ms\<rparr>) (dsd_announcers route)\<rparr>);
                     st = relay_fit_discovery_budget L (max_queue_budget E)
                       (st\<lparr>ry_discovery_routes := bt_insert src route (ry_discovery_routes st)\<rparr>);
                     st = (if changed then relay_note_topology_change now_ms st else st);
                     st = fst (relay_prune_discovery_routes now_ms st)
                 in (relay_reconcile_acked_destinations st, Ok ()))))"

section \<open>The exported snapshot\<close>

definition relay_side_route_of :: "u64 \<Rightarrow> relay_inner \<Rightarrow> nat \<times> discovery_side_state \<Rightarrow> topology_side_route option" where
  "relay_side_route_of now_ms st e =
     map_option (\<lambda>side.
       \<lparr>tsd_side_id = fst e, tsd_side_name = side_name side, tsd_reachable_endpoints = dsd_reachable (snd e),
        tsd_timesync_sources = dsd_timesync_sources (snd e),
        tsd_announcers = map (\<lambda>(sender_id, s).
          \<lparr>tar_sender_id = sender_id, tar_reachable_endpoints = dss_reachable s,
           tar_timesync_sources = dss_timesync_sources s, tar_routers = dss_topology_boards s,
           tar_last_seen_ms = dss_last_seen_ms s, tar_age_ms = sat_sub now_ms (dss_last_seen_ms s)\<rparr>) (dsd_announcers (snd e)),
        tsd_last_seen_ms = dsd_last_seen_ms (snd e), tsd_age_ms = sat_sub now_ms (dsd_last_seen_ms (snd e))\<rparr>)
       (relay_side_get st (fst e))"

definition relay_export_topology :: "'z schema_scheme \<Rightarrow> u64 \<Rightarrow> relay_inner \<Rightarrow> relay_inner \<times> topology_snapshot" where
  "relay_export_topology C now_ms st =
     (case relay_prune_discovery_routes now_ms st of
        (st, removed) \<Rightarrow>
          (let st = (if removed then relay_note_topology_change now_ms (relay_reconcile_acked_destinations st) else st)
           in (st, \<lparr>snap_advertised_endpoints = relay_advertised_endpoints_for_link C now_ms True st,
                    snap_advertised_timesync_sources = relay_advertised_timesync_sources_for_link C now_ms st,
                    snap_routers = relay_advertised_topology_for_link C now_ms True st,
                    snap_routes = List.map_filter (relay_side_route_of now_ms st) (ry_discovery_routes st),
                    snap_current_announce_interval_ms = current_interval_ms (ry_discovery_cadence st),
                    snap_next_announce_ms = next_announce_ms (ry_discovery_cadence st)\<rparr>)))"

section \<open>The plan\<close>

definition relay_preferred_timesync_route_source :: "env \<Rightarrow> relay_item \<Rightarrow> data_type \<Rightarrow> bytes option telemetry_result" where
  "relay_preferred_timesync_route_source E it ty =
     (if ty \<notin> {TimeSyncAnnounce, TimeSyncResponse} then Ok None
      else
        (case it of
           Item_Packet pkt \<Rightarrow> Ok (Some (pkt_sender pkt))
         | Item_Serialized bs \<Rightarrow> andthen (deserialize_packet E bs) (\<lambda>pkt. Ok (Some (pkt_sender pkt)))))"

definition relay_allowed_target_side ::
  "'z schema_scheme \<Rightarrow> relay_inner \<Rightarrow> nat \<Rightarrow> data_type \<Rightarrow> nat option \<Rightarrow> nat option" where
  "relay_allowed_target_side C st exclude ty target_side =
     (case target_side of
        None \<Rightarrow> None
      | Some side \<Rightarrow> if relay_route_allowed C st (Some exclude) (Some ty) side then Some side else None)"

definition relay_item_packet_id :: "env \<Rightarrow> relay_item \<Rightarrow> u64 telemetry_result" where
  "relay_item_packet_id E it =
     (case it of Item_Packet pkt \<Rightarrow> Ok (packet_id E pkt) | Item_Serialized bs \<Rightarrow> packet_id_from_wire E bs)"

text \<open>
  The two nested loops over the boards of a side: they stop at the first board that is for the packet
  and has not acknowledged it, and note whether they met a board that can acknowledge at all.
\<close>

fun scan_boards :: "data_endpoint list \<Rightarrow> (u64, unit) btree \<Rightarrow> topology_board_node list \<Rightarrow> bool \<Rightarrow> bool \<times> bool" where
  "scan_boards eps acked [] had = (False, had)"
| "scan_boards eps acked (b # bs) had =
     (if \<not> is_end_to_end_destination_sender (tb_sender_id b) then scan_boards eps acked bs had
      else if list_ex (\<lambda>ep. ep \<in> set (tb_reachable_endpoints b)) eps \<and>
              \<not> bt_contains acked (sender_hash (tb_sender_id b)) then (True, True)
      else scan_boards eps acked bs True)"

fun scan_senders :: "data_endpoint list \<Rightarrow> (u64, unit) btree \<Rightarrow> discovery_sender_state list \<Rightarrow> bool \<Rightarrow> bool \<times> bool" where
  "scan_senders eps acked [] had = (False, had)"
| "scan_senders eps acked (s # ss) had =
     (case scan_boards eps acked (dss_topology_boards s) had of
        (still_pending, had) \<Rightarrow> if still_pending then (True, had) else scan_senders eps acked ss had)"

definition side_unsatisfied :: "relay_inner \<Rightarrow> data_endpoint list \<Rightarrow> (u64, unit) btree \<Rightarrow> nat \<Rightarrow> bool" where
  "side_unsatisfied st eps acked side =
     (case bt_get (ry_discovery_routes st) side of
        None \<Rightarrow> True
      | Some route \<Rightarrow>
          (case scan_senders eps acked (bt_values (dsd_announcers route)) False of
             (still_pending, had_destination_board) \<Rightarrow> still_pending \<or> \<not> had_destination_board))"

definition relay_filter_satisfied_sides ::
  "env \<Rightarrow> relay_inner \<Rightarrow> relay_item \<Rightarrow> nat list \<Rightarrow> data_endpoint list \<Rightarrow> data_type \<Rightarrow> nat list telemetry_result" where
  "relay_filter_satisfied_sides E st it ss eps ty =
     (if \<not> is_reliable_type E ty then Ok ss
      else
        andthen (reliable_control_target_packet_id E it) (\<lambda>target.
          if target \<noteq> None then Ok ss
          else
            andthen (relay_item_packet_id E it) (\<lambda>pid.
              case bt_get (ry_acked_destinations st) pid of
                None \<Rightarrow> Ok ss
              | Some acked \<Rightarrow> Ok (filter (side_unsatisfied st eps acked) ss))))"

definition relay_side_is_link_local :: "relay_inner \<Rightarrow> nat \<Rightarrow> bool" where
  "relay_side_is_link_local st side =
     (case relay_side_get st side of Some s \<Rightarrow> opt_link_local_enabled (side_opts s) | None \<Rightarrow> False)"

definition relay_usable_routes ::
  "'z schema_scheme \<Rightarrow> relay_inner \<Rightarrow> nat \<Rightarrow> data_type \<Rightarrow> bool \<Rightarrow> u64 \<Rightarrow> (nat \<times> discovery_side_state) list" where
  "relay_usable_routes C st exclude ty restrict_link_local now_ms =
     filter (\<lambda>(side, route).
       \<not> (side = exclude \<or> sat_sub now_ms (dsd_last_seen_ms route) > DISCOVERY_ROUTE_TTL_MS) \<and>
       \<not> (restrict_link_local \<and> \<not> relay_side_is_link_local st side) \<and>
       relay_route_allowed C st (Some exclude) (Some ty) side) (ry_discovery_routes st)"

definition relay_select ::
  "nat \<Rightarrow> nat list \<Rightarrow> route_selection_origin \<Rightarrow> relay_inner \<Rightarrow> relay_inner \<times> nat list telemetry_result" where
  "relay_select exclude targets origin st =
     (case relay_apply_route_selection st (Some exclude) targets origin of (st, ss) \<Rightarrow> (st, Ok ss))"

definition relay_remote_side_plan ::
  "env \<Rightarrow> u64 \<Rightarrow> relay_item \<Rightarrow> nat \<Rightarrow> relay_inner \<Rightarrow> relay_inner \<times> nat list telemetry_result" where
  "relay_remote_side_plan E now_ms it exclude st =
     sthen (st, relay_item_route_info E it) (\<lambda>(eps, ty) st.
     sthen (st, reliable_control_target_packet_id E it) (\<lambda>preferred_packet_id st.
       let flood = (\<lambda>restrict. relay_select exclude (relay_eligible_side_ids E st (Some exclude) (Some ty) restrict) Flood st)
       in if is_discovery_type ty then flood False
          else
            sthen (st, relay_preferred_timesync_route_source E it ty) (\<lambda>preferred_source st.
            case preferred_packet_id of
              Some pid \<Rightarrow>
                (st, Ok (case relay_allowed_target_side E st exclude ty (bt_get (ry_return_routes st) pid) of
                           Some side \<Rightarrow> [side]
                         | None \<Rightarrow> []))
            | None \<Rightarrow>
                (let restrict_link_local = endpoints_are_link_local_only E eps;
                     origin = (if is_reliable_type E ty then Flood else Discovered)
                 in if ry_discovery_routes st = [] then flood restrict_link_local
                    else
                      (let routes = relay_usable_routes E st exclude ty restrict_link_local now_ms;
                           exact_targets = map fst (filter (\<lambda>(_, route). reaches_source preferred_source route) routes);
                           generic_targets =
                             map fst (filter (\<lambda>(_, route). \<not> reaches_source preferred_source route \<and>
                               list_ex (\<lambda>ep. ep \<in> set (dsd_reachable route)) eps) routes);
                           discovered = (\<lambda>targets.
                             sthen (st, relay_filter_satisfied_sides E st it targets eps ty) (\<lambda>targets st.
                               relay_select exclude targets origin st))
                       in if exact_targets \<noteq> [] then discovered exact_targets
                          else if generic_targets \<noteq> [] then discovered generic_targets
                          else flood restrict_link_local)))))"

definition relay_should_forward_duplicate ::
  "env \<Rightarrow> u64 \<Rightarrow> u64 \<Rightarrow> relay_rx_item \<Rightarrow> relay_inner \<Rightarrow> relay_inner \<times> bool telemetry_result" where
  "relay_should_forward_duplicate E plan_ms now_ms item st =
     sthen (st, relay_item_route_info E (rri_data item)) (\<lambda>(_, ty) st.
       if \<not> is_reliable_type E ty \<or> ty \<in> {ReliableAck, ReliablePartialAck, ReliablePacketRequest} then (st, Ok False)
       else
         sthen (relay_remote_side_plan E plan_ms (rri_data item) (rri_src item) st) (\<lambda>ss st.
           (st, Ok (list_ex (\<lambda>side. relay_side_has_multiple_announcers st side now_ms) ss))))"

end
