(* ===== verification/Relay_Flow.thy ===== *)
theory Relay_Flow
  imports Relay_Plan Actions
begin

text \<open>
  A relay as a whole: the state behind its lock and the foreign code around it. The clock, the
  transmit gate and the callbacks of the sides answer one question after the other; \<open>rw_tick\<close> counts
  the questions, and a record \<open>relay_foreign\<close> holds the answers. The trace \<open>rw_calls\<close> lists the
  callbacks that were called and what they were given. On top of it, \<open>src/relay.rs\<close>: transmission to
  one side, the receive path, and the processing loops.
\<close>

section \<open>The world of a relay\<close>

record relay_world =
  rw_inner :: relay_inner
  rw_tick :: nat
  rw_calls :: "(nat \<times> relay_item) list"

record relay_foreign =
  rf_clock :: "nat \<Rightarrow> u64"
  rf_gate :: "nat \<Rightarrow> bool"
  rf_serialized :: "nat \<Rightarrow> nat \<Rightarrow> bytes \<Rightarrow> unit telemetry_result"
  rf_packet :: "nat \<Rightarrow> nat \<Rightarrow> packet \<Rightarrow> unit telemetry_result"

record relay_machine =
  ym_layout :: relay_layout
  ym_env :: env
  ym_foreign :: relay_foreign

type_synonym 'a relay_action = "(relay_world, 'a) stateful"

definition ry_on :: "(relay_inner \<Rightarrow> relay_inner \<times> 'a telemetry_result) \<Rightarrow> 'a relay_action" where
  "ry_on f w = (case f (rw_inner w) of (st, r) \<Rightarrow> Some (w\<lparr>rw_inner := st\<rparr>, r))"

definition ry_ask :: "(nat \<Rightarrow> 'q) \<Rightarrow> ('q \<Rightarrow> 'a relay_action) \<Rightarrow> 'a relay_action" where
  "ry_ask q f w = f (q (rw_tick w)) (w\<lparr>rw_tick := Suc (rw_tick w)\<rparr>)"

abbreviation ry_now :: "relay_machine \<Rightarrow> (u64 \<Rightarrow> 'a relay_action) \<Rightarrow> 'a relay_action" where
  "ry_now M \<equiv> ry_ask (rf_clock (ym_foreign M))"

definition relay_new :: "relay_layout \<Rightarrow> 'z config_scheme \<Rightarrow> (telemetry_error, relay_world) outcome" where
  "relay_new L C = andthen (relay_inner_new L C) (\<lambda>st. Ok \<lparr>rw_inner = st, rw_tick = 0, rw_calls = []\<rparr>)"

section \<open>Transmission to one side\<close>

text \<open>A call of the callback of a side, with the representation it was registered for.\<close>

definition ry_callback :: "relay_machine \<Rightarrow> nat \<Rightarrow> relay_item \<Rightarrow> unit relay_action" where
  "ry_callback M side it w =
     Some (w\<lparr>rw_tick := Suc (rw_tick w), rw_calls := rw_calls w @ [(side, it)]\<rparr>,
           case it of
             Item_Serialized bs \<Rightarrow> rf_serialized (ym_foreign M) (rw_tick w) side bs
           | Item_Packet pkt \<Rightarrow> rf_packet (ym_foreign M) (rw_tick w) side pkt)"

definition relay_sample :: "relay_machine \<Rightarrow> nat \<Rightarrow> nat \<Rightarrow> u64 \<Rightarrow> unit relay_action" where
  "relay_sample M side nbytes started_ms =
     ry_now M (\<lambda>ended_ms. ry_on (\<lambda>st. (relay_record_side_tx_sample side nbytes started_ms ended_ms st, Ok ())))"

definition try_enter_side_tx :: "relay_machine \<Rightarrow> 'a relay_action \<Rightarrow> 'a relay_action" where
  "try_enter_side_tx M f =
     ry_ask (rf_gate (ym_foreign M)) (\<lambda>taken. if taken then give (Err (Io ''side tx busy'')) else f)"

definition handler_form :: "env \<Rightarrow> tx_handler_kind \<Rightarrow> relay_item \<Rightarrow> relay_item telemetry_result" where
  "handler_form E handler it =
     (case (handler, it) of
        (Serialized_Tx, Item_Serialized bs) \<Rightarrow> Ok it
      | (Packet_Tx, Item_Packet pkt) \<Rightarrow> Ok it
      | (Serialized_Tx, Item_Packet pkt) \<Rightarrow> andthen (serialize_packet E pkt) (\<lambda>bs. Ok (Item_Serialized bs))
      | (Packet_Tx, Item_Serialized bs) \<Rightarrow> andthen (deserialize_packet E bs) (\<lambda>pkt. Ok (Item_Packet pkt)))"

definition relay_call_tx_handler :: "relay_machine \<Rightarrow> nat \<Rightarrow> tx_handler_kind \<Rightarrow> relay_item \<Rightarrow> unit relay_action" where
  "relay_call_tx_handler M side handler it =
     try_enter_side_tx M
       (ry_now M (\<lambda>started_ms.
        wthen (give (handler_form (ym_env M) handler it)) (\<lambda>form.
        wthen (ry_callback M side form) (\<lambda>_.
          case relay_item_wire_len (ym_env M) it of
            Ok n \<Rightarrow> relay_sample M side n started_ms
          | Err _ \<Rightarrow> give (Ok ())
          | Panic m \<Rightarrow> give (Panic m)))))"

definition relay_side_of :: "nat \<Rightarrow> router_side relay_action" where
  "relay_side_of side = reading (\<lambda>w. give (relay_side_ref (rw_inner w) side))"

text \<open>Whether a hop is reliable: the side is, and it has not several boards behind it.\<close>

definition hop_reliable :: "relay_machine \<Rightarrow> nat \<Rightarrow> router_side_options \<Rightarrow> bool relay_action" where
  "hop_reliable M side opts =
     (if \<not> opt_reliable_enabled opts then give (Ok False)
      else ry_now M (\<lambda>now_ms. reading (\<lambda>w.
        give (Ok (\<not> relay_side_has_multiple_announcers (rw_inner w) side now_ms)))))"

definition relay_send_reliable_raw_to_side :: "relay_machine \<Rightarrow> nat \<Rightarrow> bytes \<Rightarrow> unit relay_action" where
  "relay_send_reliable_raw_to_side M side bs =
     wthen (relay_side_of side) (\<lambda>s.
       if \<not> opt_egress_enabled (side_opts s) then give (Ok ())
       else
         try_enter_side_tx M
           (ry_now M (\<lambda>started_ms.
            wthen (give (handler_form (ym_env M) (side_tx_handler s) (Item_Serialized bs))) (\<lambda>form.
            wthen (ry_callback M side form) (\<lambda>_. relay_sample M side (length bs) started_ms)))))"

definition relay_send_adjusted ::
  "relay_machine \<Rightarrow> nat \<Rightarrow> tx_handler_kind \<Rightarrow> router_side_options \<Rightarrow> relay_item \<Rightarrow> bool relay_action" where
  "relay_send_adjusted M side handler opts it =
     wthen (give (relay_adjust_reliable_for_side (ym_env M) opts it)) (\<lambda>adjusted.
       case adjusted of
         Some a \<Rightarrow> wthen (relay_call_tx_handler M side handler a) (\<lambda>_. give (Ok True))
       | None \<Rightarrow> give (Ok False))"

definition relay_transmit_frame :: "relay_machine \<Rightarrow> nat \<Rightarrow> bytes \<Rightarrow> unit relay_action" where
  "relay_transmit_frame M side bs =
     try_enter_side_tx M
       (ry_now M (\<lambda>started_ms.
        wthen (ry_callback M side (Item_Serialized bs)) (\<lambda>_. relay_sample M side (length bs) started_ms)))"

definition relay_send_sequenced :: "relay_machine \<Rightarrow> nat \<Rightarrow> data_type \<Rightarrow> relay_item \<Rightarrow> unit relay_action" where
  "relay_send_sequenced M side ty it =
     (let key = reliable_key (ym_env M) side ty;
          flags = (if reliable_mode_of (ym_env M) ty = Unordered then RELIABLE_FLAG_UNORDERED else 0)
      in wthen (ry_on (relay_alloc_seq (ym_env M) key)) (\<lambda>seq.
         wthen (give (sequenced_frame (ym_env M) it flags seq)) (\<lambda>frame.
         case frame of
           None \<Rightarrow>
             (case it of
                Item_Serialized bs \<Rightarrow> relay_transmit_frame M side bs
              | Item_Packet _ \<Rightarrow> give (Ok ()))
         | Some bs \<Rightarrow>
             wthen (relay_transmit_frame M side bs) (\<lambda>_.
               ry_now M (\<lambda>now_ms. ry_on (\<lambda>st. (relay_remember_sent key seq bs now_ms st, Ok ())))))))"

definition relay_send_reliable_to_side :: "relay_machine \<Rightarrow> nat \<Rightarrow> relay_item \<Rightarrow> unit relay_action" where
  "relay_send_reliable_to_side M side it =
     wthen (relay_side_of side) (\<lambda>s.
     wthen (hop_reliable M side (side_opts s)) (\<lambda>hop_reliable_enabled.
       if side_tx_handler s = Packet_Tx then relay_call_tx_handler M side Packet_Tx it
       else if \<not> hop_reliable_enabled
       then wthen (relay_send_adjusted M side Serialized_Tx ((side_opts s)\<lparr>opt_reliable_enabled := False\<rparr>) it) (\<lambda>_. give (Ok ()))
       else
         (case item_frame_type (ym_env M) it of
            Panic m \<Rightarrow> give (Panic m)
          | Err _ \<Rightarrow> relay_call_tx_handler M side Serialized_Tx it
          | Ok ty \<Rightarrow>
              if \<not> is_reliable_type (ym_env M) ty
              then wthen (relay_send_adjusted M side Serialized_Tx (side_opts s) it) (\<lambda>_. give (Ok ()))
              else relay_send_sequenced M side ty it)))"

section \<open>Working off one item\<close>

definition relay_pop_replay :: "relay_replay_item option relay_action" where
  "relay_pop_replay = ry_on (\<lambda>st. case pop_front replay_byte_cost (ry_replay_queue st) of
     (v, q) \<Rightarrow> (st\<lparr>ry_replay_queue := q\<rparr>, Ok v))"

definition relay_process_replay_queue_item :: "relay_machine \<Rightarrow> bool relay_action" where
  "relay_process_replay_queue_item M =
     wthen relay_pop_replay (\<lambda>popped.
       case popped of
         None \<Rightarrow> give (Ok False)
       | Some item \<Rightarrow>
           wthen (give (peek_frame_info (ym_env M) (rpl_bytes item))) (\<lambda>frame.
           case fi_reliable frame of
             None \<Rightarrow> give (Ok False)
           | Some hdr \<Rightarrow>
               (let key = reliable_key (ym_env M) (rpl_dst item) (te_ty (fi_envelope frame))
                in wthen (ry_on (\<lambda>st. let st = relay_tx_state_mut key st
                     in (st, Ok (bt_contains (rtx_sent (relay_tx_state_of key st)) (rh_seq hdr))))) (\<lambda>kept.
                     if \<not> kept then give (Ok False)
                     else
                       catching
                         (wthen (relay_send_reliable_raw_to_side M (rpl_dst item) (rpl_bytes item)) (\<lambda>_.
                          ry_now M (\<lambda>now_ms. ry_on (\<lambda>st.
                            (relay_update_tx_state key (\<lambda>tx. tx\<lparr>rtx_sent :=
                               bt_modify (rh_seq hdr) (\<lambda>s. s\<lparr>sent_last_send_ms := now_ms, sent_queued := False\<rparr>) (rtx_sent tx)\<rparr>) st,
                             Ok True)))))
                         (\<lambda>e. if is_side_tx_busy e
                              then wthen (ry_on (relay_push_replay (ym_layout M) (ym_env M) item)) (\<lambda>_. give (Ok False))
                              else give (Err e))))))"

text \<open>An item whose side has gone is dropped, and the caller sees an empty queue.\<close>

definition relay_pop_ready_tx_item :: "relay_machine \<Rightarrow> (relay_tx_item \<times> router_side) option relay_action" where
  "relay_pop_ready_tx_item M = ry_on (\<lambda>st.
     case pop_front (relay_tx_byte_cost (ym_layout M)) (ry_tx_queue st) of
       (None, q) \<Rightarrow> (st\<lparr>ry_tx_queue := q\<rparr>, Ok None)
     | (Some item, q) \<Rightarrow>
         (st\<lparr>ry_tx_queue := q\<rparr>, Ok (map_option (\<lambda>s. (item, s)) (relay_side_get st (rti_dst item)))))"

definition relay_item_type :: "env \<Rightarrow> relay_item \<Rightarrow> data_type telemetry_result" where
  "relay_item_type E it =
     (case it of
        Item_Packet pkt \<Rightarrow> Ok (pkt_ty pkt)
      | Item_Serialized bs \<Rightarrow> andthen (peek_envelope E bs) (\<lambda>env. Ok (te_ty env)))"

definition relay_send_tx_item ::
  "relay_machine \<Rightarrow> nat option \<Rightarrow> nat \<Rightarrow> tx_handler_kind \<Rightarrow> router_side_options \<Rightarrow> relay_item \<Rightarrow> bool relay_action" where
  "relay_send_tx_item M src dst handler opts it =
     wthen (give (relay_item_type (ym_env M) it)) (\<lambda>ty.
     reading (\<lambda>w.
       if \<not> relay_route_allowed (ym_env M) (rw_inner w) src (Some ty) dst then give (Ok False)
       else if opt_reliable_enabled opts \<and> handler = Serialized_Tx
       then wthen (relay_send_reliable_to_side M dst it) (\<lambda>_. give (Ok True))
       else relay_send_adjusted M dst handler opts it))"

section \<open>The receive path\<close>

definition relay_reply ::
  "relay_machine \<Rightarrow> (relay_layout \<Rightarrow> env \<Rightarrow> u64 \<Rightarrow> nat \<Rightarrow> data_type \<Rightarrow> u32 \<Rightarrow> relay_inner \<Rightarrow>
     relay_inner \<times> unit telemetry_result) \<Rightarrow> nat \<Rightarrow> data_type \<Rightarrow> u32 \<Rightarrow> unit relay_action" where
  "relay_reply M queue_control src ty seq =
     ry_now M (\<lambda>now_ms. ry_on (queue_control (ym_layout M) (ym_env M) now_ms src ty seq))"

text \<open>The acknowledgements and requests of the ordered receiver; \<open>None\<close> when the frame goes no further.\<close>

definition relay_ordered_reply :: "relay_machine \<Rightarrow> nat \<Rightarrow> data_type \<Rightarrow> ordered_action \<Rightarrow> bytes list option relay_action" where
  "relay_ordered_reply M src ty act =
     (case act of
        AckOld ack \<Rightarrow> wthen (relay_reply M relay_queue_reliable_ack src ty ack) (\<lambda>_. give (Ok None))
      | RequestMissing expected seq \<Rightarrow>
          wthen (relay_reply M relay_queue_reliable_partial_ack src ty seq) (\<lambda>_.
          wthen (relay_reply M relay_queue_reliable_packet_request src ty expected) (\<lambda>_. give (Ok None)))
      | Deliver ack frames \<Rightarrow>
          wthen (relay_reply M relay_queue_reliable_ack src ty ack) (\<lambda>_. give (Ok (Some (tl frames)))))"

text \<open>A damaged frame whose header can still be read: its number, or the one expected, is requested.\<close>

definition relay_request_damaged :: "relay_machine \<Rightarrow> nat \<Rightarrow> telemetry_frame_info \<Rightarrow> unit relay_action" where
  "relay_request_damaged M src frame =
     (let ty = te_ty (fi_envelope frame) in
      case (if is_reliable_type (ym_env M) ty then fi_reliable frame else None) of
        None \<Rightarrow> give (Ok ())
      | Some hdr \<Rightarrow>
          if rh_flags hdr AND RELIABLE_FLAG_UNSEQUENCED \<noteq> 0 then give (Ok ())
          else
            wthen
              (if rh_flags hdr AND RELIABLE_FLAG_UNORDERED \<noteq> 0 then give (Ok (rh_seq hdr))
               else ry_on (\<lambda>st.
                 let key = reliable_key (ym_env M) src ty;
                     st = relay_rx_state_mut key st
                 in (st, Ok (min (rrx_expected_seq (relay_rx_state_of key st)) (rh_seq hdr)))))
              (relay_reply M relay_queue_reliable_packet_request src ty))"

text \<open>
  The part of \<open>process_rx_queue_item\<close> for serialized bytes, up to duplicate suppression: \<open>None\<close> is
  its early return, \<open>Some rel\<close> goes on with the item and then with the released frames.
\<close>

definition relay_rx_frame :: "relay_machine \<Rightarrow> nat \<Rightarrow> bytes \<Rightarrow> bytes list option relay_action" where
  "relay_rx_frame M src bs =
     wthen (relay_side_of src) (\<lambda>s.
     wthen (hop_reliable M src (side_opts s)) (\<lambda>hop_reliable_enabled.
       let hop = hop_reliable_enabled \<and> side_tx_handler s = Serialized_Tx
       in case peek_frame_info (ym_env M) bs of
            Panic m \<Rightarrow> give (Panic m)
          | Err e \<Rightarrow>
              if e = Deserialize ''crc32 mismatch'' \<and> hop
              then (case peek_frame_info_unchecked (ym_env M) bs of
                      Panic m \<Rightarrow> give (Panic m)
                    | Err _ \<Rightarrow> give (Err e)
                    | Ok frame \<Rightarrow> wthen (relay_request_damaged M src frame) (\<lambda>_. give (Ok None)))
              else give (Err e)
          | Ok frame \<Rightarrow>
              (let ty = te_ty (fi_envelope frame) in
               case (if hop \<and> is_reliable_type (ym_env M) ty then fi_reliable frame else None) of
                 None \<Rightarrow> give (Ok (Some []))
               | Some hdr \<Rightarrow>
                   if rh_flags hdr AND RELIABLE_FLAG_UNSEQUENCED \<noteq> 0 then give (Ok (Some []))
                   else if rh_flags hdr AND RELIABLE_FLAG_UNORDERED \<noteq> 0
                   then wthen (relay_reply M relay_queue_reliable_ack src ty (rh_seq hdr)) (\<lambda>_. give (Ok (Some [])))
                   else
                     wthen (ry_on (relay_ordered_rx (ym_layout M) (ym_env M) src ty (rh_seq hdr) bs))
                       (relay_ordered_reply M src ty))))"

definition relay_plan :: "relay_machine \<Rightarrow> relay_item \<Rightarrow> nat \<Rightarrow> nat list relay_action" where
  "relay_plan M it src = ry_now M (\<lambda>now_ms. ry_on (relay_remote_side_plan (ym_env M) now_ms it src))"

fun relay_push_all :: "relay_layout \<Rightarrow> env \<Rightarrow> nat \<Rightarrow> relay_item \<Rightarrow> nat list \<Rightarrow> relay_inner \<Rightarrow> relay_inner \<times> unit telemetry_result" where
  "relay_push_all L E src it [] st = (st, Ok ())"
| "relay_push_all L E src it (dst # dsts) st =
     sthen (st, relay_item_priority E it) (\<lambda>priority st.
     sthen (relay_push_tx L E \<lparr>rti_src = Some src, rti_dst = dst, rti_data = it, rti_priority = priority\<rparr> st) (\<lambda>_.
       relay_push_all L E src it dsts))"

definition relay_forward :: "relay_machine \<Rightarrow> nat \<Rightarrow> relay_item \<Rightarrow> unit relay_action" where
  "relay_forward M src it =
     wthen (ry_now M (\<lambda>now_ms. ry_on (relay_learn_discovery_item (ym_layout M) (ym_env M) now_ms src it))) (\<lambda>_.
     wthen (relay_plan M it src) (\<lambda>ss. ry_on (relay_push_all (ym_layout M) (ym_env M) src it ss)))"

text \<open>A control packet of the hop; the result says whether the packet goes further.\<close>

definition relay_handle_control ::
  "relay_layout \<Rightarrow> env \<Rightarrow> nat \<Rightarrow> packet \<Rightarrow> relay_inner \<Rightarrow> relay_inner \<times> bool telemetry_result" where
  "relay_handle_control L E src pkt st =
     (if pkt_ty pkt \<notin> {ReliableAck, ReliablePartialAck, ReliablePacketRequest} then (st, Ok True)
      else
        (case (if pkt_ty pkt = ReliableAck \<and> is_end_to_end_ack_sender (pkt_sender pkt)
               then decode_end_to_end_reliable_ack (payload pkt) else Err BadArg) of
           Ok pid \<Rightarrow>
             (case decode_end_to_end_ack_sender_hash (pkt_sender pkt) of
                Some h \<Rightarrow> relay_note_acked_destination E pid h st
              | None \<Rightarrow> st, Ok True)
         | _ \<Rightarrow>
             sthen (st, data_as_u32 E pkt) (\<lambda>vals st.
               if length vals \<noteq> 2 then (st, Err (Deserialize ''bad reliable control payload''))
               else
                 sthen (st, ok_or InvalidType (data_type_try_from_u32 E (vals ! 0))) (\<lambda>ty st.
                   if pkt_ty pkt = ReliableAck then (relay_handle_reliable_ack E src ty (vals ! 1) st, Ok False)
                   else if pkt_ty pkt = ReliablePartialAck
                   then (relay_handle_reliable_partial_ack E src ty (vals ! 1) st, Ok False)
                   else sthen (relay_queue_reliable_retransmit L E src ty (vals ! 1) st) (\<lambda>_ st. (st, Ok False))))))"

definition relay_dispatch_packet :: "relay_machine \<Rightarrow> nat \<Rightarrow> packet \<Rightarrow> unit relay_action" where
  "relay_dispatch_packet M src pkt =
     wthen (ry_on (relay_handle_control (ym_layout M) (ym_env M) src pkt)) (\<lambda>go_on.
       if go_on then relay_forward M src (Item_Packet pkt) else give (Ok ()))"

definition dispatch_relay_rx_item :: "relay_machine \<Rightarrow> nat \<Rightarrow> relay_item \<Rightarrow> unit relay_action" where
  "dispatch_relay_rx_item M src it =
     (case it of
        Item_Packet pkt \<Rightarrow> relay_dispatch_packet M src pkt
      | Item_Serialized bs \<Rightarrow>
          wthen (give (peek_envelope (ym_env M) bs)) (\<lambda>env.
            if te_ty env \<in> {ReliableAck, ReliablePacketRequest, ReliablePartialAck}
            then wthen (give (deserialize_packet (ym_env M) bs)) (relay_dispatch_packet M src)
            else relay_forward M src it))"

definition relay_duplicate :: "relay_machine \<Rightarrow> relay_item \<Rightarrow> bool relay_action" where
  "relay_duplicate M it w =
     map_option (\<lambda>(st, r). (w\<lparr>rw_inner := st\<rparr>, r)) (relay_is_duplicate_pkt (ym_layout M) (ym_env M) it (rw_inner w))"

text \<open>\<open>is_duplicate_pkt(item)? && !should_forward_duplicate_reliable_item(item)?\<close>\<close>

definition relay_skip :: "relay_machine \<Rightarrow> relay_rx_item \<Rightarrow> bool relay_action" where
  "relay_skip M item =
     wthen (relay_duplicate M (rri_data item)) (\<lambda>dup.
       if \<not> dup then give (Ok False)
       else
         ry_now M (\<lambda>plan_ms. ry_now M (\<lambda>now_ms.
           wthen (ry_on (relay_should_forward_duplicate (ym_env M) plan_ms now_ms item)) (\<lambda>forward.
             give (Ok (\<not> forward))))))"

definition relay_dispatch_released :: "relay_machine \<Rightarrow> nat \<Rightarrow> bytes \<Rightarrow> unit relay_action" where
  "relay_dispatch_released M src bs =
     wthen (give (relay_item_priority (ym_env M) (Item_Serialized bs))) (\<lambda>priority.
     wthen (relay_skip M \<lparr>rri_src = src, rri_data = Item_Serialized bs, rri_priority = priority\<rparr>) (\<lambda>skip.
       if skip then give (Ok ()) else dispatch_relay_rx_item M src (Item_Serialized bs)))"

definition relay_process_rx_queue_item :: "relay_machine \<Rightarrow> relay_rx_item \<Rightarrow> unit relay_action" where
  "relay_process_rx_queue_item M item =
     wthen (reading (\<lambda>w. give (relay_ensure_side_ingress_enabled (rw_inner w) (rri_src item)))) (\<lambda>_.
     wthen (ry_on (relay_note_return_route_for (ym_env M) (rri_src item) (rri_data item))) (\<lambda>_.
     wthen (case rri_data item of
              Item_Packet _ \<Rightarrow> give (Ok (Some []))
            | Item_Serialized bs \<Rightarrow> relay_rx_frame M (rri_src item) bs) (\<lambda>frames.
       case frames of
         None \<Rightarrow> give (Ok ())
       | Some released \<Rightarrow>
           wthen (relay_skip M item) (\<lambda>skip.
             if skip then give (Ok ())
             else
               wthen (dispatch_relay_rx_item M (rri_src item) (rri_data item)) (\<lambda>_.
                 each (relay_dispatch_released M (rri_src item)) released)))))"

section \<open>The interface\<close>

definition relay_rx_from :: "relay_machine \<Rightarrow> nat \<Rightarrow> relay_item \<Rightarrow> unit relay_action" where
  "relay_rx_from M src it =
     wthen (reading (\<lambda>w. give (relay_ensure_side_ingress_enabled (rw_inner w) src))) (\<lambda>_.
     wthen (give (relay_item_priority (ym_env M) it)) (\<lambda>priority.
       ry_on (relay_push_rx (ym_layout M) (ym_env M) \<lparr>rri_src = src, rri_data = it, rri_priority = priority\<rparr>)))"

definition relay_rx_serialized_from_side :: "relay_machine \<Rightarrow> nat \<Rightarrow> bytes \<Rightarrow> unit relay_action" where
  "relay_rx_serialized_from_side M src bs = relay_rx_from M src (Item_Serialized bs)"

definition relay_rx_from_side :: "relay_machine \<Rightarrow> nat \<Rightarrow> packet \<Rightarrow> unit relay_action" where
  "relay_rx_from_side M src pkt = relay_rx_from M src (Item_Packet pkt)"

definition relay_clear_queues :: "relay_inner \<Rightarrow> relay_inner" where
  "relay_clear_queues st = st\<lparr>ry_rx_queue := bd_clear (ry_rx_queue st), ry_tx_queue := bd_clear (ry_tx_queue st)\<rparr>"

definition relay_clear_rx_queue :: "relay_inner \<Rightarrow> relay_inner" where
  "relay_clear_rx_queue st = st\<lparr>ry_rx_queue := bd_clear (ry_rx_queue st)\<rparr>"

definition relay_clear_tx_queue :: "relay_inner \<Rightarrow> relay_inner" where
  "relay_clear_tx_queue st =
     st\<lparr>ry_tx_queue := bd_clear (ry_tx_queue st), ry_replay_queue := bd_clear (ry_replay_queue st)\<rparr>"

definition relay_announce_discovery :: "relay_machine \<Rightarrow> unit relay_action" where
  "relay_announce_discovery M =
     ry_now M (\<lambda>now_ms. ry_on (relay_queue_discovery_announce (ym_layout M) (ym_env M) now_ms))"

definition relay_poll_discovery :: "relay_machine \<Rightarrow> bool relay_action" where
  "relay_poll_discovery M =
     ry_now M (\<lambda>now_ms. ry_now M (\<lambda>now'.
       ry_on (relay_poll_discovery_announce (ym_layout M) (ym_env M) now_ms now')))"

section \<open>The processing loops\<close>

definition relay_timeouts :: "relay_machine \<Rightarrow> unit relay_action" where
  "relay_timeouts M = ry_now M (\<lambda>now_ms. ry_on (relay_process_reliable_timeouts (ym_layout M) (ym_env M) now_ms))"

text \<open>\<open>timeout_ms != 0 && now - start >= timeout_ms\<close>, negated: whether the loop may go on.\<close>

definition relay_in_time :: "relay_machine \<Rightarrow> u32 \<Rightarrow> u64 \<Rightarrow> bool relay_action" where
  "relay_in_time M timeout_ms start =
     (if timeout_ms = 0 then give (Ok True)
      else ry_now M (\<lambda>now_ms. give (Ok (\<not> now_ms - start \<ge> ucast timeout_ms))))"

definition unless_side_tx_active :: "relay_machine \<Rightarrow> unit relay_action \<Rightarrow> unit relay_action" where
  "unless_side_tx_active M f = ry_ask (rf_gate (ym_foreign M)) (\<lambda>active. if active then give (Ok ()) else f)"

definition relay_tx_turn :: "relay_machine \<Rightarrow> u32 \<Rightarrow> u64 \<Rightarrow> bool relay_action" where
  "relay_tx_turn M timeout_ms start =
     wthen (relay_timeouts M) (\<lambda>_.
     wthen (relay_process_replay_queue_item M) (\<lambda>replayed.
       if replayed then relay_in_time M timeout_ms start
       else
         wthen (relay_pop_ready_tx_item M) (\<lambda>popped.
           case popped of
             None \<Rightarrow> give (Ok False)
           | Some (item, s) \<Rightarrow>
               catching
                 (wthen (relay_send_tx_item M (rti_src item) (rti_dst item) (side_tx_handler s) (side_opts s) (rti_data item)) (\<lambda>sent.
                    if sent then relay_in_time M timeout_ms start else give (Ok True)))
                 (\<lambda>e. if is_side_tx_busy e
                      then
                        wthen (give (relay_item_priority (ym_env M) (rti_data item))) (\<lambda>priority.
                        wthen (ry_on (relay_push_tx (ym_layout M) (ym_env M) (item\<lparr>rti_priority := priority\<rparr>))) (\<lambda>_.
                          give (Ok False)))
                      else give (Err e)))))"

definition relay_process_tx_queue_with_timeout :: "relay_machine \<Rightarrow> u32 \<Rightarrow> unit relay_action" where
  "relay_process_tx_queue_with_timeout M timeout_ms =
     unless_side_tx_active M (ry_now M (\<lambda>start. repeating (relay_tx_turn M timeout_ms start)))"

definition relay_pop_rx :: "relay_machine \<Rightarrow> relay_rx_item option relay_action" where
  "relay_pop_rx M = ry_on (\<lambda>st. case pop_front (relay_rx_byte_cost (ym_layout M)) (ry_rx_queue st) of
     (v, q) \<Rightarrow> (st\<lparr>ry_rx_queue := q\<rparr>, Ok v))"

definition relay_rx_turn :: "relay_machine \<Rightarrow> u32 \<Rightarrow> u64 \<Rightarrow> bool relay_action" where
  "relay_rx_turn M timeout_ms start =
     wthen (relay_pop_rx M) (\<lambda>popped.
       case popped of
         None \<Rightarrow> give (Ok False)
       | Some item \<Rightarrow> wthen (relay_process_rx_queue_item M item) (\<lambda>_. relay_in_time M timeout_ms start))"

definition relay_process_rx_queue_with_timeout :: "relay_machine \<Rightarrow> u32 \<Rightarrow> unit relay_action" where
  "relay_process_rx_queue_with_timeout M timeout_ms = ry_now M (\<lambda>start. repeating (relay_rx_turn M timeout_ms start))"

definition relay_all_turn :: "relay_machine \<Rightarrow> u32 \<Rightarrow> u64 \<Rightarrow> bool relay_action" where
  "relay_all_turn M timeout_ms start =
     wthen (relay_timeouts M) (\<lambda>_.
     wthen (relay_pop_rx M) (\<lambda>popped.
     wthen (case popped of Some item \<Rightarrow> relay_process_rx_queue_item M item | None \<Rightarrow> give (Ok ())) (\<lambda>_.
     wthen (relay_in_time M timeout_ms start) (\<lambda>in_time.
       if \<not> in_time then give (Ok False)
       else
         wthen (relay_process_replay_queue_item M) (\<lambda>replayed.
         wthen (relay_pop_ready_tx_item M) (\<lambda>ready.
         wthen (case ready of
                  Some (item, s) \<Rightarrow>
                    relay_send_tx_item M (rti_src item) (rti_dst item) (side_tx_handler s) (side_opts s) (rti_data item)
                | None \<Rightarrow> give (Ok False)) (\<lambda>sent.
         wthen (relay_in_time M timeout_ms start) (\<lambda>in_time.
           give (Ok (in_time \<and> (popped \<noteq> None \<or> replayed \<or> sent)))))))))))"

definition relay_process_all_queues_with_timeout :: "relay_machine \<Rightarrow> u32 \<Rightarrow> unit relay_action" where
  "relay_process_all_queues_with_timeout M timeout_ms =
     unless_side_tx_active M
       (if timeout_ms = 0 then repeating (relay_all_turn M 0 0)
        else ry_now M (\<lambda>start. repeating (relay_all_turn M timeout_ms start)))"

definition relay_process_rx_queue :: "relay_machine \<Rightarrow> unit relay_action" where
  "relay_process_rx_queue M = relay_process_rx_queue_with_timeout M 0"

definition relay_process_tx_queue :: "relay_machine \<Rightarrow> unit relay_action" where
  "relay_process_tx_queue M = relay_process_tx_queue_with_timeout M 0"

definition relay_process_all_queues :: "relay_machine \<Rightarrow> unit relay_action" where
  "relay_process_all_queues M = relay_process_all_queues_with_timeout M 0"

definition relay_periodic :: "relay_machine \<Rightarrow> u32 \<Rightarrow> unit relay_action" where
  "relay_periodic M timeout_ms = wthen (relay_poll_discovery M) (\<lambda>_. relay_process_all_queues_with_timeout M timeout_ms)"

end
