(* ===== verification/Relay_State_Laws.thy ===== *)
theory Relay_State_Laws
  imports Relay_State Router_State_Laws Router_Discovery
begin

text \<open>
  The shared budget of a relay: its queues, receive buffers and discovery table under the contract of
  \<open>Shared_Budget\<close>. \<open>relay_wf\<close> is the shape of the parts that count against the budget: exact byte
  counts, ordered buffers, and routes that say what their announcers say.
\<close>

definition relay_queues_wf :: "relay_layout \<Rightarrow> relay_inner \<Rightarrow> bool" where
  "relay_queues_wf L st \<longleftrightarrow>
     bd_wf (relay_rx_byte_cost L) (rl_size_rx_item L) (ry_rx_queue st) \<and>
     bd_wf (relay_tx_byte_cost L) (rl_size_tx_item L) (ry_tx_queue st) \<and>
     bd_wf replay_byte_cost (rl_size_replay_item L) (ry_replay_queue st) \<and>
     bd_wf id_byte_cost 8 (ry_recent_rx st)"

definition relay_buffers_ok :: "'z config_scheme \<Rightarrow> (nat \<times> u32, reliable_rx_state) btree \<Rightarrow> bool" where
  "relay_buffers_ok C m \<longleftrightarrow> bt_wf m \<and> list_all (buffer_ok C) (bt_values m)"

definition table_summarised :: "(nat, discovery_side_state) btree \<Rightarrow> bool" where
  "table_summarised m \<longleftrightarrow> list_all (\<lambda>route. recompute_discovery_side_state route = route) (bt_values m)"

definition relay_wf :: "relay_layout \<Rightarrow> 'z config_scheme \<Rightarrow> relay_inner \<Rightarrow> bool" where
  "relay_wf L C st \<longleftrightarrow>
     relay_queues_wf L st \<and> relay_buffers_ok C (ry_reliable_rx st) \<and> table_summarised (ry_discovery_routes st)"

lemma relay_wfD:
  assumes "relay_wf L C st"
  shows "bd_wf (relay_rx_byte_cost L) (rl_size_rx_item L) (ry_rx_queue st)"
    "bd_wf (relay_tx_byte_cost L) (rl_size_tx_item L) (ry_tx_queue st)"
    "bd_wf replay_byte_cost (rl_size_replay_item L) (ry_replay_queue st)"
    "bd_wf id_byte_cost 8 (ry_recent_rx st)"
    "relay_buffers_ok C (ry_reliable_rx st)" "table_summarised (ry_discovery_routes st)"
  using assms by (simp_all add: relay_wf_def relay_queues_wf_def)

lemma relay_used_eq:
  "relay_shared_queue_bytes_used L st =
     min (bd_cur_bytes (ry_rx_queue st) + bd_cur_bytes (ry_tx_queue st) + bd_cur_bytes (ry_replay_queue st) +
       bd_max_bytes (ry_recent_rx st) + relay_rx_buffered_bytes st + relay_discovery_bytes_used L st) (usize_limit - 1)"
  by (simp only: relay_shared_queue_bytes_used_def usat_add_def min_add_min)

lemmas relay_bytes_defs = relay_used_eq relay_rx_buffered_bytes_def relay_discovery_bytes_used_def

section \<open>Eviction\<close>

definition relay_evicted :: "relay_layout \<Rightarrow> 'z config_scheme \<Rightarrow> relay_inner \<Rightarrow> relay_inner \<Rightarrow> bool" where
  "relay_evicted L C a b \<longleftrightarrow>
     bd_max_bytes (ry_recent_rx b) = bd_max_bytes (ry_recent_rx a) \<and>
     (relay_wf L C a \<longrightarrow>
        relay_wf L C b \<and> relay_shared_queue_bytes_used L b \<le> relay_shared_queue_bytes_used L a)"

lemma pop_front_wf:
  assumes "bd_wf cost esize d"
  shows "bd_wf cost esize (snd (pop_front cost d))" "bd_cur_bytes (snd (pop_front cost d)) \<le> bd_cur_bytes d"
proof -
  obtain n where n: "snd (pop_front cost d) = bd_set cost (drop n (bd_q d)) d" using pop_front_evicts [OF assms] by blast
  show "bd_wf cost esize (snd (pop_front cost d))" unfolding n by (rule bd_wf_drop [OF assms])
  show "bd_cur_bytes (snd (pop_front cost d)) \<le> bd_cur_bytes d"
    using total_drop_le [of cost n "bd_q d"] bd_wfD(1) [OF assms] by (simp add: n)
qed

lemma pop_front_max [simp]: "bd_max_bytes (snd (pop_front cost d)) = bd_max_bytes d"
  by (simp add: pop_front_def split: list.splits)

lemma pop_buffered_ok: "buffer_ok C rx \<Longrightarrow> buffer_ok C (pop_buffered rx)"
  using buffer_suffix_ok [OF pop_buffered_suffix, of C] by simp

lemma pop_buffered_bytes: "buffered_bytes (pop_buffered rx) \<le> buffered_bytes rx"
  using buffer_suffix_bytes [OF pop_buffered_suffix] by simp

lemma modify_relay_buffers:
  "relay_buffers_ok C m \<Longrightarrow> (\<And>rx. buffer_ok C rx \<Longrightarrow> buffer_ok C (f rx)) \<Longrightarrow> relay_buffers_ok C (bt_modify key f m)"
  using set_modify [of key f m] by (auto simp: relay_buffers_ok_def bt_wf_modify list_all_iff)

lemma table_remove: "table_summarised m \<Longrightarrow> table_summarised (bt_remove side m)"
  by (auto simp: table_summarised_def list_all_iff bt_values_def bt_remove_def)

lemma relay_pop_evicts: "relay_evicted L C st (snd (relay_pop_shared_queue_item L k st))"
proof (cases k)
  case Relay_Rx_Buffer
  have "sum_list (map buffered_bytes (bt_values (bt_modify key pop_buffered (ry_reliable_rx st)))) \<le>
      sum_list (map buffered_bytes (bt_values (ry_reliable_rx st)))" for key
    by (rule sum_modify_le) (rule pop_buffered_bytes)
  then show ?thesis unfolding Relay_Rx_Buffer
    by (auto simp: relay_evicted_def relay_wf_def relay_queues_wf_def relay_bytes_defs relay_pop_reliable_rx_buffered_def
        modify_relay_buffers pop_buffered_ok min_le_iff_disj split: option.splits prod.splits)
next
  case Relay_Discovery
  have "sum_list (map (relay_discovery_route_byte_cost L) (bt_values (bt_remove side (ry_discovery_routes st)))) \<le>
      sum_list (map (relay_discovery_route_byte_cost L) (bt_values (ry_discovery_routes st)))" for side
    using total_filter_le [of "relay_discovery_route_byte_cost L \<circ> snd" "\<lambda>p. fst p \<noteq> side" "ry_discovery_routes st"]
    by (simp add: bt_values_def bt_remove_def)
  then show ?thesis unfolding Relay_Discovery
    by (auto simp: relay_evicted_def relay_wf_def relay_queues_wf_def relay_bytes_defs relay_pop_discovery_route_def
        table_remove min_le_iff_disj split: option.splits prod.splits)
qed (auto simp: relay_evicted_def relay_wf_def relay_queues_wf_def relay_bytes_defs case_prod_beta pop_front_wf
    min_le_iff_disj intro!: add_mono dest: pop_front_wf(2))

section \<open>The largest queue\<close>

lemma relay_buffer_len_pop:
  assumes "0 < relay_rx_buffer_len st"
  shows "fst (relay_pop_reliable_rx_buffered st) \<noteq> None"
proof -
  from assms have "\<exists>rx \<in> set (bt_values (ry_reliable_rx st)). rrx_buffered rx \<noteq> []"
    unfolding relay_rx_buffer_len_def by (rule contrapos_pp) (simp add: sum_list_eq_0_iff)
  then obtain key rx where "(key, rx) \<in> set (ry_reliable_rx st)" "rrx_buffered rx \<noteq> []"
    by (force simp: bt_values_def)
  then have "find (\<lambda>(_, rx). rrx_buffered rx \<noteq> []) (ry_reliable_rx st) \<noteq> None"
    unfolding find_None_iff by fastforce
  then obtain e where e: "find (\<lambda>(_, rx). rrx_buffered rx \<noteq> []) (ry_reliable_rx st) = Some e" by blast
  then have "rrx_buffered (snd e) \<noteq> []" by (cases e) (auto simp: find_Some_iff)
  with e show ?thesis
    by (cases e; cases "rrx_buffered (snd e)") (auto simp: relay_pop_reliable_rx_buffered_def)
qed

lemma relay_largest_pops:
  assumes "relay_largest_shared_queue L st = Some v"
  shows "fst (relay_pop_shared_queue_item L v st)"
proof -
  obtain n len where c: "(v, n, len) \<in> {(Relay_Rx, bd_cur_bytes (ry_rx_queue st), length (bd_q (ry_rx_queue st))),
         (Relay_Tx, bd_cur_bytes (ry_tx_queue st), length (bd_q (ry_tx_queue st))),
         (Relay_Replay, bd_cur_bytes (ry_replay_queue st), length (bd_q (ry_replay_queue st))),
         (Relay_Recent, 0, 0),
         (Relay_Rx_Buffer, relay_rx_buffered_bytes st, relay_rx_buffer_len st),
         (Relay_Discovery, relay_discovery_bytes_used L st, length (ry_discovery_routes st))}" and pos: "n > 0" "len > 0"
    using assms by (auto simp: relay_largest_shared_queue_def Let_def dest!: max_by_key_in split: if_splits)
  have front: "bd_q d \<noteq> [] \<Longrightarrow> fst (pop_front cost d) \<noteq> None" for cost and d :: "'q bounded_deque"
    by (simp add: pop_front_def split: list.splits)
  show ?thesis
  proof (cases v)
    case Relay_Rx_Buffer
    then show ?thesis using c pos relay_buffer_len_pop [of st] by (auto split: prod.splits)
  next
    case Relay_Discovery
    then have "ry_discovery_routes st \<noteq> []" using c pos by auto
    from min_by_key_Some [OF this] Relay_Discovery show ?thesis
      by (auto simp: relay_pop_discovery_route_def split: option.splits)
  qed (use c pos front in \<open>auto simp: case_prod_beta\<close>)
qed

lemma relay_largest_None:
  assumes "relay_wf L C st" and "relay_largest_shared_queue L st = None"
  shows "relay_shared_queue_bytes_used L st \<le> bd_max_bytes (ry_recent_rx st)"
proof -
  define cands where "cands =
    [(Relay_Rx, bd_cur_bytes (ry_rx_queue st), length (bd_q (ry_rx_queue st))),
     (Relay_Tx, bd_cur_bytes (ry_tx_queue st), length (bd_q (ry_tx_queue st))),
     (Relay_Replay, bd_cur_bytes (ry_replay_queue st), length (bd_q (ry_replay_queue st))),
     (Relay_Recent, 0, 0),
     (Relay_Rx_Buffer, relay_rx_buffered_bytes st, relay_rx_buffer_len st),
     (Relay_Discovery, relay_discovery_bytes_used L st, length (ry_discovery_routes st))]"
  have "filter (\<lambda>(_, n, len). n > 0 \<and> len > 0) cands = []"
  proof (rule ccontr)
    assume "filter (\<lambda>(_, n, len). n > 0 \<and> len > 0) cands \<noteq> []"
    then show False
      using assms(2) max_by_key_Some [of "filter (\<lambda>(_, n, len). n > 0 \<and> len > 0) cands"
          "\<lambda>(kind, n, _). (n, if kind = Relay_Rx_Buffer then 0 else 1 :: nat)"]
      unfolding relay_largest_shared_queue_def Let_def cands_def [symmetric] by simp
  qed
  then have "bd_cur_bytes (ry_rx_queue st) = 0 \<or> bd_q (ry_rx_queue st) = []"
    "bd_cur_bytes (ry_tx_queue st) = 0 \<or> bd_q (ry_tx_queue st) = []"
    "bd_cur_bytes (ry_replay_queue st) = 0 \<or> bd_q (ry_replay_queue st) = []"
    "relay_rx_buffered_bytes st = 0 \<or> relay_rx_buffer_len st = 0"
    "relay_discovery_bytes_used L st = 0 \<or> ry_discovery_routes st = []"
    by (auto simp: cands_def split: if_splits)
  moreover have "relay_rx_buffer_len st = 0 \<Longrightarrow> relay_rx_buffered_bytes st = 0"
    by (auto simp: relay_rx_buffer_len_def relay_rx_buffered_bytes_def buffered_bytes_def bt_values_def)
  ultimately have "bd_cur_bytes (ry_rx_queue st) = 0" "bd_cur_bytes (ry_tx_queue st) = 0"
    "bd_cur_bytes (ry_replay_queue st) = 0"
    "relay_rx_buffered_bytes st = 0" "relay_discovery_bytes_used L st = 0"
    using relay_wfD [OF assms(1)]
    by (auto simp: bd_wf_def relay_discovery_bytes_used_def bt_values_def)
  then show ?thesis by (simp add: relay_used_eq)
qed

section \<open>Making room and pushing\<close>

interpretation relay_budget: shared_budget "relay_shared_queue_bytes_used L" "\<lambda>st. bd_max_bytes (ry_recent_rx st)"
  "relay_wf L C" "relay_evicted L C" "relay_pop_shared_queue_item L" "relay_largest_shared_queue L" relay_evictable
  "relay_make_room_loop L"
  by unfold_locales
    (rule relay_pop_evicts relay_largest_pops relay_largest_None relay_make_room_loop.simps, assumption?
      | erule relay_pop_shrinks | force simp: relay_evicted_def)+

lemmas relay_room_result = relay_budget.room_result [where budget = "max_queue_budget C" and C = C for C,
  folded relay_make_shared_queue_room_def]

interpretation relay_rxq: shared_queue "relay_shared_queue_bytes_used L" "\<lambda>st. bd_max_bytes (ry_recent_rx st)"
  "relay_wf L C" "relay_evicted L C" "relay_pop_shared_queue_item L" "relay_largest_shared_queue L" relay_evictable
  "relay_make_room_loop L" ry_rx_queue "\<lambda>q st. st\<lparr>ry_rx_queue := q\<rparr>" "relay_rx_byte_cost L" "rl_size_rx_item L"
  by unfold_locales (auto simp: relay_wf_def relay_queues_wf_def relay_bytes_defs min_def split: if_splits)

interpretation relay_txq: shared_queue "relay_shared_queue_bytes_used L" "\<lambda>st. bd_max_bytes (ry_recent_rx st)"
  "relay_wf L C" "relay_evicted L C" "relay_pop_shared_queue_item L" "relay_largest_shared_queue L" relay_evictable
  "relay_make_room_loop L" ry_tx_queue "\<lambda>q st. st\<lparr>ry_tx_queue := q\<rparr>" "relay_tx_byte_cost L" "rl_size_tx_item L"
  by unfold_locales (auto simp: relay_wf_def relay_queues_wf_def relay_bytes_defs min_def split: if_splits)

interpretation relay_replayq: shared_queue "relay_shared_queue_bytes_used L" "\<lambda>st. bd_max_bytes (ry_recent_rx st)"
  "relay_wf L C" "relay_evicted L C" "relay_pop_shared_queue_item L" "relay_largest_shared_queue L" relay_evictable
  "relay_make_room_loop L" ry_replay_queue "\<lambda>q st. st\<lparr>ry_replay_queue := q\<rparr>" replay_byte_cost "rl_size_replay_item L"
  by unfold_locales (auto simp: relay_wf_def relay_queues_wf_def relay_bytes_defs min_def split: if_splits)

lemmas relay_push_rx_result = relay_rxq.push_result [where budget = "max_queue_budget C" and C = C and prio = rri_priority
  and kind = Relay_Rx for C, folded relay_make_shared_queue_room_def, folded relay_push_rx_def]

lemmas relay_push_tx_result = relay_txq.push_result [where budget = "max_queue_budget C" and C = C and prio = rti_priority
  and kind = Relay_Tx for C, folded relay_make_shared_queue_room_def, folded relay_push_tx_def]

lemmas relay_push_replay_result = relay_replayq.push_result [where budget = "max_queue_budget C" and C = C and prio = rpl_priority
  and kind = Relay_Replay for C, folded relay_make_shared_queue_room_def, folded relay_push_replay_def]

end
