(* ===== verification/Relay_Flow_Laws.thy ===== *)
theory Relay_Flow_Laws
  imports Relay_Flow Relay_State_Laws Action_Laws
begin

text \<open>
  What the actions of a relay do to the state behind its lock, as contracts of growing
  strength: a relation that a transmission to one side keeps, without and with its sequence numbers, one that working off a retransmission
  or a queued item keeps, one that dispatching an item keeps, and one that receiving keeps. Each is lifted from the state to actions.
\<close>

section \<open>A transmission\<close>

text \<open>A relation between worlds that the calls for one side keep, without and with the sequence numbers of its hop.\<close>

locale relay_link =
  fixes W :: "relay_world \<Rightarrow> relay_world \<Rightarrow> bool" and side :: nat
  assumes refl: "W w w"
    and trans: "W a b \<Longrightarrow> W b c \<Longrightarrow> W a c"
    and tick: "W w (w\<lparr>rw_tick := n\<rparr>)"
    and called: "W w (w\<lparr>rw_calls := rw_calls w @ [(side, it)]\<rparr>)"
    and sample: "W w (w\<lparr>rw_inner := relay_record_side_tx_sample side n started ended (rw_inner w)\<rparr>)"

sublocale relay_link \<subseteq> acts: action_frame W
  by unfold_locales (rule refl, erule trans)

context relay_link
begin

lemma runs_on: "(\<And>w. W w (w\<lparr>rw_inner := fst (f (rw_inner w))\<rparr>)) \<Longrightarrow> runs W (ry_on f)"
  by (rule runsI) (auto simp: ry_on_def split: prod.splits, metis fst_conv)

lemma runs_ry_ask:
  assumes "\<And>x. runs W (f x)"
  shows "runs W (ry_ask q f)"
proof (rule runsI)
  fix w :: relay_world
  obtain w' r where "f (q (rw_tick w)) (w\<lparr>rw_tick := Suc (rw_tick w)\<rparr>) = Some (w', r)" "W (w\<lparr>rw_tick := Suc (rw_tick w)\<rparr>) w'"
    using assms by (rule runsE)
  then show "\<exists>w' r. ry_ask q f w = Some (w', r) \<and> W w w'"
    using trans [OF tick [of w "Suc (rw_tick w)"]] by (auto simp: ry_ask_def)
qed

lemma runs_callback: "runs W (ry_callback M side it)"
proof (rule runsI)
  fix w :: relay_world
  have "W w (w\<lparr>rw_tick := Suc (rw_tick w), rw_calls := rw_calls w @ [(side, it)]\<rparr>)"
    using trans [OF tick [of w "Suc (rw_tick w)"] called [of "w\<lparr>rw_tick := Suc (rw_tick w)\<rparr>" it]] by simp
  then show "\<exists>w' r. ry_callback M side it w = Some (w', r) \<and> W w w'" by (simp add: ry_callback_def)
qed

lemma runs_sample: "runs W (relay_sample M side n started)"
  unfolding relay_sample_def by (intro runs_ry_ask runs_on) (simp add: sample)

lemmas link_rules = runs_ry_ask runs_callback runs_sample acts.runs_give acts.runs_wthen acts.runs_catching
  acts.runs_ignoring acts.runs_each acts.runs_reading acts.runs_cases

lemma runs_enter: "runs W f \<Longrightarrow> runs W (try_enter_side_tx M f)"
  unfolding try_enter_side_tx_def by (intro link_rules)

lemma runs_handler: "runs W (relay_call_tx_handler M side handler it)"
  unfolding relay_call_tx_handler_def by (intro runs_enter link_rules)

lemma runs_side_of: "runs W (relay_side_of s)"
  unfolding relay_side_of_def by (intro link_rules)

lemma runs_hop: "runs W (hop_reliable M s opts)"
  unfolding hop_reliable_def by (intro link_rules)

lemma runs_raw: "runs W (relay_send_reliable_raw_to_side M side bs)"
  unfolding relay_send_reliable_raw_to_side_def by (intro runs_side_of runs_enter link_rules)

lemma runs_adjusted: "runs W (relay_send_adjusted M side handler opts it)"
  unfolding relay_send_adjusted_def by (intro runs_handler link_rules)

lemma runs_frame: "runs W (relay_transmit_frame M side bs)"
  unfolding relay_transmit_frame_def by (intro runs_enter link_rules)

lemma runs_in_time: "runs W (relay_in_time M timeout_ms start)"
  unfolding relay_in_time_def by (intro link_rules)

end

locale relay_hop = relay_link W side for W side +
  assumes numbered: "W w (w\<lparr>rw_inner := fst (relay_alloc_seq E key (rw_inner w))\<rparr>)"
    and remembered: "W w (w\<lparr>rw_inner := relay_remember_sent key seq bs now (rw_inner w)\<rparr>)"
begin

lemma runs_sequenced: "runs W (relay_send_sequenced M side ty it)"
  unfolding relay_send_sequenced_def Let_def
  by (intro runs_frame link_rules runs_on) (simp_all add: numbered remembered)

lemma runs_reliable: "runs W (relay_send_reliable_to_side M side it)"
  unfolding relay_send_reliable_to_side_def
  by (intro runs_sequenced runs_side_of runs_hop runs_handler runs_adjusted link_rules)

lemma runs_send: "runs W (relay_send_tx_item M src side handler opts it)"
  unfolding relay_send_tx_item_def by (intro runs_reliable runs_adjusted link_rules)

end

text \<open>Relations between states behind the lock.\<close>

locale relay_quiet =
  fixes R :: "relay_inner \<Rightarrow> relay_inner \<Rightarrow> bool"
  assumes refl: "R st st"
    and trans: "R a b \<Longrightarrow> R b c \<Longrightarrow> R a c"
    and sample: "R st (relay_record_side_tx_sample side n started ended st)"

sublocale relay_quiet \<subseteq> link: relay_link "\<lambda>a b. R (rw_inner a) (rw_inner b)" side for side
  by unfold_locales (auto intro: refl trans sample)

context relay_quiet
begin

abbreviation world_R :: "relay_world \<Rightarrow> relay_world \<Rightarrow> bool" where
  "world_R a b \<equiv> R (rw_inner a) (rw_inner b)"

lemma runs_ry_on: "(\<And>st. R st (fst (f st))) \<Longrightarrow> runs world_R (ry_on f)"
  by (rule link.runs_on) simp

lemmas quiet_rules = link.link_rules

lemmas runs_ry_ask = link.runs_ry_ask and runs_raw = link.runs_raw and runs_side_of = link.runs_side_of and runs_hop = link.runs_hop
  and runs_in_time = link.runs_in_time

end

section \<open>Working off the transmit queues\<close>

abbreviation same_queues :: "relay_inner \<Rightarrow> relay_inner \<Rightarrow> bool" where
  "same_queues a b \<equiv>
     ry_rx_queue b = ry_rx_queue a \<and> ry_tx_queue b = ry_tx_queue a \<and> ry_replay_queue b = ry_replay_queue a \<and>
     ry_recent_rx b = ry_recent_rx a \<and> ry_reliable_rx b = ry_reliable_rx a \<and>
     ry_discovery_routes b = ry_discovery_routes a"

locale relay_transmit =
  fixes R :: "relay_inner \<Rightarrow> relay_inner \<Rightarrow> bool" and M :: relay_machine
  assumes neutral: "same_queues a b \<Longrightarrow> R a b"
    and compose: "R a b \<Longrightarrow> R b c \<Longrightarrow> R a c"
    and push_replay: "R st (fst (relay_push_replay (ym_layout M) (ym_env M) it st))"
    and pop_replay: "R st (st\<lparr>ry_replay_queue := snd (pop_front replay_byte_cost (ry_replay_queue st))\<rparr>)"
    and pop_tx: "R st (st\<lparr>ry_tx_queue := snd (pop_front (relay_tx_byte_cost (ym_layout M)) (ry_tx_queue st))\<rparr>)"

sublocale relay_transmit \<subseteq> relay_quiet R
  by unfold_locales (auto intro: neutral compose simp: relay_record_side_tx_sample_def Let_def)

lemma update_tx_queues [simp]: "same_queues st (relay_update_tx_state key f st)" "same_queues st (relay_tx_state_mut key st)"
  by (simp_all add: relay_update_tx_state_def relay_tx_state_mut_def Let_def split: option.splits)

sublocale relay_transmit \<subseteq> hop: relay_hop "\<lambda>a b. R (rw_inner a) (rw_inner b)" side for side
proof unfold_locales
  fix w :: relay_world and E key seq bs now
  show "R (rw_inner w) (rw_inner (w\<lparr>rw_inner := fst (relay_alloc_seq E key (rw_inner w))\<rparr>))"
    by (auto simp: relay_alloc_seq_def Let_def neutral intro!: compose [OF neutral [OF update_tx_queues(2)]])
  show "R (rw_inner w) (rw_inner (w\<lparr>rw_inner := relay_remember_sent key seq bs now (rw_inner w)\<rparr>))"
    by (simp add: relay_remember_sent_def neutral)
qed

context relay_transmit
begin

lemmas runs_send = hop.runs_send

lemma sthen_frame: "R st (fst m) \<Longrightarrow> (\<And>x s. R s (fst (f x s))) \<Longrightarrow> R st (fst (sthen m f))"
  using trans by (auto simp: sthen_def split: prod.splits outcome.splits)

lemma neutral_then: "same_queues a b \<Longrightarrow> R b c \<Longrightarrow> R a c"
  using neutral trans by blast

lemma retransmit: "R st (fst (relay_queue_reliable_retransmit (ym_layout M) (ym_env M) side ty seq st))"
  unfolding relay_queue_reliable_retransmit_def Let_def
  by (auto split: option.splits intro!: neutral neutral_then [OF _ push_replay])

lemma requeue: "R st (fst (relay_requeue_all (ym_layout M) (ym_env M) q st))"
  by (induction q arbitrary: st) (auto intro!: sthen_frame retransmit simp: refl)

lemma timeouts: "R st (fst (relay_process_reliable_timeouts (ym_layout M) (ym_env M) now st))"
  unfolding relay_process_reliable_timeouts_def
  by (auto split: prod.splits intro!: neutral_then [OF _ requeue] simp: refl)

lemma runs_timeouts: "runs world_R (relay_timeouts M)"
  unfolding relay_timeouts_def by (intro quiet_rules runs_ry_on timeouts)

lemma runs_pop_replay: "runs world_R relay_pop_replay"
  unfolding relay_pop_replay_def by (rule runs_ry_on) (simp add: case_prod_beta pop_replay)

lemma runs_replay: "runs world_R (relay_process_replay_queue_item M)"
  unfolding relay_process_replay_queue_item_def Let_def
  by (intro runs_pop_replay runs_raw quiet_rules runs_ry_on push_replay) (simp_all add: neutral)

lemma runs_pop_ready: "runs world_R (relay_pop_ready_tx_item M)"
proof (unfold relay_pop_ready_tx_item_def, rule runs_ry_on)
  fix st :: relay_inner
  let ?p = "pop_front (relay_tx_byte_cost (ym_layout M)) (ry_tx_queue st)"
  show "R st (fst (case ?p of (None, q) \<Rightarrow> (st\<lparr>ry_tx_queue := q\<rparr>, Ok None)
      | (Some item, q) \<Rightarrow> (st\<lparr>ry_tx_queue := q\<rparr>, Ok (map_option (\<lambda>s. (item, s)) (relay_side_get st (rti_dst item))))))"
    using pop_tx [of st] by (cases ?p; cases "fst ?p") auto
qed

end

section \<open>Dispatch\<close>

locale relay_dispatch = relay_transmit R M for R M +
  assumes push_tx: "R st (fst (relay_push_tx (ym_layout M) (ym_env M) tx_item st))"
    and learn: "R st (fst (relay_learn_discovery_item (ym_layout M) (ym_env M) now src data st))"
begin

lemma control: "R st (fst (relay_queue_control (ym_layout M) (ym_env M) cty now side ty seq st))"
  unfolding relay_queue_control_def by (intro sthen_frame push_tx) (simp_all add: refl)

lemma runs_reply:
  "runs world_R (relay_reply M relay_queue_reliable_ack src ty seq)"
  "runs world_R (relay_reply M relay_queue_reliable_packet_request src ty seq)"
  "runs world_R (relay_reply M relay_queue_reliable_partial_ack src ty seq)"
  unfolding relay_reply_def relay_queue_reliable_ack_def relay_queue_reliable_packet_request_def
    relay_queue_reliable_partial_ack_def
  by (intro quiet_rules runs_ry_on control)+

lemma runs_ordered_reply: "runs world_R (relay_ordered_reply M src ty act)"
  unfolding relay_ordered_reply_def by (cases act) (auto intro!: runs_reply quiet_rules)

lemma selection: "same_queues st (fst (relay_apply_route_selection st src ss origin))"
  by (auto simp: relay_apply_route_selection_def relay_apply_adaptive_discovery_selection_def relay_advance_cursor_def Let_def
      split: option.splits route_selection_mode.splits)

lemma select: "R st (fst (relay_select src ss origin st))"
  using selection [of st "Some src" ss origin] by (auto simp: relay_select_def case_prod_beta intro: neutral)

lemma pure_frame: "(\<And>x. R st (fst (f x st))) \<Longrightarrow> R st (fst (sthen (st, r) f))"
  by (cases r) (simp_all add: refl)

lemma plan: "R st (fst (relay_remote_side_plan E now it src st))"
  unfolding relay_remote_side_plan_def Let_def
  by (auto intro!: pure_frame select simp: refl split: option.splits)

lemma push_all: "R st (fst (relay_push_all (ym_layout M) (ym_env M) src it ss st))"
  by (induction ss arbitrary: st) (auto intro!: sthen_frame push_tx simp: refl)

lemma runs_forward: "runs world_R (relay_forward M src it)"
  unfolding relay_forward_def relay_plan_def by (intro quiet_rules runs_ry_on learn plan push_all)

lemma acked: "same_queues st (relay_note_acked_destination C pid h st)"
  by (simp add: relay_note_acked_destination_def Let_def split: prod.splits)

lemma handle_control: "R st (fst (relay_handle_control (ym_layout M) (ym_env M) src pkt st))"
proof -
  have vals: "R st (fst (sthen (st, data_as_u32 (ym_env M) pkt) (\<lambda>vals st.
      if length vals \<noteq> 2 then (st, Err (Deserialize ''bad reliable control payload''))
      else
        sthen (st, ok_or InvalidType (data_type_try_from_u32 (ym_env M) (vals ! 0))) (\<lambda>ty st.
          if pkt_ty pkt = ReliableAck then (relay_handle_reliable_ack (ym_env M) src ty (vals ! 1) st, Ok False)
          else if pkt_ty pkt = ReliablePartialAck
          then (relay_handle_reliable_partial_ack (ym_env M) src ty (vals ! 1) st, Ok False)
          else sthen (relay_queue_reliable_retransmit (ym_layout M) (ym_env M) src ty (vals ! 1) st) (\<lambda>_ st. (st, Ok False))))))"
    by (intro sthen_frame)
      (auto simp: refl relay_handle_reliable_ack_def relay_handle_reliable_partial_ack_def neutral intro!: sthen_frame retransmit)
  show ?thesis
    unfolding relay_handle_control_def
    by (auto simp: vals refl acked neutral split: outcome.splits option.splits simp del: One_nat_def)
qed

lemma runs_packet: "runs world_R (relay_dispatch_packet M src pkt)"
  unfolding relay_dispatch_packet_def by (intro quiet_rules runs_ry_on handle_control runs_forward)

lemma runs_dispatch: "runs world_R (dispatch_relay_rx_item M src it)"
  unfolding dispatch_relay_rx_item_def by (intro quiet_rules runs_packet runs_forward)

lemma forward_duplicate: "R st (fst (relay_should_forward_duplicate E plan_ms now item st))"
  unfolding relay_should_forward_duplicate_def by (intro sthen_frame) (auto simp: refl intro!: sthen_frame plan)

lemma return_route: "R st (fst (relay_note_return_route_for E src it st))"
proof -
  have "same_queues s (relay_note_return_route C side pid s)" for C :: env and side pid s
    by (simp add: relay_note_return_route_def Let_def split: prod.splits)
  then show ?thesis
    by (auto simp: relay_note_return_route_for_def intro!: neutral split: router_item.splits outcome.splits)
qed

lemma local_packet: "R st (fst (relay_queue_local_packet (ym_layout M) (ym_env M) dst built st))"
  unfolding relay_queue_local_packet_def by (intro sthen_frame push_tx) (simp_all add: refl)

lemma advertise: "R st (fst (relay_push_advertisements (ym_layout M) (ym_env M) now ads st))"
  by (induction ads arbitrary: st rule: list.induct) (auto intro!: sthen_frame local_packet simp: refl)

end

section \<open>Receiving\<close>

locale relay_receive = relay_dispatch R M for R M +
  assumes push_recent: "0 < max_recent_rx_ids (ym_env M) \<Longrightarrow>
      \<exists>st' r. relay_push_recent_rx (ym_layout M) (ym_env M) i st = Some (st', r) \<and> R st st'"
    and pop_rx: "R st (st\<lparr>ry_rx_queue := snd (pop_front (relay_rx_byte_cost (ym_layout M)) (ry_rx_queue st))\<rparr>)"
    and rx_entry: "R st (relay_rx_state_mut key st)"
    and ordered: "R st (fst (relay_ordered_rx (ym_layout M) (ym_env M) src ty seq bs st))"
    and expire: "R st (relay_expire (ym_layout M) (ym_env M) now st)"
begin

lemma runs_damaged: "runs world_R (relay_request_damaged M src frame)"
  unfolding relay_request_damaged_def Let_def
  by (intro quiet_rules runs_reply runs_ry_on) (simp add: rx_entry)

lemma runs_rx_frame: "runs world_R (relay_rx_frame M src bs)"
  unfolding relay_rx_frame_def Let_def
  by (intro runs_side_of runs_hop quiet_rules runs_damaged runs_reply runs_ordered_reply runs_ry_on ordered)

lemma runs_duplicate:
  assumes "0 < max_recent_rx_ids (ym_env M)"
  shows "runs world_R (relay_duplicate M it)"
proof (rule runsI)
  fix w :: relay_world
  have "\<exists>st r. relay_is_duplicate_pkt (ym_layout M) (ym_env M) it (rw_inner w) = Some (st, r) \<and> R (rw_inner w) st"
  proof (cases "relay_get_hash (ym_env M) it")
    case (Ok i)
    obtain st' r where "relay_push_recent_rx (ym_layout M) (ym_env M) i (rw_inner w) = Some (st', r)" "R (rw_inner w) st'"
      using push_recent [OF assms] by blast
    then show ?thesis using Ok by (cases r) (auto simp: relay_is_duplicate_pkt_def refl)
  qed (auto simp: relay_is_duplicate_pkt_def refl)
  then show "\<exists>w' r. relay_duplicate M it w = Some (w', r) \<and> world_R w w'"
    by (auto simp: relay_duplicate_def)
qed

lemma runs_skip: "0 < max_recent_rx_ids (ym_env M) \<Longrightarrow> runs world_R (relay_skip M item)"
  unfolding relay_skip_def by (intro runs_duplicate quiet_rules runs_ry_on forward_duplicate)

lemma runs_released: "0 < max_recent_rx_ids (ym_env M) \<Longrightarrow> runs world_R (relay_dispatch_released M src bs)"
  unfolding relay_dispatch_released_def by (intro runs_skip runs_dispatch quiet_rules)

lemma runs_rx_item: "0 < max_recent_rx_ids (ym_env M) \<Longrightarrow> runs world_R (relay_process_rx_queue_item M item)"
  unfolding relay_process_rx_queue_item_def
  by (intro runs_rx_frame runs_skip runs_dispatch runs_released quiet_rules runs_ry_on return_route)

lemma runs_pop_rx: "runs world_R (relay_pop_rx M)"
  unfolding relay_pop_rx_def by (rule runs_ry_on) (simp add: case_prod_beta pop_rx)

lemma runs_rx_turn: "0 < max_recent_rx_ids (ym_env M) \<Longrightarrow> runs world_R (relay_rx_turn M timeout_ms start)"
  unfolding relay_rx_turn_def by (intro runs_pop_rx runs_rx_item runs_in_time quiet_rules)

lemma runs_tx_turn: "runs world_R (relay_tx_turn M timeout_ms start)"
  unfolding relay_tx_turn_def
  by (intro runs_timeouts runs_replay runs_pop_ready runs_send runs_in_time quiet_rules runs_ry_on push_tx)

lemma runs_all_turn: "0 < max_recent_rx_ids (ym_env M) \<Longrightarrow> runs world_R (relay_all_turn M timeout_ms start)"
  unfolding relay_all_turn_def
  by (intro runs_timeouts runs_pop_rx runs_rx_item runs_replay runs_pop_ready runs_send runs_in_time quiet_rules)

lemma announce: "R st (fst (relay_queue_discovery_announce (ym_layout M) (ym_env M) now st))"
  unfolding relay_queue_discovery_announce_def Let_def
  by (rule trans [OF expire]) (auto intro!: neutral_then [OF _ advertise] simp: refl)

lemma poll: "R st (fst (relay_poll_discovery_announce (ym_layout M) (ym_env M) now now' st))"
  unfolding relay_poll_discovery_announce_def Let_def
  by (rule trans [OF expire]) (auto intro!: sthen_frame announce simp: refl)

lemma runs_discovery: "runs world_R (relay_announce_discovery M)" "runs world_R (relay_poll_discovery M)"
  unfolding relay_announce_discovery_def relay_poll_discovery_def by (intro quiet_rules runs_ry_on announce poll)+

end

end
