(* ===== verification/Relay_Budget_Laws.thy ===== *)
theory Relay_Budget_Laws
  imports Relay_Flow_Laws Router_Reliable_Laws Discovery_Laws
begin

text \<open>
  The shared budget of a relay over time: no operation, of the interface or of a processing loop,
  makes the queues, the receive buffers and the discovery table together larger than the budget.
\<close>

definition relay_inv :: "relay_layout \<Rightarrow> 'z config_scheme \<Rightarrow> relay_inner \<Rightarrow> bool" where
  "relay_inv L C st \<longleftrightarrow> relay_wf L C st \<and> relay_shared_queue_bytes_used L st \<le> max_queue_budget C"

lemma relay_inv_mono:
  assumes "relay_inv L C a" and "relay_wf L C b" and "relay_shared_queue_bytes_used L b \<le> relay_shared_queue_bytes_used L a"
  shows "relay_inv L C b"
  using assms by (auto simp: relay_inv_def)

lemma relay_inv_cong: "same_queues a b \<Longrightarrow> relay_inv L C b = relay_inv L C a"
  by (simp add: relay_inv_def relay_wf_def relay_queues_wf_def relay_bytes_defs)

section \<open>Queues\<close>

lemma relay_push_inv:
  assumes "max_queue_budget C < usize_limit - 1" and "relay_inv L C st"
  shows "relay_inv L C (fst (relay_push_rx L C rx st))" "relay_inv L C (fst (relay_push_tx L C tx st))"
    "relay_inv L C (fst (relay_push_replay L C rp st))"
  using relay_push_rx_result [OF _ assms(1), of L st rx, OF _ surjective_pairing]
    relay_push_tx_result [OF _ assms(1), of L st tx, OF _ surjective_pairing]
    relay_push_replay_result [OF _ assms(1), of L st rp, OF _ surjective_pairing] assms(2)
  by (auto simp: relay_inv_def)

lemma relay_shrink_inv:
  assumes "relay_inv L C st"
  shows "bd_wf (relay_rx_byte_cost L) (rl_size_rx_item L) q \<Longrightarrow> bd_cur_bytes q \<le> bd_cur_bytes (ry_rx_queue st) \<Longrightarrow>
      relay_inv L C (st\<lparr>ry_rx_queue := q\<rparr>)"
    "bd_wf (relay_tx_byte_cost L) (rl_size_tx_item L) q' \<Longrightarrow> bd_cur_bytes q' \<le> bd_cur_bytes (ry_tx_queue st) \<Longrightarrow>
      relay_inv L C (st\<lparr>ry_tx_queue := q'\<rparr>)"
    "bd_wf replay_byte_cost (rl_size_replay_item L) q'' \<Longrightarrow> bd_cur_bytes q'' \<le> bd_cur_bytes (ry_replay_queue st) \<Longrightarrow>
      relay_inv L C (st\<lparr>ry_replay_queue := q''\<rparr>)"
  by (rule relay_inv_mono [OF assms];
      use assms in \<open>auto simp: relay_inv_def relay_wf_def relay_queues_wf_def relay_bytes_defs min_le_iff_disj\<close>)+

lemma relay_pop_inv:
  assumes "relay_inv L C st"
  shows "relay_inv L C (st\<lparr>ry_rx_queue := snd (pop_front (relay_rx_byte_cost L) (ry_rx_queue st))\<rparr>)"
    "relay_inv L C (st\<lparr>ry_tx_queue := snd (pop_front (relay_tx_byte_cost L) (ry_tx_queue st))\<rparr>)"
    "relay_inv L C (st\<lparr>ry_replay_queue := snd (pop_front replay_byte_cost (ry_replay_queue st))\<rparr>)"
  using assms relay_wfD [of L C st]
  by (auto simp: relay_inv_def [of L C st] intro!: relay_shrink_inv [OF assms] pop_front_wf)

lemma relay_recent_inv:
  assumes "max_queue_budget C < usize_limit - 1" and "relay_inv L C st" and "0 < max_recent_rx_ids C"
  shows "\<exists>st' r. relay_push_recent_rx L C i st = Some (st', r) \<and> relay_inv L C st'"
proof -
  have wf: "relay_wf L C st" using assms(2) by (simp add: relay_inv_def)
  define d where "d = bd_set id_byte_cost (drop (length (bd_q (ry_recent_rx st)) + 1 - max_recent_rx_ids C) (bd_q (ry_recent_rx st)))
    (ry_recent_rx st)"
  have d: "bd_wf id_byte_cost 8 d" "bd_max_bytes d = bd_max_bytes (ry_recent_rx st)"
    unfolding d_def by (rule bd_wf_drop [OF relay_wfD(4) [OF wf]]) simp
  have trim: "trim_recent (max_recent_rx_ids C) (ry_recent_rx st) = Some d"
    unfolding d_def by (rule trim_recent_eq [OF relay_wfD(4) [OF wf] assms(3)])
  obtain s1 r1 where room: "relay_make_shared_queue_room L C 0 Relay_Recent (st\<lparr>ry_recent_rx := d\<rparr>) = (s1, r1)" by force
  have w0: "relay_wf L C (st\<lparr>ry_recent_rx := d\<rparr>)" using wf d by (simp add: relay_wf_def relay_queues_wf_def)
  have u0: "relay_shared_queue_bytes_used L (st\<lparr>ry_recent_rx := d\<rparr>) = relay_shared_queue_bytes_used L st"
    using d by (simp add: relay_bytes_defs)
  have i1: "relay_inv L C s1"
    using relay_room_result [OF w0 assms(1) room] assms(2) w0 u0 by (auto simp: relay_inv_def relay_evicted_def)
  let ?p = "push_back id_byte_cost 8 i (ry_recent_rx s1)"
  have q: "bd_wf id_byte_cost 8 (ry_recent_rx s1)" using i1 relay_wfD(4) by (auto simp: relay_inv_def)
  have "relay_inv L C (s1\<lparr>ry_recent_rx := fst ?p\<rparr>)"
    using i1 fifo.push_inv [OF q, of i] fifo.push_budget [OF q, of i]
    by (simp add: relay_inv_def relay_wf_def relay_queues_wf_def relay_bytes_defs)
  then show ?thesis using trim room i1 by (cases r1) (auto simp: relay_push_recent_rx_def case_prod_beta)
qed

section \<open>Receive buffers\<close>

lemma buffers_entry:
  assumes "relay_buffers_ok C m"
  shows "relay_buffers_ok C (bt_insert key rx_state_new m)"
    and "sum_list (map buffered_bytes (bt_values (bt_insert key rx_state_new m))) \<le> sum_list (map buffered_bytes (bt_values m))"
  using assms total_bt_insert [of buffered_bytes key rx_state_new m]
  by (auto simp: relay_buffers_ok_def bt_wf_insert list_all_iff bt_values_def set_bt_insert buffer_ok_def rx_state_new_def
      buffered_bytes_def)

lemma relay_entry_inv:
  assumes "relay_inv L C st"
  shows "relay_inv L C (relay_rx_state_mut key st)"
  using assms buffers_entry [of C "ry_reliable_rx st" key]
  by (auto simp: relay_rx_state_mut_def relay_inv_def relay_wf_def relay_queues_wf_def relay_bytes_defs min_le_iff_disj
      split: option.splits)

lemma relay_entry_get: "bt_wf (ry_reliable_rx st) \<Longrightarrow>
    bt_get (ry_reliable_rx (relay_rx_state_mut key st)) key = Some (relay_rx_state_of key st)"
  by (auto simp: relay_rx_state_mut_def relay_rx_state_of_def bt.get_insert_same split: option.splits)

lemma buffers_get: "relay_buffers_ok C m \<Longrightarrow> bt_get m key = Some rx \<Longrightarrow> buffer_ok C rx"
  by (force simp: relay_buffers_ok_def bt_get_in_set list_all_iff bt_values_def)

lemma relay_buffer_inv:
  assumes "max_queue_budget C < usize_limit - 1" and "relay_inv L C st"
  shows "relay_inv L C (fst (relay_buffer_reliable_rx L C side ty seq bs st))"
proof -
  have wf: "relay_wf L C st" using assms(2) by (simp add: relay_inv_def)
  define key where "key = reliable_key C side ty"
  obtain s1 r1 where room: "relay_make_shared_queue_room L C (arc_slice_size + length bs) Relay_Rx_Buffer st = (s1, r1)" by force
  note e = relay_room_result [OF wf assms(1) room]
  have i1: "relay_inv L C s1" using e assms(2) wf by (auto simp: relay_inv_def relay_evicted_def)
  show ?thesis
  proof (cases "r1 = Ok ()")
    case False
    then show ?thesis using assms(2) i1 room e by (auto simp: relay_buffer_reliable_rx_def Let_def)
  next
    case True
    let ?s2 = "relay_rx_state_mut key s1"
    let ?st' = "?s2\<lparr>ry_reliable_rx := bt_modify key (store_buffered C seq bs) (ry_reliable_rx ?s2)\<rparr>"
    have w: "relay_buffers_ok C (ry_reliable_rx s1)" "relay_wf L C s1" using i1 by (auto simp: relay_inv_def relay_wf_def)
    note i2 = relay_entry_inv [OF i1, of key]
    then have b2: "relay_buffers_ok C (ry_reliable_rx ?s2)" by (simp add: relay_inv_def relay_wf_def)
    have get: "bt_get (ry_reliable_rx ?s2) key = Some (relay_rx_state_of key s1)"
      using w(1) by (intro relay_entry_get) (simp add: relay_buffers_ok_def)
    have "relay_rx_buffered_bytes ?s2 \<le> relay_rx_buffered_bytes s1"
      using buffers_entry(2) [OF w(1), of key] by (auto simp: relay_rx_state_mut_def relay_rx_buffered_bytes_def split: option.splits)
    moreover have "relay_rx_buffered_bytes ?st' \<le> relay_rx_buffered_bytes ?s2 + (arc_slice_size + length bs)"
      using modify_once [where w = buffered_bytes and f = "store_buffered C seq bs", OF _ store_buffered_ok(2) [OF buffers_get [OF b2 get]] get] b2
      by (simp add: relay_rx_buffered_bytes_def relay_buffers_ok_def)
    moreover have "relay_discovery_bytes_used L ?s2 = relay_discovery_bytes_used L s1" "ry_rx_queue ?s2 = ry_rx_queue s1"
      "ry_tx_queue ?s2 = ry_tx_queue s1" "ry_replay_queue ?s2 = ry_replay_queue s1" "ry_recent_rx ?s2 = ry_recent_rx s1"
      by (auto simp: relay_rx_state_mut_def relay_discovery_bytes_used_def split: option.splits)
    ultimately have "relay_shared_queue_bytes_used L ?st' \<le> max_queue_budget C"
      using e True assms(1)
      by (simp add: relay_used_eq relay_discovery_bytes_used_def min_def split: if_splits)
    moreover have "relay_wf L C ?st'"
      using i2 modify_relay_buffers [OF b2 store_buffered_ok(1)] by (simp add: relay_inv_def relay_wf_def relay_queues_wf_def)
    ultimately have "relay_inv L C ?st'" by (simp add: relay_inv_def)
    then show ?thesis using True assms(2) room by (simp add: relay_buffer_reliable_rx_def Let_def key_def)
  qed
qed

lemma release_run_part: "release_run nxt d buf = (rel, d', n, rest) \<Longrightarrow> \<exists>P. rest = filter P buf"
proof (induction nxt d buf arbitrary: rel rule: release_run.induct)
  case (1 nxt d buf)
  show ?case
  proof (cases "bt_get buf nxt")
    case None
    then have "rest = filter (\<lambda>_. True) buf" using "1.prems" by (simp add: release_run.simps [of nxt d buf])
    then show ?thesis by blast
  next
    case (Some bs)
    then obtain rel' where "release_run (next_seq nxt) nxt (bt_remove nxt buf) = (rel', d', n, rest)"
      using "1.prems" by (auto simp: release_run.simps [of nxt d buf] split: prod.splits)
    from "1.IH" [OF Some this] show ?thesis by (force simp: bt_remove_def)
  qed
qed

lemma relay_release_inv:
  assumes "relay_inv L C st" and get: "bt_get (ry_reliable_rx st) key = Some rx"
    and "release_run nxt d (rrx_buffered rx) = (rel, d', n, rest)"
  shows "relay_inv L C (st\<lparr>ry_reliable_rx := bt_modify key (\<lambda>rx. rx\<lparr>rrx_buffered := rest, rrx_expected_seq := n\<rparr>) (ry_reliable_rx st)\<rparr>)"
proof (rule relay_inv_mono [OF assms(1)])
  let ?f = "\<lambda>rx. rx\<lparr>rrx_buffered := rest, rrx_expected_seq := n\<rparr>"
  have ok: "relay_buffers_ok C (ry_reliable_rx st)" using assms(1) by (simp add: relay_inv_def relay_wf_def)
  have "bt_wf rest" "length rest \<le> max 1 (reliable_max_pending C)"
    using release_run_wf [of "rrx_buffered rx" nxt d] assms(3) buffers_get [OF ok get] by (auto simp: buffer_ok_def)
  then have "relay_buffers_ok C (bt_modify key ?f (ry_reliable_rx st))"
    by (intro modify_relay_buffers [OF ok]) (simp add: buffer_ok_def)
  then show "relay_wf L C (st\<lparr>ry_reliable_rx := bt_modify key ?f (ry_reliable_rx st)\<rparr>)"
    using assms(1) by (simp add: relay_inv_def relay_wf_def relay_queues_wf_def)
  obtain P where "rest = filter P (rrx_buffered rx)" using release_run_part [OF assms(3)] by blast
  then have "buffered_bytes (?f rx) \<le> buffered_bytes rx + 0"
    using total_filter_le [of "(\<lambda>bs. arc_slice_size + length bs) \<circ> snd" P "rrx_buffered rx"]
    by (simp add: buffered_bytes_def bt_values_def)
  from modify_once [where w = buffered_bytes and f = ?f, OF _ this get]
  show "relay_shared_queue_bytes_used L (st\<lparr>ry_reliable_rx := bt_modify key ?f (ry_reliable_rx st)\<rparr>) \<le>
      relay_shared_queue_bytes_used L st"
    using ok by (simp add: relay_bytes_defs relay_buffers_ok_def min_le_iff_disj)
qed

lemma relay_ordered_inv:
  assumes "max_queue_budget C < usize_limit - 1" and "relay_inv L C st"
  shows "relay_inv L C (fst (relay_ordered_rx L C src ty seq bs st))"
proof -
  define key where "key = reliable_key C src ty"
  let ?st = "relay_rx_state_mut key st"
  note i = relay_entry_inv [OF assms(2), of key]
  have "bt_wf (ry_reliable_rx st)" using assms(2) by (simp add: relay_inv_def relay_wf_def relay_buffers_ok_def)
  then have get: "bt_get (ry_reliable_rx ?st) key = Some (relay_rx_state_of key ?st)"
    using relay_entry_get by (simp add: relay_rx_state_of_def [of key ?st])
  obtain rel d' n rest where run: "release_run (seq + 1) seq (rrx_buffered (relay_rx_state_of key ?st)) = (rel, d', n, rest)"
    by (rule prod_cases4)
  obtain s r where buf: "relay_buffer_reliable_rx L C src ty seq bs ?st = (s, r)" by force
  show ?thesis
    using i relay_buffer_inv [OF assms(1) i, of src ty seq bs] relay_release_inv [OF i get run]
    unfolding relay_ordered_rx_def Let_def key_def [symmetric] buf run
    by (cases r) auto
qed

section \<open>The discovery table\<close>

lemma recompute_idem: "recompute_discovery_side_state (recompute_discovery_side_state route) = recompute_discovery_side_state route"
  by (simp add: recompute_discovery_side_state_def Let_def)

lemma sum_sort_dedup_mono:
  assumes "set xs \<subseteq> set ys"
  shows "sum_list (map f (sort_dedup xs)) \<le> (sum_list (map f (sort_dedup ys)) :: nat)"
proof -
  have "sum_list (map f (sort_dedup zs)) = sum f (set zs)" for zs
    by (subst sum_list_distinct_conv_sum_set) simp_all
  then show ?thesis using assms by (simp add: sum_mono2)
qed

lemma length_sort_dedup_mono: "set xs \<subseteq> set ys \<Longrightarrow> length (sort_dedup xs) \<le> length (sort_dedup ys)"
  by (metis List.finite_set card_mono distinct_card distinct_sort_dedup set_sort_dedup)

lemma usat_add_mono: "a \<le> a' \<Longrightarrow> b \<le> b' \<Longrightarrow> usat_add a b \<le> usat_add a' b'"
  by (auto simp: usat_add_def)

text \<open>A route that has lost announcers costs no more.\<close>

lemma prune_side_cost:
  assumes "recompute_discovery_side_state route = route"
  shows "relay_discovery_route_byte_cost L (prune_side now route) \<le> relay_discovery_route_byte_cost L route"
proof -
  let ?keep = "bt_retain (\<lambda>_ s. is_fresh now (dss_last_seen_ms s)) (dsd_announcers route)"
  have sub: "set (bt_values ?keep) \<subseteq> set (bt_values (dsd_announcers route))"
    by (auto simp: bt_values_def bt_retain_def)
  have "sum_list (map (\<lambda>(sender, st). relay_discovery_sender_byte_cost L sender st) ?keep) \<le>
      sum_list (map (\<lambda>(sender, st). relay_discovery_sender_byte_cost L sender st) (dsd_announcers route))"
    unfolding bt_retain_def by (rule total_filter_le)
  moreover have "length (sort_dedup (concat (map dss_reachable (bt_values ?keep)))) \<le>
      length (sort_dedup (concat (map dss_reachable (bt_values (dsd_announcers route)))))"
    by (rule length_sort_dedup_mono) (use sub in auto)
  moreover have "sum_list (map length (sort_dedup (concat (map dss_timesync_sources (bt_values ?keep))))) \<le>
      sum_list (map length (sort_dedup (concat (map dss_timesync_sources (bt_values (dsd_announcers route))))))"
    by (rule sum_sort_dedup_mono) (use sub in auto)
  ultimately show ?thesis
    unfolding relay_discovery_route_byte_cost_def prune_side_def
    by (subst (3 5 7) assms [symmetric])
      (simp add: recompute_discovery_side_state_def Let_def usat_add_mono)
qed

lemma relay_prune_inv:
  assumes "relay_inv L C st"
  shows "relay_inv L C (fst (relay_prune_discovery_routes now st))"
proof (rule relay_inv_mono [OF assms])
  let ?cost = "relay_discovery_route_byte_cost L" and ?m = "ry_discovery_routes st"
  let ?pruned = "map (\<lambda>(side, route). (side, prune_side now route)) ?m"
  have t: "table_summarised ?m" using assms by (simp add: relay_inv_def relay_wf_def)
  have "table_summarised (filter (\<lambda>(_, route). dsd_announcers route \<noteq> []) ?pruned)"
    by (auto simp: table_summarised_def list_all_iff bt_values_def prune_side_def recompute_idem)
  then show "relay_wf L C (fst (relay_prune_discovery_routes now st))"
    using assms by (simp add: relay_prune_discovery_routes_def Let_def relay_inv_def relay_wf_def relay_queues_wf_def)
  have "sum_list (map (?cost \<circ> snd) ?pruned) \<le> sum_list (map (?cost \<circ> snd) ?m)"
    unfolding map_map using t
    by (intro sum_list_mono) (force simp: table_summarised_def list_all_iff bt_values_def intro: prune_side_cost)
  then have "sum_list (map (?cost \<circ> snd) (filter (\<lambda>(_, route). dsd_announcers route \<noteq> []) ?pruned)) \<le>
      sum_list (map (?cost \<circ> snd) ?m)"
    using total_filter_le [of "?cost \<circ> snd" "\<lambda>(_, route). dsd_announcers route \<noteq> []" ?pruned] by linarith
  then show "relay_shared_queue_bytes_used L (fst (relay_prune_discovery_routes now st)) \<le> relay_shared_queue_bytes_used L st"
    by (simp add: relay_prune_discovery_routes_def Let_def relay_bytes_defs bt_values_def min_le_iff_disj)
qed

lemma relay_fit_result:
  "\<exists>rs. relay_fit_discovery_budget L b st = st\<lparr>ry_discovery_routes := rs\<rparr> \<and>
     (table_summarised (ry_discovery_routes st) \<longrightarrow> table_summarised rs) \<and>
     (relay_shared_queue_bytes_used L (st\<lparr>ry_discovery_routes := rs\<rparr>) \<le> b \<or> rs = [])"
proof (induction L b st rule: relay_fit_discovery_budget.induct)
  case (1 L b st)
  have keep: ?case if "relay_fit_discovery_budget L b st = st"
    "relay_shared_queue_bytes_used L st \<le> b \<or> ry_discovery_routes st = []"
    using that by (intro exI [of _ "ry_discovery_routes st"]) simp
  show ?case
  proof (cases "relay_shared_queue_bytes_used L st > b \<and> ry_discovery_routes st \<noteq> []")
    case True
    then obtain side where pop: "relay_pop_discovery_route st =
        (True, st\<lparr>ry_discovery_routes := bt_remove side (ry_discovery_routes st)\<rparr>)"
      using min_by_key_Some [of "ry_discovery_routes st" "\<lambda>(_, route). dsd_last_seen_ms route"]
      by (auto simp: relay_pop_discovery_route_def)
    have step: "relay_fit_discovery_budget L b st =
        relay_fit_discovery_budget L b (st\<lparr>ry_discovery_routes := bt_remove side (ry_discovery_routes st)\<rparr>)"
      using True by (subst relay_fit_discovery_budget.simps) (simp add: pop)
    show ?thesis
      using "1.IH" [OF _ pop [symmetric] refl] True table_remove [of "ry_discovery_routes st" side] unfolding step by auto
  next
    case False
    show ?thesis
      by (rule keep)
        (use False in \<open>auto simp: relay_fit_discovery_budget.simps [of L b st] relay_pop_discovery_route_def min_by_key_def\<close>)
  qed
qed

lemma relay_used_routes:
  "relay_shared_queue_bytes_used L (st\<lparr>ry_discovery_routes := []\<rparr>) \<le> relay_shared_queue_bytes_used L (st\<lparr>ry_discovery_routes := rs\<rparr>)"
  by (simp add: relay_bytes_defs bt_values_def)

lemma relay_fit_inv:
  assumes "relay_inv L C st" and "table_summarised rs"
  shows "relay_inv L C (relay_fit_discovery_budget L (max_queue_budget C) (st\<lparr>ry_discovery_routes := rs\<rparr>))"
  using relay_fit_result [of L "max_queue_budget C" "st\<lparr>ry_discovery_routes := rs\<rparr>"] assms
    relay_used_routes [of L st "ry_discovery_routes st"]
  by (auto simp: relay_inv_def relay_wf_def relay_queues_wf_def)

lemma relay_note_inv [simp]:
  "relay_inv L C (relay_note_topology_change now st) = relay_inv L C st"
  "relay_inv L C (relay_reconcile_acked_destinations st) = relay_inv L C st"
  by (rule relay_inv_cong, simp add: relay_note_topology_change_def relay_reconcile_acked_destinations_def)+

lemma relay_expire_inv:
  assumes "relay_inv L C st"
  shows "relay_inv L C (relay_expire L C now st)"
proof -
  obtain s b where p: "relay_prune_discovery_routes now st = (s, b)" by force
  let ?s = "if b then relay_note_topology_change now (relay_reconcile_acked_destinations s) else s"
  have "relay_inv L C s" using relay_prune_inv [OF assms, of now] p by simp
  then have "relay_inv L C ?s"
    by simp
  then have "relay_inv L C (relay_fit_discovery_budget L (max_queue_budget C) (?s\<lparr>ry_discovery_routes := ry_discovery_routes ?s\<rparr>))"
    by (intro relay_fit_inv) (auto simp: relay_inv_def relay_wf_def)
  then show ?thesis unfolding relay_expire_def p by simp
qed

lemma table_insert: "table_summarised m \<Longrightarrow> recompute_discovery_side_state r = r \<Longrightarrow> table_summarised (bt_insert side r m)"
  using set_bt_insert_subset [of side r m] by (auto simp: table_summarised_def list_all_iff bt_values_def)

lemma relay_learn_inv:
  assumes "relay_inv L E st"
  shows "relay_inv L E (fst (relay_learn_discovery_item L E now src it st))"
proof -
  have t: "table_summarised (ry_discovery_routes st)" using assms by (simp add: relay_inv_def relay_wf_def)
  have fit: "relay_inv L E (relay_fit_discovery_budget L (max_queue_budget E)
      (st\<lparr>ry_discovery_routes := bt_insert src (recompute_discovery_side_state route) (ry_discovery_routes st)\<rparr>))" for route
    by (rule relay_fit_inv [OF assms table_insert [OF t recompute_idem]])
  show ?thesis
    unfolding relay_learn_discovery_item_def Let_def
    by (auto simp: sthen_def assms split: outcome.splits option.splits prod.splits intro!: relay_prune_inv fit)
qed

section \<open>Every action\<close>

definition relay_kept :: "relay_machine \<Rightarrow> relay_inner \<Rightarrow> relay_inner \<Rightarrow> bool" where
  "relay_kept M a b \<longleftrightarrow>
     (max_queue_budget (ym_env M) < usize_limit - 1 \<longrightarrow>
      relay_inv (ym_layout M) (ym_env M) a \<longrightarrow> relay_inv (ym_layout M) (ym_env M) b)"

lemma recent_returns: "0 < max_recent_rx_ids C \<Longrightarrow> \<exists>st' r. relay_push_recent_rx L C i st = Some (st', r)"
  using trim_recent_returns [of "max_recent_rx_ids C" "ry_recent_rx st"] by (auto simp: relay_push_recent_rx_def)

interpretation kept: relay_receive "relay_kept M" M
proof
  show "relay_kept M a b" if "same_queues a b" for a b
    using relay_inv_cong [OF that, of "ym_layout M" "ym_env M"] by (simp add: relay_kept_def)
  show "relay_kept M a c" if "relay_kept M a b" "relay_kept M b c" for a b c
    using that by (simp add: relay_kept_def)
  show "\<exists>st' r. relay_push_recent_rx (ym_layout M) (ym_env M) i st = Some (st', r) \<and> relay_kept M st st'"
    if "0 < max_recent_rx_ids (ym_env M)" for i st
    using relay_recent_inv [OF _ _ that, of "ym_layout M" st i] recent_returns [OF that, of "ym_layout M" i st]
    by (auto simp: relay_kept_def)
qed (auto simp: relay_kept_def relay_push_inv relay_pop_inv relay_entry_inv relay_ordered_inv relay_learn_inv relay_expire_inv)

lemma kept_loop:
  assumes "runs (\<lambda>a b. relay_kept M (rw_inner a) (rw_inner b)) m" and "repeating m w = Some (w', r)"
  shows "relay_kept M (rw_inner w) (rw_inner w')"
proof (rule repeating_keeps [where R = "\<lambda>a b. relay_kept M (rw_inner a) (rw_inner b)", OF _ _ assms(2)])
  show "relay_kept M (rw_inner a) (rw_inner b)" if "m a = Some (b, x)" for a b x
    using runsE [OF assms(1), of a] that by (metis option.inject prod.inject)
qed (rule kept.trans)

lemma kept_action:
  assumes "runs (\<lambda>a b. relay_kept M (rw_inner a) (rw_inner b)) m" and "m w = Some (w', r)"
  shows "relay_kept M (rw_inner w) (rw_inner w')"
  using runsE [OF assms(1), of w] assms(2) by (metis option.inject prod.inject)

lemma kept_loops:
  assumes "0 < max_recent_rx_ids (ym_env M)"
  shows "relay_process_rx_queue_with_timeout M t w = Some (w', r) \<Longrightarrow> relay_kept M (rw_inner w) (rw_inner w')"
    "relay_process_tx_queue_with_timeout M t w = Some (w', r) \<Longrightarrow> relay_kept M (rw_inner w) (rw_inner w')"
    "relay_process_all_queues_with_timeout M t w = Some (w', r) \<Longrightarrow> relay_kept M (rw_inner w) (rw_inner w')"
  using kept_loop [OF kept.runs_rx_turn [OF assms]] kept_loop [OF kept.runs_tx_turn] kept_loop [OF kept.runs_all_turn [OF assms]]
  by (fastforce simp: relay_process_rx_queue_with_timeout_def relay_process_tx_queue_with_timeout_def
      relay_process_all_queues_with_timeout_def unless_side_tx_active_def ry_ask_def give_def kept.refl split: if_splits)+

section \<open>The interface\<close>

text \<open>Every call of the interface that changes the state, whatever the clock and the callbacks answer.\<close>

inductive relay_step :: "relay_machine \<Rightarrow> relay_world \<Rightarrow> relay_world \<Rightarrow> bool" for M :: relay_machine where
  step_receive: "relay_rx_from M src it w = Some (w', r) \<Longrightarrow> relay_step M w w'"
| step_rx_loop: "relay_process_rx_queue_with_timeout M t w = Some (w', r) \<Longrightarrow> relay_step M w w'"
| step_tx_loop: "relay_process_tx_queue_with_timeout M t w = Some (w', r) \<Longrightarrow> relay_step M w w'"
| step_all_loop: "relay_process_all_queues_with_timeout M t w = Some (w', r) \<Longrightarrow> relay_step M w w'"
| step_periodic: "relay_periodic M t w = Some (w', r) \<Longrightarrow> relay_step M w w'"
| step_announce: "relay_announce_discovery M w = Some (w', r) \<Longrightarrow> relay_step M w w'"
| step_poll: "relay_poll_discovery M w = Some (w', found) \<Longrightarrow> relay_step M w w'"
| step_add_side: "relay_step M w (w\<lparr>rw_inner := snd (relay_add_side handler name opts now (rw_inner w))\<rparr>)"
| step_edit: "edit \<in> {relay_remove_side (ym_layout M) side, relay_set_side_ingress_enabled side enabled,
      relay_set_side_egress_enabled (ym_layout M) side enabled, relay_set_source_route_mode src md,
      relay_set_route_weight src dst weight, relay_clear_route_weight src dst, relay_set_route_priority src dst priority,
      relay_clear_route_priority src dst, relay_set_route src dst enabled, relay_clear_route src dst,
      relay_set_typed_route (ym_env M) src ty dst enabled, relay_clear_typed_route (ym_env M) src ty dst} \<Longrightarrow>
    relay_step M w (w\<lparr>rw_inner := fst (edit now (rw_inner w))\<rparr>)"
| step_clear: "clear \<in> {relay_clear_queues, relay_clear_rx_queue, relay_clear_tx_queue} \<Longrightarrow>
    relay_step M w (w\<lparr>rw_inner := clear (rw_inner w)\<rparr>)"
| step_export: "relay_step M w (w\<lparr>rw_inner := fst (relay_export_topology (ym_env M) now (rw_inner w))\<rparr>)"

inductive relay_reachable :: "relay_machine \<Rightarrow> relay_world \<Rightarrow> bool" for M :: relay_machine where
  reach_new: "relay_new (ym_layout M) (ym_env M) = Ok w \<Longrightarrow> relay_reachable M w"
| reach_step: "relay_reachable M w \<Longrightarrow> relay_step M w w' \<Longrightarrow> relay_reachable M w'"

definition relay_layout_ok :: "relay_layout \<Rightarrow> 'z config_scheme \<Rightarrow> bool" where
  "relay_layout_ok L C \<longleftrightarrow> rl_size_rx_item L \<le> isize_max \<and> rl_size_tx_item L \<le> isize_max \<and> rl_size_replay_item L \<le> isize_max \<and>
     max_queue_budget C \<le> isize_max \<and> 1 \<le> recent_rx_queue_bytes C \<and> 0 < max_recent_rx_ids C"

lemma relay_layout_okD: "relay_layout_ok L C \<Longrightarrow> max_queue_budget C < usize_limit - 1"
  by (simp add: relay_layout_ok_def isize_max_def usize_limit_def)

lemma relay_inv_new:
  assumes "relay_layout_ok L C" and "relay_inner_new L C = Ok st"
  shows "relay_inv L C st"
proof -
  let ?r = "max (recent_rx_queue_bytes C) 1"
  have r: "?r \<le> max_queue_budget C"
    using assms(1) by (auto simp: relay_layout_ok_def recent_rx_queue_bytes_def Let_def)
  have lims: "max_queue_budget C \<le> isize_max" "rl_size_rx_item L \<le> isize_max" "rl_size_tx_item L \<le> isize_max"
    "rl_size_replay_item L \<le> isize_max" "?r \<le> isize_max" "8 \<le> isize_max"
    using assms(1) r by (auto simp: relay_layout_ok_def isize_max_def)
  obtain rx tx replay recent where
    q: "bd_new (rl_size_rx_item L) (max_queue_budget C) (starting_queue_size C) (queue_grow_step C) = (Ok rx :: (telemetry_error, _) outcome)"
      "bd_new (rl_size_tx_item L) (max_queue_budget C) (starting_queue_size C) (queue_grow_step C) = (Ok tx :: (telemetry_error, _) outcome)"
      "bd_new (rl_size_replay_item L) (max_queue_budget C) (starting_queue_size C) (queue_grow_step C) = (Ok replay :: (telemetry_error, _) outcome)"
      "bd_new 8 ?r ?r (queue_grow_step C) = (Ok recent :: (telemetry_error, _) outcome)"
    and st: "ry_rx_queue st = rx" "ry_tx_queue st = tx" "ry_replay_queue st = replay" "ry_recent_rx st = recent"
      "ry_reliable_rx st = []" "ry_discovery_routes st = []"
    using assms(2) by (auto simp: relay_inner_new_def outcome_simps)
  note w = bd_new_OkD(2) [OF q(1) lims(1,2), of "relay_rx_byte_cost L"] bd_new_OkD(2) [OF q(2) lims(1,3), of "relay_tx_byte_cost L"]
    bd_new_OkD(2) [OF q(3) lims(1,4), of replay_byte_cost] bd_new_OkD(2) [OF q(4) lims(5,6), of id_byte_cost]
  note empty = bd_new_OkD(1) [OF q(1) lims(1,2)] bd_new_OkD(1) [OF q(2) lims(1,3)] bd_new_OkD(1) [OF q(3) lims(1,4)]
  have "bd_cur_bytes rx = 0" "bd_cur_bytes tx = 0" "bd_cur_bytes replay = 0"
    using bd_wfD(1) [OF w(1)] bd_wfD(1) [OF w(2)] bd_wfD(1) [OF w(3)] by (simp_all add: empty)
  then have "relay_shared_queue_bytes_used L st \<le> max_queue_budget C"
    using r bd_new_OkD(3) [OF q(4) lims(5,6)] by (simp add: relay_bytes_defs st bt_values_def min_le_iff_disj)
  then show ?thesis
    using w by (simp add: relay_inv_def relay_wf_def relay_queues_wf_def relay_buffers_ok_def table_summarised_def st bt_values_def)
qed

lemma retain_shrinks:
  assumes "bd_wf cost esize d"
  shows "bd_wf cost esize (bd_retain cost keep d)" "bd_cur_bytes (bd_retain cost keep d) \<le> bd_cur_bytes d"
proof -
  have "total cost (filter keep (bd_q d)) \<le> total cost (bd_q d)" by (rule total_filter_le)
  then show "bd_wf cost esize (bd_retain cost keep d)" "bd_cur_bytes (bd_retain cost keep d) \<le> bd_cur_bytes d"
    using assms by (auto simp: bd_retain_set [OF assms] bd_wf_def bd_set_def intro: order_trans [OF length_filter_le])
qed

lemma retain_buffers:
  "relay_buffers_ok C m \<Longrightarrow> relay_buffers_ok C (bt_retain f m)"
  "sum_list (map buffered_bytes (bt_values (bt_retain f m))) \<le> sum_list (map buffered_bytes (bt_values m))"
  using total_filter_le [of "buffered_bytes \<circ> snd" "\<lambda>(k, v). f k v" m]
  by (auto simp: relay_buffers_ok_def bt_wf_def bt_retain_def bt_values_def list_all_iff sorted_wrt_map
      intro: sorted_wrt_filter)

lemma remove_bytes:
  "sum_list (map c (bt_values (bt_remove side m))) \<le> (sum_list (map c (bt_values m)) :: nat)"
  using total_filter_le [of "c \<circ> snd" "\<lambda>p. fst p \<noteq> side" m] by (simp add: bt_values_def bt_remove_def)

lemma relay_remove_side_inv:
  assumes "relay_inv L C st"
  shows "relay_inv L C (fst (relay_remove_side L side now st))"
proof (cases "relay_side_get st side")
  case (Some s)
  have "relay_wf L C st" using assms by (simp add: relay_inv_def)
  note w = relay_wfD [OF this]
  show ?thesis
  proof (rule relay_inv_mono [OF assms])
    show "relay_wf L C (fst (relay_remove_side L side now st))"
      using Some w by (simp add: relay_remove_side_def relay_note_topology_change_def relay_wf_def relay_queues_wf_def
          retain_shrinks retain_buffers table_remove)
    show "relay_shared_queue_bytes_used L (fst (relay_remove_side L side now st)) \<le> relay_shared_queue_bytes_used L st"
      using Some by (simp add: relay_remove_side_def relay_note_topology_change_def relay_bytes_defs)
        (intro min.coboundedI1 add_mono retain_shrinks(2) [OF w(1)] retain_shrinks(2) [OF w(2)] retain_shrinks(2) [OF w(3)]
          retain_buffers(2) remove_bytes order_refl)
  qed
qed (use assms in \<open>simp add: relay_remove_side_def\<close>)

lemma relay_egress_inv:
  assumes "relay_inv L C st"
  shows "relay_inv L C (fst (relay_set_side_egress_enabled L side enabled now st))"
proof -
  have drop: "relay_inv L C (relay_drop_queued_to L side s)" if i: "relay_inv L C s" for s
  proof -
    have w: "relay_wf L C s" using i by (simp add: relay_inv_def)
    let ?tx = "bd_retain (relay_tx_byte_cost L) (\<lambda>q. rti_dst q \<noteq> side) (ry_tx_queue s)"
    have "relay_inv L C (s\<lparr>ry_tx_queue := ?tx\<rparr>)"
      by (rule relay_shrink_inv(2) [OF i retain_shrinks [OF relay_wfD(2) [OF w]]])
    from relay_shrink_inv(3) [OF this, of "bd_retain replay_byte_cost (\<lambda>q. rpl_dst q \<noteq> side) (ry_replay_queue s)"]
    show ?thesis using retain_shrinks [OF relay_wfD(3) [OF w]] by (simp add: relay_drop_queued_to_def)
  qed
  have "relay_inv L C s" if "relay_update_side_opts side f st = Some s" for f s
    using that relay_inv_cong [of st s L C] assms by (auto simp: relay_update_side_opts_def)
  then show ?thesis using assms drop
    by (auto simp: relay_set_side_egress_enabled_def split: option.splits)
qed

lemma relay_edit_queues:
  "same_queues st (fst (relay_set_side_ingress_enabled side enabled now st))"
  "same_queues st (fst (relay_set_source_route_mode src md now st))"
  "(\<And>s. same_queues s (f s)) \<Longrightarrow> same_queues st (fst (relay_change_route src dst f now st))"
  by (auto simp: relay_set_side_ingress_enabled_def relay_update_side_opts_def relay_set_source_route_mode_def
      relay_change_route_def relay_note_topology_change_def sthen_def split: option.splits outcome.splits)

lemma relay_clear_inv:
  assumes "relay_inv L C st"
  shows "relay_inv L C (relay_clear_queues st)" "relay_inv L C (relay_clear_rx_queue st)" "relay_inv L C (relay_clear_tx_queue st)"
proof -
  have "relay_wf L C st" using assms by (simp add: relay_inv_def)
  note w = relay_wfD(1-3) [OF this, THEN clear_wf]
  have z: "bd_cur_bytes (bd_clear d) \<le> n" for d :: "'q bounded_deque" and n by (simp add: bd_clear_def)
  note rx = relay_shrink_inv(1) [OF assms w(1) z] and tx = relay_shrink_inv(2) [OF _ w(2) z]
  show "relay_inv L C (relay_clear_rx_queue st)" using rx by (simp add: relay_clear_rx_queue_def)
  show "relay_inv L C (relay_clear_queues st)" using tx [OF rx] by (simp add: relay_clear_queues_def)
  show "relay_inv L C (relay_clear_tx_queue st)"
    using relay_shrink_inv(3) [OF tx [OF assms] w(3) z] by (simp add: relay_clear_tx_queue_def)
qed

lemma relay_step_inv:
  assumes "relay_layout_ok (ym_layout M) (ym_env M)" and "relay_step M w w'"
    and i: "relay_inv (ym_layout M) (ym_env M) (rw_inner w)"
  shows "relay_inv (ym_layout M) (ym_env M) (rw_inner w')"
proof -
  note b = relay_layout_okD [OF assms(1)]
  have recent: "0 < max_recent_rx_ids (ym_env M)" using assms(1) by (simp add: relay_layout_ok_def)
  have by_kept: ?thesis if "relay_kept M (rw_inner w) (rw_inner w')" using that b i by (simp add: relay_kept_def)
  have by_same: ?thesis if "same_queues (rw_inner w) (rw_inner w')" using i relay_inv_cong [OF that] by blast
  from assms(2) show ?thesis
  proof cases
    case (step_receive src it r)
    then show ?thesis using i
      by (auto simp: relay_rx_from_def wthen_def reading_def give_def ry_on_def split: outcome.splits prod.splits)
        (metis relay_push_inv(1) [OF b i] fst_conv)
  next
    case (step_edit edit side enabled src md dst weight priority ty now)
    then consider "edit = relay_remove_side (ym_layout M) side" | "edit = relay_set_side_egress_enabled (ym_layout M) side enabled"
      | "same_queues (rw_inner w) (rw_inner w')"
      by (elim insertE; simp add: relay_edit_queues relay_set_route_weight_def relay_clear_route_weight_def relay_set_route_priority_def
          relay_clear_route_priority_def relay_set_route_def relay_clear_route_def relay_set_typed_route_def relay_clear_typed_route_def)
    then show ?thesis using step_edit relay_remove_side_inv [OF i] relay_egress_inv [OF i] by_same by cases simp_all
  next
    case (step_clear clear)
    then show ?thesis using relay_clear_inv [OF i] by auto
  next
    case (step_export now)
    then show ?thesis using relay_prune_inv [OF i, of now] by (auto simp: relay_export_topology_def Let_def split: prod.splits)
  next
    case (step_add_side handler name opts now)
    show ?thesis by (rule by_same) (simp add: step_add_side relay_add_side_def relay_note_topology_change_def)
  next
    case (step_periodic t r)
    then obtain w1 r1 where p: "relay_poll_discovery M w = Some (w1, r1)" "w' = w1 \<or> relay_process_all_queues_with_timeout M t w1 = Some (w', r)"
      by (auto simp: relay_periodic_def wthen_def split: outcome.splits bind_splits)
    show ?thesis using p kept_action [OF kept.runs_discovery(2) p(1)] kept_loops(3) [OF recent] kept.trans by_kept by blast
  qed (use by_kept kept_loops [OF recent] kept_action [OF kept.runs_discovery(1)] kept_action [OF kept.runs_discovery(2)] in blast)+
qed

lemma relay_reachable_inv:
  assumes "relay_layout_ok (ym_layout M) (ym_env M)" and "relay_reachable M w"
  shows "relay_inv (ym_layout M) (ym_env M) (rw_inner w)"
  using assms(2)
proof induction
  case (reach_new w)
  then show ?case using relay_inv_new [OF assms(1)] by (auto simp: relay_new_def outcome_simps)
qed (rule relay_step_inv [OF assms(1)])

end
