(* ===== verification/Relay_Loop_Laws.thy ===== *)
theory Relay_Loop_Laws
  imports Relay_Budget_Laws
begin

text \<open>
  The processing loops of a relay end, whatever the clock, the transmit gate and the callbacks
  answer. A turn that asks for another one has taken an item off the receive queue, or one off the
  transmit queue, or it has used up effort: the retransmissions still to come of every frame in the
  history, and those already queued.
\<close>

section \<open>Results of actions of a relay\<close>

lemma yields_ry:
  "(\<And>x. yields (f x) (w\<lparr>rw_tick := Suc (rw_tick w)\<rparr>) Q) \<Longrightarrow> yields (ry_ask q f) w Q"
  "(\<And>st x. g (rw_inner w) = (st, Ok x) \<Longrightarrow> Q (w\<lparr>rw_inner := st\<rparr>) x) \<Longrightarrow> yields (ry_on g) w Q"
  by (auto simp: yields_def ry_ask_def ry_on_def split: prod.splits)

section \<open>Lengths\<close>

definition relay_rx_shorter :: "relay_inner \<Rightarrow> relay_inner \<Rightarrow> bool" where
  "relay_rx_shorter a b \<longleftrightarrow> length (bd_q (ry_rx_queue b)) \<le> length (bd_q (ry_rx_queue a))"

definition relay_fewer :: "relay_inner \<Rightarrow> relay_inner \<Rightarrow> bool" where
  "relay_fewer a b \<longleftrightarrow> relay_rx_shorter a b \<and> length (bd_q (ry_tx_queue b)) \<le> length (bd_q (ry_tx_queue a))"

lemma pop_front_shorter: "length (bd_q (snd (pop_front cost d))) \<le> length (bd_q d)"
  by (simp add: pop_front_def split: list.splits)

lemma relay_pop_fewer:
  "relay_fewer st (snd (relay_pop_shared_queue_item L k st))"
  "length (bd_q (ry_replay_queue (snd (relay_pop_shared_queue_item L k st)))) \<le> length (bd_q (ry_replay_queue st))"
  "ry_reliable_tx (snd (relay_pop_shared_queue_item L k st)) = ry_reliable_tx st"
  by (cases k; auto simp: relay_fewer_def relay_rx_shorter_def case_prod_beta pop_front_shorter relay_pop_reliable_rx_buffered_def
      relay_pop_discovery_route_def split: option.splits)+

text \<open>Making room only takes away.\<close>

definition relay_room_less :: "relay_inner \<Rightarrow> relay_inner \<Rightarrow> bool" where
  "relay_room_less a b \<longleftrightarrow> relay_fewer a b \<and> ry_reliable_tx b = ry_reliable_tx a \<and>
     length (bd_q (ry_replay_queue b)) \<le> length (bd_q (ry_replay_queue a))"

lemma relay_room_less: "relay_room_less st (fst (relay_make_shared_queue_room L C c kind st))"
proof -
  have "relay_room_less st (fst (relay_make_room_loop L budget c kind st))" for budget
    by (rule relay_budget.loop_closed)
      (auto simp: relay_room_less_def relay_pop_fewer, auto simp: relay_fewer_def relay_rx_shorter_def)
  then show ?thesis by (simp add: relay_make_shared_queue_room_def relay_room_less_def relay_fewer_def relay_rx_shorter_def)
qed

lemma sthen_push:
  "fst (sthen m (\<lambda>_ s. case f s of (q, r) \<Rightarrow> (put q s, r))) \<in> {fst m, put (fst (f (fst m))) (fst m)}"
  by (cases m; cases "snd m") (auto split: prod.splits)

lemma relay_push_queue_shorter:
  "relay_rx_shorter st (fst (relay_push_tx L C tx st))"
  "relay_fewer st (fst (relay_push_replay L C rp st))"
  using relay_room_less [of st L C "relay_tx_byte_cost L tx" Relay_Tx]
    sthen_push [where m = "relay_make_shared_queue_room L C (relay_tx_byte_cost L tx) Relay_Tx st"
      and f = "\<lambda>s. push_back_prioritized (relay_tx_byte_cost L) (rl_size_tx_item L) rti_priority tx (ry_tx_queue s)" and put = "\<lambda>q s. s\<lparr>ry_tx_queue := q\<rparr>"]
    relay_room_less [of st L C "replay_byte_cost rp" Relay_Replay]
    sthen_push [where m = "relay_make_shared_queue_room L C (replay_byte_cost rp) Relay_Replay st"
      and f = "\<lambda>s. push_back_prioritized replay_byte_cost (rl_size_replay_item L) rpl_priority rp (ry_replay_queue s)" and put = "\<lambda>q s. s\<lparr>ry_replay_queue := q\<rparr>"]
  unfolding relay_push_tx_def [symmetric] relay_push_replay_def [symmetric]
  by (auto simp: relay_room_less_def relay_fewer_def relay_rx_shorter_def)

section \<open>Receiving leaves no more to receive\<close>

lemma relay_rx_same:
  "ry_rx_queue (relay_rx_state_mut key st) = ry_rx_queue st"
  "ry_rx_queue (relay_fit_discovery_budget L b st) = ry_rx_queue st"
  "ry_rx_queue (fst (relay_prune_discovery_routes now st)) = ry_rx_queue st"
  "ry_rx_queue (relay_reconcile_acked_destinations st) = ry_rx_queue st"
  "ry_rx_queue (relay_note_topology_change now st) = ry_rx_queue st"
  using relay_fit_result [of L b st]
  by (auto simp: relay_rx_state_mut_def relay_prune_discovery_routes_def relay_reconcile_acked_destinations_def
      relay_note_topology_change_def Let_def split: option.splits)

lemma relay_rx_learn: "ry_rx_queue (fst (relay_learn_discovery_item L E now src it st)) = ry_rx_queue st"
  unfolding relay_learn_discovery_item_def Let_def
  by (auto simp: sthen_def relay_rx_same split: outcome.splits option.splits prod.splits)

lemma relay_rx_expire: "ry_rx_queue (relay_expire L C now st) = ry_rx_queue st"
  by (simp add: relay_expire_def case_prod_beta relay_rx_same)

lemma relay_buffer_shorter: "relay_rx_shorter st (fst (relay_buffer_reliable_rx L C side ty seq bs st))"
proof -
  obtain s r where room: "relay_make_shared_queue_room L C (arc_slice_size + length bs) Relay_Rx_Buffer st = (s, r)" by force
  have "relay_rx_shorter st s"
    using relay_room_less [of st L C "arc_slice_size + length bs" Relay_Rx_Buffer] room by (simp add: relay_room_less_def relay_fewer_def)
  then show ?thesis unfolding relay_buffer_reliable_rx_def room by (cases r) (simp_all add: Let_def relay_rx_shorter_def relay_rx_same)
qed

lemma relay_ordered_shorter: "relay_rx_shorter st (fst (relay_ordered_rx L C src ty seq bs st))"
proof -
  define key where "key = reliable_key C src ty"
  have buf: "relay_rx_shorter st (fst (relay_buffer_reliable_rx L C src ty seq bs (relay_rx_state_mut key st)))"
    using relay_buffer_shorter [of "relay_rx_state_mut key st" L C src ty seq bs] by (simp add: relay_rx_shorter_def relay_rx_same)
  obtain s r where b: "relay_buffer_reliable_rx L C src ty seq bs (relay_rx_state_mut key st) = (s, r)" by force
  show ?thesis using buf unfolding relay_ordered_rx_def Let_def key_def [symmetric] b
    by (cases r) (auto simp: relay_rx_shorter_def relay_rx_same split: prod.splits)
qed

lemma relay_recent_shorter:
  assumes "relay_push_recent_rx L C i st = Some (st', r)"
  shows "relay_rx_shorter st st'"
proof -
  obtain d where d: "trim_recent (max_recent_rx_ids C) (ry_recent_rx st) = Some d"
    using assms by (auto simp: relay_push_recent_rx_def split: option.splits)
  let ?m = "relay_make_shared_queue_room L C 0 Relay_Recent (st\<lparr>ry_recent_rx := d\<rparr>)"
  have st': "st' = fst (sthen ?m (\<lambda>_ st. case push_back id_byte_cost 8 i (ry_recent_rx st) of (q, r) \<Rightarrow> (st\<lparr>ry_recent_rx := q\<rparr>, r)))"
    using assms by (auto simp: relay_push_recent_rx_def d dest: arg_cong [where f = fst])
  show ?thesis
    using relay_room_less [of "st\<lparr>ry_recent_rx := d\<rparr>" L C 0 Relay_Recent]
      sthen_push [where m = ?m
      and f = "\<lambda>s. push_back id_byte_cost 8 i (ry_recent_rx s)" and put = "\<lambda>q s. s\<lparr>ry_recent_rx := q\<rparr>"]
    unfolding st' [symmetric] by (auto simp: relay_room_less_def relay_fewer_def relay_rx_shorter_def)
qed

interpretation shorter: relay_receive relay_rx_shorter M
proof
  show "\<exists>st' r. relay_push_recent_rx (ym_layout M) (ym_env M) i st = Some (st', r) \<and> relay_rx_shorter st st'"
    if "0 < max_recent_rx_ids (ym_env M)" for i st
    using recent_returns [OF that, of "ym_layout M" i st] relay_recent_shorter by blast
qed (auto simp: relay_rx_shorter_def pop_front_shorter relay_rx_same relay_rx_learn relay_rx_expire
    relay_push_queue_shorter [unfolded relay_fewer_def relay_rx_shorter_def] relay_ordered_shorter [unfolded relay_rx_shorter_def])

interpretation fewer: relay_transmit relay_fewer M
  by unfold_locales
    (auto simp: relay_fewer_def relay_rx_shorter_def pop_front_shorter relay_push_queue_shorter(2) [unfolded relay_fewer_def relay_rx_shorter_def])

section \<open>Effort\<close>

text \<open>The retransmissions a frame in the history may still cause, one history, all of them.\<close>

abbreviation retries_left :: "u32 \<Rightarrow> reliable_sent \<Rightarrow> nat" where
  "retries_left N s \<equiv> unat N - unat (sent_retries s)"

definition history_effort :: "u32 \<Rightarrow> reliable_tx_state \<Rightarrow> nat" where
  "history_effort N tx = (\<Sum>k\<in>set (bt_keys (rtx_sent tx)). retries_left N (the (bt_get (rtx_sent tx) k)))"

definition relay_effort :: "u32 \<Rightarrow> relay_inner \<Rightarrow> nat" where
  "relay_effort N st = sum_list (map (history_effort N) (bt_values (ry_reliable_tx st))) + length (bd_q (ry_replay_queue st))"

lemma get_modify: "bt_get (bt_modify key f m) k = (if k = key then map_option f (bt_get m k) else bt_get m k)"
  by (induction m) (auto simp: bt_get_def bt_modify_def)

lemma keys_modify: "bt_keys (bt_modify key f m) = bt_keys m"
  by (induction m) (auto simp: bt_keys_def bt_modify_def)

lemma get_of_key: "k \<in> set (bt_keys m) \<Longrightarrow> \<exists>v. bt_get m k = Some v"
  by (induction m) (auto simp: bt_keys_def bt_get_def)

lemma history_effort_modify:
  assumes "\<And>v. retries_left N (f v) = retries_left N v"
  shows "history_effort N (tx\<lparr>rtx_sent := bt_modify seq f (rtx_sent tx)\<rparr>) = history_effort N tx"
  unfolding history_effort_def using assms
  by (auto simp: keys_modify get_modify intro!: sum.cong dest!: get_of_key)

lemma history_effort_less:
  assumes "bt_get (rtx_sent tx) seq = Some s" and "Suc (retries_left N (f s)) \<le> retries_left N s"
  shows "Suc (history_effort N (tx\<lparr>rtx_sent := bt_modify seq f (rtx_sent tx)\<rparr>)) \<le> history_effort N tx"
proof -
  let ?m = "rtx_sent tx" and ?K = "set (bt_keys (rtx_sent tx))"
  have "seq \<in> ?K" using assms(1) by (force simp: bt_get_def bt_keys_def dest: map_of_SomeD)
  then have split: "(\<Sum>k\<in>?K. g k) = g seq + (\<Sum>k\<in>?K - {seq}. g k)" for g :: "u32 \<Rightarrow> nat" by (simp add: sum.remove)
  have "(\<Sum>k\<in>?K - {seq}. retries_left N (the (bt_get (bt_modify seq f ?m) k))) = (\<Sum>k\<in>?K - {seq}. retries_left N (the (bt_get ?m k)))"
    by (rule sum.cong) (auto simp: get_modify)
  then show ?thesis using assms by (simp add: history_effort_def keys_modify split get_modify)
qed

lemma get_remove: "k \<noteq> seq \<Longrightarrow> bt_get (bt_remove seq m) k = bt_get m k"
  by (induction m) (auto simp: bt_get_def bt_remove_def)

lemma keys_remove: "set (bt_keys (bt_remove seq m)) = set (bt_keys m) - {seq}"
  by (auto simp: bt_keys_def bt_remove_def)

lemma timeout_entry_effort:
  assumes "timeout_entry C now seq tx = (tx', again)"
  shows "history_effort (reliable_max_retries C) tx' + (if again then 1 else 0) \<le> history_effort (reliable_max_retries C) tx"
proof -
  let ?N = "reliable_max_retries C" and ?m = "rtx_sent tx"
  consider (keep) "tx' = tx" "\<not> again"
    | (drop) "rtx_sent tx' = bt_remove seq ?m" "\<not> again"
    | (retry) s where "bt_get ?m seq = Some s" "sent_retries s < ?N" again
        "tx' = tx\<lparr>rtx_sent := bt_modify seq (\<lambda>s. s\<lparr>sent_retries := sent_retries s + 1\<rparr>) ?m\<rparr>"
    using assms by (auto simp: timeout_entry_def not_le split: option.splits if_splits)
  then show ?thesis
  proof cases
    case drop
    have "history_effort ?N tx' = (\<Sum>k\<in>set (bt_keys ?m) - {seq}. retries_left ?N (the (bt_get ?m k)))"
      unfolding history_effort_def drop by (intro sum.cong) (auto simp: get_remove keys_remove)
    also have "\<dots> \<le> history_effort ?N tx" unfolding history_effort_def by (rule sum_mono2) auto
    finally show ?thesis using drop by simp
  next
    case (retry s)
    have "sent_retries s \<noteq> - 1" using retry(2) by (metis word_order.not_eq_extremum word_order.extremum less_le_trans)
    then have "unat (sent_retries s + 1) = Suc (unat (sent_retries s))"
      by (simp add: unatSuc eq_neg_iff_add_eq_0 add.commute)
    then show ?thesis
      using history_effort_less [OF retry(1), of ?N "\<lambda>s. s\<lparr>sent_retries := sent_retries s + 1\<rparr>"] retry
      by (simp add: word_less_nat_alt)
  qed simp
qed

lemma timeout_scan_effort:
  "timeout_scan C now seqs tx = (tx', q) \<Longrightarrow>
   history_effort (reliable_max_retries C) tx' + length q \<le> history_effort (reliable_max_retries C) tx"
proof (induction seqs arbitrary: tx tx' q)
  case (Cons seq seqs)
  obtain tx1 again where one: "timeout_entry C now seq tx = (tx1, again)" by force
  obtain q1 where rest: "timeout_scan C now seqs tx1 = (tx', q1)" "q = (if again then seq # q1 else q1)"
    using Cons.prems one by (auto split: prod.splits)
  show ?case using timeout_entry_effort [OF one] Cons.IH [OF rest(1)] rest(2) by (auto split: if_splits)
qed simp

lemma timeout_streams_effort:
  "timeout_streams C now m = (m', q) \<Longrightarrow>
   sum_list (map (history_effort (reliable_max_retries C)) (bt_values m')) + length q \<le>
   sum_list (map (history_effort (reliable_max_retries C)) (bt_values m))"
proof (induction C now m arbitrary: m' q rule: timeout_streams.induct)
  case (2 C now side ty_raw tx m)
  obtain m1 q1 where rest: "timeout_streams C now m = (m1, q1)" by force
  note IH = "2.IH" [OF rest]
  show ?case
  proof (cases "data_type_try_from_u32 C ty_raw")
    case None
    then show ?thesis using "2.prems" IH rest by (auto simp: bt_values_def)
  next
    case (Some ty)
    obtain tx1 q2 where scan: "timeout_scan C now (rtx_sent_order tx) tx = (tx1, q2)" by force
    show ?thesis using "2.prems" Some rest scan IH timeout_scan_effort [OF scan] by (auto simp: bt_values_def)
  qed
qed (simp add: bt_values_def)

lemma push_prioritized_length: "length (bd_q (fst (push_back_prioritized cost esize prio v d))) \<le> Suc (length (bd_q d))"
proof -
  have evict: "length (bd_q (fst (evict_back cost prio c p d))) \<le> length (bd_q d)" for c p d
    by (induction cost prio c p d rule: evict_back.induct)
      (subst evict_back.simps, auto simp: pop_back_def Let_def split: if_splits intro: order_trans)
  have room: "ensure_room_for_one cost esize d = Ok d' \<Longrightarrow> length (bd_q d') \<le> length (bd_q d)" for d d'
    by (auto simp: ensure_room_for_one_def reserve_exact_def Let_def pop_front_shorter split: if_splits)
  obtain d1 r1 where e: "evict_back cost prio (cost v) (prio v) d = (d1, r1)" by force
  let ?d2 = "if length (bd_q d1) \<ge> bd_max_elems d1 then snd (pop_back cost d1) else d1"
  have "length (bd_q d1) \<le> length (bd_q d)" using evict [of "cost v" "prio v" d] e by simp
  moreover have "length (bd_q ?d2) \<le> length (bd_q d1)" by (simp add: pop_back_def Let_def)
  moreover have "length (bd_q (bd_insert_at esize i v d')) = Suc (length (bd_q d'))" for i d'
    by (simp add: bd_insert_at_def)
  ultimately show ?thesis using room [of ?d2] e
    by (auto simp: push_back_prioritized_def Let_def split: outcome.splits)
qed

text \<open>Queueing a retransmission adds one item and changes no count of retries.\<close>

lemma relay_effort_push: "relay_effort N (fst (relay_push_replay L C it st)) \<le> Suc (relay_effort N st)"
proof -
  let ?m = "relay_make_shared_queue_room L C (replay_byte_cost it) Relay_Replay st"
  let ?q = "push_back_prioritized replay_byte_cost (rl_size_replay_item L) rpl_priority it (ry_replay_queue (fst ?m))"
  have "relay_room_less st (fst ?m)" by (rule relay_room_less)
  moreover have "length (bd_q (fst ?q)) \<le> Suc (length (bd_q (ry_replay_queue (fst ?m))))" by (rule push_prioritized_length)
  moreover have "fst (relay_push_replay L C it st) \<in> {fst ?m, (fst ?m)\<lparr>ry_replay_queue := fst ?q\<rparr>}"
    unfolding relay_push_replay_def by (rule sthen_push)
  ultimately show ?thesis by (auto simp: relay_effort_def relay_room_less_def)
qed

lemma relay_effort_entry: "relay_effort N (relay_tx_state_mut key st) \<le> relay_effort N st"
  using total_bt_insert [of "history_effort N" key tx_state_new "ry_reliable_tx st"]
  by (auto simp: relay_tx_state_mut_def relay_effort_def bt_values_def history_effort_def tx_state_new_def bt_keys_def split: option.splits)

lemma relay_effort_update:
  assumes "\<And>tx. history_effort N (f tx) \<le> history_effort N tx"
  shows "relay_effort N (relay_update_tx_state key f st) \<le> relay_effort N st"
  using relay_effort_entry [of N key st]
    sum_modify_le [of "history_effort N" f key "ry_reliable_tx (relay_tx_state_mut key st)", OF assms]
  by (simp add: relay_update_tx_state_def Let_def relay_effort_def)

lemma relay_effort_retransmit:
  "relay_effort N (fst (relay_queue_reliable_retransmit L E side ty seq st)) \<le> Suc (relay_effort N st)"
proof -
  define key where "key = reliable_key E side ty"
  let ?f = "\<lambda>tx. tx\<lparr>rtx_sent := bt_modify seq (\<lambda>s. s\<lparr>sent_queued := True, sent_partial_acked := False\<rparr>) (rtx_sent tx)\<rparr>"
  have "relay_effort N (relay_update_tx_state key ?f s) \<le> relay_effort N s" for s
    by (rule relay_effort_update) (simp add: history_effort_modify)
  then show ?thesis
    using relay_effort_entry [of N key st] relay_effort_push [of N L E]
    unfolding relay_queue_reliable_retransmit_def Let_def key_def [symmetric]
    by (auto split: option.splits) (meson Suc_le_mono le_SucI le_trans)+
qed

lemma relay_effort_requeue: "relay_effort N (fst (relay_requeue_all L E q st)) \<le> relay_effort N st + length q"
proof (induction q arbitrary: st)
  case (Cons e q)
  obtain side ty seq where e: "e = (side, ty, seq)" by (cases e)
  obtain s r where m: "relay_queue_reliable_retransmit L E side ty seq st = (s, r)" by force
  show ?case
    using relay_effort_retransmit [of N L E side ty seq st] Cons.IH [of s] m by (cases r) (auto simp: e)
qed simp

lemma relay_effort_timeouts:
  "relay_effort (reliable_max_retries E) (fst (relay_process_reliable_timeouts L E now st)) \<le> relay_effort (reliable_max_retries E) st"
proof -
  obtain m q where t: "timeout_streams E now (ry_reliable_tx st) = (m, q)" by force
  show ?thesis
    using timeout_streams_effort [OF t] relay_effort_requeue [of "reliable_max_retries E" L E q "st\<lparr>ry_reliable_tx := m\<rparr>"]
    by (simp add: relay_process_reliable_timeouts_def t relay_effort_def)
qed

section \<open>A turn\<close>

definition relay_calmer :: "relay_machine \<Rightarrow> relay_inner \<Rightarrow> relay_inner \<Rightarrow> bool" where
  "relay_calmer M a b \<longleftrightarrow> relay_fewer a b \<and>
     relay_effort (reliable_max_retries (ym_env M)) b \<le> relay_effort (reliable_max_retries (ym_env M)) a"

interpretation calmer: relay_quiet "relay_calmer M"
  by unfold_locales
    (auto simp: relay_calmer_def relay_fewer_def relay_rx_shorter_def relay_record_side_tx_sample_def Let_def relay_effort_def)

lemma calmer_timeouts: "runs (\<lambda>a b. relay_calmer M (rw_inner a) (rw_inner b)) (relay_timeouts M)"
  unfolding relay_timeouts_def
  by (intro calmer.runs_ry_ask calmer.runs_ry_on) (simp add: relay_calmer_def relay_effort_timeouts fewer.timeouts)

lemma calmer_update:
  assumes "\<And>v. retries_left (reliable_max_retries (ym_env M)) (f v) = retries_left (reliable_max_retries (ym_env M)) v"
  shows "relay_calmer M st (relay_update_tx_state key (\<lambda>tx. tx\<lparr>rtx_sent := bt_modify seq f (rtx_sent tx)\<rparr>) st)"
  unfolding relay_calmer_def
  by (intro conjI fewer.neutral relay_effort_update) (simp_all add: history_effort_modify [OF assms])

text \<open>A retransmission that is sent has left the queue.\<close>

lemma replay_turn:
  fixes w :: relay_world
  shows "yields (relay_process_replay_queue_item M) w (\<lambda>w' replayed. relay_calmer M (rw_inner w) (rw_inner w') \<and>
     (replayed \<longrightarrow> relay_effort (reliable_max_retries (ym_env M)) (rw_inner w') < relay_effort (reliable_max_retries (ym_env M)) (rw_inner w)))"
    (is "yields _ w ?Q")
proof -
  let ?N = "reliable_max_retries (ym_env M)"
  define taken where "taken b \<longleftrightarrow> relay_fewer (rw_inner w) b \<and> Suc (relay_effort ?N b) \<le> relay_effort ?N (rw_inner w)" for b
  have calm: "taken b \<Longrightarrow> relay_calmer M b c \<Longrightarrow> taken c" for b c
    by (auto simp: taken_def relay_calmer_def relay_fewer_def relay_rx_shorter_def)
  have fin: "?Q w' x" if "taken (rw_inner w')" for w' x
    using that by (simp add: taken_def relay_calmer_def)
  have pop: "yields relay_pop_replay w (\<lambda>w' v. case v of None \<Rightarrow> w' = w | Some _ \<Rightarrow> taken (rw_inner w'))"
    unfolding relay_pop_replay_def
    by (rule yields_ry) (auto simp: pop_front_def taken_def relay_fewer_def relay_rx_shorter_def relay_effort_def split: list.splits)
  have again: "?Q w'' False" if "taken (rw_inner w')" "rw_inner w'' = fst (relay_push_replay (ym_layout M) (ym_env M) item (rw_inner w'))"
    for w' w'' :: relay_world and item
    using that relay_effort_push [of ?N "ym_layout M" "ym_env M" item "rw_inner w'"] fewer.push_replay [of "rw_inner w'" M item]
    by (auto simp: taken_def relay_calmer_def relay_fewer_def relay_rx_shorter_def)
  have sent: "yields (catching
        (wthen (relay_send_reliable_raw_to_side M (rpl_dst item) (rpl_bytes item)) (\<lambda>_. ry_now M (\<lambda>now_ms. ry_on (\<lambda>st.
          (relay_update_tx_state key (\<lambda>tx. tx\<lparr>rtx_sent :=
             bt_modify seq (\<lambda>s. s\<lparr>sent_last_send_ms := now_ms, sent_queued := False\<rparr>) (rtx_sent tx)\<rparr>) st, Ok True)))))
        (\<lambda>e. if is_side_tx_busy e
             then wthen (ry_on (relay_push_replay (ym_layout M) (ym_env M) item)) (\<lambda>_. give (Ok False))
             else give (Err e))) w1 ?Q" (is "yields (catching ?m ?h) w1 ?Q") if t: "taken (rw_inner w1)" for item key seq w1
  proof (rule yields_catching)
    show m: "runs (\<lambda>a b. relay_calmer M (rw_inner a) (rw_inner b)) ?m"
      by (intro calmer.runs_raw calmer.quiet_rules calmer.runs_ry_on) (simp add: calmer_update)
    show "yields ?m w1 ?Q" by (rule yields_mono [OF yields_runs [OF m]]) (use t calm fin in blast)
    fix w2 :: relay_world and e
    assume "relay_calmer M (rw_inner w1) (rw_inner w2)"
    then have t2: "taken (rw_inner w2)" using t calm by blast
    show "yields (?h e) w2 ?Q"
      by (intro yields_cases yields_wthen [where P = "\<lambda>w' _. ?Q w' False"] yields_ry(2) yields_give again [where item = item, OF t2]) auto
  qed
  have keep: "yields (give r) w1 (\<lambda>w' _. taken (rw_inner w'))" if "taken (rw_inner w1)" for w1 and r :: "'q telemetry_result"
    using that by (simp add: yields_def give_def)
  have entry: "yields (ry_on (\<lambda>st. let st = relay_tx_state_mut key st in (st, Ok (g st)))) w1 (\<lambda>w' _. taken (rw_inner w'))"
    if "taken (rw_inner w1)" for w1 key and g :: "relay_inner \<Rightarrow> bool"
    by (rule yields_ry(2)) (use that relay_effort_entry [of ?N key "rw_inner w1"] update_tx_queues(2) [of key "rw_inner w1"] in
      \<open>auto simp: Let_def taken_def relay_fewer_def relay_rx_shorter_def\<close>)
  show ?thesis
    unfolding relay_process_replay_queue_item_def
  proof (rule yields_wthen [OF pop], rule yields_cases(2), goal_cases)
    case (1 w1 v)
    then show ?case by (intro yields_give) (simp add: calmer.refl)
  next
    case (2 w1 v item)
    then have t: "taken (rw_inner w1)" by simp
    show ?case
      by (rule yields_wthen [OF keep [OF t]])
        (auto simp: Let_def [of "reliable_key _ _ _"] split: option.splits intro!: yields_give yields_wthen [OF entry] sent fin)
  qed
qed

section \<open>The loops\<close>

definition relay_rank :: "relay_machine \<Rightarrow> relay_world \<Rightarrow> nat \<times> nat \<times> nat" where
  "relay_rank M w = (length (bd_q (ry_rx_queue (rw_inner w))), length (bd_q (ry_tx_queue (rw_inner w))),
     relay_effort (reliable_max_retries (ym_env M)) (rw_inner w))"

definition relay_progress :: "relay_machine \<Rightarrow> (relay_world \<times> relay_world) set" where
  "relay_progress M = inv_image (less_than <*lex*> less_than <*lex*> less_than) (relay_rank M)"

lemma wf_relay_progress: "wf (relay_progress M)"
  unfolding relay_progress_def by (intro wf_inv_image wf_lex_prod wf_less_than)

lemma progress_rx:
  "length (bd_q (ry_rx_queue (rw_inner w'))) < length (bd_q (ry_rx_queue (rw_inner w))) \<Longrightarrow> (w', w) \<in> relay_progress M"
  by (simp add: relay_progress_def relay_rank_def)

lemma progress_tx:
  "relay_fewer (rw_inner w) (rw_inner w') \<Longrightarrow>
   length (bd_q (ry_tx_queue (rw_inner w'))) < length (bd_q (ry_tx_queue (rw_inner w))) \<Longrightarrow> (w', w) \<in> relay_progress M"
  by (auto simp: relay_progress_def relay_rank_def relay_fewer_def relay_rx_shorter_def)

lemma progress_effort:
  "relay_calmer M (rw_inner w) (rw_inner w') \<Longrightarrow>
   relay_effort (reliable_max_retries (ym_env M)) (rw_inner w') < relay_effort (reliable_max_retries (ym_env M)) (rw_inner w) \<Longrightarrow>
   (w', w) \<in> relay_progress M"
  by (auto simp: relay_progress_def relay_rank_def relay_calmer_def relay_fewer_def relay_rx_shorter_def)

lemma same_time:
  "yields (relay_in_time M t start) w (\<lambda>w' _. rw_inner w' = rw_inner w)"
  by (auto simp: relay_in_time_def yields_def give_def ry_ask_def)

lemma in_time_zero: "relay_in_time M 0 start = give (Ok True)"
  by (simp add: relay_in_time_def)

lemma pop_rx_turn:
  fixes w :: relay_world
  shows "yields (relay_pop_rx M) w (\<lambda>w' popped. case popped of
     None \<Rightarrow> w' = w \<and> bd_q (ry_rx_queue (rw_inner w)) = []
   | Some _ \<Rightarrow> length (bd_q (ry_rx_queue (rw_inner w'))) < length (bd_q (ry_rx_queue (rw_inner w))))"
  unfolding relay_pop_rx_def by (rule yields_ry) (auto simp: pop_front_def split: list.splits)

lemma pop_tx_turn:
  fixes w :: relay_world
  shows "yields (relay_pop_ready_tx_item M) w (\<lambda>w' popped. rw_inner w' = rw_inner w \<and> popped = None \<or>
     relay_fewer (rw_inner w) (rw_inner w') \<and> length (bd_q (ry_tx_queue (rw_inner w'))) < length (bd_q (ry_tx_queue (rw_inner w))))"
  unfolding relay_pop_ready_tx_item_def
  by (rule yields_ry) (auto simp: pop_front_def relay_fewer_def relay_rx_shorter_def split: list.splits prod.splits option.splits)

text \<open>A turn of the receive loop that goes on has shortened the receive queue; without a timeout it stops only at an empty one.\<close>

lemma rx_turn:
  fixes w :: relay_world
  assumes "0 < max_recent_rx_ids (ym_env M)"
  shows "yields (relay_rx_turn M t start) w (\<lambda>w' go_on. if go_on then (w', w) \<in> relay_progress M
     else t = 0 \<longrightarrow> bd_q (ry_rx_queue (rw_inner w')) = [])"
  unfolding relay_rx_turn_def
proof (rule yields_wthen [OF pop_rx_turn], rule yields_cases(2), goal_cases)
  case (2 w1 v item)
  show ?case
  proof (rule yields_wthen [OF yields_runs [OF shorter.runs_rx_item [OF assms]]])
    fix w2 :: relay_world and x :: unit
    assume "relay_rx_shorter (rw_inner w1) (rw_inner w2)"
    with 2 have "(w', w) \<in> relay_progress M" if "rw_inner w' = rw_inner w2" for w'
      using that by (intro progress_rx) (simp add: relay_rx_shorter_def)
    then show "yields (relay_in_time M t start) w2 (\<lambda>w' go_on. if go_on then (w', w) \<in> relay_progress M
        else t = 0 \<longrightarrow> bd_q (ry_rx_queue (rw_inner w')) = [])"
      by (cases "t = 0") (auto simp: in_time_zero intro!: yields_give yields_mono [OF same_time])
  qed
qed (auto intro: yields_give)

lemma calmer_trans: "relay_calmer M a b \<Longrightarrow> relay_calmer M b c \<Longrightarrow> relay_calmer M a c"
  by (rule calmer.trans)

lemma replayed_turn:
  fixes w :: relay_world
  assumes "relay_calmer M (rw_inner w) (rw_inner w1)"
  shows "yields (relay_process_replay_queue_item M) w1 (\<lambda>w' replayed. relay_calmer M (rw_inner w) (rw_inner w') \<and>
    (replayed \<longrightarrow> relay_effort (reliable_max_retries (ym_env M)) (rw_inner w') <
       relay_effort (reliable_max_retries (ym_env M)) (rw_inner w)))"
  using assms by (intro yields_mono [OF replay_turn]) (auto simp: relay_calmer_def relay_fewer_def relay_rx_shorter_def)

lemma pop_tx_turn_from:
  fixes w :: relay_world
  assumes "relay_calmer M (rw_inner w) (rw_inner w1)"
  shows "yields (relay_pop_ready_tx_item M) w1 (\<lambda>w' popped. rw_inner w' = rw_inner w1 \<and> popped = None \<or>
     relay_fewer (rw_inner w) (rw_inner w') \<and> length (bd_q (ry_tx_queue (rw_inner w'))) < length (bd_q (ry_tx_queue (rw_inner w))))"
  using assms by (intro yields_mono [OF pop_tx_turn]) (auto simp: relay_calmer_def relay_fewer_def relay_rx_shorter_def)

lemma progress_tx_from:
  assumes "relay_fewer (rw_inner w) (rw_inner w1) \<and>
      length (bd_q (ry_tx_queue (rw_inner w1))) < length (bd_q (ry_tx_queue (rw_inner w)))"
    and "relay_fewer (rw_inner w1) (rw_inner w')"
  shows "(w', w) \<in> relay_progress M"
  using assms by (intro progress_tx) (auto simp: relay_fewer_def relay_rx_shorter_def)

lemma tx_turn:
  fixes w :: relay_world
  shows "yields (relay_tx_turn M t start) w (\<lambda>w' go_on. if go_on then (w', w) \<in> relay_progress M else True)"
    (is "yields _ w ?Q")
  unfolding relay_tx_turn_def
proof (rule yields_wthen [OF yields_runs [OF calmer_timeouts]], rule yields_wthen [OF replayed_turn], assumption,
    rule yields_cases(1), goal_cases)
  case (1 w1 _ w2 replayed)
  then have "?Q w' x" if "rw_inner w' = rw_inner w2" for w' x
    using that progress_effort [of M w w'] by simp
  then show ?case by (intro yields_mono [OF same_time]) blast
next
  case (2 w1 _ w2 replayed)
  show ?case
  proof (rule yields_wthen [OF pop_tx_turn_from], use 2 in blast, rule yields_cases(2), goal_cases)
    case (2 w3 popped e)
    then have p: "relay_fewer (rw_inner w) (rw_inner w3) \<and>
        length (bd_q (ry_tx_queue (rw_inner w3))) < length (bd_q (ry_tx_queue (rw_inner w)))" by auto
    obtain item s where e: "e = (item, s)" by (cases e)
    show ?case unfolding e prod.case
    proof (rule yields_catching)
      let ?m = "wthen (relay_send_tx_item M (rti_src item) (rti_dst item) (side_tx_handler s) (side_opts s) (rti_data item))
        (\<lambda>sent. if sent then relay_in_time M t start else give (Ok True))"
      show m: "runs (\<lambda>a b. relay_fewer (rw_inner a) (rw_inner b)) ?m"
        by (intro fewer.runs_send fewer.runs_in_time fewer.quiet_rules)
      show "yields ?m w3 ?Q" by (rule yields_mono [OF yields_runs [OF m]]) (use progress_tx_from [OF p] in simp)
    qed (intro yields_cases yields_wthen [where P = "\<lambda>_ _. True"] yields_ry(2) yields_give; simp)
  qed (auto intro: yields_give)
qed

text \<open>The second half of a turn of the joint loop.\<close>

lemma transmit_half:
  fixes w :: relay_world
  assumes "relay_calmer M (rw_inner w) (rw_inner w1)"
  shows "yields (wthen (relay_process_replay_queue_item M) (\<lambda>replayed.
      wthen (relay_pop_ready_tx_item M) (\<lambda>ready.
      wthen (case ready of
               Some (item, s) \<Rightarrow>
                 relay_send_tx_item M (rti_src item) (rti_dst item) (side_tx_handler s) (side_opts s) (rti_data item)
             | None \<Rightarrow> give (Ok False)) (\<lambda>sent.
      wthen (relay_in_time M t start) (\<lambda>in_time. give (Ok (in_time \<and> (False \<or> replayed \<or> sent)))))))) w1
    (\<lambda>w' go_on. if go_on then (w', w) \<in> relay_progress M else True)" (is "yields _ w1 ?Q")
proof (rule yields_wthen [OF replayed_turn [OF assms]], rule yields_wthen [OF pop_tx_turn_from], blast, goal_cases)
  case (1 w2 replayed w3 ready)
  let ?send = "case ready of
      Some (item, s) \<Rightarrow> relay_send_tx_item M (rti_src item) (rti_dst item) (side_tx_handler s) (side_opts s) (rti_data item)
    | None \<Rightarrow> give (Ok False)"
  let ?tail = "\<lambda>sent. wthen (relay_in_time M t start) (\<lambda>in_time. give (Ok (in_time \<and> (False \<or> replayed \<or> sent))))"
  show ?case
  proof (cases "rw_inner w3 = rw_inner w2 \<and> ready = None")
    case True
    then have "?Q w' (in_time \<and> replayed)" if "rw_inner w' = rw_inner w3" for w' in_time
      using that 1 progress_effort [of M w w'] by simp
    then show ?thesis using True
      by (auto simp: wthen_give intro!: yields_wthen [OF same_time] yields_give)
  next
    case False
    then have p: "relay_fewer (rw_inner w) (rw_inner w3) \<and>
        length (bd_q (ry_tx_queue (rw_inner w3))) < length (bd_q (ry_tx_queue (rw_inner w)))" using 1 by auto
    have "runs (\<lambda>a b. relay_fewer (rw_inner a) (rw_inner b)) (wthen ?send ?tail)"
      by (intro fewer.runs_send fewer.runs_in_time fewer.quiet_rules)
    then show ?thesis by (rule yields_mono [OF yields_runs]) (use progress_tx_from [OF p] in simp)
  qed
qed

lemma all_turn:
  fixes w :: relay_world
  assumes "0 < max_recent_rx_ids (ym_env M)"
  shows "yields (relay_all_turn M t start) w (\<lambda>w' go_on. if go_on then (w', w) \<in> relay_progress M else True)"
    (is "yields _ w ?Q")
  unfolding relay_all_turn_def
proof (rule yields_wthen [OF yields_runs [OF calmer_timeouts]], rule yields_wthen [OF pop_rx_turn], goal_cases)
  case (1 w1 _ w2 popped)
  show ?case
  proof (cases popped)
    case (Some item)
    have "length (bd_q (ry_rx_queue (rw_inner w2))) < length (bd_q (ry_rx_queue (rw_inner w)))"
      using 1 Some by (auto simp: relay_calmer_def relay_fewer_def relay_rx_shorter_def)
    then have "?Q w' go_on" if "relay_rx_shorter (rw_inner w2) (rw_inner w')" for w' go_on
      using that progress_rx [of w' w] by (simp add: relay_rx_shorter_def)
    then show ?thesis
      by (intro yields_mono [OF yields_runs [where R = "\<lambda>a b. relay_rx_shorter (rw_inner a) (rw_inner b)"]]
          shorter.runs_rx_item [OF assms] shorter.runs_in_time shorter.runs_replay shorter.runs_pop_ready shorter.runs_send
          shorter.quiet_rules)
  next
    case None
    then have w2: "w2 = w1" using 1 by simp
    show ?thesis unfolding None option.case w2 wthen_give
    proof (rule yields_wthen [OF same_time], rule yields_cases(1), goal_cases)
      case (2 w3 in_time)
      then have "relay_calmer M (rw_inner w) (rw_inner w3)" using 1(1) by simp
      from transmit_half [OF this, of t start] show ?case by simp
    qed (auto intro: yields_give)
  qed
qed

lemma relay_loops_yield:
  assumes "0 < max_recent_rx_ids (ym_env M)"
  shows "yields (relay_process_rx_queue_with_timeout M t) w (\<lambda>w' _. t = 0 \<longrightarrow> bd_q (ry_rx_queue (rw_inner w')) = [])"
    "yields (relay_process_tx_queue_with_timeout M t) w (\<lambda>_ _. True)"
    "yields (relay_process_all_queues_with_timeout M t) w (\<lambda>_ _. True)"
proof -
  note loop = repeating_yields [OF wf_relay_progress [of M]]
  note rules = yields_ry(1) yields_cases(1) yields_give TrueI
  show "yields (relay_process_rx_queue_with_timeout M t) w (\<lambda>w' _. t = 0 \<longrightarrow> bd_q (ry_rx_queue (rw_inner w')) = [])"
    unfolding relay_process_rx_queue_with_timeout_def by (intro yields_ry(1) loop rx_turn [OF assms])
  show "yields (relay_process_tx_queue_with_timeout M t) w (\<lambda>_ _. True)"
    unfolding relay_process_tx_queue_with_timeout_def unless_side_tx_active_def by (intro rules loop tx_turn)
  show "yields (relay_process_all_queues_with_timeout M t) w (\<lambda>_ _. True)"
    unfolding relay_process_all_queues_with_timeout_def unless_side_tx_active_def by (intro rules loop all_turn [OF assms])
qed

end
