(* ===== verification/Relay_Route_Laws.thy ===== *)
theory Relay_Route_Laws
  imports Relay_Loop_Laws Router_Route_Laws
begin

text \<open>
  Where a relay sends: its route policy as that of a router, the sides of a plan, the sides left out
  because their boards have acknowledged, the callbacks a queued item causes, and the id cache that keeps
  a packet from being forwarded twice.
\<close>

section \<open>The policy of a router\<close>

text \<open>A router state with the sides, policy, measurements and routes of a relay.\<close>

definition policy_view :: "router_inner \<Rightarrow> relay_inner \<Rightarrow> router_inner" where
  "policy_view base st =
     base\<lparr>sides := ry_sides st, route_overrides := ry_route_overrides st, typed_route_overrides := ry_typed_route_overrides st,
          route_weights := ry_route_weights st, route_priorities := ry_route_priorities st,
          source_route_modes := ry_source_route_modes st, route_selection_cursors := ry_route_selection_cursors st,
          route_stats := ry_route_stats st, discovery_routes := ry_discovery_routes st,
          discovery_cadence := ry_discovery_cadence st\<rparr>"

lemma view_fields [simp]:
  "sides (policy_view base st) = ry_sides st" "route_overrides (policy_view base st) = ry_route_overrides st"
  "typed_route_overrides (policy_view base st) = ry_typed_route_overrides st"
  "route_weights (policy_view base st) = ry_route_weights st" "route_priorities (policy_view base st) = ry_route_priorities st"
  "source_route_modes (policy_view base st) = ry_source_route_modes st"
  "route_selection_cursors (policy_view base st) = ry_route_selection_cursors st"
  "route_stats (policy_view base st) = ry_route_stats st" "discovery_routes (policy_view base st) = ry_discovery_routes st"
  "discovery_cadence (policy_view base st) = ry_discovery_cadence st"
  by (simp_all add: policy_view_def)

lemma view_side [simp]: "side_get (policy_view base st) side = relay_side_get st side"
  by (simp add: side_get_def relay_side_get_def)

lemma view_allowed:
  "relay_route_allowed C st src ty dst \<longleftrightarrow> src \<noteq> Some dst \<and> route_allowed C (policy_view base st) src ty dst"
  by (auto simp: relay_route_allowed_def route_allowed_def default_route_enabled_def split: option.splits)

lemma view_readings [simp]:
  "route_weight (policy_view base st) = relay_route_weight st" "route_priority (policy_view base st) = relay_route_priority st"
  "adaptive_weight (policy_view base st) = relay_adaptive_weight st" "cursor_of (policy_view base st) = relay_cursor_of st"
  by (auto simp: fun_eq_iff route_weight_def relay_route_weight_def route_priority_def relay_route_priority_def adaptive_weight_def
      relay_adaptive_weight_def cursor_of_def relay_cursor_of_def)

lemma view_cursor: "advance_cursor src (policy_view base st) = policy_view base (relay_advance_cursor src st)"
  by (simp add: advance_cursor_def relay_advance_cursor_def policy_view_def cursor_of_def relay_cursor_of_def)

lemma view_selection:
  "apply_route_selection (policy_view base st) src ss origin =
     map_prod (policy_view base) id (relay_apply_route_selection st src ss origin)"
  by (simp add: apply_route_selection_def relay_apply_route_selection_def apply_adaptive_discovery_selection_def
      relay_apply_adaptive_discovery_selection_def Let_def view_cursor split: option.splits route_selection_mode.splits)

lemma view_note: "note_discovery_topology_change now (policy_view base st) = policy_view base (relay_note_topology_change now st)"
  by (simp add: note_discovery_topology_change_def relay_note_topology_change_def policy_view_def)

lemma view_ref: "map_err (\<lambda>_. BadArg) (side_ref (policy_view base st) side) = map_err (\<lambda>_. BadArg) (relay_side_ref st side)"
  by (cases "relay_side_get st side") (simp_all add: side_ref_def relay_side_ref_def)

lemma view_check: "(case src of None \<Rightarrow> Ok () | Some s \<Rightarrow> andthen (map_err (\<lambda>_. BadArg) (side_ref (policy_view base st) s)) (\<lambda>_. Ok ())) =
    relay_check_source src st"
  by (simp add: relay_check_source_def view_ref split: option.splits)

lemma view_edits:
  "(policy_view base st)\<lparr>source_route_modes := m, route_selection_cursors := c\<rparr> =
     policy_view base (st\<lparr>ry_source_route_modes := m, ry_route_selection_cursors := c\<rparr>)"
  "(policy_view base st)\<lparr>route_weights := ws, route_selection_cursors := c\<rparr> =
     policy_view base (st\<lparr>ry_route_weights := ws, ry_route_selection_cursors := c\<rparr>)"
  "(policy_view base st)\<lparr>route_priorities := ps\<rparr> = policy_view base (st\<lparr>ry_route_priorities := ps\<rparr>)"
  "(policy_view base st)\<lparr>route_overrides := os\<rparr> = policy_view base (st\<lparr>ry_route_overrides := os\<rparr>)"
  "(policy_view base st)\<lparr>typed_route_overrides := ts\<rparr> = policy_view base (st\<lparr>ry_typed_route_overrides := ts\<rparr>)"
  "(policy_view base st)\<lparr>route_stats := rs\<rparr> = policy_view base (st\<lparr>ry_route_stats := rs\<rparr>)"
  by (rule router_inner.equality; simp add: policy_view_def)+

lemma view_change:
  assumes "\<And>st. g (policy_view base st) = policy_view base (f st)"
  shows "change_route src dst g now (policy_view base st) = map_prod (policy_view base) id (relay_change_route src dst f now st)"
  unfolding change_route_def relay_change_route_def check_route_ends_def
  unfolding view_check unfolding view_ref
  by (cases "map_err (\<lambda>_. BadArg) (relay_side_ref st dst)"; cases "relay_check_source src st")
    (simp_all add: view_note assms)

lemma view_mode:
  "set_source_route_mode src md now (policy_view base st) =
     map_prod (policy_view base) id (relay_set_source_route_mode src md now st)"
  unfolding set_source_route_mode_def relay_set_source_route_mode_def view_check
  by (cases "relay_check_source src st") (simp_all add: view_edits view_note)

lemma view_setters:
  "set_route_weight src dst weight now (policy_view base st) = map_prod (policy_view base) id (relay_set_route_weight src dst weight now st)"
  "clear_route_weight src dst now (policy_view base st) = map_prod (policy_view base) id (relay_clear_route_weight src dst now st)"
  "set_route_priority src dst priority now (policy_view base st) = map_prod (policy_view base) id (relay_set_route_priority src dst priority now st)"
  "clear_route_priority src dst now (policy_view base st) = map_prod (policy_view base) id (relay_clear_route_priority src dst now st)"
  "set_route src dst enabled now (policy_view base st) = map_prod (policy_view base) id (relay_set_route src dst enabled now st)"
  "clear_route src dst now (policy_view base st) = map_prod (policy_view base) id (relay_clear_route src dst now st)"
  "set_typed_route C src ty dst enabled now (policy_view base st) = map_prod (policy_view base) id (relay_set_typed_route C src ty dst enabled now st)"
  "clear_typed_route C src ty dst now (policy_view base st) = map_prod (policy_view base) id (relay_clear_typed_route C src ty dst now st)"
  unfolding set_route_weight_def relay_set_route_weight_def clear_route_weight_def relay_clear_route_weight_def
    set_route_priority_def relay_set_route_priority_def clear_route_priority_def relay_clear_route_priority_def
    set_route_def relay_set_route_def clear_route_def relay_clear_route_def
    set_typed_route_def relay_set_typed_route_def clear_typed_route_def relay_clear_typed_route_def
  by (rule view_change; simp add: view_edits)+

lemma view_sample:
  "record_side_tx_sample side n started ended (policy_view base st) =
     policy_view base (relay_record_side_tx_sample side n started ended st)"
  by (simp add: record_side_tx_sample_def relay_record_side_tx_sample_def Let_def view_edits)

section \<open>The plan\<close>

lemma relay_selection_subset: "set (snd (relay_apply_route_selection st src ss origin)) \<subseteq> set ss"
  using selection_subset [of "policy_view undefined st" src ss origin] by (simp add: view_selection)

lemma relay_selection_state: "\<exists>c. fst (relay_apply_route_selection st src ss origin) = st\<lparr>ry_route_selection_cursors := c\<rparr>"
proof -
  have same: "\<exists>c. st = st\<lparr>ry_route_selection_cursors := c\<rparr>" by (rule exI [of _ "ry_route_selection_cursors st"]) simp
  have moved: "\<exists>c. relay_advance_cursor src st = st\<lparr>ry_route_selection_cursors := c\<rparr>" by (auto simp: relay_advance_cursor_def)
  show ?thesis
    using same moved by (auto simp: relay_apply_route_selection_def relay_apply_adaptive_discovery_selection_def Let_def
      split: option.splits route_selection_mode.splits)
qed

definition relay_plan_ok :: "env \<Rightarrow> relay_inner \<Rightarrow> nat \<Rightarrow> data_type \<Rightarrow> relay_inner \<times> nat list telemetry_result \<Rightarrow> bool" where
  "relay_plan_ok E st src ty m \<longleftrightarrow> (\<exists>c. fst m = st\<lparr>ry_route_selection_cursors := c\<rparr>) \<and>
     (\<forall>ss. snd m = Ok ss \<longrightarrow> (\<forall>d\<in>set ss. relay_route_allowed E st (Some src) (Some ty) d))"

lemma plan_ok_keep: "(\<And>ss. r = Ok ss \<Longrightarrow> \<forall>d\<in>set ss. relay_route_allowed E st (Some src) (Some ty) d) \<Longrightarrow> relay_plan_ok E st src ty (st, r)"
  by (auto simp: relay_plan_ok_def intro: exI [of _ "ry_route_selection_cursors st"])

lemma plan_ok_pure:
  assumes "\<And>x. r = Ok x \<Longrightarrow> relay_plan_ok E st src ty (f x st)"
  shows "relay_plan_ok E st src ty (sthen (st, r) f)"
  using assms by (cases r) (auto intro: plan_ok_keep)

lemma plan_ok_selected:
  assumes "\<forall>d\<in>set ss. relay_route_allowed E st (Some src) (Some ty) d"
  shows "relay_plan_ok E st src ty (relay_select src ss origin st)"
  using assms relay_selection_subset [of st "Some src" ss origin] relay_selection_state [of st "Some src" ss origin]
  by (auto simp: relay_plan_ok_def relay_select_def case_prod_beta)

lemma relay_eligible_allowed: "\<forall>d\<in>set (relay_eligible_side_ids E st src ty restrict). relay_route_allowed E st src ty d"
  by (auto simp: relay_eligible_side_ids_def split: option.splits)

lemma relay_satisfied_subset: "relay_filter_satisfied_sides E st it ss eps ty = Ok ss' \<Longrightarrow> set ss' \<subseteq> set ss"
  by (auto simp: relay_filter_satisfied_sides_def outcome_simps split: if_splits option.splits)

lemma relay_plan_policy:
  assumes "relay_item_route_info E it = Ok (eps, ty)"
  shows "relay_plan_ok E st src ty (relay_remote_side_plan E now it src st)"
proof -
  have flood: "relay_plan_ok E st src ty (relay_select src (relay_eligible_side_ids E st (Some src) (Some ty) restrict) Flood st)"
    for restrict by (rule plan_ok_selected) (rule relay_eligible_allowed)
  have discovered: "relay_plan_ok E st src ty (sthen (st, relay_filter_satisfied_sides E st it
      (map fst (filter P (relay_usable_routes E st src ty restrict now))) eps ty) (\<lambda>targets. relay_select src targets origin))"
    for P restrict origin
    by (rule plan_ok_pure, rule plan_ok_selected)
      (fastforce dest!: relay_satisfied_subset simp: relay_usable_routes_def)
  have none: "relay_plan_ok E st src ty (st, Ok [])" by (rule plan_ok_keep) simp
  have one: "relay_plan_ok E st src ty (st, Ok [side])" if "relay_route_allowed E st (Some src) (Some ty) side" for side
    by (rule plan_ok_keep) (simp add: that)
  have target: "relay_allowed_target_side E st src ty v = Some side \<Longrightarrow> relay_route_allowed E st (Some src) (Some ty) side" for v side
    by (auto simp: relay_allowed_target_side_def split: option.splits if_splits)
  show ?thesis
    unfolding relay_remote_side_plan_def assms Let_def
    by (auto intro!: plan_ok_pure flood discovered none one dest!: target split: option.splits)
qed

text \<open>Without a discovery table an ordinary item is flooded.\<close>

lemma relay_flood_plan:
  assumes "relay_item_route_info E it = Ok (eps, ty)" and "reliable_control_target_packet_id E it = Ok None"
    and "ry_discovery_routes st = []" and "\<not> is_discovery_type ty" and "ty \<notin> {TimeSyncAnnounce, TimeSyncResponse}"
  shows "relay_remote_side_plan E now it src st =
    relay_select src (relay_eligible_side_ids E st (Some src) (Some ty) (endpoints_are_link_local_only E eps)) Flood st"
  using assms by (simp add: relay_remote_side_plan_def relay_preferred_timesync_route_source_def Let_def)

section \<open>Sides that need no copy\<close>

abbreviation boards_behind :: "discovery_side_state \<Rightarrow> topology_board_node list" where
  "boards_behind route \<equiv> concat (map dss_topology_boards (bt_values (dsd_announcers route)))"

lemma scan_boards_spec:
  "scan_boards eps acked bs had = (p, h) \<Longrightarrow>
   (p \<longleftrightarrow> (\<exists>b\<in>set bs. is_end_to_end_destination_sender (tb_sender_id b) \<and> (\<exists>ep\<in>set eps. ep \<in> set (tb_reachable_endpoints b)) \<and>
      \<not> bt_contains acked (sender_hash (tb_sender_id b)))) \<and>
   (\<not> p \<longrightarrow> (h \<longleftrightarrow> had \<or> (\<exists>b\<in>set bs. is_end_to_end_destination_sender (tb_sender_id b))))"
  by (induction eps acked bs had rule: scan_boards.induct) (auto simp: list_ex_iff split: if_splits)

lemma scan_senders_spec:
  "scan_senders eps acked ss had = (p, h) \<Longrightarrow>
   (p \<longleftrightarrow> (\<exists>b\<in>set (concat (map dss_topology_boards ss)). is_end_to_end_destination_sender (tb_sender_id b) \<and>
      (\<exists>ep\<in>set eps. ep \<in> set (tb_reachable_endpoints b)) \<and> \<not> bt_contains acked (sender_hash (tb_sender_id b)))) \<and>
   (\<not> p \<longrightarrow> (h \<longleftrightarrow> had \<or> (\<exists>b\<in>set (concat (map dss_topology_boards ss)). is_end_to_end_destination_sender (tb_sender_id b))))"
proof (induction ss arbitrary: had)
  case (Cons s ss)
  obtain p1 h1 where scan: "scan_boards eps acked (dss_topology_boards s) had = (p1, h1)" by force
  note one = scan_boards_spec [OF scan]
  show ?case
  proof (cases p1)
    case True
    then show ?thesis using Cons.prems one scan by auto
  next
    case False
    then have "scan_senders eps acked ss h1 = (p, h)" using Cons.prems scan by simp
    from Cons.IH [OF this] show ?thesis using one False by (simp add: bex_Un) blast
  qed
qed simp

lemma side_unsatisfied_iff:
  "side_unsatisfied st eps acked side \<longleftrightarrow>
   \<not> (\<exists>route. bt_get (ry_discovery_routes st) side = Some route \<and>
        (\<exists>b\<in>set (boards_behind route). is_end_to_end_destination_sender (tb_sender_id b)) \<and>
        (\<forall>b\<in>set (boards_behind route). is_end_to_end_destination_sender (tb_sender_id b) \<and>
           (\<exists>ep\<in>set eps. ep \<in> set (tb_reachable_endpoints b)) \<longrightarrow> bt_contains acked (sender_hash (tb_sender_id b))))"
proof (cases "bt_get (ry_discovery_routes st) side")
  case (Some route)
  obtain p h where scan: "scan_senders eps acked (bt_values (dsd_announcers route)) False = (p, h)" by force
  from scan_senders_spec [OF scan] show ?thesis by (simp add: side_unsatisfied_def Some scan) blast
qed (simp add: side_unsatisfied_def)

section \<open>The callbacks of one item\<close>

definition calls_only :: "nat \<Rightarrow> relay_world \<Rightarrow> relay_world \<Rightarrow> bool" where
  "calls_only side a b \<longleftrightarrow> (\<exists>its. rw_calls b = rw_calls a @ map (Pair side) its)"

interpretation calls: relay_hop "calls_only side" side
proof
  show "calls_only side w w" for w by (auto simp: calls_only_def intro: exI [of _ "[]"])
  show "calls_only side a c" if "calls_only side a b" "calls_only side b c" for a b c
    using that by (auto simp: calls_only_def) (metis map_append)
  show "calls_only side w (w\<lparr>rw_calls := rw_calls w @ [(side, it)]\<rparr>)" for w it
    by (auto simp: calls_only_def intro: exI [of _ "[it]"])
qed (auto simp: calls_only_def intro: exI [of _ "[]"])

lemma relay_policy_queue:
  "relay_side_get (st\<lparr>ry_tx_queue := q\<rparr>) = relay_side_get st"
  "relay_route_allowed C (st\<lparr>ry_tx_queue := q\<rparr>) src ty dst = relay_route_allowed C st src ty dst"
proof -
  show side: "relay_side_get (st\<lparr>ry_tx_queue := q\<rparr>) = relay_side_get st" by (simp add: fun_eq_iff relay_side_get_def)
  show "relay_route_allowed C (st\<lparr>ry_tx_queue := q\<rparr>) src ty dst = relay_route_allowed C st src ty dst"
    unfolding relay_route_allowed_def side by (auto split: option.splits)
qed

section \<open>The id cache\<close>

lemma relay_largest_not_recent: "relay_largest_shared_queue L st \<noteq> Some Relay_Recent"
  by (auto simp: relay_largest_shared_queue_def Let_def dest!: max_by_key_in split: if_splits)

lemma relay_pop_keeps_recent: "k \<noteq> Relay_Recent \<Longrightarrow> ry_recent_rx (snd (relay_pop_shared_queue_item L k st)) = ry_recent_rx st"
  by (cases k) (auto simp: relay_pop_reliable_rx_buffered_def relay_pop_discovery_route_def split: prod.splits option.splits)

lemma relay_loop_keeps_recent:
  "preferred \<noteq> Relay_Recent \<Longrightarrow> ry_recent_rx (fst (relay_make_room_loop L b c preferred st)) = ry_recent_rx st"
proof (induction L b c preferred st rule: relay_make_room_loop.induct)
  case (1 L b c preferred st)
  let ?victim = "case relay_largest_shared_queue L st of Some v \<Rightarrow> v | None \<Rightarrow> preferred"
  obtain b1 s1 where p1: "relay_pop_shared_queue_item L ?victim st = (b1, s1)" by force
  obtain b2 s2 where p2: "relay_pop_shared_queue_item L preferred s1 = (b2, s2)" by force
  have "?victim \<noteq> Relay_Recent" using "1.prems" relay_largest_not_recent [of L st] by (auto split: option.splits)
  then have s: "ry_recent_rx s1 = ry_recent_rx st" "ry_recent_rx s2 = ry_recent_rx st"
    using relay_pop_keeps_recent [of _ L] p1 p2 "1.prems" by (metis snd_conv)+
  show ?case
    using 1 p1 p2 s by (subst relay_make_room_loop.simps) (auto simp: Let_def split: bool.splits)
qed

lemma relay_room_keeps_recent:
  "preferred \<noteq> Relay_Recent \<Longrightarrow> ry_recent_rx (fst (relay_make_shared_queue_room L C c preferred st)) = ry_recent_rx st"
  by (simp add: relay_make_shared_queue_room_def relay_loop_keeps_recent)

lemma relay_push_keeps_recent:
  "ry_recent_rx (fst (relay_push_tx L C tx st)) = ry_recent_rx st"
  "ry_recent_rx (fst (relay_push_replay L C rp st)) = ry_recent_rx st"
  using sthen_push [where m = "relay_make_shared_queue_room L C (relay_tx_byte_cost L tx) Relay_Tx st"
      and f = "\<lambda>s. push_back_prioritized (relay_tx_byte_cost L) (rl_size_tx_item L) rti_priority tx (ry_tx_queue s)" and put = "\<lambda>q s. s\<lparr>ry_tx_queue := q\<rparr>"]
    sthen_push [where m = "relay_make_shared_queue_room L C (replay_byte_cost rp) Relay_Replay st"
      and f = "\<lambda>s. push_back_prioritized replay_byte_cost (rl_size_replay_item L) rpl_priority rp (ry_replay_queue s)" and put = "\<lambda>q s. s\<lparr>ry_replay_queue := q\<rparr>"]
  unfolding relay_push_tx_def [symmetric] relay_push_replay_def [symmetric] by (auto simp: relay_room_keeps_recent)

lemma relay_learn_keeps_recent: "ry_recent_rx (fst (relay_learn_discovery_item L E now src it st)) = ry_recent_rx st"
proof -
  have same: "ry_recent_rx (relay_fit_discovery_budget L b s) = ry_recent_rx s"
    "ry_recent_rx (fst (relay_prune_discovery_routes now s)) = ry_recent_rx s"
    "ry_recent_rx (relay_reconcile_acked_destinations s) = ry_recent_rx s"
    "ry_recent_rx (relay_note_topology_change now s) = ry_recent_rx s" for b s
    using relay_fit_result [of L b s]
    by (auto simp: relay_prune_discovery_routes_def relay_reconcile_acked_destinations_def relay_note_topology_change_def Let_def)
  show ?thesis
    unfolding relay_learn_discovery_item_def Let_def
    by (auto simp: sthen_def same split: outcome.splits option.splits prod.splits)
qed

interpretation cached: relay_dispatch "\<lambda>a b. ry_recent_rx b = ry_recent_rx a" M
  by unfold_locales (auto simp: relay_push_keeps_recent relay_learn_keeps_recent)

text \<open>A packet that passed duplicate suppression is in the cache.\<close>

lemma relay_duplicate_caches:
  assumes "relay_inv (ym_layout M) (ym_env M) (rw_inner w)" and "max_queue_budget (ym_env M) < usize_limit - 1"
    and "relay_get_hash (ym_env M) it = Ok i" and "relay_duplicate M it w = Some (w', Ok dup)"
  shows "bd_contains (ry_recent_rx (rw_inner w')) i"
proof (cases "bd_contains (ry_recent_rx (rw_inner w)) i")
  case True
  then show ?thesis using assms(3,4) by (auto simp: relay_duplicate_def relay_is_duplicate_pkt_def)
next
  case False
  let ?L = "ym_layout M" and ?E = "ym_env M"
  obtain d where d: "trim_recent (max_recent_rx_ids ?E) (ry_recent_rx (rw_inner w)) = Some d"
    using False assms(3,4)
    by (auto simp: relay_duplicate_def relay_is_duplicate_pkt_def relay_push_recent_rx_def split: option.splits)
  then have "0 < max_recent_rx_ids ?E" using trim_recent_zero by (cases "max_recent_rx_ids ?E") auto
  have wf: "relay_wf ?L ?E (rw_inner w)" using assms(1) by (simp add: relay_inv_def)
  have "bd_wf id_byte_cost 8 d"
    using d trim_recent_eq [OF relay_wfD(4) [OF wf] \<open>0 < max_recent_rx_ids ?E\<close>] bd_wf_drop [OF relay_wfD(4) [OF wf]]
    by (metis option.inject)
  then have w0: "relay_wf ?L ?E ((rw_inner w)\<lparr>ry_recent_rx := d\<rparr>)" using wf by (simp add: relay_wf_def relay_queues_wf_def)
  obtain s1 r1 where room: "relay_make_shared_queue_room ?L ?E 0 Relay_Recent ((rw_inner w)\<lparr>ry_recent_rx := d\<rparr>) = (s1, r1)" by force
  have w1: "bd_wf id_byte_cost 8 (ry_recent_rx s1)"
    using relay_room_result [OF w0 assms(2) room] w0 relay_wfD(4) [of ?L ?E s1] by (auto simp: relay_evicted_def)
  obtain q r where p: "push_back id_byte_cost 8 i (ry_recent_rx s1) = (q, r)" by force
  have "r1 = Ok () \<and> r = Ok () \<and> rw_inner w' = s1\<lparr>ry_recent_rx := q\<rparr>"
    using assms(3,4) False d room p
    by (cases r1; cases r) (auto simp: relay_duplicate_def relay_is_duplicate_pkt_def relay_push_recent_rx_def)
  then show ?thesis using fifo.push_stores [OF w1, of i] p by (simp add: bd_contains_def)
qed

end
