(* ===== verification/Relay_Properties.thy ===== *)
theory Relay_Properties
  imports Relay_Route_Laws Router_Properties Route_Properties
begin

text \<open>
  The promises of a relay: its memory stays within the budget and its loops end whatever the code
  around it does, it routes by the policy of a router and never back to the source, it leaves out the
  sides that have acknowledged a packet, and it forwards a packet once. Two properties show what the
  joint loop and the acknowledgements of the end points meet on the way.
\<close>

section \<open>A concrete relay\<close>

definition sample_relay_layout :: relay_layout where
  "sample_relay_layout =
     \<lparr>rl_size_packet = 136, rl_size_rx_item = 40, rl_size_tx_item = 56, rl_size_replay_item = 40,
      rl_size_sender_state = 80, rl_size_side_state = 80\<rparr>"

definition sample_foreign :: relay_foreign where
  "sample_foreign =
     \<lparr>rf_clock = of_nat, rf_gate = (\<lambda>_. False), rf_serialized = (\<lambda>_ _ _. Ok ()), rf_packet = (\<lambda>_ _ _. Ok ())\<rparr>"

definition sample_machine :: relay_machine where
  "sample_machine = \<lparr>ym_layout = sample_relay_layout, ym_env = sample_env, ym_foreign = sample_foreign\<rparr>"

text \<open>A relay with one packet side and room in every queue.\<close>

definition packet_side :: router_side where
  "packet_side = \<lparr>side_name = str ''A'', side_tx_handler = Packet_Tx, side_opts = relay_side_options_default\<rparr>"

definition sample_relay :: relay_inner where
  "sample_relay =
     \<lparr>ry_sides = [Some packet_side], ry_route_overrides = [], ry_typed_route_overrides = [], ry_route_weights = [],
      ry_route_priorities = [], ry_source_route_modes = [], ry_route_selection_cursors = [], ry_route_stats = [],
      ry_rx_queue = \<lparr>bd_q = [], bd_cap = 1, bd_max_bytes = 102400, bd_cur_bytes = 0, bd_max_elems = 500,
        bd_grow_num = 3276, bd_grow_den = 1024\<rparr>,
      ry_tx_queue = \<lparr>bd_q = [], bd_cap = 1, bd_max_bytes = 102400, bd_cur_bytes = 0, bd_max_elems = 500,
        bd_grow_num = 3276, bd_grow_den = 1024\<rparr>,
      ry_replay_queue = \<lparr>bd_q = [], bd_cap = 1, bd_max_bytes = 102400, bd_cur_bytes = 0, bd_max_elems = 500,
        bd_grow_num = 3276, bd_grow_den = 1024\<rparr>,
      ry_recent_rx = \<lparr>bd_q = [], bd_cap = 128, bd_max_bytes = 1024, bd_cur_bytes = 0, bd_max_elems = 128,
        bd_grow_num = 3276, bd_grow_den = 1024\<rparr>,
      ry_reliable_tx = [], ry_reliable_rx = [], ry_return_routes = [], ry_return_route_order = [],
      ry_acked_destinations = [], ry_acked_destination_order = [], ry_discovery_routes = [],
      ry_discovery_cadence = cadence_default\<rparr>"

definition sample_relay_world :: relay_world where
  "sample_relay_world = \<lparr>rw_inner = sample_relay, rw_tick = 0, rw_calls = []\<rparr>"

lemma sample_machine_fields [simp]:
  "ym_layout sample_machine = sample_relay_layout" "ym_env sample_machine = sample_env" "ym_foreign sample_machine = sample_foreign"
  by (simp_all add: sample_machine_def)

lemma sample_relay_fields [simp]:
  "ry_discovery_routes sample_relay = []" "ry_sides sample_relay = [Some packet_side]" "ry_reliable_tx sample_relay = []"
  "bd_q (ry_rx_queue sample_relay) = []" "bd_q (ry_tx_queue sample_relay) = []" "bd_q (ry_replay_queue sample_relay) = []"
  "bd_q (ry_recent_rx sample_relay) = []" "ry_route_overrides sample_relay = []" "ry_typed_route_overrides sample_relay = []"
  by (simp_all add: sample_relay_def)

lemma sample_relay_layout_ok: "relay_layout_ok sample_relay_layout sample_env"
  by (simp add: relay_layout_ok_def sample_relay_layout_def isize_max_def sample_queue_fields)

lemma sample_relay_new: "\<exists>w. relay_new sample_relay_layout sample_env = Ok w"
proof -
  have lims: "(102400 :: nat) \<le> isize_max" "rl_size_rx_item sample_relay_layout \<le> isize_max"
    "rl_size_tx_item sample_relay_layout \<le> isize_max" "rl_size_replay_item sample_relay_layout \<le> isize_max"
    "(8 :: nat) \<le> isize_max" "(1024 :: nat) \<le> isize_max"
    by (simp_all add: isize_max_def sample_relay_layout_def)
  note new = bd_new_cases [where ?'e = telemetry_error and grow = "Fin 3.2"]
  obtain rx where rx: "bd_new (rl_size_rx_item sample_relay_layout) 102400 128 (Fin 3.2) =
      (Ok rx :: (telemetry_error, relay_rx_item bounded_deque) outcome)"
    using new [where ?'a = relay_rx_item and cost = "\<lambda>_. 0", OF lims(1,2), of 128] by auto
  obtain tx where tx: "bd_new (rl_size_tx_item sample_relay_layout) 102400 128 (Fin 3.2) =
      (Ok tx :: (telemetry_error, relay_tx_item bounded_deque) outcome)"
    using new [where ?'a = relay_tx_item and cost = "\<lambda>_. 0", OF lims(1,3), of 128] by auto
  obtain replay where replay: "bd_new (rl_size_replay_item sample_relay_layout) 102400 128 (Fin 3.2) =
      (Ok replay :: (telemetry_error, relay_replay_item bounded_deque) outcome)"
    using new [where ?'a = relay_replay_item and cost = "\<lambda>_. 0", OF lims(1,4), of 128] by auto
  obtain recent where recent: "bd_new 8 1024 1024 (Fin 3.2) = (Ok recent :: (telemetry_error, u64 bounded_deque) outcome)"
    using new [where ?'a = u64 and cost = "\<lambda>_. 0", OF lims(6,5), of 1024] by auto
  from rx tx replay recent show ?thesis by (simp add: relay_new_def relay_inner_new_def sample_queue_fields outcome_simps)
qed

section \<open>Memory\<close>

text \<open>
  C6. However a relay is used, and whatever its clock, its gate and its callbacks answer, the bytes of
  its queues, its receive buffers, its discovery table and the reserve of its id cache stay within the
  shared budget; the byte counts are exact, no stream buffers more than its limit, and every route says
  what its announcers say.
\<close>

theorem relay_stays_within_budget:
  assumes "relay_layout_ok (ym_layout M) (ym_env M)" and "relay_reachable M w"
  shows "relay_shared_queue_bytes_used (ym_layout M) (rw_inner w) \<le> max_queue_budget (ym_env M) \<and>
    bd_cur_bytes (ry_rx_queue (rw_inner w)) = sum_list (map (relay_rx_byte_cost (ym_layout M)) (bd_q (ry_rx_queue (rw_inner w)))) \<and>
    bd_cur_bytes (ry_tx_queue (rw_inner w)) = sum_list (map (relay_tx_byte_cost (ym_layout M)) (bd_q (ry_tx_queue (rw_inner w)))) \<and>
    bd_cur_bytes (ry_replay_queue (rw_inner w)) = sum_list (map replay_byte_cost (bd_q (ry_replay_queue (rw_inner w)))) \<and>
    list_all (\<lambda>rx. length (rrx_buffered rx) \<le> max 1 (reliable_max_pending (ym_env M))) (bt_values (ry_reliable_rx (rw_inner w))) \<and>
    list_all (\<lambda>route. recompute_discovery_side_state route = route) (bt_values (ry_discovery_routes (rw_inner w)))"
proof -
  have inv: "relay_inv (ym_layout M) (ym_env M) (rw_inner w)" by (rule relay_reachable_inv [OF assms])
  then have wf: "relay_wf (ym_layout M) (ym_env M) (rw_inner w)" by (simp add: relay_inv_def)
  show ?thesis
    using inv relay_wfD [OF wf]
    by (auto simp: relay_inv_def bd_wf_def relay_buffers_ok_def buffer_ok_def table_summarised_def list_all_iff)
qed

theorem relay_stays_within_budget_witness:
  "\<exists>w. relay_reachable sample_machine w \<and> ry_sides (rw_inner w) \<noteq> [] \<and>
     relay_shared_queue_bytes_used sample_relay_layout (rw_inner w) \<le> 102400"
proof -
  obtain w where "relay_new sample_relay_layout sample_env = Ok w" using sample_relay_new by blast
  then have "relay_reachable sample_machine w" by (intro reach_new) simp
  from relay_reachable.reach_step [OF this relay_step.step_add_side, of Packet_Tx "[]" relay_side_options_default 0]
  have r: "relay_reachable sample_machine (w\<lparr>rw_inner := snd (relay_add_side Packet_Tx [] relay_side_options_default 0 (rw_inner w))\<rparr>)" .
  show ?thesis
    using relay_stays_within_budget [OF _ r] r sample_relay_layout_ok
    by (intro exI [of _ "w\<lparr>rw_inner := snd (relay_add_side Packet_Tx [] relay_side_options_default 0 (rw_inner w))\<rparr>"])
      (auto simp: sample_queue_fields relay_add_side_def relay_note_topology_change_def)
qed

section \<open>The loops\<close>

text \<open>
  C7. Every processing loop of a relay returns, with and without a time limit, from every state and
  whatever the clock, the gate and the callbacks answer; the receive loop without a limit leaves nothing
  to receive when it reports success.
\<close>

theorem relay_loops_end:
  assumes "0 < max_recent_rx_ids (ym_env M)"
  shows "(\<exists>w' r. relay_process_rx_queue M w = Some (w', r) \<and> (r = Ok () \<longrightarrow> bd_q (ry_rx_queue (rw_inner w')) = [])) \<and>
    (\<exists>w' r. relay_process_rx_queue_with_timeout M timeout_ms w = Some (w', r)) \<and>
    (\<exists>w' r. relay_process_tx_queue_with_timeout M timeout_ms w = Some (w', r)) \<and>
    (\<exists>w' r. relay_process_all_queues_with_timeout M timeout_ms w = Some (w', r)) \<and>
    (\<exists>w' r. relay_periodic M timeout_ms w = Some (w', r))"
proof -
  have "yields (relay_periodic M timeout_ms) w (\<lambda>_ _. True)"
    unfolding relay_periodic_def by (rule yields_wthen [OF yields_runs [OF shorter.runs_discovery(2)]]) (rule relay_loops_yield(3) [OF assms])
  then show ?thesis
    using relay_loops_yield(1) [OF assms, of 0 w] relay_loops_yield [OF assms, of timeout_ms w]
    by (auto simp: yields_def relay_process_rx_queue_def)
qed

theorem relay_loops_end_witness:
  "\<exists>w' r. relay_process_all_queues_with_timeout sample_machine 7 sample_relay_world = Some (w', r)"
  using relay_loops_end [of sample_machine sample_relay_world 7] by (simp add: sample_queue_fields)

section \<open>Routing\<close>

text \<open>
  C15. A relay has the route policy of a router that never sends back to the source: seen as a router
  state, its policy setters, its selection of sides and its bandwidth samples do what those of the router
  do, and it allows a route exactly when the router does and the destination is not the source.
\<close>

theorem relay_policy_is_router_policy:
  "(relay_route_allowed C st src ty dst \<longleftrightarrow> src \<noteq> Some dst \<and> route_allowed C (policy_view base st) src ty dst) \<and>
   apply_route_selection (policy_view base st) src ss origin =
     map_prod (policy_view base) id (relay_apply_route_selection st src ss origin) \<and>
   record_side_tx_sample dst n started ended (policy_view base st) =
     policy_view base (relay_record_side_tx_sample dst n started ended st) \<and>
   set_source_route_mode src md now (policy_view base st) =
     map_prod (policy_view base) id (relay_set_source_route_mode src md now st) \<and>
   set_route_weight src dst weight now (policy_view base st) =
     map_prod (policy_view base) id (relay_set_route_weight src dst weight now st) \<and>
   set_route_priority src dst priority now (policy_view base st) =
     map_prod (policy_view base) id (relay_set_route_priority src dst priority now st) \<and>
   set_route src dst enabled now (policy_view base st) =
     map_prod (policy_view base) id (relay_set_route src dst enabled now st) \<and>
   set_typed_route C src data_ty dst enabled now (policy_view base st) =
     map_prod (policy_view base) id (relay_set_typed_route C src data_ty dst enabled now st)"
  by (intro conjI view_allowed view_selection view_sample view_mode view_setters)

text \<open>
  C17. Every side of a plan is registered, open for egress, not ruled out by an override for the source
  or for the type, and it is never the source, whatever the overrides say; planning changes nothing but
  a selection cursor.
\<close>

theorem relay_plan_respects_policy:
  assumes "relay_remote_side_plan E now_ms it src st = (st', Ok ss)" and "relay_item_route_info E it = Ok (eps, ty)"
  shows "(\<exists>c. st' = st\<lparr>ry_route_selection_cursors := c\<rparr>) \<and>
    list_all (\<lambda>d. d \<noteq> src \<and> (\<exists>s. relay_side_get st d = Some s \<and> opt_egress_enabled (side_opts s)) \<and>
      bt_get (ry_route_overrides st) (Some src, d) \<noteq> Some False \<and>
      bt_get (ry_typed_route_overrides st) (Some src, ty_u32 E ty, d) \<noteq> Some False) ss"
  using relay_plan_policy [OF assms(2), of st src now_ms] assms(1)
    route_allowed_facts [of E "policy_view undefined st" "Some src" ty]
  by (auto simp: relay_plan_ok_def list_all_iff view_allowed [of E st _ _ _ undefined])

theorem relay_plan_respects_policy_witness:
  "\<exists>st' ss. relay_remote_side_plan sample_env 0 (Item_Packet battery_packet) 7
      (sample_relay\<lparr>ry_sides := replicate 8 (Some packet_side)\<rparr>) = (st', Ok ss) \<and> list_all (\<lambda>d. d \<noteq> 7) ss"
proof -
  let ?st = "sample_relay\<lparr>ry_sides := replicate 8 (Some packet_side)\<rparr>"
  have info: "relay_item_route_info sample_env (Item_Packet battery_packet) = Ok (sort_dedup (pkt_endpoints battery_packet), UserType 1)"
    by (simp add: relay_item_route_info_def battery_packet_def)
  obtain st' ss where plan: "relay_remote_side_plan sample_env 0 (Item_Packet battery_packet) 7 ?st = (st', Ok ss)"
    using relay_flood_plan [OF info battery_control, of ?st 0 7]
    by (cases "relay_apply_route_selection ?st (Some 7) (relay_eligible_side_ids sample_env ?st (Some 7) (Some (UserType 1))
        (endpoints_are_link_local_only sample_env (sort_dedup (pkt_endpoints battery_packet)))) Flood")
      (auto simp: relay_select_def is_discovery_type_def)
  then show ?thesis using relay_plan_respects_policy [OF plan info] by (auto simp: list_all_iff)
qed

text \<open>
  C16. Working off a queued item calls no callback but that of its destination, and calls it only when the
  route is still allowed at that moment; so nothing is sent back to the source, and a policy that
  changed after queueing is obeyed.
\<close>

theorem relay_sends_only_where_allowed:
  assumes "relay_send_tx_item M src dst handler opts it w = Some (w', r)"
  shows "rw_calls w' = rw_calls w \<or>
    (\<exists>ty its. relay_item_type (ym_env M) it = Ok ty \<and> relay_route_allowed (ym_env M) (rw_inner w) src (Some ty) dst \<and>
      src \<noteq> Some dst \<and> rw_calls w' = rw_calls w @ map (Pair dst) its)"
proof (cases "\<exists>ty. relay_item_type (ym_env M) it = Ok ty \<and> relay_route_allowed (ym_env M) (rw_inner w) src (Some ty) dst")
  case True
  then obtain ty where ty: "relay_item_type (ym_env M) it = Ok ty" "relay_route_allowed (ym_env M) (rw_inner w) src (Some ty) dst" by blast
  have "calls_only dst w w'" using runsE [OF calls.runs_send] assms by (metis option.inject prod.inject)
  then show ?thesis using ty view_allowed [of "ym_env M" "rw_inner w" src "Some ty" dst] by (auto simp: calls_only_def)
next
  case False
  then have "w' = w"
    using assms by (cases "relay_item_type (ym_env M) it") (auto simp: relay_send_tx_item_def wthen_def give_def reading_def)
  then show ?thesis by simp
qed

theorem relay_sends_only_where_allowed_witness:
  "\<exists>w' r. relay_send_tx_item sample_machine (Some 0) 0 Packet_Tx relay_side_options_default (Item_Packet battery_packet)
     sample_relay_world = Some (w', r) \<and> rw_calls w' = []"
proof -
  obtain w' r where s: "relay_send_tx_item sample_machine (Some 0) 0 Packet_Tx relay_side_options_default (Item_Packet battery_packet)
     sample_relay_world = Some (w', r)"
    using runsE [OF calls.runs_send] by blast
  from relay_sends_only_where_allowed [OF s] s show ?thesis by (auto simp: sample_relay_world_def)
qed

text \<open>
  C18. A reliable packet is not sent again to a side once every board behind it that can acknowledge
  packets and serves one of the packet's endpoints has acknowledged it end to end; every other side, also
  one with no such board at all, keeps its copy.
\<close>

theorem satisfied_sides_left_out:
  assumes "is_reliable_type E ty" and "reliable_control_target_packet_id E it = Ok None"
    and "relay_item_packet_id E it = Ok pid" and "bt_get (ry_acked_destinations st) pid = Some acked"
  shows "relay_filter_satisfied_sides E st it ss eps ty = Ok (filter (\<lambda>side.
    \<not> (\<exists>route. bt_get (ry_discovery_routes st) side = Some route \<and>
         (\<exists>b\<in>set (concat (map dss_topology_boards (bt_values (dsd_announcers route)))).
            is_end_to_end_destination_sender (tb_sender_id b)) \<and>
         (\<forall>b\<in>set (concat (map dss_topology_boards (bt_values (dsd_announcers route)))).
            is_end_to_end_destination_sender (tb_sender_id b) \<and> (\<exists>ep\<in>set eps. ep \<in> set (tb_reachable_endpoints b)) \<longrightarrow>
            bt_contains acked (sender_hash (tb_sender_id b))))) ss)"
  using assms unfolding side_unsatisfied_iff [symmetric] by (simp add: relay_filter_satisfied_sides_def)

definition acked_relay :: relay_inner where
  "acked_relay = sample_relay\<lparr>
     ry_discovery_routes := [(0, \<lparr>dsd_reachable = [UserEndpoint 1], dsd_timesync_sources = [], dsd_last_seen_ms = 5,
       dsd_announcers = [(str ''B'', \<lparr>dss_reachable = [UserEndpoint 1], dss_timesync_sources = [],
         dss_topology_boards = [\<lparr>tb_sender_id = str ''B'', tb_reachable_endpoints = [UserEndpoint 1],
           tb_reachable_timesync_sources = [], tb_connections = []\<rparr>], dss_last_seen_ms = 5\<rparr>)]\<rparr>)],
     ry_acked_destinations := [(packet_id sample_env gps_packet, [(sender_hash (str ''B''), ())])]\<rparr>"

theorem satisfied_sides_left_out_witness:
  "relay_filter_satisfied_sides sample_env acked_relay (Item_Packet gps_packet) [0, 1] [UserEndpoint 1] (UserType 0) = Ok [1]"
proof -
  have dest: "is_end_to_end_destination_sender (str ''B'')" by code_simp
  have "reliable_control_target_packet_id sample_env (Item_Packet gps_packet) = Ok None"
    by (simp add: reliable_control_target_packet_id_def control_target_of_packet_def gps_packet_def)
  from satisfied_sides_left_out [OF sample_meta(3) this, of "packet_id sample_env gps_packet" acked_relay "[(sender_hash (str ''B''), ())]"
      "[0, 1]" "[UserEndpoint 1]"]
  show ?thesis using dest
    by (simp add: relay_item_packet_id_def acked_relay_def bt_get_def bt_values_def bt_contains_def)
qed

lemma first_processing:
  assumes "rri_data item = Item_Packet pkt" and "\<not> is_reliable_type (ym_env M) (pkt_ty pkt)"
    and "relay_process_rx_queue_item M item w = Some (w', Ok ())"
  shows "\<exists>w1 dup. relay_duplicate M (Item_Packet pkt) w = Some (w1, Ok dup) \<and>
    (rw_inner w' = rw_inner w1 \<or> dispatch_relay_rx_item M (rri_src item) (Item_Packet pkt) w1 = Some (w', Ok ()))"
proof (cases "relay_ensure_side_ingress_enabled (rw_inner w) (rri_src item)")
  case (Ok u)
  obtain w1 r where d: "relay_duplicate M (Item_Packet pkt) w = Some (w1, r)"
    using assms Ok by (cases "relay_duplicate M (Item_Packet pkt) w")
      (auto simp: relay_process_rx_queue_item_def relay_note_return_route_for_def relay_skip_def wthen_def give_def reading_def ry_on_def)
  then obtain dup where r: "r = Ok dup"
    using assms Ok by (cases r)
      (auto simp: relay_process_rx_queue_item_def relay_note_return_route_for_def relay_skip_def wthen_def give_def reading_def ry_on_def)
  have "rw_inner w' = rw_inner w1 \<or> dispatch_relay_rx_item M (rri_src item) (Item_Packet pkt) w1 = Some (w', Ok ())"
  proof (cases dup)
    case True
    then show ?thesis using assms Ok d r
      by (auto simp: relay_process_rx_queue_item_def relay_note_return_route_for_def relay_skip_def relay_should_forward_duplicate_def
          relay_item_route_info_def wthen_def give_def reading_def ry_on_def ry_ask_def)
  next
    case False
    obtain w2 r2 where "dispatch_relay_rx_item M (rri_src item) (Item_Packet pkt) w1 = Some (w2, r2)"
      using runsE [OF cached.runs_dispatch] by blast
    then show ?thesis using assms Ok d r False
      by (cases r2) (auto simp: relay_process_rx_queue_item_def relay_note_return_route_for_def relay_skip_def
          wthen_def give_def reading_def ry_on_def)
  qed
  then show ?thesis using d r by blast
qed (use assms in \<open>auto simp: relay_process_rx_queue_item_def wthen_def give_def reading_def\<close>)

text \<open>
  C19. A packet of an unreliable type that a relay has processed is in its id cache, and while it is there
  the same packet changes nothing when it comes again: it is forwarded once.
\<close>

theorem relay_forwards_once:
  assumes "relay_inv (ym_layout M) (ym_env M) (rw_inner w)" and "max_queue_budget (ym_env M) < usize_limit - 1"
    and "rri_data item = Item_Packet pkt" and "\<not> is_reliable_type (ym_env M) (pkt_ty pkt)"
    and "relay_process_rx_queue_item M item w = Some (w', Ok ())"
  shows "bd_contains (ry_recent_rx (rw_inner w')) (packet_id (ym_env M) pkt) \<and>
    (\<forall>w2. bd_contains (ry_recent_rx (rw_inner w2)) (packet_id (ym_env M) pkt) \<and>
       relay_ensure_side_ingress_enabled (rw_inner w2) (rri_src item) = Ok () \<longrightarrow>
       relay_process_rx_queue_item M item w2 = Some (w2\<lparr>rw_tick := rw_tick w2 + 2\<rparr>, Ok ()))"
proof -
  let ?id = "packet_id (ym_env M) pkt" and ?it = "Item_Packet pkt"
  have hash: "relay_get_hash (ym_env M) ?it = Ok ?id" by (simp add: relay_get_hash_def)
  have again: "relay_process_rx_queue_item M item w2 = Some (w2\<lparr>rw_tick := rw_tick w2 + 2\<rparr>, Ok ())"
    if "bd_contains (ry_recent_rx (rw_inner w2)) ?id" "relay_ensure_side_ingress_enabled (rw_inner w2) (rri_src item) = Ok ()" for w2
    using that assms(3,4)
    by (simp add: relay_process_rx_queue_item_def relay_note_return_route_for_def relay_skip_def relay_duplicate_def
        relay_is_duplicate_pkt_def relay_should_forward_duplicate_def relay_item_route_info_def hash
        wthen_def give_def reading_def ry_on_def ry_ask_def)
  obtain w1 dup where d: "relay_duplicate M ?it w = Some (w1, Ok dup)"
      "rw_inner w' = rw_inner w1 \<or> dispatch_relay_rx_item M (rri_src item) ?it w1 = Some (w', Ok ())"
    using first_processing [OF assms(3-5)] by blast
  have "bd_contains (ry_recent_rx (rw_inner w1)) ?id"
    using relay_duplicate_caches [OF assms(1,2) hash d(1)] .
  moreover have "ry_recent_rx (rw_inner w') = ry_recent_rx (rw_inner w1)"
    using d(2) runsE [OF cached.runs_dispatch, of M "rri_src item" ?it w1] by (metis option.inject prod.inject)
  ultimately show ?thesis using again by simp
qed

lemma sample_relay_inv: "relay_inv sample_relay_layout sample_env sample_relay"
  by (simp add: relay_inv_def relay_wf_def relay_queues_wf_def relay_buffers_ok_def table_summarised_def sample_relay_def bd_wf_def
      sample_relay_layout_def isize_max_def sample_queue_fields relay_bytes_defs bt_values_def)

definition battery_rx_item :: relay_rx_item where
  "battery_rx_item = \<lparr>rri_src = 0, rri_data = Item_Packet battery_packet, rri_priority = 0\<rparr>"

lemma sample_recent:
  "\<exists>q. relay_push_recent_rx sample_relay_layout sample_env i sample_relay = Some (sample_relay\<lparr>ry_recent_rx := q\<rparr>, Ok ())"
proof -
  have "relay_shared_queue_bytes_used sample_relay_layout sample_relay = 1024"
    by (simp add: relay_bytes_defs sample_relay_def bt_values_def usize_limit_def)
  then have "relay_make_shared_queue_room sample_relay_layout sample_env 0 Relay_Recent sample_relay = (sample_relay, Ok ())"
    by (simp add: relay_make_shared_queue_room_def relay_make_room_loop.simps sample_queue_fields usat_add_def)
  moreover have "trim_recent 128 (ry_recent_rx sample_relay) = Some (ry_recent_rx sample_relay)"
    by (simp add: trim_recent.simps)
  moreover have "\<exists>q. push_back id_byte_cost 8 i (ry_recent_rx sample_relay) = (q, Ok ())"
    by (simp add: push_back_def prepare_push_fifo_def evict_front.simps ensure_room_for_one_def id_byte_cost_def Let_def)
      (simp add: sample_relay_def)
  ultimately show ?thesis by (auto simp: relay_push_recent_rx_def sample_queue_fields)
qed

theorem relay_forwards_once_witness:
  "\<exists>w'. relay_process_rx_queue_item sample_machine battery_rx_item sample_relay_world = Some (w', Ok ()) \<and>
     bd_contains (ry_recent_rx (rw_inner w')) (packet_id sample_env battery_packet)"
proof -
  obtain q where q: "relay_push_recent_rx sample_relay_layout sample_env (packet_id sample_env battery_packet) sample_relay =
      Some (sample_relay\<lparr>ry_recent_rx := q\<rparr>, Ok ())"
    using sample_recent by blast
  let ?st = "sample_relay\<lparr>ry_recent_rx := q\<rparr>"
  have fresh: "\<not> bd_contains (ry_recent_rx sample_relay) i" for i by (simp add: bd_contains_def)
  have "relay_eligible_side_ids sample_env ?st (Some 0) ty restrict = []" for ty restrict
    by (simp add: relay_eligible_side_ids_def relay_route_allowed_def relay_side_get_def split: option.splits)
  moreover have info: "relay_item_route_info sample_env (Item_Packet battery_packet) = Ok (sort_dedup (pkt_endpoints battery_packet), UserType 1)"
    by (simp add: relay_item_route_info_def battery_packet_def)
  ultimately have plan: "relay_remote_side_plan sample_env now (Item_Packet battery_packet) 0 ?st = (?st, Ok [])" for now
    using relay_flood_plan [OF info battery_control, of ?st now 0]
    by (simp add: is_discovery_type_def relay_select_def relay_apply_route_selection_def)
  have ty: "pkt_ty battery_packet = UserType (Suc 0)" by (simp add: battery_packet_def)
  have "relay_ensure_side_ingress_enabled sample_relay 0 = Ok ()"
    by (simp add: relay_ensure_side_ingress_enabled_def relay_side_ref_def relay_side_get_def packet_side_def
        relay_side_options_default_def outcome_simps)
  then obtain w' where first: "relay_process_rx_queue_item sample_machine battery_rx_item sample_relay_world = Some (w', Ok ())"
    using q plan
    by (auto simp: relay_process_rx_queue_item_def battery_rx_item_def sample_relay_world_def relay_note_return_route_for_def relay_skip_def
        relay_duplicate_def relay_is_duplicate_pkt_def relay_get_hash_def fresh sample_meta ty dispatch_relay_rx_item_def
        relay_dispatch_packet_def relay_handle_control_def relay_forward_def relay_learn_discovery_item_def relay_discovery_packet_def
        is_discovery_type_def relay_plan_def wthen_def give_def reading_def ry_on_def ry_ask_def)
  show ?thesis
    using relay_forwards_once [of sample_machine sample_relay_world battery_rx_item battery_packet w'] first sample_relay_inv
    by (simp add: sample_relay_world_def battery_rx_item_def sample_meta ty sample_queue_fields usize_limit_def)
qed

section \<open>What is lost\<close>

text \<open>
  C39. The joint loop stops at the first item it may not send: its policy was changed after queueing, the
  item is dropped, nothing counts as done in that turn, and the items behind it stay in the queue although
  the loop without a time limit is documented to drain it.
\<close>

theorem joint_loop_stops_at_refused_item:
  assumes "bd_q (ry_rx_queue (rw_inner w)) = []" and "ry_reliable_tx (rw_inner w) = []"
    and "bd_q (ry_replay_queue (rw_inner w)) = []" and "bd_q (ry_tx_queue (rw_inner w)) = item # rest"
    and "relay_side_get (rw_inner w) (rti_dst item) \<noteq> None" and "relay_item_type (ym_env M) (rti_data item) = Ok ty"
    and "\<not> relay_route_allowed (ym_env M) (rw_inner w) (rti_src item) (Some ty) (rti_dst item)"
    and "\<not> rf_gate (ym_foreign M) (rw_tick w)"
  shows "\<exists>w'. relay_process_all_queues M w = Some (w', Ok ()) \<and> bd_q (ry_tx_queue (rw_inner w')) = rest \<and>
    rw_calls w' = rw_calls w"
proof -
  let ?st = "rw_inner w"
  obtain side where side: "relay_side_get ?st (rti_dst item) = Some side" using assms(5) by blast
  define q where "q = snd (pop_front (relay_tx_byte_cost (ym_layout M)) (ry_tx_queue ?st))"
  let ?w = "w\<lparr>rw_tick := Suc (rw_tick w)\<rparr>"
  have "relay_all_turn M 0 0 ?w = Some (w\<lparr>rw_tick := Suc (Suc (rw_tick w)), rw_inner := ?st\<lparr>ry_tx_queue := q\<rparr>\<rparr>, Ok False)"
    using assms(1-4,6,7) side
    by (simp add: relay_all_turn_def relay_timeouts_def relay_process_reliable_timeouts_def relay_pop_rx_def relay_in_time_def
        relay_process_replay_queue_item_def relay_pop_replay_def relay_pop_ready_tx_item_def relay_send_tx_item_def pop_front_def q_def
        relay_policy_queue wthen_def give_def reading_def ry_on_def ry_ask_def)
  from repeating_step(2) [where m = "relay_all_turn M 0 0", OF this] show ?thesis using assms(4,8)
    by (simp add: relay_process_all_queues_def relay_process_all_queues_with_timeout_def unless_side_tx_active_def ry_ask_def
        q_def pop_front_def)
qed

definition blocked_relay :: relay_world where
  "blocked_relay = \<lparr>rw_inner = sample_relay\<lparr>ry_sides := [Some packet_side, Some packet_side],
     ry_route_overrides := [((Some 0, 1), False)],
     ry_tx_queue := \<lparr>bd_q = [\<lparr>rti_src = Some 0, rti_dst = 1, rti_data = Item_Packet battery_packet, rti_priority = 7\<rparr>,
         \<lparr>rti_src = Some 1, rti_dst = 0, rti_data = Item_Packet battery_packet, rti_priority = 7\<rparr>],
       bd_cap = 4, bd_max_bytes = 102400, bd_cur_bytes = 288, bd_max_elems = 500, bd_grow_num = 3276, bd_grow_den = 1024\<rparr>\<rparr>,
     rw_tick = 0, rw_calls = []\<rparr>"

theorem joint_loop_stops_at_refused_item_witness:
  "\<exists>w'. relay_process_all_queues sample_machine blocked_relay = Some (w', Ok ()) \<and>
     map rti_dst (bd_q (ry_tx_queue (rw_inner w'))) = [0] \<and> rw_calls w' = []"
proof -
  let ?item = "\<lparr>rti_src = Some 0, rti_dst = 1, rti_data = Item_Packet battery_packet, rti_priority = 7\<rparr>"
  have "\<exists>w'. relay_process_all_queues sample_machine blocked_relay = Some (w', Ok ()) \<and>
      bd_q (ry_tx_queue (rw_inner w')) = [\<lparr>rti_src = Some 1, rti_dst = 0, rti_data = Item_Packet battery_packet, rti_priority = 7\<rparr>] \<and>
      rw_calls w' = rw_calls blocked_relay"
    by (rule joint_loop_stops_at_refused_item [where item = ?item and ty = "pkt_ty battery_packet"])
      (simp_all add: blocked_relay_def relay_side_get_def relay_item_type_def relay_route_allowed_def bt_get_def sample_foreign_def)
  then show ?thesis by (auto simp: blocked_relay_def)
qed

text \<open>
  C40. An acknowledgement, also one between end points that a relay passes on along its return route, is
  dropped at a side whose hop-level reliability is off, and no callback is called.
\<close>

theorem acknowledgement_dropped_on_plain_side:
  assumes "pkt_ty pkt \<in> {ReliableAck, ReliablePartialAck, ReliablePacketRequest}" and "\<not> opt_reliable_enabled opts"
  shows "relay_send_tx_item M src dst handler opts (Item_Packet pkt) w = Some (w, Ok False)"
  using assms by (auto simp: relay_send_tx_item_def relay_item_type_def relay_send_adjusted_def relay_adjust_reliable_for_side_def
      wthen_def give_def reading_def)

theorem acknowledgement_dropped_on_plain_side_witness:
  "relay_send_tx_item sample_machine (Some 1) 0 Serialized_Tx relay_side_options_default
     (Item_Packet (battery_packet\<lparr>pkt_ty := ReliableAck\<rparr>)) sample_relay_world = Some (sample_relay_world, Ok False)"
  by (rule acknowledgement_dropped_on_plain_side) (simp_all add: relay_side_options_default_def)

end
