(* ===== verification/Spec2Isabelle.thy ===== *)
theory Spec2Isabelle
  imports
    Wire_Properties
    Queue_Properties
    Time_Properties
    Discovery_Properties
    Router_Properties
    Route_Properties
    Reliable_Properties
    Runtime_Properties
    Network_Properties
    Flow_Properties
    Relay_Properties
begin

text \<open>
  Verification of \<open>sedsprintf_rs\<close>, a telemetry library: typed packets are serialized into
  compact frames, and routers and relays forward them between sides (links), deliver them to local
  endpoint handlers, keep them in bounded priority queues, retransmit the reliable ones, learn the
  topology from discovery packets and agree on a network time.

  \<^bold>\<open>Parts of the program and the theories that model them.\<close> Every definition keeps the name it has
  in the source where Isabelle allows it.

  \<^item> \<open>Prelude\<close>: what the language provides. A fallible call returns an \<open>outcome\<close>
    (\<open>Ok\<close>, \<open>Err\<close>, \<open>Panic\<close>), \<open>andthen\<close> is the operator \<open>?\<close>; \<open>uN\<close> are words,
    \<open>usize\<close> is a natural number below \<open>usize_limit\<close> (64-bit target), with Rust's wrapping and
    saturating operations written out; \<open>str\<close> is a list of bytes. \<open>BTree_Map\<close>: \<open>BTreeMap\<close> as
    a list of entries with increasing keys; locale \<open>ordered_map\<close>, interpretation \<open>bt\<close>.
  \<^item> \<open>Telemetry_Types\<close>, \<open>Config\<close>: \<open>src/lib.rs\<close>, \<open>src/config.rs\<close> and the enums and
    tables that \<open>sedsprintf_macros/src/lib.rs\<close> generates from the JSON schema. The schema is an
    arbitrary list of endpoints and types (record \<open>schema\<close>), the build configuration a record
    \<open>config\<close> computed from the environment variables.
  \<^item> \<open>Small_Payload\<close>, \<open>Packet\<close>: \<open>src/small_payload.rs\<close> and the data side of
    \<open>src/packet.rs\<close>.
  \<^item> \<open>Wire_Format\<close>: \<open>src/serialize.rs\<close>, every encoder, decoder, peeker and rewriter. CRC-32
    and zstd are third-party functions: fields of the record \<open>env\<close>, the round trip of zstd being
    the predicate \<open>zstd_ok\<close>. \<open>Wire_Codec\<close> states the contract of one field (locale
    \<open>field_codec\<close>), \<open>Wire_Bitmap\<close>, \<open>Wire_Frame\<close>, \<open>Wire_Roundtrip\<close> and \<open>Wire_Safety\<close>
    build the frame from its fields; \<open>Wire_Properties\<close> holds the statements.
  \<^item> \<open>Bounded_Deque\<close>, \<open>Bounded_Deque_Laws\<close>, \<open>Queue_Properties\<close>: \<open>src/queue.rs\<close>.
  \<^item> \<open>Calendar\<close>, \<open>Network_Time\<close>, \<open>Network_Time_Laws\<close>, \<open>Time_Sync\<close>, \<open>Time_Properties\<close>:
    \<open>src/timesync.rs\<close>, calendar arithmetic, the slewed clock, merged time sources, the time-sync
    packets and the choice of a leader.
  \<^item> \<open>Discovery\<close>, \<open>Discovery_Laws\<close>, \<open>Discovery_Properties\<close>: \<open>src/discovery.rs\<close>. A board
    list denotes an abstract \<open>topology\<close>, and merging refines the union of topologies.
  \<^item> \<open>Router_State\<close>, \<open>Router_State_Laws\<close>, \<open>Router_Properties\<close>: \<open>RouterInner\<close> of
    \<open>src/router.rs\<close>, its queues under one byte budget, eviction, duplicate suppression and the
    reliable receive buffers. The record \<open>layout\<close> holds the sizes of the Rust structs. The two item
    queues are instances of the locale \<open>shared_queue\<close>; \<open>queue_step\<close> is the step relation.
  \<^item> \<open>Router_Routes\<close>, \<open>Router_Plan\<close>, \<open>Router_Route_Laws\<close>, \<open>Route_Properties\<close>: sides, route
    policy, selection and \<open>remote_side_plan\<close>. The record \<open>router_node\<close> is the immutable part of
    a \<open>Router\<close>; the clock is an argument.
  \<^item> \<open>Router_Reliable\<close>, \<open>Router_Receive\<close>, \<open>Router_Reliable_Laws\<close>, \<open>Router_Sender_Laws\<close>,
    \<open>Reliable_Properties\<close>: sequence numbers, history, acknowledgements, timeouts and the ordered receiver of one side. A
    side's callback is foreign code: record \<open>tx_call\<close> holds its answers, the state of the transmit
    gate and the clock around the call. \<open>sender_step\<close> is the step relation of the sender,
    \<open>sender_run\<close> a run of it with the log of the numbers handed out on a stream,
    \<open>ordered_run\<close> a run of the receiver.

  \<^item> \<open>Router_Time\<close>, \<open>Router_Time_Laws\<close>, \<open>Runtime_Properties\<close>: the time-sync runtime of a
    router, its readings, local sources, polls and packets. An \<open>instant\<close> is one reading of the
    clock; an operation that reads it again takes one instant for each reading. \<open>runtime_step\<close> is
    the step relation.
  \<^item> \<open>Router_Discovery\<close>, \<open>Router_Discovery_Laws\<close>, \<open>Router_Wait_Laws\<close>, \<open>Router_Leave_Laws\<close>,
    \<open>Router_Gossip_Laws\<close>, \<open>Network_Properties\<close>: the discovery table, what a router advertises, and the packets that wait
    for end-to-end acknowledgements. \<open>table_step\<close> and \<open>waiting_step\<close> are the step relations of
    the two tables, \<open>gossip\<close> the exchange of topologies between two neighbours, and \<open>queues_only\<close>
    the frame of the queue operations between them.
  \<^item> \<open>Router_World\<close>, \<open>Router_Dispatch\<close>, \<open>Router_Ingress\<close>, \<open>Router_Api\<close>,
    \<open>Router_Flow_Laws\<close>, \<open>Router_Fault_Laws\<close>, \<open>Flow_Properties\<close>: the router as a whole, from
    the operations an application calls to handlers and sides. A \<open>world\<close> is the state behind the two
    locks, the interrupt queue and the trace of what happened outside; an action on it returns a world
    and a result, or \<open>None\<close> when it does not return. The record \<open>foreign\<close> answers every question
    to foreign code: the clock, the callbacks of sides and endpoints, the transmit gate, the
    interrupt lock and the texts of error reports. What holds of the receive path is proved in the
    locales \<open>queue_frame\<close>, \<open>world_frame\<close> and \<open>receive_frame\<close>, interpreted for the handler calls
    (\<open>calls\<close>) and for the length of the received queue (\<open>backlog\<close>). \<open>Actions\<close> and
    \<open>Action_Laws\<close> hold the actions themselves, their loop \<open>repeating\<close> and the rules \<open>runs\<close> and
    \<open>yields\<close> for calls that return; the relay uses them too.
  \<^item> \<open>Shared_Budget\<close>: the locale of a state whose parts share one byte budget; router and relay
    are its interpretations.
  \<^item> \<open>Relay_State\<close>, \<open>Relay_Routes\<close>, \<open>Relay_Reliable\<close>, \<open>Relay_Plan\<close>, \<open>Relay_Flow\<close>: the whole of
    \<open>src/relay.rs\<close>: \<open>RelayInner\<close> and its budget, sides and route policy, reliable delivery on a
    hop, discovery and planning, then the receive and transmit paths, the processing loops and the
    periodic cycle. A \<open>relay_world\<close> is the state, a counter of the questions put to foreign code and
    the trace of side callbacks; the record \<open>relay_foreign\<close> answers them (clock, gate, callbacks).
    The names are those of the source with the prefix \<open>relay_\<close>, and the types the file declares a
    second time are those of the router.
  \<^item> \<open>Relay_State_Laws\<close>, \<open>Relay_Flow_Laws\<close>, \<open>Relay_Budget_Laws\<close>, \<open>Relay_Loop_Laws\<close>,
    \<open>Relay_Route_Laws\<close>, \<open>Relay_Properties\<close>: the queue operations of a relay are instances of the
    budget and queue contracts. \<open>Relay_Flow_Laws\<close> has one locale for each stretch of the program
    (\<open>relay_link\<close>, \<open>relay_hop\<close>, \<open>relay_transmit\<close>, \<open>relay_dispatch\<close>, \<open>relay_receive\<close>), which lifts
    a relation kept by the elementary steps to the handlers; it is interpreted for the invariant
    (\<open>kept\<close>), for the measures of the loops (\<open>shorter\<close>, \<open>fewer\<close>, \<open>calmer\<close>), for the callbacks
    (\<open>calls\<close>) and for the id cache (\<open>cached\<close>). \<open>relay_step\<close> is the step relation of everything
    an application may call, and \<open>policy_view\<close> shows a relay as a router.

  \<open>Sample_Env\<close> and \<open>Sample_Network\<close> instantiate the parameters for the concrete instances that
  accompany the theorems.

  \<^bold>\<open>What the theorems show.\<close> Frames: serializing and reading back is the identity up to the order
  of endpoints, also through a forwarding node; nothing but an allocation of a declared length
  beyond the address space makes the reader panic; what it accepts is valid; the header rewriter and
  the size predictor agree with the serializer, and the identifier read off
  a frame is that of its packet; damage is detected. Queues: byte counts are exact and
  within budget, priority order and arrival order are kept, and only the allowed items are evicted.
  Time: dates, clock rate, source choice, exchange arithmetic, and that two nodes that hear each
  other never both lead. Discovery: packets round-trip, and merging converges independently of
  order. Router: the shared budget is an invariant of all queue operations, making room ends, the
  duplicate check remembers, plans respect the policy, weighted selection is exact over a cycle,
  failover takes the least priority; the ordered receiver delivers each frame once and in order
  whatever arrives and whatever is evicted, and the retransmission history stays bounded and in
  sending order. Network: the
  discovery table says exactly what its announcers say, expires exactly, is advertised exactly and is
  used by the plan; waiting packets stay bounded, acknowledgements complete one exactly when every board has
  acknowledged, and what else removes one is listed; the time-sync runtime stays consistent in
  every history. Dispatch: a received packet
  calls each of its handlers once, a cached one calls none, a failed one can be sent again, and the
  receive loop ends. Relay: the budget is an invariant of all operations and all loops return whatever
  foreign code answers; its policy is the router's without the way back; plans and transmissions obey
  the policy, acknowledged sides are left out exactly, and a packet is forwarded once.

  Some theorems state behaviour that is probably not meant: two orders of the endpoints give one
  packet two identifiers, pending clock corrections count twice, dates beyond 32-bit day numbers
  wrap, room is taken from the most urgent items, a zero recent-id cap does not return, equal weights
  starve one side, an ordered stream stops after the last sequence number and after a failed
  transmission, a failed retransmission is never tried again, a lost time response stops the
  requests, readings steer the clock to stale samples, renamed time sources follow each other, two
  neighbours keep a board alive that has gone, a router waits for its own acknowledgement, the
  transmit loop never ends inside a side callback, the joint loop of a relay stops at an item it may not
  send, and a relay drops acknowledgements at sides without reliable delivery.

  \<^bold>\<open>Termination and bounds.\<close> Loops are structural recursion or have a measure: what is left to
  evict for \<open>make_room_loop\<close> and \<open>relay_make_room_loop\<close>, the length of the buffer
  for \<open>release_run\<close>. What may not end is
  \<open>partial_function (option)\<close>, with \<open>None\<close> for a call that does not return: the trimming of the
  recent-id cache, which returns exactly for a positive cap; the processing loops (\<open>repeating\<close>); and
  \<open>tx_item_impl\<close>, whose error reports are transmitted by \<open>tx_item_impl\<close> again. The loops of the
  relay are shown to return, by what is queued and what may still be retransmitted (\<open>relay_effort\<close>).
  No fuel is used.

  \<^bold>\<open>Not modelled.\<close> The text printers and float views of packets, \<open>parse_f64\<close>, reading the
  schema JSON and emitting Rust code, the C and Python bindings and the lock wrappers. The model is
  sequential: callbacks that call the router while it runs, and threads that interleave between its
  lock regions, appear only through the answers of the transmit gate and of the interrupt lock. The
  optional features \<open>discovery\<close> and \<open>timesync\<close> are on. \<open>build.rs\<close>, the C interface, the Python
  bindings and the logging macros hold marshalling, text generation and macro expansion around the code
  above, with no state or protocol of their own.
\<close>

end
